(* ===== verification/Prelude.thy ===== *)
theory Prelude
  imports Main "HOL-Library.Char_ord" "HOL-Library.List_Lexorder" "HOL-Library.Multiset"
begin

text \<open>
  What every component of the development shares: the collections of rewrite rules, the
  error results with the evaluation of a guard \<open>if (a || b || c) fail()\<close>, and the
  functions of JavaScript's \<open>String.prototype\<close> and \<open>Array.prototype\<close> that the code
  calls (\<open>startsWith\<close>, \<open>endsWith\<close>, \<open>includes\<close>, \<open>split\<close>, \<open>join\<close>,
  \<open>sort\<close>, \<open>every\<close>).

  A JavaScript string is a list of code units. The model's strings are Isabelle's
  \<open>string\<close>, so a code unit is a \<open>char\<close>, below 256: every string constant of the
  code is ASCII, and a code unit above 255 behaves in the tests of the code as any other
  character that no constant and no character class of the code names.
\<close>

named_theorems res_simps \<open>evaluation of results and guards\<close>
named_theorems str_simps \<open>characterisations of the string functions\<close>
named_theorems accept_defs \<open>definitions unfolded to analyse an accepting run\<close>

section \<open>Results\<close>

text \<open>A fallible computation returns \<open>Inl\<close> of what it throws or \<open>Inr\<close> of its value.\<close>

fun bindE :: "'e + 'a \<Rightarrow> ('a \<Rightarrow> 'e + 'b) \<Rightarrow> 'e + 'b" where
  "bindE (Inl e) f = Inl e"
| "bindE (Inr x) f = f x"

text \<open>
  A guard \<open>if (c1 || c2 || ...) throw e\<close>: the operands are evaluated from left to right,
  an operand that throws ends the evaluation with its own exception, the first one that is
  true ends it with \<open>e\<close>.
\<close>

fun guard_any :: "'e \<Rightarrow> ('e + bool) list \<Rightarrow> 'e + unit" where
  "guard_any e [] = Inr ()"
| "guard_any e (Inl x # cs) = Inl x"
| "guard_any e (Inr b # cs) = (if b then Inl e else guard_any e cs)"

text \<open>A loop that runs a fallible body over a list and collects the results.\<close>

fun mapE :: "('a \<Rightarrow> 'e + 'b) \<Rightarrow> 'a list \<Rightarrow> 'e + 'b list" where
  "mapE f [] = Inr []"
| "mapE f (x # xs) = bindE (f x) (\<lambda>y. bindE (mapE f xs) (\<lambda>ys. Inr (y # ys)))"

lemma bindE_Inr_iff [res_simps]:
  "bindE m f = Inr y \<longleftrightarrow> (\<exists>x. m = Inr x \<and> f x = Inr y)"
  by (cases m) auto

lemma bindE_Inl_iff:
  "bindE m f = Inl e \<longleftrightarrow> m = Inl e \<or> (\<exists>x. m = Inr x \<and> f x = Inl e)"
  by (cases m) auto

lemma bindE_assoc: "bindE (bindE m f) g = bindE m (\<lambda>x. bindE (f x) g)"
  by (cases m) auto

lemma guard_any_Inr_iff [res_simps]:
  "guard_any e cs = Inr u \<longleftrightarrow> (\<forall>c \<in> set cs. c = Inr False)"
proof (induction cs)
  case Nil
  then show ?case by simp
next
  case (Cons c cs)
  then show ?case by (cases c) auto
qed

lemma guard_any_pure:
  "guard_any e (map Inr bs) = (if True \<in> set bs then Inl e else Inr ())"
  by (induction bs) auto

lemma guard_any_Inl_cases:
  "guard_any e cs = Inl x \<Longrightarrow> x = e \<or> Inl x \<in> set cs"
  by (induction e cs rule: guard_any.induct) (auto split: if_splits)

declare guard_any.simps [simp del]

lemma mapE_Inr_iff [res_simps]:
  "mapE f xs = Inr ys \<longleftrightarrow> list_all2 (\<lambda>x y. f x = Inr y) xs ys"
proof (induction xs arbitrary: ys)
  case Nil
  then show ?case by auto
next
  case (Cons x xs)
  then show ?case by (cases ys) (auto simp: bindE_Inr_iff)
qed

text \<open>\<open>try { m } catch { throw e }; return y\<close>.\<close>

lemma rethrow_Inr_iff [res_simps]:
  "(case m of Inl _ \<Rightarrow> Inl e | Inr _ \<Rightarrow> Inr y) = Inr z \<longleftrightarrow> (\<exists>x. m = Inr x) \<and> z = y"
  by (cases m) auto

lemma list_all2_left: "\<lbrakk>list_all2 P xs ys; x \<in> set xs\<rbrakk> \<Longrightarrow> \<exists>y \<in> set ys. P x y"
  by (induction rule: list_all2_induct) auto

lemma list_all2_right: "\<lbrakk>list_all2 P xs ys; y \<in> set ys\<rbrakk> \<Longrightarrow> \<exists>x \<in> set xs. P x y"
  by (induction rule: list_all2_induct) auto

lemma bindE_cong [fundef_cong]:
  "m = m' \<Longrightarrow> (\<And>x. m' = Inr x \<Longrightarrow> f x = f' x) \<Longrightarrow> bindE m f = bindE m' f'"
  by (cases m') auto

lemma find_member: "find P xs = Some x \<Longrightarrow> x \<in> set xs \<and> P x"
  by (auto simp: find_Some_iff)

lemma mapE_exists: "(\<exists>ys. mapE f xs = Inr ys) \<longleftrightarrow> list_all (\<lambda>x. \<exists>y. f x = Inr y) xs"
  by (induction xs) (auto simp: bindE_Inr_iff)

lemma mapE_length: "mapE f xs = Inr ys \<Longrightarrow> length ys = length xs"
  by (simp add: mapE_Inr_iff list_all2_lengthD)

text \<open>What holds of the value of a fallible computation, with one rule for each way to build one.\<close>

definition yields :: "'e + 'a \<Rightarrow> ('a \<Rightarrow> bool) \<Rightarrow> bool" where
  "yields r Q \<longleftrightarrow> (\<forall>x. r = Inr x \<longrightarrow> Q x)"

named_theorems yielding \<open>rules for what a computation yields\<close>

lemma yieldsD: "yields r Q \<Longrightarrow> r = Inr x \<Longrightarrow> Q x"
  by (simp add: yields_def)

lemma yields_bind [yielding]: "(\<And>x. m = Inr x \<Longrightarrow> yields (f x) Q) \<Longrightarrow> yields (bindE m f) Q"
  by (auto simp: yields_def bindE_Inr_iff)

lemma yields_Inl [yielding]: "yields (Inl e) Q"
  by (simp add: yields_def)

lemma yields_Inr [yielding]: "Q x \<Longrightarrow> yields (Inr x) Q"
  by (simp add: yields_def)

lemma yields_if [yielding]:
  "(b \<Longrightarrow> yields r Q) \<Longrightarrow> (\<not> b \<Longrightarrow> yields s Q) \<Longrightarrow> yields (if b then r else s) Q"
  by simp

lemma yields_option [yielding]:
  "(v = None \<Longrightarrow> yields r Q) \<Longrightarrow> (\<And>x. v = Some x \<Longrightarrow> yields (f x) Q) \<Longrightarrow>
     yields (case v of None \<Rightarrow> r | Some x \<Rightarrow> f x) Q"
  by (cases v) simp_all

lemma yields_sum [yielding]:
  "(\<And>e. v = Inl e \<Longrightarrow> yields (g e) Q) \<Longrightarrow> (\<And>x. v = Inr x \<Longrightarrow> yields (f x) Q) \<Longrightarrow>
     yields (case v of Inl e \<Rightarrow> g e | Inr x \<Rightarrow> f x) Q"
  by (cases v) simp_all

lemma yields_pair [yielding]:
  "(\<And>a b. v = (a, b) \<Longrightarrow> yields (f a b) Q) \<Longrightarrow> yields (case v of (a, b) \<Rightarrow> f a b) Q"
  by (cases v) simp

section \<open>Strings\<close>

definition starts_with :: "string \<Rightarrow> string \<Rightarrow> bool" where
  "starts_with p s \<longleftrightarrow> take (length p) s = p"

definition ends_with :: "string \<Rightarrow> string \<Rightarrow> bool" where
  "ends_with p s \<longleftrightarrow> length p \<le> length s \<and> drop (length s - length p) s = p"

fun str_includes :: "string \<Rightarrow> string \<Rightarrow> bool" where
  "str_includes p [] = (p = [])"
| "str_includes p (c # cs) = (starts_with p (c # cs) \<or> str_includes p cs)"

text \<open>\<open>s.split(c)\<close> for a separator of one character: never the empty list.\<close>

fun split_on :: "'a \<Rightarrow> 'a list \<Rightarrow> 'a list list" where
  "split_on c [] = [[]]"
| "split_on c (x # xs) =
     (if x = c then [] # split_on c xs
      else (case split_on c xs of [] \<Rightarrow> [[x]] | w # ws \<Rightarrow> (x # w) # ws))"

fun join :: "string \<Rightarrow> string list \<Rightarrow> string" where
  "join sep [] = []"
| "join sep [w] = w"
| "join sep (w # v # ws) = w @ sep @ join sep (v # ws)"

lemma starts_with_iff [str_simps]: "starts_with p s \<longleftrightarrow> (\<exists>r. s = p @ r)"
  by (auto simp: starts_with_def) (metis append_take_drop_id)

lemma ends_with_iff [str_simps]: "ends_with p s \<longleftrightarrow> (\<exists>r. s = r @ p)"
  by (auto simp: ends_with_def) (metis append_take_drop_id)

lemma includes_iff [str_simps]: "str_includes p s \<longleftrightarrow> (\<exists>a b. s = a @ p @ b)"
proof (induction s)
  case Nil
  then show ?case by auto
next
  case (Cons c cs)
  show ?case
  proof
    assume "str_includes p (c # cs)"
    then consider "starts_with p (c # cs)" | "str_includes p cs" by auto
    then show "\<exists>a b. c # cs = a @ p @ b"
    proof cases
      case 1
      then obtain r where "c # cs = p @ r" by (auto simp: starts_with_iff)
      then have "c # cs = [] @ p @ r" by simp
      then show ?thesis by blast
    next
      case 2
      then obtain a b where "cs = a @ p @ b" using Cons.IH by auto
      then have "c # cs = (c # a) @ p @ b" by simp
      then show ?thesis by blast
    qed
  next
    assume "\<exists>a b. c # cs = a @ p @ b"
    then obtain a b where ab: "c # cs = a @ p @ b" by blast
    show "str_includes p (c # cs)"
    proof (cases a)
      case Nil
      with ab have "starts_with p (c # cs)" by (auto simp: starts_with_iff)
      then show ?thesis by simp
    next
      case (Cons d ds)
      with ab have "cs = ds @ p @ b" by simp
      then have "str_includes p cs" using Cons.IH by blast
      then show ?thesis by simp
    qed
  qed
qed

declare str_includes.simps [simp del]

lemma includes_char: "str_includes [c] s \<longleftrightarrow> c \<in> set s"
  by (auto simp: includes_iff in_set_conv_decomp)

lemma split_on_nonempty [simp]: "split_on c s \<noteq> []"
  by (induction s) (auto split: list.splits)

lemma join_split [simp]: "join [c] (split_on c s) = s"
proof (induction s)
  case Nil
  then show ?case by simp
next
  case (Cons x xs)
  obtain w ws where w: "split_on c xs = w # ws"
    by (cases "split_on c xs") (use split_on_nonempty [of c xs] in simp_all)
  have "join [c] (w # ws) = xs" using Cons.IH w by simp
  then show ?case by (cases ws) (auto simp: w)
qed

lemma split_on_no_sep: "w \<in> set (split_on c s) \<Longrightarrow> c \<notin> set w"
  by (induction s arbitrary: w) (fastforce split: list.splits if_splits)+

lemma split_on_plain: "c \<notin> set s \<Longrightarrow> split_on c s = [s]"
  by (induction s) auto

lemma split_on_append_sep:
  "split_on c (u @ c # v) = split_on c u @ split_on c v"
  by (induction u) (auto split: list.splits)

section \<open>Character classes\<close>

definition is_digit :: "char \<Rightarrow> bool" where
  "is_digit c \<longleftrightarrow> CHR ''0'' \<le> c \<and> c \<le> CHR ''9''"

definition is_lower :: "char \<Rightarrow> bool" where
  "is_lower c \<longleftrightarrow> CHR ''a'' \<le> c \<and> c \<le> CHR ''z''"

definition is_upper :: "char \<Rightarrow> bool" where
  "is_upper c \<longleftrightarrow> CHR ''A'' \<le> c \<and> c \<le> CHR ''Z''"

text \<open>\<open>[0-9a-f]\<close> and \<open>[0-9a-fA-F]\<close>.\<close>

definition is_hex :: "char \<Rightarrow> bool" where
  "is_hex c \<longleftrightarrow> is_digit c \<or> (CHR ''a'' \<le> c \<and> c \<le> CHR ''f'')"

definition is_xdigit :: "char \<Rightarrow> bool" where
  "is_xdigit c \<longleftrightarrow> is_hex c \<or> (CHR ''A'' \<le> c \<and> c \<le> CHR ''F'')"

definition is_alnum :: "char \<Rightarrow> bool" where
  "is_alnum c \<longleftrightarrow> is_digit c \<or> is_lower c \<or> is_upper c"

lemmas char_class_defs =
  is_digit_def is_lower_def is_upper_def is_hex_def is_xdigit_def is_alnum_def

lemma hex_xdigit: "is_hex c \<Longrightarrow> is_xdigit c"
  by (simp add: is_xdigit_def)

text \<open>The value of a run of decimal digits, \<open>Number(s)\<close> for \<open>s\<close> matching \<open>\d+\<close>.\<close>

definition digit_val :: "char \<Rightarrow> nat" where
  "digit_val c = of_char c - 48"

definition digits_val :: "string \<Rightarrow> nat" where
  "digits_val s = foldl (\<lambda>n c. 10 * n + digit_val c) 0 s"

fun nat_digits :: "nat \<Rightarrow> string" where
  "nat_digits n = (if n < 10 then [char_of (n + 48)]
                   else nat_digits (n div 10) @ [char_of (n mod 10 + 48)])"

declare nat_digits.simps [simp del]

lemma nat_digits_nonempty [simp]: "nat_digits n \<noteq> []"
  by (subst nat_digits.simps) simp

lemma digits_val_snoc: "digits_val (s @ [c]) = 10 * digits_val s + digit_val c"
  by (simp add: digits_val_def)

lemma digit_val_char_of: "n < 10 \<Longrightarrow> digit_val (char_of (n + 48)) = n"
  by (simp add: digit_val_def)

lemma is_digit_char_of: "n < 10 \<Longrightarrow> is_digit (char_of (n + 48 :: nat))"
  by (simp add: is_digit_def less_eq_char_def)

lemma digits_val_nat_digits: "digits_val (nat_digits n) = n"
proof (induction n rule: nat_digits.induct)
  case (1 n)
  show ?case
  proof (cases "n < 10")
    case True
    have "digits_val [char_of (n + 48)] = n"
      using True by (simp add: digits_val_def digit_val_char_of)
    with True show ?thesis by (subst nat_digits.simps) simp
  next
    case False
    have "digits_val (nat_digits n) = 10 * (n div 10) + digit_val (char_of (n mod 10 + 48))"
      using False 1 by (subst nat_digits.simps) (simp add: digits_val_snoc)
    then show ?thesis by (simp add: digit_val_char_of)
  qed
qed

lemma nat_digits_digits: "c \<in> set (nat_digits n) \<Longrightarrow> is_digit c"
proof (induction n arbitrary: c rule: nat_digits.induct)
  case (1 n)
  show ?case
  proof (cases "n < 10")
    case True
    with "1.prems" show ?thesis
      by (subst (asm) nat_digits.simps) (simp add: is_digit_char_of)
  next
    case False
    with "1.prems" have "c \<in> set (nat_digits (n div 10)) \<or> c = char_of (n mod 10 + 48)"
      by (subst (asm) nat_digits.simps) auto
    then show ?thesis using False 1 by (auto simp: is_digit_char_of)
  qed
qed

section \<open>Sets as lists\<close>

text \<open>\<open>Set.prototype.add\<close> on the elements in insertion order.\<close>

definition set_add :: "'a \<Rightarrow> 'a list \<Rightarrow> 'a list" where
  "set_add x xs = (if x \<in> set xs then xs else xs @ [x])"

lemma set_add_set [simp]: "set (set_add x xs) = insert x (set xs)"
  by (auto simp: set_add_def)

section \<open>Sorted keys\<close>

text \<open>
  \<open>Array.prototype.sort\<close> without a comparison orders strings by their code units, which is
  the lexicographic order of the library on \<open>string\<close>.
\<close>

lemma sort_eq_iff: "sort xs = sort ys \<longleftrightarrow> mset xs = mset (ys :: string list)"
  by (metis mset_sort properties_for_sort sorted_sort)

lemma sort_eq_set: "sort xs = sort ys \<Longrightarrow> set xs = set (ys :: string list)"
  by (metis set_sort)

text \<open>Positions in a list: \<open>Array.prototype.indexOf\<close>, -1 when absent.\<close>

fun index_of :: "'a list \<Rightarrow> 'a \<Rightarrow> int" where
  "index_of [] x = -1"
| "index_of (y # ys) x =
     (if y = x then 0 else (let i = index_of ys x in if i < 0 then -1 else i + 1))"

lemma index_of_absent: "x \<notin> set xs \<Longrightarrow> index_of xs x = -1"
  by (induction xs) auto

lemma index_of_ge: "index_of xs x \<ge> -1"
  by (induction xs) (auto simp: Let_def)

lemma index_of_nonneg: "x \<in> set xs \<Longrightarrow> 0 \<le> index_of xs x"
  by (induction xs) (auto simp: Let_def)

lemma index_of_less: "index_of xs x < int (length xs)"
  by (induction xs) (auto simp: Let_def)

lemma index_of_nth: "x \<in> set xs \<Longrightarrow> xs ! nat (index_of xs x) = x"
proof (induction xs)
  case Nil
  then show ?case by simp
next
  case (Cons y ys)
  show ?case
  proof (cases "y = x")
    case True
    then show ?thesis by simp
  next
    case False
    with Cons.prems have x: "x \<in> set ys" by simp
    then have "0 \<le> index_of ys x" by (rule index_of_nonneg)
    with False x Cons.IH show ?thesis by (simp add: Let_def nat_add_distrib)
  qed
qed

lemma index_of_inj:
  "index_of xs x = index_of xs y \<Longrightarrow> x \<in> set xs \<Longrightarrow> y \<in> set xs \<Longrightarrow> x = y"
  by (metis index_of_nth)

lemma index_of_in_iff: "0 \<le> index_of xs x \<longleftrightarrow> x \<in> set xs"
  using index_of_absent index_of_nonneg by force

end
