(* ===== verification/Regex.thy ===== *)
theory Regex
  imports Prelude
begin

text \<open>
  The regular expressions of the code, as data. \<open>rx_lang\<close> is what a pattern
  \<open>/^...$/\<close> denotes; \<open>rx_test\<close> is \<open>RegExp.prototype.test\<close> on such an anchored
  pattern, computed by derivatives, and \<open>rx_test_iff\<close> says that the two agree. A pattern
  with capture groups has its own parser in the component that uses it, related to its
  pattern there.
\<close>

datatype rx =
    RNone
  | REps
  | RCls "char \<Rightarrow> bool"
  | RSeq rx rx
  | RAlt rx rx
  | RStar rx

inductive rx_lang :: "rx \<Rightarrow> string \<Rightarrow> bool" where
  lang_eps: "rx_lang REps []"
| lang_cls: "p c \<Longrightarrow> rx_lang (RCls p) [c]"
| lang_seq: "rx_lang r u \<Longrightarrow> rx_lang s v \<Longrightarrow> rx_lang (RSeq r s) (u @ v)"
| lang_altl: "rx_lang r u \<Longrightarrow> rx_lang (RAlt r s) u"
| lang_altr: "rx_lang s u \<Longrightarrow> rx_lang (RAlt r s) u"
| lang_star_nil: "rx_lang (RStar r) []"
| lang_star_step: "rx_lang r u \<Longrightarrow> rx_lang (RStar r) v \<Longrightarrow> rx_lang (RStar r) (u @ v)"

inductive_simps lang_none_simp [simp]: "rx_lang RNone w"
inductive_simps lang_eps_simp [simp]: "rx_lang REps w"
inductive_simps lang_cls_simp [simp]: "rx_lang (RCls p) w"
inductive_simps lang_alt_simp [simp]: "rx_lang (RAlt r s) w"
inductive_simps lang_seq_simp: "rx_lang (RSeq r s) w"
inductive_cases lang_starE: "rx_lang (RStar r) w"

section \<open>The matcher\<close>

fun rx_null :: "rx \<Rightarrow> bool" where
  "rx_null RNone = False"
| "rx_null REps = True"
| "rx_null (RCls p) = False"
| "rx_null (RSeq r s) = (rx_null r \<and> rx_null s)"
| "rx_null (RAlt r s) = (rx_null r \<or> rx_null s)"
| "rx_null (RStar r) = True"

text \<open>Sequence and alternative that drop a branch that matches nothing.\<close>

fun mk_seq :: "rx \<Rightarrow> rx \<Rightarrow> rx" where
  "mk_seq RNone s = RNone"
| "mk_seq REps s = s"
| "mk_seq r s = RSeq r s"

fun mk_alt :: "rx \<Rightarrow> rx \<Rightarrow> rx" where
  "mk_alt RNone s = s"
| "mk_alt r RNone = r"
| "mk_alt r s = RAlt r s"

fun rx_deriv :: "char \<Rightarrow> rx \<Rightarrow> rx" where
  "rx_deriv c RNone = RNone"
| "rx_deriv c REps = RNone"
| "rx_deriv c (RCls p) = (if p c then REps else RNone)"
| "rx_deriv c (RSeq r s) =
     (if rx_null r then mk_alt (mk_seq (rx_deriv c r) s) (rx_deriv c s)
      else mk_seq (rx_deriv c r) s)"
| "rx_deriv c (RAlt r s) = mk_alt (rx_deriv c r) (rx_deriv c s)"
| "rx_deriv c (RStar r) = mk_seq (rx_deriv c r) (RStar r)"

fun rx_test :: "rx \<Rightarrow> string \<Rightarrow> bool" where
  "rx_test r [] = rx_null r"
| "rx_test r (c # cs) = rx_test (rx_deriv c r) cs"

lemma mk_seq_lang [simp]: "rx_lang (mk_seq r s) w \<longleftrightarrow> rx_lang (RSeq r s) w"
  by (cases r) (auto simp: lang_seq_simp)

lemma mk_alt_lang [simp]: "rx_lang (mk_alt r s) w \<longleftrightarrow> rx_lang r w \<or> rx_lang s w"
  by (cases "(r, s)" rule: mk_alt.cases) auto

lemma rx_null_iff: "rx_null r \<longleftrightarrow> rx_lang r []"
  by (induction r) (auto simp: lang_seq_simp intro: lang_star_nil)

text \<open>A nonempty word of a starred expression begins with a nonempty word of its body.\<close>

lemma lang_star_Cons:
  "rx_lang (RStar r) w \<Longrightarrow> w = c # cs \<Longrightarrow>
     \<exists>u v. cs = u @ v \<and> rx_lang r (c # u) \<and> rx_lang (RStar r) v"
proof (induction "RStar r" w arbitrary: c cs rule: rx_lang.induct)
  case lang_star_nil
  then show ?case by simp
next
  case (lang_star_step u v)
  show ?case
  proof (cases u)
    case Nil
    with lang_star_step.prems have "v = c # cs" by simp
    then show ?thesis by (rule lang_star_step.hyps(4))
  next
    case (Cons d ds)
    with lang_star_step show ?thesis by auto
  qed
qed

lemma rx_deriv_iff: "rx_lang (rx_deriv c r) w \<longleftrightarrow> rx_lang r (c # w)"
proof (induction r arbitrary: w)
  case (RSeq r s)
  have "rx_lang (RSeq r s) (c # w) \<longleftrightarrow>
      (\<exists>u v. w = u @ v \<and> rx_lang r (c # u) \<and> rx_lang s v) \<or> (rx_lang r [] \<and> rx_lang s (c # w))"
    by (auto simp: lang_seq_simp Cons_eq_append_conv)
  then show ?case
    by (auto simp: RSeq.IH rx_null_iff lang_seq_simp)
next
  case (RStar r)
  have "rx_lang (RStar r) (c # w) \<longleftrightarrow>
      (\<exists>u v. w = u @ v \<and> rx_lang r (c # u) \<and> rx_lang (RStar r) v)"
    using lang_star_step [of r "c # _"] by (auto dest: lang_star_Cons)
  then show ?case by (auto simp: RStar.IH lang_seq_simp)
qed auto

theorem rx_test_iff: "rx_test r w \<longleftrightarrow> rx_lang r w"
  by (induction w arbitrary: r) (auto simp: rx_null_iff rx_deriv_iff)

section \<open>Derived forms\<close>

definition r_plus :: "rx \<Rightarrow> rx" where "r_plus r = RSeq r (RStar r)"
definition r_opt :: "rx \<Rightarrow> rx" where "r_opt r = RAlt REps r"
definition r_chr :: "char \<Rightarrow> rx" where "r_chr c = RCls (\<lambda>x. x = c)"

fun r_lit :: "string \<Rightarrow> rx" where
  "r_lit [] = REps"
| "r_lit (c # cs) = RSeq (r_chr c) (r_lit cs)"

text \<open>\<open>[p]{n}\<close>.\<close>

fun r_rep :: "nat \<Rightarrow> (char \<Rightarrow> bool) \<Rightarrow> rx" where
  "r_rep 0 p = REps"
| "r_rep (Suc n) p = RSeq (RCls p) (r_rep n p)"

fun r_seq :: "rx list \<Rightarrow> rx" where
  "r_seq [] = REps"
| "r_seq [r] = r"
| "r_seq (r # s # rs) = RSeq r (r_seq (s # rs))"

lemma lang_chr [simp]: "rx_lang (r_chr c) w \<longleftrightarrow> w = [c]"
  by (auto simp: r_chr_def)

lemma lang_lit [simp]: "rx_lang (r_lit s) w \<longleftrightarrow> w = s"
  by (induction s arbitrary: w) (auto simp: lang_seq_simp)

lemma lang_opt [simp]: "rx_lang (r_opt r) w \<longleftrightarrow> w = [] \<or> rx_lang r w"
  by (auto simp: r_opt_def)

lemma lang_seq_cls: "rx_lang (RSeq (RCls p) s) w \<longleftrightarrow> (\<exists>c v. w = c # v \<and> p c \<and> rx_lang s v)"
proof
  assume "\<exists>c v. w = c # v \<and> p c \<and> rx_lang s v"
  then obtain c v where "w = [c] @ v" "rx_lang (RCls p) [c]" "rx_lang s v" by auto
  then show "rx_lang (RSeq (RCls p) s) w" using lang_seq by blast
qed (auto simp: lang_seq_simp)

lemma lang_rep [simp]: "rx_lang (r_rep n p) w \<longleftrightarrow> length w = n \<and> list_all p w"
proof (induction n arbitrary: w)
  case 0
  then show ?case by auto
next
  case (Suc n)
  show ?case by (cases w) (auto simp: lang_seq_cls Suc.IH)
qed

lemma lang_star_cls [simp]: "rx_lang (RStar (RCls p)) w \<longleftrightarrow> list_all p w"
proof (induction w)
  case Nil
  show ?case by (simp add: lang_star_nil)
next
  case (Cons c w)
  have "rx_lang (RStar (RCls p)) (c # w) \<longleftrightarrow> p c \<and> rx_lang (RStar (RCls p)) w"
    using lang_star_step [of "RCls p" "[c]" w] by (auto dest: lang_star_Cons)
  then show ?case by (simp add: Cons.IH)
qed

lemma lang_plus_cls [simp]: "rx_lang (r_plus (RCls p)) w \<longleftrightarrow> w \<noteq> [] \<and> list_all p w"
  by (cases w) (auto simp: r_plus_def lang_seq_cls)

section \<open>The patterns that several files share\<close>

text \<open>\<open>/^[0-9a-f]{40}$/\<close>, \<open>/^[0-9a-f]{64}$/\<close> and \<open>/^[0-9a-f]{128}$/\<close>.\<close>

definition commit_pattern :: rx where "commit_pattern = r_rep 40 is_hex"
definition hash_pattern :: rx where "hash_pattern = r_rep 64 is_hex"
definition sha512_pattern :: rx where "sha512_pattern = r_rep 128 is_hex"

text \<open>\<open>/^\d+\.\d+\.\d+(?:-[0-9A-Za-z.-]+)?(?:\+[0-9A-Za-z.-]+)?$/\<close>.\<close>

definition is_version_tail :: "char \<Rightarrow> bool" where
  "is_version_tail c \<longleftrightarrow> is_alnum c \<or> c = CHR ''.'' \<or> c = CHR ''-''"

definition version_pattern :: rx where
  "version_pattern = r_seq
     [r_plus (RCls is_digit), r_chr CHR ''.'', r_plus (RCls is_digit), r_chr CHR ''.'',
      r_plus (RCls is_digit),
      r_opt (RSeq (r_chr CHR ''-'') (r_plus (RCls is_version_tail))),
      r_opt (RSeq (r_chr CHR ''+'') (r_plus (RCls is_version_tail)))]"

lemma commit_pattern_iff: "rx_test commit_pattern s \<longleftrightarrow> length s = 40 \<and> list_all is_hex s"
  unfolding rx_test_iff commit_pattern_def by (rule lang_rep)

lemma hash_pattern_iff: "rx_test hash_pattern s \<longleftrightarrow> length s = 64 \<and> list_all is_hex s"
  unfolding rx_test_iff hash_pattern_def by (rule lang_rep)

lemma sha512_pattern_iff: "rx_test sha512_pattern s \<longleftrightarrow> length s = 128 \<and> list_all is_hex s"
  unfolding rx_test_iff sha512_pattern_def by (rule lang_rep)

lemmas pattern_iffs = commit_pattern_iff hash_pattern_iff sha512_pattern_iff

text \<open>A version string holds nothing a path or a shell word could trip over.\<close>

lemma version_pattern_chars:
  assumes "rx_test version_pattern s" and "c \<in> set s"
  shows "is_alnum c \<or> c = CHR ''.'' \<or> c = CHR ''-'' \<or> c = CHR ''+''"
proof -
  have "rx_lang version_pattern s" using assms(1) by (simp add: rx_test_iff)
  then show ?thesis using assms(2)
    by (auto simp: version_pattern_def lang_seq_simp list_all_iff is_version_tail_def is_alnum_def)
qed

end
