(* ===== verification/JsData.thy ===== *)
theory JsData
  imports Regex
begin

text \<open>
  The values that \<open>JSON.parse\<close> returns, with \<open>undefined\<close> for an absent property, and the
  operations of the language the validators apply to them: property access, \<open>===\<close>,
  \<open>typeof\<close>, \<open>Array.isArray\<close>, \<open>Object.keys\<close>, the conversion of a value to a string
  (which \<open>RegExp.prototype.test\<close> and template literals apply to whatever they are given)
  and the number predicates.

  \<^item> An object is the association list of its own properties in creation order; two
    properties of one object never have the same key (\<open>wf_js\<close>).
  \<^item> A finite number is given by the shortest decimal that denotes it, \<open>Fin s e\<close> for
    \<open>s * 10 ^ e\<close> with no trailing zero in \<open>s\<close> (the digits and exponent from which
    ECMAScript's \<open>Number::toString\<close> prints it); a double has exactly one.
  \<^item> Every property name the code reads is none of those inherited from
    \<open>Object.prototype\<close>, so an absent own property reads as \<open>undefined\<close>; the lookups by a
    key that is itself data are modelled with the prototype where they occur.
\<close>

datatype jsnum = Fin int int | NaN | PosInf | NegInf

datatype js =
    JUndef
  | JNull
  | JBool bool
  | JNum jsnum
  | JStr string
  | JArr "js list"
  | JObj "(string \<times> js) list"

text \<open>What a script throws: an \<open>Error\<close> with its message, or an error of the language.\<close>

datatype js_error = Fail string | TypeErr | RangeErr

type_synonym 'a res = "js_error + 'a"

fun wf_js :: "js \<Rightarrow> bool" where
  "wf_js (JArr xs) = list_all wf_js xs"
| "wf_js (JObj ps) = (distinct (map fst ps) \<and> list_all (\<lambda>p. wf_js (snd p)) ps)"
| "wf_js v = True"

section \<open>Numbers\<close>

function norm_dec :: "int \<Rightarrow> int \<Rightarrow> jsnum" where
  "norm_dec s e = (if s = 0 then Fin 0 0
                   else if 10 dvd s then norm_dec (s div 10) (e + 1) else Fin s e)"
  by pat_completeness auto
termination
  by (relation "measure (\<lambda>(s, e). nat \<bar>s\<bar>)") (auto elim!: dvdE)

declare norm_dec.simps [simp del]

definition num_of_int :: "int \<Rightarrow> jsnum" where
  "num_of_int i = norm_dec i 0"

abbreviation JInt :: "int \<Rightarrow> js" where
  "JInt i \<equiv> JNum (num_of_int i)"

text \<open>\<open>Number.isInteger\<close>, the value of an integral number, and \<open>Number.isSafeInteger\<close>.\<close>

fun num_is_finite :: "jsnum \<Rightarrow> bool" where
  "num_is_finite (Fin s e) = True"
| "num_is_finite _ = False"

fun num_is_integer :: "jsnum \<Rightarrow> bool" where
  "num_is_integer (Fin s e) = (0 \<le> e)"
| "num_is_integer _ = False"

fun num_int :: "jsnum \<Rightarrow> int" where
  "num_int (Fin s e) = s * 10 ^ nat e"
| "num_int _ = 0"

definition num_is_safe_integer :: "jsnum \<Rightarrow> bool" where
  "num_is_safe_integer n \<longleftrightarrow> num_is_integer n \<and> \<bar>num_int n\<bar> < 2 ^ 53"

fun num_neg :: "jsnum \<Rightarrow> bool" where
  "num_neg (Fin s e) = (s < 0)"
| "num_neg NegInf = True"
| "num_neg _ = False"

lemma norm_dec_int:
  "\<lbrakk>0 \<le> e; norm_dec s e = n\<rbrakk> \<Longrightarrow> num_is_integer n \<and> num_int n = s * 10 ^ nat e"
proof (induction s e arbitrary: n rule: norm_dec.induct)
  case (1 s e)
  show ?case
  proof (cases "s \<noteq> 0 \<and> 10 dvd s")
    case True
    then obtain k where k: "s = 10 * k" by (auto elim: dvdE)
    with True have "norm_dec s e = norm_dec k (e + 1)" by (subst norm_dec.simps) simp
    with 1 True k show ?thesis
      by (simp add: nat_add_distrib mult.assoc mult.left_commute)
  next
    case False
    with "1.prems" show ?thesis by (subst (asm) norm_dec.simps) (auto split: if_splits)
  qed
qed

lemma num_of_int_int [simp]: "num_is_integer (num_of_int i)" "num_int (num_of_int i) = i"
  using norm_dec_int [of 0 i] by (auto simp: num_of_int_def)

lemma num_of_int_inj [simp]: "num_of_int i = num_of_int j \<longleftrightarrow> i = j"
  by (metis num_of_int_int(2))

lemma norm_dec_neg: "num_neg (norm_dec s e) \<longleftrightarrow> s < 0"
proof (induction s e rule: norm_dec.induct)
  case (1 s e)
  then show ?case by (subst norm_dec.simps) (auto elim!: dvdE)
qed

lemma num_of_int_neg [simp]: "num_neg (num_of_int i) \<longleftrightarrow> i < 0"
  by (simp add: num_of_int_def norm_dec_neg)

lemma num_int_nonneg: "num_is_integer n \<Longrightarrow> \<not> num_neg n \<longleftrightarrow> 0 \<le> num_int n"
  by (cases n) (auto simp: zero_le_mult_iff, metis not_le zero_less_numeral zero_less_power)

text \<open>\<open>Number::toString\<close> with radix 10.\<close>

fun num_str :: "jsnum \<Rightarrow> string" where
  "num_str NaN = ''NaN''"
| "num_str PosInf = ''Infinity''"
| "num_str NegInf = ''-Infinity''"
| "num_str (Fin s e) =
     (if s = 0 then ''0''
      else let ds = nat_digits (nat \<bar>s\<bar>); k = int (length ds); n = k + e;
               ex = (if n \<ge> 1 then CHR ''+'' # nat_digits (nat (n - 1))
                     else CHR ''-'' # nat_digits (nat (1 - n)))
           in (if s < 0 then ''-'' else '''') @
              (if k \<le> n \<and> n \<le> 21 then ds @ replicate (nat (n - k)) CHR ''0''
               else if 0 < n \<and> n \<le> 21 then take (nat n) ds @ ''.'' @ drop (nat n) ds
               else if -6 < n \<and> n \<le> 0 then ''0.'' @ replicate (nat (- n)) CHR ''0'' @ ds
               else if k = 1 then ds @ ''e'' @ ex
               else take 1 ds @ ''.'' @ drop 1 ds @ ''e'' @ ex))"

section \<open>Values\<close>

fun nullish :: "js \<Rightarrow> bool" where
  "nullish JUndef = True"
| "nullish JNull = True"
| "nullish v = False"

text \<open>
  \<open>v.k\<close> for a \<open>v\<close> known not to be null or undefined, and \<open>v?.k\<close> for any \<open>v\<close>:
  \<open>undefined\<close> unless \<open>v\<close> is an object that has the property.
\<close>

fun fld :: "js \<Rightarrow> string \<Rightarrow> js" where
  "fld (JObj ps) k = (case map_of ps k of Some v \<Rightarrow> v | None \<Rightarrow> JUndef)"
| "fld v k = JUndef"

text \<open>\<open>v.k\<close> for any \<open>v\<close>: a TypeError on null and undefined.\<close>

definition getp :: "js \<Rightarrow> string \<Rightarrow> js res" where
  "getp v k = (if nullish v then Inl TypeErr else Inr (fld v k))"

fun is_str :: "js \<Rightarrow> bool" where
  "is_str (JStr s) = True"
| "is_str _ = False"

fun is_arr :: "js \<Rightarrow> bool" where
  "is_arr (JArr xs) = True"
| "is_arr _ = False"

fun is_bool :: "js \<Rightarrow> bool" where
  "is_bool (JBool b) = True"
| "is_bool _ = False"

fun str_of :: "js \<Rightarrow> string" where
  "str_of (JStr s) = s"
| "str_of _ = []"

fun elems :: "js \<Rightarrow> js list" where
  "elems (JArr xs) = xs"
| "elems _ = []"

text \<open>
  \<open>isPlainObject\<close>, the same function in every file: an object whose prototype is
  \<open>Object.prototype\<close>, which a parsed array is not.
\<close>

fun isPlainObject :: "js \<Rightarrow> bool" where
  "isPlainObject (JObj ps) = True"
| "isPlainObject _ = False"

text \<open>
  \<open>a === b\<close>. Two object values compared by the code are read from different places, hence
  are different references and never equal; NaN differs from itself.
\<close>

fun strict_eq :: "js \<Rightarrow> js \<Rightarrow> bool" where
  "strict_eq (JNum m) (JNum n) = (m = n \<and> m \<noteq> NaN)"
| "strict_eq (JArr xs) v = False"
| "strict_eq (JObj ps) v = False"
| "strict_eq u v = (u = v)"

fun obj_keys :: "js \<Rightarrow> string list" where
  "obj_keys (JObj ps) = map fst ps"
| "obj_keys _ = []"

text \<open>\<open>Object.prototype.hasOwnProperty.call(v, k)\<close>.\<close>

definition has_own :: "js \<Rightarrow> string \<Rightarrow> bool" where
  "has_own v k \<longleftrightarrow> k \<in> set (obj_keys v)"

text \<open>
  \<open>exactKeys(value, keys)\<close>: the sorted own keys and the sorted expected keys have the same
  length and agree at every index.
\<close>

definition exactKeys :: "js \<Rightarrow> string list \<Rightarrow> bool" where
  "exactKeys v ks = (let actual = sort (obj_keys v); expected = sort ks
     in length actual = length expected \<and> list_all2 (=) actual expected)"

text \<open>\<open>nonEmptyString\<close>.\<close>

definition nonEmptyString :: "js \<Rightarrow> bool" where
  "nonEmptyString v \<longleftrightarrow> is_str v \<and> length (str_of v) > 0"

lemma exactKeys_iff: "exactKeys v ks \<longleftrightarrow> mset (obj_keys v) = mset ks"
  by (simp add: exactKeys_def Let_def list_all2_eq [symmetric] sort_eq_iff [symmetric])
    (metis length_sort)

lemma exactKeys_set: "exactKeys v ks \<Longrightarrow> set (obj_keys v) = set ks"
  by (metis exactKeys_iff set_mset_mset)

lemma is_str_iff: "is_str v \<longleftrightarrow> (\<exists>s. v = JStr s)"
  by (cases v) auto

lemma is_arr_iff: "is_arr v \<longleftrightarrow> (\<exists>xs. v = JArr xs)"
  by (cases v) auto

lemma isPlainObject_iff: "isPlainObject v \<longleftrightarrow> (\<exists>ps. v = JObj ps)"
  by (cases v) auto

lemma nonEmptyString_iff: "nonEmptyString v \<longleftrightarrow> (\<exists>s. v = JStr s \<and> s \<noteq> [])"
  by (cases v) (auto simp: nonEmptyString_def)

lemma strict_eq_str [simp]:
  "strict_eq v (JStr s) \<longleftrightarrow> v = JStr s" "strict_eq (JStr s) v \<longleftrightarrow> v = JStr s"
  by (cases v; auto)+

lemma strict_eq_bool [simp]:
  "strict_eq v (JBool b) \<longleftrightarrow> v = JBool b" "strict_eq (JBool b) v \<longleftrightarrow> v = JBool b"
  by (cases v; auto)+

lemma strict_eq_undef [simp]:
  "strict_eq v JUndef \<longleftrightarrow> v = JUndef" "strict_eq JUndef v \<longleftrightarrow> v = JUndef"
  by (cases v; auto)+

lemma strict_eq_null [simp]:
  "strict_eq v JNull \<longleftrightarrow> v = JNull" "strict_eq JNull v \<longleftrightarrow> v = JNull"
  by (cases v; auto)+

lemma num_of_int_not_NaN [simp]: "num_of_int i \<noteq> NaN"
  by (metis num_is_integer.simps(2) num_of_int_int(1))

lemma strict_eq_int [simp]: "strict_eq v (JInt i) \<longleftrightarrow> v = JInt i"
  by (cases v) auto

lemma strict_eq_imp_eq: "strict_eq u v \<Longrightarrow> u = v"
  by (induction u v rule: strict_eq.induct) auto

lemma fld_in: "fld v k \<noteq> JUndef \<Longrightarrow> k \<in> set (obj_keys v)"
  by (cases v) (force split: option.splits dest: map_of_SomeD)+

section \<open>Conversion to a string\<close>

text \<open>
  \<open>String(v)\<close>; \<open>None\<close> is a TypeError. An array prints its elements between commas, null
  and undefined elements as nothing. An object prints as \<open>[object Object]\<close> unless it has a
  property \<open>toString\<close> of its own: parsed data holds no function, so that one is not
  callable, the inherited \<open>valueOf\<close> (or a data one) gives no primitive, and the conversion
  throws.
\<close>

fun to_str :: "js \<Rightarrow> string option" where
  "to_str JUndef = Some ''undefined''"
| "to_str JNull = Some ''null''"
| "to_str (JBool b) = Some (if b then ''true'' else ''false'')"
| "to_str (JNum n) = Some (num_str n)"
| "to_str (JStr s) = Some s"
| "to_str (JArr xs) =
     map_option (join '','')
       (those (map (\<lambda>x. if nullish x then Some [] else to_str x) xs))"
| "to_str (JObj ps) = (if ''toString'' \<in> fst ` set ps then None else Some ''[object Object]'')"

definition str_or_throw :: "js \<Rightarrow> string res" where
  "str_or_throw v = (case to_str v of None \<Rightarrow> Inl TypeErr | Some s \<Rightarrow> Inr s)"

text \<open>\<open>/^...$/.test(v)\<close>: the pattern is run on \<open>String(v)\<close>, whatever \<open>v\<close> is.\<close>

definition re_test :: "rx \<Rightarrow> js \<Rightarrow> bool res" where
  "re_test r v = bindE (str_or_throw v) (\<lambda>s. Inr (rx_test r s))"

text \<open>The negation \<open>!/^...$/.test(v)\<close> as an operand of a guard.\<close>

definition not_re_test :: "rx \<Rightarrow> js \<Rightarrow> bool res" where
  "not_re_test r v = bindE (re_test r v) (\<lambda>b. Inr (\<not> b))"

lemma re_test_str [simp]: "re_test r (JStr s) = Inr (rx_test r s)"
  by (simp add: re_test_def str_or_throw_def)

lemma not_re_test_str [simp]: "not_re_test r (JStr s) = Inr (\<not> rx_test r s)"
  by (simp add: not_re_test_def)

lemma not_re_test_iff [res_simps]:
  "not_re_test r v = Inr False \<longleftrightarrow> (\<exists>s. to_str v = Some s \<and> rx_test r s)"
  by (auto simp: not_re_test_def re_test_def str_or_throw_def bindE_Inr_iff split: option.splits)

text \<open>
  An array of one string converts to that string, so a pattern accepts the array where it
  accepts the string.
\<close>

lemma to_str_singleton: "to_str (JArr [JStr s]) = Some s"
  by simp

lemma re_test_singleton: "re_test r (JArr [JStr s]) = Inr (rx_test r s)"
  by (simp add: re_test_def str_or_throw_def)

text \<open>
  A version has two dots, which no number, boolean, null or undefined prints: a primitive
  that matches the version pattern is a string.
\<close>

lemma version_pattern_dots: "rx_test version_pattern s \<Longrightarrow> 2 \<le> count_list s CHR ''.''"
  by (auto simp: rx_test_iff version_pattern_def lang_seq_simp)

lemma count_list_absent: "c \<notin> set s \<Longrightarrow> count_list s c = 0"
  by (induction s) auto

lemma nat_digits_dots: "count_list (nat_digits n) CHR ''.'' = 0"
  by (rule count_list_absent)
    (use nat_digits_digits [of "CHR ''.''" n] in \<open>auto simp: is_digit_def less_eq_char_def\<close>)

lemma count_list_take_drop: "count_list (take n s) c \<le> count_list s c \<and> count_list (drop n s) c \<le> count_list s c"
  by (metis append_take_drop_id count_list_append le_add1 le_add2)

lemma num_str_dots: "count_list (num_str n) CHR ''.'' \<le> 1"
proof (cases n)
  case (Fin s e)
  have "count_list (take k (nat_digits m)) CHR ''.'' = 0" "count_list (drop k (nat_digits m)) CHR ''.'' = 0"
    for k m
    using count_list_take_drop [of k "nat_digits m" "CHR ''.''"] nat_digits_dots [of m]
    by (metis le_zero_eq)+
  then show ?thesis
    by (simp add: Fin Let_def nat_digits_dots count_list_absent del: take_Suc drop_Suc)
qed auto

lemma version_is_string:
  assumes "not_re_test version_pattern v = Inr False" and "strict_eq v w"
  shows "\<exists>s. v = JStr s \<and> w = JStr s \<and> rx_test version_pattern s"
proof -
  obtain s where s: "to_str v = Some s" and m: "rx_test version_pattern s"
    using assms(1) by (auto simp: not_re_test_iff)
  have dots: "2 \<le> count_list s CHR ''.''" using m by (rule version_pattern_dots)
  have w: "w = v" using strict_eq_imp_eq [OF assms(2)] by simp
  show ?thesis
  proof (cases v)
    case (JNum n)
    with s dots num_str_dots [of n] show ?thesis by simp
  qed (use s m dots assms(2) w in \<open>auto split: if_splits\<close>)
qed

section \<open>Paths and identities that several scripts check\<close>

text \<open>
  The guard of \<open>safeRelativePath(value, label)\<close>, the same function in
  \<open>release-license-policy\<close>, \<open>release-sbom\<close>, \<open>release-record\<close>, \<open>release-operation\<close> and
  \<open>release-recovery\<close>.
\<close>

definition unsafe_path :: "js \<Rightarrow> bool" where
  "unsafe_path v \<longleftrightarrow> \<not> is_str v \<or> length (str_of v) = 0 \<or> str_includes [CHR 0x5C] (str_of v) \<or>
     str_includes [CHR 0x0A] (str_of v) \<or> str_includes [CHR 0x0D] (str_of v) \<or>
     starts_with ''/'' (str_of v) \<or>
     list_ex (\<lambda>part. part = '''' \<or> part = ''.'' \<or> part = ''..'') (split_on CHR ''/'' (str_of v))"

text \<open>What the guard lets through: a nonempty sequence of proper path components.\<close>

definition safe_path_spec :: "string \<Rightarrow> bool" where
  "safe_path_spec s \<longleftrightarrow> (\<exists>parts. parts \<noteq> [] \<and> s = join ''/'' parts \<and>
     (\<forall>p \<in> set parts. p \<noteq> '''' \<and> p \<noteq> ''.'' \<and> p \<noteq> ''..'' \<and>
        set p \<inter> {CHR ''/'', CHR 0x5C, CHR 0x0A, CHR 0x0D} = {}))"

lemma split_on_join:
  "\<lbrakk>ws \<noteq> []; \<forall>w \<in> set ws. c \<notin> set w\<rbrakk> \<Longrightarrow> split_on c (join [c] ws) = ws"
proof (induction "[c]" ws rule: join.induct)
  case (2 w)
  then show ?case by (simp add: split_on_plain)
next
  case (3 w v ws)
  then have "split_on c (join [c] (v # ws)) = v # ws" by auto
  with 3(3) show ?case by (simp add: split_on_append_sep split_on_plain)
qed simp

lemma set_join: "set (join sep ws) \<subseteq> set sep \<union> (\<Union>w \<in> set ws. set w)"
  by (induction sep ws rule: join.induct) auto

lemma split_on_chars: "w \<in> set (split_on c s) \<Longrightarrow> set w \<subseteq> set s"
  by (induction s arbitrary: w) (fastforce split: list.splits if_splits)+

lemma unsafe_path_iff: "\<not> unsafe_path v \<longleftrightarrow> (\<exists>s. v = JStr s \<and> safe_path_spec s)"
proof
  assume ok: "\<not> unsafe_path v"
  then obtain s where s: "v = JStr s" by (auto simp: unsafe_path_def is_str_iff)
  let ?ps = "split_on CHR ''/'' s"
  from ok s have chars: "set s \<inter> {CHR 0x5C, CHR 0x0A, CHR 0x0D} = {}"
    by (auto simp: unsafe_path_def includes_char)
  have "\<forall>p \<in> set ?ps. p \<noteq> '''' \<and> p \<noteq> ''.'' \<and> p \<noteq> ''..'' \<and>
      set p \<inter> {CHR ''/'', CHR 0x5C, CHR 0x0A, CHR 0x0D} = {}"
  proof
    fix p assume p: "p \<in> set ?ps"
    have "CHR ''/'' \<notin> set p" using p by (rule split_on_no_sep)
    moreover have "set p \<subseteq> set s" using p by (rule split_on_chars)
    ultimately show "p \<noteq> '''' \<and> p \<noteq> ''.'' \<and> p \<noteq> ''..'' \<and>
        set p \<inter> {CHR ''/'', CHR 0x5C, CHR 0x0A, CHR 0x0D} = {}"
      using ok s p chars by (auto simp: unsafe_path_def list_ex_iff)
  qed
  then have "safe_path_spec s"
    unfolding safe_path_spec_def using join_split [of "CHR ''/''" s] split_on_nonempty by metis
  with s show "\<exists>s. v = JStr s \<and> safe_path_spec s" by blast
next
  assume "\<exists>s. v = JStr s \<and> safe_path_spec s"
  then obtain s parts where s: "v = JStr s" "parts \<noteq> []" "s = join ''/'' parts"
    and ps: "\<forall>p \<in> set parts. p \<noteq> '''' \<and> p \<noteq> ''.'' \<and> p \<noteq> ''..'' \<and>
        set p \<inter> {CHR ''/'', CHR 0x5C, CHR 0x0A, CHR 0x0D} = {}"
    by (auto simp: safe_path_spec_def)
  have split: "split_on CHR ''/'' s = parts"
    using s ps by (auto intro: split_on_join)
  have chars: "set s \<inter> {CHR 0x5C, CHR 0x0A, CHR 0x0D} = {}"
    using set_join [of "''/''" parts] s(3) ps by auto
  obtain p rest where "parts = p # rest" using s(2) by (cases parts) auto
  then have "s \<noteq> []" and "\<not> starts_with ''/'' s"
    using s(3) ps by (cases rest; cases p; auto simp: starts_with_iff)+
  with s(1) split chars ps show "\<not> unsafe_path v"
    by (auto simp: unsafe_path_def includes_char list_ex_iff)
qed

end
