(* ===== verification/TargetOrder.thy ===== *)
theory TargetOrder
  imports JsData
begin

text \<open>
  The interface that the two manifest validators share: a loop over the artifacts of a
  manifest that remembers the targets seen and the index of the last one in a canonical
  target order, and refuses an artifact that is unknown, repeated or out of order. The
  locale states one accepted iteration; the lemmas proved in it say that an accepted list of
  artifacts names the canonical order with some targets left out, whatever else the loop
  checks.
\<close>

lemma index_of_nth_distinct:
  "\<lbrakk>distinct xs; i < length xs\<rbrakk> \<Longrightarrow> index_of xs (xs ! i) = int i"
proof (induction xs arbitrary: i)
  case Nil
  then show ?case by simp
next
  case (Cons y ys)
  show ?case
  proof (cases i)
    case 0
    then show ?thesis by simp
  next
    case (Suc j)
    with Cons.prems have j: "j < length ys" "distinct ys" "y \<noteq> ys ! j" by auto
    with Cons.IH have "index_of ys (ys ! j) = int j" by simp
    with j Suc show ?thesis by (simp add: Let_def)
  qed
qed

lemma index_of_sorted:
  assumes "distinct xs"
  shows "sorted_wrt (<) (map (index_of xs) xs)"
  using assms by (auto simp: sorted_wrt_iff_nth_less index_of_nth_distinct)

lemma index_of_sorted_filter:
  "distinct xs \<Longrightarrow> sorted_wrt (<) (map (index_of xs) (filter P xs))"
  using index_of_sorted [of xs] by (simp add: sorted_wrt_map sorted_wrt_filter)

text \<open>A list that walks up the order is the order with the elements it does not name left out.\<close>

lemma ascending_is_filter:
  assumes d: "distinct xs" and sub: "set ys \<subseteq> set xs"
    and up: "sorted_wrt (<) (map (index_of xs) ys)"
  shows "ys = filter (\<lambda>x. x \<in> set ys) xs"
proof -
  let ?f = "filter (\<lambda>x. x \<in> set ys) xs"
  have same: "set ys = set ?f" using sub by auto
  have "map (index_of xs) ys = map (index_of xs) ?f"
  proof (rule sorted_distinct_set_unique)
    show "sorted (map (index_of xs) ys)" "distinct (map (index_of xs) ys)"
      using up by (simp_all add: strict_sorted_iff)
    show "sorted (map (index_of xs) ?f)" "distinct (map (index_of xs) ?f)"
      using index_of_sorted_filter [OF d] by (simp_all only: strict_sorted_iff)
    show "set (map (index_of xs) ys) = set (map (index_of xs) ?f)"
      using same by simp
  qed
  moreover have "inj_on (index_of xs) (set ys \<union> set ?f)"
    using sub by (auto simp: inj_on_def dest: index_of_inj)
  ultimately show ?thesis by (metis inj_on_map_eq_map)
qed

section \<open>The interface\<close>

locale ordered_scan =
  fixes order :: "string list"
    and tid :: "'a \<Rightarrow> string"
    and scan :: "int \<Rightarrow> string list \<Rightarrow> 'a list \<Rightarrow> 'r res"
  assumes order_distinct: "distinct order"
    and scan_step: "scan prev seen (a # as) = Inr r \<Longrightarrow>
      tid a \<notin> set seen \<and> prev < index_of order (tid a) \<and>
      (\<exists>r'. scan (index_of order (tid a)) (tid a # seen) as = Inr r')"
begin

lemma scan_ascending:
  "\<lbrakk>scan prev seen as = Inr r; -1 \<le> prev\<rbrakk> \<Longrightarrow>
     sorted_wrt (<) (map (index_of order) (map tid as)) \<and>
     (\<forall>a \<in> set as. prev < index_of order (tid a))"
proof (induction as arbitrary: prev seen r)
  case Nil
  then show ?case by simp
next
  case (Cons a as)
  from scan_step [OF Cons.prems(1)] obtain r' where
    step: "prev < index_of order (tid a)" "scan (index_of order (tid a)) (tid a # seen) as = Inr r'"
    by blast
  from Cons.IH [OF step(2)] show ?case
    using step(1) Cons.prems(2) by fastforce
qed

lemma scan_known: "\<lbrakk>scan prev seen as = Inr r; -1 \<le> prev; a \<in> set as\<rbrakk> \<Longrightarrow> tid a \<in> set order"
  using scan_ascending index_of_in_iff [of order] by fastforce

lemma scan_canonical:
  assumes "scan (-1) seen as = Inr r"
  shows "map tid as = filter (\<lambda>t. t \<in> tid ` set as) order"
proof -
  have "map tid as = filter (\<lambda>t. t \<in> set (map tid as)) order"
  proof (rule ascending_is_filter [OF order_distinct])
    show "set (map tid as) \<subseteq> set order"
      using scan_known [OF assms] by auto
    show "sorted_wrt (<) (map (index_of order) (map tid as))"
      using scan_ascending [OF assms] by simp
  qed
  then show ?thesis by simp
qed

lemma scan_distinct: "scan (-1) seen as = Inr r \<Longrightarrow> distinct (map tid as)"
  by (subst scan_canonical) (auto simp: order_distinct)

lemma scan_length: "scan (-1) seen as = Inr r \<Longrightarrow> length as \<le> length order"
  by (metis scan_canonical length_map length_filter_le)

lemma scan_complete:
  assumes "scan (-1) seen as = Inr r" and "length as = length order"
  shows "map tid as = order"
proof -
  let ?P = "\<lambda>t. t \<in> tid ` set as"
  have f: "map tid as = filter ?P order" by (rule scan_canonical [OF assms(1)])
  then have "length (filter ?P order) = length order"
    using assms(2) by (metis length_map)
  then have "filter ?P order = order"
    by (metis filter_id_conv length_filter_less less_irrefl)
  with f show ?thesis by simp
qed

end

end
