(* ===== verification/NativeManifest.thy ===== *)
theory NativeManifest
  imports TargetOrder
begin

text \<open>
  \<open>packages/wallet-core/src/manifest.mjs\<close>: the table of native targets, the validation of
  the native artifact manifest that a Node.js loader reads before it loads a binary, and the
  choice of the target for a runtime. \<open>scripts/native-manifest.mjs\<close>: the assembly of such
  a manifest from files, with the file system and SHA-256 as parameters.

  The lemmas show what an accepted manifest is (\<open>native_manifest_spec\<close>), that the validator
  accepts exactly those when the three fields it matches against a pattern are strings, that
  a relative path it accepts stays below \<open>dist/native\<close>, and that what the assembler
  writes the validator accepts.
\<close>

record native_target =
  nt_os :: string
  nt_cpu :: string
  nt_abi :: string
  nt_libc :: "string option"
  nt_rust_target :: string

definition CANONICAL_TARGET_ORDER :: "string list" where
  "CANONICAL_TARGET_ORDER =
     [''win32-x64-msvc'', ''darwin-x64'', ''darwin-arm64'', ''linux-x64-gnu'']"

definition NATIVE_TARGETS :: "(string \<times> native_target) list" where
  "NATIVE_TARGETS =
     [(''win32-x64-msvc'', \<lparr>nt_os = ''windows'', nt_cpu = ''x64'', nt_abi = ''msvc'',
         nt_libc = None, nt_rust_target = ''x86_64-pc-windows-msvc''\<rparr>),
      (''darwin-x64'', \<lparr>nt_os = ''macos'', nt_cpu = ''x64'', nt_abi = ''darwin'',
         nt_libc = None, nt_rust_target = ''x86_64-apple-darwin''\<rparr>),
      (''darwin-arm64'', \<lparr>nt_os = ''macos'', nt_cpu = ''arm64'', nt_abi = ''darwin'',
         nt_libc = None, nt_rust_target = ''aarch64-apple-darwin''\<rparr>),
      (''linux-x64-gnu'', \<lparr>nt_os = ''linux'', nt_cpu = ''x64'', nt_abi = ''gnu'',
         nt_libc = Some ''glibc'', nt_rust_target = ''x86_64-unknown-linux-gnu''\<rparr>)]"

definition PACKAGE_NAME :: string where
  "PACKAGE_NAME = ''@nemnesia/symbol-nem-wallet-core''"

definition manifestError :: js_error where
  "manifestError = Fail ''invalid native artifact manifest''"

definition hasNativeTarget :: "string \<Rightarrow> bool" where
  "hasNativeTarget t \<longleftrightarrow> t \<in> set (map fst NATIVE_TARGETS)"

text \<open>
  \<open>supportsLinuxGlibc(version)\<close>: a string \<open>/^(\d+)\.(\d+)$/\<close>, that is two runs of digits
  around one dot. Both numbers are only compared with 2 and 28, where the rounding of
  \<open>Number\<close> does not matter.
\<close>

definition supportsLinuxGlibc :: "js \<Rightarrow> bool" where
  "supportsLinuxGlibc v = (case v of
     JStr s \<Rightarrow> (case split_on CHR ''.'' s of
         [a, b] \<Rightarrow> a \<noteq> [] \<and> b \<noteq> [] \<and> list_all is_digit a \<and> list_all is_digit b \<and>
           (let major = digits_val a; minor = digits_val b
            in major > 2 \<or> major = 2 \<and> minor \<ge> 28)
       | _ \<Rightarrow> False)
   | _ \<Rightarrow> False)"

definition targetForRuntime :: "string \<Rightarrow> string \<Rightarrow> js \<Rightarrow> string option" where
  "targetForRuntime platform arch glibcVersionRuntime =
     (if platform = ''win32'' \<and> arch = ''x64'' then Some ''win32-x64-msvc''
      else if platform = ''darwin'' \<and> arch = ''x64'' then Some ''darwin-x64''
      else if platform = ''darwin'' \<and> arch = ''arm64'' then Some ''darwin-arm64''
      else if platform = ''linux'' \<and> arch = ''x64'' \<and> supportsLinuxGlibc glibcVersionRuntime
        then Some ''linux-x64-gnu''
      else None)"

section \<open>Validation\<close>

text \<open>The keys of an artifact: \<open>libc\<close> is one of them for a target that has one.\<close>

definition native_artifact_keys :: "native_target \<Rightarrow> string list" where
  "native_artifact_keys t =
     [''target_id'', ''os'', ''cpu'', ''abi'', ''rust_target'', ''relative_path'',
      ''artifact_filename'', ''sha256'', ''toolchain_identifier''] @
     (case nt_libc t of Some _ \<Rightarrow> [''libc''] | None \<Rightarrow> [])"

text \<open>The comparison of an artifact with its target.\<close>

definition native_fields_differ :: "js \<Rightarrow> native_target \<Rightarrow> bool" where
  "native_fields_differ a t \<longleftrightarrow>
     \<not> strict_eq (fld a ''os'') (JStr (nt_os t)) \<or>
     \<not> strict_eq (fld a ''cpu'') (JStr (nt_cpu t)) \<or>
     \<not> strict_eq (fld a ''abi'') (JStr (nt_abi t)) \<or>
     \<not> strict_eq (fld a ''rust_target'') (JStr (nt_rust_target t)) \<or>
     (case nt_libc t of
        Some l \<Rightarrow> \<not> strict_eq (fld a ''libc'') (JStr l)
      | None \<Rightarrow> has_own a ''libc'')"

text \<open>
  The last guard of the loop, over path, file name, digest and toolchain. The template
  literal converts \<open>artifact_filename\<close> to a string before anything has checked that it is
  one, and the pattern converts \<open>sha256\<close>.
\<close>

definition native_path_guard :: "js \<Rightarrow> unit res" where
  "native_path_guard a = guard_any manifestError
     [Inr (\<not> nonEmptyString (fld a ''relative_path'')),
      Inr (str_includes [CHR 0x5C] (str_of (fld a ''relative_path''))),
      Inr (str_includes ''..'' (str_of (fld a ''relative_path''))),
      bindE (str_or_throw (fld a ''artifact_filename'')) (\<lambda>fn. Inr (\<not> strict_eq
        (fld a ''relative_path'')
        (JStr (''dist/native/'' @ str_of (fld a ''target_id'') @ ''/'' @ fn)))),
      Inr (\<not> nonEmptyString (fld a ''artifact_filename'')),
      Inr (str_includes ''/'' (str_of (fld a ''artifact_filename''))),
      Inr (\<not> ends_with ''.node'' (str_of (fld a ''artifact_filename''))),
      not_re_test hash_pattern (fld a ''sha256''),
      Inr (\<not> nonEmptyString (fld a ''toolchain_identifier''))]"

text \<open>One iteration: the new value of \<open>previousIndex\<close> and the target to add to \<open>seen\<close>.\<close>

definition native_artifact_step :: "int \<Rightarrow> string list \<Rightarrow> js \<Rightarrow> (int \<times> string) res" where
  "native_artifact_step previousIndex seen a =
     (let target_id = str_of (fld a ''target_id'') in
      if \<not> isPlainObject a \<or> \<not> nonEmptyString (fld a ''target_id'') \<or> target_id \<in> set seen
      then Inl manifestError
      else if \<not> hasNativeTarget target_id then Inl manifestError
      else case map_of NATIVE_TARGETS target_id of
        None \<Rightarrow> Inl manifestError
      | Some target \<Rightarrow>
          if \<not> exactKeys a (native_artifact_keys target) then Inl manifestError
          else let index = index_of CANONICAL_TARGET_ORDER target_id in
            if index \<le> previousIndex then Inl manifestError
            else if native_fields_differ a target then Inl manifestError
            else bindE (native_path_guard a) (\<lambda>_. Inr (index, target_id)))"

fun native_artifact_loop :: "int \<Rightarrow> string list \<Rightarrow> js list \<Rightarrow> unit res" where
  "native_artifact_loop previousIndex seen [] = Inr ()"
| "native_artifact_loop previousIndex seen (a # as) =
     bindE (native_artifact_step previousIndex seen a)
       (\<lambda>(index, target_id). native_artifact_loop index (target_id # seen) as)"

definition native_manifest_keys :: "string list" where
  "native_manifest_keys = [''schema_version'', ''package_name'', ''package_version'',
     ''source_commit'', ''node_api_version'', ''artifacts'']"

definition validateNativeManifest :: "js \<Rightarrow> js \<Rightarrow> js res" where
  "validateNativeManifest manifest packageMeta =
     (if \<not> isPlainObject manifest \<or> \<not> isPlainObject packageMeta then Inl manifestError
      else bindE (guard_any manifestError
        [Inr (\<not> exactKeys manifest native_manifest_keys),
         Inr (\<not> strict_eq (fld manifest ''schema_version'') (JInt 1)),
         Inr (\<not> strict_eq (fld manifest ''package_name'') (JStr PACKAGE_NAME)),
         Inr (\<not> strict_eq (fld manifest ''package_name'') (fld packageMeta ''name'')),
         Inr (\<not> strict_eq (fld manifest ''package_version'') (fld packageMeta ''version'')),
         not_re_test version_pattern (fld manifest ''package_version''),
         not_re_test commit_pattern (fld manifest ''source_commit''),
         Inr (\<not> strict_eq (fld manifest ''node_api_version'') (JInt 8)),
         Inr (\<not> is_arr (fld manifest ''artifacts''))])
      (\<lambda>_. bindE (native_artifact_loop (-1) [] (elems (fld manifest ''artifacts'')))
      (\<lambda>_. Inr manifest)))"

section \<open>What an accepted artifact is\<close>

text \<open>
  The specification of one artifact entry: it is an object with the keys of its target, every
  identity field is the one of the table, the path is built from target and file name, and
  the file name is a single \<open>.node\<close> component.
\<close>

definition native_entry_spec :: "js \<Rightarrow> bool" where
  "native_entry_spec a \<longleftrightarrow> (\<exists>target_id target fn tool.
     isPlainObject a \<and> map_of NATIVE_TARGETS target_id = Some target \<and>
     mset (obj_keys a) = mset (native_artifact_keys target) \<and>
     fld a ''target_id'' = JStr target_id \<and> fld a ''os'' = JStr (nt_os target) \<and>
     fld a ''cpu'' = JStr (nt_cpu target) \<and> fld a ''abi'' = JStr (nt_abi target) \<and>
     fld a ''rust_target'' = JStr (nt_rust_target target) \<and>
     (\<forall>l. nt_libc target = Some l \<longrightarrow> fld a ''libc'' = JStr l) \<and>
     fld a ''artifact_filename'' = JStr fn \<and>
     fld a ''relative_path'' = JStr (''dist/native/'' @ target_id @ ''/'' @ fn) \<and>
     CHR ''/'' \<notin> set fn \<and> CHR 0x5C \<notin> set fn \<and> \<not> str_includes ''..'' fn \<and>
     ends_with ''.node'' fn \<and>
     (\<exists>h. to_str (fld a ''sha256'') = Some h \<and> length h = 64 \<and> list_all is_hex h) \<and>
     fld a ''toolchain_identifier'' = JStr tool \<and> tool \<noteq> [])"

lemma native_targets_order: "map fst NATIVE_TARGETS = CANONICAL_TARGET_ORDER"
  by (simp add: NATIVE_TARGETS_def CANONICAL_TARGET_ORDER_def)

lemma native_target_ids:
  "map_of NATIVE_TARGETS t = Some x \<Longrightarrow>
     t = ''win32-x64-msvc'' \<or> t = ''darwin-x64'' \<or> t = ''darwin-arm64'' \<or> t = ''linux-x64-gnu''"
  by (auto simp: NATIVE_TARGETS_def split: if_splits)

lemma native_target_exists: "hasNativeTarget t \<Longrightarrow> \<exists>x. map_of NATIVE_TARGETS t = Some x"
  by (metis hasNativeTarget_def map_of_eq_None_iff option.exhaust set_map)

text \<open>The path of an entry is free of \<open>..\<close> and of backslashes exactly when its file name is.\<close>

lemma native_path_includes:
  assumes "map_of NATIVE_TARGETS t = Some x"
  shows "str_includes ''..'' (''dist/native/'' @ t @ ''/'' @ fn) \<longleftrightarrow> str_includes ''..'' fn"
    and "str_includes [CHR 0x5C] (''dist/native/'' @ t @ ''/'' @ fn) \<longleftrightarrow> CHR 0x5C \<in> set fn"
  using native_target_ids [OF assms]
  by (auto simp: str_includes.simps starts_with_def includes_char)

lemma native_path_guard_iff:
  assumes "map_of NATIVE_TARGETS t = Some x" and "fld a ''target_id'' = JStr t"
  shows "native_path_guard a = Inr () \<longleftrightarrow> (\<exists>fn tool.
     fld a ''artifact_filename'' = JStr fn \<and>
     fld a ''relative_path'' = JStr (''dist/native/'' @ t @ ''/'' @ fn) \<and>
     CHR ''/'' \<notin> set fn \<and> CHR 0x5C \<notin> set fn \<and> \<not> str_includes ''..'' fn \<and>
     ends_with ''.node'' fn \<and>
     (\<exists>h. to_str (fld a ''sha256'') = Some h \<and> length h = 64 \<and> list_all is_hex h) \<and>
     fld a ''toolchain_identifier'' = JStr tool \<and> tool \<noteq> [])"
    (is "?l \<longleftrightarrow> ?r")
proof
  assume l: ?l
  then obtain rp fn where f: "fld a ''relative_path'' = JStr rp" "fld a ''artifact_filename'' = JStr fn"
    by (auto simp: native_path_guard_def res_simps nonEmptyString_iff)
  with l assms(2) have "rp = ''dist/native/'' @ t @ ''/'' @ fn"
    by (simp add: native_path_guard_def res_simps str_or_throw_def)
  with l f show ?r
    using native_path_includes [OF assms(1), of fn]
    by (auto simp: native_path_guard_def res_simps includes_char hash_pattern_iff nonEmptyString_iff)
next
  assume ?r
  then obtain fn tool h where f: "fld a ''artifact_filename'' = JStr fn"
      "fld a ''relative_path'' = JStr (''dist/native/'' @ t @ ''/'' @ fn)"
      "fld a ''toolchain_identifier'' = JStr tool" "to_str (fld a ''sha256'') = Some h"
    and ok: "CHR ''/'' \<notin> set fn" "CHR 0x5C \<notin> set fn" "\<not> str_includes ''..'' fn"
      "ends_with ''.node'' fn" "length h = 64" "list_all is_hex h" "tool \<noteq> []"
    by blast
  have "fn \<noteq> []" using ok(4) by (auto simp: ends_with_def)
  then show ?l
    unfolding native_path_guard_def guard_any_Inr_iff f assms(2) str_of.simps
      native_path_includes [OF assms(1)]
    using ok f(4)
    by (simp add: includes_char nonEmptyString_def str_or_throw_def res_simps hash_pattern_iff)
qed

lemma native_fields_differ_iff:
  assumes "map_of NATIVE_TARGETS t = Some x" and "mset (obj_keys a) = mset (native_artifact_keys x)"
  shows "\<not> native_fields_differ a x \<longleftrightarrow>
     fld a ''os'' = JStr (nt_os x) \<and> fld a ''cpu'' = JStr (nt_cpu x) \<and>
     fld a ''abi'' = JStr (nt_abi x) \<and> fld a ''rust_target'' = JStr (nt_rust_target x) \<and>
     (\<forall>l. nt_libc x = Some l \<longrightarrow> fld a ''libc'' = JStr l)"
proof -
  have "nt_libc x = None \<Longrightarrow> \<not> has_own a ''libc''"
    using assms(2) [THEN mset_eq_setD] by (auto simp: has_own_def native_artifact_keys_def)
  then show ?thesis by (auto simp: native_fields_differ_def split: option.splits)
qed

lemma native_entry_spec_iff:
  "native_entry_spec a \<longleftrightarrow> (\<exists>t x. fld a ''target_id'' = JStr t \<and> map_of NATIVE_TARGETS t = Some x \<and>
     isPlainObject a \<and> mset (obj_keys a) = mset (native_artifact_keys x) \<and>
     \<not> native_fields_differ a x \<and> native_path_guard a = Inr ())"
    (is "?l \<longleftrightarrow> ?r")
proof
  assume ?l
  then show ?r
    unfolding native_entry_spec_def using native_fields_differ_iff native_path_guard_iff by blast
next
  assume ?r
  then obtain t x where id: "fld a ''target_id'' = JStr t" and x: "map_of NATIVE_TARGETS t = Some x"
    and obj: "isPlainObject a" and keys: "mset (obj_keys a) = mset (native_artifact_keys x)"
    and same: "\<not> native_fields_differ a x" and path: "native_path_guard a = Inr ()"
    by blast
  show ?l
    unfolding native_entry_spec_def
    using x id obj keys native_fields_differ_iff [OF x keys, THEN iffD1, OF same]
      native_path_guard_iff [OF x id, THEN iffD1, OF path] by blast
qed

text \<open>One iteration accepts exactly an entry of the specification that is new and in order.\<close>

lemma native_artifact_step_iff:
  "native_artifact_step prev seen a = Inr (i, t) \<longleftrightarrow>
     native_entry_spec a \<and> fld a ''target_id'' = JStr t \<and> t \<notin> set seen \<and>
     i = index_of CANONICAL_TARGET_ORDER t \<and> prev < i"
    (is "?l \<longleftrightarrow> ?r")
proof
  assume l: ?l
  let ?t = "str_of (fld a ''target_id'')"
  from l obtain x where x: "map_of NATIVE_TARGETS ?t = Some x"
    by (auto simp: native_artifact_step_def Let_def split: if_splits option.splits)
  from l have id: "fld a ''target_id'' = JStr ?t" and obj: "isPlainObject a" and new: "?t \<notin> set seen"
    by (auto simp: native_artifact_step_def Let_def nonEmptyString_iff split: if_splits)
  from l x have keys: "mset (obj_keys a) = mset (native_artifact_keys x)"
    and same: "\<not> native_fields_differ a x" and path: "native_path_guard a = Inr ()"
    and res: "i = index_of CANONICAL_TARGET_ORDER ?t" "t = ?t" "prev < i"
    by (auto simp: native_artifact_step_def Let_def exactKeys_iff res_simps split: if_splits)
  have "native_entry_spec a"
    unfolding native_entry_spec_iff using x id obj keys same path by blast
  with id new res show ?r by simp
next
  assume r: ?r
  then obtain x where x: "map_of NATIVE_TARGETS t = Some x" and obj: "isPlainObject a"
    and keys: "mset (obj_keys a) = mset (native_artifact_keys x)"
    and id: "fld a ''target_id'' = JStr t"
    and same: "\<not> native_fields_differ a x" and path: "native_path_guard a = Inr ()"
    unfolding native_entry_spec_iff by auto
  have "t \<noteq> []" and "hasNativeTarget t"
    using native_target_ids [OF x] x
    by (auto simp: hasNativeTarget_def native_targets_order CANONICAL_TARGET_ORDER_def)
  with r x obj keys id same path show ?l
    by (simp add: native_artifact_step_def Let_def nonEmptyString_def exactKeys_iff)
qed

lemma native_entry_loop:
  "native_artifact_loop prev seen as = Inr u \<Longrightarrow> list_all native_entry_spec as"
  by (induction prev seen as rule: native_artifact_loop.induct)
    (auto simp: res_simps native_artifact_step_iff split: prod.splits)

interpretation native_scan:
  ordered_scan CANONICAL_TARGET_ORDER "\<lambda>a. str_of (fld a ''target_id'')" native_artifact_loop
proof unfold_locales
  show "distinct CANONICAL_TARGET_ORDER"
    by (simp add: CANONICAL_TARGET_ORDER_def)
next
  fix prev seen a as r
  assume "native_artifact_loop prev seen (a # as) = Inr r"
  then obtain i t where "native_artifact_step prev seen a = Inr (i, t)"
    and "native_artifact_loop i (t # seen) as = Inr r"
    by (auto simp: res_simps split: prod.splits)
  then show "str_of (fld a ''target_id'') \<notin> set seen \<and>
      prev < index_of CANONICAL_TARGET_ORDER (str_of (fld a ''target_id'')) \<and>
      (\<exists>r'. native_artifact_loop (index_of CANONICAL_TARGET_ORDER (str_of (fld a ''target_id'')))
        (str_of (fld a ''target_id'') # seen) as = Inr r')"
    by (auto simp: native_artifact_step_iff)
qed

text \<open>
  The converse: a list of entries of the specification that walks up the order is accepted.
\<close>

lemma native_loop_accepts:
  "\<lbrakk>list_all native_entry_spec as;
    sorted_wrt (<) (map (index_of CANONICAL_TARGET_ORDER) (map (\<lambda>a. str_of (fld a ''target_id'')) as));
    \<forall>a \<in> set as. prev < index_of CANONICAL_TARGET_ORDER (str_of (fld a ''target_id''));
    \<forall>a \<in> set as. str_of (fld a ''target_id'') \<notin> set seen\<rbrakk> \<Longrightarrow>
   native_artifact_loop prev seen as = Inr ()"
proof (induction as arbitrary: prev seen)
  case Nil
  then show ?case by simp
next
  case (Cons a as)
  let ?t = "str_of (fld a ''target_id'')"
  have id: "fld a ''target_id'' = JStr ?t"
    using Cons.prems(1) by (auto simp: native_entry_spec_def)
  then have step: "native_artifact_step prev seen a = Inr (index_of CANONICAL_TARGET_ORDER ?t, ?t)"
    using Cons.prems by (simp add: native_artifact_step_iff)
  have "\<forall>b \<in> set as. str_of (fld b ''target_id'') \<noteq> ?t"
    using Cons.prems(2) by auto
  then have "native_artifact_loop (index_of CANONICAL_TARGET_ORDER ?t) (?t # seen) as = Inr ()"
    using Cons by auto
  with step show ?case by simp
qed

section \<open>Properties\<close>

text \<open>The specification of a manifest against the metadata of its package.\<close>

definition native_manifest_spec :: "js \<Rightarrow> js \<Rightarrow> bool" where
  "native_manifest_spec m p \<longleftrightarrow> (\<exists>v c as.
     isPlainObject m \<and> isPlainObject p \<and> mset (obj_keys m) = mset native_manifest_keys \<and>
     fld m ''schema_version'' = JInt 1 \<and> fld m ''node_api_version'' = JInt 8 \<and>
     fld m ''package_name'' = JStr PACKAGE_NAME \<and> fld p ''name'' = JStr PACKAGE_NAME \<and>
     fld m ''package_version'' = JStr v \<and> fld p ''version'' = JStr v \<and>
     rx_test version_pattern v \<and>
     to_str (fld m ''source_commit'') = Some c \<and> length c = 40 \<and> list_all is_hex c \<and>
     fld m ''artifacts'' = JArr as \<and> list_all native_entry_spec as \<and>
     (let ids = map (\<lambda>a. str_of (fld a ''target_id'')) as
      in ids = filter (\<lambda>t. t \<in> set ids) CANONICAL_TARGET_ORDER))"

lemma native_manifest_guards:
  "validateNativeManifest m p = Inr r \<longleftrightarrow> r = m \<and> isPlainObject m \<and> isPlainObject p \<and>
     mset (obj_keys m) = mset native_manifest_keys \<and>
     fld m ''schema_version'' = JInt 1 \<and> fld m ''node_api_version'' = JInt 8 \<and>
     fld m ''package_name'' = JStr PACKAGE_NAME \<and> fld p ''name'' = JStr PACKAGE_NAME \<and>
     strict_eq (fld m ''package_version'') (fld p ''version'') \<and>
     not_re_test version_pattern (fld m ''package_version'') = Inr False \<and>
     not_re_test commit_pattern (fld m ''source_commit'') = Inr False \<and>
     is_arr (fld m ''artifacts'') \<and>
     native_artifact_loop (-1) [] (elems (fld m ''artifacts'')) = Inr ()"
  by (cases "fld m ''package_name'' = JStr PACKAGE_NAME")
    (auto simp: validateNativeManifest_def bindE_Inr_iff guard_any_Inr_iff exactKeys_iff)

lemma validateNativeManifest_spec:
  "validateNativeManifest m p = Inr r \<longleftrightarrow> r = m \<and> native_manifest_spec m p"
proof
  assume l: "validateNativeManifest m p = Inr r"
  note g = l [unfolded native_manifest_guards]
  obtain as where as: "fld m ''artifacts'' = JArr as" using g by (auto simp: is_arr_iff)
  have scan: "native_artifact_loop (-1) [] as = Inr ()" using g as by simp
  obtain v where v: "fld m ''package_version'' = JStr v" "fld p ''version'' = JStr v"
      "rx_test version_pattern v"
    using g version_is_string by blast
  obtain c where c: "to_str (fld m ''source_commit'') = Some c" "length c = 40" "list_all is_hex c"
    using g by (auto simp: not_re_test_iff commit_pattern_iff)
  have "list_all native_entry_spec as" using scan by (rule native_entry_loop)
  moreover have "map (\<lambda>a. str_of (fld a ''target_id'')) as =
      filter (\<lambda>t. t \<in> set (map (\<lambda>a. str_of (fld a ''target_id'')) as)) CANONICAL_TARGET_ORDER"
    unfolding set_map by (rule native_scan.scan_canonical [OF scan])
  ultimately show "r = m \<and> native_manifest_spec m p"
    unfolding native_manifest_spec_def Let_def using g as v c by blast
next
  assume r: "r = m \<and> native_manifest_spec m p"
  let ?ids = "map (\<lambda>a. str_of (fld a ''target_id''))"
  from r obtain v c as where spec: "isPlainObject m" "isPlainObject p"
     "mset (obj_keys m) = mset native_manifest_keys"
     "fld m ''schema_version'' = JInt 1" "fld m ''node_api_version'' = JInt 8"
     "fld m ''package_name'' = JStr PACKAGE_NAME" "fld p ''name'' = JStr PACKAGE_NAME"
     "fld m ''package_version'' = JStr v" "fld p ''version'' = JStr v" "rx_test version_pattern v"
     "to_str (fld m ''source_commit'') = Some c" "length c = 40" "list_all is_hex c"
     "fld m ''artifacts'' = JArr as" "list_all native_entry_spec as"
     "?ids as = filter (\<lambda>t. t \<in> set (?ids as)) CANONICAL_TARGET_ORDER"
    unfolding native_manifest_spec_def Let_def by blast
  have d: "distinct CANONICAL_TARGET_ORDER" by (rule native_scan.order_distinct)
  have up: "sorted_wrt (<) (map (index_of CANONICAL_TARGET_ORDER) (?ids as))"
    by (subst spec(16)) (rule index_of_sorted_filter [OF d])
  have "set (?ids as) \<subseteq> set CANONICAL_TARGET_ORDER"
    by (metis spec(16) filter_is_subset)
  then have known: "\<forall>a \<in> set as. str_of (fld a ''target_id'') \<in> set CANONICAL_TARGET_ORDER"
    by auto
  have "native_artifact_loop (-1) [] as = Inr ()"
    by (rule native_loop_accepts)
      (use spec(15) up known index_of_nonneg [of _ CANONICAL_TARGET_ORDER] in force)+
  then show "validateNativeManifest m p = Inr r"
    unfolding native_manifest_guards using r spec
    by (simp add: not_re_test_iff commit_pattern_iff)
qed

text \<open>
  Property C9. The validator accepts a manifest exactly when it meets the specification, and
  returns it unchanged: the keys, versions and package name are the expected ones, every
  artifact is an entry of the target table with a path built from its target and file name,
  and the targets are the canonical order with some left out (so none twice).
\<close>

theorem validateNativeManifest_iff:
  "validateNativeManifest m p = Inr r \<longleftrightarrow> r = m \<and> native_manifest_spec m p"
  by (rule validateNativeManifest_spec)

text \<open>
  A relative path that the validator accepted names exactly one file below the
  directory of its target: its components are \<open>dist\<close>, \<open>native\<close>, the target and the file
  name, and the file name is none of the special components.
\<close>

lemma native_manifest_path_components:
  assumes "validateNativeManifest m p = Inr r" and "a \<in> set (elems (fld m ''artifacts''))"
  shows "\<exists>t fn rp. fld a ''target_id'' = JStr t \<and> fld a ''artifact_filename'' = JStr fn \<and>
     fld a ''relative_path'' = JStr rp \<and> split_on CHR ''/'' rp = [''dist'', ''native'', t, fn] \<and>
     fn \<noteq> '''' \<and> fn \<noteq> ''.'' \<and> fn \<noteq> ''..'' \<and> CHR 0x5C \<notin> set rp"
proof -
  from assms(1) have "native_manifest_spec m p" by (simp add: validateNativeManifest_spec)
  then have "native_entry_spec a"
    using assms(2) by (auto simp: native_manifest_spec_def list_all_iff)
  then obtain t x fn where e: "map_of NATIVE_TARGETS t = Some x" "fld a ''target_id'' = JStr t"
      "fld a ''artifact_filename'' = JStr fn"
      "fld a ''relative_path'' = JStr (''dist/native/'' @ t @ ''/'' @ fn)"
      "CHR ''/'' \<notin> set fn" "CHR 0x5C \<notin> set fn" "ends_with ''.node'' fn"
    by (auto simp: native_entry_spec_def)
  have "split_on CHR ''/'' (join ''/'' [''dist'', ''native'', t, fn]) = [''dist'', ''native'', t, fn]"
    by (rule split_on_join) (use native_target_ids [OF e(1)] e(5) in auto)
  moreover have "CHR 0x5C \<notin> set (''dist/native/'' @ t @ ''/'' @ fn)"
    using native_target_ids [OF e(1)] e(6) by auto
  ultimately show ?thesis using e by (auto simp: ends_with_def)
qed

text \<open>A manifest with one artifact, for the witnesses; commit and digest are parameters.\<close>

definition sample_native_manifest :: "js \<Rightarrow> js \<Rightarrow> js" where
  "sample_native_manifest commit digest = JObj
     [(''schema_version'', JInt 1), (''package_name'', JStr PACKAGE_NAME),
      (''package_version'', JStr ''0.2.0''), (''source_commit'', commit),
      (''node_api_version'', JInt 8),
      (''artifacts'', JArr [JObj
        [(''target_id'', JStr ''linux-x64-gnu''), (''os'', JStr ''linux''), (''cpu'', JStr ''x64''),
         (''abi'', JStr ''gnu''), (''libc'', JStr ''glibc''),
         (''rust_target'', JStr ''x86_64-unknown-linux-gnu''),
         (''relative_path'', JStr ''dist/native/linux-x64-gnu/core.node''),
         (''artifact_filename'', JStr ''core.node''), (''sha256'', digest),
         (''toolchain_identifier'', JStr ''rustc 1.90.0'')]])]"

definition sample_package_meta :: js where
  "sample_package_meta = JObj [(''name'', JStr PACKAGE_NAME), (''version'', JStr ''0.2.0'')]"

lemma sample_native_accepted:
  "to_str c = Some (replicate 40 CHR ''a'') \<Longrightarrow> to_str d = Some (replicate 64 CHR ''0'') \<Longrightarrow>
   native_manifest_spec (sample_native_manifest c d) sample_package_meta"
proof -
  assume c: "to_str c = Some (replicate 40 CHR ''a'')" and d: "to_str d = Some (replicate 64 CHR ''0'')"
  let ?a = "hd (elems (fld (sample_native_manifest c d) ''artifacts''))"
  have hexes: "list_all is_hex (replicate 40 CHR ''a'')" "list_all is_hex (replicate 64 CHR ''0'')"
    by (simp_all only: list_all_iff set_replicate_conv_if) (simp_all add: char_class_defs less_eq_char_def)
  have v: "rx_test version_pattern ''0.2.0''" by code_simp
  have i: "\<not> str_includes ''..'' ''core.node''" by code_simp
  have s: "ends_with ''.node'' ''core.node''" by code_simp
  obtain x where x: "map_of NATIVE_TARGETS ''linux-x64-gnu'' = Some x" "nt_os x = ''linux''"
      "nt_cpu x = ''x64''" "nt_abi x = ''gnu''" "nt_libc x = Some ''glibc''"
      "nt_rust_target x = ''x86_64-unknown-linux-gnu''"
    by (rule that [of "the (map_of NATIVE_TARGETS ''linux-x64-gnu'')"])
      (simp_all add: NATIVE_TARGETS_def)
  have "native_entry_spec ?a"
    unfolding native_entry_spec_def
    by (rule exI [of _ "''linux-x64-gnu''"], rule exI [of _ x], rule exI [of _ "''core.node''"],
        rule exI [of _ "''rustc 1.90.0''"])
      (use d hexes i s x in \<open>simp add: sample_native_manifest_def native_artifact_keys_def\<close>)
  then show ?thesis
    unfolding native_manifest_spec_def
    using c hexes v
    by (simp add: sample_native_manifest_def sample_package_meta_def native_manifest_keys_def
        CANONICAL_TARGET_ORDER_def)
qed

theorem native_manifest_path_components_witness:
  "\<exists>t fn rp. rp = ''dist/native/linux-x64-gnu/core.node'' \<and>
     split_on CHR ''/'' rp = [''dist'', ''native'', t, fn] \<and> fn = ''core.node''"
proof -
  let ?m = "sample_native_manifest (JStr (replicate 40 CHR ''a'')) (JStr (replicate 64 CHR ''0''))"
  let ?a = "hd (elems (fld ?m ''artifacts''))"
  have ok: "validateNativeManifest ?m sample_package_meta = Inr ?m"
    unfolding validateNativeManifest_spec
    by (rule conjI [OF refl], rule sample_native_accepted) (simp_all only: to_str.simps)
  have mem: "?a \<in> set (elems (fld ?m ''artifacts''))"
    by (simp add: sample_native_manifest_def)
  obtain t fn rp where "fld ?a ''artifact_filename'' = JStr fn" "fld ?a ''relative_path'' = JStr rp"
      "split_on CHR ''/'' rp = [''dist'', ''native'', t, fn]"
    using native_manifest_path_components [OF ok mem] by blast
  then show ?thesis by (auto simp: sample_native_manifest_def)
qed

text \<open>
  Observation. The two digest-like fields are matched against their patterns without a check
  of their type, and the pattern test converts what it is given: a manifest whose
  \<open>source_commit\<close> and whose artifact's \<open>sha256\<close> are arrays holding one string is accepted
  as it stands.
\<close>

lemma native_manifest_accepts_arrays:
  "validateNativeManifest
     (sample_native_manifest (JArr [JStr (replicate 40 CHR ''a'')]) (JArr [JStr (replicate 64 CHR ''0'')]))
     sample_package_meta =
   Inr (sample_native_manifest (JArr [JStr (replicate 40 CHR ''a'')]) (JArr [JStr (replicate 64 CHR ''0'')]))"
  unfolding validateNativeManifest_spec
  by (rule conjI [OF refl], rule sample_native_accepted) (rule to_str_singleton)+

lemma nat_digits_no_dot: "CHR ''.'' \<notin> set (nat_digits n)"
  using nat_digits_digits [of "CHR ''.''" n] by (auto simp: is_digit_def less_eq_char_def)

lemma supportsLinuxGlibc_numbers:
  "supportsLinuxGlibc (JStr (nat_digits a @ ''.'' @ nat_digits b)) \<longleftrightarrow> a > 2 \<or> a = 2 \<and> b \<ge> 28"
proof -
  have "split_on CHR ''.'' (nat_digits a @ CHR ''.'' # nat_digits b) = [nat_digits a, nat_digits b]"
    by (simp add: split_on_append_sep split_on_plain nat_digits_no_dot)
  then show ?thesis
    by (auto simp: supportsLinuxGlibc_def Let_def list_all_iff digits_val_nat_digits nat_digits_digits)
qed

text \<open>
  On Linux x64 a reported glibc version \<open>a.b\<close> selects the native target
  exactly from 2.28 on, compared as numbers; without a version none is selected; and on no
  runtime is a target selected that is not in the table.
\<close>

lemma targetForRuntime_spec:
  "(targetForRuntime ''linux'' ''x64'' (JStr (nat_digits a @ ''.'' @ nat_digits b)) =
      (if a > 2 \<or> a = 2 \<and> b \<ge> 28 then Some ''linux-x64-gnu'' else None)) \<and>
   targetForRuntime ''linux'' ''x64'' JUndef = None \<and>
   set_option (targetForRuntime platform arch g) \<subseteq> set CANONICAL_TARGET_ORDER"
  by (simp add: targetForRuntime_def supportsLinuxGlibc_numbers [simplified]
      supportsLinuxGlibc_def [of JUndef] CANONICAL_TARGET_ORDER_def)

end
