(* ===== verification/Environment.thy ===== *)
theory Environment
  imports JsData "HOL-Library.Word"
begin

text \<open>
  What the scripts and loaders take from outside the repository, as arguments of the model: a
  file system that answers reads, stats and directory listings, and the digests of
  \<open>node:crypto\<close> and of the Web Crypto API. \<open>hex_digest\<close> is the documented form of a digest
  printed in hexadecimal: a fixed number of lower-case hexadecimal digits.
\<close>

type_synonym byte = "8 word"

lemma unat_byte: "unat (b :: byte) < 256"
  by (rule order.strict_trans2 [OF unsigned_less]) simp

text \<open>A read that fails throws, and \<open>statSync\<close> throws on a missing path.\<close>

datatype file_kind = RegularFile | Directory | OtherFile

record file_system =
  fs_read :: "string \<Rightarrow> byte list option"
  fs_stat :: "string \<Rightarrow> file_kind option"
  fs_list :: "string \<Rightarrow> (string \<times> file_kind) list option"

definition hex_digest :: "nat \<Rightarrow> (byte list \<Rightarrow> string) \<Rightarrow> bool" where
  "hex_digest n h \<longleftrightarrow> (\<forall>bs. length (h bs) = n \<and> list_all is_hex (h bs))"

lemma hex_digest_sha256: "hex_digest 64 h \<Longrightarrow> rx_test hash_pattern (h bs)"
  by (simp add: hex_digest_def hash_pattern_iff)

text \<open>A digest for the witnesses: it has the documented form and tells contents apart by length.\<close>

definition toy_digest :: "byte list \<Rightarrow> string" where
  "toy_digest bs = replicate 63 CHR ''0'' @ [if bs = [] then CHR ''a'' else CHR ''b'']"

lemma toy_digest_hex: "hex_digest 64 toy_digest"
  by (simp add: hex_digest_def toy_digest_def list_all_iff char_class_defs less_eq_char_def)

section \<open>Paths\<close>

text \<open>
  \<open>basename\<close> of \<open>node:path\<close> on a POSIX host: the last component, trailing slashes dropped;
  and \<open>p.split(/[\\/]/).pop()\<close>.
\<close>

definition posix_basename :: "string \<Rightarrow> string" where
  "posix_basename p = last (split_on CHR ''/'' (rev (dropWhile (\<lambda>c. c = CHR ''/'') (rev p))))"

definition last_component :: "string \<Rightarrow> string" where
  "last_component p =
     last (split_on CHR ''/'' (map (\<lambda>c. if c = CHR 0x5C then CHR ''/'' else c) p))"

lemma last_split_no_sep: "c \<notin> set (last (split_on c s))"
  by (metis split_on_no_sep split_on_nonempty last_in_set)

lemma last_component_chars:
  "CHR ''/'' \<notin> set (last_component p)" "CHR 0x5C \<notin> set (last_component p)"
proof -
  show "CHR ''/'' \<notin> set (last_component p)"
    unfolding last_component_def by (rule last_split_no_sep)
  have "set (last_component p) \<subseteq> set (map (\<lambda>c. if c = CHR 0x5C then CHR ''/'' else c) p)"
    unfolding last_component_def by (rule split_on_chars [of _ "CHR ''/''"]) simp
  then show "CHR 0x5C \<notin> set (last_component p)" by (auto split: if_splits)
qed

text \<open>
  \<open>join\<close> and \<open>resolve\<close> of \<open>node:path\<close> on a POSIX host. A normalised path keeps no empty
  or \<open>.\<close> component, and \<open>..\<close> only in front of a relative one.
\<close>

fun norm_parts :: "bool \<Rightarrow> string list \<Rightarrow> string list \<Rightarrow> string list" where
  "norm_parts absolute acc [] = rev acc"
| "norm_parts absolute acc (p # ps) =
     (if p = '''' \<or> p = ''.'' then norm_parts absolute acc ps
      else if p = ''..'' then
        (case acc of
           [] \<Rightarrow> norm_parts absolute (if absolute then [] else [p]) ps
         | q # qs \<Rightarrow> norm_parts absolute (if q = ''..'' then p # acc else qs) ps)
      else norm_parts absolute (p # acc) ps)"

definition posix_normalize :: "string \<Rightarrow> string" where
  "posix_normalize p =
     (if p = [] then ''.''
      else let absolute = starts_with ''/'' p; trailing = ends_with ''/'' p;
             body = join ''/'' (norm_parts absolute [] (split_on CHR ''/'' p)) in
        if body = [] then (if absolute then ''/'' else if trailing then ''./'' else ''.'')
        else (if absolute then ''/'' else '''') @ body @ (if trailing then ''/'' else ''''))"

definition posix_join :: "string list \<Rightarrow> string" where
  "posix_join ps = (let j = join ''/'' (filter (\<lambda>p. p \<noteq> []) ps) in
     if j = [] then ''.'' else posix_normalize j)"

text \<open>\<open>resolve(...ps)\<close>: everything before the last absolute argument is dropped.\<close>

definition posix_resolve :: "string \<Rightarrow> string list \<Rightarrow> string" where
  "posix_resolve cwd ps =
     (let from_absolute = foldl (\<lambda>acc p. if starts_with ''/'' p then [p] else acc @ [p]) [cwd] ps
      in ''/'' @ join ''/'' (norm_parts True [] (concat (map (split_on CHR ''/'') from_absolute))))"

section \<open>Objects built by the code\<close>

text \<open>\<open>{...v, k: x}\<close>: the own properties of \<open>v\<close>, with \<open>k\<close> overwritten in place or added.\<close>

fun obj_update :: "(string \<times> js) list \<Rightarrow> string \<Rightarrow> js \<Rightarrow> (string \<times> js) list" where
  "obj_update [] k x = [(k, x)]"
| "obj_update ((k', y) # ps) k x = (if k' = k then (k, x) # ps else (k', y) # obj_update ps k x)"

definition js_spread :: "js \<Rightarrow> string \<Rightarrow> js \<Rightarrow> js" where
  "js_spread v k x = JObj (obj_update (case v of JObj ps \<Rightarrow> ps | _ \<Rightarrow> []) k x)"

lemma map_of_obj_update: "map_of (obj_update ps k x) = (map_of ps)(k \<mapsto> x)"
  by (induction ps) auto

lemma fld_js_spread: "isPlainObject v \<Longrightarrow> fld (js_spread v k x) j = (if j = k then x else fld v j)"
  by (cases v) (auto simp: js_spread_def map_of_obj_update)

end
