(* ===== verification/NativeAssembly.thy ===== *)
theory NativeAssembly
  imports NativeManifest Environment
begin

text \<open>
  \<open>scripts/native-manifest.mjs\<close>: the assembly of a native manifest from given files. The
  file system and SHA-256 are parameters; everything the script throws is its one assembly
  error, except what the language throws on a malformed item.
\<close>

definition native_assemblyError :: js_error where
  "native_assemblyError = Fail ''native artifact assembly failed''"

text \<open>One item of \<open>validateNativeArtifactInputs\<close>; \<open>seen\<close> holds the targets so far.\<close>

definition native_input_item :: "file_system \<Rightarrow> string list \<Rightarrow> js \<Rightarrow> js res" where
  "native_input_item fs seen item =
     (let targetId = fld item ''targetId''; path = fld item ''path'' in
      if \<not> (isPlainObject item \<or> is_arr item) \<or> \<not> is_str targetId \<or>
         \<not> hasNativeTarget (str_of targetId) \<or> str_of targetId \<in> set seen \<or>
         \<not> is_str path \<or> \<not> ends_with ''.node'' (str_of path)
      then Inl native_assemblyError
      else case fs_stat fs (str_of path) of
        None \<Rightarrow> Inl native_assemblyError
      | Some kind \<Rightarrow>
          if kind \<noteq> RegularFile then Inl native_assemblyError
          else let artifactFilename = posix_basename (str_of path) in
            if length artifactFilename = 0 \<or> artifactFilename \<noteq> last_component (str_of path) \<or>
               \<not> ends_with ''.node'' artifactFilename
            then Inl native_assemblyError
            else Inr (js_spread item ''artifactFilename'' (JStr artifactFilename)))"

fun native_input_loop :: "file_system \<Rightarrow> string list \<Rightarrow> js list \<Rightarrow> js list res" where
  "native_input_loop fs seen [] = Inr []"
| "native_input_loop fs seen (item # items) =
     bindE (native_input_item fs seen item) (\<lambda>out.
     bindE (native_input_loop fs (str_of (fld item ''targetId'') # seen) items) (\<lambda>outs.
       Inr (out # outs)))"

definition validateNativeArtifactInputs :: "file_system \<Rightarrow> js \<Rightarrow> js list res" where
  "validateNativeArtifactInputs fs artifacts =
     (if \<not> is_arr artifacts then Inl native_assemblyError
      else native_input_loop fs [] (elems artifacts))"

text \<open>One entry of the manifest, with the digest of the file.\<close>

definition native_entry :: "string \<Rightarrow> string \<Rightarrow> string \<Rightarrow> string \<Rightarrow> js" where
  "native_entry targetId fn h tool =
     (let target = the (map_of NATIVE_TARGETS targetId) in
      JObj ([(''target_id'', JStr targetId), (''os'', JStr (nt_os target)),
        (''cpu'', JStr (nt_cpu target)), (''abi'', JStr (nt_abi target)),
        (''rust_target'', JStr (nt_rust_target target)),
        (''relative_path'', JStr (''dist/native/'' @ targetId @ ''/'' @ fn)),
        (''artifact_filename'', JStr fn), (''sha256'', JStr h),
        (''toolchain_identifier'', JStr tool)] @
        (case nt_libc target of Some l \<Rightarrow> [(''libc'', JStr l)] | None \<Rightarrow> [])))"

definition native_entry_of_item ::
  "file_system \<Rightarrow> (byte list \<Rightarrow> string) \<Rightarrow> string \<Rightarrow> js \<Rightarrow> js res" where
  "native_entry_of_item fs sha256 tool item =
     (case fs_read fs (str_of (fld item ''path'')) of
        None \<Rightarrow> Inl native_assemblyError
      | Some bytes \<Rightarrow> Inr (native_entry (str_of (fld item ''targetId''))
          (str_of (fld item ''artifactFilename'')) (sha256 bytes) tool))"

definition native_manifest_object :: "string \<Rightarrow> string \<Rightarrow> js list \<Rightarrow> js" where
  "native_manifest_object packageVersion sourceCommit entries = JObj
     [(''schema_version'', JInt 1), (''package_name'', JStr PACKAGE_NAME),
      (''package_version'', JStr packageVersion), (''source_commit'', JStr sourceCommit),
      (''node_api_version'', JInt 8), (''artifacts'', JArr entries)]"

definition package_meta :: "string \<Rightarrow> js" where
  "package_meta version = JObj [(''name'', JStr PACKAGE_NAME), (''version'', JStr version)]"

definition assembleNativeManifest ::
  "file_system \<Rightarrow> (byte list \<Rightarrow> string) \<Rightarrow> js \<Rightarrow> js \<Rightarrow> js \<Rightarrow> js \<Rightarrow> js res" where
  "assembleNativeManifest fs sha256 packageVersion sourceCommit artifacts toolchainIdentifier =
     (if \<not> is_str packageVersion \<or> \<not> rx_test version_pattern (str_of packageVersion) \<or>
         \<not> is_str sourceCommit \<or> \<not> rx_test commit_pattern (str_of sourceCommit) \<or>
         \<not> is_arr artifacts \<or> \<not> nonEmptyString toolchainIdentifier
      then Inl native_assemblyError
      else bindE (validateNativeArtifactInputs fs artifacts) (\<lambda>items.
        let ordered = sort_key (\<lambda>item. index_of CANONICAL_TARGET_ORDER
              (str_of (fld item ''targetId''))) items in
        bindE (mapE (native_entry_of_item fs sha256 (str_of toolchainIdentifier)) ordered) (\<lambda>entries.
        let manifest = native_manifest_object (str_of packageVersion) (str_of sourceCommit) entries in
        case validateNativeManifest manifest (package_meta (str_of packageVersion)) of
          Inl _ \<Rightarrow> Inl native_assemblyError
        | Inr _ \<Rightarrow> Inr manifest)))"

section \<open>What the assembled entries are\<close>

lemma native_entry_fields:
  "fld (native_entry t fn h tool) ''target_id'' = JStr t"
  "fld (native_entry t fn h tool) ''artifact_filename'' = JStr fn"
  "fld (native_entry t fn h tool) ''sha256'' = JStr h"
  by (simp_all add: native_entry_def Let_def)

lemma native_entry_meets_spec:
  assumes "hasNativeTarget t" and "CHR ''/'' \<notin> set fn" and "CHR 0x5C \<notin> set fn"
    and "\<not> str_includes ''..'' fn" and "ends_with ''.node'' fn"
    and "length h = 64" and "list_all is_hex h" and "tool \<noteq> []"
  shows "native_entry_spec (native_entry t fn h tool)"
proof -
  obtain x where x: "map_of NATIVE_TARGETS t = Some x"
    using native_target_exists [OF assms(1)] by blast
  show ?thesis
    unfolding native_entry_spec_def
    by (rule exI [of _ t], rule exI [of _ x], rule exI [of _ fn], rule exI [of _ tool])
      (use x assms in \<open>auto simp: native_entry_def Let_def native_artifact_keys_def split: option.splits\<close>)
qed

text \<open>An input that passed: known target, new, and a file name that is one component.\<close>

lemma native_input_item_Inr:
  assumes "native_input_item fs seen item = Inr out"
  shows "isPlainObject item" and "hasNativeTarget (str_of (fld item ''targetId''))"
    and "str_of (fld item ''targetId'') \<notin> set seen"
    and "fld out ''targetId'' = fld item ''targetId''" and "fld out ''path'' = fld item ''path''"
    and "fld out ''artifactFilename'' = JStr (last_component (str_of (fld item ''path'')))"
    and "ends_with ''.node'' (last_component (str_of (fld item ''path'')))"
proof -
  have obj: "isPlainObject item"
    using assms by (cases item) (auto simp: native_input_item_def Let_def split: if_splits)
  show "isPlainObject item" by (rule obj)
  show "hasNativeTarget (str_of (fld item ''targetId''))"
    and "str_of (fld item ''targetId'') \<notin> set seen"
    and "fld out ''targetId'' = fld item ''targetId''" and "fld out ''path'' = fld item ''path''"
    and "fld out ''artifactFilename'' = JStr (last_component (str_of (fld item ''path'')))"
    and "ends_with ''.node'' (last_component (str_of (fld item ''path'')))"
    using assms obj
    by (auto simp: native_input_item_def Let_def fld_js_spread split: if_splits option.splits)
qed

definition input_ok :: "js \<Rightarrow> bool" where
  "input_ok item \<longleftrightarrow> hasNativeTarget (str_of (fld item ''targetId'')) \<and>
     fld item ''artifactFilename'' = JStr (last_component (str_of (fld item ''path''))) \<and>
     ends_with ''.node'' (last_component (str_of (fld item ''path'')))"

lemma native_input_loop_ok:
  "native_input_loop fs seen items = Inr outs \<Longrightarrow>
     list_all input_ok outs \<and> distinct (map (\<lambda>i. str_of (fld i ''targetId'')) outs) \<and>
     (\<forall>i \<in> set outs. str_of (fld i ''targetId'') \<notin> set seen)"
proof (induction items arbitrary: seen outs)
  case Nil
  then show ?case by simp
next
  case (Cons item items)
  then obtain out rest where o: "native_input_item fs seen item = Inr out" "outs = out # rest"
    "native_input_loop fs (str_of (fld item ''targetId'') # seen) items = Inr rest"
    by (auto simp: res_simps)
  from Cons.IH [OF o(3)] native_input_item_Inr [OF o(1)] show ?case
    by (auto simp: o(2) input_ok_def)
qed

text \<open>Sorting by the position in the order makes the targets ascend.\<close>

lemma sorted_targets_ascend:
  assumes "list_all input_ok items" and "distinct (map (\<lambda>i. str_of (fld i ''targetId'')) items)"
  defines "k \<equiv> \<lambda>item. index_of CANONICAL_TARGET_ORDER (str_of (fld item ''targetId''))"
  shows "sorted_wrt (<) (map k (sort_key k items))"
proof -
  have known: "\<forall>i \<in> set items. str_of (fld i ''targetId'') \<in> set CANONICAL_TARGET_ORDER"
    using assms(1)
    by (auto simp: list_all_iff input_ok_def hasNativeTarget_def native_targets_order simp del: set_map)
  have "inj_on k (set items)"
    using known assms(2) unfolding k_def
    by (auto simp: inj_on_def distinct_map dest!: index_of_inj)
  moreover have "distinct items" using assms(2) by (simp add: distinct_map)
  ultimately have "distinct (map k (sort_key k items))"
    by (simp add: distinct_map)
  then show ?thesis by (simp add: strict_sorted_iff)
qed

lemma validate_assembled:
  assumes "rx_test version_pattern v" and "rx_test commit_pattern c"
    and "native_artifact_loop (-1) [] entries = Inr ()"
  shows "validateNativeManifest (native_manifest_object v c entries) (package_meta v) =
    Inr (native_manifest_object v c entries)"
proof -
  have keys: "exactKeys (native_manifest_object v c entries) native_manifest_keys"
    by (simp add: exactKeys_iff native_manifest_object_def native_manifest_keys_def)
  then have g: "guard_any manifestError
        [Inr (\<not> exactKeys (native_manifest_object v c entries) native_manifest_keys),
         Inr (\<not> strict_eq (JInt 1) (JInt 1)),
         Inr (\<not> strict_eq (JStr PACKAGE_NAME) (JStr PACKAGE_NAME)),
         Inr (\<not> strict_eq (JStr PACKAGE_NAME) (JStr PACKAGE_NAME)),
         Inr (\<not> strict_eq (JStr v) (JStr v)),
         not_re_test version_pattern (JStr v), not_re_test commit_pattern (JStr c),
         Inr (\<not> strict_eq (JInt 8) (JInt 8)), Inr (\<not> is_arr (JArr entries))] = Inr ()"
    using assms(1,2) by (simp add: guard_any_Inr_iff)
  show ?thesis
    unfolding validateNativeManifest_def
    using g assms(3) by (simp add: native_manifest_object_def package_meta_def)
qed

section \<open>Properties\<close>

lemma native_entry_spec_no_dots:
  "native_entry_spec a \<Longrightarrow> fld a ''artifact_filename'' = JStr fn \<Longrightarrow> \<not> str_includes ''..'' fn"
  unfolding native_entry_spec_def by (elim exE conjE) simp

lemma native_entry_of_item_Inr:
  assumes "native_entry_of_item fs sha256 tool i = Inr e"
  shows "\<exists>bytes. e = native_entry (str_of (fld i ''targetId''))
     (str_of (fld i ''artifactFilename'')) (sha256 bytes) tool"
proof (cases "fs_read fs (str_of (fld i ''path''))")
  case None
  with assms show ?thesis by (simp add: native_entry_of_item_def)
next
  case (Some bytes)
  with assms have "e = native_entry (str_of (fld i ''targetId''))
     (str_of (fld i ''artifactFilename'')) (sha256 bytes) tool"
    by (simp add: native_entry_of_item_def)
  then show ?thesis by (rule exI)
qed

lemma native_entries_of_items:
  "mapE (native_entry_of_item fs sha256 tool) items = Inr entries \<Longrightarrow>
   list_all2 (\<lambda>i e. \<exists>bytes. e = native_entry (str_of (fld i ''targetId''))
     (str_of (fld i ''artifactFilename'')) (sha256 bytes) tool) items entries"
  unfolding mapE_Inr_iff
  by (erule list_all2_mono) (rule native_entry_of_item_Inr)

text \<open>The validator accepts the entries of checked inputs unless a file name holds \<open>..\<close>.\<close>

lemma native_loop_of_inputs:
  assumes hex: "hex_digest 64 sha256" and tool: "tool \<noteq> []"
    and ok: "list_all input_ok items" and d: "distinct (map (\<lambda>i. str_of (fld i ''targetId'')) items)"
    and es: "mapE (native_entry_of_item fs sha256 tool)
      (sort_key (\<lambda>i. index_of CANONICAL_TARGET_ORDER (str_of (fld i ''targetId''))) items) = Inr entries"
  shows "native_artifact_loop (-1) [] entries = Inr () \<longleftrightarrow>
    (\<forall>i \<in> set items. \<not> str_includes ''..'' (last_component (str_of (fld i ''path''))))"
proof -
  let ?k = "\<lambda>i. index_of CANONICAL_TARGET_ORDER (str_of (fld i ''targetId''))"
  let ?is = "sort_key ?k items"
  note all2 = native_entries_of_items [OF es]
  have fn: "fld i ''artifactFilename'' = JStr (last_component (str_of (fld i ''path'')))"
    and known: "hasNativeTarget (str_of (fld i ''targetId''))"
    and node: "ends_with ''.node'' (last_component (str_of (fld i ''path'')))"
    if "i \<in> set items" for i using ok that by (auto simp: list_all_iff input_ok_def)
  have ids: "map (\<lambda>a. str_of (fld a ''target_id'')) entries = map (\<lambda>i. str_of (fld i ''targetId'')) ?is"
    using all2 by (induction rule: list_all2_induct) (auto simp: native_entry_fields)
  show ?thesis
  proof
    assume "native_artifact_loop (-1) [] entries = Inr ()"
    then have spec: "list_all native_entry_spec entries" by (rule native_entry_loop)
    show "\<forall>i \<in> set items. \<not> str_includes ''..'' (last_component (str_of (fld i ''path'')))"
    proof
      fix i assume i: "i \<in> set items"
      then have "i \<in> set ?is" by simp
      then obtain e h where e: "e \<in> set entries"
        and eq: "e = native_entry (str_of (fld i ''targetId'')) (str_of (fld i ''artifactFilename'')) h tool"
        using list_all2_left [OF all2] by blast
      have "native_entry_spec e" using spec e by (simp only: list_all_iff)
      moreover have "fld e ''artifact_filename'' = JStr (last_component (str_of (fld i ''path'')))"
        unfolding eq native_entry_fields fn [OF i] by simp
      ultimately show "\<not> str_includes ''..'' (last_component (str_of (fld i ''path'')))"
        by (rule native_entry_spec_no_dots)
    qed
  next
    assume dots: "\<forall>i \<in> set items. \<not> str_includes ''..'' (last_component (str_of (fld i ''path'')))"
    have spec: "list_all native_entry_spec entries"
    proof -
      have "native_entry_spec e" if e_in: "e \<in> set entries" for e
      proof -
        obtain i bytes where i: "i \<in> set ?is" and e: "e = native_entry (str_of (fld i ''targetId''))
            (str_of (fld i ''artifactFilename'')) (sha256 bytes) tool"
          using list_all2_right [OF all2 e_in] by blast
        then have "i \<in> set items" by simp
        with dots show ?thesis
          unfolding e fn [OF \<open>i \<in> set items\<close>] str_of.simps
          by (intro native_entry_meets_spec)
            (use hex tool known node last_component_chars in \<open>auto simp: hex_digest_def\<close>)
      qed
      then show ?thesis by (simp add: list_all_iff)
    qed
    have up: "sorted_wrt (<) (map (index_of CANONICAL_TARGET_ORDER)
        (map (\<lambda>a. str_of (fld a ''target_id'')) entries))"
      unfolding ids using sorted_targets_ascend [OF ok d] by (simp add: comp_def)
    have "set (map (\<lambda>a. str_of (fld a ''target_id'')) entries) \<subseteq> set CANONICAL_TARGET_ORDER"
      unfolding ids using known
      unfolding hasNativeTarget_def native_targets_order by auto
    then have "\<forall>a \<in> set entries. 0 \<le> index_of CANONICAL_TARGET_ORDER (str_of (fld a ''target_id''))"
      by (auto intro!: index_of_nonneg)
    then show "native_artifact_loop (-1) [] entries = Inr ()"
      by (intro native_loop_accepts spec up) force+
  qed
qed

text \<open>
  Assembly succeeds exactly when its arguments are well formed, every input is a
  readable file of a known target, none twice, and no file name holds two dots in a row; its
  own validation of the result rejects nothing else, and the result is the manifest of the
  inputs in canonical order.
\<close>

lemma assembleNativeManifest_iff:
  assumes "hex_digest 64 sha256"
  shows "assembleNativeManifest fs sha256 pv sc artifacts tool = Inr m \<longleftrightarrow>
    (\<exists>v c t items entries. pv = JStr v \<and> rx_test version_pattern v \<and>
       sc = JStr c \<and> rx_test commit_pattern c \<and> tool = JStr t \<and> t \<noteq> [] \<and>
       validateNativeArtifactInputs fs artifacts = Inr items \<and>
       mapE (native_entry_of_item fs sha256 t)
         (sort_key (\<lambda>i. index_of CANONICAL_TARGET_ORDER (str_of (fld i ''targetId''))) items) = Inr entries \<and>
       (\<forall>i \<in> set items. \<not> str_includes ''..'' (last_component (str_of (fld i ''path'')))) \<and>
       m = native_manifest_object v c entries \<and>
       validateNativeManifest m (package_meta v) = Inr m)"
    (is "?l \<longleftrightarrow> ?r")
proof -
  have ok: "list_all input_ok items \<and> distinct (map (\<lambda>i. str_of (fld i ''targetId'')) items)"
    if "validateNativeArtifactInputs fs artifacts = Inr items" for items
    using that native_input_loop_ok by (auto simp: validateNativeArtifactInputs_def split: if_splits)
  show ?thesis
  proof
    assume l: ?l
    obtain v c t where args: "pv = JStr v" "rx_test version_pattern v" "sc = JStr c"
        "rx_test commit_pattern c" "tool = JStr t" "t \<noteq> []"
      using l by (auto simp: assembleNativeManifest_def is_str_iff nonEmptyString_iff split: if_splits)
    obtain items entries where res: "validateNativeArtifactInputs fs artifacts = Inr items"
        "mapE (native_entry_of_item fs sha256 t)
         (sort_key (\<lambda>i. index_of CANONICAL_TARGET_ORDER (str_of (fld i ''targetId''))) items) = Inr entries"
        "m = native_manifest_object v c entries"
      and valid: "\<exists>r. validateNativeManifest m (package_meta v) = Inr r"
      using l args unfolding assembleNativeManifest_def Let_def
      by (auto simp only: res_simps str_of.simps split: if_splits)
    have same: "validateNativeManifest m (package_meta v) = Inr m"
      using valid by (auto simp: validateNativeManifest_spec)
    then have "native_artifact_loop (-1) [] entries = Inr ()"
      by (auto simp: native_manifest_guards res(3) native_manifest_object_def)
    then show ?r
      using args res same native_loop_of_inputs [OF assms args(6) _ _ res(2)] ok [OF res(1)] by blast
  next
    assume ?r
    then show ?l
      by (auto simp: assembleNativeManifest_def nonEmptyString_def validateNativeArtifactInputs_def
          Let_def split: if_splits)
  qed
qed

text \<open>Two inputs given out of order, for the witness.\<close>

definition sample_fs :: file_system where
  "sample_fs = \<lparr>fs_read = (\<lambda>p. if p \<in> set [''/a/x.node'', ''/a/y.node''] then Some [1] else None),
     fs_stat = (\<lambda>p. if p \<in> set [''/a/x.node'', ''/a/y.node''] then Some RegularFile else None),
     fs_list = (\<lambda>p. None)\<rparr>"

definition sample_inputs :: js where
  "sample_inputs = JArr
     [JObj [(''targetId'', JStr ''linux-x64-gnu''), (''path'', JStr ''/a/x.node'')],
      JObj [(''targetId'', JStr ''darwin-x64''), (''path'', JStr ''/a/y.node'')]]"

lemma sample_assembly:
  "case assembleNativeManifest sample_fs toy_digest (JStr ''0.2.0'')
     (JStr (replicate 40 CHR ''a'')) sample_inputs (JStr ''rustc'') of
     Inr m \<Rightarrow> map (\<lambda>a. str_of (fld a ''target_id'')) (elems (fld m ''artifacts'')) =
       [''darwin-x64'', ''linux-x64-gnu'']
   | Inl e \<Rightarrow> False"
  by code_simp

lemma assembleNativeManifest_iff_witness:
  "hex_digest 64 toy_digest \<and>
   (\<exists>m v. assembleNativeManifest sample_fs toy_digest (JStr ''0.2.0'')
     (JStr (replicate 40 CHR ''a'')) sample_inputs (JStr ''rustc'') = Inr m \<and>
     validateNativeManifest m (package_meta v) = Inr m)"
proof -
  obtain m where "assembleNativeManifest sample_fs toy_digest (JStr ''0.2.0'')
     (JStr (replicate 40 CHR ''a'')) sample_inputs (JStr ''rustc'') = Inr m"
    using sample_assembly by (cases "assembleNativeManifest sample_fs toy_digest (JStr ''0.2.0'')
     (JStr (replicate 40 CHR ''a'')) sample_inputs (JStr ''rustc'')") simp_all
  then show ?thesis
    using assembleNativeManifest_iff [OF toy_digest_hex, of sample_fs] toy_digest_hex by blast
qed

end
