(* ===== verification/JsHeap.thy ===== *)
theory JsHeap
  imports Environment
begin

text \<open>
  The values and effects of \<open>facade-runtime.mjs\<close>. Unlike parsed JSON, what crosses the
  facade can be any JavaScript value: an object with accessor properties, an object that only
  inherits from \<open>Uint8Array.prototype\<close>, a revoked proxy, a detached buffer. Byte arrays are
  views of buffers that several values can share, so the buffers live in an explicit store and
  every function that allocates, copies or fills one passes the store on.

  \<^item> A property is data or an accessor; the accessor's getter returns a value or throws. Each
    property the code reads is read once, so a getter needs no state.
  \<^item> \<open>VObj own inherited\<close> is an ordinary object, \<open>VRevoked\<close> a revoked proxy (every
    reflective operation on it throws), \<open>VFakeU8\<close> an object whose prototype chain holds
    \<open>Uint8Array.prototype\<close> but which is no typed array.
  \<^item> The names the code reads are none of those that arrays, typed arrays and functions have,
    so they read as \<open>undefined\<close> there.
\<close>

datatype 'v slot = Data 'v | Getter "'v option"

record u8 =
  u8_buf :: nat
  u8_off :: nat
  u8_len :: nat

datatype jv =
    VUndef
  | VNull
  | VBool bool
  | VNum jsnum
  | VStr string
  | VFun
  | VArr "jv list"
  | VObj "(string \<times> jv slot) list" "(string \<times> jv slot) list"
  | VU8 u8
  | VFakeU8
  | VRevoked

text \<open>\<open>CORE_ERROR_CODES\<close>, an enumeration with its strings.\<close>

datatype wallet_code =
    InvalidArgument | InvalidStore | UnsupportedStoreVersion | UnsupportedProfileSchemaVersion
  | ProfileNotFound | SoftwareKeyNotFound | AuthenticationFailed | InvalidMnemonic
  | InvalidPrivateKey | DuplicateProfile | DuplicateSoftwareKey | InvalidAccountIndex
  | NetworkMismatch | CryptoFailure | RandomSourceFailure | SerializationFailure
  | PendingProfileInvalid | BindingFailure

definition CORE_ERROR_CODES :: "(string \<times> wallet_code) list" where
  "CORE_ERROR_CODES =
     [(''InvalidArgument'', InvalidArgument), (''InvalidStore'', InvalidStore),
      (''UnsupportedStoreVersion'', UnsupportedStoreVersion),
      (''UnsupportedProfileSchemaVersion'', UnsupportedProfileSchemaVersion),
      (''ProfileNotFound'', ProfileNotFound), (''SoftwareKeyNotFound'', SoftwareKeyNotFound),
      (''AuthenticationFailed'', AuthenticationFailed), (''InvalidMnemonic'', InvalidMnemonic),
      (''InvalidPrivateKey'', InvalidPrivateKey), (''DuplicateProfile'', DuplicateProfile),
      (''DuplicateSoftwareKey'', DuplicateSoftwareKey),
      (''InvalidAccountIndex'', InvalidAccountIndex), (''NetworkMismatch'', NetworkMismatch),
      (''CryptoFailure'', CryptoFailure), (''RandomSourceFailure'', RandomSourceFailure),
      (''SerializationFailure'', SerializationFailure),
      (''PendingProfileInvalid'', PendingProfileInvalid), (''BindingFailure'', BindingFailure)]"

text \<open>A thrown value: a \<open>WalletCoreError\<close> with its code, or any other value.\<close>

datatype exn = WalletErr wallet_code | Thrown jv

definition type_error :: exn where
  "type_error = Thrown (VObj [(''message'', Data (VStr ''TypeError''))] [])"

abbreviation bindingFailure :: exn where "bindingFailure \<equiv> WalletErr BindingFailure"
abbreviation invalidArgument :: exn where "invalidArgument \<equiv> WalletErr InvalidArgument"

section \<open>Buffers\<close>

text \<open>The store: buffer \<open>i\<close> is the \<open>i\<close>-th element, \<open>None\<close> once it is detached.\<close>

type_synonym heap = "byte list option list"

definition read_view :: "heap \<Rightarrow> u8 \<Rightarrow> byte list option" where
  "read_view h v = (if u8_buf v < length h
     then map_option (\<lambda>bs. take (u8_len v) (drop (u8_off v) bs)) (h ! u8_buf v) else None)"

text \<open>A fresh array of the given bytes: a new buffer at the end of the store, viewed whole.\<close>

definition fresh_view :: "heap \<Rightarrow> byte list \<Rightarrow> u8" where
  "fresh_view h bs = \<lparr>u8_buf = length h, u8_off = 0, u8_len = length bs\<rparr>"

definition zero_range :: "nat \<Rightarrow> nat \<Rightarrow> byte list \<Rightarrow> byte list" where
  "zero_range off len bs =
     take off bs @ replicate (length (take len (drop off bs))) 0 @ drop (off + len) bs"

text \<open>\<open>Uint8Array.prototype.fill.call(v, 0)\<close> on a view that is not detached.\<close>

definition fill_zero :: "u8 \<Rightarrow> heap \<Rightarrow> heap" where
  "fill_zero v h = (if u8_buf v < length h
     then h[u8_buf v := map_option (zero_range (u8_off v) (u8_len v)) (h ! u8_buf v)] else h)"

definition all_zero :: "byte list \<Rightarrow> bool" where
  "all_zero bs \<longleftrightarrow> (\<forall>b \<in> set bs. b = 0)"

text \<open>Nothing but zeros can be read through the view.\<close>

definition wiped :: "heap \<Rightarrow> u8 \<Rightarrow> bool" where
  "wiped h v \<longleftrightarrow> (\<forall>bs. read_view h v = Some bs \<longrightarrow> all_zero bs)"

lemma length_fill_zero [simp]: "length (fill_zero v h) = length h"
  by (simp add: fill_zero_def)

lemma zero_range_nth:
  "i < length bs \<Longrightarrow> zero_range off len bs ! i = (if off \<le> i \<and> i < off + len then 0 else bs ! i)"
  by (auto simp: zero_range_def nth_append min_def)

lemma length_zero_range [simp]: "length (zero_range off len bs) = length bs"
  by (auto simp: zero_range_def min_def)

text \<open>Filling a view wipes it, and no later filling brings anything back.\<close>

lemma wiped_fill_zero: "wiped (fill_zero v h) v"
  by (auto simp: wiped_def read_view_def fill_zero_def all_zero_def in_set_conv_nth zero_range_nth)

lemma all_zero_nth: "all_zero bs \<longleftrightarrow> (\<forall>i < length bs. bs ! i = 0)"
  by (simp add: all_zero_def all_set_conv_all_nth)

lemma all_zero_zero_range:
  "all_zero (take l (drop f bs)) \<Longrightarrow> all_zero (take l (drop f (zero_range off len bs)))"
  by (auto simp: all_zero_nth zero_range_nth)

lemma wiped_fill_zero_other: "wiped h w \<Longrightarrow> wiped (fill_zero v h) w"
  by (auto simp: wiped_def read_view_def fill_zero_def nth_list_update intro!: all_zero_zero_range
      split: if_splits)

text \<open>Filling touches no buffer but the view's own.\<close>

lemma fill_zero_other: "i \<noteq> u8_buf v \<Longrightarrow> fill_zero v h ! i = h ! i"
  by (simp add: fill_zero_def)

lemma read_view_fill_other: "u8_buf w \<noteq> u8_buf v \<Longrightarrow> read_view (fill_zero v h) w = read_view h w"
  by (simp add: read_view_def fill_zero_other)

lemma read_view_append: "u8_buf v < length h \<Longrightarrow> read_view (h @ k) v = read_view h v"
  by (simp add: read_view_def nth_append)

lemma read_fresh_view: "read_view (h @ Some bs # k) (fresh_view h bs) = Some bs"
  by (simp add: read_view_def fresh_view_def)

section \<open>Reflection\<close>

fun is_object :: "jv \<Rightarrow> bool" where
  "is_object (VArr xs) = True"
| "is_object (VObj own inh) = True"
| "is_object (VU8 v) = True"
| "is_object VFakeU8 = True"
| "is_object VRevoked = True"
| "is_object v = False"

fun run_slot :: "jv slot \<Rightarrow> exn + jv" where
  "run_slot (Data v) = Inr v"
| "run_slot (Getter (Some v)) = Inr v"
| "run_slot (Getter None) = Inl type_error"

text \<open>\<open>value[name]\<close> on an object.\<close>

fun get_prop :: "jv \<Rightarrow> string \<Rightarrow> exn + jv" where
  "get_prop (VObj own inh) n =
     (case map_of own n of Some s \<Rightarrow> run_slot s
      | None \<Rightarrow> (case map_of inh n of Some s \<Rightarrow> run_slot s | None \<Rightarrow> Inr VUndef))"
| "get_prop VRevoked n = Inl type_error"
| "get_prop v n = Inr VUndef"

text \<open>\<open>Object.getOwnPropertyDescriptor(value, name)\<close>.\<close>

fun own_descriptor :: "jv \<Rightarrow> string \<Rightarrow> exn + jv slot option" where
  "own_descriptor (VObj own inh) n = Inr (map_of own n)"
| "own_descriptor VRevoked n = Inl type_error"
| "own_descriptor v n = Inr None"

text \<open>\<open>value instanceof Uint8Array\<close> and \<open>Array.isArray(value)\<close>; both throw on a revoked proxy.\<close>

fun instanceof_u8 :: "jv \<Rightarrow> exn + bool" where
  "instanceof_u8 (VU8 v) = Inr True"
| "instanceof_u8 VFakeU8 = Inr True"
| "instanceof_u8 VRevoked = Inl type_error"
| "instanceof_u8 v = Inr False"

fun is_array :: "jv \<Rightarrow> exn + bool" where
  "is_array (VArr xs) = Inr True"
| "is_array VRevoked = Inl type_error"
| "is_array v = Inr False"

fun v_elems :: "jv \<Rightarrow> jv list" where
  "v_elems (VArr xs) = xs"
| "v_elems v = []"

fun is_vstr :: "jv \<Rightarrow> bool" where
  "is_vstr (VStr s) = True"
| "is_vstr v = False"

text \<open>\<open>byteLength\<close> of a typed array: 0 once detached; on a fake one the getter throws.\<close>

fun byte_length :: "heap \<Rightarrow> jv \<Rightarrow> exn + nat" where
  "byte_length h (VU8 v) = Inr (case read_view h v of Some bs \<Rightarrow> length bs | None \<Rightarrow> 0)"
| "byte_length h v = Inl type_error"

text \<open>The bytes a copying constructor reads; \<open>None\<close> where it throws.\<close>

fun copy_source :: "heap \<Rightarrow> jv \<Rightarrow> byte list option" where
  "copy_source h (VU8 v) = read_view h v"
| "copy_source h v = None"

text \<open>An object literal of the code and a \<open>dtoObject()\<close>: data properties only.\<close>

definition vobj :: "(string \<times> jv) list \<Rightarrow> jv" where
  "vobj ps = VObj (map (\<lambda>(k, v). (k, Data v)) ps) []"

lemma map_of_Data: "map_of (map (\<lambda>(k, v). (k, Data v)) ps) n = map_option Data (map_of ps n)"
  by (induction ps) auto

lemma get_prop_vobj [simp]: "get_prop (vobj ps) n = Inr (case map_of ps n of Some v \<Rightarrow> v | None \<Rightarrow> VUndef)"
  by (simp add: vobj_def map_of_Data split: option.splits)

lemma own_descriptor_vobj [simp]: "own_descriptor (vobj ps) n = Inr (map_option Data (map_of ps n))"
  by (simp add: vobj_def map_of_Data)

lemma is_object_vobj [simp]: "is_object (vobj ps)"
  by (simp add: vobj_def)

section \<open>Commands\<close>

text \<open>A command runs on a store and returns or throws, with the store it leaves.\<close>

type_synonym 'a cmd = "heap \<Rightarrow> (exn + 'a) \<times> heap"

definition pureC :: "exn + 'a \<Rightarrow> 'a cmd" where
  "pureC r h = (r, h)"

definition bindC :: "'a cmd \<Rightarrow> ('a \<Rightarrow> 'b cmd) \<Rightarrow> 'b cmd" where
  "bindC m f h = (case m h of (Inl e, h') \<Rightarrow> (Inl e, h') | (Inr x, h') \<Rightarrow> f x h')"

lemma pureC_run [simp]: "pureC r h = (r, h)"
  by (simp add: pureC_def)

lemma bindC_pure [simp]: "bindC (pureC (Inr x)) f = f x" "bindC (pureC (Inl e)) f = pureC (Inl e)"
  by (auto simp: bindC_def pureC_def)

lemma bindC_Pair: "bindC m f h = (r, h'') \<longleftrightarrow>
    (\<exists>e h'. m h = (Inl e, h') \<and> r = Inl e \<and> h'' = h') \<or>
    (\<exists>x h'. m h = (Inr x, h') \<and> f x h' = (r, h''))"
  by (auto simp: bindC_def split: prod.splits sum.splits)

end
