(* ===== verification/FacadeOutput.thy ===== *)
theory FacadeOutput
  imports JsHeap
begin

text \<open>
  The first half of \<open>packages/wallet-core/src/facade-runtime.mjs\<close>: the conversion of what a
  backend returns into the objects the facade publishes, the clearing of the temporary secret
  buffers of the backend, and the normalisation of whatever it throws.

  The lemmas give, for every normalizer, what it does to the store (it appends fresh buffers
  and changes no existing one), and for \<open>outputSecretReadResult\<close> what is left in memory on
  each of its paths.
\<close>

section \<open>Fields and primitives\<close>

definition requiredObject :: "jv \<Rightarrow> exn + jv" where
  "requiredObject v = (if is_object v then Inr v else Inl bindingFailure)"

text \<open>\<open>property(value, name)\<close>: whatever the getter throws becomes a binding failure.\<close>

definition property :: "jv \<Rightarrow> string \<Rightarrow> exn + jv" where
  "property v n = bindE (requiredObject v) (\<lambda>v.
     (case get_prop v n of Inl _ \<Rightarrow> Inl bindingFailure | Inr x \<Rightarrow> Inr x))"

fun requiredString :: "jv \<Rightarrow> exn + string" where
  "requiredString (VStr s) = Inr s"
| "requiredString v = Inl bindingFailure"

fun requiredNumber :: "jv \<Rightarrow> exn + jsnum" where
  "requiredNumber (VNum n) = (if num_is_finite n then Inr n else Inl bindingFailure)"
| "requiredNumber v = Inl bindingFailure"

text \<open>\<open>outputBytes(value, length)\<close>: a fresh copy, of a required length when one is given.\<close>

definition outputBytes :: "nat option \<Rightarrow> jv \<Rightarrow> u8 cmd" where
  "outputBytes len v h =
     (case instanceof_u8 v of
        Inl e \<Rightarrow> (Inl e, h)
      | Inr False \<Rightarrow> (Inl bindingFailure, h)
      | Inr True \<Rightarrow>
         (case (case len of None \<Rightarrow> Inr () | Some n \<Rightarrow>
             bindE (byte_length h v) (\<lambda>m. if m \<noteq> n then Inl bindingFailure else Inr ())) of
            Inl e \<Rightarrow> (Inl e, h)
          | Inr _ \<Rightarrow>
             (case copy_source h v of
                None \<Rightarrow> (Inl bindingFailure, h)
              | Some bs \<Rightarrow> (Inr (fresh_view h bs), h @ [Some bs]))))"

definition outputNetwork :: "jv \<Rightarrow> exn + jv" where
  "outputNetwork v = (if v \<noteq> VStr ''testnet'' \<and> v \<noteq> VStr ''mainnet'' then Inl bindingFailure else Inr v)"

definition outputChain :: "jv \<Rightarrow> exn + jv" where
  "outputChain v = (if v \<noteq> VStr ''nem'' \<and> v \<noteq> VStr ''symbol'' then Inl bindingFailure else Inr v)"

section \<open>Records\<close>

definition outputWarning :: "jv \<Rightarrow> exn + jv" where
  "outputWarning w =
     bindE (property w ''code'') (\<lambda>c. bindE (requiredString c) (\<lambda>code.
     bindE (property w ''object_type'') (\<lambda>t. bindE (requiredString t) (\<lambda>objectType.
     bindE (property w ''object_id'') (\<lambda>objectId.
     bindE (property w ''field'') (\<lambda>field.
       if objectId \<noteq> VUndef \<and> \<not> is_vstr objectId then Inl bindingFailure
       else if field \<noteq> VUndef \<and> \<not> is_vstr field then Inl bindingFailure
       else Inr (vobj [(''code'', VStr code), (''object_type'', VStr objectType),
                       (''object_id'', objectId), (''field'', field)])))))))"

definition outputWarnings :: "jv \<Rightarrow> exn + jv" where
  "outputWarnings v = bindE (is_array v) (\<lambda>b.
     if \<not> b then Inl bindingFailure
     else bindE (mapE outputWarning (v_elems v)) (\<lambda>ws. Inr (VArr ws)))"

definition outputProfileInfo :: "jv \<Rightarrow> exn + jv" where
  "outputProfileInfo v =
     bindE (property v ''profile_id'') (\<lambda>p. bindE (requiredString p) (\<lambda>profileId.
     bindE (property v ''network'') (\<lambda>n. bindE (outputNetwork n) (\<lambda>network.
     bindE (property v ''software_key_count'') (\<lambda>c. bindE (requiredNumber c) (\<lambda>count.
       if \<not> num_is_integer count \<or> num_neg count then Inl bindingFailure
       else Inr (vobj [(''profile_id'', VStr profileId), (''network'', network),
                       (''software_key_count'', VNum count)])))))))"

definition outputSoftwareKeyOrigin :: "jv \<Rightarrow> exn + jv" where
  "outputSoftwareKeyOrigin v =
     bindE (property v ''kind'') (\<lambda>k. bindE (requiredString k) (\<lambda>kind.
     bindE (property v ''account_index'') (\<lambda>accountIndex.
       if kind = ''derived'' then
         bindE (requiredNumber accountIndex) (\<lambda>index.
           if \<not> num_is_integer index \<or> num_neg index \<or> num_int index > 2147483647
           then Inl bindingFailure
           else Inr (vobj [(''kind'', VStr kind), (''account_index'', VNum index)]))
       else if kind = ''imported'' \<or> kind = ''generated'' then
         (if accountIndex \<noteq> VNull \<and> accountIndex \<noteq> VUndef then Inl bindingFailure
          else Inr (vobj [(''kind'', VStr kind), (''account_index'', VNull)]))
       else Inl bindingFailure)))"

definition outputSoftwareKeyInfo :: "jv \<Rightarrow> exn + jv" where
  "outputSoftwareKeyInfo v =
     bindE (property v ''key_id'') (\<lambda>k. bindE (requiredString k) (\<lambda>keyId.
     bindE (property v ''chain'') (\<lambda>c. bindE (outputChain c) (\<lambda>chain.
     bindE (property v ''origin'') (\<lambda>r. bindE (outputSoftwareKeyOrigin r) (\<lambda>origin.
       Inr (vobj [(''key_id'', VStr keyId), (''chain'', chain), (''origin'', origin)])))))))"

definition outputSoftwareKeyListItem :: "jv \<Rightarrow> exn + jv" where
  "outputSoftwareKeyListItem v =
     bindE (property v ''key_id'') (\<lambda>k. bindE (requiredString k) (\<lambda>keyId.
     bindE (property v ''chain'') (\<lambda>c. bindE (outputChain c) (\<lambda>chain.
       Inr (vobj [(''key_id'', VStr keyId), (''chain'', chain)])))))"

definition outputPublicAccount :: "jv \<Rightarrow> jv cmd" where
  "outputPublicAccount v =
     bindC (pureC (bindE (property v ''key_id'') requiredString)) (\<lambda>keyId.
     bindC (pureC (bindE (property v ''chain'') outputChain)) (\<lambda>chain.
     bindC (pureC (bindE (property v ''network'') outputNetwork)) (\<lambda>network.
     bindC (pureC (property v ''public_key'')) (\<lambda>pk.
     bindC (outputBytes (Some 32) pk) (\<lambda>publicKey.
     bindC (pureC (bindE (property v ''address'') requiredString)) (\<lambda>address.
       pureC (Inr (vobj [(''key_id'', VStr keyId), (''chain'', chain), (''network'', network),
                         (''public_key'', VU8 publicKey), (''address'', VStr address)]))))))))"

definition outputSignature :: "jv \<Rightarrow> jv cmd" where
  "outputSignature v =
     bindC (pureC (property v ''signature'')) (\<lambda>s.
     bindC (outputBytes (Some 64) s) (\<lambda>signature.
       pureC (Inr (vobj [(''signature'', VU8 signature)]))))"

definition outputProfiles :: "jv \<Rightarrow> exn + jv" where
  "outputProfiles v = bindE (is_array v) (\<lambda>b.
     if \<not> b then Inl bindingFailure
     else bindE (mapE outputProfileInfo (v_elems v)) (\<lambda>ps. Inr (VArr ps)))"

definition outputSoftwareKeys :: "jv \<Rightarrow> exn + jv" where
  "outputSoftwareKeys v = bindE (is_array v) (\<lambda>b.
     if \<not> b then Inl bindingFailure
     else bindE (mapE outputSoftwareKeyListItem (v_elems v)) (\<lambda>ks. Inr (VArr ks)))"

definition outputNull :: "jv \<Rightarrow> exn + jv" where
  "outputNull v = (if v \<noteq> VNull then Inl bindingFailure else Inr VNull)"

definition outputReadResult :: "(jv \<Rightarrow> jv cmd) \<Rightarrow> jv \<Rightarrow> jv cmd" where
  "outputReadResult valueNormalizer v =
     bindC (pureC (property v ''value'')) (\<lambda>x.
     bindC (valueNormalizer x) (\<lambda>value.
     bindC (pureC (bindE (property v ''warnings'') outputWarnings)) (\<lambda>warnings.
       pureC (Inr (vobj [(''value'', value), (''warnings'', warnings)])))))"

definition outputMutationResult :: "(jv \<Rightarrow> jv cmd) \<Rightarrow> jv \<Rightarrow> jv cmd" where
  "outputMutationResult valueNormalizer v =
     bindC (pureC (property v ''store'')) (\<lambda>s.
     bindC (outputBytes None s) (\<lambda>store.
     bindC (pureC (property v ''value'')) (\<lambda>x.
     bindC (valueNormalizer x) (\<lambda>value.
     bindC (pureC (bindE (property v ''warnings'') outputWarnings)) (\<lambda>warnings.
       pureC (Inr (vobj [(''store'', VU8 store), (''value'', value), (''warnings'', warnings)])))))))"

section \<open>Secrets\<close>

text \<open>
  \<open>clearSecretBytes(value)\<close>: a typed array is filled with zeros, errors of the fill are
  swallowed, anything else is left alone; \<open>instanceof\<close> is outside the \<open>try\<close>.
\<close>

definition clearSecretBytes :: "jv \<Rightarrow> unit cmd" where
  "clearSecretBytes v h =
     (case v of VU8 w \<Rightarrow> (Inr (), fill_zero w h)
      | _ \<Rightarrow> (case instanceof_u8 v of Inl e \<Rightarrow> (Inl e, h) | Inr _ \<Rightarrow> (Inr (), h)))"

text \<open>\<open>for (const x of xs) clearSecretBytes(x)\<close>.\<close>

fun clear_each :: "jv list \<Rightarrow> unit cmd" where
  "clear_each [] h = (Inr (), h)"
| "clear_each (x # xs) h =
     (case clearSecretBytes x h of (Inl e, h') \<Rightarrow> (Inl e, h') | (Inr _, h') \<Rightarrow> clear_each xs h')"

text \<open>
  The first loop of \<open>outputSecretReadResult\<close>: the sources read so far are returned also when
  a later read throws.
\<close>

fun read_sources :: "jv \<Rightarrow> string list \<Rightarrow> jv list \<Rightarrow> (exn + unit) \<times> jv list" where
  "read_sources secret [] sources = (Inr (), sources)"
| "read_sources secret (n # ns) sources =
     (case property secret n of
        Inl e \<Rightarrow> (Inl e, sources)
      | Inr x \<Rightarrow> read_sources secret ns (sources @ [x]))"

text \<open>The second loop: the copies made so far are returned also when a later copy throws.\<close>

fun copy_sources :: "(jv \<times> nat option) list \<Rightarrow> u8 list \<Rightarrow> heap \<Rightarrow> (exn + unit) \<times> u8 list \<times> heap" where
  "copy_sources [] copies h = (Inr (), copies, h)"
| "copy_sources ((x, len) # xs) copies h =
     (case outputBytes len x h of
        (Inl e, h') \<Rightarrow> (Inl e, copies, h')
      | (Inr c, h') \<Rightarrow> copy_sources xs (copies @ [c]) h')"

text \<open>\<open>finally\<close>: the sources are cleared; if that throws, its exception replaces the outcome.\<close>

definition finally_clear :: "jv list \<Rightarrow> exn + 'a \<Rightarrow> 'a cmd" where
  "finally_clear sources r h =
     (case clear_each sources h of (Inl e, h') \<Rightarrow> (Inl e, h') | (Inr _, h') \<Rightarrow> (r, h'))"

text \<open>\<open>catch (error) { for (copy of copies) clear(copy); throw error; } finally { ... }\<close>.\<close>

definition catch_finally :: "jv list \<Rightarrow> u8 list \<Rightarrow> exn \<Rightarrow> jv cmd" where
  "catch_finally sources copies error h =
     (case clear_each (map VU8 copies) h of
        (Inl e, h') \<Rightarrow> finally_clear sources (Inl e) h'
      | (Inr _, h') \<Rightarrow> finally_clear sources (Inl error) h')"

definition outputSecretReadResult :: "(string \<times> nat option) list \<Rightarrow> jv \<Rightarrow> jv cmd" where
  "outputSecretReadResult flds v h =
     (case bindE (property v ''value'') requiredObject of
        Inl e \<Rightarrow> catch_finally [] [] e h
      | Inr secret \<Rightarrow>
        (case read_sources secret (map fst flds) [] of
           (Inl e, sources) \<Rightarrow> catch_finally sources [] e h
         | (Inr _, sources) \<Rightarrow>
           (case bindE (property v ''warnings'') outputWarnings of
              Inl e \<Rightarrow> catch_finally sources [] e h
            | Inr warnings \<Rightarrow>
              (case copy_sources (zip sources (map snd flds)) [] h of
                 (Inl e, copies, h') \<Rightarrow> catch_finally sources copies e h'
               | (Inr _, copies, h') \<Rightarrow> finally_clear sources
                   (Inr (vobj [(''value'', vobj (zip (map fst flds) (map VU8 copies))),
                               (''warnings'', warnings)])) h'))))"

section \<open>Errors\<close>

text \<open>
  \<open>normalizeOperationError(error)\<close>: the candidates are the error itself when it is a string,
  or its \<open>code\<close> and \<open>message\<close>; the first that is a known code is kept. The result is what
  the caller throws; \<open>error instanceof WalletCoreError\<close> throws itself on a revoked proxy.
\<close>

definition error_candidates :: "jv \<Rightarrow> string list" where
  "error_candidates error = (case error of
     VStr s \<Rightarrow> [s]
   | _ \<Rightarrow> if is_object error then
        (case bindE (get_prop error ''code'') (\<lambda>c. bindE (get_prop error ''message'') (\<lambda>m. Inr [c, m])) of
           Inl _ \<Rightarrow> []
         | Inr vs \<Rightarrow> List.map_filter (\<lambda>v. case v of VStr s \<Rightarrow> Some s | _ \<Rightarrow> None) vs)
      else [])"

definition normalizeOperationError :: "exn \<Rightarrow> exn" where
  "normalizeOperationError e = (case e of
     WalletErr c \<Rightarrow> WalletErr c
   | Thrown v \<Rightarrow>
       if v = VRevoked then type_error
       else case find (\<lambda>s. map_of CORE_ERROR_CODES s \<noteq> None) (error_candidates v) of
          None \<Rightarrow> bindingFailure
        | Some s \<Rightarrow> WalletErr (the (map_of CORE_ERROR_CODES s)))"

section \<open>What the normalizers do to the store\<close>

text \<open>The exceptions of the conversions: binding failures, and the \<open>TypeError\<close>s that escape them.\<close>

definition binding_error :: "exn \<Rightarrow> bool" where
  "binding_error e \<longleftrightarrow> e = bindingFailure \<or> e = type_error"

text \<open>
  What the facade publishes: a tree of strings, numbers, nulls, arrays and objects with data
  properties only, whose byte arrays are views of whole buffers number \<open>n\<close> and up.
\<close>

inductive published :: "nat \<Rightarrow> heap \<Rightarrow> jv \<Rightarrow> bool" for n :: nat and h :: heap where
  "published n h VUndef"
| "published n h VNull"
| "published n h (VStr s)"
| "published n h (VNum x)"
| "n \<le> u8_buf v \<Longrightarrow> u8_buf v < length h \<Longrightarrow> h ! u8_buf v = Some bs \<Longrightarrow> u8_off v = 0 \<Longrightarrow>
     u8_len v = length bs \<Longrightarrow> published n h (VU8 v)"
| "\<forall>x \<in> set xs. published n h x \<Longrightarrow> published n h (VArr xs)"
| "\<forall>x \<in> snd ` set ps. published n h x \<Longrightarrow> published n h (vobj ps)"

inductive_simps published_u8: "published n h (VU8 v)"

lemmas published_leaf = published.intros(1-4)

lemma published_append: "published n h x \<Longrightarrow> published n (h @ k) x"
  by (induction rule: published.induct) (auto intro: published.intros simp: nth_append)

lemma published_weaken: "published n h x \<Longrightarrow> m \<le> n \<Longrightarrow> published m h x"
  by (induction rule: published.induct) (auto intro: published.intros)

lemma published_str: "is_vstr v \<Longrightarrow> published n h v"
  by (cases v) (auto intro: published.intros)

text \<open>
  A conversion that touches no buffer throws a binding error or yields a value with \<open>Q\<close>;
  one rule for each way the code builds conversions from others.
\<close>

definition converts :: "exn + 'a \<Rightarrow> ('a \<Rightarrow> bool) \<Rightarrow> bool" where
  "converts r Q \<longleftrightarrow> (case r of Inl e \<Rightarrow> binding_error e | Inr x \<Rightarrow> Q x)"

definition pure_output :: "(jv \<Rightarrow> exn + jv) \<Rightarrow> bool" where
  "pure_output f \<longleftrightarrow> (\<forall>v. converts (f v) (\<lambda>x. \<forall>n h. published n h x))"

named_theorems converting \<open>rules for what a conversion throws and yields\<close>

lemma converts_bind:
  "converts m P \<Longrightarrow> (\<And>x. P x \<Longrightarrow> converts (f x) Q) \<Longrightarrow> converts (bindE m f) Q"
  by (cases m) (simp_all add: converts_def)

lemma converts_Inr [converting]: "Q x \<Longrightarrow> converts (Inr x) Q"
  by (simp add: converts_def)

lemma converts_fail [converting]: "converts (Inl bindingFailure) Q"
  by (simp add: converts_def binding_error_def)

lemma converts_if [converting]:
  "(b \<Longrightarrow> converts r Q) \<Longrightarrow> (\<not> b \<Longrightarrow> converts s Q) \<Longrightarrow> converts (if b then r else s) Q"
  by simp

lemma converts_property: "converts (property v n) (\<lambda>_. True)"
  by (cases "get_prop v n") (simp_all add: converts_def property_def requiredObject_def binding_error_def)

lemma converts_string: "converts (requiredString v) (\<lambda>s. v = VStr s)"
  by (cases v) (simp_all add: converts_def binding_error_def)

lemma converts_number: "converts (requiredNumber v) (\<lambda>n. v = VNum n \<and> num_is_finite n)"
  by (cases v) (simp_all add: converts_def binding_error_def)

lemma converts_network:
  "converts (outputNetwork v) (\<lambda>x. x = VStr ''testnet'' \<or> x = VStr ''mainnet'')"
  by (auto simp: converts_def outputNetwork_def binding_error_def)

lemma converts_chain:
  "converts (outputChain v) (\<lambda>x. x = VStr ''nem'' \<or> x = VStr ''symbol'')"
  by (auto simp: converts_def outputChain_def binding_error_def)

lemma converts_is_array: "converts (is_array v) (\<lambda>_. True)"
  by (cases v) (simp_all add: converts_def binding_error_def)

lemmas converts_steps [converting] = converts_property [THEN converts_bind]
  converts_string [THEN converts_bind] converts_number [THEN converts_bind]
  converts_network [THEN converts_bind] converts_chain [THEN converts_bind]
  converts_is_array [THEN converts_bind]

lemma converts_mapE: "(\<And>x. converts (f x) Q) \<Longrightarrow> converts (mapE f xs) (list_all Q)"
  by (induction xs) (auto intro!: converting converts_bind [of _ Q] converts_bind [of _ "list_all Q"])

lemma pure_outputD: "pure_output f \<Longrightarrow> converts (f v) (\<lambda>x. \<forall>n h. published n h x)"
  by (simp add: pure_output_def)

lemma published_vobj: "list_all (\<lambda>(k, x). published n h x) ps \<Longrightarrow> published n h (vobj ps)"
  by (rule published.intros) (auto simp: list_all_iff)

lemma published_strs: "x = VStr s \<or> x = VStr t \<Longrightarrow> published n h x"
  by (auto intro: published_leaf)

lemma pure_output_array:
  assumes "pure_output f"
  shows "pure_output (\<lambda>v. bindE (is_array v) (\<lambda>b. if \<not> b then Inl bindingFailure
     else bindE (mapE f (v_elems v)) (\<lambda>ws. Inr (VArr ws))))"
  unfolding pure_output_def
  by (intro allI converting converts_mapE [OF pure_outputD [OF assms], THEN converts_bind])
    (auto simp: list_all_iff intro: published.intros)

lemma outputWarning_pure: "pure_output outputWarning"
  unfolding pure_output_def outputWarning_def
  by (intro allI converting)
    (auto simp: not_less intro!: published_vobj intro: published_leaf published_str)

lemma outputWarnings_pure: "pure_output outputWarnings"
  using pure_output_array [OF outputWarning_pure] by (simp add: outputWarnings_def [abs_def])

lemma outputProfileInfo_pure: "pure_output outputProfileInfo"
  unfolding pure_output_def outputProfileInfo_def
  by (intro allI converting published_vobj) (auto intro: published_leaf)

lemma outputSoftwareKeyOrigin_pure: "pure_output outputSoftwareKeyOrigin"
  unfolding pure_output_def outputSoftwareKeyOrigin_def
  by (intro allI converting published_vobj) (auto intro: published_leaf)

lemma outputSoftwareKeyInfo_pure: "pure_output outputSoftwareKeyInfo"
  unfolding pure_output_def outputSoftwareKeyInfo_def
  by (intro allI converting published_vobj pure_outputD [OF outputSoftwareKeyOrigin_pure, THEN converts_bind])
    (auto intro: published_leaf)

lemma outputSoftwareKeyListItem_pure: "pure_output outputSoftwareKeyListItem"
  unfolding pure_output_def outputSoftwareKeyListItem_def
  by (intro allI converting published_vobj) (auto intro: published_leaf)

lemma outputProfiles_pure: "pure_output outputProfiles"
  using pure_output_array [OF outputProfileInfo_pure] by (simp add: outputProfiles_def [abs_def])

lemma outputSoftwareKeys_pure: "pure_output outputSoftwareKeys"
  using pure_output_array [OF outputSoftwareKeyListItem_pure]
  by (simp add: outputSoftwareKeys_def [abs_def])

lemma outputNull_pure: "pure_output outputNull"
  unfolding pure_output_def outputNull_def by (intro allI converting published_leaf)

text \<open>\<open>outputBytes\<close> appends at most the copy, and its copy is the whole new buffer.\<close>

lemma outputBytes_Inr:
  "outputBytes len v h = (Inr c, h') \<Longrightarrow>
     \<exists>w bs. v = VU8 w \<and> read_view h w = Some bs \<and> h' = h @ [Some bs] \<and> c = fresh_view h bs \<and>
       (\<forall>n. len = Some n \<longrightarrow> length bs = n)"
  by (cases v) (auto simp: outputBytes_def split: option.splits if_splits sum.splits)

lemma outputBytes_Inl: "outputBytes len v h = (Inl e, h') \<Longrightarrow> h' = h \<and> binding_error e"
  by (cases v) (auto simp: outputBytes_def binding_error_def split: option.splits if_splits sum.splits)

lemma published_fresh: "n \<le> length h \<Longrightarrow> published n (h @ Some bs # k) (VU8 (fresh_view h bs))"
  by (rule published.intros(5) [of _ _ _ bs]) (simp_all add: fresh_view_def)


lemma bindC_Inl: "bindC m f h = (Inl e, h'') \<longleftrightarrow>
    m h = (Inl e, h'') \<or> (\<exists>x h'. m h = (Inr x, h') \<and> f x h' = (Inl e, h''))"
  by (auto simp: bindC_def split: prod.splits sum.splits)

lemma bindC_Inr: "bindC m f h = (Inr y, h'') \<longleftrightarrow>
    (\<exists>x h'. m h = (Inr x, h') \<and> f x h' = (Inr y, h''))"
  by (auto simp: bindC_def split: prod.splits sum.splits)

lemma pureC_eq [simp]: "pureC r h = (r', h') \<longleftrightarrow> r' = r \<and> h' = h"
  by (auto simp: pureC_def)

lemma converts_Inl: "converts r Q \<Longrightarrow> r = Inl e \<Longrightarrow> binding_error e"
  by (simp add: converts_def)

lemma converts_weaken: "converts r P \<Longrightarrow> (\<And>x. P x \<Longrightarrow> Q x) \<Longrightarrow> converts r Q"
  by (auto simp: converts_def split: sum.splits)

lemma converts_InrD: "converts r Q \<Longrightarrow> r = Inr x \<Longrightarrow> Q x"
  by (simp add: converts_def)

lemma converts_warnings:
  "converts (bindE (property v n) outputWarnings) (\<lambda>x. \<forall>n h. published n h x)"
  by (rule converts_property [THEN converts_bind]) (rule pure_outputD [OF outputWarnings_pure])

lemma converts_property_string: "converts (bindE (property v n) requiredString) (\<lambda>_. True)"
  by (rule converts_property [THEN converts_bind], rule converts_weaken [OF converts_string]) simp

lemma converts_property_chain: "converts (bindE (property v n) outputChain)
    (\<lambda>x. x = VStr ''nem'' \<or> x = VStr ''symbol'')"
  by (rule converts_property [THEN converts_bind]) (rule converts_chain)

lemma converts_property_network: "converts (bindE (property v n) outputNetwork)
    (\<lambda>x. x = VStr ''testnet'' \<or> x = VStr ''mainnet'')"
  by (rule converts_property [THEN converts_bind]) (rule converts_network)

section \<open>The contract of a normalizer\<close>

text \<open>
  What an operation of the facade relies on when it hands the backend's result to a
  normalizer: only fresh buffers are added, only binding errors are thrown, and the result
  views nothing but the fresh buffers. The contract passes to \<open>outputReadResult\<close> and
  \<open>outputMutationResult\<close>, which wrap a normalizer.
\<close>

locale output_normalizer =
  fixes norm :: "jv \<Rightarrow> jv cmd"
  assumes throws: "norm v h = (Inl e, h') \<Longrightarrow> binding_error e \<and> (\<exists>k. h' = h @ k)"
    and publishes: "norm v h = (Inr x, h') \<Longrightarrow> published (length h) h' x \<and> (\<exists>k. h' = h @ k)"
begin

lemma appends: "norm v h = (r, h') \<Longrightarrow> \<exists>k. h' = h @ k"
  using throws publishes by (cases r) blast+

lemma old_buffers: "norm v h = (r, h') \<Longrightarrow> i < length h \<Longrightarrow> h' ! i = h ! i"
  by (drule appends) (auto simp: nth_append)

lemma read_result: "output_normalizer (outputReadResult norm)"
proof
  fix v h e h'
  assume "outputReadResult norm v h = (Inl e, h')"
  then show "binding_error e \<and> (\<exists>k. h' = h @ k)"
    by (auto simp: outputReadResult_def bindC_Inl dest: throws publishes
        converts_Inl [OF converts_property] converts_Inl [OF converts_warnings])
next
  fix v h x h'
  assume "outputReadResult norm v h = (Inr x, h')"
  then show "published (length h) h' x \<and> (\<exists>k. h' = h @ k)"
    by (auto simp: outputReadResult_def bindC_Inr intro!: published_vobj
        dest!: publishes converts_InrD [OF converts_warnings])
qed

lemma mutation_result: "output_normalizer (outputMutationResult norm)"
proof
  fix v h e h'
  assume "outputMutationResult norm v h = (Inl e, h')"
  then show "binding_error e \<and> (\<exists>k. h' = h @ k)"
    by (fastforce simp: outputMutationResult_def bindC_Inl dest: throws publishes
        outputBytes_Inl outputBytes_Inr
        converts_Inl [OF converts_property] converts_Inl [OF converts_warnings])
next
  fix v h x h'
  assume "outputMutationResult norm v h = (Inr x, h')"
  then obtain s c h1 y z h2 ws where run: "outputBytes None s h = (Inr c, h1)"
      "norm y h1 = (Inr z, h2)" "h' = h2" "\<forall>n h. published n h ws"
      "x = vobj [(''store'', VU8 c), (''value'', z), (''warnings'', ws)]"
    by (auto simp: outputMutationResult_def bindC_Inr dest!: converts_InrD [OF converts_warnings])
  from outputBytes_Inr [OF run(1)] obtain bs where c: "h1 = h @ [Some bs]" "c = fresh_view h bs"
    by blast
  from publishes [OF run(2)] obtain k where k: "published (length h) h2 z" "h2 = h @ Some bs # k"
    using published_weaken [of "Suc (length h)" _ z "length h"] by (auto simp: c)
  have "published (length h) h2 (VU8 c)" unfolding k c by (rule published_fresh) simp
  with k run show "published (length h) h' x \<and> (\<exists>k. h' = h @ k)"
    by (auto intro!: published_vobj)
qed

end

lemma pure_normalizer: "pure_output f \<Longrightarrow> output_normalizer (\<lambda>v. pureC (f v))"
  by unfold_locales (auto dest: pure_outputD converts_Inl converts_InrD)

lemma outputPublicAccount_normalizer: "output_normalizer outputPublicAccount"
proof
  fix v h e h'
  assume "outputPublicAccount v h = (Inl e, h')"
  then show "binding_error e \<and> (\<exists>k. h' = h @ k)"
    by (fastforce simp: outputPublicAccount_def bindC_Inl dest: outputBytes_Inl outputBytes_Inr
        converts_Inl [OF converts_property] converts_Inl [OF converts_property_string]
        converts_Inl [OF converts_property_chain] converts_Inl [OF converts_property_network])
next
  fix v h x h'
  assume "outputPublicAccount v h = (Inr x, h')"
  then show "published (length h) h' x \<and> (\<exists>k. h' = h @ k)"
    by (auto simp: outputPublicAccount_def bindC_Inr intro!: published_vobj published_fresh
        intro: published_leaf published_strs dest!: outputBytes_Inr
        converts_InrD [OF converts_property_chain] converts_InrD [OF converts_property_network])
qed

lemma outputSignature_normalizer: "output_normalizer outputSignature"
  by unfold_locales
    (auto simp: outputSignature_def bindC_Inl bindC_Inr intro!: published_vobj published_fresh
      dest!: outputBytes_Inl outputBytes_Inr converts_Inl [OF converts_property])

lemma outputBytes_normalizer:
  "output_normalizer (\<lambda>v. bindC (outputBytes len v) (\<lambda>c. pureC (Inr (VU8 c))))"
  by unfold_locales
    (auto simp: bindC_Inl bindC_Inr intro!: published_fresh dest!: outputBytes_Inl outputBytes_Inr)

text \<open>The normalizers of the facade's operations.\<close>

interpretation store_bytes: output_normalizer "\<lambda>v. bindC (outputBytes None v) (\<lambda>c. pureC (Inr (VU8 c)))"
  by (rule outputBytes_normalizer)

interpretation profile_info: output_normalizer "\<lambda>v. pureC (outputProfileInfo v)"
  by (rule pure_normalizer [OF outputProfileInfo_pure])

interpretation key_info: output_normalizer "\<lambda>v. pureC (outputSoftwareKeyInfo v)"
  by (rule pure_normalizer [OF outputSoftwareKeyInfo_pure])

interpretation null_value: output_normalizer "\<lambda>v. pureC (outputNull v)"
  by (rule pure_normalizer [OF outputNull_pure])

interpretation profile_list: output_normalizer "\<lambda>v. pureC (outputProfiles v)"
  by (rule pure_normalizer [OF outputProfiles_pure])

interpretation key_list: output_normalizer "\<lambda>v. pureC (outputSoftwareKeys v)"
  by (rule pure_normalizer [OF outputSoftwareKeys_pure])

interpretation public_account: output_normalizer outputPublicAccount
  by (rule outputPublicAccount_normalizer)

interpretation signature_value: output_normalizer outputSignature
  by (rule outputSignature_normalizer)

interpretation profile_mutation: output_normalizer "outputMutationResult (\<lambda>v. pureC (outputProfileInfo v))"
  by (rule profile_info.mutation_result)

interpretation key_mutation: output_normalizer "outputMutationResult (\<lambda>v. pureC (outputSoftwareKeyInfo v))"
  by (rule key_info.mutation_result)

interpretation null_mutation: output_normalizer "outputMutationResult (\<lambda>v. pureC (outputNull v))"
  by (rule null_value.mutation_result)

interpretation profile_list_read: output_normalizer "outputReadResult (\<lambda>v. pureC (outputProfiles v))"
  by (rule profile_list.read_result)

interpretation key_list_read: output_normalizer "outputReadResult (\<lambda>v. pureC (outputSoftwareKeys v))"
  by (rule key_list.read_result)

interpretation account_read: output_normalizer "outputReadResult outputPublicAccount"
  by (rule public_account.read_result)

interpretation signature_read: output_normalizer "outputReadResult outputSignature"
  by (rule signature_value.read_result)

end
