(* ===== verification/FacadeSecrets.thy ===== *)
theory FacadeSecrets
  imports FacadeOutput
begin

text \<open>
  What \<open>outputSecretReadResult\<close> and the clearing functions of \<open>facade-runtime.mjs\<close> leave in
  memory: on every path the secret buffers of the backend are zeros, on success the copies
  hold what they held, on failure no copy holds anything but zeros, and nothing else is
  touched.
\<close>

section \<open>Clearing\<close>

lemma clearSecretBytes_u8 [simp]: "clearSecretBytes (VU8 w) h = (Inr (), fill_zero w h)"
  by (simp add: clearSecretBytes_def)

lemma clearSecretBytes_other: "\<forall>w. v \<noteq> VU8 w \<Longrightarrow> snd (clearSecretBytes v h) = h"
  by (cases v) (simp_all add: clearSecretBytes_def)

lemma clearSecretBytes_throws: "v \<noteq> VRevoked \<Longrightarrow> fst (clearSecretBytes v h) = Inr ()"
  by (cases v) (simp_all add: clearSecretBytes_def)

lemma clearSecretBytes_wiped: "wiped h w \<Longrightarrow> wiped (snd (clearSecretBytes v h)) w"
  by (cases v) (simp_all add: clearSecretBytes_other wiped_fill_zero_other)

lemma clearSecretBytes_length [simp]: "length (snd (clearSecretBytes v h)) = length h"
  by (cases v) (simp_all add: clearSecretBytes_other)

lemma clear_each_Cons:
  "clear_each (x # xs) h = (case fst (clearSecretBytes x h) of
     Inl e \<Rightarrow> (Inl e, snd (clearSecretBytes x h)) | Inr _ \<Rightarrow> clear_each xs (snd (clearSecretBytes x h)))"
  by (simp split: prod.splits sum.splits)

declare clear_each.simps(2) [simp del]

lemma clear_each_length [simp]: "length (snd (clear_each xs h)) = length h"
  by (induction xs arbitrary: h) (auto simp: clear_each_Cons split: sum.splits)

lemma clear_each_wiped: "wiped h w \<Longrightarrow> wiped (snd (clear_each xs h)) w"
  by (induction xs arbitrary: h)
    (auto simp: clear_each_Cons clearSecretBytes_wiped split: sum.splits)

text \<open>Everything up to the first revoked proxy is cleared.\<close>

lemma clear_each_clears:
  "VRevoked \<notin> set pre \<Longrightarrow> wiped (snd (clear_each (pre @ VU8 w # post) h)) w"
  by (induction pre arbitrary: h)
    (auto simp: clear_each_Cons clear_each_wiped wiped_fill_zero clearSecretBytes_throws)

lemma clear_each_untouched:
  "\<forall>w. VU8 w \<in> set xs \<longrightarrow> u8_buf w \<noteq> i \<Longrightarrow> snd (clear_each xs h) ! i = h ! i"
proof (induction xs arbitrary: h)
  case Nil
  then show ?case by simp
next
  case (Cons x xs)
  have "snd (clearSecretBytes x h) ! i = h ! i"
    using Cons.prems by (cases x) (auto simp: clearSecretBytes_other fill_zero_other)
  with Cons show ?case by (auto simp: clear_each_Cons split: sum.splits)
qed

lemma clear_each_append:
  "VRevoked \<notin> set xs \<Longrightarrow> clear_each (xs @ ys) h = clear_each ys (snd (clear_each xs h))"
  by (induction xs arbitrary: h) (auto simp: clear_each_Cons clearSecretBytes_throws)

lemma clear_each_ok: "VRevoked \<notin> set xs \<Longrightarrow> fst (clear_each xs h) = Inr ()"
  by (induction xs arbitrary: h) (auto simp: clear_each_Cons clearSecretBytes_throws)

text \<open>Zeros stay zeros.\<close>

definition zeroed :: "heap \<Rightarrow> nat \<Rightarrow> bool" where
  "zeroed h i \<longleftrightarrow> (\<forall>bs. h ! i = Some bs \<longrightarrow> all_zero bs)"

lemma zeroed_fill: "zeroed h i \<Longrightarrow> zeroed (fill_zero v h) i"
  by (auto simp: zeroed_def fill_zero_def nth_list_update all_zero_nth zero_range_nth)

lemma zeroed_clear_each: "zeroed h i \<Longrightarrow> zeroed (snd (clear_each xs h)) i"
proof (induction xs arbitrary: h)
  case (Cons x xs)
  have "zeroed (snd (clearSecretBytes x h)) i"
    using Cons.prems by (cases x) (auto simp: clearSecretBytes_other zeroed_fill)
  with Cons show ?case by (auto simp: clear_each_Cons split: sum.splits)
qed simp

text \<open>Clearing the views of whole buffers zeroes the buffers.\<close>

lemma zeroed_whole:
  "h ! u8_buf v = Some bs \<Longrightarrow> u8_buf v < length h \<Longrightarrow> u8_off v = 0 \<Longrightarrow> length bs \<le> u8_len v \<Longrightarrow>
     zeroed (fill_zero v h) (u8_buf v)"
  by (auto simp: zeroed_def fill_zero_def all_zero_nth zero_range_nth)

section \<open>Reading and copying\<close>

lemma read_sources_prefix: "\<exists>zs. snd (read_sources secret ns acc) = acc @ zs"
proof (induction ns arbitrary: acc)
  case (Cons n ns)
  show ?case
  proof (cases "property secret n")
    case (Inr x)
    then show ?thesis using Cons.IH [of "acc @ [x]"] by auto
  qed simp
qed simp

lemma read_sources_Inr:
  "read_sources secret ns acc = (Inr u, xs) \<longleftrightarrow>
     (\<exists>ys. xs = acc @ ys \<and> list_all2 (\<lambda>n x. property secret n = Inr x) ns ys)"
  by (induction ns arbitrary: acc) (auto simp: list_all2_Cons1 split: sum.splits)

text \<open>
  The fields before and including the first typed array are read when their getters return.
\<close>

lemma read_sources_reaches:
  assumes "list_all2 (\<lambda>n x. property secret n = Inr x) pre xs" and "property secret n = Inr x"
  shows "\<exists>ys. snd (read_sources secret (pre @ n # post) acc) = acc @ xs @ x # ys"
  using assms(1)
proof (induction pre xs arbitrary: acc rule: list_all2_induct)
  case Nil
  then show ?case using assms(2) read_sources_prefix [of secret post "acc @ [x]"] by auto
next
  case (Cons m ms y ys)
  then show ?case using Cons.IH [of "acc @ [y]"] by simp
qed

text \<open>
  The copies of a run of the second loop: each is the whole of a fresh buffer that holds the
  bytes of its source; the store grows by them alone.
\<close>

definition copied :: "heap \<Rightarrow> heap \<Rightarrow> u8 \<Rightarrow> byte list \<Rightarrow> bool" where
  "copied h h' c bs \<longleftrightarrow> length h \<le> u8_buf c \<and> u8_buf c < length h' \<and> h' ! u8_buf c = Some bs \<and>
     u8_off c = 0 \<and> u8_len c = length bs"

lemma copied_append: "copied h h' c bs \<Longrightarrow> copied h (h' @ k) c bs"
  by (auto simp: copied_def nth_append)

lemma copied_read: "copied h h' c bs \<Longrightarrow> read_view h' c = Some bs"
  by (simp add: copied_def read_view_def)

lemma copied_fresh: "length h \<le> length h1 \<Longrightarrow> copied h (h1 @ Some bs # k) (fresh_view h1 bs) bs"
  by (simp add: copied_def fresh_view_def)

text \<open>The store after some copies: the old buffers and one per copy.\<close>

definition copies_inv :: "heap \<Rightarrow> u8 list \<Rightarrow> heap \<Rightarrow> bool" where
  "copies_inv h0 copies h \<longleftrightarrow> (\<exists>bss. h = h0 @ map Some bss \<and> length copies = length bss \<and>
     (\<forall>i < length bss. copies ! i = \<lparr>u8_buf = length h0 + i, u8_off = 0, u8_len = length (bss ! i)\<rparr>))"

lemma copies_inv_Nil: "copies_inv h [] h"
  by (simp add: copies_inv_def)

lemma copies_inv_step:
  assumes "copies_inv h0 copies h"
  shows "copies_inv h0 (copies @ [fresh_view h bs]) (h @ [Some bs])"
proof -
  from assms obtain bss where "h = h0 @ map Some bss" "length copies = length bss"
    "\<forall>i < length bss. copies ! i = \<lparr>u8_buf = length h0 + i, u8_off = 0, u8_len = length (bss ! i)\<rparr>"
    by (auto simp: copies_inv_def)
  then show ?thesis unfolding copies_inv_def
    by (intro exI [of _ "bss @ [bs]"]) (auto simp: nth_append fresh_view_def less_Suc_eq)
qed

lemma copy_sources_inv:
  "copy_sources xs copies h = (r, cs, h') \<Longrightarrow> copies_inv h0 copies h \<Longrightarrow> copies_inv h0 cs h'"
proof (induction xs arbitrary: copies h)
  case Nil
  then show ?case by simp
next
  case (Cons x xs)
  obtain v len where x: "x = (v, len)" by (cases x)
  show ?case
  proof (cases "outputBytes len v h")
    case (Pair r1 h1)
    show ?thesis
    proof (cases r1)
      case (Inl e)
      then show ?thesis using Cons.prems Pair outputBytes_Inl [of len v h e h1] by (auto simp: x)
    next
      case (Inr c)
      from outputBytes_Inr [of len v h c h1] Pair Inr obtain bs
        where c: "c = fresh_view h bs" "h1 = h @ [Some bs]" by auto
      have "copy_sources xs (copies @ [c]) h1 = (r, cs, h')"
        using Cons.prems(1) Pair Inr by (simp add: x)
      then show ?thesis
        by (rule Cons.IH) (simp add: c copies_inv_step [OF Cons.prems(2)])
    qed
  qed
qed

lemma copies_inv_zeroed:
  assumes "copies_inv h0 copies h" and "length h0 \<le> i" and "i < length h"
  shows "zeroed (snd (clear_each (map VU8 copies) h)) i"
proof -
  from assms(1) obtain bss where b: "h = h0 @ map Some bss" "length copies = length bss"
    "\<forall>i < length bss. copies ! i = \<lparr>u8_buf = length h0 + i, u8_off = 0, u8_len = length (bss ! i)\<rparr>"
    by (auto simp: copies_inv_def)
  let ?j = "i - length h0"
  have j: "?j < length copies" using assms b by simp
  let ?c = "copies ! ?j"
  have c: "?c = \<lparr>u8_buf = i, u8_off = 0, u8_len = length (bss ! ?j)\<rparr>"
    using b assms j by simp
  have len: "length (the (h ! i)) = u8_len ?c" "h ! i \<noteq> None"
    using b assms j c by (auto simp: nth_append)
  have split: "map VU8 copies = map VU8 (take ?j copies) @ VU8 ?c # map VU8 (drop (Suc ?j) copies)"
    by (metis j id_take_nth_drop list.simps(9) map_append)
  show ?thesis
  proof -
    let ?h1 = "snd (clear_each (map VU8 (take ?j copies)) h)"
    have "?h1 ! i = h ! i"
      by (rule clear_each_untouched) (use b j c in \<open>auto simp: in_set_conv_nth\<close>)
    then have z: "zeroed (fill_zero ?c ?h1) i"
      using zeroed_whole [of ?h1 ?c "the (h ! i)"] len c assms(3) by auto
    have "clear_each (map VU8 copies) h = clear_each (map VU8 (drop (Suc ?j) copies)) (fill_zero ?c ?h1)"
      unfolding split by (subst clear_each_append) (auto simp: clear_each_Cons)
    then show ?thesis using zeroed_clear_each [OF z] by simp
  qed
qed


lemma copy_sources_Inr:
  "copy_sources xs acc h = (Inr u, cs, h') \<Longrightarrow>
     \<exists>bss ws. cs = acc @ ws \<and> h' = h @ map Some bss \<and> length bss = length xs \<and> length ws = length xs \<and>
       (\<forall>i < length xs. \<exists>w. fst (xs ! i) = VU8 w \<and>
          read_view (h @ map Some (take i bss)) w = Some (bss ! i) \<and>
          (\<forall>n. snd (xs ! i) = Some n \<longrightarrow> length (bss ! i) = n) \<and>
          ws ! i = \<lparr>u8_buf = length h + i, u8_off = 0, u8_len = length (bss ! i)\<rparr>)"
proof (induction xs arbitrary: acc h)
  case Nil
  then show ?case by simp
next
  case (Cons x xs)
  obtain v len where x: "x = (v, len)" by (cases x)
  obtain c h1 where c: "outputBytes len v h = (Inr c, h1)"
      and rest: "copy_sources xs (acc @ [c]) h1 = (Inr u, cs, h')"
    using Cons.prems by (auto simp: x split: prod.splits sum.splits)
  from outputBytes_Inr [OF c] obtain w bs where w: "v = VU8 w" "read_view h w = Some bs"
      "h1 = h @ [Some bs]" "c = fresh_view h bs" "\<forall>n. len = Some n \<longrightarrow> length bs = n"
    by blast
  from Cons.IH [OF rest] obtain bss ws where ih: "cs = (acc @ [c]) @ ws" "h' = h1 @ map Some bss"
      "length bss = length xs" "length ws = length xs"
      "\<forall>i < length xs. \<exists>w. fst (xs ! i) = VU8 w \<and>
          read_view (h1 @ map Some (take i bss)) w = Some (bss ! i) \<and>
          (\<forall>n. snd (xs ! i) = Some n \<longrightarrow> length (bss ! i) = n) \<and>
          ws ! i = \<lparr>u8_buf = length h1 + i, u8_off = 0, u8_len = length (bss ! i)\<rparr>"
    by blast
  show ?case
  proof (rule exI [of _ "bs # bss"], rule exI [of _ "c # ws"], intro conjI allI impI)
    fix i assume i: "i < length (x # xs)"
    show "\<exists>wa. fst ((x # xs) ! i) = VU8 wa \<and>
          read_view (h @ map Some (take i (bs # bss))) wa = Some ((bs # bss) ! i) \<and>
          (\<forall>n. snd ((x # xs) ! i) = Some n \<longrightarrow> length ((bs # bss) ! i) = n) \<and>
          (c # ws) ! i = \<lparr>u8_buf = length h + i, u8_off = 0, u8_len = length ((bs # bss) ! i)\<rparr>"
    proof (cases i)
      case 0
      then show ?thesis using w by (simp add: x fresh_view_def)
    next
      case (Suc j)
      then show ?thesis using ih(5) [rule_format, of j] i w by simp
    qed
  qed (use ih w in simp_all)
qed

section \<open>The runs of \<open>outputSecretReadResult\<close>\<close>

text \<open>The fields that were read, in their order, up to the first that throws.\<close>

definition secret_sources :: "(string \<times> nat option) list \<Rightarrow> jv \<Rightarrow> jv list" where
  "secret_sources flds secret = snd (read_sources secret (map fst flds) [])"

lemma finally_clear_cases:
  "finally_clear sources r h = (r', h') \<Longrightarrow> h' = snd (clear_each sources h) \<and>
     (r' = r \<or> (\<exists>e. r' = Inl e \<and> VRevoked \<in> set sources))"
  using clear_each_ok [of sources h]
  by (cases "clear_each sources h") (auto simp: finally_clear_def split: sum.splits)

lemma catch_finally_cases:
  "catch_finally sources copies e h = (r, h') \<Longrightarrow>
     h' = snd (clear_each sources (snd (clear_each (map VU8 copies) h))) \<and> (\<exists>e'. r = Inl e')"
proof -
  assume run: "catch_finally sources copies e h = (r, h')"
  have "fst (clear_each (map VU8 copies) h) = Inr ()" by (rule clear_each_ok) auto
  then have "finally_clear sources (Inl e) (snd (clear_each (map VU8 copies) h)) = (r, h')"
    using run by (cases "clear_each (map VU8 copies) h") (simp add: catch_finally_def)
  from finally_clear_cases [OF this] show ?thesis by auto
qed

lemma secret_run_failed:
  assumes "bindE (property v ''value'') requiredObject = Inr secret"
    and "outputSecretReadResult flds v h = (Inl e, h')"
  shows "\<exists>copies h1. copies_inv h copies h1 \<and>
    h' = snd (clear_each (secret_sources flds secret) (snd (clear_each (map VU8 copies) h1)))"
proof (cases "read_sources secret (map fst flds) []")
  case (Pair r1 sources)
  then have src: "secret_sources flds secret = sources" by (simp add: secret_sources_def)
  have early: "?thesis" if "catch_finally sources [] e' h = (Inl e, h')" for e'
    by (rule exI [of _ "[]"], rule exI [of _ h])
      (use catch_finally_cases [OF that] in \<open>simp add: src copies_inv_Nil\<close>)
  show ?thesis
  proof (cases "\<exists>e'. r1 = Inl e' \<or> bindE (property v ''warnings'') outputWarnings = Inl e'")
    case True
    with assms Pair early show ?thesis
      by (cases r1; cases "bindE (property v ''warnings'') outputWarnings")
        (auto simp: outputSecretReadResult_def)
  next
    case False
    then obtain ws where ws: "r1 = Inr ()" "bindE (property v ''warnings'') outputWarnings = Inr ws"
      by (cases r1; cases "bindE (property v ''warnings'') outputWarnings") auto
    obtain r2 copies h1 where cp: "copy_sources (zip sources (map snd flds)) [] h = (r2, copies, h1)"
      by (cases "copy_sources (zip sources (map snd flds)) [] h")
    have inv: "copies_inv h copies h1" by (rule copy_sources_inv [OF cp copies_inv_Nil])
    show ?thesis
    proof (cases r2)
      case (Inl e')
      then have "catch_finally sources copies e' h1 = (Inl e, h')"
        using assms Pair ws cp by (simp add: outputSecretReadResult_def)
      from catch_finally_cases [OF this] inv show ?thesis by (auto simp: src)
    next
      case (Inr u)
      have len: "length sources = length flds"
        using Pair ws read_sources_Inr [of secret "map fst flds" "[]" "()" sources]
        by (auto dest: list_all2_lengthD)
      have "VRevoked \<notin> set sources"
      proof
        assume "VRevoked \<in> set sources"
        then obtain i where "i < length sources" "sources ! i = VRevoked" by (auto simp: in_set_conv_nth)
        with copy_sources_Inr [OF cp [unfolded Inr]] len show False by fastforce
      qed
      then have False
        using assms Pair ws cp Inr finally_clear_cases [of sources _ h1 "Inl e" h']
        by (force simp: outputSecretReadResult_def)
      then show ?thesis ..
    qed
  qed
qed

lemma secret_run_returned:
  assumes "outputSecretReadResult flds v h = (Inr x, h')"
  shows "\<exists>secret warnings copies h1. bindE (property v ''value'') requiredObject = Inr secret \<and>
    bindE (property v ''warnings'') outputWarnings = Inr warnings \<and>
    read_sources secret (map fst flds) [] = (Inr (), secret_sources flds secret) \<and>
    copy_sources (zip (secret_sources flds secret) (map snd flds)) [] h = (Inr (), copies, h1) \<and>
    h' = snd (clear_each (secret_sources flds secret) h1) \<and>
    x = vobj [(''value'', vobj (zip (map fst flds) (map VU8 copies))), (''warnings'', warnings)]"
  using assms
  by (auto simp: outputSecretReadResult_def secret_sources_def
      split: sum.splits prod.splits dest!: catch_finally_cases finally_clear_cases)


lemma read_sources_from:
  "x \<in> set (snd (read_sources secret ns acc)) \<Longrightarrow> x \<in> set acc \<or> (\<exists>n \<in> set ns. property secret n = Inr x)"
proof (induction ns arbitrary: acc)
  case (Cons n ns)
  show ?case
  proof (cases "property secret n")
    case (Inr y)
    then show ?thesis using Cons.IH [of "acc @ [y]"] Cons.prems by auto
  qed (use Cons.prems in simp)
qed simp

lemma copies_inv_prefix:
  assumes "copies_inv h copies h1"
  shows "\<exists>k. h1 = h @ k" and "\<forall>c \<in> set copies. length h \<le> u8_buf c"
  using assms by (auto simp: copies_inv_def in_set_conv_nth)

lemma clear_each_Inl: "clear_each xs h = (Inl e, h') \<Longrightarrow> e = type_error"
proof (induction xs arbitrary: h)
  case (Cons x xs)
  show ?case
  proof (cases "x = VRevoked")
    case True
    then show ?thesis using Cons.prems by (simp add: clear_each_Cons clearSecretBytes_def)
  next
    case False
    then show ?thesis using Cons by (simp add: clear_each_Cons clearSecretBytes_throws)
  qed
qed simp

lemma finally_clear_Inl: "finally_clear xs r h = (Inl e, h') \<Longrightarrow> r = Inl e \<or> e = type_error"
  by (auto simp: finally_clear_def split: prod.splits sum.splits dest: clear_each_Inl)

lemma catch_finally_Inl: "catch_finally xs cs e h = (Inl e', h') \<Longrightarrow> e' = e \<or> e' = type_error"
  by (auto simp: catch_finally_def split: prod.splits sum.splits dest!: finally_clear_Inl clear_each_Inl)

lemma read_sources_Inl: "fst (read_sources secret ns acc) = Inl e \<Longrightarrow> binding_error e"
  by (induction ns arbitrary: acc) (auto split: sum.splits dest: converts_Inl [OF converts_property])

lemma copy_sources_Inl: "fst (copy_sources xs acc h) = Inl e \<Longrightarrow> binding_error e"
proof (induction xs arbitrary: acc h)
  case (Cons x xs)
  obtain v len where x: "x = (v, len)" by (cases x)
  show ?case
  proof (cases "outputBytes len v h")
    case (Pair r h1)
    then show ?thesis using Cons outputBytes_Inl [of len v h] by (cases r) (auto simp: x)
  qed
qed simp

lemma binding_error_const [simp]: "binding_error bindingFailure" "binding_error type_error"
  by (simp_all add: binding_error_def)

lemma outputSecretReadResult_Inl:
  assumes "outputSecretReadResult flds v h = (Inl e, h')" shows "binding_error e"
proof -
  have object: "bindE (property v ''value'') requiredObject = Inl x \<Longrightarrow> binding_error x" for x
    by (auto simp: bindE_Inl_iff requiredObject_def split: if_splits
        dest: converts_Inl [OF converts_property])
  have reads: "read_sources secret ns acc = (Inl x, xs) \<Longrightarrow> binding_error x" for secret ns acc x xs
    using read_sources_Inl [of secret ns acc x] by simp
  have copies: "copy_sources xs acc k = (Inl x, cs, k') \<Longrightarrow> binding_error x" for xs acc k x cs k'
    using copy_sources_Inl [of xs acc k x] by simp
  show ?thesis
    using assms unfolding outputSecretReadResult_def
    by (auto split: sum.splits prod.splits dest!: catch_finally_Inl finally_clear_Inl
        dest: object reads copies converts_Inl [OF converts_warnings])
qed

text \<open>Clearing changes bytes, never the shape of what is published.\<close>

lemma published_shape:
  "published n h x \<Longrightarrow> length h' = length h \<Longrightarrow>
     (\<And>i bs. h ! i = Some bs \<Longrightarrow> \<exists>bs'. h' ! i = Some bs' \<and> length bs' = length bs) \<Longrightarrow> published n h' x"
proof (induction rule: published.induct)
  case (5 v bs)
  from "5.prems"(2) [OF "5.hyps"(3)] obtain bs' where "h' ! u8_buf v = Some bs'" "length bs' = length bs" by blast
  then show ?case using 5 by (auto intro: published.intros)
qed (auto intro: published.intros)

lemma fill_zero_shape: "h ! i = Some bs \<Longrightarrow> \<exists>bs'. fill_zero v h ! i = Some bs' \<and> length bs' = length bs"
  by (cases "i = u8_buf v") (auto simp: fill_zero_def fill_zero_other nth_list_update)

lemma published_fill: "published n h x \<Longrightarrow> published n (fill_zero v h) x"
  by (erule published_shape) (simp_all add: fill_zero_shape)

lemma published_clear_each: "published n h x \<Longrightarrow> published n (snd (clear_each xs h)) x"
proof (induction xs arbitrary: h)
  case (Cons y ys)
  have "published n (snd (clearSecretBytes y h)) x"
    using Cons.prems by (cases y) (simp_all add: clearSecretBytes_other published_fill)
  with Cons show ?case by (auto simp: clear_each_Cons split: sum.splits)
qed simp

lemma copies_published:
  assumes "copies_inv h copies h1" and "c \<in> set copies" shows "published (length h) h1 (VU8 c)"
proof -
  from assms(1) obtain bss where b: "h1 = h @ map Some bss" "length copies = length bss"
    "\<forall>i < length bss. copies ! i = \<lparr>u8_buf = length h + i, u8_off = 0, u8_len = length (bss ! i)\<rparr>"
    by (auto simp: copies_inv_def)
  from assms(2) obtain i where "i < length bss" "c = copies ! i" using b(2) by (auto simp: in_set_conv_nth)
  then show ?thesis using b by (intro published.intros(5) [of _ _ _ "bss ! i"]) (auto simp: nth_append)
qed

lemma outputSecretReadResult_published:
  assumes "outputSecretReadResult flds v h = (Inr x, h')" shows "published (length h) h' x"
proof -
  from secret_run_returned [OF assms] obtain secret warnings copies h1 where
    run: "bindE (property v ''warnings'') outputWarnings = Inr warnings"
    "copy_sources (zip (secret_sources flds secret) (map snd flds)) [] h = (Inr (), copies, h1)"
    "h' = snd (clear_each (secret_sources flds secret) h1)"
    "x = vobj [(''value'', vobj (zip (map fst flds) (map VU8 copies))), (''warnings'', warnings)]"
    by blast
  have inv: "copies_inv h copies h1" by (rule copy_sources_inv [OF run(2) copies_inv_Nil])
  have "published (length h) h1 (vobj (zip (map fst flds) (map VU8 copies)))"
    by (rule published.intros) (auto dest!: set_zip_rightD intro: copies_published [OF inv])
  moreover have "published (length h) h1 warnings"
    using converts_InrD [OF converts_warnings run(1)] by blast
  ultimately have "published (length h) h1 x"
    unfolding run(4) by (intro published_vobj) simp
  then show ?thesis unfolding run(3) by (rule published_clear_each)
qed

lemma outputSecretReadResult_grows:
  "outputSecretReadResult flds v h = (r, h') \<Longrightarrow> length h \<le> length h'"
proof (cases "bindE (property v ''value'') requiredObject")
  case (Inl e)
  assume "outputSecretReadResult flds v h = (r, h')"
  with Inl have "catch_finally [] [] e h = (r, h')" by (simp add: outputSecretReadResult_def)
  then show ?thesis by (auto dest: catch_finally_cases)
next
  case (Inr secret)
  assume run: "outputSecretReadResult flds v h = (r, h')"
  show ?thesis
  proof (cases r)
    case Inl
    with secret_run_failed [OF Inr] run copies_inv_prefix(1) show ?thesis by fastforce
  next
    case (Inr x)
    with secret_run_returned [of flds v h x h'] run obtain cs h1 xs
      where "copy_sources xs [] h = (Inr (), cs, h1)" "length h' = length h1" by auto
    then show ?thesis using copies_inv_prefix(1) [OF copy_sources_inv [OF _ copies_inv_Nil]] by fastforce
  qed
qed

text \<open>
  The values of the fields up to the first that cannot be read or is a revoked proxy; the clearing
  of the sources ends there.
\<close>

definition handed_over :: "(string \<times> nat option) list \<Rightarrow> jv \<Rightarrow> jv list" where
  "handed_over flds secret =
     takeWhile (\<lambda>x. x \<noteq> VRevoked) (map projr (takeWhile (\<lambda>r. \<not> isl r) (map (property secret) (map fst flds))))"

lemma read_sources_values:
  "snd (read_sources secret ns acc) = acc @ map projr (takeWhile (\<lambda>r. \<not> isl r) (map (property secret) ns))"
  by (induction ns arbitrary: acc) (auto split: sum.splits)

lemma clear_each_stops: "snd (clear_each xs h) = snd (clear_each (takeWhile (\<lambda>x. x \<noteq> VRevoked) xs) h)"
proof (induction xs arbitrary: h)
  case (Cons x xs)
  then show ?case by (cases "x = VRevoked") (simp_all add: clear_each_Cons clearSecretBytes_def split: sum.splits)
qed simp

lemma clear_sources: "snd (clear_each (secret_sources flds secret) h) = snd (clear_each (handed_over flds secret) h)"
  by (subst clear_each_stops) (simp add: secret_sources_def handed_over_def read_sources_values)

lemma handed_over_field:
  assumes "x \<in> set (handed_over flds secret)"
  shows "\<exists>name l. (name, l) \<in> set flds \<and> property secret name = Inr x"
proof -
  obtain name l where "(name, l) \<in> set flds" "\<not> isl (property secret name)" "x = projr (property secret name)"
    using assms by (auto simp: handed_over_def dest!: set_takeWhileD)
  then show ?thesis by (cases "property secret name") auto
qed

section \<open>Properties\<close>

lemma secret_run_final:
  assumes "bindE (property v ''value'') requiredObject = Inr secret"
    and "outputSecretReadResult flds v h = (r, h')"
  shows "\<exists>h2. h' = snd (clear_each (secret_sources flds secret) h2)"
proof (cases r)
  case (Inl e)
  then show ?thesis using secret_run_failed [OF assms(1)] assms(2) by blast
next
  case (Inr x)
  then show ?thesis using secret_run_returned [of flds v h x h'] assms by auto
qed

text \<open>
  Property C2. When \<open>outputSecretReadResult\<close> throws, no copy of a secret survives: every
  buffer it allocated holds zeros only.
\<close>

theorem secret_copies_zeroed_on_error:
  assumes "outputSecretReadResult flds v h = (Inl e, h')" and "length h \<le> i" and "i < length h'"
  shows "zeroed h' i"
proof (cases "bindE (property v ''value'') requiredObject")
  case (Inl e')
  then have "catch_finally [] [] e' h = (Inl e, h')"
    using assms(1) by (simp add: outputSecretReadResult_def)
  then show ?thesis using assms(2,3) by (auto dest: catch_finally_cases)
next
  case (Inr secret)
  from secret_run_failed [OF Inr assms(1)] obtain copies h1 where inv: "copies_inv h copies h1"
    and h': "h' = snd (clear_each (secret_sources flds secret) (snd (clear_each (map VU8 copies) h1)))"
    by blast
  from assms(3) have "i < length h1" by (simp add: h')
  from copies_inv_zeroed [OF inv assms(2) this] show ?thesis
    unfolding h' by (rule zeroed_clear_each)
qed

text \<open>
  When \<open>outputSecretReadResult\<close> returns, the object has exactly the requested
  fields under \<open>value\<close>, each a view of a whole new buffer with the bytes that the backend's
  field held before the call (of the required length), and the warnings. The backend's
  fields must view buffers that exist, as every value of a program does.
\<close>

lemma secret_result_copies:
  assumes "outputSecretReadResult flds v h = (Inr x, h')"
    and "property v ''value'' = Inr secret"
    and "\<forall>(n, _) \<in> set flds. \<forall>w. property secret n = Inr (VU8 w) \<longrightarrow> u8_buf w < length h"
  shows "\<exists>warnings copies. x = vobj [(''value'', vobj (zip (map fst flds) (map VU8 copies))),
       (''warnings'', warnings)] \<and> length copies = length flds \<and> length h' = length h + length flds \<and>
     (\<forall>i < length flds. \<exists>w bs. property secret (fst (flds ! i)) = Inr (VU8 w) \<and>
        read_view h w = Some bs \<and> (\<forall>n. snd (flds ! i) = Some n \<longrightarrow> length bs = n) \<and>
        copies ! i = \<lparr>u8_buf = length h + i, u8_off = 0, u8_len = length bs\<rparr> \<and>
        read_view h' (copies ! i) = Some bs)"
proof -
  let ?src = "secret_sources flds secret"
  from secret_run_returned [OF assms(1)] assms(2) obtain warnings copies h1
    where run: "read_sources secret (map fst flds) [] = (Inr (), ?src)"
      "copy_sources (zip ?src (map snd flds)) [] h = (Inr (), copies, h1)"
      "h' = snd (clear_each ?src h1)"
      "x = vobj [(''value'', vobj (zip (map fst flds) (map VU8 copies))), (''warnings'', warnings)]"
    by (auto simp: requiredObject_def split: if_splits)
  have src: "list_all2 (\<lambda>n x. property secret n = Inr x) (map fst flds) ?src"
    using run(1) by (simp add: read_sources_Inr)
  then have len: "length ?src = length flds" by (auto dest: list_all2_lengthD)
  have field: "property secret (fst (flds ! i)) = Inr (?src ! i)" if "i < length flds" for i
    using list_all2_nthD [OF src, of i] that by simp
  from copy_sources_Inr [OF run(2)] len obtain bss where c: "h1 = h @ map Some bss"
      "length bss = length flds" "length copies = length flds" and
      cp: "\<forall>i < length flds. \<exists>w. ?src ! i = VU8 w \<and>
          read_view (h @ map Some (take i bss)) w = Some (bss ! i) \<and>
          (\<forall>n. snd (flds ! i) = Some n \<longrightarrow> length (bss ! i) = n) \<and>
          copies ! i = \<lparr>u8_buf = length h + i, u8_off = 0, u8_len = length (bss ! i)\<rparr>"
    by (auto simp: nth_zip)
  have old: "u8_buf w < length h" if "VU8 w \<in> set ?src" for w
  proof -
    from that obtain i where i: "i < length flds" "?src ! i = VU8 w" using len by (auto simp: in_set_conv_nth)
    from field [OF i(1)] assms(3) nth_mem [OF i(1)] show ?thesis unfolding i(2)
      by (cases "flds ! i") fastforce
  qed
  have "\<exists>w bs. property secret (fst (flds ! i)) = Inr (VU8 w) \<and>
        read_view h w = Some bs \<and> (\<forall>n. snd (flds ! i) = Some n \<longrightarrow> length bs = n) \<and>
        copies ! i = \<lparr>u8_buf = length h + i, u8_off = 0, u8_len = length bs\<rparr> \<and>
        read_view h' (copies ! i) = Some bs" if i: "i < length flds" for i
  proof -
    from cp i obtain w where w: "?src ! i = VU8 w" "read_view (h @ map Some (take i bss)) w = Some (bss ! i)"
        "\<forall>n. snd (flds ! i) = Some n \<longrightarrow> length (bss ! i) = n"
        "copies ! i = \<lparr>u8_buf = length h + i, u8_off = 0, u8_len = length (bss ! i)\<rparr>"
      by blast
    have "VU8 w \<in> set ?src" using w(1) i len by (metis nth_mem)
    then have "read_view h w = Some (bss ! i)" using w(2) by (simp add: old read_view_append)
    moreover have "h' ! (length h + i) = h1 ! (length h + i)"
      unfolding run(3) by (rule clear_each_untouched) (use old in fastforce)
    then have "read_view h' (copies ! i) = Some (bss ! i)"
      using i by (simp add: read_view_def w(4) run(3) c nth_append)
    ultimately show ?thesis using field [OF i] w by auto
  qed
  then show ?thesis using run(3,4) c len by auto
qed

lemma secret_frame_lemma:
  assumes "outputSecretReadResult flds v h = (r, h')" and "property v ''value'' = Inr secret"
    and "i < length h" and "\<forall>w. VU8 w \<in> set (handed_over flds secret) \<longrightarrow> u8_buf w \<noteq> i"
  shows "h' ! i = h ! i"
proof (cases "bindE (property v ''value'') requiredObject")
  case (Inl e')
  then have "catch_finally [] [] e' h = (r, h')"
    using assms(1) by (simp add: outputSecretReadResult_def)
  then show ?thesis by (auto dest: catch_finally_cases)
next
  case (Inr s)
  then have s: "s = secret" using assms(2) by (simp add: requiredObject_def split: if_splits)
  have "\<exists>copies h1. copies_inv h copies h1 \<and> (h' = snd (clear_each (secret_sources flds secret) h1) \<or>
      h' = snd (clear_each (secret_sources flds secret) (snd (clear_each (map VU8 copies) h1))))"
  proof (cases r)
    case (Inl e)
    then show ?thesis using secret_run_failed [OF Inr, of flds h e h'] assms(1) s by blast
  next
    case r: (Inr x)
    from secret_run_returned [of flds v h x h'] assms(1) obtain secret' copies h1 where
        "bindE (property v ''value'') requiredObject = Inr secret'"
        "copy_sources (zip (secret_sources flds secret') (map snd flds)) [] h = (Inr (), copies, h1)"
        "h' = snd (clear_each (secret_sources flds secret') h1)"
      unfolding r by blast
    moreover have "copies_inv h copies h1"
      by (rule copy_sources_inv [OF _ copies_inv_Nil]) (rule calculation)
    ultimately show ?thesis using Inr s by auto
  qed
  then obtain copies h1 where inv: "copies_inv h copies h1" and
      h': "h' = snd (clear_each (secret_sources flds secret) h1) \<or>
      h' = snd (clear_each (secret_sources flds secret) (snd (clear_each (map VU8 copies) h1)))"
    by blast
  have "snd (clear_each (map VU8 copies) h1) ! i = h1 ! i"
    by (rule clear_each_untouched) (use copies_inv_prefix(2) [OF inv] assms(3) in fastforce)
  moreover have "h1 ! i = h ! i"
    using copies_inv_prefix(1) [OF inv] assms(3) by (auto simp: nth_append)
  ultimately show ?thesis
    using h' clear_each_untouched [OF assms(4)] by (auto simp: clear_sources)
qed

text \<open>
  \<open>outputSecretReadResult\<close> changes no buffer but those that the backend's secret
  fields view: the inputs of the caller and everything else keep their bytes.
\<close>

lemma secret_output_frame:
  assumes "outputSecretReadResult flds v h = (r, h')" and "property v ''value'' = Inr secret"
    and "i < length h" and "\<forall>(n, _) \<in> set flds. \<forall>w. property secret n = Inr (VU8 w) \<longrightarrow> u8_buf w \<noteq> i"
  shows "h' ! i = h ! i"
  by (rule secret_frame_lemma [OF assms(1-3)]) (use assms(4) in \<open>fastforce dest: handed_over_field\<close>)

text \<open>
  Property C1. Which secrets \<open>outputSecretReadResult\<close> clears, whatever it does (return, reject a
  field, fail on the warnings): when it is done, only zeros can be read through every array that
  the backend handed over in a field before the first field that cannot be read and the first one
  that is a revoked proxy. There the reading, or the clearing itself, throws, and a secret in a
  later field is not cleared: no other buffer of the store has changed.
\<close>

theorem secret_sources_wiped:
  assumes "outputSecretReadResult flds v h = (r, h')"
    and "property v ''value'' = Inr secret" and "is_object secret"
  shows "(\<forall>w. VU8 w \<in> set (handed_over flds secret) \<longrightarrow> wiped h' w) \<and>
    (\<forall>i < length h. (\<forall>w. VU8 w \<in> set (handed_over flds secret) \<longrightarrow> u8_buf w \<noteq> i) \<longrightarrow> h' ! i = h ! i)"
proof (intro conjI allI impI)
  have s: "bindE (property v ''value'') requiredObject = Inr secret"
    using assms(2,3) by (simp add: requiredObject_def)
  obtain h2 where h': "h' = snd (clear_each (handed_over flds secret) h2)"
    using secret_run_final [OF s assms(1)] by (auto simp: clear_sources)
  fix w assume "VU8 w \<in> set (handed_over flds secret)"
  then obtain pre post where split: "handed_over flds secret = pre @ VU8 w # post" by (auto dest: split_list)
  moreover have "VRevoked \<notin> set (handed_over flds secret)" by (auto simp: handed_over_def dest: set_takeWhileD)
  ultimately show "wiped h' w" unfolding h' by (auto intro: clear_each_clears)
next
  fix i assume "i < length h" "\<forall>w. VU8 w \<in> set (handed_over flds secret) \<longrightarrow> u8_buf w \<noteq> i"
  then show "h' ! i = h ! i" by (rule secret_frame_lemma [OF assms(1,2)])
qed

text \<open>A store with one secret buffer, and a result of the backend that hands it over.\<close>

definition sample_secret_heap :: heap where
  "sample_secret_heap = [Some [7, 7, 7, 1, 2]]"

definition sample_secret_result :: jv where
  "sample_secret_result = vobj
     [(''value'', vobj [(''mnemonic_utf8'', VU8 \<lparr>u8_buf = 0, u8_off = 3, u8_len = 2\<rparr>)]),
      (''warnings'', VArr [])]"

text \<open>The same with warnings that cannot be converted.\<close>

definition sample_secret_bad :: jv where
  "sample_secret_bad = vobj
     [(''value'', vobj [(''mnemonic_utf8'', VU8 \<lparr>u8_buf = 0, u8_off = 3, u8_len = 2\<rparr>),
                        (''pending_profile'', VStr ''no bytes'')]),
      (''warnings'', VArr [])]"

abbreviation "sample_secret_run \<equiv>
  outputSecretReadResult [(''mnemonic_utf8'', None)] sample_secret_result sample_secret_heap"

abbreviation "sample_secret_fail \<equiv>
  outputSecretReadResult [(''mnemonic_utf8'', None), (''pending_profile'', None)]
    sample_secret_bad sample_secret_heap"

lemma sample_secret_runs:
  "snd sample_secret_run = [Some [7, 7, 7, 0, 0], Some [1, 2]]"
  "fst sample_secret_run = Inr (vobj
     [(''value'', vobj [(''mnemonic_utf8'', VU8 \<lparr>u8_buf = 1, u8_off = 0, u8_len = 2\<rparr>)]),
      (''warnings'', VArr [])])"
  "snd sample_secret_fail = [Some [7, 7, 7, 0, 0], Some [0, 0]]"
  "fst sample_secret_fail = Inl bindingFailure"
  by code_simp+

theorem secret_sources_wiped_witness:
  "wiped (snd sample_secret_fail) \<lparr>u8_buf = 0, u8_off = 3, u8_len = 2\<rparr>"
  using secret_sources_wiped [OF prod.collapse [symmetric], of sample_secret_bad "vobj
      [(''mnemonic_utf8'', VU8 \<lparr>u8_buf = 0, u8_off = 3, u8_len = 2\<rparr>), (''pending_profile'', VStr ''no bytes'')]"
      "[(''mnemonic_utf8'', None), (''pending_profile'', None)]" sample_secret_heap]
  by (simp add: sample_secret_bad_def property_def requiredObject_def handed_over_def)

theorem secret_copies_zeroed_on_error_witness:
  "zeroed (snd sample_secret_fail) 1 \<and> fst sample_secret_fail = Inl bindingFailure"
proof
  have "sample_secret_fail = (Inl bindingFailure, snd sample_secret_fail)"
    using sample_secret_runs(4) by (metis prod.collapse)
  then show "zeroed (snd sample_secret_fail) 1"
    by (rule secret_copies_zeroed_on_error) (simp_all add: sample_secret_runs(3), simp add: sample_secret_heap_def)
qed (rule sample_secret_runs)

lemma secret_result_copies_witness:
  "\<exists>x secret copies. fst sample_secret_run = Inr x \<and> property sample_secret_result ''value'' = Inr secret \<and>
     length copies = length [(''mnemonic_utf8'', None :: nat option)] \<and>
     read_view (snd sample_secret_run) (copies ! 0) = Some [1, 2]"
proof -
  let ?x = "vobj [(''value'', vobj [(''mnemonic_utf8'', VU8 \<lparr>u8_buf = 1, u8_off = 0, u8_len = 2\<rparr>)]),
      (''warnings'', VArr [])]"
  let ?s = "vobj [(''mnemonic_utf8'', VU8 \<lparr>u8_buf = 0, u8_off = 3, u8_len = 2\<rparr>)]"
  have run: "sample_secret_run = (Inr ?x, snd sample_secret_run)"
    using sample_secret_runs(2) by (metis prod.collapse)
  have s: "property sample_secret_result ''value'' = Inr ?s"
    by (simp add: sample_secret_result_def property_def requiredObject_def)
  have old: "read_view sample_secret_heap \<lparr>u8_buf = 0, u8_off = 3, u8_len = 2\<rparr> = Some [1, 2]"
    by (simp add: sample_secret_heap_def read_view_def)
  from secret_result_copies [OF run s] show ?thesis
    using old s sample_secret_runs(2)
    by (auto simp: sample_secret_heap_def property_def requiredObject_def)
qed

lemma secret_output_frame_witness:
  "snd (outputSecretReadResult [(''mnemonic_utf8'', None)] sample_secret_result
     (sample_secret_heap @ [Some [5]])) ! 1 = Some [5]"
proof -
  have "property sample_secret_result ''value'' =
      Inr (vobj [(''mnemonic_utf8'', VU8 \<lparr>u8_buf = 0, u8_off = 3, u8_len = 2\<rparr>)])"
    by (simp add: sample_secret_result_def property_def requiredObject_def)
  note frame = secret_output_frame [OF prod.collapse [symmetric] this, where i = 1]
  show ?thesis
    by (subst frame) (auto simp: sample_secret_heap_def property_def requiredObject_def)
qed

end
