(* ===== verification/FacadeInput.thy ===== *)
theory FacadeInput
  imports FacadeSecrets
begin

text \<open>
  The second half of \<open>packages/wallet-core/src/facade-runtime.mjs\<close> up to \<open>invoke\<close>: the
  validation of the arguments of an operation and the snapshots of its request objects.

  A snapshot reads own data properties only, once each, and builds a fresh object from them.
  The abstract requests at the end of the theory say what the accepted request objects
  denote; the lemmas relate every snapshot function to them, in both directions.
\<close>

section \<open>Fields\<close>

definition dtoField :: "bool \<Rightarrow> jv \<Rightarrow> string \<Rightarrow> exn + jv" where
  "dtoField required v n = bindE (requiredObject v) (\<lambda>v.
     (case own_descriptor v n of
        Inl _ \<Rightarrow> Inl bindingFailure
      | Inr None \<Rightarrow> if required then Inl invalidArgument else Inr VUndef
      | Inr (Some (Getter _)) \<Rightarrow> Inl invalidArgument
      | Inr (Some (Data x)) \<Rightarrow> if required \<and> x = VUndef then Inl invalidArgument else Inr x))"

definition dtoFieldString :: "jv \<Rightarrow> string \<Rightarrow> exn + string" where
  "dtoFieldString v n = bindE (dtoField True v n) (\<lambda>x.
     (case x of VStr s \<Rightarrow> Inr s | _ \<Rightarrow> Inl bindingFailure))"

text \<open>\<open>/^[0-9a-fA-F]{8}-[0-9a-fA-F]{4}-[0-9a-fA-F]{4}-[0-9a-fA-F]{4}-[0-9a-fA-F]{12}$/\<close>.\<close>

definition UUID_PATTERN :: rx where
  "UUID_PATTERN = r_seq [r_rep 8 is_xdigit, r_chr CHR ''-'', r_rep 4 is_xdigit, r_chr CHR ''-'',
     r_rep 4 is_xdigit, r_chr CHR ''-'', r_rep 4 is_xdigit, r_chr CHR ''-'', r_rep 12 is_xdigit]"

definition validateUuidValue :: "jv \<Rightarrow> exn + unit" where
  "validateUuidValue v = (case v of
     VStr s \<Rightarrow> if \<not> rx_test UUID_PATTERN s then Inl invalidArgument else Inr ()
   | _ \<Rightarrow> Inl bindingFailure)"

text \<open>\<open>snapshotUint8Array(value)\<close>; \<open>instanceof\<close> is outside the \<open>try\<close>.\<close>

definition snapshotUint8Array :: "jv \<Rightarrow> u8 cmd" where
  "snapshotUint8Array v h =
     (case instanceof_u8 v of
        Inl e \<Rightarrow> (Inl e, h)
      | Inr False \<Rightarrow> (Inl bindingFailure, h)
      | Inr True \<Rightarrow>
          (case copy_source h v of
             None \<Rightarrow> (Inl bindingFailure, h)
           | Some bs \<Rightarrow> (Inr (fresh_view h bs), h @ [Some bs])))"

definition validateNetworkOrChain :: "jv \<Rightarrow> exn + unit" where
  "validateNetworkOrChain v = (case v of
     VNum n \<Rightarrow> if n \<noteq> num_of_int 0 \<and> n \<noteq> num_of_int 1 then Inl invalidArgument else Inr ()
   | _ \<Rightarrow> Inl bindingFailure)"

definition validateAccountIndex :: "jv \<Rightarrow> exn + unit" where
  "validateAccountIndex v = (case v of
     VNum n \<Rightarrow> if \<not> num_is_integer n \<or> num_neg n \<or> num_int n > 2147483647
               then Inl (WalletErr InvalidAccountIndex) else Inr ()
   | _ \<Rightarrow> Inl bindingFailure)"

section \<open>Requests\<close>

definition snapshotExportTarget :: "jv \<Rightarrow> exn + jv" where
  "snapshotExportTarget v =
     bindE (dtoFieldString v ''kind'') (\<lambda>kind.
     if kind \<noteq> ''mnemonic'' \<and> kind \<noteq> ''software_key'' then Inl invalidArgument
     else bindE (dtoFieldString v ''profile_id'') (\<lambda>profileId.
     bindE (validateUuidValue (VStr profileId)) (\<lambda>_.
     bindE (dtoField False v ''key_id'') (\<lambda>keyId.
       if kind = ''mnemonic'' then
         (if keyId \<noteq> VUndef then Inl (if \<not> is_vstr keyId then bindingFailure else invalidArgument)
          else Inr (vobj [(''kind'', VStr kind), (''profile_id'', VStr profileId)]))
       else if keyId = VUndef then Inl invalidArgument
       else bindE (validateUuidValue keyId) (\<lambda>_.
         Inr (vobj [(''kind'', VStr kind), (''profile_id'', VStr profileId), (''key_id'', keyId)]))))))"

definition snapshotExportConfirmation :: "jv \<Rightarrow> string \<Rightarrow> string \<Rightarrow> exn + jv" where
  "snapshotExportConfirmation v inactiveStatus activeStatus =
     bindE (dtoField True v ''target'') (\<lambda>t. bindE (snapshotExportTarget t) (\<lambda>target.
     bindE (dtoFieldString v ''status'') (\<lambda>status.
       if status \<noteq> inactiveStatus \<and> status \<noteq> activeStatus then Inl invalidArgument
       else Inr (vobj [(''target'', target), (''status'', VStr status)]))))"

definition snapshotExportRequest :: "jv \<Rightarrow> exn + jv" where
  "snapshotExportRequest v =
     bindE (dtoField True v ''target'') (\<lambda>t. bindE (snapshotExportTarget t) (\<lambda>target.
     bindE (dtoField True v ''user_request'') (\<lambda>u.
     bindE (snapshotExportConfirmation u ''not_requested'' ''requested'') (\<lambda>userRequest.
     bindE (dtoField True v ''application_confirmation'') (\<lambda>c.
     bindE (snapshotExportConfirmation c ''not_confirmed'' ''confirmed'') (\<lambda>confirmation.
       Inr (vobj [(''target'', target), (''user_request'', userRequest),
                  (''application_confirmation'', confirmation)])))))))"

definition snapshotAccountContext :: "jv \<Rightarrow> exn + jv" where
  "snapshotAccountContext v =
     bindE (dtoFieldString v ''chain'') (\<lambda>chain.
     bindE (dtoFieldString v ''network'') (\<lambda>network.
       if chain \<noteq> ''nem'' \<and> chain \<noteq> ''symbol'' then Inl invalidArgument
       else if network \<noteq> ''testnet'' \<and> network \<noteq> ''mainnet'' then Inl invalidArgument
       else Inr (vobj [(''chain'', VStr chain), (''network'', VStr network)])))"

definition snapshotSigningTarget :: "jv \<Rightarrow> exn + jv" where
  "snapshotSigningTarget v =
     bindE (dtoFieldString v ''profile_id'') (\<lambda>profileId.
     bindE (dtoFieldString v ''key_id'') (\<lambda>keyId.
     bindE (validateUuidValue (VStr profileId)) (\<lambda>_.
     bindE (validateUuidValue (VStr keyId)) (\<lambda>_.
     bindE (dtoField True v ''context'') (\<lambda>c. bindE (snapshotAccountContext c) (\<lambda>context.
       Inr (vobj [(''profile_id'', VStr profileId), (''key_id'', VStr keyId),
                  (''context'', context)])))))))"

definition snapshotSigningApproval :: "jv \<Rightarrow> exn + jv" where
  "snapshotSigningApproval v =
     bindE (dtoFieldString v ''status'') (\<lambda>status.
       if status \<noteq> ''not_approved'' \<and> status \<noteq> ''approved'' then Inl invalidArgument
       else Inr (vobj [(''status'', VStr status)]))"

text \<open>
  \<open>snapshotSigningRequest(value)\<close>: a failure after the copy of the payload clears the copy;
  before it, \<open>clearSecretBytes(undefined)\<close> does nothing.
\<close>

definition snapshotSigningRequest :: "jv \<Rightarrow> jv cmd" where
  "snapshotSigningRequest v h =
     (case bindE (dtoField True v ''target'') snapshotSigningTarget of
        Inl e \<Rightarrow> (Inl e, h)
      | Inr target \<Rightarrow>
         (case bindC (pureC (dtoField True v ''payload'')) snapshotUint8Array h of
            (Inl e, h1) \<Rightarrow> (Inl e, h1)
          | (Inr payload, h1) \<Rightarrow>
             (case bindE (dtoField True v ''approval'') snapshotSigningApproval of
                Inl e \<Rightarrow> (case clearSecretBytes (VU8 payload) h1 of
                    (Inl e', h2) \<Rightarrow> (Inl e', h2) | (Inr _, h2) \<Rightarrow> (Inl e, h2))
              | Inr approval \<Rightarrow>
                  (Inr (vobj [(''target'', target), (''payload'', VU8 payload),
                              (''approval'', approval)]), h1))))"

section \<open>What the accepted arguments denote\<close>

text \<open>Own data properties, the only ones a snapshot reads.\<close>

definition has_data :: "jv \<Rightarrow> string \<Rightarrow> jv \<Rightarrow> bool" where
  "has_data v n x \<longleftrightarrow> (case v of VObj own inh \<Rightarrow> map_of own n = Some (Data x) | _ \<Rightarrow> False)"

definition lacks :: "jv \<Rightarrow> string \<Rightarrow> bool" where
  "lacks v n \<longleftrightarrow> is_object v \<and> v \<noteq> VRevoked \<and>
     (case v of VObj own inh \<Rightarrow> map_of own n \<in> {None, Some (Data VUndef)} | _ \<Rightarrow> True)"

lemma has_data_unique: "has_data v n x \<Longrightarrow> has_data v n y \<Longrightarrow> x = y"
  by (auto simp: has_data_def split: jv.splits)

lemma has_data_vobj [simp]: "has_data (vobj ps) n x \<longleftrightarrow> map_of ps n = Some x"
  by (auto simp: has_data_def vobj_def map_of_Data)

lemma lacks_vobj [simp]: "lacks (vobj ps) n \<longleftrightarrow> map_of ps n \<in> {None, Some VUndef}"
  by (auto simp: lacks_def vobj_def map_of_Data)

lemma dtoField_required: "dtoField True v n = Inr x \<longleftrightarrow> has_data v n x \<and> x \<noteq> VUndef"
  by (cases v) (auto simp: dtoField_def requiredObject_def has_data_def split: option.splits slot.splits)

lemma dtoField_optional: "dtoField False v n = Inr x \<longleftrightarrow> has_data v n x \<or> (x = VUndef \<and> lacks v n)"
  by (cases v) (auto simp: dtoField_def requiredObject_def has_data_def lacks_def
      split: option.splits slot.splits)

lemma dtoFieldString_Inr: "dtoFieldString v n = Inr s \<longleftrightarrow> has_data v n (VStr s)"
proof -
  have "dtoFieldString v n = Inr s \<longleftrightarrow> dtoField True v n = Inr (VStr s)"
    by (cases "dtoField True v n") (auto simp: dtoFieldString_def split: jv.splits)
  then show ?thesis by (simp add: dtoField_required)
qed

definition is_uuid :: "string \<Rightarrow> bool" where
  "is_uuid s \<longleftrightarrow> length s = 36 \<and>
     (\<forall>i < 36. if i \<in> {8, 13, 18, 23} then s ! i = CHR ''-'' else is_xdigit (s ! i))"

lemma lang_seq_rep:
  "rx_lang (RSeq (r_rep n p) r) w \<longleftrightarrow> n \<le> length w \<and> list_all p (take n w) \<and> rx_lang r (drop n w)"
proof
  assume "rx_lang (RSeq (r_rep n p) r) w"
  then show "n \<le> length w \<and> list_all p (take n w) \<and> rx_lang r (drop n w)"
    by (auto simp: lang_seq_simp)
next
  assume "n \<le> length w \<and> list_all p (take n w) \<and> rx_lang r (drop n w)"
  then show "rx_lang (RSeq (r_rep n p) r) w"
    by (intro lang_seq [of _ "take n w" r "drop n w", simplified]) auto
qed

lemma lang_seq_chr: "rx_lang (RSeq (r_chr c) r) w \<longleftrightarrow> (\<exists>v. w = c # v \<and> rx_lang r v)"
  unfolding r_chr_def lang_seq_cls by auto

lemma uuid_blocks:
  "is_uuid s \<longleftrightarrow> length s = 36 \<and> list_all is_xdigit (take 8 s) \<and> s ! 8 = CHR ''-'' \<and>
     list_all is_xdigit (take 4 (drop 9 s)) \<and> s ! 13 = CHR ''-'' \<and>
     list_all is_xdigit (take 4 (drop 14 s)) \<and> s ! 18 = CHR ''-'' \<and>
     list_all is_xdigit (take 4 (drop 19 s)) \<and> s ! 23 = CHR ''-'' \<and>
     list_all is_xdigit (take 12 (drop 24 s))"
proof (cases "length s = 36")
  case False
  then show ?thesis by (auto simp: is_uuid_def)
next
  case True
  have block: "list_all is_xdigit (take n (drop k s)) \<longleftrightarrow> (\<forall>i < 36. k \<le> i \<and> i < k + n \<longrightarrow> is_xdigit (s ! i))"
    if "k + n \<le> 36" for n k
  proof -
    have "list_all is_xdigit (take n (drop k s)) \<longleftrightarrow> (\<forall>j < n. is_xdigit (s ! (k + j)))"
      using True that by (simp add: list_all_length)
    also have "\<dots> \<longleftrightarrow> (\<forall>i < 36. k \<le> i \<and> i < k + n \<longrightarrow> is_xdigit (s ! i))"
    proof
      assume a: "\<forall>j < n. is_xdigit (s ! (k + j))"
      show "\<forall>i < 36. k \<le> i \<and> i < k + n \<longrightarrow> is_xdigit (s ! i)"
      proof (intro allI impI)
        fix i assume i: "k \<le> i \<and> i < k + n"
        then have "i - k < n" by linarith
        then show "is_xdigit (s ! i)" using a [rule_format, of "i - k"] i by simp
      qed
    qed (use that in auto)
    finally show ?thesis .
  qed
  have b0: "list_all is_xdigit (take 8 s) \<longleftrightarrow> (\<forall>i < 36. i < 8 \<longrightarrow> is_xdigit (s ! i))"
    using block [of 0 8] by simp
  note bs = block [of 9 4, simplified] block [of 14 4, simplified] block [of 19 4, simplified]
    block [of 24 12, simplified]
  show ?thesis
  proof
    assume "is_uuid s"
    then have all: "if i \<in> {8, 13, 18, 23} then s ! i = CHR ''-'' else is_xdigit (s ! i)" if "i < 36" for i
      using that by (simp only: is_uuid_def) blast
    have x: "is_xdigit (s ! i)" if "i < 36" "i \<noteq> 8" "i \<noteq> 13" "i \<noteq> 18" "i \<noteq> 23" for i
      using all [OF that(1)] that by simp
    show "length s = 36 \<and> list_all is_xdigit (take 8 s) \<and> s ! 8 = CHR ''-'' \<and>
     list_all is_xdigit (take 4 (drop 9 s)) \<and> s ! 13 = CHR ''-'' \<and>
     list_all is_xdigit (take 4 (drop 14 s)) \<and> s ! 18 = CHR ''-'' \<and>
     list_all is_xdigit (take 4 (drop 19 s)) \<and> s ! 23 = CHR ''-'' \<and>
     list_all is_xdigit (take 12 (drop 24 s))"
      unfolding b0 bs using True all [of 8] all [of 13] all [of 18] all [of 23] by (simp add: x)
  next
    assume r: "length s = 36 \<and> list_all is_xdigit (take 8 s) \<and> s ! 8 = CHR ''-'' \<and>
     list_all is_xdigit (take 4 (drop 9 s)) \<and> s ! 13 = CHR ''-'' \<and>
     list_all is_xdigit (take 4 (drop 14 s)) \<and> s ! 18 = CHR ''-'' \<and>
     list_all is_xdigit (take 4 (drop 19 s)) \<and> s ! 23 = CHR ''-'' \<and>
     list_all is_xdigit (take 12 (drop 24 s))"
    have "if i \<in> {8, 13, 18, 23} then s ! i = CHR ''-'' else is_xdigit (s ! i)" if "i < 36" for i
    proof -
      consider "i < 8" | "i \<in> {8, 13, 18, 23}" | "9 \<le> i \<and> i < 13" | "14 \<le> i \<and> i < 18"
        | "19 \<le> i \<and> i < 23" | "24 \<le> i"
        by (simp, linarith)
      then show ?thesis
        using that r [unfolded b0 bs] by cases auto
    qed
    with True show "is_uuid s" unfolding is_uuid_def by blast
  qed
qed

lemma lang_seq_chr_drop:
  "rx_lang (RSeq (r_chr c) r) (drop n w) \<longleftrightarrow> n < length w \<and> w ! n = c \<and> rx_lang r (drop (Suc n) w)"
proof (cases "n < length w")
  case True
  then have "drop n w = w ! n # drop (Suc n) w" by (rule Cons_nth_drop_Suc [symmetric])
  then show ?thesis using True by (simp add: lang_seq_chr)
qed (simp add: lang_seq_chr)

lemma UUID_PATTERN_iff: "rx_test UUID_PATTERN s \<longleftrightarrow> is_uuid s"
proof -
  have "rx_test UUID_PATTERN s \<longleftrightarrow> length s = 36 \<and> list_all is_xdigit (take 8 s) \<and> s ! 8 = CHR ''-'' \<and>
     list_all is_xdigit (take 4 (drop 9 s)) \<and> s ! 13 = CHR ''-'' \<and>
     list_all is_xdigit (take 4 (drop 14 s)) \<and> s ! 18 = CHR ''-'' \<and>
     list_all is_xdigit (take 4 (drop 19 s)) \<and> s ! 23 = CHR ''-'' \<and> list_all is_xdigit (drop 24 s)"
    unfolding rx_test_iff UUID_PATTERN_def r_seq.simps
    by (auto simp: lang_seq_rep lang_seq_chr_drop drop_drop)
  then show ?thesis unfolding uuid_blocks by (cases "length s = 36") simp_all
qed

lemma validateUuidValue_Inr: "validateUuidValue v = Inr u \<longleftrightarrow> (\<exists>s. v = VStr s \<and> rx_test UUID_PATTERN s)"
  by (auto simp: validateUuidValue_def split: jv.splits)

text \<open>The targets and requests as typed data, and the objects that carry them.\<close>

datatype export_target = MnemonicTarget string | KeyTarget string string

fun target_obj :: "export_target \<Rightarrow> jv" where
  "target_obj (MnemonicTarget p) = vobj [(''kind'', VStr ''mnemonic''), (''profile_id'', VStr p)]"
| "target_obj (KeyTarget p k) =
     vobj [(''kind'', VStr ''software_key''), (''profile_id'', VStr p), (''key_id'', VStr k)]"

fun denotes_target :: "jv \<Rightarrow> export_target \<Rightarrow> bool" where
  "denotes_target v (MnemonicTarget p) \<longleftrightarrow> has_data v ''kind'' (VStr ''mnemonic'') \<and>
     has_data v ''profile_id'' (VStr p) \<and> rx_test UUID_PATTERN p \<and> lacks v ''key_id''"
| "denotes_target v (KeyTarget p k) \<longleftrightarrow> has_data v ''kind'' (VStr ''software_key'') \<and>
     has_data v ''profile_id'' (VStr p) \<and> rx_test UUID_PATTERN p \<and>
     has_data v ''key_id'' (VStr k) \<and> rx_test UUID_PATTERN k"

record export_request =
  er_target :: export_target
  er_user_target :: export_target
  er_requested :: bool
  er_app_target :: export_target
  er_confirmed :: bool

definition confirmation_obj :: "export_target \<Rightarrow> string \<Rightarrow> jv" where
  "confirmation_obj t status = vobj [(''target'', target_obj t), (''status'', VStr status)]"

definition request_obj :: "export_request \<Rightarrow> jv" where
  "request_obj r = vobj
     [(''target'', target_obj (er_target r)),
      (''user_request'', confirmation_obj (er_user_target r)
         (if er_requested r then ''requested'' else ''not_requested'')),
      (''application_confirmation'', confirmation_obj (er_app_target r)
         (if er_confirmed r then ''confirmed'' else ''not_confirmed''))]"

definition denotes_confirmation :: "jv \<Rightarrow> export_target \<Rightarrow> string \<Rightarrow> bool" where
  "denotes_confirmation v t status \<longleftrightarrow>
     (\<exists>tv. has_data v ''target'' tv \<and> denotes_target tv t) \<and> has_data v ''status'' (VStr status)"

definition denotes_request :: "jv \<Rightarrow> export_request \<Rightarrow> bool" where
  "denotes_request v r \<longleftrightarrow>
     (\<exists>tv. has_data v ''target'' tv \<and> denotes_target tv (er_target r)) \<and>
     (\<exists>uv. has_data v ''user_request'' uv \<and> denotes_confirmation uv (er_user_target r)
        (if er_requested r then ''requested'' else ''not_requested'')) \<and>
     (\<exists>cv. has_data v ''application_confirmation'' cv \<and> denotes_confirmation cv (er_app_target r)
        (if er_confirmed r then ''confirmed'' else ''not_confirmed''))"

lemma denotes_target_object: "denotes_target v t \<Longrightarrow> v \<noteq> VUndef"
  by (cases t) (auto simp: has_data_def)

lemma snapshotExportTarget_Inr:
  "snapshotExportTarget v = Inr x \<longleftrightarrow> (\<exists>t. denotes_target v t \<and> x = target_obj t)"
proof
  assume "snapshotExportTarget v = Inr x"
  then obtain kind p k where
    run: "has_data v ''kind'' (VStr kind)" "has_data v ''profile_id'' (VStr p)"
      "rx_test UUID_PATTERN p" "dtoField False v ''key_id'' = Inr k" and
    k: "if kind = ''mnemonic'' then k = VUndef \<and> x = target_obj (MnemonicTarget p)
        else kind = ''software_key'' \<and> (\<exists>s. k = VStr s \<and> rx_test UUID_PATTERN s \<and> x = target_obj (KeyTarget p s))"
    by (auto simp: snapshotExportTarget_def bindE_Inr_iff dtoFieldString_Inr validateUuidValue_Inr
        split: if_splits)
  show "\<exists>t. denotes_target v t \<and> x = target_obj t"
  proof (cases "kind = ''mnemonic''")
    case True
    with run k have "lacks v ''key_id''"
      by (auto simp: dtoField_optional lacks_def has_data_def split: jv.splits)
    with True run k show ?thesis by (intro exI [of _ "MnemonicTarget p"]) simp
  next
    case False
    with k obtain s where "k = VStr s" "rx_test UUID_PATTERN s" "x = target_obj (KeyTarget p s)" by auto
    with False run k show ?thesis
      by (intro exI [of _ "KeyTarget p s"]) (auto simp: dtoField_optional)
  qed
next
  assume "\<exists>t. denotes_target v t \<and> x = target_obj t"
  then obtain t where t: "denotes_target v t" "x = target_obj t" by blast
  show "snapshotExportTarget v = Inr x"
    using t dtoField_optional [of v "''key_id''" VUndef]
    by (cases t) (auto simp: snapshotExportTarget_def bindE_Inr_iff dtoFieldString_Inr
        validateUuidValue_Inr dtoField_optional)
qed

lemma snapshotExportConfirmation_Inr:
  "snapshotExportConfirmation v i a = Inr x \<longleftrightarrow>
     (\<exists>t s. denotes_confirmation v t s \<and> s \<in> {i, a} \<and> x = confirmation_obj t s)"
  by (auto simp: snapshotExportConfirmation_def bindE_Inr_iff dtoField_required dtoFieldString_Inr
      snapshotExportTarget_Inr denotes_confirmation_def confirmation_obj_def split: if_splits
      dest: denotes_target_object)

lemma denotes_confirmation_object: "denotes_confirmation v t s \<Longrightarrow> v \<noteq> VUndef"
  by (auto simp: denotes_confirmation_def has_data_def)

lemma snapshotExportRequest_Inr:
  "snapshotExportRequest v = Inr x \<longleftrightarrow> (\<exists>r. denotes_request v r \<and> x = request_obj r)"
proof
  assume "snapshotExportRequest v = Inr x"
  then obtain tv tx uv ux cv cx where run:
    "dtoField True v ''target'' = Inr tv" "snapshotExportTarget tv = Inr tx"
    "dtoField True v ''user_request'' = Inr uv"
    "snapshotExportConfirmation uv ''not_requested'' ''requested'' = Inr ux"
    "dtoField True v ''application_confirmation'' = Inr cv"
    "snapshotExportConfirmation cv ''not_confirmed'' ''confirmed'' = Inr cx"
    "x = vobj [(''target'', tx), (''user_request'', ux), (''application_confirmation'', cx)]"
    by (auto simp: snapshotExportRequest_def bindE_Inr_iff)
  from run(2) obtain t where t: "denotes_target tv t" "tx = target_obj t"
    by (auto simp: snapshotExportTarget_Inr)
  from run(4) obtain ut us where u: "denotes_confirmation uv ut us"
      "us \<in> {''not_requested'', ''requested''}" "ux = confirmation_obj ut us"
    unfolding snapshotExportConfirmation_Inr by blast
  from run(6) obtain ct cs where c: "denotes_confirmation cv ct cs"
      "cs \<in> {''not_confirmed'', ''confirmed''}" "cx = confirmation_obj ct cs"
    unfolding snapshotExportConfirmation_Inr by blast
  have status: "(if us = ''requested'' then ''requested'' else ''not_requested'') = us"
      "(if cs = ''confirmed'' then ''confirmed'' else ''not_confirmed'') = cs"
    using u(2) c(2) by auto
  note fs = run(1,3,5) [unfolded dtoField_required]
  show "\<exists>r. denotes_request v r \<and> x = request_obj r"
  proof (intro exI conjI)
    let ?r = "\<lparr>er_target = t, er_user_target = ut, er_requested = (us = ''requested''),
        er_app_target = ct, er_confirmed = (cs = ''confirmed'')\<rparr>"
    show "denotes_request v ?r"
      unfolding denotes_request_def export_request.simps status using fs t(1) u(1) c(1) by blast
    show "x = request_obj ?r"
      unfolding request_obj_def export_request.simps status run(7) t(2) u(3) c(3) by (rule refl)
  qed
next
  assume "\<exists>r. denotes_request v r \<and> x = request_obj r"
  then obtain r where r: "denotes_request v r" "x = request_obj r" by blast
  then obtain tv uv cv where d:
    "has_data v ''target'' tv" "denotes_target tv (er_target r)"
    "has_data v ''user_request'' uv" "denotes_confirmation uv (er_user_target r)
        (if er_requested r then ''requested'' else ''not_requested'')"
    "has_data v ''application_confirmation'' cv" "denotes_confirmation cv (er_app_target r)
        (if er_confirmed r then ''confirmed'' else ''not_confirmed'')"
    by (auto simp: denotes_request_def)
  have f: "dtoField True v ''target'' = Inr tv" "dtoField True v ''user_request'' = Inr uv"
     "dtoField True v ''application_confirmation'' = Inr cv"
    using d denotes_target_object denotes_confirmation_object by (auto simp: dtoField_required)
  have t: "snapshotExportTarget tv = Inr (target_obj (er_target r))"
    using d by (auto simp: snapshotExportTarget_Inr)
  have u: "snapshotExportConfirmation uv ''not_requested'' ''requested'' =
      Inr (confirmation_obj (er_user_target r) (if er_requested r then ''requested'' else ''not_requested''))"
    unfolding snapshotExportConfirmation_Inr
    by (intro exI conjI, rule d(4), simp, rule refl)
  have c: "snapshotExportConfirmation cv ''not_confirmed'' ''confirmed'' =
      Inr (confirmation_obj (er_app_target r) (if er_confirmed r then ''confirmed'' else ''not_confirmed''))"
    unfolding snapshotExportConfirmation_Inr
    by (intro exI conjI, rule d(6), simp, rule refl)
  show "snapshotExportRequest v = Inr x"
    by (simp add: snapshotExportRequest_def f t u c r(2) request_obj_def)
qed

section \<open>Signing requests\<close>

record signing_request =
  sr_profile :: string
  sr_key :: string
  sr_chain :: string
  sr_network :: string
  sr_approved :: bool

definition context_obj :: "string \<Rightarrow> string \<Rightarrow> jv" where
  "context_obj chain network = vobj [(''chain'', VStr chain), (''network'', VStr network)]"

definition signing_obj :: "signing_request \<Rightarrow> u8 \<Rightarrow> jv" where
  "signing_obj r payload = vobj
     [(''target'', vobj [(''profile_id'', VStr (sr_profile r)), (''key_id'', VStr (sr_key r)),
         (''context'', context_obj (sr_chain r) (sr_network r))]),
      (''payload'', VU8 payload),
      (''approval'', vobj [(''status'', VStr (if sr_approved r then ''approved'' else ''not_approved''))])]"

definition denotes_context :: "jv \<Rightarrow> string \<Rightarrow> string \<Rightarrow> bool" where
  "denotes_context v chain network \<longleftrightarrow> has_data v ''chain'' (VStr chain) \<and>
     has_data v ''network'' (VStr network) \<and> chain \<in> {''nem'', ''symbol''} \<and>
     network \<in> {''testnet'', ''mainnet''}"

definition denotes_signing :: "jv \<Rightarrow> signing_request \<Rightarrow> bool" where
  "denotes_signing v r \<longleftrightarrow>
     (\<exists>tv cv. has_data v ''target'' tv \<and> has_data tv ''profile_id'' (VStr (sr_profile r)) \<and>
        has_data tv ''key_id'' (VStr (sr_key r)) \<and> rx_test UUID_PATTERN (sr_profile r) \<and>
        rx_test UUID_PATTERN (sr_key r) \<and> has_data tv ''context'' cv \<and>
        denotes_context cv (sr_chain r) (sr_network r)) \<and>
     (\<exists>av. has_data v ''approval'' av \<and>
        has_data av ''status'' (VStr (if sr_approved r then ''approved'' else ''not_approved'')))"

lemma has_data_object: "has_data v n x \<Longrightarrow> v \<noteq> VUndef"
  by (auto simp: has_data_def)

lemma snapshotAccountContext_Inr:
  "snapshotAccountContext v = Inr x \<longleftrightarrow> (\<exists>c n. denotes_context v c n \<and> x = context_obj c n)"
proof
  assume "snapshotAccountContext v = Inr x"
  then show "\<exists>c n. denotes_context v c n \<and> x = context_obj c n"
    by (auto simp: snapshotAccountContext_def bindE_Inr_iff dtoFieldString_Inr denotes_context_def
        context_obj_def split: if_splits)
next
  assume "\<exists>c n. denotes_context v c n \<and> x = context_obj c n"
  then obtain c n where d: "denotes_context v c n" and x: "x = context_obj c n" by blast
  then have "dtoFieldString v ''chain'' = Inr c" "dtoFieldString v ''network'' = Inr n"
    by (simp_all add: dtoFieldString_Inr denotes_context_def)
  with d show "snapshotAccountContext v = Inr x"
    by (auto simp: snapshotAccountContext_def denotes_context_def x context_obj_def)
qed

lemma snapshotSigningTarget_Inr:
  "snapshotSigningTarget v = Inr x \<longleftrightarrow> (\<exists>p k cv c n. has_data v ''profile_id'' (VStr p) \<and>
     has_data v ''key_id'' (VStr k) \<and> rx_test UUID_PATTERN p \<and> rx_test UUID_PATTERN k \<and>
     has_data v ''context'' cv \<and> denotes_context cv c n \<and>
     x = vobj [(''profile_id'', VStr p), (''key_id'', VStr k), (''context'', context_obj c n)])"
  (is "?l \<longleftrightarrow> ?r")
proof
  assume ?l then show ?r
    unfolding snapshotSigningTarget_def bindE_Inr_iff dtoFieldString_Inr validateUuidValue_Inr
      snapshotAccountContext_Inr dtoField_required jv.inject sum.inject by blast
next
  assume ?r
  then obtain p k cv c n where d: "has_data v ''profile_id'' (VStr p)" "has_data v ''key_id'' (VStr k)"
     "rx_test UUID_PATTERN p" "rx_test UUID_PATTERN k" "has_data v ''context'' cv" "denotes_context cv c n"
     "x = vobj [(''profile_id'', VStr p), (''key_id'', VStr k), (''context'', context_obj c n)]"
    by blast
  have "dtoField True v ''context'' = Inr cv"
    using d(5,6) has_data_object by (auto simp: dtoField_required denotes_context_def)
  moreover have "snapshotAccountContext cv = Inr (context_obj c n)"
    using d(6) by (auto simp: snapshotAccountContext_Inr)
  moreover have "dtoFieldString v ''profile_id'' = Inr p" "dtoFieldString v ''key_id'' = Inr k"
    using d by (simp_all add: dtoFieldString_Inr)
  ultimately show ?l using d(3,4,7) by (simp add: snapshotSigningTarget_def validateUuidValue_def)
qed

lemma snapshotSigningApproval_Inr:
  "snapshotSigningApproval v = Inr x \<longleftrightarrow>
     (\<exists>b. has_data v ''status'' (VStr (if b then ''approved'' else ''not_approved'')) \<and>
       x = vobj [(''status'', VStr (if b then ''approved'' else ''not_approved''))])"
proof
  assume "snapshotSigningApproval v = Inr x"
  then obtain s where "has_data v ''status'' (VStr s)" "s = ''not_approved'' \<or> s = ''approved''"
      "x = vobj [(''status'', VStr s)]"
    by (auto simp: snapshotSigningApproval_def bindE_Inr_iff dtoFieldString_Inr split: if_splits)
  then show "\<exists>b. has_data v ''status'' (VStr (if b then ''approved'' else ''not_approved'')) \<and>
       x = vobj [(''status'', VStr (if b then ''approved'' else ''not_approved''))]"
    by (intro exI [of _ "s = ''approved''"]) auto
next
  assume "\<exists>b. has_data v ''status'' (VStr (if b then ''approved'' else ''not_approved'')) \<and>
       x = vobj [(''status'', VStr (if b then ''approved'' else ''not_approved''))]"
  then obtain b where "dtoFieldString v ''status'' = Inr (if b then ''approved'' else ''not_approved'')"
      "x = vobj [(''status'', VStr (if b then ''approved'' else ''not_approved''))]"
    by (auto simp: dtoFieldString_Inr)
  then show "snapshotSigningApproval v = Inr x" by (simp add: snapshotSigningApproval_def)
qed

lemma snapshotUint8Array_Inr:
  "snapshotUint8Array v h = (Inr p, h') \<longleftrightarrow>
     (\<exists>w bs. v = VU8 w \<and> read_view h w = Some bs \<and> p = fresh_view h bs \<and> h' = h @ [Some bs])"
  by (cases v) (auto simp: snapshotUint8Array_def split: option.splits)

text \<open>What a refused signing request leaves and throws.\<close>

definition rejection :: "exn \<Rightarrow> bool" where
  "rejection e \<longleftrightarrow> e = invalidArgument \<or> e = bindingFailure"

definition rejects :: "exn + 'a \<Rightarrow> bool" where
  "rejects r \<longleftrightarrow> (\<forall>e. r = Inl e \<longrightarrow> rejection e)"

named_theorems rejecting \<open>rules for what a validation throws\<close>

lemma rejects_bind [rejecting]: "rejects m \<Longrightarrow> (\<And>x. rejects (f x)) \<Longrightarrow> rejects (bindE m f)"
  by (auto simp: rejects_def bindE_Inl_iff)

lemma rejects_Inr [rejecting]: "rejects (Inr x)"
  by (simp add: rejects_def)

lemma rejects_Inl [rejecting]: "rejects (Inl invalidArgument)" "rejects (Inl bindingFailure)"
  by (simp_all add: rejects_def rejection_def)

lemma rejects_if [rejecting]: "rejects r \<Longrightarrow> rejects s \<Longrightarrow> rejects (if b then r else s)"
  by simp

lemma rejects_Inl_if [rejecting]: "rejects (Inl (if b then bindingFailure else invalidArgument))"
  by (simp add: rejects_def rejection_def)

lemma rejects_field [rejecting]: "rejects (dtoField req v n)"
  by (auto simp: dtoField_def requiredObject_def intro!: rejecting split: sum.splits option.splits slot.splits)

lemma rejects_field_string [rejecting]: "rejects (dtoFieldString v n)"
  by (auto simp: dtoFieldString_def intro!: rejecting split: jv.splits)

lemma rejects_uuid [rejecting]: "rejects (validateUuidValue v)"
  by (auto simp: validateUuidValue_def intro!: rejecting split: jv.splits)

lemma rejects_bit [rejecting]: "rejects (validateNetworkOrChain v)"
  by (auto simp: validateNetworkOrChain_def intro!: rejecting split: jv.splits)

lemma rejects_snapshots [rejecting]:
  "rejects (snapshotExportTarget v)" "rejects (snapshotAccountContext v)"
  "rejects (snapshotSigningApproval v)"
  unfolding snapshotExportTarget_def snapshotAccountContext_def snapshotSigningApproval_def
  by (intro rejecting)+

lemma rejects_snapshots2 [rejecting]:
  "rejects (snapshotExportConfirmation v i a)" "rejects (snapshotSigningTarget v)"
  unfolding snapshotExportConfirmation_def snapshotSigningTarget_def by (intro rejecting)+

lemma rejects_export [rejecting]: "rejects (snapshotExportRequest v)"
  unfolding snapshotExportRequest_def by (intro rejecting)

lemma dtoField_revoked: "dtoField True v n = Inr VRevoked \<longleftrightarrow> has_data v n VRevoked"
  by (simp add: dtoField_required)

lemma snapshotUint8Array_Inl:
  "snapshotUint8Array v h = (Inl e, h') \<Longrightarrow> h' = h \<and> (e = bindingFailure \<or> v = VRevoked \<and> e = type_error)"
  by (cases v) (auto simp: snapshotUint8Array_def split: option.splits)

lemma snapshotSigningRequest_Inr:
  "snapshotSigningRequest v h = (Inr x, h') \<longleftrightarrow>
     (\<exists>r w bs. denotes_signing v r \<and> has_data v ''payload'' (VU8 w) \<and> read_view h w = Some bs \<and>
        x = signing_obj r (fresh_view h bs) \<and> h' = h @ [Some bs])"
  (is "?l \<longleftrightarrow> ?r")
proof
  assume ?l
  then obtain tv tx w bs av ax where run: "dtoField True v ''target'' = Inr tv"
      "snapshotSigningTarget tv = Inr tx" "dtoField True v ''payload'' = Inr (VU8 w)"
      "read_view h w = Some bs" "h' = h @ [Some bs]" "dtoField True v ''approval'' = Inr av"
      "snapshotSigningApproval av = Inr ax"
      "x = vobj [(''target'', tx), (''payload'', VU8 (fresh_view h bs)), (''approval'', ax)]"
    by (auto simp: snapshotSigningRequest_def bindE_Inr_iff bindC_Inr snapshotUint8Array_Inr
        split: sum.splits prod.splits)
  from run(2) obtain p k cv c n where t: "has_data tv ''profile_id'' (VStr p)"
     "has_data tv ''key_id'' (VStr k)" "rx_test UUID_PATTERN p" "rx_test UUID_PATTERN k"
     "has_data tv ''context'' cv" "denotes_context cv c n"
     "tx = vobj [(''profile_id'', VStr p), (''key_id'', VStr k), (''context'', context_obj c n)]"
    unfolding snapshotSigningTarget_Inr by blast
  from run(7) obtain b where a: "has_data av ''status'' (VStr (if b then ''approved'' else ''not_approved''))"
     "ax = vobj [(''status'', VStr (if b then ''approved'' else ''not_approved''))]"
    unfolding snapshotSigningApproval_Inr by blast
  let ?q = "\<lparr>sr_profile = p, sr_key = k, sr_chain = c, sr_network = n, sr_approved = b\<rparr>"
  have "denotes_signing v ?q"
    unfolding denotes_signing_def signing_request.simps
    using run(1,6) [unfolded dtoField_required] t a(1) by blast
  moreover have "x = signing_obj ?q (fresh_view h bs)"
    unfolding signing_obj_def signing_request.simps run(8) t(7) a(2) by (rule refl)
  ultimately show ?r
    using run(3,4,5) by (auto simp: dtoField_required)
next
  assume ?r
  then obtain r w bs where d: "denotes_signing v r" "has_data v ''payload'' (VU8 w)"
     "read_view h w = Some bs" "x = signing_obj r (fresh_view h bs)" "h' = h @ [Some bs]"
    by blast
  from d(1) obtain tv cv av where t: "has_data v ''target'' tv"
     "has_data tv ''profile_id'' (VStr (sr_profile r))" "has_data tv ''key_id'' (VStr (sr_key r))"
     "rx_test UUID_PATTERN (sr_profile r)" "rx_test UUID_PATTERN (sr_key r)" "has_data tv ''context'' cv"
     "denotes_context cv (sr_chain r) (sr_network r)" "has_data v ''approval'' av"
     "has_data av ''status'' (VStr (if sr_approved r then ''approved'' else ''not_approved''))"
    unfolding denotes_signing_def by (elim exE conjE)
  have f: "dtoField True v ''target'' = Inr tv" "dtoField True v ''approval'' = Inr av"
    "dtoField True v ''payload'' = Inr (VU8 w)"
    using t d(2) has_data_object by (auto simp: dtoField_required)
  have tgt: "snapshotSigningTarget tv = Inr (vobj [(''profile_id'', VStr (sr_profile r)),
      (''key_id'', VStr (sr_key r)), (''context'', context_obj (sr_chain r) (sr_network r))])"
    unfolding snapshotSigningTarget_Inr using t by blast
  have app: "snapshotSigningApproval av = Inr (vobj
      [(''status'', VStr (if sr_approved r then ''approved'' else ''not_approved''))])"
    unfolding snapshotSigningApproval_Inr using t(9) by blast
  have pay: "snapshotUint8Array (VU8 w) h = (Inr (fresh_view h bs), h @ [Some bs])"
    using d(3) by (simp add: snapshotUint8Array_Inr)
  show ?l
    by (simp add: snapshotSigningRequest_def f tgt app pay d(4,5) signing_obj_def)
qed

lemma snapshotSigningRequest_Inl:
  assumes "snapshotSigningRequest v h = (Inl e, h')"
  shows "rejection e \<or> has_data v ''payload'' VRevoked \<and> e = type_error"
    and "\<exists>k. h' = h @ k" and "length h \<le> i \<Longrightarrow> i < length h' \<Longrightarrow> zeroed h' i"
proof -
  have all: "rejects (bindE (dtoField True v ''target'') snapshotSigningTarget)"
    "rejects (dtoField True v ''payload'')"
    "rejects (bindE (dtoField True v ''approval'') snapshotSigningApproval)"
    by (intro rejecting)+
  have rej: "bindE (dtoField True v ''target'') snapshotSigningTarget = Inl e \<Longrightarrow> rejection e"
    "dtoField True v ''payload'' = Inl e \<Longrightarrow> rejection e"
    "bindE (dtoField True v ''approval'') snapshotSigningApproval = Inl e \<Longrightarrow> rejection e" for e
    using all by (auto simp only: rejects_def)
  consider "bindE (dtoField True v ''target'') snapshotSigningTarget = Inl e" "h' = h"
    | "dtoField True v ''payload'' = Inl e" "h' = h"
    | x where "dtoField True v ''payload'' = Inr x" "snapshotUint8Array x h = (Inl e, h')"
    | x p h1 where "dtoField True v ''payload'' = Inr x" "snapshotUint8Array x h = (Inr p, h1)"
        "bindE (dtoField True v ''approval'') snapshotSigningApproval = Inl e" "h' = fill_zero p h1"
    using assms
    by (auto simp: snapshotSigningRequest_def bindC_def split: sum.splits prod.splits)
  then have "(rejection e \<or> has_data v ''payload'' VRevoked \<and> e = type_error) \<and> (\<exists>k. h' = h @ k) \<and>
      (length h \<le> i \<longrightarrow> i < length h' \<longrightarrow> zeroed h' i)"
  proof cases
    case 1
    then show ?thesis using rej by simp
  next
    case 2
    then show ?thesis using rej by simp
  next
    case (3 x)
    from snapshotUint8Array_Inl [OF 3(2)] 3(1) show ?thesis
      by (auto simp: rejection_def dtoField_revoked)
  next
    case (4 x p h1)
    from 4(2) obtain bs where p: "p = fresh_view h bs" "h1 = h @ [Some bs]"
      by (auto simp: snapshotUint8Array_Inr)
    have "zeroed (fill_zero p h1) (u8_buf p)"
      by (rule zeroed_whole [of _ _ bs]) (simp_all add: p fresh_view_def)
    moreover have "length h \<le> i \<longrightarrow> i < length h' \<longrightarrow> i = u8_buf p"
      unfolding 4(4) by (auto simp: p fresh_view_def)
    moreover have "\<exists>k. fill_zero p h1 = h @ k"
      by (auto simp: fill_zero_def p fresh_view_def list_update_append)
    ultimately show ?thesis using rej(3) [OF 4(3)] 4(4) by auto
  qed
  then show "rejection e \<or> has_data v ''payload'' VRevoked \<and> e = type_error"
    and "\<exists>k. h' = h @ k" and "length h \<le> i \<Longrightarrow> i < length h' \<Longrightarrow> zeroed h' i"
    by auto
qed

section \<open>Properties\<close>

text \<open>
  An export request is accepted exactly when its own data properties denote a
  typed request: a target with UUIDs, a user request and an application confirmation, each
  with a target and one of its two statuses. What goes to the backend is the canonical
  object of that typed request, built afresh, without anything else the caller's object had.
\<close>

lemma snapshotExportRequest_iff:
  "snapshotExportRequest v = Inr x \<longleftrightarrow> (\<exists>r. denotes_request v r \<and> x = request_obj r)"
  by (rule snapshotExportRequest_Inr)

text \<open>
  The snapshot of a snapshot is the same snapshot: what the facade hands to the
  backend would itself pass the facade's validation unchanged.
\<close>

lemma snapshotExportRequest_idempotent:
  "snapshotExportRequest v = Inr x \<Longrightarrow> snapshotExportRequest x = Inr x"
proof -
  assume "snapshotExportRequest v = Inr x"
  then obtain r where r: "denotes_request v r" "x = request_obj r"
    by (auto simp: snapshotExportRequest_Inr)
  have t: "denotes_target w t \<Longrightarrow> denotes_target (target_obj t) t" for t w
    by (cases t) simp_all
  obtain u1 u2 u3 where "denotes_target u1 (er_target r)" "denotes_target u2 (er_user_target r)"
      "denotes_target u3 (er_app_target r)"
    using r(1) unfolding denotes_request_def denotes_confirmation_def by (elim exE conjE)
  then have ts: "denotes_target (target_obj (er_target r)) (er_target r)"
      "denotes_target (target_obj (er_user_target r)) (er_user_target r)"
      "denotes_target (target_obj (er_app_target r)) (er_app_target r)"
    using t by (simp_all only:)
  have "denotes_request x r"
    using ts unfolding r(2) denotes_request_def
    by (simp add: request_obj_def confirmation_obj_def denotes_confirmation_def)
  with r(2) show ?thesis by (auto simp: snapshotExportRequest_Inr)
qed


definition sample_uuid :: string where
  "sample_uuid = ''01234567-89ab-cdef-0123-456789ABCDEF''"

definition sample_request :: export_request where
  "sample_request = \<lparr>er_target = KeyTarget sample_uuid sample_uuid,
     er_user_target = MnemonicTarget sample_uuid, er_requested = True,
     er_app_target = KeyTarget sample_uuid sample_uuid, er_confirmed = False\<rparr>"

lemma sample_uuid_ok: "rx_test UUID_PATTERN sample_uuid"
  by code_simp

lemma sample_request_snapshot: "snapshotExportRequest (request_obj sample_request) = Inr (request_obj sample_request)"
  by code_simp

theorem snapshotExportRequest_idempotent_witness:
  "snapshotExportRequest (request_obj sample_request) = Inr (request_obj sample_request)"
  by (rule snapshotExportRequest_idempotent [OF sample_request_snapshot])

text \<open>
  The strings accepted as UUIDs are exactly those of 36 characters with dashes
  at positions 8, 13, 18 and 23 and hexadecimal digits of either case elsewhere; any other
  string is an invalid argument and anything else a binding failure.
\<close>

lemma validateUuidValue_spec:
  "validateUuidValue v = (case v of
     VStr s \<Rightarrow> if is_uuid s then Inr () else Inl invalidArgument
   | _ \<Rightarrow> Inl bindingFailure)"
  by (simp add: validateUuidValue_def UUID_PATTERN_iff split: jv.splits)

end
