(* ===== verification/FacadeOps.thy ===== *)
theory FacadeOps
  imports FacadeInput
begin

text \<open>
  The last part of \<open>packages/wallet-core/src/facade-runtime.mjs\<close>: \<open>invoke\<close>,
  \<open>createFacade\<close> and its sixteen operations. The backend (the Rust core behind N-API,
  WebAssembly or React Native) is a parameter: a function from the name of an operation and
  its arguments to a command on the store, which may return anything and throw anything.

  A snapshot object is a value here, so a backend cannot change the one it is given; in the
  code it could, and \<open>sign\<close> would then clear what it finds under \<open>payload\<close>.
\<close>

type_synonym backend = "string \<Rightarrow> jv list \<Rightarrow> jv cmd"

definition OPERATION_NAMES :: "string list" where
  "OPERATION_NAMES =
     [''create_empty_store'', ''prepare_generated_profile'', ''finalize_generated_profile'',
      ''restore_profile'', ''list_profiles'', ''export_mnemonic'', ''export_private_key'',
      ''list_software_keys'', ''derive_software_key'', ''import_software_key'',
      ''generate_software_key'', ''get_public_account'', ''sign'', ''change_profile_password'',
      ''delete_software_key'', ''delete_profile'']"

definition incomplete_backend :: exn where
  "incomplete_backend = Thrown (vobj [(''message'', VStr ''backend operation set is incomplete'')])"

text \<open>\<open>OPERATION_NAMES.some((name) => typeof backend[name] !== "function")\<close>.\<close>

fun some_not_function :: "jv \<Rightarrow> string list \<Rightarrow> exn + bool" where
  "some_not_function b [] = Inr False"
| "some_not_function b (n # ns) =
     bindE (get_prop b n) (\<lambda>f. if f \<noteq> VFun then Inr True else some_not_function b ns)"

definition createFacade_check :: "jv \<Rightarrow> exn + unit" where
  "createFacade_check b =
     (if \<not> is_object b then Inl incomplete_backend
      else bindE (some_not_function b OPERATION_NAMES) (\<lambda>missing.
        if missing then Inl incomplete_backend else Inr ()))"

definition invoke :: "backend \<Rightarrow> string \<Rightarrow> jv list \<Rightarrow> (jv \<Rightarrow> jv cmd) \<Rightarrow> jv cmd" where
  "invoke backend name args norm h =
     (case bindC (backend name args) norm h of
        (Inl e, h') \<Rightarrow> (Inl (normalizeOperationError e), h')
      | (Inr x, h') \<Rightarrow> (Inr x, h'))"

section \<open>The operations\<close>

definition create_empty_store :: "backend \<Rightarrow> jv cmd" where
  "create_empty_store backend = invoke backend ''create_empty_store'' []
     (\<lambda>v. bindC (outputBytes None v) (\<lambda>c. pureC (Inr (VU8 c))))"

definition prepare_generated_profile :: "backend \<Rightarrow> jv \<Rightarrow> jv \<Rightarrow> jv \<Rightarrow> jv cmd" where
  "prepare_generated_profile backend store passwordUtf8 network =
     bindC (pureC (validateNetworkOrChain network)) (\<lambda>_.
       invoke backend ''prepare_generated_profile'' [store, passwordUtf8, network]
         (outputSecretReadResult [(''mnemonic_utf8'', None), (''pending_profile'', None)]))"

definition finalize_generated_profile :: "backend \<Rightarrow> jv \<Rightarrow> jv \<Rightarrow> jv \<Rightarrow> jv cmd" where
  "finalize_generated_profile backend store pendingProfile passwordUtf8 =
     invoke backend ''finalize_generated_profile'' [store, pendingProfile, passwordUtf8]
       (outputMutationResult (\<lambda>v. pureC (outputProfileInfo v)))"

definition restore_profile :: "backend \<Rightarrow> jv \<Rightarrow> jv \<Rightarrow> jv \<Rightarrow> jv \<Rightarrow> jv cmd" where
  "restore_profile backend store mnemonicUtf8 passwordUtf8 network =
     bindC (pureC (validateNetworkOrChain network)) (\<lambda>_.
       invoke backend ''restore_profile'' [store, mnemonicUtf8, passwordUtf8, network]
         (outputMutationResult (\<lambda>v. pureC (outputProfileInfo v))))"

definition list_profiles :: "backend \<Rightarrow> jv \<Rightarrow> jv cmd" where
  "list_profiles backend store =
     invoke backend ''list_profiles'' [store] (outputReadResult (\<lambda>v. pureC (outputProfiles v)))"

definition export_mnemonic :: "backend \<Rightarrow> jv \<Rightarrow> jv \<Rightarrow> jv \<Rightarrow> jv cmd" where
  "export_mnemonic backend store request passwordUtf8 =
     bindC (pureC (snapshotExportRequest request)) (\<lambda>requestSnapshot.
       invoke backend ''export_mnemonic'' [store, requestSnapshot, passwordUtf8]
         (outputSecretReadResult [(''mnemonic_utf8'', None)]))"

definition export_private_key :: "backend \<Rightarrow> jv \<Rightarrow> jv \<Rightarrow> jv \<Rightarrow> jv cmd" where
  "export_private_key backend store request passwordUtf8 =
     bindC (pureC (snapshotExportRequest request)) (\<lambda>requestSnapshot.
       invoke backend ''export_private_key'' [store, requestSnapshot, passwordUtf8]
         (outputSecretReadResult [(''private_key'', Some 32)]))"

definition list_software_keys :: "backend \<Rightarrow> jv \<Rightarrow> jv \<Rightarrow> jv cmd" where
  "list_software_keys backend store profileId =
     bindC (pureC (validateUuidValue profileId)) (\<lambda>_.
       invoke backend ''list_software_keys'' [store, profileId]
         (outputReadResult (\<lambda>v. pureC (outputSoftwareKeys v))))"

definition derive_software_key :: "backend \<Rightarrow> jv \<Rightarrow> jv \<Rightarrow> jv \<Rightarrow> jv \<Rightarrow> jv \<Rightarrow> jv cmd" where
  "derive_software_key backend store profileId passwordUtf8 chain accountIndex =
     bindC (pureC (validateUuidValue profileId)) (\<lambda>_.
     bindC (pureC (validateNetworkOrChain chain)) (\<lambda>_.
     bindC (pureC (validateAccountIndex accountIndex)) (\<lambda>_.
       invoke backend ''derive_software_key'' [store, profileId, passwordUtf8, chain, accountIndex]
         (outputMutationResult (\<lambda>v. pureC (outputSoftwareKeyInfo v))))))"

definition import_software_key :: "backend \<Rightarrow> jv \<Rightarrow> jv \<Rightarrow> jv \<Rightarrow> jv \<Rightarrow> jv \<Rightarrow> jv cmd" where
  "import_software_key backend store profileId passwordUtf8 chain privateKey =
     bindC (pureC (validateUuidValue profileId)) (\<lambda>_.
     bindC (pureC (validateNetworkOrChain chain)) (\<lambda>_.
       invoke backend ''import_software_key'' [store, profileId, passwordUtf8, chain, privateKey]
         (outputMutationResult (\<lambda>v. pureC (outputSoftwareKeyInfo v)))))"

definition generate_software_key :: "backend \<Rightarrow> jv \<Rightarrow> jv \<Rightarrow> jv \<Rightarrow> jv \<Rightarrow> jv cmd" where
  "generate_software_key backend store profileId passwordUtf8 chain =
     bindC (pureC (validateUuidValue profileId)) (\<lambda>_.
     bindC (pureC (validateNetworkOrChain chain)) (\<lambda>_.
       invoke backend ''generate_software_key'' [store, profileId, passwordUtf8, chain]
         (outputMutationResult (\<lambda>v. pureC (outputSoftwareKeyInfo v)))))"

definition get_public_account :: "backend \<Rightarrow> jv \<Rightarrow> jv \<Rightarrow> jv \<Rightarrow> jv \<Rightarrow> jv \<Rightarrow> jv cmd" where
  "get_public_account backend store profileId keyId requestedContext passwordUtf8 =
     bindC (pureC (validateUuidValue profileId)) (\<lambda>_.
     bindC (pureC (validateUuidValue keyId)) (\<lambda>_.
     bindC (pureC (snapshotAccountContext requestedContext)) (\<lambda>contextSnapshot.
       invoke backend ''get_public_account'' [store, profileId, keyId, contextSnapshot, passwordUtf8]
         (outputReadResult outputPublicAccount))))"

text \<open>\<open>try { return m } finally { clearSecretBytes(v) }\<close>.\<close>

definition finally_clear_value :: "jv \<Rightarrow> 'a cmd \<Rightarrow> 'a cmd" where
  "finally_clear_value v m h =
     (case m h of (r, h') \<Rightarrow>
       (case clearSecretBytes v h' of (Inl e, h'') \<Rightarrow> (Inl e, h'') | (Inr _, h'') \<Rightarrow> (r, h'')))"

definition sign :: "backend \<Rightarrow> jv \<Rightarrow> jv \<Rightarrow> jv \<Rightarrow> jv cmd" where
  "sign backend store request passwordUtf8 =
     bindC (snapshotSigningRequest request) (\<lambda>requestSnapshot.
     bindC (pureC (get_prop requestSnapshot ''payload'')) (\<lambda>payload.
       finally_clear_value payload
         (invoke backend ''sign'' [store, requestSnapshot, passwordUtf8]
           (outputReadResult outputSignature))))"

definition change_profile_password :: "backend \<Rightarrow> jv \<Rightarrow> jv \<Rightarrow> jv \<Rightarrow> jv \<Rightarrow> jv cmd" where
  "change_profile_password backend store profileId currentPasswordUtf8 newPasswordUtf8 =
     bindC (pureC (validateUuidValue profileId)) (\<lambda>_.
       invoke backend ''change_profile_password''
         [store, profileId, currentPasswordUtf8, newPasswordUtf8]
         (outputMutationResult (\<lambda>v. pureC (outputNull v))))"

definition delete_software_key :: "backend \<Rightarrow> jv \<Rightarrow> jv \<Rightarrow> jv \<Rightarrow> jv \<Rightarrow> jv cmd" where
  "delete_software_key backend store profileId keyId passwordUtf8 =
     bindC (pureC (validateUuidValue profileId)) (\<lambda>_.
     bindC (pureC (validateUuidValue keyId)) (\<lambda>_.
       invoke backend ''delete_software_key'' [store, profileId, keyId, passwordUtf8]
         (outputMutationResult (\<lambda>v. pureC (outputNull v)))))"

definition delete_profile :: "backend \<Rightarrow> jv \<Rightarrow> jv \<Rightarrow> jv \<Rightarrow> jv cmd" where
  "delete_profile backend store profileId passwordUtf8 =
     bindC (pureC (validateUuidValue profileId)) (\<lambda>_.
       invoke backend ''delete_profile'' [store, profileId, passwordUtf8]
         (outputMutationResult (\<lambda>v. pureC (outputNull v))))"

text \<open>
  A call of the facade as data, and the object that \<open>createFacade\<close> returns as the function
  that runs it. The arguments of a constructor are those of the function of that name, a
  missing argument is \<open>VUndef\<close>.
\<close>

datatype facade_call =
    CreateEmptyStore
  | PrepareGeneratedProfile jv jv jv
  | FinalizeGeneratedProfile jv jv jv
  | RestoreProfile jv jv jv jv
  | ListProfiles jv
  | ExportMnemonic jv jv jv
  | ExportPrivateKey jv jv jv
  | ListSoftwareKeys jv jv
  | DeriveSoftwareKey jv jv jv jv jv
  | ImportSoftwareKey jv jv jv jv jv
  | GenerateSoftwareKey jv jv jv jv
  | GetPublicAccount jv jv jv jv jv
  | Sign jv jv jv
  | ChangeProfilePassword jv jv jv jv
  | DeleteSoftwareKey jv jv jv jv
  | DeleteProfile jv jv jv

fun createFacade :: "backend \<Rightarrow> facade_call \<Rightarrow> jv cmd" where
  "createFacade b CreateEmptyStore = create_empty_store b"
| "createFacade b (PrepareGeneratedProfile s pw n) = prepare_generated_profile b s pw n"
| "createFacade b (FinalizeGeneratedProfile s p pw) = finalize_generated_profile b s p pw"
| "createFacade b (RestoreProfile s m pw n) = restore_profile b s m pw n"
| "createFacade b (ListProfiles s) = list_profiles b s"
| "createFacade b (ExportMnemonic s r pw) = export_mnemonic b s r pw"
| "createFacade b (ExportPrivateKey s r pw) = export_private_key b s r pw"
| "createFacade b (ListSoftwareKeys s p) = list_software_keys b s p"
| "createFacade b (DeriveSoftwareKey s p pw c i) = derive_software_key b s p pw c i"
| "createFacade b (ImportSoftwareKey s p pw c k) = import_software_key b s p pw c k"
| "createFacade b (GenerateSoftwareKey s p pw c) = generate_software_key b s p pw c"
| "createFacade b (GetPublicAccount s p k c pw) = get_public_account b s p k c pw"
| "createFacade b (Sign s r pw) = sign b s r pw"
| "createFacade b (ChangeProfilePassword s p c n) = change_profile_password b s p c n"
| "createFacade b (DeleteSoftwareKey s p k pw) = delete_software_key b s p k pw"
| "createFacade b (DeleteProfile s p pw) = delete_profile b s p pw"

section \<open>What the calls do\<close>

text \<open>
  The decomposition of every call but \<open>sign\<close>: a validation that yields the arguments for the
  backend, and a normalizer for its result.
\<close>

definition is_uuid_value :: "jv \<Rightarrow> bool" where
  "is_uuid_value v \<longleftrightarrow> (\<exists>s. v = VStr s \<and> is_uuid s)"

definition is_bit :: "jv \<Rightarrow> bool" where
  "is_bit v \<longleftrightarrow> v = VNum (num_of_int 0) \<or> v = VNum (num_of_int 1)"

definition is_account_index :: "jv \<Rightarrow> bool" where
  "is_account_index v \<longleftrightarrow> (\<exists>n. v = VNum n \<and> num_is_integer n \<and> 0 \<le> num_int n \<and> num_int n < 2 ^ 31)"

lemma validateUuidValue_ok: "validateUuidValue v = (if is_uuid_value v then Inr ()
    else Inl (if is_vstr v then invalidArgument else bindingFailure))"
  by (cases v) (auto simp: validateUuidValue_def is_uuid_value_def UUID_PATTERN_iff)

lemma validateNetworkOrChain_ok: "validateNetworkOrChain v = Inr u \<longleftrightarrow> is_bit v"
  by (cases v) (auto simp: validateNetworkOrChain_def is_bit_def)

lemma validateAccountIndex_ok: "validateAccountIndex v = Inr u \<longleftrightarrow> is_account_index v"
proof (cases v)
  case (VNum n)
  have "num_is_integer n \<Longrightarrow> (\<not> num_neg n) = (0 \<le> num_int n)" by (rule num_int_nonneg)
  then show ?thesis by (auto simp: VNum validateAccountIndex_def is_account_index_def)
qed (auto simp: validateAccountIndex_def is_account_index_def)

fun call_request :: "facade_call \<Rightarrow> exn + string \<times> jv list" where
  "call_request CreateEmptyStore = Inr (''create_empty_store'', [])"
| "call_request (PrepareGeneratedProfile s pw n) = bindE (validateNetworkOrChain n) (\<lambda>_.
     Inr (''prepare_generated_profile'', [s, pw, n]))"
| "call_request (FinalizeGeneratedProfile s p pw) = Inr (''finalize_generated_profile'', [s, p, pw])"
| "call_request (RestoreProfile s m pw n) = bindE (validateNetworkOrChain n) (\<lambda>_.
     Inr (''restore_profile'', [s, m, pw, n]))"
| "call_request (ListProfiles s) = Inr (''list_profiles'', [s])"
| "call_request (ExportMnemonic s r pw) = bindE (snapshotExportRequest r) (\<lambda>q.
     Inr (''export_mnemonic'', [s, q, pw]))"
| "call_request (ExportPrivateKey s r pw) = bindE (snapshotExportRequest r) (\<lambda>q.
     Inr (''export_private_key'', [s, q, pw]))"
| "call_request (ListSoftwareKeys s p) = bindE (validateUuidValue p) (\<lambda>_.
     Inr (''list_software_keys'', [s, p]))"
| "call_request (DeriveSoftwareKey s p pw c i) = bindE (validateUuidValue p) (\<lambda>_.
     bindE (validateNetworkOrChain c) (\<lambda>_. bindE (validateAccountIndex i) (\<lambda>_.
     Inr (''derive_software_key'', [s, p, pw, c, i]))))"
| "call_request (ImportSoftwareKey s p pw c k) = bindE (validateUuidValue p) (\<lambda>_.
     bindE (validateNetworkOrChain c) (\<lambda>_. Inr (''import_software_key'', [s, p, pw, c, k])))"
| "call_request (GenerateSoftwareKey s p pw c) = bindE (validateUuidValue p) (\<lambda>_.
     bindE (validateNetworkOrChain c) (\<lambda>_. Inr (''generate_software_key'', [s, p, pw, c])))"
| "call_request (GetPublicAccount s p k c pw) = bindE (validateUuidValue p) (\<lambda>_.
     bindE (validateUuidValue k) (\<lambda>_. bindE (snapshotAccountContext c) (\<lambda>x.
     Inr (''get_public_account'', [s, p, k, x, pw]))))"
| "call_request (Sign s r pw) = Inl bindingFailure"
| "call_request (ChangeProfilePassword s p c n) = bindE (validateUuidValue p) (\<lambda>_.
     Inr (''change_profile_password'', [s, p, c, n]))"
| "call_request (DeleteSoftwareKey s p k pw) = bindE (validateUuidValue p) (\<lambda>_.
     bindE (validateUuidValue k) (\<lambda>_. Inr (''delete_software_key'', [s, p, k, pw])))"
| "call_request (DeleteProfile s p pw) = bindE (validateUuidValue p) (\<lambda>_.
     Inr (''delete_profile'', [s, p, pw]))"

fun secret_fields :: "facade_call \<Rightarrow> (string \<times> nat option) list option" where
  "secret_fields (PrepareGeneratedProfile _ _ _) =
     Some [(''mnemonic_utf8'', None), (''pending_profile'', None)]"
| "secret_fields (ExportMnemonic _ _ _) = Some [(''mnemonic_utf8'', None)]"
| "secret_fields (ExportPrivateKey _ _ _) = Some [(''private_key'', Some 32)]"
| "secret_fields _ = None"

fun plain_norm :: "facade_call \<Rightarrow> jv \<Rightarrow> jv cmd" where
  "plain_norm CreateEmptyStore = (\<lambda>v. bindC (outputBytes None v) (\<lambda>c. pureC (Inr (VU8 c))))"
| "plain_norm (FinalizeGeneratedProfile _ _ _) = outputMutationResult (\<lambda>v. pureC (outputProfileInfo v))"
| "plain_norm (RestoreProfile _ _ _ _) = outputMutationResult (\<lambda>v. pureC (outputProfileInfo v))"
| "plain_norm (ListProfiles _) = outputReadResult (\<lambda>v. pureC (outputProfiles v))"
| "plain_norm (ListSoftwareKeys _ _) = outputReadResult (\<lambda>v. pureC (outputSoftwareKeys v))"
| "plain_norm (GetPublicAccount _ _ _ _ _) = outputReadResult outputPublicAccount"
| "plain_norm (Sign _ _ _) = outputReadResult outputSignature"
| "plain_norm (ChangeProfilePassword _ _ _ _) = outputMutationResult (\<lambda>v. pureC (outputNull v))"
| "plain_norm (DeleteSoftwareKey _ _ _ _) = outputMutationResult (\<lambda>v. pureC (outputNull v))"
| "plain_norm (DeleteProfile _ _ _) = outputMutationResult (\<lambda>v. pureC (outputNull v))"
| "plain_norm _ = outputMutationResult (\<lambda>v. pureC (outputSoftwareKeyInfo v))"

definition call_norm :: "facade_call \<Rightarrow> jv \<Rightarrow> jv cmd" where
  "call_norm c = (case secret_fields c of Some flds \<Rightarrow> outputSecretReadResult flds | None \<Rightarrow> plain_norm c)"

fun is_sign :: "facade_call \<Rightarrow> bool" where
  "is_sign (Sign _ _ _) = True"
| "is_sign _ = False"

lemma bindC_pure_case: "bindC (pureC r) f h = (case r of Inl e \<Rightarrow> (Inl e, h) | Inr x \<Rightarrow> f x h)"
  by (cases r) simp_all

lemmas facade_op_defs = create_empty_store_def prepare_generated_profile_def
  finalize_generated_profile_def restore_profile_def list_profiles_def export_mnemonic_def
  export_private_key_def list_software_keys_def derive_software_key_def import_software_key_def
  generate_software_key_def get_public_account_def change_profile_password_def
  delete_software_key_def delete_profile_def

lemma facade_run:
  "\<not> is_sign c \<Longrightarrow> createFacade b c h = (case call_request c of
      Inl e \<Rightarrow> (Inl e, h) | Inr (name, args) \<Rightarrow> invoke b name args (call_norm c) h)"
  by (cases c) (simp_all add: facade_op_defs bindC_pure_case call_norm_def split: sum.splits)

lemma plain_normalizer: "output_normalizer (plain_norm c)"
  by (cases c) (simp_all add: store_bytes.output_normalizer_axioms
      profile_mutation.output_normalizer_axioms key_mutation.output_normalizer_axioms
      null_mutation.output_normalizer_axioms profile_list_read.output_normalizer_axioms
      key_list_read.output_normalizer_axioms account_read.output_normalizer_axioms
      signature_read.output_normalizer_axioms)


lemma call_norm_Inl: "call_norm c v h = (Inl e, h') \<Longrightarrow> binding_error e"
  by (auto simp: call_norm_def split: option.splits dest: outputSecretReadResult_Inl
      output_normalizer.throws [OF plain_normalizer])

lemma call_norm_Inr: "call_norm c v h = (Inr x, h') \<Longrightarrow> published (length h) h' x"
  by (auto simp: call_norm_def split: option.splits dest: outputSecretReadResult_published
      output_normalizer.publishes [OF plain_normalizer])

lemma call_norm_grows: "call_norm c v h = (r, h') \<Longrightarrow> length h \<le> length h'"
  by (auto simp: call_norm_def split: option.splits dest: outputSecretReadResult_grows
      output_normalizer.appends [OF plain_normalizer])

lemma call_norm_frame:
  assumes "call_norm c v h = (r, h')" and "i < length h"
    and "\<And>secret name w. property v ''value'' = Inr secret \<Longrightarrow> property secret name = Inr (VU8 w) \<Longrightarrow> u8_buf w \<noteq> i"
  shows "h' ! i = h ! i"
proof (cases "secret_fields c")
  case None
  then show ?thesis using assms(1,2) output_normalizer.old_buffers [OF plain_normalizer]
    by (simp add: call_norm_def)
next
  case (Some flds)
  then have run: "outputSecretReadResult flds v h = (r, h')" using assms(1) by (simp add: call_norm_def)
  show ?thesis
  proof (cases "property v ''value''")
    case (Inl e)
    with run have "catch_finally [] [] e h = (r, h')" by (simp add: outputSecretReadResult_def)
    then show ?thesis by (auto dest: catch_finally_cases)
  next
    case (Inr secret)
    show ?thesis by (rule secret_frame_lemma [OF run Inr assms(2)]) (use assms(3) [OF Inr] in \<open>auto dest!: handed_over_field\<close>)
  qed
qed

lemma invoke_Inl:
  "invoke b n args norm h = (Inl e, h') \<longleftrightarrow>
     (\<exists>e0. e = normalizeOperationError e0 \<and> (b n args h = (Inl e0, h') \<or>
        (\<exists>v h1. b n args h = (Inr v, h1) \<and> norm v h1 = (Inl e0, h'))))"
  by (auto simp: invoke_def bindC_def split: prod.splits sum.splits)

lemma invoke_Inr:
  "invoke b n args norm h = (Inr x, h') \<longleftrightarrow>
     (\<exists>v h1. b n args h = (Inr v, h1) \<and> norm v h1 = (Inr x, h'))"
  by (auto simp: invoke_def bindC_def split: prod.splits sum.splits)

lemma normalizeOperationError_core: "e \<noteq> Thrown VRevoked \<Longrightarrow> \<exists>c. normalizeOperationError e = WalletErr c"
  by (cases e) (auto simp: normalizeOperationError_def split: option.splits)

lemma rejects_call: "call_request c = Inl e \<Longrightarrow> \<exists>k. e = WalletErr k"
proof -
  assume run: "call_request c = Inl e"
  have index: "validateAccountIndex v = Inl e \<Longrightarrow> \<exists>k. e = WalletErr k" for v
    by (auto simp: validateAccountIndex_def split: jv.splits if_splits)
  have r: "rejection e \<Longrightarrow> \<exists>k. e = WalletErr k" by (auto simp: rejection_def)
  have vs: "validateUuidValue v = Inl e \<Longrightarrow> \<exists>k. e = WalletErr k"
    "validateNetworkOrChain v = Inl e \<Longrightarrow> \<exists>k. e = WalletErr k"
    "snapshotExportRequest v = Inl e \<Longrightarrow> \<exists>k. e = WalletErr k"
    "snapshotAccountContext v = Inl e \<Longrightarrow> \<exists>k. e = WalletErr k" for v
    using rejects_uuid [of v] rejects_bit [of v] rejects_export [of v] rejects_snapshots(2) [of v] r
    by (auto simp: rejects_def)
  show ?thesis using run by (cases c) (auto simp: bindE_Inl_iff dest: vs index)
qed

text \<open>A run of \<open>sign\<close>: refused before the backend, or run on a fresh copy of the payload that is cleared.\<close>

lemma sign_run:
  assumes "sign b s r pw h = (res, h')"
  shows "(\<exists>e. snapshotSigningRequest r h = (Inl e, h') \<and> res = Inl e) \<or>
     (\<exists>q w bs h2. denotes_signing r q \<and> has_data r ''payload'' (VU8 w) \<and> read_view h w = Some bs \<and>
        invoke b ''sign'' [s, signing_obj q (fresh_view h bs), pw] (call_norm (Sign s r pw))
          (h @ [Some bs]) = (res, h2) \<and> h' = fill_zero (fresh_view h bs) h2)"
proof -
  obtain sn h1 where snap: "snapshotSigningRequest r h = (sn, h1)"
    by (cases "snapshotSigningRequest r h")
  show ?thesis
  proof (cases sn)
    case (Inl e)
    then show ?thesis using assms snap by (auto simp: sign_def bindC_def)
  next
    case (Inr x)
    then obtain q w bs where d: "denotes_signing r q" "has_data r ''payload'' (VU8 w)"
        "read_view h w = Some bs" "x = signing_obj q (fresh_view h bs)" "h1 = h @ [Some bs]"
      using snap snapshotSigningRequest_Inr [of r h x h1] by blast
    let ?run = "invoke b ''sign'' [s, signing_obj q (fresh_view h bs), pw] (call_norm (Sign s r pw))
      (h @ [Some bs])"
    have payload: "get_prop (signing_obj q (fresh_view h bs)) ''payload'' = Inr (VU8 (fresh_view h bs))"
      by (simp add: signing_obj_def)
    have norm: "call_norm (Sign s r pw) = outputReadResult outputSignature"
      by (simp add: call_norm_def)
    have "sign b s r pw h = finally_clear_value (VU8 (fresh_view h bs))
        (invoke b ''sign'' [s, signing_obj q (fresh_view h bs), pw] (call_norm (Sign s r pw)))
        (h @ [Some bs])"
      using snap by (simp add: sign_def bindC_def Inr d(4,5) payload norm)
    then have "res = fst ?run" "h' = fill_zero (fresh_view h bs) (snd ?run)"
      using assms by (simp_all add: finally_clear_value_def split: prod.splits)
    with d show ?thesis
      by (intro disjI2 exI [of _ q] exI [of _ w] exI [of _ bs] exI [of _ "snd ?run"]) simp
  qed
qed

section \<open>Properties\<close>

text \<open>
  Property C6. Every exception that leaves an operation of the facade is a wallet error with
  one of the eighteen codes, whatever the backend returns or throws: its own code when it has
  one, \<open>BindingFailure\<close> otherwise. Excepted are the two cases in which the code itself trips
  over a revoked proxy: one thrown by the backend, and one given to \<open>sign\<close> as the payload.
\<close>

theorem facade_errors_are_wallet_errors:
  assumes "createFacade b c h = (Inl e, h')"
    and "\<And>n args h1 h2. b n args h1 \<noteq> (Inl (Thrown VRevoked), h2)"
    and "\<And>s r pw. c = Sign s r pw \<Longrightarrow> \<not> has_data r ''payload'' VRevoked"
  shows "\<exists>k. e = WalletErr k"
proof -
  have norm_ok: "\<exists>k. normalizeOperationError e0 = WalletErr k" if "binding_error e0" for e0
    by (rule normalizeOperationError_core) (use that in \<open>auto simp: binding_error_def type_error_def\<close>)
  have inv: "\<exists>k. e = WalletErr k" if "invoke b n args (call_norm c) h1 = (Inl e, h2)" for n args h1 h2
    using that assms(2) unfolding invoke_Inl
    by (metis call_norm_Inl norm_ok normalizeOperationError_core)
  show ?thesis
  proof (cases "is_sign c")
    case True
    then obtain s r pw where c: "c = Sign s r pw" by (cases c) auto
    have run: "sign b s r pw h = (Inl e, h')" using assms(1) by (simp add: c)
    have no: "\<not> has_data r ''payload'' VRevoked" using assms(3) c by simp
    from sign_run [OF run] no show ?thesis
      using snapshotSigningRequest_Inl(1) [of r h e h'] inv unfolding c
      by (auto simp: rejection_def)
  next
    case False
    then show ?thesis using assms(1) inv rejects_call
      by (auto simp: facade_run split: sum.splits)
  qed
qed

text \<open>
  Property C8. What an operation returns is a tree of plain data whose byte arrays all view
  whole buffers that were allocated after the backend had returned: the result shares no
  memory with the arguments of the caller, with the backend, or with a temporary secret.
\<close>

theorem facade_results_are_fresh:
  assumes "createFacade b c h = (Inr x, h')"
  shows "\<exists>n args h0 v h1. b n args h0 = (Inr v, h1) \<and> length h1 \<le> length h' \<and> published (length h1) h' x"
proof (cases "is_sign c")
  case True
  then obtain s r pw where c: "c = Sign s r pw" by (cases c) auto
  have "sign b s r pw h = (Inr x, h')" using assms by (simp add: c)
  then obtain q p k h2 where "invoke b ''sign'' [s, signing_obj q p, pw] (call_norm (Sign s r pw)) k
      = (Inr x, h2)" "h' = fill_zero p h2"
    using sign_run by blast
  then obtain v h1 where "b ''sign'' [s, signing_obj q p, pw] k = (Inr v, h1)"
      "call_norm (Sign s r pw) v h1 = (Inr x, h2)" "h' = fill_zero p h2"
    by (auto simp: invoke_Inr)
  then show ?thesis
    by (metis call_norm_Inr call_norm_grows published_fill length_fill_zero)
next
  case False
  then show ?thesis
    using assms call_norm_Inr call_norm_grows
    by (auto simp: facade_run invoke_Inr split: sum.splits) blast
qed


text \<open>
  What a backend is expected to do with an existing buffer: it leaves it alone and does not hand it
  over as a secret.
\<close>

definition leaves_alone :: "backend \<Rightarrow> nat \<Rightarrow> bool" where
  "leaves_alone b i \<longleftrightarrow> (\<forall>n args h r h1. b n args h = (r, h1) \<longrightarrow> i < length h \<longrightarrow>
     i < length h1 \<and> h1 ! i = h ! i \<and>
     (\<forall>v secret name w. r = Inr v \<longrightarrow> property v ''value'' = Inr secret \<longrightarrow>
        property secret name = Inr (VU8 w) \<longrightarrow> u8_buf w \<noteq> i))"

lemma invoke_frame:
  assumes "leaves_alone b i" and "invoke b n args (call_norm c) h = (r, h')" and "i < length h"
  shows "h' ! i = h ! i"
proof -
  obtain r1 h1 where b: "b n args h = (r1, h1)" by (cases "b n args h")
  with assms(1,3) have h1: "i < length h1" "h1 ! i = h ! i"
    unfolding leaves_alone_def by blast+
  show ?thesis
  proof (cases r1)
    case (Inl e)
    then show ?thesis using assms(2) b h1 by (simp add: invoke_def bindC_def)
  next
    case (Inr v)
    obtain r2 h2 where n: "call_norm c v h1 = (r2, h2)" by (cases "call_norm c v h1")
    have "h2 ! i = h1 ! i"
    proof (rule call_norm_frame [OF n h1(1)])
      fix secret name w
      assume "property v ''value'' = Inr secret" "property secret name = Inr (VU8 w)"
      with assms(1,3) b Inr show "u8_buf w \<noteq> i" unfolding leaves_alone_def by blast
    qed
    then show ?thesis using assms(2) b h1 Inr n by (cases r2) (simp_all add: invoke_def bindC_def)
  qed
qed

text \<open>
  Property C3. An operation does not change a buffer that existed before it was called, provided
  that the backend leaves this buffer alone and does not hand it over as a secret of its result
  (then the facade would clear it): the clearing reaches the temporary output of the backend and
  the facade's own copies, never another password, key or store of the caller.
\<close>

theorem facade_preserves_inputs:
  assumes "leaves_alone b i" and "createFacade b c h = (r, h')" and "i < length h"
  shows "h' ! i = h ! i"
proof (cases "is_sign c")
  case False
  then show ?thesis using assms invoke_frame
    by (cases "call_request c") (auto simp: facade_run split: prod.splits)
next
  case True
  then obtain s q pw where c: "c = Sign s q pw" by (cases c) auto
  then have "sign b s q pw h = (r, h')" using assms(2) by simp
  from sign_run [OF this] show ?thesis
  proof (elim disjE exE conjE)
    fix e assume "snapshotSigningRequest q h = (Inl e, h')"
    from snapshotSigningRequest_Inl(2) [OF this] show ?thesis
      using assms(3) by (auto simp: nth_append)
  next
    fix t w bs h2
    assume inv: "invoke b ''sign'' [s, signing_obj t (fresh_view h bs), pw] (call_norm (Sign s q pw))
          (h @ [Some bs]) = (r, h2)" and h': "h' = fill_zero (fresh_view h bs) h2"
    have "h2 ! i = (h @ [Some bs]) ! i" by (rule invoke_frame [OF assms(1) inv]) (use assms(3) in simp)
    moreover have "h' ! i = h2 ! i"
      unfolding h' by (rule fill_zero_other) (use assms(3) in \<open>simp add: fresh_view_def\<close>)
    ultimately show ?thesis using assms(3) by (simp add: nth_append)
  qed
qed

text \<open>
  The backend signs a copy of the caller's payload, together with the canonical
  object of the typed request, and the copy is zeros once \<open>sign\<close> returns; nothing else that
  the backend left is touched.
\<close>

lemma sign_isolates_payload:
  assumes "createFacade b (Sign s r pw) h = (Inr x, h')"
  shows "\<exists>q w bs v h1. denotes_signing r q \<and> has_data r ''payload'' (VU8 w) \<and> read_view h w = Some bs \<and>
     b ''sign'' [s, signing_obj q (fresh_view h bs), pw] (h @ [Some bs]) = (Inr v, h1) \<and>
     wiped h' (fresh_view h bs) \<and> (\<forall>i < length h1. i \<noteq> length h \<longrightarrow> h' ! i = h1 ! i)"
proof -
  have run: "sign b s r pw h = (Inr x, h')" using assms by simp
  from sign_run [OF run] obtain q w bs h2 where d: "denotes_signing r q" "has_data r ''payload'' (VU8 w)"
      "read_view h w = Some bs" "h' = fill_zero (fresh_view h bs) h2"
      "invoke b ''sign'' [s, signing_obj q (fresh_view h bs), pw] (call_norm (Sign s r pw))
          (h @ [Some bs]) = (Inr x, h2)"
    by blast
  from d(5) obtain v h1 where b: "b ''sign'' [s, signing_obj q (fresh_view h bs), pw] (h @ [Some bs]) = (Inr v, h1)"
      "call_norm (Sign s r pw) v h1 = (Inr x, h2)"
    by (auto simp: invoke_Inr)
  have "h2 ! i = h1 ! i" if "i < length h1" for i
    using output_normalizer.old_buffers [OF plain_normalizer, of "Sign s r pw" v h1 "Inr x" h2 i] b(2) that
    by (simp add: call_norm_def)
  then have "\<forall>i < length h1. i \<noteq> length h \<longrightarrow> h' ! i = h1 ! i"
    unfolding d(4) by (auto simp: fill_zero_other fresh_view_def)
  moreover have "wiped h' (fresh_view h bs)" unfolding d(4) by (rule wiped_fill_zero)
  ultimately show ?thesis using d(1-3) b(1) by blast
qed

text \<open>
  Property C4. Whether \<open>sign\<close> returns or throws, at whatever point, only zeros can be read
  through the copy of the payload it made.
\<close>

theorem sign_payload_wiped:
  assumes "createFacade b (Sign s r pw) h = (res, h')"
    and "has_data r ''payload'' (VU8 w)" and "read_view h w = Some bs"
  shows "wiped h' (fresh_view h bs)"
proof -
  have run: "sign b s r pw h = (res, h')" using assms(1) by simp
  from sign_run [OF run] show ?thesis
  proof (elim disjE exE conjE)
    fix e assume refused: "snapshotSigningRequest r h = (Inl e, h')"
    have "zeroed h' (length h)" if "length h < length h'"
      by (rule snapshotSigningRequest_Inl(3) [OF refused le_refl that])
    then show ?thesis
      by (auto simp: wiped_def read_view_def zeroed_def fresh_view_def all_zero_nth split: if_splits)
  next
    fix q w' bs' h2
    assume d: "has_data r ''payload'' (VU8 w')" "read_view h w' = Some bs'"
      "h' = fill_zero (fresh_view h bs') h2"
    have "bs' = bs" using has_data_unique [OF d(1) assms(2)] d(2) assms(3) by simp
    then show ?thesis unfolding d(3) by (simp add: wiped_fill_zero)
  qed
qed

text \<open>
  The arguments that a call must have. The payload of a signing request is copied, so that its
  buffer must not be detached.
\<close>

fun accepted :: "heap \<Rightarrow> facade_call \<Rightarrow> bool" where
  "accepted h (PrepareGeneratedProfile s pw n) \<longleftrightarrow> is_bit n"
| "accepted h (RestoreProfile s m pw n) \<longleftrightarrow> is_bit n"
| "accepted h (ExportMnemonic s r pw) \<longleftrightarrow> (\<exists>q. denotes_request r q)"
| "accepted h (ExportPrivateKey s r pw) \<longleftrightarrow> (\<exists>q. denotes_request r q)"
| "accepted h (ListSoftwareKeys s p) \<longleftrightarrow> is_uuid_value p"
| "accepted h (DeriveSoftwareKey s p pw c i) \<longleftrightarrow> is_uuid_value p \<and> is_bit c \<and> is_account_index i"
| "accepted h (ImportSoftwareKey s p pw c k) \<longleftrightarrow> is_uuid_value p \<and> is_bit c"
| "accepted h (GenerateSoftwareKey s p pw c) \<longleftrightarrow> is_uuid_value p \<and> is_bit c"
| "accepted h (GetPublicAccount s p k c pw) \<longleftrightarrow>
     is_uuid_value p \<and> is_uuid_value k \<and> (\<exists>ch n. denotes_context c ch n)"
| "accepted h (ChangeProfilePassword s p c n) \<longleftrightarrow> is_uuid_value p"
| "accepted h (DeleteSoftwareKey s p k pw) \<longleftrightarrow> is_uuid_value p \<and> is_uuid_value k"
| "accepted h (DeleteProfile s p pw) \<longleftrightarrow> is_uuid_value p"
| "accepted h (Sign s r pw) \<longleftrightarrow>
     (\<exists>q w. denotes_signing r q \<and> has_data r ''payload'' (VU8 w) \<and> read_view h w \<noteq> None)"
| "accepted h _ \<longleftrightarrow> True"

lemma validateUuidValue_Inr_ok: "validateUuidValue v = Inr u \<longleftrightarrow> is_uuid_value v"
  by (auto simp: validateUuidValue_ok)

lemma call_request_accepted: "\<not> is_sign c \<Longrightarrow> (\<exists>p. call_request c = Inr p) \<longleftrightarrow> accepted h c"
  by (cases c) (auto simp: bindE_Inr_iff validateUuidValue_Inr_ok validateNetworkOrChain_ok
      validateAccountIndex_ok snapshotExportRequest_Inr snapshotAccountContext_Inr)

lemma sign_refused:
  "(\<exists>e extra. \<forall>b. sign b s r pw h = (Inl e, h @ extra)) \<longleftrightarrow> \<not> accepted h (Sign s r pw)"
proof (cases "snapshotSigningRequest r h")
  case (Pair sn h1)
  show ?thesis
  proof (cases sn)
    case (Inl e)
    obtain k where k: "h1 = h @ k" using snapshotSigningRequest_Inl(2) [of r h e h1] Pair Inl by auto
    have "sign b s r pw h = (Inl e, h @ k)" for b using Pair Inl k by (simp add: sign_def bindC_def)
    moreover have "\<not> accepted h (Sign s r pw)"
    proof
      assume "accepted h (Sign s r pw)"
      then obtain q w bs where "denotes_signing r q" "has_data r ''payload'' (VU8 w)" "read_view h w = Some bs" by auto
      then have "snapshotSigningRequest r h = (Inr (signing_obj q (fresh_view h bs)), h @ [Some bs])"
        unfolding snapshotSigningRequest_Inr by blast
      then show False using Pair Inl by simp
    qed
    ultimately show ?thesis by blast
  next
    case (Inr x)
    then obtain q w bs where d: "denotes_signing r q" "has_data r ''payload'' (VU8 w)" "read_view h w = Some bs"
        "x = signing_obj q (fresh_view h bs)" "h1 = h @ [Some bs]"
      using Pair snapshotSigningRequest_Inr [of r h x h1] by blast
    have payload: "get_prop (signing_obj q (fresh_view h bs)) ''payload'' = Inr (VU8 (fresh_view h bs))"
      by (simp add: signing_obj_def)
    have "fst (sign (\<lambda>_ _ h. (Inl (WalletErr k), h)) s r pw h) = Inl (WalletErr k)" for k
      using Pair by (simp add: sign_def bindC_def Inr d(4,5) payload invoke_def finally_clear_value_def
          normalizeOperationError_def split: prod.splits)
    then have "\<not> (\<forall>b. sign b s r pw h = (Inl e, h @ extra))" for e extra
      by (metis Inl_inject fst_conv exn.inject(1) wallet_code.distinct(1))
    moreover have "accepted h (Sign s r pw)" using d(1-3) by auto
    ultimately show ?thesis by blast
  qed
qed

lemma call_refused:
  assumes "\<not> is_sign c"
  shows "(\<exists>e extra. \<forall>b. createFacade b c h = (Inl e, h @ extra)) \<longleftrightarrow> \<not> accepted h c"
    and "createFacade b c h = (Inl e, h @ extra) \<Longrightarrow> \<not> accepted h c \<Longrightarrow> extra = []"
proof -
  have out: "createFacade b c h = (Inl e, h)" if "call_request c = Inl e" for b e by (simp add: facade_run [OF assms] that)
  show "(\<exists>e extra. \<forall>b. createFacade b c h = (Inl e, h @ extra)) \<longleftrightarrow> \<not> accepted h c"
  proof (cases "call_request c")
    case (Inl e)
    then have "\<forall>b. createFacade b c h = (Inl e, h @ [])" using out by simp
    moreover have "\<not> accepted h c" using call_request_accepted [OF assms, of h] Inl by simp
    ultimately show ?thesis by blast
  next
    case (Inr p)
    obtain n args where p: "p = (n, args)" by (cases p)
    have "createFacade (\<lambda>_ _ h. (Inl (WalletErr k), h)) c h = (Inl (WalletErr k), h)" for k
      by (simp add: facade_run [OF assms] Inr p invoke_def bindC_def normalizeOperationError_def)
    then have "\<not> (\<forall>b. createFacade b c h = (Inl e, h @ extra))" for e extra
      by (metis Inl_inject prod.inject exn.inject(1) wallet_code.distinct(1))
    moreover have "accepted h c" using call_request_accepted [OF assms, of h] Inr by simp
    ultimately show ?thesis by blast
  qed
  show "extra = []" if "createFacade b c h = (Inl e, h @ extra)" "\<not> accepted h c"
    using that call_request_accepted [OF assms, of h] out by (cases "call_request c") auto
qed

text \<open>
  Property C7. A call is refused without the backend being consulted (the result is the same for
  all backends) exactly when its arguments are not what the operation requires: UUIDs for
  identifiers, 0 or 1 for a network or a chain, an integer in [0, 2^31) for an account index, a
  request or context object that denotes a typed one, and for \<open>sign\<close> a payload that can be copied.
  A refused call leaves every existing buffer as it was, and only \<open>sign\<close> may have made a copy.
\<close>

theorem facade_refuses_iff:
  "(\<exists>e extra. (\<forall>b. createFacade b c h = (Inl e, h @ extra)) \<and> (is_sign c \<or> extra = [])) \<longleftrightarrow> \<not> accepted h c"
proof (cases "is_sign c")
  case True
  then show ?thesis using sign_refused by (cases c) simp_all
next
  case False
  then show ?thesis using call_refused [OF False] by blast
qed

text \<open>
  \<open>normalizeOperationError\<close> keeps a known code: an error with one is that
  wallet error again, whether the code is the error itself, its \<open>code\<close>, or (when the code is
  not a known one) its \<open>message\<close>; any other string or object becomes \<open>BindingFailure\<close>.
\<close>

lemma normalizeOperationError_codes:
  "\<forall>(s, k) \<in> set CORE_ERROR_CODES. \<forall>m.
     normalizeOperationError (WalletErr k) = WalletErr k \<and>
     normalizeOperationError (Thrown (VStr s)) = WalletErr k \<and>
     normalizeOperationError (Thrown (vobj [(''code'', VStr s), (''message'', m)])) = WalletErr k \<and>
     (\<forall>c. map_of CORE_ERROR_CODES c = None \<longrightarrow>
        normalizeOperationError (Thrown (vobj [(''code'', VStr c), (''message'', VStr s)])) = WalletErr k \<and>
        normalizeOperationError (Thrown (vobj [(''code'', VStr c), (''message'', VUndef)])) = bindingFailure)"
proof -
  have code: "map_of CORE_ERROR_CODES s = Some k" if "(s, k) \<in> set CORE_ERROR_CODES" for s k
  proof (rule map_of_is_SomeI [OF _ that])
    show "distinct (map fst CORE_ERROR_CODES)" by code_simp
  qed
  have obj: "error_candidates (vobj [(''code'', VStr c), (''message'', m)]) =
      c # (case m of VStr t \<Rightarrow> [t] | _ \<Rightarrow> [])" for c m
    by (cases m) (simp_all add: error_candidates_def vobj_def List.map_filter_def)
  have str: "error_candidates (VStr t) = [t]" for t by (simp add: error_candidates_def)
  have ne: "vobj ps \<noteq> VRevoked" for ps by (simp add: vobj_def)
  show ?thesis
    using code by (auto simp: normalizeOperationError_def obj str ne)
qed

text \<open>
  The exception in \<open>facade_errors_are_wallet_errors\<close> is real: a signing request
  that is well formed but for a payload that is a revoked proxy makes \<open>sign\<close> throw the
  language's own \<open>TypeError\<close>, since \<open>value instanceof Uint8Array\<close> stands before the \<open>try\<close>.
\<close>

lemma sign_revoked_payload_escapes:
  assumes "denotes_signing r q" and "has_data r ''payload'' VRevoked"
  shows "createFacade b (Sign s r pw) h = (Inl type_error, h)"
proof -
  from assms(1) obtain tv cv where t: "has_data r ''target'' tv"
     "has_data tv ''profile_id'' (VStr (sr_profile q))" "has_data tv ''key_id'' (VStr (sr_key q))"
     "rx_test UUID_PATTERN (sr_profile q)" "rx_test UUID_PATTERN (sr_key q)" "has_data tv ''context'' cv"
     "denotes_context cv (sr_chain q) (sr_network q)"
    unfolding denotes_signing_def by (elim exE conjE)
  have f: "dtoField True r ''target'' = Inr tv" "dtoField True r ''payload'' = Inr VRevoked"
    using t assms(2) has_data_object by (auto simp: dtoField_required)
  have "\<exists>x. snapshotSigningTarget tv = Inr x"
    unfolding snapshotSigningTarget_Inr using t by blast
  then show ?thesis
    by (auto simp: sign_def bindC_def snapshotSigningRequest_def f snapshotUint8Array_def)
qed

section \<open>Witnesses\<close>

theorem normalizeOperationError_codes_witness:
  "normalizeOperationError (Thrown (vobj [(''code'', VStr ''ERR_OTHER''), (''message'', VStr ''NetworkMismatch'')])) =
     WalletErr NetworkMismatch"
proof -
  have "(''NetworkMismatch'', NetworkMismatch) \<in> set CORE_ERROR_CODES"
    by (simp add: CORE_ERROR_CODES_def)
  moreover have "map_of CORE_ERROR_CODES ''ERR_OTHER'' = None" by code_simp
  ultimately show ?thesis using normalizeOperationError_codes by blast
qed

text \<open>A backend that knows one profile: it exports its mnemonic, signs, and refuses the rest.\<close>

definition sample_backend :: backend where
  "sample_backend n args h =
     (if n = ''export_mnemonic'' then
        (Inr (vobj [(''value'', vobj [(''mnemonic_utf8'', VU8 \<lparr>u8_buf = length h, u8_off = 0, u8_len = 2\<rparr>)]),
                    (''warnings'', VArr [])]), h @ [Some [1, 2]])
      else if n = ''sign'' then
        (Inr (vobj [(''value'', vobj [(''signature'', VU8 \<lparr>u8_buf = length h, u8_off = 0, u8_len = 64\<rparr>)]),
                    (''warnings'', VArr [])]), h @ [Some (replicate 64 9)])
      else (Inl (Thrown (VStr ''ProfileNotFound'')), h))"

lemma property_vobj: "property (vobj ps) n = Inr (case map_of ps n of Some v \<Rightarrow> v | None \<Rightarrow> VUndef)"
  by (simp add: property_def requiredObject_def)

lemma sample_leaves_alone: "leaves_alone sample_backend i"
  unfolding leaves_alone_def
proof (intro allI impI conjI)
  fix n args h r h1
  assume run: "sample_backend n args h = (r, h1)" and i: "i < length h"
  then have grows: "\<exists>k. h1 = h @ k" by (auto simp: sample_backend_def split: if_splits)
  then show "i < length h1" "h1 ! i = h ! i" using i by (auto simp: nth_append)
  fix v secret name w
  assume v: "r = Inr v" "property v ''value'' = Inr secret" and w: "property secret name = Inr (VU8 w)"
  have "secret = vobj [(''mnemonic_utf8'', VU8 \<lparr>u8_buf = length h, u8_off = 0, u8_len = 2\<rparr>)] \<or>
      secret = vobj [(''signature'', VU8 \<lparr>u8_buf = length h, u8_off = 0, u8_len = 64\<rparr>)]"
    using run v by (simp add: sample_backend_def property_vobj split: if_splits)
      (auto simp: property_vobj)
  with w i show "u8_buf w \<noteq> i"
    by (elim disjE) (auto simp add: property_vobj split: if_splits)
qed

definition sample_signing :: signing_request where
  "sample_signing = \<lparr>sr_profile = sample_uuid, sr_key = sample_uuid, sr_chain = ''symbol'',
     sr_network = ''testnet'', sr_approved = True\<rparr>"

definition sample_payload :: u8 where
  "sample_payload = \<lparr>u8_buf = 0, u8_off = 1, u8_len = 2\<rparr>"

abbreviation "sample_heap \<equiv> [Some [5, 6, 7, 8]] :: heap"

abbreviation "sample_export \<equiv>
  createFacade sample_backend (ExportMnemonic VUndef (request_obj sample_request) VUndef)"

abbreviation "sample_sign \<equiv>
  createFacade sample_backend (Sign VUndef (signing_obj sample_signing sample_payload) VUndef)"

lemma sample_export_run:
  "sample_export sample_heap = (Inr (vobj
     [(''value'', vobj [(''mnemonic_utf8'', VU8 \<lparr>u8_buf = 2, u8_off = 0, u8_len = 2\<rparr>)]),
      (''warnings'', VArr [])]), [Some [5, 6, 7, 8], Some [0, 0], Some [1, 2]])"
  by code_simp

lemma sample_sign_run:
  "sample_sign sample_heap = (Inr (vobj
     [(''value'', vobj [(''signature'', VU8 \<lparr>u8_buf = 3, u8_off = 0, u8_len = 64\<rparr>)]),
      (''warnings'', VArr [])]),
     [Some [5, 6, 7, 8], Some [0, 0], Some (replicate 64 9), Some (replicate 64 9)])"
  by code_simp

theorem facade_errors_are_wallet_errors_witness:
  "\<exists>k. createFacade sample_backend (ListProfiles VUndef) sample_heap = (Inl (WalletErr k), sample_heap)"
proof -
  have run: "createFacade sample_backend (ListProfiles VUndef) sample_heap =
      (Inl (WalletErr ProfileNotFound), sample_heap)"
    by code_simp
  have "\<exists>k. WalletErr ProfileNotFound = WalletErr k"
    by (rule facade_errors_are_wallet_errors [OF run]) (simp_all add: sample_backend_def)
  with run show ?thesis by auto
qed

theorem facade_results_are_fresh_witness:
  "\<exists>n args h0 v h1. sample_backend n args h0 = (Inr v, h1) \<and> 
     published (length h1) (snd (sample_export sample_heap)) (vobj
       [(''value'', vobj [(''mnemonic_utf8'', VU8 \<lparr>u8_buf = 2, u8_off = 0, u8_len = 2\<rparr>)]),
        (''warnings'', VArr [])])"
  using facade_results_are_fresh [OF sample_export_run] unfolding sample_export_run snd_conv by blast

theorem facade_preserves_inputs_witness:
  "leaves_alone sample_backend 0 \<and> snd (sample_export sample_heap) ! 0 = Some [5, 6, 7, 8]"
proof
  show "snd (sample_export sample_heap) ! 0 = Some [5, 6, 7, 8]"
    using facade_preserves_inputs [OF sample_leaves_alone sample_export_run, of 0]
    unfolding sample_export_run by simp
qed (rule sample_leaves_alone)

lemma sample_signing_payload:
  "has_data (signing_obj sample_signing sample_payload) ''payload'' (VU8 sample_payload)"
  "read_view sample_heap sample_payload = Some [6, 7]"
  by (simp_all add: signing_obj_def sample_payload_def read_view_def)

lemma sign_isolates_payload_witness:
  "\<exists>q w bs v h1. has_data (signing_obj sample_signing sample_payload) ''payload'' (VU8 w) \<and>
     read_view sample_heap w = Some bs \<and>
     sample_backend ''sign'' [VUndef, signing_obj q (fresh_view sample_heap bs), VUndef]
       (sample_heap @ [Some bs]) = (Inr v, h1) \<and>
     wiped (snd (sample_sign sample_heap)) (fresh_view sample_heap bs)"
  using sign_isolates_payload [OF sample_sign_run] unfolding sample_sign_run snd_conv by blast

theorem sign_payload_wiped_witness:
  "wiped (snd (sample_sign sample_heap)) (fresh_view sample_heap [6, 7])"
  unfolding sample_sign_run snd_conv
  by (rule sign_payload_wiped [OF sample_sign_run sample_signing_payload])

definition sample_revoked_request :: jv where
  "sample_revoked_request = vobj
     [(''target'', vobj [(''profile_id'', VStr sample_uuid), (''key_id'', VStr sample_uuid),
         (''context'', context_obj ''symbol'' ''testnet'')]),
      (''payload'', VRevoked), (''approval'', vobj [(''status'', VStr ''approved'')])]"

theorem sign_revoked_payload_escapes_witness:
  "createFacade sample_backend (Sign VUndef sample_revoked_request VUndef) sample_heap =
     (Inl type_error, sample_heap)"
proof (rule sign_revoked_payload_escapes)
  show "denotes_signing sample_revoked_request sample_signing"
    by (simp add: denotes_signing_def sample_revoked_request_def sample_signing_def
        denotes_context_def context_obj_def sample_uuid_ok)
  show "has_data sample_revoked_request ''payload'' VRevoked"
    by (simp add: sample_revoked_request_def)
qed

end
