(* ===== verification/Loaders.thy ===== *)
theory Loaders
  imports NativeManifest Environment FacadeOps
begin

text \<open>
  The entry points of the package: \<open>node/index.mjs\<close> and \<open>node/index.cjs\<close> (choice and
  verification of a native backend, WebAssembly as the fallback), \<open>wasm/index.mjs\<close>,
  \<open>wasm/index.cjs\<close> and \<open>wasm/asset.mjs\<close> (verification of the WebAssembly module), and
  \<open>react-native/index.mjs\<close> and \<open>react-native/native-module.mjs\<close> (identity of the native
  module).

  The host is a parameter: the file system, \<open>JSON.parse\<close> on the bytes of a file, the digests,
  the process, the module loaders. A loaded module has its exports as a value, which
  \<open>createFacade\<close> inspects, and the function that runs its operations.
\<close>

record js_module =
  m_exports :: jv
  m_call :: backend

text \<open>The one error of the loaders, \<open>WalletCoreBackendInitializationError\<close>.\<close>

datatype init_error = BackendInitializationError

definition backendInitializationError :: init_error where
  "backendInitializationError = BackendInitializationError"

text \<open>\<open>try { facade = createFacade(backend) } catch { throw backendInitializationError() }\<close>.\<close>

definition facade_of :: "js_module \<Rightarrow> init_error + js_module" where
  "facade_of m = (case createFacade_check (m_exports m) of
     Inl _ \<Rightarrow> Inl backendInitializationError | Inr _ \<Rightarrow> Inr m)"

section \<open>Node\<close>

text \<open>What \<open>process.report\<close> answers.\<close>

datatype process_report = NoReport | ReportThrows | Report js

record node_env =
  ne_fs :: file_system
  ne_parse :: "byte list \<Rightarrow> js option"
  ne_sha256 :: "byte list \<Rightarrow> string"
  ne_platform :: string
  ne_arch :: string
  ne_report :: process_report
  ne_require :: "string \<Rightarrow> js_module option"

definition readJson :: "node_env \<Rightarrow> string \<Rightarrow> init_error + js" where
  "readJson env path = (case fs_read (ne_fs env) path of
     None \<Rightarrow> Inl backendInitializationError
   | Some bytes \<Rightarrow> (case ne_parse env bytes of
        None \<Rightarrow> Inl backendInitializationError | Some v \<Rightarrow> Inr v))"

definition runtimeGlibcVersion :: "process_report \<Rightarrow> js" where
  "runtimeGlibcVersion p = (case p of
     Report report \<Rightarrow>
       (let version = fld (fld report ''header'') ''glibcVersionRuntime'' in
        if is_str version \<and> length (str_of version) > 0 then version else JUndef)
   | _ \<Rightarrow> JUndef)"

text \<open>
  The last part of \<open>loadNativeBackend\<close>: the artifact of the entry is read and its digest
  compared before it is loaded. A relative path that the validator accepted is four plain
  components, so \<open>resolve\<close> appends it. A module that exports \<open>null\<close> is like no module for the
  caller.
\<close>

definition load_entry :: "node_env \<Rightarrow> string \<Rightarrow> js \<Rightarrow> init_error + js_module option" where
  "load_entry env packageRoot entry =
     (let artifactPath = packageRoot @ ''/'' @ str_of (fld entry ''relative_path'') in
      case fs_read (ne_fs env) artifactPath of
        None \<Rightarrow> Inl backendInitializationError
      | Some bytes \<Rightarrow>
          if \<not> strict_eq (JStr (ne_sha256 env bytes)) (fld entry ''sha256'')
          then Inl backendInitializationError
          else (case ne_require env artifactPath of
             None \<Rightarrow> Inl backendInitializationError
           | Some m \<Rightarrow> Inr (if m_exports m = VNull then None else Some m)))"

definition load_native :: "node_env \<Rightarrow> string \<Rightarrow> init_error + js_module option" where
  "load_native env packageRoot =
     bindE (readJson env (packageRoot @ ''/package.json'')) (\<lambda>packageMeta.
     bindE (readJson env (packageRoot @ ''/dist/native/artifact-manifest.json'')) (\<lambda>manifest.
     (case validateNativeManifest manifest packageMeta of
        Inl _ \<Rightarrow> Inl backendInitializationError
      | Inr _ \<Rightarrow>
         (case targetForRuntime (ne_platform env) (ne_arch env) (runtimeGlibcVersion (ne_report env)) of
            None \<Rightarrow> Inr None
          | Some targetId \<Rightarrow>
             (case find (\<lambda>artifact. strict_eq (fld artifact ''target_id'') (JStr targetId))
                 (elems (fld manifest ''artifacts'')) of
                None \<Rightarrow> Inr None
              | Some entry \<Rightarrow> load_entry env packageRoot entry)))))"

text \<open>
  \<open>index.mjs\<close> lies in \<open><root>/dist/node\<close>, so its \<open>../../\<close> is the root; \<open>index.cjs\<close> cuts
  \<open>/dist/node\<close> off its own directory, when it ends so.
\<close>

definition loadNativeBackend :: "node_env \<Rightarrow> string \<Rightarrow> init_error + js_module option" where
  "loadNativeBackend env packageRoot = load_native env packageRoot"

definition cjs_package_root :: "string \<Rightarrow> string" where
  "cjs_package_root dirname =
     (if list_ex (\<lambda>suffix. ends_with suffix dirname)
           [''/dist/node'', CHR 0x5C # ''dist/node'', ''/dist'' @ CHR 0x5C # ''node'',
            CHR 0x5C # ''dist'' @ CHR 0x5C # ''node'']
      then take (length dirname - 10) dirname else dirname)"

definition loadNativeBackend_cjs :: "node_env \<Rightarrow> string \<Rightarrow> init_error + js_module option" where
  "loadNativeBackend_cjs env dirname = load_native env (cjs_package_root dirname)"

text \<open>The module: a native backend when there is one, the WebAssembly module otherwise.\<close>

definition choose_backend ::
  "init_error + js_module option \<Rightarrow> init_error + js_module \<Rightarrow> init_error + js_module" where
  "choose_backend native wasm = bindE native (\<lambda>nativeBackend.
     bindE (case nativeBackend of None \<Rightarrow> wasm | Some m \<Rightarrow> Inr m) facade_of)"

definition node_index :: "node_env \<Rightarrow> string \<Rightarrow> init_error + js_module \<Rightarrow> init_error + js_module" where
  "node_index env packageRoot wasm = choose_backend (loadNativeBackend env packageRoot) wasm"

definition node_index_cjs :: "node_env \<Rightarrow> string \<Rightarrow> init_error + js_module \<Rightarrow> init_error + js_module" where
  "node_index_cjs env dirname wasm = choose_backend (loadNativeBackend_cjs env dirname) wasm"

section \<open>WebAssembly\<close>

text \<open>
  The host of \<open>wasm/index.mjs\<close>: whether it is Node; the parsed metadata, read or imported;
  the bytes of the module read from the package (Node); the two ways to its URL and the
  response of \<open>fetch\<close> (elsewhere), \<open>None\<close> where the promise is rejected; the Web Crypto
  digest if there is one; and the initialisation of the generated bindings.
\<close>

record wasm_env =
  we_is_node :: bool
  we_manifest :: "js option"
  we_read :: "byte list option"
  we_imported_url :: "string option"
  we_asset_url :: string
  we_fetch :: "string \<Rightarrow> (bool \<times> byte list) option"
  we_subtle :: "(byte list \<Rightarrow> byte list) option"
  we_initialize :: "byte list \<Rightarrow> js_module option"

definition wasm_metadata_invalid :: "js \<Rightarrow> bool" where
  "wasm_metadata_invalid m \<longleftrightarrow> \<not> isPlainObject m \<or>
     join '','' (sort (obj_keys m)) \<noteq> ''artifact_filename,sha256'' \<or>
     \<not> strict_eq (fld m ''artifact_filename'') (JStr ''symbol_nem_wallet_core_wasm_bg.wasm'')"

definition loadWasmAsset :: "wasm_env \<Rightarrow> (byte list) res" where
  "loadWasmAsset env =
     (let url = (case we_imported_url env of Some u \<Rightarrow> u | None \<Rightarrow> we_asset_url env) in
      case we_fetch env url of
        None \<Rightarrow> Inl TypeErr
      | Some (ok, bytes) \<Rightarrow> if \<not> ok then Inl (Fail ''WASM asset unavailable'') else Inr bytes)"

text \<open>\<open>byte.toString(16).padStart(2, "0")\<close>.\<close>

definition hex_char :: "nat \<Rightarrow> char" where
  "hex_char n = (if n < 10 then char_of (48 + n) else char_of (87 + n))"

definition hex_byte :: "byte \<Rightarrow> string" where
  "hex_byte b = [hex_char (unat b div 16), hex_char (unat b mod 16)]"

definition hex_string :: "byte list \<Rightarrow> string" where
  "hex_string bs = concat (map hex_byte bs)"

definition verifyWasmAsset :: "(byte list \<Rightarrow> byte list) option \<Rightarrow> byte list \<Rightarrow> js \<Rightarrow> (byte list) res" where
  "verifyWasmAsset subtle bytes expectedSha256 =
     (if \<not> is_str expectedSha256 \<or> \<not> rx_test hash_pattern (str_of expectedSha256)
      then Inl (Fail ''WASM integrity metadata invalid'')
      else case subtle of
        None \<Rightarrow> Inl (Fail ''WASM integrity verification unavailable'')
      | Some digest \<Rightarrow>
          if hex_string (digest bytes) \<noteq> str_of expectedSha256 then Inl (Fail ''WASM integrity mismatch'')
          else Inr bytes)"

text \<open>
  The module \<open>wasm/index.mjs\<close>: everything inside one \<open>try\<close>, whatever fails is an
  initialisation error.
\<close>

definition wasm_index :: "wasm_env \<Rightarrow> init_error + js_module" where
  "wasm_index env =
     (case we_manifest env of
        None \<Rightarrow> Inl backendInitializationError
      | Some manifest \<Rightarrow>
         if wasm_metadata_invalid manifest then Inl backendInitializationError
         else
           (case (if we_is_node env
                  then (case we_read env of None \<Rightarrow> Inl (Fail ''read'') | Some bytes \<Rightarrow> Inr bytes)
                  else loadWasmAsset env) of
              Inl _ \<Rightarrow> Inl backendInitializationError
            | Inr bytes \<Rightarrow>
               (case verifyWasmAsset (we_subtle env) bytes (fld manifest ''sha256'') of
                  Inl _ \<Rightarrow> Inl backendInitializationError
                | Inr verified \<Rightarrow>
                   (case we_initialize env bytes of
                      None \<Rightarrow> Inl backendInitializationError
                    | Some generated \<Rightarrow> facade_of generated))))"

text \<open>\<open>wasm/index.cjs\<close>: the digest is that of \<open>node:crypto\<close>.\<close>

definition wasm_index_cjs :: "wasm_env \<Rightarrow> (byte list \<Rightarrow> string) \<Rightarrow> init_error + js_module" where
  "wasm_index_cjs env sha256 =
     (case we_manifest env of
        None \<Rightarrow> Inl backendInitializationError
      | Some manifest \<Rightarrow>
         if wasm_metadata_invalid manifest \<or> \<not> is_str (fld manifest ''sha256'') \<or>
            \<not> rx_test hash_pattern (str_of (fld manifest ''sha256''))
         then Inl backendInitializationError
         else
           (case we_read env of
              None \<Rightarrow> Inl backendInitializationError
            | Some bytes \<Rightarrow>
                if \<not> strict_eq (JStr (sha256 bytes)) (fld manifest ''sha256'')
                then Inl backendInitializationError
                else (case we_initialize env bytes of
                   None \<Rightarrow> Inl backendInitializationError
                 | Some generated \<Rightarrow> facade_of generated)))"

section \<open>React Native\<close>

record rn_expected =
  rx_target :: string
  rx_platform :: string
  rx_environment :: string
  rx_architecture :: string
  rx_path :: string
  rx_filename :: string
  rx_identity :: string

definition EXPECTED_ARTIFACTS :: "rn_expected list" where
  "EXPECTED_ARTIFACTS =
    [\<lparr>rx_target = ''android-arm64-v8a'', rx_platform = ''android'', rx_environment = ''device'',
      rx_architecture = ''arm64-v8a'',
      rx_path = ''dist/react-native/android/jni/arm64-v8a/libsymbol_nem_wallet_core_rn.so'',
      rx_filename = ''libsymbol_nem_wallet_core_rn.so'',
      rx_identity = ''android|arm64-v8a|dist/react-native/android/jni/arm64-v8a/libsymbol_nem_wallet_core_rn.so''\<rparr>,
     \<lparr>rx_target = ''android-x86_64'', rx_platform = ''android'', rx_environment = ''emulator'',
      rx_architecture = ''x86_64'',
      rx_path = ''dist/react-native/android/jni/x86_64/libsymbol_nem_wallet_core_rn.so'',
      rx_filename = ''libsymbol_nem_wallet_core_rn.so'',
      rx_identity = ''android|x86_64|dist/react-native/android/jni/x86_64/libsymbol_nem_wallet_core_rn.so''\<rparr>,
     \<lparr>rx_target = ''ios-arm64'', rx_platform = ''ios'', rx_environment = ''device'',
      rx_architecture = ''arm64'',
      rx_path = ''dist/react-native/ios/SymbolNemWalletCoreRN.xcframework/ios-arm64/libsymbol_nem_wallet_core_rn.a'',
      rx_filename = ''libsymbol_nem_wallet_core_rn.a'',
      rx_identity = ''ios|ios|arm64|dist/react-native/ios/SymbolNemWalletCoreRN.xcframework/ios-arm64/libsymbol_nem_wallet_core_rn.a''\<rparr>,
     \<lparr>rx_target = ''ios-simulator-arm64'', rx_platform = ''ios'', rx_environment = ''simulator'',
      rx_architecture = ''arm64'',
      rx_path = ''dist/react-native/ios/SymbolNemWalletCoreRN.xcframework/ios-arm64-simulator/libsymbol_nem_wallet_core_rn.a'',
      rx_filename = ''libsymbol_nem_wallet_core_rn.a'',
      rx_identity = ''ios|ios-simulator|arm64|dist/react-native/ios/SymbolNemWalletCoreRN.xcframework/ios-arm64-simulator/libsymbol_nem_wallet_core_rn.a''\<rparr>]"

definition rn_manifest_error :: js_error where
  "rn_manifest_error = Fail ''invalid React Native artifact manifest''"

text \<open>
  Two sorted key lists compared as JSON texts: \<open>JSON.stringify\<close> of string lists is
  injective, so this compares the lists.
\<close>

definition sorted_keys_are :: "js \<Rightarrow> string list \<Rightarrow> bool" where
  "sorted_keys_are v ks \<longleftrightarrow> sort (obj_keys v) = ks"

definition rn_artifact_guard :: "rn_expected \<Rightarrow> js \<Rightarrow> unit res" where
  "rn_artifact_guard expected artifact =
     guard_any rn_manifest_error
       [Inr (\<not> isPlainObject artifact),
        Inr (\<not> sorted_keys_are artifact [''architecture'', ''artifact_filename'', ''environment'',
          ''platform'', ''relative_path'', ''sha256'', ''target_id'', ''toolchain_identifier'']),
        Inr (\<not> strict_eq (fld artifact ''target_id'') (JStr (rx_target expected))),
        Inr (\<not> strict_eq (fld artifact ''platform'') (JStr (rx_platform expected))),
        Inr (\<not> strict_eq (fld artifact ''environment'') (JStr (rx_environment expected))),
        Inr (\<not> strict_eq (fld artifact ''architecture'') (JStr (rx_architecture expected))),
        Inr (\<not> strict_eq (fld artifact ''relative_path'') (JStr (rx_path expected))),
        Inr (\<not> strict_eq (fld artifact ''artifact_filename'') (JStr (rx_filename expected))),
        not_re_test hash_pattern (fld artifact ''sha256''),
        Inr (\<not> nonEmptyString (fld artifact ''toolchain_identifier''))]"

text \<open>The loop over the entries and the map it fills, in order.\<close>

fun rn_identities :: "rn_expected list \<Rightarrow> js list \<Rightarrow> (string \<times> string) list res" where
  "rn_identities (x # xs) (a # as) =
     bindE (rn_artifact_guard x a) (\<lambda>_.
     bindE (rn_identities xs as) (\<lambda>m. Inr ((str_of (fld a ''target_id''), rx_identity x) # m)))"
| "rn_identities _ _ = Inr []"

definition manifestArtifactIdentities :: "js \<Rightarrow> (string \<times> string) list res" where
  "manifestArtifactIdentities manifest =
     (if \<not> isPlainObject manifest \<or>
         \<not> sorted_keys_are manifest [''artifacts'', ''package_name'', ''package_version'',
           ''schema_version'', ''source_commit''] \<or>
         \<not> strict_eq (fld manifest ''schema_version'') (JInt 1) \<or>
         \<not> strict_eq (fld manifest ''package_name'') (JStr PACKAGE_NAME) \<or>
         \<not> is_str (fld manifest ''package_version'') \<or>
         \<not> rx_test version_pattern (str_of (fld manifest ''package_version'')) \<or>
         \<not> is_str (fld manifest ''source_commit'') \<or>
         \<not> rx_test commit_pattern (str_of (fld manifest ''source_commit'')) \<or>
         \<not> is_arr (fld manifest ''artifacts'') \<or>
         length (elems (fld manifest ''artifacts'')) \<noteq> length EXPECTED_ARTIFACTS
      then Inl rn_manifest_error
      else rn_identities EXPECTED_ARTIFACTS (elems (fld manifest ''artifacts'')))"

text \<open>
  The turbo module registry: \<open>None\<close> when \<open>getEnforcing\<close> throws, else the module, whether it
  is an object with a function \<open>invoke\<close>, and the answer of its identity call (\<open>None\<close> when
  that throws).
\<close>

record turbo_module =
  tm_usable :: bool
  tm_identity :: "js option"
  tm_module :: js_module

definition getReactNativeModule :: "js \<Rightarrow> turbo_module option \<Rightarrow> init_error + js_module" where
  "getReactNativeModule manifest registry =
     (case manifestArtifactIdentities manifest of
        Inl _ \<Rightarrow> Inl backendInitializationError
      | Inr expectedArtifacts \<Rightarrow>
         (case registry of
            None \<Rightarrow> Inl backendInitializationError
          | Some m \<Rightarrow>
              if \<not> tm_usable m then Inl backendInitializationError
              else (case tm_identity m of
                 None \<Rightarrow> Inl backendInitializationError
               | Some identity \<Rightarrow>
                   if \<not> isPlainObject identity \<or>
                      \<not> sorted_keys_are identity [''architecture'', ''artifact_identity'',
                        ''module_identity'', ''module_name'', ''target_id''] \<or>
                      \<not> strict_eq (fld identity ''module_name'') (JStr ''NativeSymbolNemWalletCore'') \<or>
                      \<not> strict_eq (fld identity ''module_identity'')
                        (JStr ''symbol-nem-wallet-core-react-native-v1'') \<or>
                      \<not> strict_eq (fld identity ''architecture'') (JStr ''new'') \<or>
                      \<not> is_str (fld identity ''target_id'') \<or>
                      map_of expectedArtifacts (str_of (fld identity ''target_id'')) = None \<or>
                      \<not> strict_eq (JStr (the (map_of expectedArtifacts (str_of (fld identity ''target_id'')))))
                          (fld identity ''artifact_identity'')
                   then Inl backendInitializationError
                   else Inr (tm_module m))))"

text \<open>
  \<open>react-native/index.mjs\<close>: every operation of the facade's backend is a call
  \<open>invoke(operation, {args})\<close> of the native module.
\<close>

definition rn_backend_exports :: jv where
  "rn_backend_exports = vobj (map (\<lambda>operation. (operation, VFun)) OPERATION_NAMES)"

definition react_native_index :: "js \<Rightarrow> turbo_module option \<Rightarrow> init_error + js_module" where
  "react_native_index manifest registry =
     bindE (getReactNativeModule manifest registry) (\<lambda>nativeModule.
       facade_of \<lparr>m_exports = rn_backend_exports,
                  m_call = (\<lambda>operation args. m_call nativeModule ''invoke''
                     [VStr operation, vobj [(''args'', VArr args)]])\<rparr>)"

section \<open>What the loaders guarantee\<close>

lemma some_not_function_iff:
  "some_not_function v ns = Inr False \<longleftrightarrow> (\<forall>n \<in> set ns. get_prop v n = Inr VFun)"
proof (induction ns)
  case (Cons n ns)
  then show ?case by (cases "get_prop v n") auto
qed simp

lemma facade_of_iff:
  "facade_of m = Inr m' \<longleftrightarrow> m' = m \<and> is_object (m_exports m) \<and>
     (\<forall>n \<in> set OPERATION_NAMES. get_prop (m_exports m) n = Inr VFun)"
proof -
  have "createFacade_check (m_exports m) = Inr () \<longleftrightarrow> is_object (m_exports m) \<and>
      some_not_function (m_exports m) OPERATION_NAMES = Inr False"
    by (cases "some_not_function (m_exports m) OPERATION_NAMES") (auto simp: createFacade_check_def)
  then show ?thesis unfolding some_not_function_iff facade_of_def
    by (cases "createFacade_check (m_exports m)") (auto simp: unit_eq)
qed

text \<open>The files of the package and the entry of a target in its manifest.\<close>

definition package_files :: "node_env \<Rightarrow> string \<Rightarrow> js \<Rightarrow> bool" where
  "package_files env root mf \<longleftrightarrow> (\<exists>pm. readJson env (root @ ''/package.json'') = Inr pm \<and>
     readJson env (root @ ''/dist/native/artifact-manifest.json'') = Inr mf \<and> native_manifest_spec mf pm)"

definition runtime_target :: "node_env \<Rightarrow> string option" where
  "runtime_target env =
     targetForRuntime (ne_platform env) (ne_arch env) (runtimeGlibcVersion (ne_report env))"

definition entry_of :: "js \<Rightarrow> string \<Rightarrow> js \<Rightarrow> bool" where
  "entry_of mf t a \<longleftrightarrow> a \<in> set (elems (fld mf ''artifacts'')) \<and> fld a ''target_id'' = JStr t"

lemma entry_of_unique:
  assumes "native_manifest_spec mf pm" and "entry_of mf t a" and "entry_of mf t b" shows "a = b"
proof -
  from assms(1) obtain as where as: "fld mf ''artifacts'' = JArr as"
    and ids: "map (\<lambda>a. str_of (fld a ''target_id'')) as =
      filter (\<lambda>t. t \<in> set (map (\<lambda>a. str_of (fld a ''target_id'')) as)) CANONICAL_TARGET_ORDER"
    unfolding native_manifest_spec_def Let_def by blast
  have "distinct (map (\<lambda>a. str_of (fld a ''target_id'')) as)"
    by (subst ids) (simp add: native_scan.order_distinct)
  then have "inj_on (\<lambda>a. str_of (fld a ''target_id'')) (set as)" by (simp add: distinct_map)
  moreover have "str_of (fld a ''target_id'') = str_of (fld b ''target_id'')" "a \<in> set as" "b \<in> set as"
    using assms(2,3) as by (simp_all add: entry_of_def)
  ultimately show ?thesis by (rule inj_onD)
qed

lemma entry_of_spec: "native_manifest_spec mf pm \<Longrightarrow> entry_of mf t a \<Longrightarrow> native_entry_spec a"
  unfolding native_manifest_spec_def Let_def entry_of_def list_all_iff by force

lemma find_entry:
  assumes "native_manifest_spec mf pm"
  shows "find (\<lambda>artifact. fld artifact ''target_id'' = JStr t) (elems (fld mf ''artifacts'')) = Some a
     \<longleftrightarrow> entry_of mf t a" (is "?find = _ \<longleftrightarrow> _")
proof
  assume "?find = Some a"
  then show "entry_of mf t a" by (auto simp: find_Some_iff entry_of_def)
next
  assume a: "entry_of mf t a"
  then have "?find \<noteq> None" by (auto simp: find_None_iff entry_of_def)
  then obtain b where b: "?find = Some b" by auto
  then have "entry_of mf t b" by (auto simp: find_Some_iff entry_of_def)
  with entry_of_unique [OF assms a] b show "?find = Some a" by simp
qed

lemma find_entry_None:
  "find (\<lambda>artifact. fld artifact ''target_id'' = JStr t) (elems (fld mf ''artifacts'')) = None
     \<longleftrightarrow> (\<forall>a. \<not> entry_of mf t a)"
  by (auto simp: find_None_iff entry_of_def)

lemma validated_case:
  "(case validateNativeManifest m p of Inl _ \<Rightarrow> Inl e | Inr _ \<Rightarrow> k) = Inr r \<longleftrightarrow>
     native_manifest_spec m p \<and> k = Inr r"
  using validateNativeManifest_spec [of m p] by (cases "validateNativeManifest m p") auto

lemma load_native_Inr:
  "load_native env root = Inr r \<longleftrightarrow> (\<exists>mf. package_files env root mf \<and>
     (case runtime_target env of None \<Rightarrow> r = None
      | Some t \<Rightarrow> (r = None \<and> (\<forall>a. \<not> entry_of mf t a)) \<or>
          (\<exists>a. entry_of mf t a \<and> load_entry env root a = Inr r)))"
  (is "_ \<longleftrightarrow> (\<exists>mf. _ \<and> ?case mf)")
proof
  assume "load_native env root = Inr r"
  then obtain pm mf where p: "readJson env (root @ ''/package.json'') = Inr pm"
     "readJson env (root @ ''/dist/native/artifact-manifest.json'') = Inr mf"
     "native_manifest_spec mf pm" and
     rest: "(case runtime_target env of None \<Rightarrow> Inr None | Some targetId \<Rightarrow>
        (case find (\<lambda>artifact. fld artifact ''target_id'' = JStr targetId)
                 (elems (fld mf ''artifacts'')) of
          None \<Rightarrow> Inr None | Some entry \<Rightarrow> load_entry env root entry)) = Inr r"
    by (auto simp: load_native_def [unfolded strict_eq_str] bindE_Inr_iff runtime_target_def validated_case)
  have "?case mf" using rest
    by (auto simp: find_entry [OF p(3)] find_entry_None split: option.splits)
  with p show "\<exists>mf. package_files env root mf \<and> ?case mf" by (auto simp: package_files_def)
next
  assume "\<exists>mf. package_files env root mf \<and> ?case mf"
  then obtain mf pm where p: "readJson env (root @ ''/package.json'') = Inr pm"
     "readJson env (root @ ''/dist/native/artifact-manifest.json'') = Inr mf"
     "native_manifest_spec mf pm" and c: "?case mf"
    by (auto simp: package_files_def)
  have v: "validateNativeManifest mf pm = Inr mf" using p(3) by (simp add: validateNativeManifest_spec)
  show "load_native env root = Inr r"
  proof (cases "runtime_target env")
    case None
    then show ?thesis using p c v by (simp add: load_native_def [unfolded strict_eq_str] runtime_target_def)
  next
    case (Some t)
    note find = find_entry [OF p(3), of t] find_entry_None [of t mf]
    show ?thesis
    proof (cases "find (\<lambda>artifact. fld artifact ''target_id'' = JStr t) (elems (fld mf ''artifacts''))")
      case None
      then have "r = None" using c Some find by auto
      then show ?thesis using p v Some None by (simp add: load_native_def [unfolded strict_eq_str] runtime_target_def)
    next
      case entry: (Some a)
      then have "load_entry env root a = Inr r"
        using c Some find entry_of_unique [OF p(3)] by auto
      then show ?thesis using p v Some entry by (simp add: load_native_def [unfolded strict_eq_str] runtime_target_def)
    qed
  qed
qed

lemma load_entry_Inr:
  "load_entry env root a = Inr r \<longleftrightarrow> (\<exists>bytes m.
     fs_read (ne_fs env) (root @ ''/'' @ str_of (fld a ''relative_path'')) = Some bytes \<and>
     fld a ''sha256'' = JStr (ne_sha256 env bytes) \<and>
     ne_require env (root @ ''/'' @ str_of (fld a ''relative_path'')) = Some m \<and>
     r = (if m_exports m = VNull then None else Some m))"
  by (auto simp: load_entry_def Let_def split: option.splits)

text \<open>The hexadecimal form determines the digest.\<close>

lemma hex_char_inj: "i < 16 \<Longrightarrow> j < 16 \<Longrightarrow> hex_char i = hex_char j \<longleftrightarrow> i = j"
proof -
  assume ij: "i < 16" "j < 16"
  have "of_char (hex_char k) = (if k < 10 then 48 + k else 87 + k)" if "k < 16" for k :: nat
    using that by (simp add: hex_char_def)
  then have "hex_char i = hex_char j \<Longrightarrow> (if i < 10 then 48 + i else 87 + i) = (if j < 10 then 48 + j else 87 + j)"
    using ij by metis
  then show ?thesis using ij by (auto split: if_splits)
qed

lemma hex_byte_inj: "hex_byte a = hex_byte b \<longleftrightarrow> a = b"
proof
  assume "hex_byte a = hex_byte b"
  moreover have "unat x div 16 < 16" "unat x mod 16 < 16" for x :: byte
    using unat_byte [of x] by (auto simp: less_mult_imp_div_less)
  ultimately have "unat a div 16 = unat b div 16" "unat a mod 16 = unat b mod 16"
    by (simp_all add: hex_byte_def hex_char_inj)
  then have "unat a = unat b" by (metis div_mult_mod_eq)
  then show "a = b" by (rule unsigned_word_eqI)
qed simp

lemma hex_string_length [simp]: "length (hex_string bs) = 2 * length bs"
  by (induction bs) (simp_all add: hex_string_def hex_byte_def)

lemma hex_string_inj: "hex_string as = hex_string bs \<longleftrightarrow> as = bs"
proof (induction as arbitrary: bs)
  case Nil
  show ?case by (cases bs) (simp_all add: hex_string_def hex_byte_def)
next
  case (Cons a as)
  show ?case
  proof (cases bs)
    case Nil
    then show ?thesis by (simp add: hex_string_def hex_byte_def)
  next
    case (Cons b bs')
    have "hex_string (a # as) = hex_string (b # bs') \<longleftrightarrow> hex_byte a = hex_byte b \<and> hex_string as = hex_string bs'"
      by (auto simp: hex_string_def hex_byte_def)
    then show ?thesis using Cons Cons.IH by (simp add: hex_byte_inj)
  qed
qed

lemma hex_char_hex: "n < 16 \<Longrightarrow> is_hex (hex_char n)"
proof -
  assume "n < 16"
  then have "n \<in> set [0..<16]" by simp
  moreover have "list_all (\<lambda>n. is_hex (hex_char n)) [0..<16]" by code_simp
  ultimately show ?thesis by (simp only: list_all_iff)
qed

lemma hex_string_hex: "list_all is_hex (hex_string bs)"
proof (induction bs)
  case (Cons b bs)
  have "unat b div 16 < 16" "unat b mod 16 < 16"
    using unat_byte [of b] by (auto simp: less_mult_imp_div_less)
  then show ?case using Cons by (simp add: hex_string_def hex_byte_def hex_char_hex)
qed (simp add: hex_string_def)

lemma verifyWasmAsset_Inr:
  "verifyWasmAsset subtle bytes v = Inr r \<longleftrightarrow> r = bytes \<and>
     (\<exists>digest. subtle = Some digest \<and> length (digest bytes) = 32 \<and> v = JStr (hex_string (digest bytes)))"
  by (cases v) (auto simp: verifyWasmAsset_def hash_pattern_iff hex_string_hex split: option.splits)

text \<open>
  The comparison of the joined keys: one of them is \<open>artifact_filename\<close>, since that property
  is read afterwards, and then the text leaves only \<open>sha256\<close> for the other.
\<close>

lemma wasm_keys:
  assumes "join '','' ks = ''artifact_filename,sha256''" and "''artifact_filename'' \<in> set ks"
  shows "ks = [''artifact_filename'', ''sha256'']"
proof (cases ks)
  case (Cons a ls)
  show ?thesis
  proof (cases ls)
    case Nil
    then show ?thesis using assms Cons by simp
  next
    case b: (Cons b ms)
    show ?thesis
    proof (cases ms)
      case Nil
      then have ab: "a @ '','' @ b = ''artifact_filename,sha256''" "a = ''artifact_filename'' \<or> b = ''artifact_filename''"
        using assms Cons b by auto
      show ?thesis
      proof (cases "a = ''artifact_filename''")
        case True
        then show ?thesis using ab(1) Cons b Nil by simp
      next
        case False
        then have "a @ '',artifact_filename'' = ''artifact_filename,sha256''" using ab by simp
        then have "last (a @ '',artifact_filename'') = last ''artifact_filename,sha256''" by (rule arg_cong)
        then show ?thesis by simp
      qed
    next
      case c: (Cons c ns)
      have "count_list (join '','' ks) CHR '','' \<ge> 2"
        using Cons b c by (cases ns) simp_all
      moreover have "count_list ''artifact_filename,sha256'' CHR '','' = 1" by code_simp
      ultimately show ?thesis using assms(1) by simp
    qed
  qed
qed (use assms in simp)

definition wasm_metadata_spec :: "js \<Rightarrow> bool" where
  "wasm_metadata_spec m \<longleftrightarrow> isPlainObject m \<and> mset (obj_keys m) = {#''artifact_filename'', ''sha256''#} \<and>
     fld m ''artifact_filename'' = JStr ''symbol_nem_wallet_core_wasm_bg.wasm''"

lemma sorted_keys_mset:
  assumes "sorted ks" shows "sort xs = ks \<longleftrightarrow> mset xs = mset ks"
  using assms by (metis mset_sort properties_for_sort sort_key_id_if_sorted)

lemma wasm_metadata_iff: "\<not> wasm_metadata_invalid m \<longleftrightarrow> wasm_metadata_spec m"
proof
  assume ok: "\<not> wasm_metadata_invalid m"
  then have k: "join '','' (sort (obj_keys m)) = ''artifact_filename,sha256''"
      "fld m ''artifact_filename'' = JStr ''symbol_nem_wallet_core_wasm_bg.wasm''" "isPlainObject m"
    by (simp_all add: wasm_metadata_invalid_def)
  then have "''artifact_filename'' \<in> set (sort (obj_keys m))" using fld_in [of m "''artifact_filename''"] by simp
  from wasm_keys [OF k(1) this] have "mset (sort (obj_keys m)) = mset [''artifact_filename'', ''sha256'']" by simp
  with k show "wasm_metadata_spec m" by (simp add: wasm_metadata_spec_def)
next
  assume s: "wasm_metadata_spec m"
  have "sorted [''artifact_filename'', ''sha256'']" by code_simp
  from sorted_keys_mset [OF this, of "obj_keys m"] s
  have "sort (obj_keys m) = [''artifact_filename'', ''sha256'']" by (simp add: wasm_metadata_spec_def)
  with s show "\<not> wasm_metadata_invalid m"
    by (simp add: wasm_metadata_invalid_def wasm_metadata_spec_def)
qed

text \<open>What a complete module is, and where the bytes of the WebAssembly module come from.\<close>

definition complete :: "js_module \<Rightarrow> bool" where
  "complete m \<longleftrightarrow> is_object (m_exports m) \<and>
     (\<forall>n \<in> set OPERATION_NAMES. get_prop (m_exports m) n = Inr VFun)"

definition wasm_source :: "wasm_env \<Rightarrow> byte list \<Rightarrow> bool" where
  "wasm_source env bytes \<longleftrightarrow> (if we_is_node env then we_read env = Some bytes
     else we_fetch env (case we_imported_url env of Some u \<Rightarrow> u | None \<Rightarrow> we_asset_url env) = Some (True, bytes))"

text \<open>The React Native manifest and the identity of its module.\<close>

definition rn_entry_spec :: "rn_expected \<Rightarrow> js \<Rightarrow> bool" where
  "rn_entry_spec x a \<longleftrightarrow> isPlainObject a \<and>
     mset (obj_keys a) = {#''target_id'', ''platform'', ''environment'', ''architecture'', ''relative_path'',
       ''artifact_filename'', ''sha256'', ''toolchain_identifier''#} \<and>
     fld a ''target_id'' = JStr (rx_target x) \<and> fld a ''platform'' = JStr (rx_platform x) \<and>
     fld a ''environment'' = JStr (rx_environment x) \<and> fld a ''architecture'' = JStr (rx_architecture x) \<and>
     fld a ''relative_path'' = JStr (rx_path x) \<and> fld a ''artifact_filename'' = JStr (rx_filename x) \<and>
     (\<exists>h. to_str (fld a ''sha256'') = Some h \<and> length h = 64 \<and> list_all is_hex h) \<and>
     (\<exists>tool. fld a ''toolchain_identifier'' = JStr tool \<and> tool \<noteq> [])"

definition rn_manifest_spec :: "js \<Rightarrow> bool" where
  "rn_manifest_spec mf \<longleftrightarrow> isPlainObject mf \<and>
     mset (obj_keys mf) = {#''schema_version'', ''package_name'', ''package_version'', ''source_commit'', ''artifacts''#} \<and>
     fld mf ''schema_version'' = JInt 1 \<and> fld mf ''package_name'' = JStr PACKAGE_NAME \<and>
     (\<exists>v. fld mf ''package_version'' = JStr v \<and> rx_test version_pattern v) \<and>
     (\<exists>c. fld mf ''source_commit'' = JStr c \<and> length c = 40 \<and> list_all is_hex c) \<and>
     (\<exists>as. fld mf ''artifacts'' = JArr as \<and> list_all2 rn_entry_spec EXPECTED_ARTIFACTS as)"

definition rn_identity_spec :: "js \<Rightarrow> bool" where
  "rn_identity_spec i \<longleftrightarrow> isPlainObject i \<and>
     mset (obj_keys i) = {#''module_name'', ''module_identity'', ''architecture'', ''target_id'', ''artifact_identity''#} \<and>
     fld i ''module_name'' = JStr ''NativeSymbolNemWalletCore'' \<and>
     fld i ''module_identity'' = JStr ''symbol-nem-wallet-core-react-native-v1'' \<and>
     fld i ''architecture'' = JStr ''new'' \<and>
     (\<exists>x \<in> set EXPECTED_ARTIFACTS. fld i ''target_id'' = JStr (rx_target x) \<and>
        fld i ''artifact_identity'' = JStr (rx_identity x))"

lemma sorted_keys_are_iff: "sorted ks \<Longrightarrow> sorted_keys_are v ks \<longleftrightarrow> mset (obj_keys v) = mset ks"
  by (simp add: sorted_keys_are_def sorted_keys_mset)

lemma rn_key_lists:
  "sorted [''architecture'', ''artifact_filename'', ''environment'', ''platform'', ''relative_path'',
     ''sha256'', ''target_id'', ''toolchain_identifier'']"
  "sorted [''artifacts'', ''package_name'', ''package_version'', ''schema_version'', ''source_commit'']"
  "sorted [''architecture'', ''artifact_identity'', ''module_identity'', ''module_name'', ''target_id'']"
  by code_simp+

lemma rn_artifact_guard_iff: "rn_artifact_guard x a = Inr u \<longleftrightarrow> rn_entry_spec x a"
  unfolding rn_artifact_guard_def guard_any_Inr_iff sorted_keys_are_iff [OF rn_key_lists(1)]
  by (auto simp: rn_entry_spec_def not_re_test_iff hash_pattern_iff nonEmptyString_iff add_mset_commute)

lemma rn_identities_iff:
  "length xs = length as \<Longrightarrow> rn_identities xs as = Inr m \<longleftrightarrow>
     list_all2 rn_entry_spec xs as \<and> m = map (\<lambda>x. (rx_target x, rx_identity x)) xs"
proof (induction xs as arbitrary: m rule: list_induct2)
  case (Cons x xs a as)
  then show ?case
    by (auto simp: bindE_Inr_iff rn_artifact_guard_iff) (auto simp: rn_entry_spec_def)
qed auto

lemma manifestArtifactIdentities_iff:
  "manifestArtifactIdentities mf = Inr m \<longleftrightarrow> rn_manifest_spec mf \<and>
     m = map (\<lambda>x. (rx_target x, rx_identity x)) EXPECTED_ARTIFACTS"
  unfolding manifestArtifactIdentities_def sorted_keys_are_iff [OF rn_key_lists(2)]
  by (auto simp: rn_manifest_spec_def rn_identities_iff is_str_iff is_arr_iff commit_pattern_iff
      add_mset_commute dest: list_all2_lengthD)

lemma expected_targets_distinct: "distinct (map rx_target EXPECTED_ARTIFACTS)"
  by (simp add: EXPECTED_ARTIFACTS_def)

lemma expected_lookup:
  "map_of (map (\<lambda>x. (rx_target x, rx_identity x)) EXPECTED_ARTIFACTS) t = Some i \<longleftrightarrow>
     (\<exists>x \<in> set EXPECTED_ARTIFACTS. rx_target x = t \<and> rx_identity x = i)"
proof -
  have "distinct (map fst (map (\<lambda>x. (rx_target x, rx_identity x)) EXPECTED_ARTIFACTS))"
    using expected_targets_distinct by (simp add: comp_def)
  from map_of_eq_Some_iff [OF this, of t i] show ?thesis by auto
qed

section \<open>Properties\<close>

text \<open>
  Property C5. A native module is loaded exactly when the package's own manifest meets its
  specification, has an entry for the running platform, and the file that entry names, below
  the directory of that target, has the digest of the entry (and exports something): no artifact
  is executed whose bytes did not have the digest of the manifest when they were read.
\<close>

theorem native_backend_verified:
  "loadNativeBackend env root = Inr (Some m) \<longleftrightarrow>
     (\<exists>mf t a fn bytes. package_files env root mf \<and> runtime_target env = Some t \<and> entry_of mf t a \<and>
        fld a ''relative_path'' = JStr (''dist/native/'' @ t @ ''/'' @ fn) \<and>
        fs_read (ne_fs env) (root @ ''/dist/native/'' @ t @ ''/'' @ fn) = Some bytes \<and>
        fld a ''sha256'' = JStr (ne_sha256 env bytes) \<and>
        ne_require env (root @ ''/dist/native/'' @ t @ ''/'' @ fn) = Some m \<and> m_exports m \<noteq> VNull)"
  (is "?l \<longleftrightarrow> ?r")
proof
  assume ?l
  then obtain mf t a where a: "package_files env root mf" "runtime_target env = Some t" "entry_of mf t a"
      "load_entry env root a = Inr (Some m)"
    by (auto simp: loadNativeBackend_def load_native_Inr split: option.splits)
  then have "native_entry_spec a" using entry_of_spec by (auto simp: package_files_def)
  then obtain fn where "fld a ''relative_path'' = JStr (''dist/native/'' @ t @ ''/'' @ fn)"
    using a(3) by (auto simp: native_entry_spec_def entry_of_def)
  with a show ?r by (auto simp: load_entry_Inr split: if_splits)
next
  assume ?r
  then obtain mf t a fn bytes where a: "package_files env root mf" "runtime_target env = Some t"
      "entry_of mf t a" "fld a ''relative_path'' = JStr (''dist/native/'' @ t @ ''/'' @ fn)"
      "fs_read (ne_fs env) (root @ ''/dist/native/'' @ t @ ''/'' @ fn) = Some bytes"
      "fld a ''sha256'' = JStr (ne_sha256 env bytes)"
      "ne_require env (root @ ''/dist/native/'' @ t @ ''/'' @ fn) = Some m" "m_exports m \<noteq> VNull"
    by blast
  then have "load_entry env root a = Inr (Some m)" by (simp add: load_entry_Inr)
  with a show ?l by (auto simp: loadNativeBackend_def load_native_Inr)
qed

text \<open>
  The fallback to WebAssembly is taken exactly when the package is intact and offers nothing for
  the running platform, or a verified module that exports \<open>null\<close>: a missing, unreadable or altered
  artifact of a supported platform is an error and never a silent fallback.
\<close>

lemma wasm_fallback_iff:
  "loadNativeBackend env root = Inr None \<longleftrightarrow>
     (\<exists>mf. package_files env root mf \<and>
        (case runtime_target env of None \<Rightarrow> True
         | Some t \<Rightarrow> (\<nexists>a. entry_of mf t a) \<or> (\<exists>a. entry_of mf t a \<and> load_entry env root a = Inr None)))"
  by (auto simp: loadNativeBackend_def load_native_Inr split: option.splits)

text \<open>
  The WebAssembly module is initialised exactly when its metadata are the two
  expected properties, and with bytes, from the package or from a successful response, whose
  SHA-256 by Web Crypto is the digest of the metadata; the module must export all sixteen
  operations.
\<close>

lemma wasm_index_iff:
  "wasm_index env = Inr m \<longleftrightarrow>
     (\<exists>mf bytes digest. we_manifest env = Some mf \<and> wasm_metadata_spec mf \<and> wasm_source env bytes \<and>
        we_subtle env = Some digest \<and> length (digest bytes) = 32 \<and>
        fld mf ''sha256'' = JStr (hex_string (digest bytes)) \<and>
        we_initialize env bytes = Some m \<and> complete m)"
proof (cases "we_manifest env")
  case None
  then show ?thesis by (simp add: wasm_index_def)
next
  case (Some mf)
  let ?get = "if we_is_node env
     then (case we_read env of None \<Rightarrow> Inl (Fail ''read'') | Some bytes \<Rightarrow> Inr bytes) else loadWasmAsset env"
  have get: "?get = Inr bytes \<longleftrightarrow> wasm_source env bytes" for bytes
    by (auto simp: wasm_source_def loadWasmAsset_def Let_def split: option.splits if_splits prod.splits)
  show ?thesis
  proof (cases ?get)
    case (Inl e)
    then have "\<not> wasm_source env bytes" for bytes using get by simp
    then show ?thesis using Some Inl by (simp add: wasm_index_def)
  next
    case (Inr bytes)
    then have src: "wasm_source env b \<longleftrightarrow> b = bytes" for b using get [of b] by auto
    show ?thesis
      using Some Inr wasm_metadata_iff [of mf] verifyWasmAsset_Inr [of "we_subtle env" bytes "fld mf ''sha256''"]
      by (cases "verifyWasmAsset (we_subtle env) bytes (fld mf ''sha256'')")
        (auto simp: wasm_index_def src facade_of_iff complete_def split: option.splits)
  qed
qed

text \<open>
  The React Native module is used exactly when the embedded manifest lists the
  four expected artifacts in order and the module identifies itself as one of them, with the
  identity string of that very artifact and the new architecture.
\<close>

lemma getReactNativeModule_iff:
  "getReactNativeModule mf registry = Inr m \<longleftrightarrow>
     rn_manifest_spec mf \<and> (\<exists>tm i. registry = Some tm \<and> tm_usable tm \<and> tm_identity tm = Some i \<and>
       rn_identity_spec i \<and> m = tm_module tm)"
proof (cases "manifestArtifactIdentities mf")
  case (Inl e)
  then have "\<not> rn_manifest_spec mf" using manifestArtifactIdentities_iff [of mf] by auto
  then show ?thesis by (simp add: getReactNativeModule_def Inl)
next
  case (Inr ids)
  then have ids: "rn_manifest_spec mf" "ids = map (\<lambda>x. (rx_target x, rx_identity x)) EXPECTED_ARTIFACTS"
    by (simp_all add: manifestArtifactIdentities_iff)
  have lookup: "map_of ids t = Some y \<longleftrightarrow> (\<exists>x \<in> set EXPECTED_ARTIFACTS. rx_target x = t \<and> rx_identity x = y)" for t y
    unfolding ids(2) by (rule expected_lookup)
  have spec: "rn_identity_spec i \<longleftrightarrow> isPlainObject i \<and>
     sorted_keys_are i [''architecture'', ''artifact_identity'', ''module_identity'', ''module_name'', ''target_id''] \<and>
     fld i ''module_name'' = JStr ''NativeSymbolNemWalletCore'' \<and>
     fld i ''module_identity'' = JStr ''symbol-nem-wallet-core-react-native-v1'' \<and>
     fld i ''architecture'' = JStr ''new'' \<and> is_str (fld i ''target_id'') \<and>
     (\<exists>y. map_of ids (str_of (fld i ''target_id'')) = Some y \<and> fld i ''artifact_identity'' = JStr y)" for i
    unfolding rn_identity_spec_def lookup sorted_keys_are_iff [OF rn_key_lists(3)]
    by (auto simp: is_str_iff add_mset_commute)
  show ?thesis
    using ids(1) by (auto simp: getReactNativeModule_def Inr spec split: option.splits)
qed


text \<open>A package with one artifact, and a host that runs it; the host with the file altered.\<close>

definition sample_env :: "byte list \<Rightarrow> node_env" where
  "sample_env artifact =
     \<lparr>ne_fs = \<lparr>fs_read = (\<lambda>p. if p = ''/p/package.json'' then Some [1]
          else if p = ''/p/dist/native/artifact-manifest.json'' then Some [2]
          else if p = ''/p/dist/native/linux-x64-gnu/core.node'' then Some artifact else None),
        fs_stat = (\<lambda>p. None), fs_list = (\<lambda>p. None)\<rparr>,
      ne_parse = (\<lambda>bs. if bs = [1] then Some sample_package_meta
          else Some (sample_native_manifest (JStr (replicate 40 CHR ''a'')) (JStr (toy_digest [3])))),
      ne_sha256 = toy_digest, ne_platform = ''linux'', ne_arch = ''x64'',
      ne_report = Report (JObj [(''header'', JObj [(''glibcVersionRuntime'', JStr ''2.31'')])]),
      ne_require = (\<lambda>p. Some \<lparr>m_exports = rn_backend_exports, m_call = sample_backend\<rparr>)\<rparr>"

lemma sample_loads:
  "case loadNativeBackend (sample_env [3]) ''/p'' of Inr (Some m) \<Rightarrow> True | _ \<Rightarrow> False"
  "case loadNativeBackend (sample_env []) ''/p'' of Inl e \<Rightarrow> True | _ \<Rightarrow> False"
  by code_simp+

end
