(* ===== verification/Bytes.thy ===== *)
theory Bytes
  imports Environment
begin

text \<open>
  The parts of \<open>Buffer\<close> and of number arithmetic that the binary parsers of
  \<open>react-native-manifest.mjs\<close> use, and its helpers \<open>rangeEnd\<close>, \<open>u64\<close> and \<open>cString\<close>.

  \<^item> An offset or size is a JavaScript number with an integral value, an \<open>int\<close> here. Sums of
    two safe integers can leave the safe range, where a double holds even numbers only:
    \<open>num_add\<close> rounds to nearest, ties to even, as the addition of doubles does below
    \<open>2^54\<close>. Differences and products are written plainly where the exact result is safe.
  \<^item> A decoded text is its list of code points.
\<close>

section \<open>Numbers\<close>

definition safe_integer :: "int \<Rightarrow> bool" where
  "safe_integer n \<longleftrightarrow> \<bar>n\<bar> < 2 ^ 53"

definition num_add :: "int \<Rightarrow> int \<Rightarrow> int" where
  "num_add a b = (let s = a + b in
     if s \<le> 2 ^ 53 \<or> even s then s else if (s - 1) mod 4 = 0 then s - 1 else s + 1)"

text \<open>\<open>x & y\<close> of two numbers: their low 32 bits.\<close>

definition bit_and :: "int \<Rightarrow> int \<Rightarrow> int" where
  "bit_and a b = uint (and (word_of_int a :: 32 word) (word_of_int b))"

lemma num_add_exact: "a + b \<le> 2 ^ 53 \<Longrightarrow> num_add a b = a + b"
  by (simp add: num_add_def Let_def)

lemma num_add_bounds: "a + b - 1 \<le> num_add a b" "num_add a b \<le> a + b + 1"
  by (auto simp: num_add_def Let_def)

section \<open>Reading\<close>

text \<open>
  Positions in a buffer are integers; for evaluation, lists are measured and cut by integers
  too, which avoids unary numbers.
\<close>

fun len_int :: "'a list \<Rightarrow> int" where
  "len_int [] = 0"
| "len_int (x # xs) = len_int xs + 1"

fun drop_int :: "int \<Rightarrow> 'a list \<Rightarrow> 'a list" where
  "drop_int k [] = []"
| "drop_int k (x # xs) = (if k \<le> 0 then x # xs else drop_int (k - 1) xs)"

fun take_int :: "int \<Rightarrow> 'a list \<Rightarrow> 'a list" where
  "take_int k [] = []"
| "take_int k (x # xs) = (if k \<le> 0 then [] else x # take_int (k - 1) xs)"

lemma len_int [code_unfold]: "int (length xs) = len_int xs"
  by (induction xs) auto

lemma drop_int [code_unfold]: "drop (nat k) xs = drop_int k xs"
proof (induction k xs rule: drop_int.induct)
  case (2 k x xs)
  then show ?case by (cases "k \<le> 0") (auto simp: drop_Cons' nat_diff_distrib)
qed simp

lemma take_int [code_unfold]: "take (nat k) xs = take_int k xs"
proof (induction k xs rule: take_int.induct)
  case (2 k x xs)
  then show ?case by (cases "k \<le> 0") (auto simp: take_Cons' nat_diff_distrib)
qed simp

fun le_val :: "byte list \<Rightarrow> int" where
  "le_val [] = 0"
| "le_val (b # bs) = uint b + 256 * le_val bs"

text \<open>\<open>readUInt8\<close>, \<open>readUInt16LE\<close>, \<open>readUInt32LE\<close>, \<open>readBigUInt64LE\<close>: \<open>n\<close> bytes at an offset, a
  RangeError outside the buffer.\<close>

definition read_le :: "nat \<Rightarrow> byte list \<Rightarrow> int \<Rightarrow> int res" where
  "read_le n bytes offset =
     (if offset < 0 \<or> offset + int n > int (length bytes) then Inl RangeErr
      else Inr (le_val (take n (drop (nat offset) bytes))))"

definition read_signed64 :: "byte list \<Rightarrow> int \<Rightarrow> int res" where
  "read_signed64 bytes offset = bindE (read_le 8 bytes offset) (\<lambda>v.
     Inr (if v \<ge> 2 ^ 63 then v - 2 ^ 64 else v))"

text \<open>\<open>bytes[i]\<close>; \<open>None\<close> is undefined.\<close>

definition byte_at :: "byte list \<Rightarrow> int \<Rightarrow> byte option" where
  "byte_at bytes i = (if 0 \<le> i \<and> i < int (length bytes) then Some (bytes ! nat i) else None)"

lemma byte_at_code [code]:
  "byte_at bytes i = (if i < 0 then None else case drop_int i bytes of [] \<Rightarrow> None | b # _ \<Rightarrow> Some b)"
proof (cases "0 \<le> i \<and> i < int (length bytes)")
  case True
  then have "drop (nat i) bytes = bytes ! nat i # drop (Suc (nat i)) bytes"
    by (metis Cons_nth_drop_Suc nat_less_iff)
  then show ?thesis using True by (simp add: byte_at_def flip: drop_int)
next
  case False
  then show ?thesis by (auto simp: byte_at_def simp flip: drop_int)
qed

lemma le_val_bounds: "0 \<le> le_val bs \<and> le_val bs < 256 ^ length bs"
proof (induction bs)
  case (Cons b bs)
  have "uint b < 256" by (rule order.strict_trans2 [OF unsigned_less]) simp
  with Cons show ?case by simp
qed simp

lemma read_le_Inr:
  assumes "read_le n bytes off = Inr v"
  shows "0 \<le> off \<and> off + int n \<le> int (length bytes) \<and> 0 \<le> v \<and> v < 256 ^ n"
proof -
  have r: "0 \<le> off" "off + int n \<le> int (length bytes)" "v = le_val (take n (drop (nat off) bytes))"
    using assms by (auto simp: read_le_def split: if_splits)
  then have "length (take n (drop (nat off) bytes)) = n" by simp
  then show ?thesis using r le_val_bounds [of "take n (drop (nat off) bytes)"] by simp
qed

lemma read_le_total:
  "0 \<le> off \<Longrightarrow> off + int n \<le> int (length bytes) \<Longrightarrow> \<exists>v. read_le n bytes off = Inr v"
  by (simp add: read_le_def)

section \<open>Checked ranges\<close>

definition rn_failed :: js_error where
  "rn_failed = Fail ''React Native artifact assembly failed''"

text \<open>\<open>assemblyError(reason)\<close>; details interpolated into a reason are left out.\<close>

definition rn_failure :: "string \<Rightarrow> js_error" where
  "rn_failure reason = Fail (''React Native artifact assembly failed: '' @ reason)"

definition rangeEnd :: "int \<Rightarrow> int \<Rightarrow> int \<Rightarrow> int res" where
  "rangeEnd start sz len =
     (if \<not> safe_integer start \<or> \<not> safe_integer sz \<or> start < 0 \<or> sz < 0 \<or> start > len - sz
      then Inl rn_failed else Inr (start + sz))"

definition u64 :: "byte list \<Rightarrow> int \<Rightarrow> int res" where
  "u64 bytes offset =
     bindE (rangeEnd offset 8 (int (length bytes))) (\<lambda>_.
     bindE (read_le 8 bytes offset) (\<lambda>v.
       if v > 2 ^ 53 - 1 then Inl rn_failed else Inr v))"

lemma rangeEnd_Inr:
  "rangeEnd start sz len = Inr e \<longleftrightarrow>
     0 \<le> start \<and> 0 \<le> sz \<and> start < 2 ^ 53 \<and> sz < 2 ^ 53 \<and> start + sz \<le> len \<and> e = start + sz"
  by (auto simp: rangeEnd_def safe_integer_def)

lemma u64_Inr: "u64 bytes off = Inr v \<Longrightarrow> 0 \<le> off \<and> off + 8 \<le> int (length bytes) \<and> 0 \<le> v \<and> v < 2 ^ 53"
  by (auto simp: u64_def bindE_Inr_iff rangeEnd_Inr dest!: read_le_Inr split: if_splits)

section \<open>Text\<close>

text \<open>
  \<open>toString("utf8")\<close>: the decoder of the Encoding Standard, which replaces each maximal part
  of an ill-formed sequence by U+FFFD. The state is the code point so far, the number of
  bytes still needed and the range of the next one.
\<close>

function utf8_go :: "int \<Rightarrow> nat \<Rightarrow> int \<Rightarrow> int \<Rightarrow> int list \<Rightarrow> int list" where
  "utf8_go cp 0 lo hi [] = []"
| "utf8_go cp (Suc n) lo hi [] = [0xFFFD]"
| "utf8_go cp 0 lo hi (b # bs) =
     (if b < 0x80 then b # utf8_go 0 0 0x80 0xBF bs
      else if 0xC2 \<le> b \<and> b \<le> 0xDF then utf8_go (b - 0xC0) 1 0x80 0xBF bs
      else if 0xE0 \<le> b \<and> b \<le> 0xEF then
        utf8_go (b - 0xE0) 2 (if b = 0xE0 then 0xA0 else 0x80) (if b = 0xED then 0x9F else 0xBF) bs
      else if 0xF0 \<le> b \<and> b \<le> 0xF4 then
        utf8_go (b - 0xF0) 3 (if b = 0xF0 then 0x90 else 0x80) (if b = 0xF4 then 0x8F else 0xBF) bs
      else 0xFFFD # utf8_go 0 0 0x80 0xBF bs)"
| "utf8_go cp (Suc n) lo hi (b # bs) =
     (if b < lo \<or> hi < b then 0xFFFD # utf8_go 0 0 0x80 0xBF (b # bs)
      else if n = 0 then (cp * 64 + (b - 0x80)) # utf8_go 0 0 0x80 0xBF bs
      else utf8_go (cp * 64 + (b - 0x80)) n 0x80 0xBF bs)"
  by pat_completeness auto
termination
  by (relation "measures [\<lambda>(cp, n, lo, hi, bs). length bs, \<lambda>(cp, n, lo, hi, bs). n]") auto

definition utf8_decode :: "byte list \<Rightarrow> int list" where
  "utf8_decode bytes = utf8_go 0 0 0x80 0xBF (map uint bytes)"

text \<open>\<open>toString("ascii")\<close> clears the high bit of every byte.\<close>

definition ascii_decode :: "byte list \<Rightarrow> int list" where
  "ascii_decode bytes = map (\<lambda>b. uint b mod 128) bytes"

text \<open>The code points of a literal.\<close>

definition ucs :: "string \<Rightarrow> int list" where
  "ucs s = map of_char s"

text \<open>\<open>bytes.subarray(a, b)\<close> for offsets within the buffer.\<close>

definition subarray :: "byte list \<Rightarrow> int \<Rightarrow> int \<Rightarrow> byte list" where
  "subarray bytes a b = take (nat (b - a)) (drop (nat a) bytes)"

text \<open>\<open>bytes.indexOf(0, offset)\<close>, -1 when there is none.\<close>

definition index_of_zero :: "byte list \<Rightarrow> int \<Rightarrow> int" where
  "index_of_zero bytes offset =
     (let rest = drop (nat offset) bytes; n = length (takeWhile (\<lambda>b. b \<noteq> 0) rest)
      in if n < length rest then offset + int n else -1)"

definition cString :: "byte list \<Rightarrow> int \<Rightarrow> int \<Rightarrow> (int list) res" where
  "cString bytes offset limit =
     bindE (rangeEnd offset 1 limit) (\<lambda>_.
       let e = index_of_zero bytes offset in
       if e < offset \<or> e \<ge> limit then Inl rn_failed
       else Inr (utf8_decode (subarray bytes offset e)))"

text \<open>White space that \<open>String.prototype.trim\<close> removes.\<close>

definition is_space :: "int \<Rightarrow> bool" where
  "is_space c \<longleftrightarrow> 9 \<le> c \<and> c \<le> 13 \<or> c = 32 \<or> c = 0xA0 \<or> c = 0x1680 \<or> 0x2000 \<le> c \<and> c \<le> 0x200A \<or>
     c \<in> {0x2028, 0x2029, 0x202F, 0x205F, 0x3000, 0xFEFF}"

definition trim :: "int list \<Rightarrow> int list" where
  "trim s = rev (dropWhile is_space (rev (dropWhile is_space s)))"

section \<open>What the decoders keep\<close>

text \<open>
  A decoded text that is plain ASCII comes from exactly its own bytes: whatever is not ASCII
  decodes to code points from 128 up.
\<close>

definition utf8_state :: "int \<Rightarrow> nat \<Rightarrow> int \<Rightarrow> bool" where
  "utf8_state cp n lo \<longleftrightarrow> 0 \<le> cp \<and> 0x80 \<le> lo \<and> (n = 1 \<longrightarrow> 2 \<le> cp) \<and> (n = 2 \<longrightarrow> 1 \<le> cp \<or> 0xA0 \<le> lo) \<and>
     (n = 3 \<longrightarrow> 1 \<le> cp \<or> 0x90 \<le> lo) \<and> n \<le> 3"

lemma utf8_go_high:
  "0 < n \<Longrightarrow> utf8_state cp n lo \<Longrightarrow> \<exists>c \<in> set (utf8_go cp n lo hi bs). 128 \<le> c"
proof (induction cp n lo hi bs rule: utf8_go.induct)
  case (4 cp n lo hi b bs)
  show ?case
  proof (cases "b < lo \<or> hi < b")
    case False
    show ?thesis
    proof (cases "n = 0")
      case True
      then have "128 \<le> cp * 64 + (b - 0x80)" using "4.prems" False by (simp add: utf8_state_def)
      then show ?thesis using False True by simp
    next
      case n: False
      have "utf8_state (cp * 64 + (b - 0x80)) n 0x80"
        using "4.prems" False n by (auto simp: utf8_state_def)
      then show ?thesis using "4.IH"(3) False n by simp
    qed
  qed simp
qed simp_all

lemma utf8_go_ascii:
  "\<forall>c \<in> set (utf8_go cp 0 lo hi bs). c < 128 \<Longrightarrow> utf8_go cp 0 lo hi bs = bs"
proof (induction bs arbitrary: cp lo hi)
  case (Cons b bs)
  have high: "\<not> (\<forall>c \<in> set (utf8_go cp' n lo' hi' bs). c < 128)" if "0 < n" "utf8_state cp' n lo'" for cp' n lo' hi'
    using utf8_go_high [OF that] by (meson not_less)
  show ?case
  proof (cases "b < 0x80")
    case True
    then have u: "utf8_go cp 0 lo hi (b # bs) = b # utf8_go 0 0 0x80 0xBF bs" by simp
    then show ?thesis using Cons.IH [of 0 "0x80" "0xBF"] Cons.prems unfolding u by simp
  next
    case b: False
    note unfold = utf8_go.simps(3) [of cp lo hi b bs]
    consider "0xC2 \<le> b" "b \<le> 0xDF" | "0xE0 \<le> b" "b \<le> 0xEF" | "0xF0 \<le> b" "b \<le> 0xF4"
      | "\<not> (0xC2 \<le> b \<and> b \<le> 0xDF)" "\<not> (0xE0 \<le> b \<and> b \<le> 0xEF)" "\<not> (0xF0 \<le> b \<and> b \<le> 0xF4)"
      by blast
    then have False
    proof cases
      case 1
      then have "2 \<le> b - 0xC0" by linarith
      with 1 show ?thesis using Cons.prems b high [of 1 "b - 0xC0" "0x80" "0xBF"] by (simp add: unfold utf8_state_def)
    next
      case 2
      then have "b = 0xE0 \<or> 1 \<le> b - 0xE0" by linarith
      then have "1 \<le> b - 0xE0 \<or> 0xA0 \<le> (if b = 0xE0 then 0xA0 else 0x80 :: int)" by auto
      with 2 show ?thesis using Cons.prems b high [of 2 "b - 0xE0" "if b = 0xE0 then 0xA0 else 0x80"]
        by (simp add: unfold utf8_state_def)
    next
      case 3
      then have "b = 0xF0 \<or> 1 \<le> b - 0xF0" by linarith
      then have "1 \<le> b - 0xF0 \<or> 0x90 \<le> (if b = 0xF0 then 0x90 else 0x80 :: int)" by auto
      with 3 show ?thesis using Cons.prems b high [of 3 "b - 0xF0" "if b = 0xF0 then 0x90 else 0x80"]
        by (simp add: unfold utf8_state_def)
    next
      case 4
      then show ?thesis using Cons.prems b by (simp only: unfold if_False) simp
    qed
    then show ?thesis ..
  qed
qed simp

text \<open>
  A decoded text that is plain ASCII comes from exactly its own bytes: whatever is not ASCII
  decodes to code points from 128 up.
\<close>

lemma utf8_decode_ascii:
  assumes "utf8_decode bytes = t" and "\<forall>c \<in> set t. c < 128" shows "map uint bytes = t"
  using assms utf8_go_ascii [where cp = 0 and lo = "0x80" and hi = "0xBF" and bs = "map uint bytes"] by (simp add: utf8_decode_def)

lemma index_of_zero_code [code]:
  "index_of_zero bytes offset =
     (let rest = drop_int offset bytes; n = len_int (takeWhile (\<lambda>b. b \<noteq> 0) rest)
      in if n < len_int rest then offset + n else -1)"
  by (simp add: index_of_zero_def Let_def flip: drop_int len_int)

lemma index_of_zero_found:
  assumes "0 \<le> off" and "off \<le> index_of_zero bytes off"
  shows "index_of_zero bytes off < int (length bytes)" and "bytes ! nat (index_of_zero bytes off) = 0"
    and "0 \<notin> set (subarray bytes off (index_of_zero bytes off))"
proof -
  let ?rest = "drop (nat off) bytes" and ?n = "length (takeWhile (\<lambda>b. b \<noteq> 0) (drop (nat off) bytes))"
  have n: "?n < length ?rest" "index_of_zero bytes off = off + int ?n"
    using assms by (auto simp: index_of_zero_def Let_def split: if_splits)
  then show "index_of_zero bytes off < int (length bytes)" using assms(1) by simp
  have "?rest ! ?n = 0" using nth_length_takeWhile [OF n(1)] by simp
  then show "bytes ! nat (index_of_zero bytes off) = 0"
    using n assms(1) by (simp add: nat_add_distrib)
  have "subarray bytes off (index_of_zero bytes off) = takeWhile (\<lambda>b. b \<noteq> 0) ?rest"
    using n(2) by (simp add: subarray_def) (rule takeWhile_eq_take [symmetric])
  then show "0 \<notin> set (subarray bytes off (index_of_zero bytes off))"
    using set_takeWhileD by fastforce
qed

text \<open>
  A C string that decodes to plain ASCII is those very bytes, followed by a zero, within the
  buffer.
\<close>

definition has_c_string :: "byte list \<Rightarrow> int list \<Rightarrow> bool" where
  "has_c_string bytes t \<longleftrightarrow> (\<exists>n. n + length t < length bytes \<and>
     map uint (take (length t) (drop n bytes)) = t \<and> bytes ! (n + length t) = 0)"

lemma cString_ascii:
  assumes "cString bytes offset limit = Inr t" and "\<forall>c \<in> set t. c < 128"
  shows "has_c_string bytes t"
proof -
  let ?e = "index_of_zero bytes offset"
  have e: "0 \<le> offset" "offset \<le> ?e" "t = utf8_decode (subarray bytes offset ?e)"
    using assms(1) by (auto simp: cString_def bindE_Inr_iff rangeEnd_Inr Let_def split: if_splits)
  note z = index_of_zero_found [OF e(1,2)]
  have t: "map uint (subarray bytes offset ?e) = t"
    using utf8_decode_ascii assms(2) e(3) by blast
  have len: "length t = nat (?e - offset)"
    using z(1) e(1,2) by (simp flip: t add: subarray_def)
  show ?thesis unfolding has_c_string_def
  proof (intro exI [of _ "nat offset"] conjI)
    show "nat offset + length t < length bytes" using len z(1) e by simp
    show "map uint (take (length t) (drop (nat offset) bytes)) = t"
      using t by (simp add: len subarray_def)
    have "nat offset + length t = nat ?e" using len e by simp
    then show "bytes ! (nat offset + length t) = 0" using z(2) by simp
  qed
qed

end
