(* ===== verification/RnTargets.thy ===== *)
theory RnTargets
  imports Bytes
begin

text \<open>
  The targets of \<open>packages/wallet-core/src/react-native-manifest.mjs\<close> and their lookup.
  \<open>REACT_NATIVE_TARGETS[id]\<close> goes through the prototype chain, so the name of a property of
  \<open>Object.prototype\<close> finds a value there too; every field that the code reads of such a value
  is undefined.
\<close>

definition CANONICAL_REACT_NATIVE_TARGET_ORDER :: "string list" where
  "CANONICAL_REACT_NATIVE_TARGET_ORDER =
     [''android-arm64-v8a'', ''android-x86_64'', ''ios-arm64'', ''ios-simulator-arm64'']"

record rn_target =
  rn_platform :: js
  rn_environment :: js
  rn_architecture :: js
  rn_relativePath :: js
  rn_artifactFilename :: js
  rn_artifactIdentity :: js

definition REACT_NATIVE_TARGETS :: "(string \<times> rn_target) list" where
  "REACT_NATIVE_TARGETS =
    [(''android-arm64-v8a'', \<lparr>rn_platform = JStr ''android'', rn_environment = JStr ''device'',
       rn_architecture = JStr ''arm64-v8a'',
       rn_relativePath = JStr ''dist/react-native/android/jni/arm64-v8a/libsymbol_nem_wallet_core_rn.so'',
       rn_artifactFilename = JStr ''libsymbol_nem_wallet_core_rn.so'',
       rn_artifactIdentity = JStr ''android|arm64-v8a|dist/react-native/android/jni/arm64-v8a/libsymbol_nem_wallet_core_rn.so''\<rparr>),
     (''android-x86_64'', \<lparr>rn_platform = JStr ''android'', rn_environment = JStr ''emulator'',
       rn_architecture = JStr ''x86_64'',
       rn_relativePath = JStr ''dist/react-native/android/jni/x86_64/libsymbol_nem_wallet_core_rn.so'',
       rn_artifactFilename = JStr ''libsymbol_nem_wallet_core_rn.so'',
       rn_artifactIdentity = JStr ''android|x86_64|dist/react-native/android/jni/x86_64/libsymbol_nem_wallet_core_rn.so''\<rparr>),
     (''ios-arm64'', \<lparr>rn_platform = JStr ''ios'', rn_environment = JStr ''device'',
       rn_architecture = JStr ''arm64'',
       rn_relativePath = JStr ''dist/react-native/ios/SymbolNemWalletCoreRN.xcframework/ios-arm64/libsymbol_nem_wallet_core_rn.a'',
       rn_artifactFilename = JStr ''libsymbol_nem_wallet_core_rn.a'',
       rn_artifactIdentity = JStr ''ios|ios|arm64|dist/react-native/ios/SymbolNemWalletCoreRN.xcframework/ios-arm64/libsymbol_nem_wallet_core_rn.a''\<rparr>),
     (''ios-simulator-arm64'', \<lparr>rn_platform = JStr ''ios'', rn_environment = JStr ''simulator'',
       rn_architecture = JStr ''arm64'',
       rn_relativePath = JStr ''dist/react-native/ios/SymbolNemWalletCoreRN.xcframework/ios-arm64-simulator/libsymbol_nem_wallet_core_rn.a'',
       rn_artifactFilename = JStr ''libsymbol_nem_wallet_core_rn.a'',
       rn_artifactIdentity = JStr ''ios|ios-simulator|arm64|dist/react-native/ios/SymbolNemWalletCoreRN.xcframework/ios-arm64-simulator/libsymbol_nem_wallet_core_rn.a''\<rparr>)]"

definition OBJECT_PROTOTYPE_NAMES :: "string list" where
  "OBJECT_PROTOTYPE_NAMES =
     [''constructor'', ''__defineGetter__'', ''__defineSetter__'', ''hasOwnProperty'',
      ''__lookupGetter__'', ''__lookupSetter__'', ''isPrototypeOf'', ''propertyIsEnumerable'',
      ''toString'', ''valueOf'', ''__proto__'', ''toLocaleString'']"

definition prototype_target :: rn_target where
  "prototype_target = \<lparr>rn_platform = JUndef, rn_environment = JUndef, rn_architecture = JUndef,
     rn_relativePath = JUndef, rn_artifactFilename = JUndef, rn_artifactIdentity = JUndef\<rparr>"

definition rn_lookup :: "string \<Rightarrow> rn_target option" where
  "rn_lookup t = (case map_of REACT_NATIVE_TARGETS t of
     Some x \<Rightarrow> Some x
   | None \<Rightarrow> if t \<in> set OBJECT_PROTOTYPE_NAMES then Some prototype_target else None)"

definition REQUIRED_RN_SYMBOLS :: "int list list" where
  "REQUIRED_RN_SYMBOLS = [ucs ''snwc_rn_module_identity'', ucs ''symbolNemWalletCoreCxxModuleProvider'']"

definition EMBEDDED_RN_ARTIFACT_IDENTITY_SYMBOL :: "int list" where
  "EMBEDDED_RN_ARTIFACT_IDENTITY_SYMBOL = ucs ''snwc_rn_artifact_identity_value''"

text \<open>A text compared with a field of a target by \<open>===\<close>.\<close>

definition is_text :: "int list \<Rightarrow> js \<Rightarrow> bool" where
  "is_text t v \<longleftrightarrow> (case v of JStr s \<Rightarrow> t = ucs s | _ \<Rightarrow> False)"

text \<open>What an inspection reports of a binary.\<close>

datatype binary_identity =
    ElfIdentity (elf_machine: string) (elf_soname: "int list") (elf_segments: nat)
      (elf_exports: nat) (elf_artifact: "int list")
  | MachOIdentity (macho_platform: string) (macho_commands: int) (macho_sections: int)
      (macho_symbols: nat) (macho_objects: nat) (macho_artifact: "int list option")

lemma native_fields_known:
  "map_of REACT_NATIVE_TARGETS t = Some x \<Longrightarrow> rn_lookup t = Some x"
  by (simp add: rn_lookup_def)

end
