(* ===== verification/ElfImage.thy ===== *)
theory ElfImage
  imports RnTargets
begin

text \<open>
  The inspection of an ELF shared object in \<open>react-native-manifest.mjs\<close>:
  \<open>elfVirtualOffset\<close>, \<open>parseElfDynamicSymbols\<close> and \<open>inspectElf\<close>. Every loop of the code is a
  recursion over its counter; the walk along a chain of the GNU hash table, which the file
  ends, is a function with its own termination proof.
\<close>

record elf_segment =
  sg_type :: int
  sg_offset :: int
  sg_address :: int
  sg_filesz :: int
  sg_memsz :: int
  sg_align :: int

fun elfVirtualOffset :: "elf_segment list \<Rightarrow> int \<Rightarrow> int \<Rightarrow> int \<Rightarrow> int res" where
  "elfVirtualOffset [] address sz len = Inl rn_failed"
| "elfVirtualOffset (s # ss) address sz len =
     (let e = num_add (sg_address s) (sg_filesz s) in
      if address \<ge> sg_address s \<and> address \<le> e \<and> sz \<le> e - address
      then let fileOffset = num_add (sg_offset s) address - sg_address s in
        bindE (rangeEnd fileOffset sz len) (\<lambda>_. Inr fileOffset)
      else elfVirtualOffset ss address sz len)"

section \<open>Dynamic section\<close>

text \<open>The entries of the dynamic section up to the terminator; a later value of a tag wins.\<close>

fun elf_dynamic :: "byte list \<Rightarrow> nat \<Rightarrow> int \<Rightarrow> (int \<times> int) list \<Rightarrow> (int \<times> int) list res" where
  "elf_dynamic bytes 0 offset vals = Inl rn_failed"
| "elf_dynamic bytes (Suc n) offset vals =
     bindE (read_signed64 bytes offset) (\<lambda>tag.
     bindE (u64 bytes (offset + 8)) (\<lambda>value.
       if tag = 0 then Inr vals else elf_dynamic bytes n (offset + 16) ((tag, value) # vals)))"

definition elf_sysv_count :: "byte list \<Rightarrow> elf_segment list \<Rightarrow> int \<Rightarrow> int res" where
  "elf_sysv_count bytes segs address =
     bindE (elfVirtualOffset segs address 8 (int (length bytes))) (\<lambda>hashOffset.
     bindE (read_le 4 bytes hashOffset) (\<lambda>bucketCount.
     bindE (read_le 4 bytes (hashOffset + 4)) (\<lambda>chainCount.
       if bucketCount = 0 \<or> chainCount = 0 then Inl rn_failed
       else bindE (rangeEnd hashOffset (8 + bucketCount * 4 + chainCount * 4) (int (length bytes))) (\<lambda>_.
         Inr chainCount))))"

text \<open>
  The chain of one bucket: entries are read until one has its low bit set; the range check
  ends the walk at the end of the file at the latest.
\<close>

function gnu_chain :: "byte list \<Rightarrow> int \<Rightarrow> int \<Rightarrow> int \<Rightarrow> int \<Rightarrow> int res" where
  "gnu_chain bytes chainOffset symbolOffset symbolIndex maximum =
     (case rangeEnd chainOffset ((symbolIndex - symbolOffset + 1) * 4) (int (length bytes)) of
        Inl e \<Rightarrow> Inl e
      | Inr e \<Rightarrow>
         (case read_le 4 bytes (e - 4) of
            Inl e \<Rightarrow> Inl e
          | Inr chain \<Rightarrow>
              (let maximum' = max maximum (symbolIndex + 1) in
               if odd chain then Inr maximum'
               else gnu_chain bytes chainOffset symbolOffset (symbolIndex + 1) maximum')))"
  by pat_completeness auto
termination
  by (relation "measure (\<lambda>(bytes, c, o', i, m). nat (int (length bytes) - c - (i - o') * 4))")
    (auto simp: rangeEnd_Inr)

declare gnu_chain.simps [simp del]

fun gnu_buckets ::
  "byte list \<Rightarrow> int \<Rightarrow> int \<Rightarrow> nat \<Rightarrow> int \<Rightarrow> int \<Rightarrow> bool \<Rightarrow> (int \<times> bool) res" where
  "gnu_buckets bytes chainOffset symbolOffset 0 position maximum found = Inr (maximum, found)"
| "gnu_buckets bytes chainOffset symbolOffset (Suc n) position maximum found =
     bindE (read_le 4 bytes position) (\<lambda>bucket.
       if bucket < symbolOffset
       then gnu_buckets bytes chainOffset symbolOffset n (position + 4) maximum found
       else bindE (gnu_chain bytes chainOffset symbolOffset bucket maximum) (\<lambda>maximum'.
         gnu_buckets bytes chainOffset symbolOffset n (position + 4) maximum' True))"

definition elf_gnu_count :: "byte list \<Rightarrow> elf_segment list \<Rightarrow> int \<Rightarrow> int res" where
  "elf_gnu_count bytes segs address =
     bindE (elfVirtualOffset segs address 16 (int (length bytes))) (\<lambda>hashOffset.
     bindE (read_le 4 bytes hashOffset) (\<lambda>bucketCount.
     bindE (read_le 4 bytes (hashOffset + 4)) (\<lambda>symbolOffset.
     bindE (read_le 4 bytes (hashOffset + 8)) (\<lambda>bloomCount.
       if bucketCount = 0 \<or> bloomCount = 0 then Inl rn_failed
       else
         bindE (rangeEnd hashOffset (16 + bloomCount * 8) (int (length bytes))) (\<lambda>bucketOffset.
         bindE (rangeEnd bucketOffset (bucketCount * 4) (int (length bytes))) (\<lambda>chainOffset.
         bindE (gnu_buckets bytes chainOffset symbolOffset (nat bucketCount) bucketOffset symbolOffset False)
           (\<lambda>(maximum, foundBucket).
             if \<not> foundBucket \<or> maximum = 0 then Inl rn_failed else Inr maximum)))))))"

section \<open>Symbols\<close>

record elf_tables =
  et_segments :: "elf_segment list"
  et_strings :: int
  et_strings_size :: int

definition in_memory :: "elf_segment list \<Rightarrow> int \<Rightarrow> bool" where
  "in_memory segs value \<longleftrightarrow>
     list_ex (\<lambda>s. value \<ge> sg_address s \<and> value < num_add (sg_address s) (sg_memsz s)) segs"

text \<open>The identity text that the symbol of that name points to.\<close>

definition elf_identity_at :: "byte list \<Rightarrow> elf_segment list \<Rightarrow> int \<Rightarrow> int \<Rightarrow> (int list) res" where
  "elf_identity_at bytes segs info value =
     (if info mod 16 \<noteq> 1 \<or> info div 16 \<noteq> 1 \<or> \<not> in_memory segs value then Inl rn_failed
      else bindE (elfVirtualOffset segs value 1 (int (length bytes))) (\<lambda>fileOffset.
        (case find (\<lambda>s. value \<ge> sg_address s \<and> value < num_add (sg_address s) (sg_filesz s)) segs of
           None \<Rightarrow> Inl rn_failed
         | Some s \<Rightarrow> cString bytes fileOffset (sg_offset s + sg_filesz s))))"

type_synonym symbol_state = "int list list \<times> int list option"

text \<open>One entry of the symbol table: the exported names and the identity found so far.\<close>

definition elf_symbol :: "byte list \<Rightarrow> elf_tables \<Rightarrow> int \<Rightarrow> symbol_state \<Rightarrow> symbol_state res" where
  "elf_symbol bytes t offset st =
     bindE (read_le 4 bytes offset) (\<lambda>nameOffset.
     bindE (read_le 1 bytes (offset + 4)) (\<lambda>info.
     bindE (read_le 1 bytes (offset + 5)) (\<lambda>other.
     bindE (read_le 2 bytes (offset + 6)) (\<lambda>sectionIndex.
     bindE (u64 bytes (offset + 8)) (\<lambda>value.
       if nameOffset \<ge> et_strings_size t \<or> info mod 16 = 0 \<or> other mod 4 = 2 \<or> sectionIndex = 0 then Inr st
       else bindE (cString bytes (et_strings t + nameOffset) (et_strings t + et_strings_size t)) (\<lambda>name.
         if name = [] then Inr st
         else let exported = (if in_memory (et_segments t) value \<and> (info div 16 = 1 \<or> info div 16 = 10)
                then set_add name (fst st) else fst st) in
           if name = EMBEDDED_RN_ARTIFACT_IDENTITY_SYMBOL
           then bindE (elf_identity_at bytes (et_segments t) info value) (\<lambda>i. Inr (exported, Some i))
           else Inr (exported, snd st)))))))"

fun elf_symbols :: "byte list \<Rightarrow> elf_tables \<Rightarrow> nat \<Rightarrow> int \<Rightarrow> symbol_state \<Rightarrow> symbol_state res" where
  "elf_symbols bytes t 0 offset st = Inr st"
| "elf_symbols bytes t (Suc n) offset st =
     bindE (elf_symbol bytes t offset st) (\<lambda>st'. elf_symbols bytes t n (offset + 24) st')"

record elf_parsed =
  ep_soname :: "int list"
  ep_exported :: "int list list"
  ep_identity :: "int list"

definition parseElfDynamicSymbols :: "byte list \<Rightarrow> elf_segment list \<Rightarrow> elf_segment \<Rightarrow> elf_parsed res" where
  "parseElfDynamicSymbols bytes segs dynamic =
     (if segs = [] then Inl rn_failed
      else
      bindE (elf_dynamic bytes (nat (sg_filesz dynamic div 16)) (sg_offset dynamic) []) (\<lambda>vals.
      (case (map_of vals 5, map_of vals 10, map_of vals 6, map_of vals 14) of
         (Some stringTableAddress, Some stringTableSize, Some symbolTableAddress, Some sonameOffset) \<Rightarrow>
           if map_of vals 11 \<noteq> Some 24 then Inl rn_failed
           else
           bindE (elfVirtualOffset segs stringTableAddress stringTableSize (int (length bytes))) (\<lambda>strings.
           if sonameOffset \<ge> stringTableSize then Inl rn_failed
           else
           bindE (cString bytes (strings + sonameOffset) (strings + stringTableSize)) (\<lambda>soname.
           bindE (case map_of vals 4 of None \<Rightarrow> Inr 0 | Some a \<Rightarrow> elf_sysv_count bytes segs a) (\<lambda>sysv.
           bindE (case map_of vals 0x6ffffef5 of None \<Rightarrow> Inr sysv
                  | Some a \<Rightarrow> bindE (elf_gnu_count bytes segs a) (\<lambda>m. Inr (max sysv m))) (\<lambda>symbolCount.
           if symbolCount = 0 then Inl rn_failed
           else
           bindE (elfVirtualOffset segs symbolTableAddress (symbolCount * 24) (int (length bytes))) (\<lambda>symbols.
           bindE (elf_symbols bytes \<lparr>et_segments = segs, et_strings = strings, et_strings_size = stringTableSize\<rparr>
               (nat symbolCount) symbols ([], None)) (\<lambda>(exported, identity).
             (case identity of
                None \<Rightarrow> Inl rn_failed
              | Some i \<Rightarrow> Inr \<lparr>ep_soname = soname, ep_exported = exported, ep_identity = i\<rparr>)))))))
       | _ \<Rightarrow> Inl rn_failed)))"

section \<open>Headers\<close>

text \<open>One program header: the loadable segments and the dynamic one found so far.\<close>

definition elf_program_header ::
  "byte list \<Rightarrow> int \<Rightarrow> elf_segment list \<times> elf_segment option \<Rightarrow> (elf_segment list \<times> elf_segment option) res" where
  "elf_program_header bytes offset st =
     bindE (read_le 4 bytes offset) (\<lambda>ty.
     bindE (u64 bytes (offset + 8)) (\<lambda>fileOffset.
     bindE (u64 bytes (offset + 16)) (\<lambda>virtualAddress.
     bindE (u64 bytes (offset + 32)) (\<lambda>fileSize.
     bindE (u64 bytes (offset + 40)) (\<lambda>memorySize.
     bindE (u64 bytes (offset + 48)) (\<lambda>alignment.
       if memorySize < fileSize then Inl rn_failed
       else bindE (rangeEnd fileOffset fileSize (int (length bytes))) (\<lambda>_.
         if alignment > 1 \<and> bit_and alignment (alignment - 1) \<noteq> 0 then Inl rn_failed
         else
           let segment = \<lparr>sg_type = ty, sg_offset = fileOffset, sg_address = virtualAddress,
                 sg_filesz = fileSize, sg_memsz = memorySize, sg_align = alignment\<rparr>;
               loads = (if ty = 1 \<and> fileSize > 0 \<and> memorySize > 0 then fst st @ [segment] else fst st) in
           if ty = 2 then
             (if snd st \<noteq> None \<or> fileSize = 0 \<or> fileSize mod 16 \<noteq> 0 then Inl rn_failed
              else Inr (loads, Some segment))
           else Inr (loads, snd st))))))))"

fun elf_program_headers ::
  "byte list \<Rightarrow> int \<Rightarrow> nat \<Rightarrow> int \<Rightarrow> elf_segment list \<times> elf_segment option \<Rightarrow>
   (elf_segment list \<times> elf_segment option) res" where
  "elf_program_headers bytes entrySize 0 offset st = Inr st"
| "elf_program_headers bytes entrySize (Suc n) offset st =
     bindE (elf_program_header bytes offset st) (\<lambda>st'.
       elf_program_headers bytes entrySize n (offset + entrySize) st')"

definition elf_header_guard :: "byte list \<Rightarrow> unit res" where
  "elf_header_guard bytes =
     (if length bytes < 64 \<or> byte_at bytes 0 \<noteq> Some 0x7f \<or>
         ascii_decode (subarray bytes 1 4) \<noteq> ucs ''ELF''
      then Inl rn_failed
      else guard_any rn_failed
        [Inr (byte_at bytes 4 \<noteq> Some 2), Inr (byte_at bytes 5 \<noteq> Some 1),
         bindE (read_le 2 bytes 16) (\<lambda>v. Inr (v \<noteq> 3)),
         bindE (read_le 2 bytes 52) (\<lambda>v. Inr (v < 64)),
         bindE (read_le 2 bytes 54) (\<lambda>v. Inr (v < 56))])"

text \<open>The loadable segments and the dynamic segment, which lies in one of them.\<close>

definition elf_layout :: "byte list \<Rightarrow> (elf_segment list \<times> elf_segment) res" where
  "elf_layout bytes =
     bindE (u64 bytes 32) (\<lambda>headerOffset.
     bindE (read_le 2 bytes 54) (\<lambda>entrySize.
     bindE (read_le 2 bytes 56) (\<lambda>headerCount.
     if headerCount = 0 \<or> entrySize < 56 then Inl rn_failed
     else
     bindE (rangeEnd headerOffset (entrySize * headerCount) (int (length bytes))) (\<lambda>_.
     bindE (elf_program_headers bytes entrySize (nat headerCount) headerOffset ([], None)) (\<lambda>(loads, dynamic).
     (case dynamic of
        None \<Rightarrow> Inl rn_failed
      | Some d \<Rightarrow>
          if loads = [] \<or>
             \<not> list_ex (\<lambda>s. sg_offset d \<ge> sg_offset s \<and>
                 sg_offset d + sg_filesz d \<le> sg_offset s + sg_filesz s) loads
          then Inl rn_failed
          else Inr (loads, d)))))))"

definition inspectElf :: "byte list \<Rightarrow> rn_target \<Rightarrow> binary_identity res" where
  "inspectElf bytes target =
     bindE (elf_header_guard bytes) (\<lambda>_.
     bindE (read_le 2 bytes 18) (\<lambda>machine.
     if machine \<noteq> (if rn_architecture target = JStr ''arm64-v8a'' then 183 else 62) then Inl rn_failed
     else
     bindE (elf_layout bytes) (\<lambda>(loads, d).
       (case parseElfDynamicSymbols bytes loads d of
          Inl _ \<Rightarrow> Inl (rn_failure ''ELF dynamic metadata is malformed'')
        | Inr parsed \<Rightarrow>
            if \<not> list_all (\<lambda>symbol. symbol \<in> set (ep_exported parsed)) REQUIRED_RN_SYMBOLS
            then Inl (rn_failure ''ELF required export is missing'')
            else if \<not> is_text (ep_soname parsed) (rn_artifactFilename target)
            then Inl (rn_failure ''ELF SONAME is not the artifact filename'')
            else if \<not> is_text (ep_identity parsed) (rn_artifactIdentity target)
            then Inl (rn_failure ''ELF embedded identity does not match'')
            else Inr (ElfIdentity
              (if rn_architecture target = JStr ''arm64-v8a'' then ''AArch64'' else ''x86_64'')
              (ep_soname parsed) (length loads) (length (ep_exported parsed)) (ep_identity parsed))))))"

section \<open>What an accepted image holds\<close>

definition ascii_text :: "int list \<Rightarrow> bool" where
  "ascii_text t \<longleftrightarrow> (\<forall>c \<in> set t. c < 128)"

lemma cString_ascii_text: "cString bytes offset limit = Inr t \<Longrightarrow> ascii_text t \<longrightarrow> has_c_string bytes t"
  by (auto simp: ascii_text_def dest: cString_ascii)

text \<open>Names and identity that were read from the file, as an invariant of the symbol loop.\<close>

definition symbols_from :: "byte list \<Rightarrow> symbol_state \<Rightarrow> bool" where
  "symbols_from bytes st \<longleftrightarrow> (\<forall>name \<in> set (fst st). ascii_text name \<longrightarrow> has_c_string bytes name) \<and>
     (\<forall>i. snd st = Some i \<longrightarrow> (ascii_text i \<longrightarrow> has_c_string bytes i) \<and>
        has_c_string bytes EMBEDDED_RN_ARTIFACT_IDENTITY_SYMBOL)"

lemma identity_symbol_ascii: "ascii_text EMBEDDED_RN_ARTIFACT_IDENTITY_SYMBOL"
  unfolding ascii_text_def EMBEDDED_RN_ARTIFACT_IDENTITY_SYMBOL_def by code_simp

lemma elf_identity_at_Inr:
  "elf_identity_at bytes segs info value = Inr i \<Longrightarrow> ascii_text i \<longrightarrow> has_c_string bytes i"
  by (auto simp: elf_identity_at_def bindE_Inr_iff split: if_splits option.splits
      dest!: cString_ascii_text)

lemma symbols_from_name:
  "symbols_from bytes st \<Longrightarrow> cString bytes p l = Inr name \<Longrightarrow>
     symbols_from bytes (if b then set_add name (fst st) else fst st, snd st)"
  by (auto simp: symbols_from_def dest: cString_ascii_text)

lemma symbols_from_identity:
  assumes "symbols_from bytes st" and "cString bytes p l = Inr EMBEDDED_RN_ARTIFACT_IDENTITY_SYMBOL"
    and "elf_identity_at bytes segs info value = Inr i"
  shows "symbols_from bytes
     (if b then set_add EMBEDDED_RN_ARTIFACT_IDENTITY_SYMBOL (fst st) else fst st, Some i)"
  using assms cString_ascii_text [OF assms(2)] elf_identity_at_Inr [OF assms(3)] identity_symbol_ascii
  by (auto simp: symbols_from_def)

lemma elf_symbol_yields:
  assumes "symbols_from bytes st"
  shows "yields (elf_symbol bytes t offset st) (symbols_from bytes)"
  unfolding elf_symbol_def Let_def
  by (intro yielding) (use assms symbols_from_name symbols_from_identity in blast)+

lemma elf_symbols_Inr:
  "elf_symbols bytes t n offset st = Inr st' \<Longrightarrow> symbols_from bytes st \<Longrightarrow> symbols_from bytes st'"
  by (induction bytes t n offset st rule: elf_symbols.induct)
    (auto simp: bindE_Inr_iff dest: yieldsD [OF elf_symbol_yields])

lemma parseElfDynamicSymbols_yields:
  "yields (parseElfDynamicSymbols bytes segs d) (\<lambda>p.
     symbols_from bytes (ep_exported p, Some (ep_identity p)) \<and>
     (ascii_text (ep_soname p) \<longrightarrow> has_c_string bytes (ep_soname p)))"
  unfolding parseElfDynamicSymbols_def
  by (intro yielding)
    (auto dest!: cString_ascii_text elf_symbols_Inr simp: symbols_from_def)

lemma inspectElf_yields:
  "yields (inspectElf bytes target) (\<lambda>r. \<exists>segs d p. elf_layout bytes = Inr (segs, d) \<and>
     parseElfDynamicSymbols bytes segs d = Inr p \<and>
     (\<forall>symbol \<in> set REQUIRED_RN_SYMBOLS. symbol \<in> set (ep_exported p)) \<and>
     is_text (ep_soname p) (rn_artifactFilename target) \<and> is_text (ep_identity p) (rn_artifactIdentity target) \<and>
     read_le 2 bytes 18 = Inr (if rn_architecture target = JStr ''arm64-v8a'' then 183 else 62) \<and>
     elf_artifact r = ep_identity p)"
  unfolding inspectElf_def
  by (intro yielding) (auto simp: list_all_iff)

lemma ucs_inj: "ucs s = ucs t \<longleftrightarrow> s = t"
  unfolding ucs_def by (rule inj_map_eq_map) (simp add: inj_def)

section \<open>An accepted image\<close>

lemma target_texts_ascii:
  "\<forall>(t, x) \<in> set REACT_NATIVE_TARGETS. \<forall>v \<in> {rn_artifactFilename x, rn_artifactIdentity x}.
     \<exists>s. v = JStr s \<and> ascii_text (ucs s)"
  unfolding REACT_NATIVE_TARGETS_def ascii_text_def ucs_def by simp

lemma required_symbols_ascii: "symbol \<in> set REQUIRED_RN_SYMBOLS \<Longrightarrow> ascii_text symbol"
  unfolding REQUIRED_RN_SYMBOLS_def ascii_text_def ucs_def by auto

text \<open>
  A shared object that passes the inspection for a target holds, as byte
  sequences ended by a zero, the file name and the identity of that very target, the name of
  the identity symbol and both required export names; it is an ELF64 image of the target's
  machine. Nothing that merely decodes to these texts passes.
\<close>

lemma inspectElf_embeds:
  assumes "map_of REACT_NATIVE_TARGETS t = Some target" and "inspectElf bytes target = Inr r"
  shows "\<exists>filename identity. rn_artifactFilename target = JStr filename \<and>
     rn_artifactIdentity target = JStr identity \<and>
     has_c_string bytes (ucs filename) \<and> has_c_string bytes (ucs identity) \<and>
     has_c_string bytes EMBEDDED_RN_ARTIFACT_IDENTITY_SYMBOL \<and>
     list_all (has_c_string bytes) REQUIRED_RN_SYMBOLS \<and> elf_artifact r = ucs identity \<and>
     read_le 2 bytes 18 = Inr (if rn_architecture target = JStr ''arm64-v8a'' then 183 else 62)"
proof -
  from yieldsD [OF inspectElf_yields assms(2)] obtain segs d p where p: "parseElfDynamicSymbols bytes segs d = Inr p"
     "\<forall>symbol \<in> set REQUIRED_RN_SYMBOLS. symbol \<in> set (ep_exported p)"
     "is_text (ep_soname p) (rn_artifactFilename target)" "is_text (ep_identity p) (rn_artifactIdentity target)"
     "read_le 2 bytes 18 = Inr (if rn_architecture target = JStr ''arm64-v8a'' then 183 else 62)"
     "elf_artifact r = ep_identity p"
    by blast
  have mem: "(t, target) \<in> set REACT_NATIVE_TARGETS" using assms(1) by (rule map_of_SomeD)
  from mem target_texts_ascii obtain fn idn where texts: "rn_artifactFilename target = JStr fn" "ascii_text (ucs fn)"
      "rn_artifactIdentity target = JStr idn" "ascii_text (ucs idn)"
    by fastforce
  note from_file = yieldsD [OF parseElfDynamicSymbols_yields p(1)]
  have "ep_soname p = ucs fn" "ep_identity p = ucs idn" using p(3,4) texts by (simp_all add: is_text_def)
  then show ?thesis
    using from_file p(2,5,6) texts required_symbols_ascii
    by (auto simp: symbols_from_def list_all_iff)
qed


section \<open>The walk along a hash chain\<close>

text \<open>The entry of a symbol index in the chain table, when it lies in the file.\<close>

definition chain_entry :: "byte list \<Rightarrow> int \<Rightarrow> int \<Rightarrow> int \<Rightarrow> int res" where
  "chain_entry bytes chainOffset symbolOffset symbolIndex =
     bindE (rangeEnd chainOffset ((symbolIndex - symbolOffset + 1) * 4) (int (length bytes))) (\<lambda>e.
       read_le 4 bytes (e - 4))"

text \<open>\<open>n\<close> entries with a clear low bit, then one with the low bit set.\<close>

definition chain_of_length :: "byte list \<Rightarrow> int \<Rightarrow> int \<Rightarrow> int \<Rightarrow> nat \<Rightarrow> bool" where
  "chain_of_length bytes c so i n \<longleftrightarrow>
     list_all (\<lambda>k. \<exists>v. chain_entry bytes c so (i + int k) = Inr v \<and> even v) [0..<n] \<and>
     (\<exists>v. chain_entry bytes c so (i + int n) = Inr v \<and> odd v)"

lemma gnu_chain_step:
  "gnu_chain bytes c so i m = bindE (chain_entry bytes c so i) (\<lambda>v.
     if odd v then Inr (max m (i + 1)) else gnu_chain bytes c so (i + 1) (max m (i + 1)))"
  by (subst gnu_chain.simps) (auto simp: chain_entry_def split: sum.splits)

lemma chain_of_length_0: "chain_of_length bytes c so i 0 \<longleftrightarrow> (\<exists>v. chain_entry bytes c so i = Inr v \<and> odd v)"
  by (simp add: chain_of_length_def)

lemma chain_of_length_Suc:
  "chain_of_length bytes c so i (Suc n) \<longleftrightarrow>
     (\<exists>v. chain_entry bytes c so i = Inr v \<and> even v) \<and> chain_of_length bytes c so (i + 1) n"
proof -
  have all: "list_all P [0..<k] \<longleftrightarrow> (\<forall>j<k. P j)" for P and k :: nat
    by (auto simp: list_all_iff)
  have shift: "i + int (Suc k) = i + 1 + int k" for k by simp
  show ?thesis unfolding chain_of_length_def all All_less_Suc2 shift by simp
qed

lemma chain_entry_bound: "chain_entry bytes c so i = Inr v \<Longrightarrow> 4 * (i - so + 1) \<le> int (length bytes) \<and> -1 \<le> i - so"
  by (auto simp: chain_entry_def bindE_Inr_iff rangeEnd_Inr)

lemma chain_of_length_bound: "chain_of_length bytes c so i n \<Longrightarrow> 4 * n \<le> length bytes + 4"
proof (induction n arbitrary: i)
  case (Suc n)
  from Suc.prems obtain v where "chain_entry bytes c so i = Inr v" by (auto simp: chain_of_length_Suc)
  from Suc.prems obtain w where "chain_entry bytes c so (i + int (Suc n)) = Inr w" by (auto simp: chain_of_length_def)
  then show ?case
    using chain_entry_bound [OF \<open>chain_entry bytes c so i = Inr v\<close>] chain_entry_bound by fastforce
qed simp

lemma gnu_chain_result:
  "(\<forall>r. gnu_chain bytes c so i m = Inr r \<longrightarrow> (\<exists>n. chain_of_length bytes c so i n \<and> r = max m (i + int n + 1))) \<and>
   (\<forall>e. gnu_chain bytes c so i m = Inl e \<longrightarrow> (\<forall>n. \<not> chain_of_length bytes c so i n))"
proof (induction bytes c so i m rule: gnu_chain.induct)
  case (1 bytes c so i m)
  show ?case
  proof (cases "chain_entry bytes c so i")
    case (Inl e)
    then have "\<not> chain_of_length bytes c so i n" for n
      by (cases n) (simp_all add: chain_of_length_0 chain_of_length_Suc)
    with Inl show ?thesis by (simp add: gnu_chain_step)
  next
    case (Inr v)
    then obtain e where e: "rangeEnd c ((i - so + 1) * 4) (int (length bytes)) = Inr e"
      "read_le 4 bytes (e - 4) = Inr v"
      by (auto simp: chain_entry_def bindE_Inr_iff)
    show ?thesis
    proof (cases "odd v")
      case True
      have "\<exists>n. chain_of_length bytes c so i n \<and> max m (i + 1) = max m (i + int n + 1)"
        using Inr True by (intro exI [of _ 0]) (simp add: chain_of_length_0)
      then show ?thesis using Inr True by (simp add: gnu_chain_step)
    next
      case False
      note ih = "1.IH" [OF e refl False]
      have step: "gnu_chain bytes c so i m = gnu_chain bytes c so (i + 1) (max m (i + 1))"
        using Inr False by (subst gnu_chain_step) simp
      have iff: "chain_of_length bytes c so i n \<longleftrightarrow> (\<exists>k. n = Suc k \<and> chain_of_length bytes c so (i + 1) k)" for n
        using Inr False by (cases n) (simp_all add: chain_of_length_0 chain_of_length_Suc)
      show ?thesis
      proof (intro conjI allI impI)
        fix r assume "gnu_chain bytes c so i m = Inr r"
        then obtain n where "chain_of_length bytes c so (i + 1) n" "r = max (max m (i + 1)) (i + 1 + int n + 1)"
          using ih step by auto
        then show "\<exists>n. chain_of_length bytes c so i n \<and> r = max m (i + int n + 1)"
          by (intro exI [of _ "Suc n"]) (auto simp: iff)
      next
        fix e n assume "gnu_chain bytes c so i m = Inl e"
        then show "\<not> chain_of_length bytes c so i n" using ih step by (auto simp: iff)
      qed
    qed
  qed
qed

text \<open>
  Property C11. The walk along a chain of the GNU hash table ends on every file: after at most
  a quarter as many entries as the file has bytes (and one) it has either met the first entry
  with its low bit set, and returns the number of symbols up to there if that raises the
  maximum, or it fails, exactly when no entry of the file ends the chain.
\<close>

theorem gnu_chain_ends:
  "case gnu_chain bytes c so i m of
     Inr r \<Rightarrow> \<exists>n. chain_of_length bytes c so i n \<and> 4 * n \<le> length bytes + 4 \<and> r = max m (i + int n + 1)
   | Inl e \<Rightarrow> \<nexists>n. chain_of_length bytes c so i n"
proof (cases "gnu_chain bytes c so i m")
  case (Inr r)
  then obtain n where "chain_of_length bytes c so i n" "r = max m (i + int n + 1)"
    using gnu_chain_result [of bytes c so i m] by blast
  then show ?thesis using Inr chain_of_length_bound by auto
qed (use gnu_chain_result [of bytes c so i m] in auto)

end
