(* ===== verification/MachO.thy ===== *)
theory MachO
  imports ElfImage
begin

text \<open>
  The inspection of a static archive of Mach-O objects in \<open>react-native-manifest.mjs\<close>:
  \<open>machOIdentity\<close> and \<open>inspectStaticArchive\<close>. The walk over the members of an archive, whose
  step the file dictates, is a function with a termination proof; the walk over the load
  commands counts down the number the header gives.
\<close>

record macho_section =
  ms_address :: int
  ms_size :: int
  ms_fileOffset :: int

record macho_symtab =
  mt_symbolOffset :: int
  mt_symbolCount :: int
  mt_stringOffset :: int
  mt_stringSize :: int

record macho_state =
  mc_offset :: int
  mc_platform :: "int option"
  mc_symbolTable :: "macho_symtab option"
  mc_sections :: "macho_section list"
  mc_sectionCount :: int

section \<open>Load commands\<close>

fun macho_section_loop :: "byte list \<Rightarrow> nat \<Rightarrow> int \<Rightarrow> macho_section list \<Rightarrow> macho_section list res" where
  "macho_section_loop bytes 0 sectionOffset acc = Inr acc"
| "macho_section_loop bytes (Suc n) sectionOffset acc =
     bindE (u64 bytes (sectionOffset + 32)) (\<lambda>address.
     bindE (u64 bytes (sectionOffset + 40)) (\<lambda>sz.
     bindE (read_le 4 bytes (sectionOffset + 48)) (\<lambda>fileOffset.
       macho_section_loop bytes n (sectionOffset + 80)
         (acc @ [\<lparr>ms_address = address, ms_size = sz, ms_fileOffset = fileOffset\<rparr>]))))"

definition macho_segment_command :: "byte list \<Rightarrow> int \<Rightarrow> macho_state \<Rightarrow> macho_state res" where
  "macho_segment_command bytes commandSize st =
     (let offset = mc_offset st in
      if commandSize < 72 then Inl rn_failed
      else bindE (u64 bytes (offset + 40)) (\<lambda>segmentFileOffset.
        bindE (u64 bytes (offset + 48)) (\<lambda>segmentFileSize.
        bindE (rangeEnd segmentFileOffset segmentFileSize (int (length bytes))) (\<lambda>_.
        bindE (read_le 4 bytes (offset + 64)) (\<lambda>sectionNumber.
          if commandSize < 72 + sectionNumber * 80 then Inl rn_failed
          else bindE (macho_section_loop bytes (nat sectionNumber) (offset + 72) (mc_sections st)) (\<lambda>sections.
            Inr (st\<lparr>mc_sections := sections, mc_sectionCount := mc_sectionCount st + sectionNumber\<rparr>)))))))"

definition macho_build_command :: "byte list \<Rightarrow> int \<Rightarrow> macho_state \<Rightarrow> macho_state res" where
  "macho_build_command bytes commandSize st =
     (if commandSize < 24 then Inl rn_failed
      else bindE (read_le 4 bytes (mc_offset st + 8)) (\<lambda>platform.
        bindE (read_le 4 bytes (mc_offset st + 20)) (\<lambda>toolCount.
          if commandSize < 24 + toolCount * 8 then Inl rn_failed
          else Inr (st\<lparr>mc_platform := Some platform\<rparr>))))"

definition macho_symtab_command :: "byte list \<Rightarrow> int \<Rightarrow> macho_state \<Rightarrow> macho_state res" where
  "macho_symtab_command bytes commandSize st =
     (if commandSize < 24 then Inl rn_failed
      else bindE (read_le 4 bytes (mc_offset st + 8)) (\<lambda>symbolOffset.
        bindE (read_le 4 bytes (mc_offset st + 12)) (\<lambda>symbolCount.
        bindE (read_le 4 bytes (mc_offset st + 16)) (\<lambda>stringOffset.
        bindE (read_le 4 bytes (mc_offset st + 20)) (\<lambda>stringSize.
        bindE (rangeEnd symbolOffset (symbolCount * 16) (int (length bytes))) (\<lambda>_.
        bindE (rangeEnd stringOffset stringSize (int (length bytes))) (\<lambda>_.
          Inr (st\<lparr>mc_symbolTable := Some \<lparr>mt_symbolOffset = symbolOffset, mt_symbolCount = symbolCount,
                  mt_stringOffset = stringOffset, mt_stringSize = stringSize\<rparr>\<rparr>))))))))"

fun macho_commands_loop :: "byte list \<Rightarrow> nat \<Rightarrow> macho_state \<Rightarrow> macho_state res" where
  "macho_commands_loop bytes 0 st = Inr st"
| "macho_commands_loop bytes (Suc n) st =
     (let offset = mc_offset st in
      if offset + 8 > int (length bytes) then Inl rn_failed
      else bindE (read_le 4 bytes offset) (\<lambda>command.
        bindE (read_le 4 bytes (offset + 4)) (\<lambda>commandSize.
          if commandSize < 8 \<or> offset + commandSize > int (length bytes) then Inl rn_failed
          else bindE
            (if command = 0x19 then macho_segment_command bytes commandSize st
             else if command = 0x32 then macho_build_command bytes commandSize st
             else if command = 0x2 then macho_symtab_command bytes commandSize st
             else Inr st) (\<lambda>st'.
            macho_commands_loop bytes n (st'\<lparr>mc_offset := offset + commandSize\<rparr>)))))"

section \<open>Symbols\<close>

text \<open>The text an identity symbol points to, through the first section that holds its value.\<close>

definition macho_identity_at :: "byte list \<Rightarrow> macho_section list \<Rightarrow> int \<Rightarrow> (int list) res" where
  "macho_identity_at bytes sections value =
     (case find (\<lambda>s. value \<ge> ms_address s \<and> value < num_add (ms_address s) (ms_size s)) sections of
        None \<Rightarrow> Inl rn_failed
      | Some s \<Rightarrow> cString bytes (num_add (ms_fileOffset s) value - ms_address s)
          (num_add (ms_fileOffset s) (ms_size s)))"

definition macho_symbol ::
  "byte list \<Rightarrow> macho_symtab \<Rightarrow> macho_section list \<Rightarrow> int \<Rightarrow> symbol_state \<Rightarrow> symbol_state res" where
  "macho_symbol bytes t sections symbolOffset st =
     bindE (read_le 4 bytes symbolOffset) (\<lambda>nameOffset.
     bindE (read_le 1 bytes (symbolOffset + 4)) (\<lambda>ty.
       if nameOffset \<ge> mt_stringSize t \<or> bit_and ty 1 = 0 \<or> bit_and ty 0x0e = 0 then Inr st
       else bindE (cString bytes (mt_stringOffset t + nameOffset) (mt_stringOffset t + mt_stringSize t)) (\<lambda>name.
         if name = [] then Inr st
         else let normalizedName = (if hd name = 95 then tl name else name);
                  exported = set_add normalizedName (fst st) in
           if normalizedName = EMBEDDED_RN_ARTIFACT_IDENTITY_SYMBOL
           then bindE (u64 bytes (symbolOffset + 8)) (\<lambda>value.
             bindE (macho_identity_at bytes sections value) (\<lambda>i. Inr (exported, Some i)))
           else Inr (exported, snd st))))"

fun macho_symbol_loop ::
  "byte list \<Rightarrow> macho_symtab \<Rightarrow> macho_section list \<Rightarrow> nat \<Rightarrow> int \<Rightarrow> symbol_state \<Rightarrow> symbol_state res" where
  "macho_symbol_loop bytes t sections 0 symbolOffset st = Inr st"
| "macho_symbol_loop bytes t sections (Suc n) symbolOffset st =
     bindE (macho_symbol bytes t sections symbolOffset st) (\<lambda>st'.
       macho_symbol_loop bytes t sections n (symbolOffset + 16) st')"

section \<open>Objects\<close>

definition expected_platform :: "rn_target \<Rightarrow> int" where
  "expected_platform target = (if rn_environment target = JStr ''simulator'' then 7 else 2)"

definition platform_name :: "rn_target \<Rightarrow> string" where
  "platform_name target = (if rn_environment target = JStr ''simulator'' then ''ios-simulator'' else ''ios'')"

record macho_object =
  mo_identity :: binary_identity
  mo_exported :: "int list list"
  mo_required :: "int list list"

text \<open>\<open>None\<close> is the result null: not a 64-bit Mach-O object.\<close>

definition machOIdentity :: "byte list \<Rightarrow> rn_target \<Rightarrow> bool \<Rightarrow> bool \<Rightarrow> macho_object option res" where
  "machOIdentity bytes target requireRequiredSymbols requireArtifactIdentity =
     (if length bytes < 32 then Inr None
      else
      bindE (read_le 4 bytes 0) (\<lambda>magic.
      if magic \<noteq> 0xfeedfacf then Inr None
      else
      bindE (read_le 4 bytes 4) (\<lambda>cpuType.
      bindE (read_le 4 bytes 8) (\<lambda>cpuSubtype.
      bindE (read_le 4 bytes 12) (\<lambda>fileType.
      if cpuType \<noteq> 0x0100000c \<or> bit_and cpuSubtype 0x00ffffff \<noteq> 0 \<or> fileType \<noteq> 1 then Inl rn_failed
      else
      bindE (read_le 4 bytes 16) (\<lambda>commandCount.
      bindE (read_le 4 bytes 20) (\<lambda>commandsSize.
      if commandCount = 0 \<or> commandsSize > int (length bytes) - 32 then Inl rn_failed
      else
      bindE (rangeEnd 32 commandsSize (int (length bytes))) (\<lambda>_.
      bindE (macho_commands_loop bytes (nat commandCount)
          \<lparr>mc_offset = 32, mc_platform = None, mc_symbolTable = None, mc_sections = [], mc_sectionCount = 0\<rparr>) (\<lambda>st.
      (case mc_symbolTable st of
         None \<Rightarrow> Inl rn_failed
       | Some t \<Rightarrow>
      if mc_offset st \<noteq> 32 + commandsSize \<or> mc_sectionCount st = 0 then Inl rn_failed
      else if mc_platform st \<noteq> None \<and> mc_platform st \<noteq> Some (expected_platform target) then Inl rn_failed
      else
      bindE (macho_symbol_loop bytes t (mc_sections st) (nat (mt_symbolCount t)) (mt_symbolOffset t) ([], None))
        (\<lambda>(exported, artifactIdentity).
          if requireArtifactIdentity \<and> artifactIdentity = None then Inl rn_failed
          else if (case artifactIdentity of None \<Rightarrow> False | Some i \<Rightarrow> \<not> is_text i (rn_artifactIdentity target))
          then Inl rn_failed
          else if requireRequiredSymbols \<and> \<not> list_all (\<lambda>symbol. symbol \<in> set exported) REQUIRED_RN_SYMBOLS
          then Inl rn_failed
          else Inr (Some \<lparr>
            mo_identity = MachOIdentity (platform_name target) commandCount (mc_sectionCount st)
              (length exported) 1 artifactIdentity,
            mo_exported = exported,
            mo_required = filter (\<lambda>symbol. symbol \<in> set exported) REQUIRED_RN_SYMBOLS\<rparr>))))))))))))"


section \<open>Archives\<close>

record archive_state =
  ar_identities :: "binary_identity list"
  ar_exported :: "int list list"

text \<open>\<open>/^\d+$/\<close> on code points, the number it spells, and \<open>s.replace(/\0/g, "")\<close>.\<close>

definition ucs_digits :: "int list \<Rightarrow> bool" where
  "ucs_digits s \<longleftrightarrow> s \<noteq> [] \<and> list_all (\<lambda>c. 48 \<le> c \<and> c \<le> 57) s"

definition ucs_number :: "int list \<Rightarrow> int" where
  "ucs_number s = foldl (\<lambda>n c. 10 * n + (c - 48)) 0 s"

definition drop_zeros :: "int list \<Rightarrow> int list" where
  "drop_zeros s = filter (\<lambda>c. c \<noteq> 0) s"

text \<open>\<open>/^#1\/(\d+)$/.exec(memberName)\<close>: the digits of an extended name.\<close>

definition extended_name :: "int list \<Rightarrow> int list option" where
  "extended_name s = (if take 3 s = ucs ''#1/'' \<and> ucs_digits (drop 3 s) then Some (drop 3 s) else None)"

definition SYMBOL_TABLE_MEMBERS :: "int list list" where
  "SYMBOL_TABLE_MEMBERS = map ucs [''/'', ''/SYM64/'', ''//'', ''__.SYMDEF'', ''__.SYMDEF SORTED'']"

text \<open>The name and the contents of a member: an extended name is the head of its data.\<close>

definition archive_member :: "byte list \<Rightarrow> int \<Rightarrow> byte list \<Rightarrow> (int list \<times> byte list) res" where
  "archive_member bytes offset rawMember =
     (let memberName = trim (drop_zeros (ascii_decode (subarray bytes offset (offset + 16)))) in
      case extended_name memberName of
        None \<Rightarrow> Inr (memberName, rawMember)
      | Some digits \<Rightarrow>
          let nameLength = ucs_number digits in
          if \<not> safe_integer nameLength \<or> nameLength > int (length rawMember)
          then Inl (rn_failure ''static archive extended member name is invalid: '')
          else Inr (trim (drop_zeros (utf8_decode (subarray rawMember 0 nameLength))),
                    drop (nat nameLength) rawMember))"

definition archive_step ::
  "byte list \<Rightarrow> rn_target \<Rightarrow> int \<Rightarrow> byte list \<Rightarrow> archive_state \<Rightarrow> archive_state res" where
  "archive_step bytes target offset rawMember st =
     bindE (archive_member bytes offset rawMember) (\<lambda>(memberName, member).
       (case machOIdentity member target False False of
          Inl _ \<Rightarrow> Inl (rn_failure ''invalid Mach-O archive member '')
        | Inr (Some identity) \<Rightarrow>
            Inr (st\<lparr>ar_identities := ar_identities st @ [mo_identity identity],
                    ar_exported := (if macho_artifact (mo_identity identity) \<noteq> None
                      then fold set_add (mo_required identity) (ar_exported st) else ar_exported st)\<rparr>)
        | Inr None \<Rightarrow>
            if ar_identities st \<noteq> [] \<or> memberName \<notin> set SYMBOL_TABLE_MEMBERS
            then Inl (rn_failure ''static archive member is not a supported Mach-O object: '')
            else Inr st))"

text \<open>The header of the member at an offset: where its data starts, and its size.\<close>

definition archive_member_size :: "byte list \<Rightarrow> int \<Rightarrow> int res" where
  "archive_member_size bytes offset =
     (if offset + 60 > int (length bytes) then Inl (rn_failure ''static archive member header is truncated at '')
      else if byte_at bytes (offset + 58) \<noteq> Some 0x60 \<or> byte_at bytes (offset + 59) \<noteq> Some 0x0a
      then Inl (rn_failure ''static archive member header is invalid at '')
      else let sizeText = trim (ascii_decode (subarray bytes (offset + 48) (offset + 58))) in
        if \<not> ucs_digits sizeText then Inl (rn_failure ''static archive member size is invalid at '')
        else let memberSize = ucs_number sizeText in
          if \<not> safe_integer memberSize \<or> offset + 60 + memberSize > int (length bytes)
          then Inl (rn_failure ''static archive member is truncated at '')
          else Inr memberSize)"

lemma ucs_number_nonneg: "ucs_digits s \<Longrightarrow> 0 \<le> ucs_number s"
proof -
  have "list_all (\<lambda>c. 48 \<le> c \<and> c \<le> 57) s \<Longrightarrow> 0 \<le> n \<Longrightarrow> 0 \<le> foldl (\<lambda>n c. 10 * n + (c - 48)) n s" for n :: int
    by (induction s arbitrary: n) auto
  then show "ucs_digits s \<Longrightarrow> 0 \<le> ucs_number s" by (simp add: ucs_digits_def ucs_number_def)
qed

lemma archive_member_size_Inr:
  "archive_member_size bytes offset = Inr n \<Longrightarrow> 0 \<le> n \<and> 0 \<le> n mod 2 \<and> offset + 60 + n \<le> int (length bytes)"
  by (auto simp: archive_member_size_def Let_def ucs_number_nonneg split: if_splits)

function archive_loop :: "byte list \<Rightarrow> rn_target \<Rightarrow> int \<Rightarrow> archive_state \<Rightarrow> archive_state res" where
  "archive_loop bytes target offset st =
     (if \<not> offset < int (length bytes) then Inr st
      else
        (case archive_member_size bytes offset of
           Inl e \<Rightarrow> Inl e
         | Inr memberSize \<Rightarrow>
             (case archive_step bytes target offset
                 (subarray bytes (offset + 60) (offset + 60 + memberSize)) st of
                Inl e \<Rightarrow> Inl e
              | Inr st' \<Rightarrow>
                  archive_loop bytes target (offset + 60 + memberSize + memberSize mod 2) st')))"
  by pat_completeness auto
termination
  by (relation "measure (\<lambda>(bytes, target, offset, st). nat (int (length bytes) - offset))")
    (auto dest!: archive_member_size_Inr intro!: add_nonneg_pos)

declare archive_loop.simps [simp del]

definition inconsistent_identity :: "rn_target \<Rightarrow> binary_identity \<Rightarrow> binary_identity \<Rightarrow> bool" where
  "inconsistent_identity target first identity \<longleftrightarrow>
     macho_platform identity \<noteq> macho_platform first \<or>
     (case macho_artifact identity of
        None \<Rightarrow> False
      | Some i \<Rightarrow> macho_artifact first \<noteq> Some i \<or> \<not> is_text i (rn_artifactIdentity target))"

definition inspectStaticArchive :: "byte list \<Rightarrow> rn_target \<Rightarrow> binary_identity res" where
  "inspectStaticArchive bytes target =
     (if length bytes < 8 \<or> ascii_decode (subarray bytes 0 8) \<noteq> ucs ''!<arch>\<newline>''
      then Inl (rn_failure ''static archive header is invalid'')
      else
      bindE (archive_loop bytes target 8 \<lparr>ar_identities = [], ar_exported = []\<rparr>) (\<lambda>st.
        let identities = ar_identities st; exportedSymbols = ar_exported st in
        if identities = [] then Inl (rn_failure ''static archive contains no Mach-O object members'')
        else if length exportedSymbols \<noteq> length REQUIRED_RN_SYMBOLS
        then Inl (rn_failure ''static archive required exports are incomplete ('')
        else (case find (\<lambda>identity. macho_artifact identity \<noteq> None) identities of
            None \<Rightarrow> Inl (rn_failure ''static archive contains no embedded RN artifact identity'')
          | Some first \<Rightarrow>
              if list_ex (inconsistent_identity target first) identities
              then Inl (rn_failure ''static archive object metadata is inconsistent'')
              else Inr (MachOIdentity (macho_platform first)
                (Max (set (map macho_commands identities))) (Max (set (map macho_sections identities)))
                (sum_list (map macho_symbols identities)) (length identities) (macho_artifact first)))))"


section \<open>What an accepted archive holds\<close>

text \<open>A symbol of the object format carries an underscore before its name, or not.\<close>

definition has_symbol :: "byte list \<Rightarrow> int list \<Rightarrow> bool" where
  "has_symbol bytes name \<longleftrightarrow> has_c_string bytes name \<or> has_c_string bytes (95 # name)"

definition macho_from :: "byte list \<Rightarrow> symbol_state \<Rightarrow> bool" where
  "macho_from bytes st \<longleftrightarrow> (\<forall>name \<in> set (fst st). ascii_text name \<longrightarrow> has_symbol bytes name) \<and>
     (\<forall>i. snd st = Some i \<longrightarrow> (ascii_text i \<longrightarrow> has_c_string bytes i) \<and>
        has_symbol bytes EMBEDDED_RN_ARTIFACT_IDENTITY_SYMBOL)"

lemma has_c_string_segment:
  assumes "has_c_string (subarray bytes a b) t" shows "has_c_string bytes t"
proof -
  obtain n where n: "n + length t < length (subarray bytes a b)"
      "map uint (take (length t) (drop n (subarray bytes a b))) = t"
      "subarray bytes a b ! (n + length t) = 0"
    using assms by (auto simp: has_c_string_def)
  have "nat a + (n + length t) < length bytes" using n(1) by (auto simp: subarray_def)
  moreover have "take (length t) (drop (nat a + n) bytes) = take (length t) (drop n (subarray bytes a b))"
  proof -
    have "length t \<le> nat (b - a) - n" using n(1) by (auto simp: subarray_def)
    then show ?thesis by (simp add: subarray_def drop_take add.commute)
  qed
  moreover have "bytes ! (nat a + (n + length t)) = 0"
  proof -
    have "drop (nat a) bytes ! (n + length t) = 0" using n(1,3) by (simp add: subarray_def)
    then show ?thesis using n(1) by (subst (asm) nth_drop) (auto simp: subarray_def)
  qed
  ultimately show ?thesis
    unfolding has_c_string_def using n(2) by (intro exI [of _ "nat a + n"]) (simp add: add.assoc)
qed

lemma has_c_string_drop: "has_c_string (drop n bytes) t \<Longrightarrow> has_c_string bytes t"
  using has_c_string_segment [of bytes "int n" "int (length bytes)" t] by (simp add: subarray_def)

lemma has_symbol_segment: "has_symbol (subarray bytes a b) t \<Longrightarrow> has_symbol bytes t"
  by (auto simp: has_symbol_def dest: has_c_string_segment)

lemma has_symbol_drop: "has_symbol (drop n bytes) t \<Longrightarrow> has_symbol bytes t"
  by (auto simp: has_symbol_def dest: has_c_string_drop)

lemma normalized_symbol:
  assumes "cString bytes p l = Inr name" and "name \<noteq> []"
    and "ascii_text (if hd name = 95 then tl name else name)"
  shows "has_symbol bytes (if hd name = 95 then tl name else name)"
proof -
  have "ascii_text name" using assms(2,3) by (cases name) (auto simp: ascii_text_def split: if_splits)
  then have "has_c_string bytes name" using cString_ascii_text [OF assms(1)] by blast
  then show ?thesis using assms(2) by (cases name) (auto simp: has_symbol_def)
qed

lemma macho_identity_at_Inr:
  "macho_identity_at bytes sections value = Inr i \<Longrightarrow> ascii_text i \<longrightarrow> has_c_string bytes i"
  by (auto simp: macho_identity_at_def split: option.splits dest!: cString_ascii_text)

lemma macho_from_name:
  "macho_from bytes st \<Longrightarrow> cString bytes p l = Inr name \<Longrightarrow> name \<noteq> [] \<Longrightarrow>
     macho_from bytes (set_add (if hd name = 95 then tl name else name) (fst st), snd st)"
  using normalized_symbol by (simp add: macho_from_def)

lemma macho_from_identity:
  assumes "macho_from bytes st" and "cString bytes p l = Inr name" and "name \<noteq> []"
    and "(if hd name = 95 then tl name else name) = EMBEDDED_RN_ARTIFACT_IDENTITY_SYMBOL"
    and "macho_identity_at bytes sections v = Inr i"
  shows "macho_from bytes (set_add (if hd name = 95 then tl name else name) (fst st), Some i)"
  using macho_from_name [OF assms(1-3)] normalized_symbol [OF assms(2,3)] macho_identity_at_Inr [OF assms(5)]
    identity_symbol_ascii
  unfolding assms(4) by (simp add: macho_from_def)

lemma macho_symbol_yields:
  assumes "macho_from bytes st"
  shows "yields (macho_symbol bytes t sections offset st) (macho_from bytes)"
  unfolding macho_symbol_def Let_def
  by (intro yielding)
    (rule assms | (rule macho_from_name [OF assms]; assumption)
      | (rule macho_from_identity [OF assms]; assumption))+

lemma macho_symbol_loop_Inr:
  "macho_symbol_loop bytes t sections n offset st = Inr st' \<Longrightarrow> macho_from bytes st \<Longrightarrow> macho_from bytes st'"
  by (induction bytes t sections n offset st rule: macho_symbol_loop.induct)
    (auto simp: bindE_Inr_iff dest: yieldsD [OF macho_symbol_yields])

lemma machOIdentity_yields:
  "yields (machOIdentity bytes target rs ra) (\<lambda>r. \<forall>mo. r = Some mo \<longrightarrow>
     macho_from bytes (mo_exported mo, macho_artifact (mo_identity mo)) \<and>
     mo_required mo = filter (\<lambda>symbol. symbol \<in> set (mo_exported mo)) REQUIRED_RN_SYMBOLS \<and>
     macho_platform (mo_identity mo) = platform_name target \<and>
     (\<forall>i. macho_artifact (mo_identity mo) = Some i \<longrightarrow> is_text i (rn_artifactIdentity target)))"
  unfolding machOIdentity_def
  by (intro yielding)
    (auto dest!: macho_symbol_loop_Inr simp: macho_from_def split: option.splits if_splits)


text \<open>The invariant of the walk over the members.\<close>

definition identity_from :: "byte list \<Rightarrow> rn_target \<Rightarrow> binary_identity \<Rightarrow> bool" where
  "identity_from bytes target x \<longleftrightarrow> macho_platform x = platform_name target \<and>
     (\<forall>i. macho_artifact x = Some i \<longrightarrow> is_text i (rn_artifactIdentity target) \<and>
        (ascii_text i \<longrightarrow> has_c_string bytes i) \<and> has_symbol bytes EMBEDDED_RN_ARTIFACT_IDENTITY_SYMBOL)"

definition archive_from :: "byte list \<Rightarrow> rn_target \<Rightarrow> archive_state \<Rightarrow> bool" where
  "archive_from bytes target st \<longleftrightarrow> distinct (ar_exported st) \<and>
     (\<forall>s \<in> set (ar_exported st). s \<in> set REQUIRED_RN_SYMBOLS \<and> has_symbol bytes s) \<and>
     (\<forall>x \<in> set (ar_identities st). identity_from bytes target x)"

lemma fold_set_add: "set (fold set_add xs ys) = set xs \<union> set ys" "distinct ys \<Longrightarrow> distinct (fold set_add xs ys)"
  by (induction xs arbitrary: ys) (auto simp: set_add_def)

lemma archive_member_Inr:
  "archive_member bytes offset raw = Inr (name, member) \<Longrightarrow> \<exists>n. member = drop n raw"
  by (auto simp: archive_member_def Let_def split: option.splits if_splits) (metis drop0)

lemma archive_object:
  assumes "machOIdentity member target rs ra = Inr (Some mo)" and "member = drop n (subarray bytes a b)"
  shows "identity_from bytes target (mo_identity mo)"
    and "s \<in> set (mo_required mo) \<Longrightarrow> s \<in> set REQUIRED_RN_SYMBOLS \<and> has_symbol bytes s"
proof -
  note lift = has_symbol_drop [THEN has_symbol_segment] has_c_string_drop [THEN has_c_string_segment]
  note y = yieldsD [OF machOIdentity_yields assms(1), unfolded assms(2)]
  show "identity_from bytes target (mo_identity mo)"
    using y by (auto simp: identity_from_def macho_from_def intro: lift)
  show "s \<in> set REQUIRED_RN_SYMBOLS \<and> has_symbol bytes s" if "s \<in> set (mo_required mo)"
    using y that required_symbols_ascii by (auto simp: macho_from_def intro: lift)
qed

lemma archive_step_Inr:
  assumes "archive_step bytes target offset (subarray bytes a b) st = Inr st'" and "archive_from bytes target st"
  shows "archive_from bytes target st' \<and> length (ar_identities st') \<le> Suc (length (ar_identities st))"
proof -
  obtain name member n where m: "archive_member bytes offset (subarray bytes a b) = Inr (name, member)"
      "member = drop n (subarray bytes a b)"
    using assms(1) archive_member_Inr by (force simp: archive_step_def bindE_Inr_iff)
  from assms(1) m(1) consider "st' = st" | mo where "machOIdentity member target False False = Inr (Some mo)"
      "st' = st\<lparr>ar_identities := ar_identities st @ [mo_identity mo],
         ar_exported := (if macho_artifact (mo_identity mo) \<noteq> None
           then fold set_add (mo_required mo) (ar_exported st) else ar_exported st)\<rparr>"
    by (auto simp: archive_step_def split: sum.splits option.splits if_splits)
  then show ?thesis
  proof cases
    case 2
    show ?thesis using assms(2) archive_object [OF 2(1) m(2)]
      by (auto simp: 2(2) archive_from_def fold_set_add)
  qed (use assms(2) in simp)
qed

lemma archive_loop_Inr:
  "archive_loop bytes target offset st = Inr st' \<Longrightarrow> archive_from bytes target st \<Longrightarrow>
     60 * int (length (ar_identities st)) \<le> offset \<Longrightarrow> offset \<le> int (length bytes) + 1 \<Longrightarrow>
     archive_from bytes target st' \<and> 60 * length (ar_identities st') \<le> length bytes + 1"
proof (induction bytes target offset st rule: archive_loop.induct)
  case (1 bytes target offset st)
  show ?case
  proof (cases "offset < int (length bytes)")
    case False
    then show ?thesis using "1.prems" by (simp add: archive_loop.simps [of bytes target offset])
  next
    case True
    then obtain n where n: "archive_member_size bytes offset = Inr n"
      using "1.prems"(1) by (auto simp: archive_loop.simps [of bytes target offset] split: sum.splits)
    let ?raw = "subarray bytes (offset + 60) (offset + 60 + n)"
    obtain st1 where st1: "archive_step bytes target offset ?raw st = Inr st1"
      using True n "1.prems"(1) by (auto simp: archive_loop.simps [of bytes target offset] split: sum.splits)
    note step = archive_step_Inr [OF st1 "1.prems"(2)]
    have next_offset: "0 \<le> n" "0 \<le> n mod 2" "n mod 2 \<le> 1" "offset + 60 + n \<le> int (length bytes)"
      using archive_member_size_Inr [OF n] by auto
    show ?thesis
    proof (rule "1.IH" [OF _ n st1])
      show "archive_loop bytes target (offset + 60 + n + n mod 2) st1 = Inr st'"
        using "1.prems"(1) True n st1 by (simp add: archive_loop.simps [of bytes target offset])
    qed (use True step next_offset "1.prems"(3) in auto)
  qed
qed

lemma archive_complete:
  assumes "archive_from bytes target st" and "length (ar_exported st) = length REQUIRED_RN_SYMBOLS"
  shows "list_all (has_symbol bytes) REQUIRED_RN_SYMBOLS"
proof -
  have "set (ar_exported st) = set REQUIRED_RN_SYMBOLS"
  proof (rule card_subset_eq)
    show "card (set (ar_exported st)) = card (set REQUIRED_RN_SYMBOLS)"
      using assms distinct_card [of "ar_exported st"]
      by (simp add: archive_from_def REQUIRED_RN_SYMBOLS_def ucs_def)
  qed (use assms(1) in \<open>auto simp: archive_from_def\<close>)
  then show ?thesis using assms(1) by (auto simp: archive_from_def list_all_iff)
qed

lemma archive_verdict:
  assumes "archive_from bytes target st" and "length (ar_exported st) = length REQUIRED_RN_SYMBOLS"
    and "find (\<lambda>identity. macho_artifact identity \<noteq> None) (ar_identities st) = Some first"
  shows "\<exists>i. macho_artifact first = Some i \<and> is_text i (rn_artifactIdentity target) \<and>
     (ascii_text i \<longrightarrow> has_c_string bytes i) \<and> has_symbol bytes EMBEDDED_RN_ARTIFACT_IDENTITY_SYMBOL \<and>
     list_all (has_symbol bytes) REQUIRED_RN_SYMBOLS \<and> macho_platform first = platform_name target"
proof -
  have "first \<in> set (ar_identities st)" "macho_artifact first \<noteq> None"
    using assms(3) by (auto simp: find_Some_iff)
  then show ?thesis using assms(1) archive_complete [OF assms(1,2)]
    by (auto simp: archive_from_def identity_from_def)
qed

lemma inspectStaticArchive_yields:
  "yields (inspectStaticArchive bytes target) (\<lambda>r. \<exists>i. macho_artifact r = Some i \<and>
     is_text i (rn_artifactIdentity target) \<and> (ascii_text i \<longrightarrow> has_c_string bytes i) \<and>
     has_symbol bytes EMBEDDED_RN_ARTIFACT_IDENTITY_SYMBOL \<and> list_all (has_symbol bytes) REQUIRED_RN_SYMBOLS \<and>
     macho_platform r = platform_name target \<and>
     0 < macho_objects r \<and> 60 * macho_objects r \<le> length bytes + 1)"
proof -
  have start: "archive_from bytes target \<lparr>ar_identities = [], ar_exported = []\<rparr>"
    by (simp add: archive_from_def)
  have loop: "yields (archive_loop bytes target 8 \<lparr>ar_identities = [], ar_exported = []\<rparr>)
      (\<lambda>st. archive_from bytes target st \<and> 60 * length (ar_identities st) \<le> length bytes + 1)"
    if "8 \<le> length bytes"
    using archive_loop_Inr [OF _ start] that by (auto simp: yields_def)
  show ?thesis
    unfolding inspectStaticArchive_def Let_def
    by (intro yielding, drule yieldsD [OF loop, rotated]) (auto dest: archive_verdict)
qed


section \<open>The identity does not depend on the target\<close>

lemma machOIdentity_null:
  "machOIdentity bytes target rs ra = Inr None \<Longrightarrow> length bytes < 32 \<or> read_le 4 bytes 0 \<noteq> Inr 0xfeedfacf"
  by (auto simp: machOIdentity_def bindE_Inr_iff split: if_splits option.splits)

text \<open>What the object itself says: the identity that the symbol loop found.\<close>

definition object_identity :: "byte list \<Rightarrow> int list option \<Rightarrow> bool" where
  "object_identity bytes i \<longleftrightarrow> (\<exists>commandCount st t exported.
     read_le 4 bytes 16 = Inr commandCount \<and>
     macho_commands_loop bytes (nat commandCount)
       \<lparr>mc_offset = 32, mc_platform = None, mc_symbolTable = None, mc_sections = [], mc_sectionCount = 0\<rparr> = Inr st \<and>
     mc_symbolTable st = Some t \<and>
     macho_symbol_loop bytes t (mc_sections st) (nat (mt_symbolCount t)) (mt_symbolOffset t) ([], None) = Inr (exported, i))"

lemma object_identity_unique: "object_identity bytes i \<Longrightarrow> object_identity bytes j \<Longrightarrow> i = j"
  by (auto simp: object_identity_def)

lemma machOIdentity_object:
  "yields (machOIdentity bytes target rs ra) (\<lambda>r. case r of
     None \<Rightarrow> length bytes < 32 \<or> read_le 4 bytes 0 \<noteq> Inr 0xfeedfacf
   | Some mo \<Rightarrow> 32 \<le> length bytes \<and> read_le 4 bytes 0 = Inr 0xfeedfacf \<and>
       object_identity bytes (macho_artifact (mo_identity mo)))"
  unfolding machOIdentity_def by (intro yielding) (auto simp: object_identity_def)

lemma archive_step_same:
  assumes "archive_step bytes t1 offset raw s1 = Inr s1'" and "archive_step bytes t2 offset raw s2 = Inr s2'"
    and "map macho_artifact (ar_identities s1) = map macho_artifact (ar_identities s2)"
  shows "map macho_artifact (ar_identities s1') = map macho_artifact (ar_identities s2')"
proof -
  obtain name member where m0: "archive_member bytes offset raw = Inr (name, member)"
    using assms(1) by (auto simp: archive_step_def bindE_Inr_iff)
  obtain r1 where r1: "machOIdentity member t1 False False = Inr r1"
    using assms(1) m0 by (cases "machOIdentity member t1 False False") (auto simp: archive_step_def)
  obtain r2 where r2: "machOIdentity member t2 False False = Inr r2"
    using assms(2) m0 by (cases "machOIdentity member t2 False False") (auto simp: archive_step_def)
  note m = m0 r1
  note o = yieldsD [OF machOIdentity_object m(2)] yieldsD [OF machOIdentity_object r2]
  have same: "macho_artifact (mo_identity a) = macho_artifact (mo_identity b)" if "r1 = Some a" "r2 = Some b" for a b
    using o that by (auto intro: object_identity_unique)
  have null: "r1 = None \<longleftrightarrow> r2 = None" using o by (auto split: option.splits)
  have out: "map macho_artifact (ar_identities s') = map macho_artifact (ar_identities s) @
      (case r of None \<Rightarrow> [] | Some mo \<Rightarrow> [macho_artifact (mo_identity mo)])"
    if "archive_step bytes t offset raw s = Inr s'" "machOIdentity member t False False = Inr r" for t s s' r
    using that m0 by (cases r) (auto simp: archive_step_def split: if_splits)
  show ?thesis
  proof (cases r1)
    case None
    then have "r2 = None" using null by blast
    then show ?thesis using out [OF assms(1) r1] out [OF assms(2) r2] assms(3) None by simp
  next
    case (Some a)
    then obtain b where "r2 = Some b" using null by (cases r2) auto
    then show ?thesis using out [OF assms(1) r1] out [OF assms(2) r2] assms(3) Some same [OF Some, of b] by simp
  qed
qed

lemma archive_loop_same:
  "archive_loop bytes t1 offset s1 = Inr s1' \<Longrightarrow> archive_loop bytes t2 offset s2 = Inr s2' \<Longrightarrow>
   map macho_artifact (ar_identities s1) = map macho_artifact (ar_identities s2) \<Longrightarrow>
   map macho_artifact (ar_identities s1') = map macho_artifact (ar_identities s2')"
proof (induction bytes t1 offset s1 arbitrary: s2 rule: archive_loop.induct)
  case (1 bytes t1 offset s1)
  note unfold = archive_loop.simps [of bytes _ offset]
  show ?case
  proof (cases "offset < int (length bytes)")
    case False
    with "1.prems" show ?thesis by (simp add: unfold)
  next
    case True
    then obtain n where n: "archive_member_size bytes offset = Inr n"
      using "1.prems"(1) by (auto simp: unfold split: sum.splits)
    obtain u1 where u1: "archive_step bytes t1 offset (subarray bytes (offset + 60) (offset + 60 + n)) s1 = Inr u1"
      using True n "1.prems"(1) by (auto simp: unfold split: sum.splits)
    obtain u2 where u2: "archive_step bytes t2 offset (subarray bytes (offset + 60) (offset + 60 + n)) s2 = Inr u2"
      using True n "1.prems"(2) by (auto simp: unfold split: sum.splits)
    show ?thesis
    proof (rule "1.IH" [OF _ n u1, where ?s2.0 = u2])
      show "archive_loop bytes t1 (offset + 60 + n + n mod 2) u1 = Inr s1'"
        using "1.prems"(1) True n u1 by (simp add: unfold)
      show "archive_loop bytes t2 (offset + 60 + n + n mod 2) u2 = Inr s2'"
        using "1.prems"(2) True n u2 by (simp add: unfold)
      show "map macho_artifact (ar_identities u1) = map macho_artifact (ar_identities u2)"
        using archive_step_same [OF u1 u2 "1.prems"(3)] .
    qed (use True in simp)
  qed
qed

lemma find_artifact:
  "find (\<lambda>x. macho_artifact x \<noteq> None) xs = Some x \<Longrightarrow>
     find (\<lambda>a. a \<noteq> None) (map macho_artifact xs) = Some (macho_artifact x)"
  by (induction xs) (auto split: if_splits)

lemma inspectStaticArchive_same:
  assumes "inspectStaticArchive bytes t1 = Inr r1" and "inspectStaticArchive bytes t2 = Inr r2"
  shows "macho_artifact r1 = macho_artifact r2"
proof -
  let ?init = "\<lparr>ar_identities = [], ar_exported = []\<rparr>"
  have run: "yields (inspectStaticArchive bytes t) (\<lambda>r. \<exists>st first. archive_loop bytes t 8 ?init = Inr st \<and>
      find (\<lambda>x. macho_artifact x \<noteq> None) (ar_identities st) = Some first \<and> macho_artifact r = macho_artifact first)" for t
    unfolding inspectStaticArchive_def Let_def by (intro yielding) auto
  obtain st1 x1 where 1: "archive_loop bytes t1 8 ?init = Inr st1"
      "find (\<lambda>x. macho_artifact x \<noteq> None) (ar_identities st1) = Some x1" "macho_artifact r1 = macho_artifact x1"
    using yieldsD [OF run assms(1)] by blast
  obtain st2 x2 where 2: "archive_loop bytes t2 8 ?init = Inr st2"
      "find (\<lambda>x. macho_artifact x \<noteq> None) (ar_identities st2) = Some x2" "macho_artifact r2 = macho_artifact x2"
    using yieldsD [OF run assms(2)] by blast
  show ?thesis
    using archive_loop_same [OF 1(1) 2(1) refl] find_artifact [OF 1(2)] find_artifact [OF 2(2)] 1(3) 2(3) by simp
qed

lemma archive_magic: "inspectStaticArchive bytes target = Inr r \<Longrightarrow> byte_at bytes 0 \<noteq> Some 0x7f"
proof
  assume r: "inspectStaticArchive bytes target = Inr r" and b: "byte_at bytes 0 = Some 0x7f"
  from r have "ascii_decode (subarray bytes 0 8) = ucs ''!<arch>\<newline>''"
    by (auto simp: inspectStaticArchive_def split: if_splits)
  moreover from b obtain bs where "bytes = 0x7f # bs" by (cases bytes) (auto simp: byte_at_def split: if_splits)
  ultimately show False by (simp add: ascii_decode_def subarray_def ucs_def)
qed

end
