(* ===== verification/RnPackage.thy ===== *)
theory RnPackage
  imports MachO
begin

text \<open>
  \<open>inspectReactNativeArtifact\<close>, the XCFramework checks and
  \<open>validateReactNativePackageArtifacts\<close> of \<open>react-native-manifest.mjs\<close>, over a file system
  and SHA-256 as parameters, and what an accepted artifact is.
\<close>

record rn_inspection =
  ri_targetId :: string
  ri_artifactFilename :: js
  ri_sha256 :: string
  ri_size :: nat
  ri_format :: string
  ri_identity :: binary_identity
  ri_requiredSymbols :: "int list list"

definition inspect_binary :: "byte list \<Rightarrow> rn_target \<Rightarrow> binary_identity res" where
  "inspect_binary bytes target =
     (if rn_platform target = JStr ''android'' then inspectElf bytes target
      else inspectStaticArchive bytes target)"

text \<open>\<open>REACT_NATIVE_TARGETS[targetId]\<close> converts the key to a string.\<close>

definition inspectReactNativeArtifact ::
  "file_system \<Rightarrow> (byte list \<Rightarrow> string) \<Rightarrow> js \<Rightarrow> js \<Rightarrow> rn_inspection res" where
  "inspectReactNativeArtifact fs sha256 path targetId =
     bindE (str_or_throw targetId) (\<lambda>t.
     (case rn_lookup t of
        None \<Rightarrow> Inl rn_failed
      | Some target \<Rightarrow>
     if \<not> is_str path then Inl rn_failed
     else
     (case fs_read fs (str_of path) of
        None \<Rightarrow> Inl rn_failed
      | Some bytes \<Rightarrow>
     if fs_stat fs (str_of path) \<noteq> Some RegularFile then Inl rn_failed
     else
     bindE (inspect_binary bytes target) (\<lambda>inspected.
       Inr \<lparr>ri_targetId = t, ri_artifactFilename = rn_artifactFilename target,
         ri_sha256 = sha256 bytes, ri_size = length bytes,
         ri_format = (if rn_platform target = JStr ''android'' then ''ELF64'' else ''Mach-O-64-static-archive''),
         ri_identity = inspected, ri_requiredSymbols = REQUIRED_RN_SYMBOLS\<rparr>))))"

section \<open>Info.plist\<close>

text \<open>
  The patterns over the text of \<open>Info.plist\<close>: a matcher maps a text to what it captured and
  the rest. \<open>[\s\S]*?\<close> is lazy, every other part is determined by the text.
\<close>

type_synonym ucs_text = "int list"

definition lit :: "string \<Rightarrow> ucs_text \<Rightarrow> ucs_text option" where
  "lit p s = (if take (length p) s = ucs p then Some (drop (length p) s) else None)"

definition spaces :: "ucs_text \<Rightarrow> ucs_text" where
  "spaces s = dropWhile is_space s"

text \<open>A literal, white space and another literal.\<close>

definition lit2 :: "string \<Rightarrow> string \<Rightarrow> ucs_text \<Rightarrow> ucs_text option" where
  "lit2 p q s = Option.bind (lit p s) (\<lambda>r. lit q (spaces r))"

text \<open>\<open>[\s\S]*?\<close> followed by \<open>m\<close>: the shortest text after which \<open>m\<close> matches.\<close>

fun lazy :: "(ucs_text \<Rightarrow> ucs_text option) \<Rightarrow> ucs_text \<Rightarrow> (ucs_text \<times> ucs_text) option" where
  "lazy m [] = map_option (Pair []) (m [])"
| "lazy m (c # cs) =
     (case m (c # cs) of
        Some r \<Rightarrow> Some ([], r)
      | None \<Rightarrow> map_option (\<lambda>(w, r). (c # w, r)) (lazy m cs))"

text \<open>The first position at which \<open>m\<close> matches, and all matches from left to right.\<close>

fun search :: "(ucs_text \<Rightarrow> ('c \<times> ucs_text) option) \<Rightarrow> ucs_text \<Rightarrow> ('c \<times> ucs_text) option" where
  "search m [] = m []"
| "search m (c # cs) = (case m (c # cs) of Some x \<Rightarrow> Some x | None \<Rightarrow> search m cs)"

lemma lazy_length: "lazy m s = Some (w, r) \<Longrightarrow> (\<And>u v. m u = Some v \<Longrightarrow> length v \<le> length u) \<Longrightarrow> length r \<le> length s"
  by (induction m s arbitrary: w rule: lazy.induct) (auto split: option.splits, fastforce+)

text \<open>
  \<open>matchAll\<close>. Every pattern it is used with consumes at least a character; a match that
  consumed nothing would end the recursion here.
\<close>

function match_all :: "(ucs_text \<Rightarrow> ('c \<times> ucs_text) option) \<Rightarrow> ucs_text \<Rightarrow> 'c list" where
  "match_all m s =
     (case search m s of
        None \<Rightarrow> []
      | Some (c, r) \<Rightarrow> if length r < length s then c # match_all m r else [c])"
  by pat_completeness auto
termination
  by (relation "measure (\<lambda>(m, s). length s)") auto

declare match_all.simps [simp del]

definition PLIST_ARRAY :: "ucs_text \<Rightarrow> (ucs_text \<times> ucs_text) option" where
  "PLIST_ARRAY s = Option.bind (lit2 ''<key>AvailableLibraries</key>'' ''<array>'' s)
     (lazy (lit2 ''</array>'' ''<key>CFBundlePackageType</key>''))"

definition PLIST_DICT :: "ucs_text \<Rightarrow> (ucs_text \<times> ucs_text) option" where
  "PLIST_DICT s = Option.bind (lit ''<dict>'' s) (lazy (lit ''</dict>''))"

text \<open>A value of an entry: \<open>match[2]\<close>, or \<open>[match[3]]\<close> from the array form.\<close>

datatype plist_value = PText ucs_text | PTexts ucs_text

definition no_lt :: "ucs_text \<Rightarrow> ucs_text \<times> ucs_text" where
  "no_lt s = (takeWhile (\<lambda>c. c \<noteq> 60) s, dropWhile (\<lambda>c. c \<noteq> 60) s)"

definition PLIST_STRING :: "ucs_text \<Rightarrow> (ucs_text \<times> ucs_text) option" where
  "PLIST_STRING s = Option.bind (lit ''<string>'' s) (\<lambda>r.
     map_option (Pair (fst (no_lt r))) (lit ''</string>'' (snd (no_lt r))))"

definition PLIST_VALUE :: "ucs_text \<Rightarrow> (plist_value \<times> ucs_text) option" where
  "PLIST_VALUE s =
     (case PLIST_STRING s of
        Some (v, r) \<Rightarrow> Some (PText v, r)
      | None \<Rightarrow>
          Option.bind (lit ''<array>'' s) (\<lambda>r.
          Option.bind (PLIST_STRING (spaces r)) (\<lambda>(v, r').
            map_option (Pair (PTexts v)) (lit ''</array>'' (spaces r')))))"

definition PLIST_ENTRY :: "ucs_text \<Rightarrow> ((ucs_text \<times> plist_value) \<times> ucs_text) option" where
  "PLIST_ENTRY s =
     Option.bind (lit ''<key>'' s) (\<lambda>r.
       if fst (no_lt r) = [] then None
       else Option.bind (lit ''</key>'' (snd (no_lt r))) (\<lambda>r'.
         map_option (\<lambda>(v, r''). ((fst (no_lt r), v), r'')) (PLIST_VALUE (spaces r'))))"

type_synonym plist_entry = "(ucs_text \<times> plist_value) list"

text \<open>\<open>Object.fromEntries\<close>: a later value of a key replaces an earlier one in its place.\<close>

fun from_entries :: "('k \<times> 'v) list \<Rightarrow> ('k \<times> 'v) list \<Rightarrow> ('k \<times> 'v) list" where
  "from_entries acc [] = acc"
| "from_entries acc ((k, v) # es) =
     from_entries (if k \<in> set (map fst acc) then map (\<lambda>(k', v'). (k', if k' = k then v else v')) acc
                   else acc @ [(k, v)]) es"

definition contains_match :: "(ucs_text \<Rightarrow> ucs_text option) \<Rightarrow> ucs_text \<Rightarrow> bool" where
  "contains_match m s \<longleftrightarrow> search (\<lambda>u. map_option (Pair ()) (m u)) s \<noteq> None"

definition readXcframeworkInfo :: "file_system \<Rightarrow> string \<Rightarrow> plist_entry list res" where
  "readXcframeworkInfo fs path =
     (case fs_read fs (posix_join [path, ''Info.plist'']) of
        None \<Rightarrow> Inl rn_failed
      | Some bytes \<Rightarrow>
          let s = utf8_decode bytes in
          if \<not> contains_match (lit2 ''<key>CFBundlePackageType</key>'' ''<string>XFWK</string>'') s \<or>
             \<not> contains_match (lit2 ''<key>XCFrameworkFormatVersion</key>'' ''<string>1.0</string>'') s \<or>
             \<not> contains_match (lit ''<key>AvailableLibraries</key>'') s
          then Inl rn_failed
          else (case search PLIST_ARRAY s of
              None \<Rightarrow> Inl rn_failed
            | Some (array, _) \<Rightarrow>
                let entries = match_all PLIST_DICT array in
                if length entries \<noteq> 2 then Inl rn_failed
                else mapE (\<lambda>entry. let values = from_entries [] (match_all PLIST_ENTRY entry) in
                  if values = [] then Inl rn_failed else Inr values) entries))"

section \<open>XCFramework\<close>

record xc_slice =
  xs_identifier :: string
  xs_platform :: string
  xs_architecture :: string
  xs_variant :: "string option"

definition EXPECTED_SLICES :: "xc_slice list" where
  "EXPECTED_SLICES =
     [\<lparr>xs_identifier = ''ios-arm64'', xs_platform = ''ios'', xs_architecture = ''arm64'', xs_variant = None\<rparr>,
      \<lparr>xs_identifier = ''ios-arm64-simulator'', xs_platform = ''ios'', xs_architecture = ''arm64'',
       xs_variant = Some ''simulator''\<rparr>]"

definition plist_get :: "plist_entry \<Rightarrow> string \<Rightarrow> plist_value option" where
  "plist_get info k = map_of info (ucs k)"

definition plist_exact_keys :: "plist_entry \<Rightarrow> string list \<Rightarrow> bool" where
  "plist_exact_keys info ks \<longleftrightarrow> sort (map fst info) = sort (map ucs ks)"

definition slice_keys :: "xc_slice \<Rightarrow> string list" where
  "slice_keys item = [''LibraryIdentifier'', ''LibraryPath'', ''SupportedArchitectures'', ''SupportedPlatform''] @
     (case xs_variant item of None \<Rightarrow> [] | Some _ \<Rightarrow> [''SupportedPlatformVariant''])"

definition slice_info_ok :: "plist_entry \<Rightarrow> xc_slice \<Rightarrow> bool" where
  "slice_info_ok info item \<longleftrightarrow>
     (plist_exact_keys info (slice_keys item) \<or> plist_exact_keys info (slice_keys item @ [''BinaryPath''])) \<and>
     plist_get info ''LibraryPath'' = Some (PText (ucs ''libsymbol_nem_wallet_core_rn.a'')) \<and>
     (plist_get info ''BinaryPath'' = None \<or> plist_get info ''BinaryPath'' = plist_get info ''LibraryPath'') \<and>
     plist_get info ''SupportedPlatform'' = Some (PText (ucs (xs_platform item))) \<and>
     plist_get info ''SupportedArchitectures'' = Some (PTexts (ucs (xs_architecture item))) \<and>
     plist_get info ''SupportedPlatformVariant'' = map_option (\<lambda>v. PText (ucs v)) (xs_variant item)"

definition validate_slice ::
  "file_system \<Rightarrow> (byte list \<Rightarrow> string) \<Rightarrow> string \<Rightarrow> plist_entry list \<Rightarrow> xc_slice \<Rightarrow> unit res" where
  "validate_slice fs sha256 path entries item =
     (case find (\<lambda>e. plist_get e ''LibraryIdentifier'' = Some (PText (ucs (xs_identifier item)))) entries of
        None \<Rightarrow> Inl rn_failed
      | Some info \<Rightarrow>
          if \<not> slice_info_ok info item then Inl rn_failed
          else (case fs_list fs (posix_join [path, xs_identifier item]) of
              None \<Rightarrow> Inl rn_failed
            | Some sliceEntries \<Rightarrow>
                if sliceEntries \<noteq> [(''libsymbol_nem_wallet_core_rn.a'', RegularFile)] then Inl rn_failed
                else bindE (inspectReactNativeArtifact fs sha256
                    (JStr (posix_join [path, xs_identifier item, ''libsymbol_nem_wallet_core_rn.a'']))
                    (JStr (if xs_identifier item = ''ios-arm64'' then ''ios-arm64'' else ''ios-simulator-arm64'')))
                  (\<lambda>_. Inr ())))"

text \<open>A directory that cannot be listed throws the system's own error, shown as \<open>rn_failed\<close>.\<close>

definition validateReactNativeXcframework ::
  "file_system \<Rightarrow> (byte list \<Rightarrow> string) \<Rightarrow> string \<Rightarrow> string list res" where
  "validateReactNativeXcframework fs sha256 path =
     (if fs_stat fs path \<noteq> Some Directory then Inl rn_failed
      else
      bindE (readXcframeworkInfo fs path) (\<lambda>entries.
      (case fs_list fs path of
         None \<Rightarrow> Inl rn_failed
       | Some actual \<Rightarrow>
           if sort (map fst actual) \<noteq> [''Info.plist'', ''ios-arm64'', ''ios-arm64-simulator''] then Inl rn_failed
           else bindE (mapE (validate_slice fs sha256 path entries) EXPECTED_SLICES) (\<lambda>_.
             Inr (map xs_identifier EXPECTED_SLICES)))))"

definition XCFRAMEWORK_PATH :: string where
  "XCFRAMEWORK_PATH = ''dist/react-native/ios/SymbolNemWalletCoreRN.xcframework''"

definition validate_package_artifact ::
  "file_system \<Rightarrow> (byte list \<Rightarrow> string) \<Rightarrow> string \<Rightarrow> js \<Rightarrow> unit res" where
  "validate_package_artifact fs sha256 packageRoot artifact =
     bindE (getp artifact ''relative_path'') (\<lambda>rp.
     if \<not> is_str rp then Inl TypeErr
     else
     bindE (inspectReactNativeArtifact fs sha256 (JStr (posix_join [packageRoot, str_of rp]))
         (fld artifact ''target_id'')) (\<lambda>inspected.
       if \<not> strict_eq (JStr (ri_sha256 inspected)) (fld artifact ''sha256'') then Inl rn_failed
       else Inr ()))"

text \<open>The artifacts are iterated, then searched with \<open>some\<close>: anything but an array throws.\<close>

definition validateReactNativePackageArtifacts ::
  "file_system \<Rightarrow> (byte list \<Rightarrow> string) \<Rightarrow> string \<Rightarrow> js \<Rightarrow> bool res" where
  "validateReactNativePackageArtifacts fs sha256 packageRoot manifest =
     (case fld manifest ''artifacts'' of
        JArr artifacts \<Rightarrow>
          bindE (mapE (validate_package_artifact fs sha256 packageRoot) artifacts) (\<lambda>_.
          if list_ex (\<lambda>a. strict_eq (fld a ''platform'') (JStr ''ios'')) artifacts
          then bindE (validateReactNativeXcframework fs sha256 (posix_join [packageRoot, XCFRAMEWORK_PATH]))
            (\<lambda>_. Inr True)
          else Inr True)
      | _ \<Rightarrow> Inl TypeErr)"


section \<open>What an accepted artifact is\<close>

text \<open>A binary that carries, as byte sequences, the identity of a target and the required symbols.\<close>

definition embeds_target :: "byte list \<Rightarrow> string \<Rightarrow> bool" where
  "embeds_target bytes t \<longleftrightarrow> (\<exists>target identity. map_of REACT_NATIVE_TARGETS t = Some target \<and>
     rn_artifactIdentity target = JStr identity \<and> has_c_string bytes (ucs identity) \<and>
     has_symbol bytes EMBEDDED_RN_ARTIFACT_IDENTITY_SYMBOL \<and>
     list_all (has_symbol bytes) REQUIRED_RN_SYMBOLS)"

text \<open>The identity an inspection reports.\<close>

definition reported_identity :: "binary_identity \<Rightarrow> ucs_text" where
  "reported_identity b = (case b of
     ElfIdentity _ _ _ _ i \<Rightarrow> i | MachOIdentity _ _ _ _ _ i \<Rightarrow> the i)"

lemma rn_lookup_cases:
  "rn_lookup t = Some x \<Longrightarrow> map_of REACT_NATIVE_TARGETS t = Some x \<or> x = prototype_target"
  by (auto simp: rn_lookup_def split: option.splits if_splits)

lemma elf_reports:
  "yields (inspectElf bytes target) (\<lambda>r. \<exists>m n k l i. r = ElfIdentity m n k l i \<and> is_text i (rn_artifactIdentity target))"
  unfolding inspectElf_def by (intro yielding) (auto simp: is_text_def)

lemma archive_reports:
  "yields (inspectStaticArchive bytes target) (\<lambda>r. \<exists>p c s k n i. r = MachOIdentity p c s k n (Some i) \<and>
     is_text i (rn_artifactIdentity target))"
proof (rule yields_def [THEN iffD2], intro allI impI)
  fix r assume r: "inspectStaticArchive bytes target = Inr r"
  have shape: "yields (inspectStaticArchive bytes target) (\<lambda>r. \<exists>p c s k n i. r = MachOIdentity p c s k n i)"
    unfolding inspectStaticArchive_def Let_def by (intro yielding) auto
  obtain p c s k n j where "r = MachOIdentity p c s k n j" using yieldsD [OF shape r] by blast
  moreover obtain i where "macho_artifact r = Some i" "is_text i (rn_artifactIdentity target)"
    using yieldsD [OF inspectStaticArchive_yields r] by blast
  ultimately show "\<exists>p c s k n i. r = MachOIdentity p c s k n (Some i) \<and> is_text i (rn_artifactIdentity target)"
    by simp
qed

lemma inspected_identity:
  assumes "inspect_binary bytes target = Inr r"
  shows "is_text (reported_identity r) (rn_artifactIdentity target)"
  using assms by (auto simp: inspect_binary_def reported_identity_def split: if_splits
      dest: yieldsD [OF elf_reports] yieldsD [OF archive_reports])

lemma inspected_embeds:
  assumes "map_of REACT_NATIVE_TARGETS t = Some target"
    and "inspect_binary bytes target = Inr r"
  shows "embeds_target bytes t"
proof -
  have mem: "(t, target) \<in> set REACT_NATIVE_TARGETS" using assms(1) by (rule map_of_SomeD)
  with target_texts_ascii obtain idn where idn: "rn_artifactIdentity target = JStr idn" "ascii_text (ucs idn)"
    by fastforce
  have "has_c_string bytes (ucs idn) \<and> has_symbol bytes EMBEDDED_RN_ARTIFACT_IDENTITY_SYMBOL \<and>
      list_all (has_symbol bytes) REQUIRED_RN_SYMBOLS"
  proof (cases "rn_platform target = JStr ''android''")
    case True
    with inspectElf_embeds [OF assms(1), of bytes r] assms(2) idn(1) show ?thesis
      by (auto simp: inspect_binary_def has_symbol_def list_all_iff)
  next
    case False
    with yieldsD [OF inspectStaticArchive_yields, of bytes target r] assms(2) idn show ?thesis
      by (auto simp: inspect_binary_def is_text_def)
  qed
  with assms(1) idn(1) show ?thesis by (auto simp: embeds_target_def)
qed

lemma inspectReactNativeArtifact_Inr:
  assumes "inspectReactNativeArtifact fs sha256 path targetId = Inr r"
  obtains p bytes t where "path = JStr p" "fs_read fs p = Some bytes" "fs_stat fs p = Some RegularFile"
    "to_str targetId = Some t" "ri_targetId r = t" "embeds_target bytes t"
    "ri_sha256 r = sha256 bytes" "ri_size r = length bytes"
    "\<exists>target. map_of REACT_NATIVE_TARGETS t = Some target \<and> ri_artifactFilename r = rn_artifactFilename target \<and>
       is_text (reported_identity (ri_identity r)) (rn_artifactIdentity target)"
proof -
  from assms obtain t target p bytes where
    "to_str targetId = Some t" "rn_lookup t = Some target" "path = JStr p" "fs_read fs p = Some bytes"
    "fs_stat fs p = Some RegularFile" "ri_targetId r = t" "ri_sha256 r = sha256 bytes" "ri_size r = length bytes"
    and i: "inspect_binary bytes target = Inr (ri_identity r)"
    and fn: "ri_artifactFilename r = rn_artifactFilename target"
    by (auto simp: inspectReactNativeArtifact_def bindE_Inr_iff str_or_throw_def is_str_iff
        split: option.splits if_splits)
  moreover have "target \<noteq> prototype_target"
    using inspected_identity [OF i] by (auto simp: prototype_target_def is_text_def)
  then have k: "map_of REACT_NATIVE_TARGETS t = Some target"
    using rn_lookup_cases [OF \<open>rn_lookup t = Some target\<close>] by blast
  ultimately show ?thesis
    using that inspected_embeds [OF k i] inspected_identity [OF i] k fn by blast
qed


section \<open>Properties\<close>

text \<open>
  A binary is accepted for a target only when the file holds, as byte sequences
  ended by a zero, the identity of that very target, the identity symbol and both required
  export names (with or without the underscore of the object format); the result names that
  target and reports the digest and the size of the whole file. A key that only finds a
  property of \<open>Object.prototype\<close> is never accepted.
\<close>

lemma inspectReactNativeArtifact_sound:
  "case inspectReactNativeArtifact fs sha256 path targetId of
     Inl _ \<Rightarrow> True
   | Inr r \<Rightarrow> \<exists>p bytes. path = JStr p \<and> fs_read fs p = Some bytes \<and> fs_stat fs p = Some RegularFile \<and>
       to_str targetId = Some (ri_targetId r) \<and> embeds_target bytes (ri_targetId r) \<and>
       ri_sha256 r = sha256 bytes \<and> ri_size r = length bytes"
proof (cases "inspectReactNativeArtifact fs sha256 path targetId")
  case (Inr r)
  then show ?thesis by (auto elim!: inspectReactNativeArtifact_Inr)
qed simp

lemma reported_identity_target:
  assumes "map_of REACT_NATIVE_TARGETS t1 = Some x1" and "map_of REACT_NATIVE_TARGETS t2 = Some x2"
    and "is_text i (rn_artifactIdentity x1)" and "is_text i (rn_artifactIdentity x2)"
  shows "t1 = t2"
proof -
  have "rn_artifactIdentity x1 = rn_artifactIdentity x2"
    using assms(3,4) by (auto simp: is_text_def ucs_inj split: js.splits)
  moreover have "distinct (map (rn_artifactIdentity \<circ> snd) REACT_NATIVE_TARGETS)"
    by (simp add: REACT_NATIVE_TARGETS_def)
  then have inj: "inj_on (rn_artifactIdentity \<circ> snd) (set REACT_NATIVE_TARGETS)"
    by (simp add: distinct_map)
  moreover have "(t1, x1) \<in> set REACT_NATIVE_TARGETS" "(t2, x2) \<in> set REACT_NATIVE_TARGETS"
    using assms(1,2) by (simp_all add: map_of_SomeD)
  ultimately have "(t1, x1) = (t2, x2)"
    using inj_onD [OF inj, of "(t1, x1)" "(t2, x2)"] by simp
  then show ?thesis by simp
qed


lemma inspect_reports:
  assumes "inspectReactNativeArtifact fs sha256 path targetId = Inr r"
  shows "\<exists>target. map_of REACT_NATIVE_TARGETS (ri_targetId r) = Some target \<and>
     is_text (reported_identity (ri_identity r)) (rn_artifactIdentity target)"
  by (rule inspectReactNativeArtifact_Inr [OF assms]) auto

lemma elf_same:
  assumes "inspectElf bytes x1 = Inr r1" and "inspectElf bytes x2 = Inr r2"
  shows "reported_identity r1 = reported_identity r2" and "byte_at bytes 0 = Some 0x7f"
proof -
  have run: "yields (inspectElf bytes x) (\<lambda>r. \<exists>segs d p. elf_layout bytes = Inr (segs, d) \<and>
      parseElfDynamicSymbols bytes segs d = Inr p \<and> reported_identity r = ep_identity p \<and>
      elf_header_guard bytes = Inr ())" for x
    unfolding inspectElf_def by (intro yielding) (auto simp: reported_identity_def)
  show "reported_identity r1 = reported_identity r2"
    using yieldsD [OF run assms(1)] yieldsD [OF run assms(2)] by auto
  show "byte_at bytes 0 = Some 0x7f"
    using yieldsD [OF run assms(1)] by (auto simp: elf_header_guard_def split: if_splits)
qed

lemma archive_same:
  assumes "inspectStaticArchive bytes x1 = Inr r1" and "inspectStaticArchive bytes x2 = Inr r2"
  shows "reported_identity r1 = reported_identity r2"
  using inspectStaticArchive_same [OF assms] yieldsD [OF archive_reports assms(1)] yieldsD [OF archive_reports assms(2)]
  by (auto simp: reported_identity_def)

lemma inspected_same:
  assumes "inspect_binary bytes x1 = Inr r1"
    and "inspect_binary bytes x2 = Inr r2"
  shows "reported_identity r1 = reported_identity r2"
  using assms elf_same [of bytes x1 r1 x2 r2] archive_same [of bytes x1 r1 x2 r2]
    elf_same(2) [of bytes x1 r1 x1 r1] elf_same(2) [of bytes x2 r2 x2 r2]
    archive_magic [of bytes x1 r1] archive_magic [of bytes x2 r2]
  by (simp add: inspect_binary_def split: if_splits)

text \<open>
  No file passes for two targets, whatever their platforms: the four embedded
  identities differ, an image of either format yields only one, and it is compared with the
  target's.
\<close>

lemma inspectReactNativeArtifact_one_target:
  "case (inspectReactNativeArtifact fs sha256 path u, inspectReactNativeArtifact fs sha256 path v) of
     (Inr r1, Inr r2) \<Rightarrow> ri_targetId r1 = ri_targetId r2
   | _ \<Rightarrow> True"
proof -
  have same: "ri_targetId r1 = ri_targetId r2"
    if r: "inspectReactNativeArtifact fs sha256 path u = Inr r1" "inspectReactNativeArtifact fs sha256 path v = Inr r2" for r1 r2
  proof -
    have run: "yields (inspectReactNativeArtifact fs sha256 path w) (\<lambda>r. \<exists>bytes x. fs_read fs (str_of path) = Some bytes \<and>
        inspect_binary bytes x = Inr (ri_identity r))"
      for w
      unfolding inspectReactNativeArtifact_def
      by (intro yielding) auto
    obtain bytes x1 x2 where
      i: "inspect_binary bytes x1 = Inr (ri_identity r1)"
        "inspect_binary bytes x2 = Inr (ri_identity r2)"
      using yieldsD [OF run r(1)] yieldsD [OF run r(2)] option.inject by metis
    have "reported_identity (ri_identity r1) = reported_identity (ri_identity r2)"
      by (rule inspected_same [OF i])
    moreover obtain x1 where "map_of REACT_NATIVE_TARGETS (ri_targetId r1) = Some x1"
        "is_text (reported_identity (ri_identity r1)) (rn_artifactIdentity x1)"
      using inspect_reports [OF r(1)] by blast
    moreover obtain x2 where "map_of REACT_NATIVE_TARGETS (ri_targetId r2) = Some x2"
        "is_text (reported_identity (ri_identity r2)) (rn_artifactIdentity x2)"
      using inspect_reports [OF r(2)] by blast
    ultimately show ?thesis by (metis reported_identity_target)
  qed
  show ?thesis by (simp split: sum.split) (intro allI impI, rule same)
qed


text \<open>
  Property C12. A package whose React Native artifacts pass holds, for each entry of the
  manifest, a regular file whose SHA-256 is the one of the entry and that embeds the identity
  of the entry's target; the check never returns false.
\<close>

theorem validateReactNativePackageArtifacts_sound:
  "case validateReactNativePackageArtifacts fs sha256 root manifest of
     Inl _ \<Rightarrow> True
   | Inr b \<Rightarrow> b \<and> list_all (\<lambda>a. \<exists>rp bytes t. fld a ''relative_path'' = JStr rp \<and>
       fs_read fs (posix_join [root, rp]) = Some bytes \<and>
       fs_stat fs (posix_join [root, rp]) = Some RegularFile \<and>
       fld a ''sha256'' = JStr (sha256 bytes) \<and>
       to_str (fld a ''target_id'') = Some t \<and> embeds_target bytes t) (elems (fld manifest ''artifacts''))"
proof (cases "validateReactNativePackageArtifacts fs sha256 root manifest")
  case (Inr b)
  then obtain as us where as: "fld manifest ''artifacts'' = JArr as"
      "list_all2 (\<lambda>a u. validate_package_artifact fs sha256 root a = Inr u) as us" "b"
    by (auto simp: validateReactNativePackageArtifacts_def bindE_Inr_iff mapE_Inr_iff
        split: js.splits if_splits)
  have entry: "\<exists>rp bytes t. fld a ''relative_path'' = JStr rp \<and>
       fs_read fs (posix_join [root, rp]) = Some bytes \<and>
       fs_stat fs (posix_join [root, rp]) = Some RegularFile \<and>
       fld a ''sha256'' = JStr (sha256 bytes) \<and>
       to_str (fld a ''target_id'') = Some t \<and> embeds_target bytes t"
    if "validate_package_artifact fs sha256 root a = Inr u" for a u
  proof -
    from that obtain rp r where "fld a ''relative_path'' = JStr rp"
        "inspectReactNativeArtifact fs sha256 (JStr (posix_join [root, rp])) (fld a ''target_id'') = Inr r"
        "fld a ''sha256'' = JStr (ri_sha256 r)"
      by (auto simp: validate_package_artifact_def bindE_Inr_iff getp_def is_str_iff split: if_splits)
    then show ?thesis by (auto elim!: inspectReactNativeArtifact_Inr)
  qed
  have "list_all (\<lambda>a. \<exists>rp bytes t. fld a ''relative_path'' = JStr rp \<and>
       fs_read fs (posix_join [root, rp]) = Some bytes \<and>
       fs_stat fs (posix_join [root, rp]) = Some RegularFile \<and>
       fld a ''sha256'' = JStr (sha256 bytes) \<and>
       to_str (fld a ''target_id'') = Some t \<and> embeds_target bytes t) as"
    unfolding list_all_iff using entry list_all2_left [OF as(2)] by blast
  with Inr as show ?thesis by simp
qed simp

end
