(* ===== verification/RnManifest.thy ===== *)
theory RnManifest
  imports RnPackage NativeManifest
begin

text \<open>
  The manifest part of \<open>react-native-manifest.mjs\<close>: \<open>validateReactNativeManifest\<close>,
  \<open>validateReactNativeArtifactInputs\<close> and \<open>assembleReactNativeManifest\<close>. The loop of the
  validator is a second instance of the scan in canonical order.
\<close>

definition rn_manifestError :: js_error where
  "rn_manifestError = Fail ''invalid React Native artifact manifest''"

definition validPackageVersion :: "js \<Rightarrow> bool" where
  "validPackageVersion v \<longleftrightarrow> is_str v \<and> rx_test version_pattern (str_of v)"

definition rn_manifest_keys :: "string list" where
  "rn_manifest_keys = [''schema_version'', ''package_name'', ''package_version'', ''source_commit'', ''artifacts'']"

definition rn_artifact_keys :: "string list" where
  "rn_artifact_keys = [''target_id'', ''platform'', ''environment'', ''architecture'', ''relative_path'',
     ''artifact_filename'', ''sha256'', ''toolchain_identifier'']"

section \<open>Validation\<close>

definition rn_fields_guard :: "js \<Rightarrow> rn_target \<Rightarrow> unit res" where
  "rn_fields_guard a target = guard_any rn_manifestError
     [Inr (\<not> strict_eq (fld a ''platform'') (rn_platform target)),
      Inr (\<not> strict_eq (fld a ''environment'') (rn_environment target)),
      Inr (\<not> strict_eq (fld a ''architecture'') (rn_architecture target)),
      Inr (\<not> strict_eq (fld a ''relative_path'') (rn_relativePath target)),
      Inr (\<not> strict_eq (fld a ''artifact_filename'') (rn_artifactFilename target)),
      not_re_test hash_pattern (fld a ''sha256''),
      Inr (\<not> nonEmptyString (fld a ''toolchain_identifier'')),
      Inr (str_includes [CHR 0x5C] (str_of (fld a ''relative_path''))),
      Inr (str_includes ''..'' (str_of (fld a ''relative_path''))),
      Inr (str_includes ''/'' (str_of (fld a ''artifact_filename'')))]"

definition rn_artifact_step :: "int \<Rightarrow> string list \<Rightarrow> js \<Rightarrow> (int \<times> string) res" where
  "rn_artifact_step previousIndex seen a =
     (let target_id = str_of (fld a ''target_id'') in
      if \<not> isPlainObject a \<or> \<not> nonEmptyString (fld a ''target_id'') \<or> target_id \<in> set seen
      then Inl rn_manifestError
      else (case rn_lookup target_id of
          None \<Rightarrow> Inl rn_manifestError
        | Some target \<Rightarrow>
            if \<not> exactKeys a rn_artifact_keys then Inl rn_manifestError
            else let index = index_of CANONICAL_REACT_NATIVE_TARGET_ORDER target_id in
              if index \<le> previousIndex then Inl rn_manifestError
              else bindE (rn_fields_guard a target) (\<lambda>_. Inr (index, target_id))))"

fun rn_artifact_loop :: "int \<Rightarrow> string list \<Rightarrow> js list \<Rightarrow> string list res" where
  "rn_artifact_loop previousIndex seen [] = Inr seen"
| "rn_artifact_loop previousIndex seen (a # as) =
     bindE (rn_artifact_step previousIndex seen a)
       (\<lambda>(index, target_id). rn_artifact_loop index (target_id # seen) as)"

definition validateReactNativeManifest :: "js \<Rightarrow> js \<Rightarrow> bool \<Rightarrow> js res" where
  "validateReactNativeManifest manifest packageMeta requireComplete =
     (if \<not> isPlainObject manifest \<or> \<not> isPlainObject packageMeta then Inl rn_manifestError
      else
      bindE (guard_any rn_manifestError
        [Inr (\<not> exactKeys manifest rn_manifest_keys),
         Inr (\<not> strict_eq (fld manifest ''schema_version'') (JInt 1)),
         Inr (\<not> strict_eq (fld manifest ''package_name'') (JStr PACKAGE_NAME)),
         Inr (\<not> strict_eq (fld manifest ''package_name'') (fld packageMeta ''name'')),
         Inr (\<not> strict_eq (fld manifest ''package_version'') (fld packageMeta ''version'')),
         Inr (\<not> validPackageVersion (fld manifest ''package_version'')),
         not_re_test commit_pattern (fld manifest ''source_commit''),
         Inr (\<not> is_arr (fld manifest ''artifacts''))]) (\<lambda>_.
      bindE (rn_artifact_loop (-1) [] (elems (fld manifest ''artifacts''))) (\<lambda>seen.
      if requireComplete \<and> length seen \<noteq> length CANONICAL_REACT_NATIVE_TARGET_ORDER
      then Inl rn_manifestError
      else Inr manifest)))"

section \<open>What an accepted manifest is\<close>

definition rn_entry_spec :: "js \<Rightarrow> bool" where
  "rn_entry_spec a \<longleftrightarrow> (\<exists>t x h tool. isPlainObject a \<and> mset (obj_keys a) = mset rn_artifact_keys \<and>
     map_of REACT_NATIVE_TARGETS t = Some x \<and> fld a ''target_id'' = JStr t \<and>
     fld a ''platform'' = rn_platform x \<and> fld a ''environment'' = rn_environment x \<and>
     fld a ''architecture'' = rn_architecture x \<and> fld a ''relative_path'' = rn_relativePath x \<and>
     fld a ''artifact_filename'' = rn_artifactFilename x \<and>
     to_str (fld a ''sha256'') = Some h \<and> length h = 64 \<and> list_all is_hex h \<and>
     fld a ''toolchain_identifier'' = JStr tool \<and> tool \<noteq> [])"

lemma rn_targets_order: "map fst REACT_NATIVE_TARGETS = CANONICAL_REACT_NATIVE_TARGET_ORDER"
  by (simp add: REACT_NATIVE_TARGETS_def CANONICAL_REACT_NATIVE_TARGET_ORDER_def)

lemma rn_order_distinct: "distinct CANONICAL_REACT_NATIVE_TARGET_ORDER"
  by (simp add: CANONICAL_REACT_NATIVE_TARGET_ORDER_def)

lemma rn_known_iff: "t \<in> set CANONICAL_REACT_NATIVE_TARGET_ORDER \<longleftrightarrow> (\<exists>x. map_of REACT_NATIVE_TARGETS t = Some x)"
  unfolding rn_targets_order [symmetric] by (metis map_of_eq_None_iff not_None_eq set_map)

text \<open>Every field of a target is a string, and its path is clean.\<close>

lemma rn_target_fields:
  assumes "map_of REACT_NATIVE_TARGETS t = Some x"
  shows "\<exists>a b c d e. rn_platform x = JStr a \<and> rn_environment x = JStr b \<and> rn_architecture x = JStr c \<and>
     rn_relativePath x = JStr d \<and> rn_artifactFilename x = JStr e \<and> \<not> str_includes [CHR 0x5C] d \<and>
     \<not> str_includes ''..'' d \<and> \<not> str_includes ''/'' e \<and> t \<noteq> []"
proof -
  have "list_all (\<lambda>(t, x). is_str (rn_platform x) \<and> is_str (rn_environment x) \<and> is_str (rn_architecture x) \<and>
      is_str (rn_relativePath x) \<and> is_str (rn_artifactFilename x) \<and>
      \<not> str_includes [CHR 0x5C] (str_of (rn_relativePath x)) \<and> \<not> str_includes ''..'' (str_of (rn_relativePath x)) \<and>
      \<not> str_includes ''/'' (str_of (rn_artifactFilename x)) \<and> t \<noteq> []) REACT_NATIVE_TARGETS"
    by code_simp
  then show ?thesis using map_of_SomeD [OF assms] by (fastforce simp: list_all_iff is_str_iff)
qed

lemma rn_fields_guard_iff:
  assumes "map_of REACT_NATIVE_TARGETS t = Some x"
  shows "rn_fields_guard a x = Inr () \<longleftrightarrow>
     fld a ''platform'' = rn_platform x \<and> fld a ''environment'' = rn_environment x \<and>
     fld a ''architecture'' = rn_architecture x \<and> fld a ''relative_path'' = rn_relativePath x \<and>
     fld a ''artifact_filename'' = rn_artifactFilename x \<and>
     (\<exists>h. to_str (fld a ''sha256'') = Some h \<and> length h = 64 \<and> list_all is_hex h) \<and>
     (\<exists>tool. fld a ''toolchain_identifier'' = JStr tool \<and> tool \<noteq> [])"
  using rn_target_fields [OF assms]
  by (auto simp: rn_fields_guard_def res_simps hash_pattern_iff nonEmptyString_iff)

lemma rn_artifact_step_iff:
  assumes "-1 \<le> prev"
  shows "rn_artifact_step prev seen a = Inr (i, t) \<longleftrightarrow>
     rn_entry_spec a \<and> fld a ''target_id'' = JStr t \<and> t \<notin> set seen \<and>
     i = index_of CANONICAL_REACT_NATIVE_TARGET_ORDER t \<and> prev < i"
    (is "?l \<longleftrightarrow> ?r")
proof
  assume l: ?l
  let ?t = "str_of (fld a ''target_id'')"
  from l obtain x where x: "rn_lookup ?t = Some x"
    by (cases "rn_lookup ?t") (simp_all add: rn_artifact_step_def Let_def split: if_splits)
  from l x have keys: "mset (obj_keys a) = mset rn_artifact_keys" and g: "rn_fields_guard a x = Inr ()"
    and res: "i = index_of CANONICAL_REACT_NATIVE_TARGET_ORDER ?t" "t = ?t" "prev < i"
    by (auto simp: rn_artifact_step_def Let_def exactKeys_iff bindE_Inr_iff split: if_splits)
  from l have id: "fld a ''target_id'' = JStr ?t" and obj: "isPlainObject a" and new: "?t \<notin> set seen"
    by (auto simp: rn_artifact_step_def Let_def nonEmptyString_iff split: if_splits)
  have "?t \<in> set CANONICAL_REACT_NATIVE_TARGET_ORDER"
    using res assms index_of_in_iff [of CANONICAL_REACT_NATIVE_TARGET_ORDER ?t] by linarith
  then obtain y where y: "map_of REACT_NATIVE_TARGETS ?t = Some y" by (auto simp: rn_known_iff)
  with x have "x = y" by (simp add: native_fields_known)
  then have "rn_entry_spec a"
    unfolding rn_entry_spec_def using y g id obj keys rn_fields_guard_iff [OF y, of a] by blast
  with id new res show ?r by simp
next
  assume r: ?r
  then obtain x h tool where x: "map_of REACT_NATIVE_TARGETS t = Some x" and obj: "isPlainObject a"
    and keys: "mset (obj_keys a) = mset rn_artifact_keys" and id: "fld a ''target_id'' = JStr t"
    and fields: "fld a ''platform'' = rn_platform x" "fld a ''environment'' = rn_environment x"
      "fld a ''architecture'' = rn_architecture x" "fld a ''relative_path'' = rn_relativePath x"
      "fld a ''artifact_filename'' = rn_artifactFilename x" "to_str (fld a ''sha256'') = Some h"
      "length h = 64" "list_all is_hex h" "fld a ''toolchain_identifier'' = JStr tool" "tool \<noteq> []"
    unfolding rn_entry_spec_def by auto
  have g: "rn_fields_guard a x = Inr ()" unfolding rn_fields_guard_iff [OF x] using fields by blast
  have "t \<noteq> []" using rn_target_fields [OF x] by blast
  with r x obj keys id g show ?l
    by (simp add: rn_artifact_step_def Let_def nonEmptyString_def exactKeys_iff native_fields_known)
qed

lemma rn_entry_loop:
  "rn_artifact_loop prev seen as = Inr r \<Longrightarrow> -1 \<le> prev \<Longrightarrow>
     list_all rn_entry_spec as \<and> length r = length seen + length as"
  by (induction prev seen as rule: rn_artifact_loop.induct)
    (auto simp: res_simps rn_artifact_step_iff index_of_ge split: prod.splits)

interpretation rn_scan:
  ordered_scan CANONICAL_REACT_NATIVE_TARGET_ORDER "\<lambda>a. str_of (fld a ''target_id'')" rn_artifact_loop
proof unfold_locales
  show "distinct CANONICAL_REACT_NATIVE_TARGET_ORDER" by (rule rn_order_distinct)
next
  fix prev seen a as r
  assume "rn_artifact_loop prev seen (a # as) = Inr r"
  then obtain i t where "rn_artifact_step prev seen a = Inr (i, t)"
    and "rn_artifact_loop i (t # seen) as = Inr r"
    by (auto simp: res_simps split: prod.splits)
  then show "str_of (fld a ''target_id'') \<notin> set seen \<and>
      prev < index_of CANONICAL_REACT_NATIVE_TARGET_ORDER (str_of (fld a ''target_id'')) \<and>
      (\<exists>r'. rn_artifact_loop (index_of CANONICAL_REACT_NATIVE_TARGET_ORDER (str_of (fld a ''target_id'')))
        (str_of (fld a ''target_id'') # seen) as = Inr r')"
    by (auto simp: rn_artifact_step_def Let_def res_simps split: if_splits option.splits)
qed

lemma rn_loop_accepts:
  "\<lbrakk>list_all rn_entry_spec as; -1 \<le> prev;
    sorted_wrt (<) (map (index_of CANONICAL_REACT_NATIVE_TARGET_ORDER) (map (\<lambda>a. str_of (fld a ''target_id'')) as));
    \<forall>a \<in> set as. prev < index_of CANONICAL_REACT_NATIVE_TARGET_ORDER (str_of (fld a ''target_id''));
    \<forall>a \<in> set as. str_of (fld a ''target_id'') \<notin> set seen\<rbrakk> \<Longrightarrow>
   \<exists>r. rn_artifact_loop prev seen as = Inr r"
proof (induction as arbitrary: prev seen)
  case Nil
  then show ?case by simp
next
  case (Cons a as)
  let ?t = "str_of (fld a ''target_id'')"
  have id: "fld a ''target_id'' = JStr ?t"
    using Cons.prems(1) by (auto simp: rn_entry_spec_def)
  then have step: "rn_artifact_step prev seen a = Inr (index_of CANONICAL_REACT_NATIVE_TARGET_ORDER ?t, ?t)"
    using Cons.prems by (simp add: rn_artifact_step_iff)
  have "\<forall>b \<in> set as. str_of (fld b ''target_id'') \<noteq> ?t"
    using Cons.prems(3) by auto
  then have "\<exists>r. rn_artifact_loop (index_of CANONICAL_REACT_NATIVE_TARGET_ORDER ?t) (?t # seen) as = Inr r"
    using Cons index_of_ge by auto
  with step show ?case by auto
qed

text \<open>
  The specification of a manifest: with \<open>complete\<close>, the targets are the whole canonical
  order, otherwise that order with some left out.
\<close>

definition rn_manifest_spec :: "js \<Rightarrow> js \<Rightarrow> bool \<Rightarrow> bool" where
  "rn_manifest_spec m p complete \<longleftrightarrow> (\<exists>v c as.
     isPlainObject m \<and> isPlainObject p \<and> mset (obj_keys m) = mset rn_manifest_keys \<and>
     fld m ''schema_version'' = JInt 1 \<and>
     fld m ''package_name'' = JStr PACKAGE_NAME \<and> fld p ''name'' = JStr PACKAGE_NAME \<and>
     fld m ''package_version'' = JStr v \<and> fld p ''version'' = JStr v \<and> rx_test version_pattern v \<and>
     to_str (fld m ''source_commit'') = Some c \<and> length c = 40 \<and> list_all is_hex c \<and>
     fld m ''artifacts'' = JArr as \<and> list_all rn_entry_spec as \<and>
     (let ids = map (\<lambda>a. str_of (fld a ''target_id'')) as
      in if complete then ids = CANONICAL_REACT_NATIVE_TARGET_ORDER
         else ids = filter (\<lambda>t. t \<in> set ids) CANONICAL_REACT_NATIVE_TARGET_ORDER))"

lemma rn_manifest_guards:
  "validateReactNativeManifest m p complete = Inr r \<longleftrightarrow> r = m \<and> isPlainObject m \<and> isPlainObject p \<and>
     mset (obj_keys m) = mset rn_manifest_keys \<and> fld m ''schema_version'' = JInt 1 \<and>
     fld m ''package_name'' = JStr PACKAGE_NAME \<and> fld p ''name'' = JStr PACKAGE_NAME \<and>
     strict_eq (fld m ''package_version'') (fld p ''version'') \<and> validPackageVersion (fld m ''package_version'') \<and>
     not_re_test commit_pattern (fld m ''source_commit'') = Inr False \<and>
     is_arr (fld m ''artifacts'') \<and>
     (\<exists>seen. rn_artifact_loop (-1) [] (elems (fld m ''artifacts'')) = Inr seen \<and>
        \<not> (complete \<and> length seen \<noteq> length CANONICAL_REACT_NATIVE_TARGET_ORDER))"
  by (cases "fld m ''package_name'' = JStr PACKAGE_NAME")
    (auto simp: validateReactNativeManifest_def bindE_Inr_iff guard_any_Inr_iff exactKeys_iff)

lemma validateReactNativeManifest_spec:
  "validateReactNativeManifest m p complete = Inr r \<longleftrightarrow> r = m \<and> rn_manifest_spec m p complete"
    (is "?l \<longleftrightarrow> ?r")
proof
  let ?ids = "map (\<lambda>a. str_of (fld a ''target_id''))"
  assume l: ?l
  note g = l [unfolded rn_manifest_guards]
  obtain as where as: "fld m ''artifacts'' = JArr as" using g by (auto simp: is_arr_iff)
  then obtain seen where scan: "rn_artifact_loop (-1) [] as = Inr seen"
      "\<not> (complete \<and> length seen \<noteq> length CANONICAL_REACT_NATIVE_TARGET_ORDER)" using g by auto
  obtain v where v: "fld m ''package_version'' = JStr v" "fld p ''version'' = JStr v" "rx_test version_pattern v"
    using g by (cases "fld m ''package_version''") (auto simp: validPackageVersion_def)
  obtain c where c: "to_str (fld m ''source_commit'') = Some c" "length c = 40" "list_all is_hex c"
    using g by (auto simp: not_re_test_iff commit_pattern_iff)
  have entries: "list_all rn_entry_spec as" "length seen = length as" using rn_entry_loop [OF scan(1)] by auto
  have "?ids as = filter (\<lambda>t. t \<in> set (?ids as)) CANONICAL_REACT_NATIVE_TARGET_ORDER"
    unfolding set_map by (rule rn_scan.scan_canonical [OF scan(1)])
  moreover have "complete \<Longrightarrow> ?ids as = CANONICAL_REACT_NATIVE_TARGET_ORDER"
    using rn_scan.scan_complete [OF scan(1)] scan(2) entries(2) by simp
  ultimately have "if complete then ?ids as = CANONICAL_REACT_NATIVE_TARGET_ORDER
      else ?ids as = filter (\<lambda>t. t \<in> set (?ids as)) CANONICAL_REACT_NATIVE_TARGET_ORDER"
    by presburger
  then show ?r
    unfolding rn_manifest_spec_def Let_def using g as v c entries(1) by blast
next
  let ?ids = "map (\<lambda>a. str_of (fld a ''target_id''))"
  assume r: ?r
  then obtain v c as where spec: "isPlainObject m" "isPlainObject p"
     "mset (obj_keys m) = mset rn_manifest_keys" "fld m ''schema_version'' = JInt 1"
     "fld m ''package_name'' = JStr PACKAGE_NAME" "fld p ''name'' = JStr PACKAGE_NAME"
     "fld m ''package_version'' = JStr v" "fld p ''version'' = JStr v" "rx_test version_pattern v"
     "to_str (fld m ''source_commit'') = Some c" "length c = 40" "list_all is_hex c"
     "fld m ''artifacts'' = JArr as" "list_all rn_entry_spec as"
     and ids: "if complete then ?ids as = CANONICAL_REACT_NATIVE_TARGET_ORDER
         else ?ids as = filter (\<lambda>t. t \<in> set (?ids as)) CANONICAL_REACT_NATIVE_TARGET_ORDER"
    unfolding rn_manifest_spec_def Let_def by blast
  have f: "?ids as = filter (\<lambda>t. t \<in> set (?ids as)) CANONICAL_REACT_NATIVE_TARGET_ORDER"
    using ids by (cases complete) (simp_all del: set_map)
  have up: "sorted_wrt (<) (map (index_of CANONICAL_REACT_NATIVE_TARGET_ORDER) (?ids as))"
    by (subst f) (rule index_of_sorted_filter [OF rn_order_distinct])
  have "set (?ids as) \<subseteq> set CANONICAL_REACT_NATIVE_TARGET_ORDER"
    by (metis f filter_is_subset)
  then have known: "\<forall>a \<in> set as. str_of (fld a ''target_id'') \<in> set CANONICAL_REACT_NATIVE_TARGET_ORDER"
    by auto
  have "\<exists>seen. rn_artifact_loop (-1) [] as = Inr seen"
  proof (rule rn_loop_accepts [OF spec(14) order_refl up])
    show "\<forall>a \<in> set as. -1 < index_of CANONICAL_REACT_NATIVE_TARGET_ORDER (str_of (fld a ''target_id''))"
    proof
      fix a assume "a \<in> set as"
      then have "0 \<le> index_of CANONICAL_REACT_NATIVE_TARGET_ORDER (str_of (fld a ''target_id''))"
        using known by (simp add: index_of_in_iff)
      then show "-1 < index_of CANONICAL_REACT_NATIVE_TARGET_ORDER (str_of (fld a ''target_id''))" by linarith
    qed
  qed simp
  then obtain seen where scan: "rn_artifact_loop (-1) [] as = Inr seen" by blast
  have "length seen = length as" using rn_entry_loop [OF scan order_refl] by simp
  then have "length seen = length CANONICAL_REACT_NATIVE_TARGET_ORDER" if complete
    using ids that length_map [of "\<lambda>a. str_of (fld a ''target_id'')" as] by simp
  then show ?l
    unfolding rn_manifest_guards using r spec scan
    by (simp add: not_re_test_iff commit_pattern_iff validPackageVersion_def)
qed

text \<open>
  Property C17. The React Native validator accepts a manifest exactly when it meets the
  specification, and returns it unchanged; with the completeness option the artifacts are
  those of the four targets in canonical order. A target id that only names a property of
  \<open>Object.prototype\<close> is refused.
\<close>

theorem validateReactNativeManifest_iff:
  "validateReactNativeManifest m p complete = Inr r \<longleftrightarrow> r = m \<and> rn_manifest_spec m p complete"
  by (rule validateReactNativeManifest_spec)


section \<open>Assembly\<close>

record rn_input =
  in_targetId :: string
  in_path :: string
  in_toolchainIdentifier :: "string option"
  in_inspected :: rn_inspection
  in_evidencePath :: js

text \<open>\<open>`/${target.artifactFilename}`\<close>, where the field of an inherited name is undefined.\<close>

definition template_str :: "js \<Rightarrow> string" where
  "template_str v = (case v of JStr s \<Rightarrow> s | _ \<Rightarrow> ''undefined'')"

definition rn_input_item ::
  "file_system \<Rightarrow> (byte list \<Rightarrow> string) \<Rightarrow> string list \<Rightarrow> js \<Rightarrow> rn_input res" where
  "rn_input_item fs sha256 seen item =
     (let targetId = fld item ''targetId''; path = fld item ''path'' in
      if \<not> isPlainObject item \<or> \<not> is_str targetId \<or> rn_lookup (str_of targetId) = None \<or>
         str_of targetId \<in> set seen \<or> \<not> is_str path
      then Inl rn_failed
      else (case rn_lookup (str_of targetId) of
          None \<Rightarrow> Inl rn_failed
        | Some target \<Rightarrow>
            if \<not> ends_with (''/'' @ template_str (rn_artifactFilename target)) (str_of path) \<and>
               \<not> ends_with ([CHR 0x5C] @ template_str (rn_artifactFilename target)) (str_of path)
            then Inl rn_failed
            else bindE (inspectReactNativeArtifact fs sha256 path targetId) (\<lambda>inspected.
              Inr \<lparr>in_targetId = str_of targetId, in_path = str_of path,
                in_toolchainIdentifier =
                  (case fld item ''toolchainIdentifier'' of JStr s \<Rightarrow> Some s | _ \<Rightarrow> None),
                in_inspected = inspected, in_evidencePath = fld item ''evidencePath''\<rparr>)))"

fun rn_input_loop ::
  "file_system \<Rightarrow> (byte list \<Rightarrow> string) \<Rightarrow> string list \<Rightarrow> js list \<Rightarrow> rn_input list res" where
  "rn_input_loop fs sha256 seen [] = Inr []"
| "rn_input_loop fs sha256 seen (item # items) =
     bindE (rn_input_item fs sha256 seen item) (\<lambda>out.
     bindE (rn_input_loop fs sha256 (in_targetId out # seen) items) (\<lambda>outs. Inr (out # outs)))"

definition validateReactNativeArtifactInputs ::
  "file_system \<Rightarrow> (byte list \<Rightarrow> string) \<Rightarrow> js \<Rightarrow> bool \<Rightarrow> rn_input list res" where
  "validateReactNativeArtifactInputs fs sha256 artifacts requireComplete =
     (if \<not> is_arr artifacts then Inl rn_failed
      else bindE (rn_input_loop fs sha256 [] (elems artifacts)) (\<lambda>validated.
        if requireComplete \<and> length validated \<noteq> length CANONICAL_REACT_NATIVE_TARGET_ORDER
        then Inl rn_failed else Inr validated))"

definition rn_entry :: "string \<Rightarrow> rn_input \<Rightarrow> js" where
  "rn_entry toolchainIdentifier item =
     (let target = (case rn_lookup (in_targetId item) of Some x \<Rightarrow> x | None \<Rightarrow> prototype_target) in
      JObj [(''target_id'', JStr (in_targetId item)), (''platform'', rn_platform target),
        (''environment'', rn_environment target), (''architecture'', rn_architecture target),
        (''relative_path'', rn_relativePath target), (''artifact_filename'', rn_artifactFilename target),
        (''sha256'', JStr (ri_sha256 (in_inspected item))),
        (''toolchain_identifier'', JStr (case in_toolchainIdentifier item of
           Some s \<Rightarrow> s | None \<Rightarrow> toolchainIdentifier))])"

definition rn_manifest_object :: "js \<Rightarrow> js \<Rightarrow> js list \<Rightarrow> js" where
  "rn_manifest_object packageVersion sourceCommit entries = JObj
     [(''schema_version'', JInt 1), (''package_name'', JStr PACKAGE_NAME),
      (''package_version'', packageVersion), (''source_commit'', sourceCommit),
      (''artifacts'', JArr entries)]"

definition assembleReactNativeManifest ::
  "file_system \<Rightarrow> (byte list \<Rightarrow> string) \<Rightarrow> js \<Rightarrow> js \<Rightarrow> js \<Rightarrow> js \<Rightarrow> bool \<Rightarrow> js res" where
  "assembleReactNativeManifest fs sha256 packageVersion sourceCommit artifacts toolchainIdentifier requireComplete =
     bindE (guard_any rn_failed
       [Inr (\<not> validPackageVersion packageVersion), not_re_test commit_pattern sourceCommit,
        Inr (\<not> is_arr artifacts), Inr (\<not> nonEmptyString toolchainIdentifier)]) (\<lambda>_.
     bindE (validateReactNativeArtifactInputs fs sha256 artifacts False) (\<lambda>items.
       let ordered = sort_key (\<lambda>i. index_of CANONICAL_REACT_NATIVE_TARGET_ORDER (in_targetId i)) items;
           manifest = rn_manifest_object packageVersion sourceCommit
             (map (rn_entry (str_of toolchainIdentifier)) ordered) in
       case validateReactNativeManifest manifest
           (JObj [(''name'', JStr PACKAGE_NAME), (''version'', packageVersion)]) requireComplete of
         Inl _ \<Rightarrow> Inl rn_failed
       | Inr _ \<Rightarrow> Inr manifest))"

lemma rn_input_item_Inr:
  assumes "rn_input_item fs sha256 seen item = Inr out"
  shows "in_targetId out \<notin> set seen \<and>
    (\<exists>bytes. fs_read fs (in_path out) = Some bytes \<and> embeds_target bytes (in_targetId out) \<and>
      ri_sha256 (in_inspected out) = sha256 bytes)"
proof -
  from assms obtain t p where "fld item ''targetId'' = JStr t" "fld item ''path'' = JStr p"
      "inspectReactNativeArtifact fs sha256 (JStr p) (JStr t) = Inr (in_inspected out)"
      "in_targetId out = t" "in_path out = p" "t \<notin> set seen"
    by (auto simp: rn_input_item_def Let_def bindE_Inr_iff is_str_iff split: if_splits option.splits)
  then show ?thesis by (auto elim!: inspectReactNativeArtifact_Inr)
qed

lemma rn_input_loop_Inr:
  "rn_input_loop fs sha256 seen items = Inr outs \<Longrightarrow>
     distinct (map in_targetId outs) \<and> set (map in_targetId outs) \<inter> set seen = {} \<and>
     list_all (\<lambda>out. \<exists>bytes. fs_read fs (in_path out) = Some bytes \<and> embeds_target bytes (in_targetId out) \<and>
      ri_sha256 (in_inspected out) = sha256 bytes) outs"
proof (induction items arbitrary: seen outs)
  case (Cons item items)
  from Cons.prems obtain x rest where "rn_input_item fs sha256 seen item = Inr x" "outs = x # rest"
      "rn_input_loop fs sha256 (in_targetId x # seen) items = Inr rest"
    by (auto simp: bindE_Inr_iff)
  with rn_input_item_Inr [OF this(1)] Cons.IH [OF this(3)] show ?case by auto
qed simp

text \<open>
  Property C18. What the assembler writes, the validator accepts, with the completeness it was
  asked for; and each entry carries the digest of a file that embeds the identity of the
  entry's target.
\<close>

theorem assembleReactNativeManifest_sound:
  "case assembleReactNativeManifest fs sha256 v c artifacts tool complete of
     Inl _ \<Rightarrow> True
   | Inr m \<Rightarrow>
       validateReactNativeManifest m (JObj [(''name'', JStr PACKAGE_NAME), (''version'', v)]) complete = Inr m \<and>
       list_all (\<lambda>a. \<exists>t path bytes. fld a ''target_id'' = JStr t \<and> fs_read fs path = Some bytes \<and>
         embeds_target bytes t \<and> fld a ''sha256'' = JStr (sha256 bytes)) (elems (fld m ''artifacts''))"
proof (cases "assembleReactNativeManifest fs sha256 v c artifacts tool complete")
  case (Inr m)
  let ?meta = "JObj [(''name'', JStr PACKAGE_NAME), (''version'', v)]"
  have run: "yields (assembleReactNativeManifest fs sha256 v c artifacts tool complete) (\<lambda>m. \<exists>items r.
      rn_input_loop fs sha256 [] (elems artifacts) = Inr items \<and>
      m = rn_manifest_object v c (map (rn_entry (str_of tool))
        (sort_key (\<lambda>i. index_of CANONICAL_REACT_NATIVE_TARGET_ORDER (in_targetId i)) items)) \<and>
      validateReactNativeManifest m ?meta complete = Inr r)"
    unfolding assembleReactNativeManifest_def validateReactNativeArtifactInputs_def Let_def
    by (intro yielding) (auto simp: bindE_Inr_iff split: if_splits)
  obtain items r where items: "rn_input_loop fs sha256 [] (elems artifacts) = Inr items"
    and m: "m = rn_manifest_object v c (map (rn_entry (str_of tool))
        (sort_key (\<lambda>i. index_of CANONICAL_REACT_NATIVE_TARGET_ORDER (in_targetId i)) items))"
    and valid: "validateReactNativeManifest m ?meta complete = Inr r"
    using yieldsD [OF run Inr] by blast
  have ok: "validateReactNativeManifest m ?meta complete = Inr m"
    using valid by (simp add: validateReactNativeManifest_spec)
  have entry: "fld (rn_entry tool' i) ''target_id'' = JStr (in_targetId i)"
      "fld (rn_entry tool' i) ''sha256'' = JStr (ri_sha256 (in_inspected i))" for tool' i
    by (simp_all add: rn_entry_def Let_def)
  have arts: "elems (fld m ''artifacts'') = map (rn_entry (str_of tool))
        (sort_key (\<lambda>i. index_of CANONICAL_REACT_NATIVE_TARGET_ORDER (in_targetId i)) items)"
    by (simp add: m rn_manifest_object_def)
  have "list_all (\<lambda>a. \<exists>t path bytes. fld a ''target_id'' = JStr t \<and> fs_read fs path = Some bytes \<and>
         embeds_target bytes t \<and> fld a ''sha256'' = JStr (sha256 bytes)) (elems (fld m ''artifacts''))"
    using rn_input_loop_Inr [OF items] by (fastforce simp: arts list_all_iff entry)
  with ok Inr show ?thesis by simp
qed simp

end
