(* ===== verification/SemVer.thy ===== *)
theory SemVer
  imports JsData
begin

text \<open>
  \<open>parseSemVer\<close> of \<open>scripts/release-identity.mjs\<close>. The pattern is a regular expression of the
  library; its three capture groups are determined by the text that matches, because the
  core holds neither \<open>-\<close> nor \<open>+\<close> and the pre-release part no \<open>+\<close>.
  \<open>parseSemVer_iff\<close> is the round trip: a version is accepted exactly when it is the printed form of its parts.
\<close>

definition is_ident_char :: "char \<Rightarrow> bool" where
  "is_ident_char c \<longleftrightarrow> is_alnum c \<or> c = CHR ''-''"

definition NUMERIC_IDENTIFIER :: rx where
  "NUMERIC_IDENTIFIER = RAlt (r_chr CHR ''0'')
     (RSeq (RCls (\<lambda>c. is_digit c \<and> c \<noteq> CHR ''0'')) (RStar (RCls is_digit)))"

definition IDENTIFIER :: rx where
  "IDENTIFIER = r_plus (RCls is_ident_char)"

text \<open>
  The lookahead asks for a letter or a hyphen among the identifier's characters: what follows an
  identifier in the pattern is a dot, a plus or the end.
\<close>

definition PRERELEASE_IDENTIFIER :: rx where
  "PRERELEASE_IDENTIFIER = RAlt NUMERIC_IDENTIFIER
     (RSeq (RStar (RCls is_ident_char))
       (RSeq (RCls (\<lambda>c. is_ident_char c \<and> \<not> is_digit c)) (RStar (RCls is_ident_char))))"

definition dotted :: "rx \<Rightarrow> rx" where
  "dotted r = RSeq r (RStar (RSeq (r_chr CHR ''.'') r))"

definition SEMVER_CORE :: rx where
  "SEMVER_CORE = r_seq [NUMERIC_IDENTIFIER, r_chr CHR ''.'', NUMERIC_IDENTIFIER, r_chr CHR ''.'', NUMERIC_IDENTIFIER]"

definition SEMVER_PATTERN :: rx where
  "SEMVER_PATTERN = r_seq [SEMVER_CORE,
     r_opt (RSeq (r_chr CHR ''-'') (dotted PRERELEASE_IDENTIFIER)),
     r_opt (RSeq (r_chr CHR ''+'') (dotted IDENTIFIER))]"

record semver =
  sv_value :: string
  sv_core :: string
  sv_prerelease :: "string option"
  sv_build :: "string option"

definition semver_groups :: "string \<Rightarrow> string \<times> string option \<times> string option" where
  "semver_groups s =
     (let core = takeWhile (\<lambda>c. c \<noteq> CHR ''-'' \<and> c \<noteq> CHR ''+'') s;
          rest = dropWhile (\<lambda>c. c \<noteq> CHR ''-'' \<and> c \<noteq> CHR ''+'') s
      in case rest of
           [] \<Rightarrow> (core, None, None)
         | c # cs \<Rightarrow>
             if c = CHR ''+'' then (core, None, Some cs)
             else (core, Some (takeWhile (\<lambda>c. c \<noteq> CHR ''+'') cs),
                   (case dropWhile (\<lambda>c. c \<noteq> CHR ''+'') cs of [] \<Rightarrow> None | _ # b \<Rightarrow> Some b)))"

definition parseSemVer :: "js \<Rightarrow> semver option" where
  "parseSemVer v =
     (case v of
        JStr s \<Rightarrow>
          if \<not> rx_test SEMVER_PATTERN s then None
          else (case semver_groups s of (core, prerelease, build) \<Rightarrow>
            Some \<lparr>sv_value = s, sv_core = core, sv_prerelease = prerelease, sv_build = build\<rparr>)
      | _ \<Rightarrow> None)"

definition isValidSemVer :: "js \<Rightarrow> bool" where
  "isValidSemVer v \<longleftrightarrow> parseSemVer v \<noteq> None"

section \<open>The characters of the parts\<close>

text \<open>Every character of a text of the language satisfies a predicate that all classes imply.\<close>

fun rx_chars :: "(char \<Rightarrow> bool) \<Rightarrow> rx \<Rightarrow> bool" where
  "rx_chars q (RCls p) = (\<forall>c. p c \<longrightarrow> q c)"
| "rx_chars q (RSeq r s) = (rx_chars q r \<and> rx_chars q s)"
| "rx_chars q (RAlt r s) = (rx_chars q r \<and> rx_chars q s)"
| "rx_chars q (RStar r) = rx_chars q r"
| "rx_chars q r = True"

lemma rx_chars_lang: "rx_lang r w \<Longrightarrow> rx_chars q r \<Longrightarrow> list_all q w"
  by (induction rule: rx_lang.induct) auto

lemma core_chars: "rx_lang SEMVER_CORE s \<Longrightarrow> list_all (\<lambda>c. c \<noteq> CHR ''-'' \<and> c \<noteq> CHR ''+'') s"
  by (erule rx_chars_lang)
    (auto simp: SEMVER_CORE_def NUMERIC_IDENTIFIER_def r_chr_def is_digit_def less_eq_char_def)

lemma prerelease_chars: "rx_lang (dotted PRERELEASE_IDENTIFIER) s \<Longrightarrow> list_all (\<lambda>c. c \<noteq> CHR ''+'') s"
  by (erule rx_chars_lang)
    (auto simp: dotted_def PRERELEASE_IDENTIFIER_def NUMERIC_IDENTIFIER_def r_chr_def is_ident_char_def
      char_class_defs less_eq_char_def)

text \<open>The parts put together again.\<close>

definition semver_print :: "semver \<Rightarrow> string" where
  "semver_print p = sv_core p @ (case sv_prerelease p of None \<Rightarrow> '''' | Some x \<Rightarrow> ''-'' @ x) @
     (case sv_build p of None \<Rightarrow> '''' | Some x \<Rightarrow> ''+'' @ x)"

definition semver_parts_ok :: "semver \<Rightarrow> bool" where
  "semver_parts_ok p \<longleftrightarrow> rx_test SEMVER_CORE (sv_core p) \<and>
     (case sv_prerelease p of None \<Rightarrow> True | Some x \<Rightarrow> rx_test (dotted PRERELEASE_IDENTIFIER) x) \<and>
     (case sv_build p of None \<Rightarrow> True | Some x \<Rightarrow> rx_test (dotted IDENTIFIER) x)"

lemma semver_groups_print:
  assumes "semver_parts_ok p"
  shows "semver_groups (semver_print p) = (sv_core p, sv_prerelease p, sv_build p)"
proof -
  have core: "list_all (\<lambda>c. c \<noteq> CHR ''-'' \<and> c \<noteq> CHR ''+'') (sv_core p)"
    using assms core_chars by (simp add: semver_parts_ok_def rx_test_iff)
  have pre: "list_all (\<lambda>c. c \<noteq> CHR ''+'') x" if "sv_prerelease p = Some x" for x
    using assms prerelease_chars that by (simp add: semver_parts_ok_def rx_test_iff)
  let ?Q = "\<lambda>c. c \<noteq> CHR ''-'' \<and> c \<noteq> CHR ''+''" and ?P = "\<lambda>c. c \<noteq> CHR ''+''"
  have c: "takeWhile ?Q (sv_core p @ r) = sv_core p @ takeWhile ?Q r" "dropWhile ?Q (sv_core p @ r) = dropWhile ?Q r" for r
    using core by (simp_all add: list_all_iff takeWhile_append2 dropWhile_append2)
  have x: "takeWhile ?P (x @ r) = x @ takeWhile ?P r" "dropWhile ?P (x @ r) = dropWhile ?P r"
    if "sv_prerelease p = Some x" for x r
    using pre [OF that] by (simp_all add: list_all_iff takeWhile_append2 dropWhile_append2)
  have n: "takeWhile ?P x = x" "dropWhile ?P x = []" if "sv_prerelease p = Some x" for x
    using x [OF that, of "[]"] by simp_all
  show ?thesis
    unfolding semver_groups_def semver_print_def Let_def c
    using n x [where r = "CHR ''+'' # the (sv_build p)"]
    by (cases "sv_prerelease p"; cases "sv_build p") (simp_all add: dropWhile_eq_Nil_conv [THEN iffD2])
qed

lemma semver_language:
  "rx_lang SEMVER_PATTERN s \<longleftrightarrow> (\<exists>p. semver_parts_ok p \<and> s = semver_print p)"
    (is "?l \<longleftrightarrow> ?r")
proof
  assume ?l
  then obtain a b c where s: "s = a @ b @ c" "rx_lang SEMVER_CORE a"
      "b = [] \<or> (\<exists>x. b = ''-'' @ x \<and> rx_lang (dotted PRERELEASE_IDENTIFIER) x)"
      "c = [] \<or> (\<exists>x. c = ''+'' @ x \<and> rx_lang (dotted IDENTIFIER) x)"
    by (auto simp: SEMVER_PATTERN_def lang_seq_simp)
  let ?part = "\<lambda>u. if u = [] then None else Some (tl u)"
  have "semver_parts_ok \<lparr>sv_value = s, sv_core = a, sv_prerelease = ?part b, sv_build = ?part c\<rparr>"
    using s(2-4) by (auto simp: semver_parts_ok_def rx_test_iff)
  moreover have "s = semver_print \<lparr>sv_value = s, sv_core = a, sv_prerelease = ?part b, sv_build = ?part c\<rparr>"
    using s by (auto simp: semver_print_def)
  ultimately show ?r by blast
next
  assume ?r
  then obtain p where p: "semver_parts_ok p" "s = semver_print p" by blast
  have opt: "rx_lang (r_opt (RSeq (r_chr c) r)) (case u of None \<Rightarrow> '''' | Some x \<Rightarrow> [c] @ x)"
    if "case u of None \<Rightarrow> True | Some x \<Rightarrow> rx_lang r x" for c r u
    using that by (cases u) (auto simp: r_chr_def lang_seq_cls)
  show ?l
    unfolding p(2) SEMVER_PATTERN_def r_seq.simps semver_print_def
    using p(1) by (intro lang_seq opt) (simp_all add: semver_parts_ok_def rx_test_iff split: option.splits)
qed

lemma parseSemVer_parts:
  "parseSemVer v = Some p \<longleftrightarrow> v = JStr (sv_value p) \<and> sv_value p = semver_print p \<and> semver_parts_ok p"
    (is "?l \<longleftrightarrow> ?r")
proof
  assume l: ?l
  then obtain s where s: "v = JStr s" "rx_test SEMVER_PATTERN s"
    by (auto simp: parseSemVer_def split: js.splits if_splits)
  then obtain q where q: "semver_parts_ok q" "s = semver_print q"
    by (auto simp: rx_test_iff semver_language)
  have "p = \<lparr>sv_value = s, sv_core = sv_core q, sv_prerelease = sv_prerelease q, sv_build = sv_build q\<rparr>"
    using l s semver_groups_print [OF q(1)] by (simp add: parseSemVer_def q(2))
  with s q show ?r by (simp add: semver_print_def semver_parts_ok_def)
next
  assume r: ?r
  then have "rx_test SEMVER_PATTERN (semver_print p)" by (auto simp: rx_test_iff semver_language)
  with r show ?l using semver_groups_print by (simp add: parseSemVer_def)
qed

text \<open>
  Property C19. A version is accepted exactly when it is the printed form of its parts: a core
  of three numbers without leading zeros, then optionally a hyphen and pre-release
  identifiers, then optionally a plus and build identifiers; the parts the parser returns are
  those, so parsing and printing are inverse to each other.
\<close>

theorem parseSemVer_iff:
  "parseSemVer v = Some p \<longleftrightarrow> v = JStr (sv_value p) \<and> sv_value p = semver_print p \<and> semver_parts_ok p"
  by (rule parseSemVer_parts)

text \<open>Formal versions: three numbers.\<close>

lemma char_of_48: "char_of (48 :: nat) = CHR ''0''"
  by code_simp

lemma nat_digits_head: "0 < n \<Longrightarrow> nat_digits n = c # cs \<Longrightarrow> c \<noteq> CHR ''0''"
proof (induction n arbitrary: c cs rule: nat_digits.induct)
  case (1 n)
  show ?case
  proof (cases "n < 10")
    case True
    then have "nat_digits n = [char_of (n + 48)]" by (subst nat_digits.simps) simp
    moreover have "digit_val (char_of (n + 48)) = n" using True by (rule digit_val_char_of)
    moreover have "digit_val CHR ''0'' = 0" by (simp add: digit_val_def)
    ultimately show ?thesis using "1.prems" by (metis less_irrefl list.inject)
  next
    case False
    then have d: "nat_digits n = nat_digits (n div 10) @ [char_of (n mod 10 + 48)]"
      by (subst nat_digits.simps) simp
    obtain e es where e: "nat_digits (n div 10) = e # es"
      by (cases "nat_digits (n div 10)") simp_all
    have "0 < n div 10" using False by simp
    then show ?thesis using "1.IH" [OF False _ e] "1.prems" d e by simp
  qed
qed

lemma numeric_identifier_nat: "rx_test NUMERIC_IDENTIFIER (nat_digits n)"
proof (cases "n = 0")
  case True
  then show ?thesis by (subst nat_digits.simps) (simp add: NUMERIC_IDENTIFIER_def rx_test_iff char_of_48)
next
  case False
  obtain c cs where c: "nat_digits n = c # cs"
    by (cases "nat_digits n") simp_all
  then have "\<forall>d \<in> set (c # cs). is_digit d" using nat_digits_digits by metis
  with c False show ?thesis using nat_digits_head [of n c cs]
    by (auto simp: NUMERIC_IDENTIFIER_def rx_test_iff lang_seq_cls list_all_iff)
qed

end
