(* ===== verification/ScriptLib.thy ===== *)
theory ScriptLib
  imports Environment
begin

text \<open>
  What the release scripts share: white space and lines of a text, command line options,
  \<open>encodeURIComponent\<close>, and the programs and services around them as parameters: the result
  of a child process, and \<open>JSON.parse\<close> as a function that fails on a malformed text.
\<close>

section \<open>Text\<close>

text \<open>The members of \<open>\s\<close> among the characters of the model.\<close>

definition is_ws :: "char \<Rightarrow> bool" where
  "is_ws c \<longleftrightarrow> c \<in> {CHR 0x09, CHR 0x0A, CHR 0x0B, CHR 0x0C, CHR 0x0D, CHR 0x20, CHR 0xA0}"

definition str_trim :: "string \<Rightarrow> string" where
  "str_trim s = rev (dropWhile is_ws (rev (dropWhile is_ws s)))"

text \<open>\<open>contents.split(/\r?\n/)\<close>: a line that a newline ends loses one carriage return.\<close>

definition drop_cr :: "string \<Rightarrow> string" where
  "drop_cr l = (if l \<noteq> [] \<and> last l = CHR 0x0D then butlast l else l)"

definition split_lines :: "string \<Rightarrow> string list" where
  "split_lines s = (let ls = split_on CHR 0x0A s in map drop_cr (butlast ls) @ [last ls])"

section \<open>Programs and services\<close>

datatype process_result = Exited string | ExitStatus int | NotRun

type_synonym json_parser = "string \<Rightarrow> js option"

text \<open>\<open>argument(name, argv, fallback)\<close>.\<close>

fun option_value :: "string \<Rightarrow> string list \<Rightarrow> string option option" where
  "option_value name [] = None"
| "option_value name (a # as) =
     (if a = name then Some (case as of [] \<Rightarrow> None | v # _ \<Rightarrow> Some v) else option_value name as)"

section \<open>encodeURIComponent\<close>

definition hex_char :: "nat \<Rightarrow> char" where
  "hex_char n = char_of (if n < 10 then n + 48 else n + 55)"

definition percent :: "nat \<Rightarrow> string" where
  "percent b = [CHR ''%'', hex_char (b div 16), hex_char (b mod 16)]"

definition uri_unescaped :: "char \<Rightarrow> bool" where
  "uri_unescaped c \<longleftrightarrow> is_alnum c \<or> c \<in> set ''-_.!~*()'' \<or> c = CHR 0x27"

text \<open>A code unit from 128 to 255 has two bytes of UTF-8.\<close>

definition encode_uri_char :: "char \<Rightarrow> string" where
  "encode_uri_char c = (let n = of_char c in
     if uri_unescaped c then [c]
     else if n < 128 then percent n
     else percent (0xC0 + n div 64) @ percent (0x80 + n mod 64))"

definition encodeURIComponent :: "string \<Rightarrow> string" where
  "encodeURIComponent s = concat (map encode_uri_char s)"

lemma encode_uri_plain: "list_all uri_unescaped s \<Longrightarrow> encodeURIComponent s = s"
  by (induction s) (auto simp: encodeURIComponent_def encode_uri_char_def Let_def)

section \<open>UTF-8\<close>

text \<open>The bytes of a string (code units below 256) in UTF-8.\<close>

definition utf8_char :: "char \<Rightarrow> byte list" where
  "utf8_char c = (let n = of_char c :: nat in
     if n < 128 then [of_nat n] else [of_nat (0xC0 + n div 64), of_nat (0x80 + n mod 64)])"

definition utf8_bytes :: "string \<Rightarrow> byte list" where
  "utf8_bytes s = concat (map utf8_char s)"

section \<open>Checks\<close>

text \<open>A sequence of \<open>if (!ok) fail(message)\<close>.\<close>

fun gate_checks :: "(string \<Rightarrow> js_error) \<Rightarrow> (bool \<times> string) list \<Rightarrow> unit res" where
  "gate_checks fail [] = Inr ()"
| "gate_checks fail ((ok, message) # cs) = (if \<not> ok then Inl (fail message) else gate_checks fail cs)"

lemma gate_checks_iff [res_simps]: "gate_checks fail cs = Inr u \<longleftrightarrow> list_all fst cs"
  by (induction fail cs rule: gate_checks.induct) auto

lemma gate_checks_ok: "list_all fst cs \<Longrightarrow> gate_checks fail cs = Inr ()"
  by (simp add: gate_checks_iff)

declare gate_checks.simps [simp del]

text \<open>\<open>validHash\<close>: a string that is a SHA-256 digest.\<close>

definition is_hash :: "js \<Rightarrow> bool" where
  "is_hash v \<longleftrightarrow> is_str v \<and> rx_test hash_pattern (str_of v)"

lemma is_hash_iff: "is_hash v \<longleftrightarrow> (\<exists>s. v = JStr s \<and> length s = 64 \<and> list_all is_hex s)"
  by (cases v) (auto simp: is_hash_def hash_pattern_iff)

end
