(* ===== verification/ReleaseIdentity.thy ===== *)
theory ReleaseIdentity
  imports SemVer ScriptLib
begin

text \<open>
  \<open>scripts/release-identity.mjs\<close>: the version sources of the packages, the identity of a
  formal release and the check that its version is not yet published. Git, the files,
  \<open>JSON.parse\<close> and the npm registry are parameters.
\<close>

definition identity_fail :: "string \<Rightarrow> js_error" where
  "identity_fail message = Fail (''Release identity gate failed: '' @ message)"

definition NPM_PACKAGE_NAME :: string where
  "NPM_PACKAGE_NAME = ''@nemnesia/symbol-nem-wallet-core''"

definition MAIN_REF :: string where
  "MAIN_REF = ''refs/remotes/origin/main''"

definition ZERO_COMMIT :: string where
  "ZERO_COMMIT = replicate 40 CHR ''0''"

datatype source_kind = Cargo | Npm

record version_source =
  vs_id :: string
  vs_kind :: source_kind
  vs_relativePath :: string
  vs_packageName :: string

definition RELEASE_VERSION_SOURCES :: "version_source list" where
  "RELEASE_VERSION_SOURCES =
     [\<lparr>vs_id = ''core'', vs_kind = Cargo, vs_relativePath = ''crates/core/Cargo.toml'',
        vs_packageName = ''symbol-nem-wallet-core''\<rparr>,
      \<lparr>vs_id = ''cAbi'', vs_kind = Cargo, vs_relativePath = ''crates/c-abi/Cargo.toml'',
        vs_packageName = ''symbol-nem-wallet-core-native''\<rparr>,
      \<lparr>vs_id = ''node'', vs_kind = Cargo, vs_relativePath = ''crates/node/Cargo.toml'',
        vs_packageName = ''symbol-nem-wallet-core-node''\<rparr>,
      \<lparr>vs_id = ''wasm'', vs_kind = Cargo, vs_relativePath = ''crates/wasm/Cargo.toml'',
        vs_packageName = ''symbol-nem-wallet-core-wasm''\<rparr>,
      \<lparr>vs_id = ''npm'', vs_kind = Npm, vs_relativePath = ''packages/wallet-core/package.json'',
        vs_packageName = NPM_PACKAGE_NAME\<rparr>]"

definition isValidCommit :: "js \<Rightarrow> bool" where
  "isValidCommit v \<longleftrightarrow> is_str v \<and> rx_test commit_pattern (str_of v)"

section \<open>Package manifests\<close>

text \<open>\<open>/^\s*\[([^\]]+)\]\s*$/\<close>.\<close>

definition cargo_section :: "string \<Rightarrow> string option" where
  "cargo_section line =
     (case dropWhile is_ws line of
        [] \<Rightarrow> None
      | c # r \<Rightarrow>
          let name = takeWhile (\<lambda>d. d \<noteq> CHR '']'') r; rest = dropWhile (\<lambda>d. d \<noteq> CHR '']'') r in
          if c = CHR ''['' \<and> name \<noteq> [] \<and> rest \<noteq> [] \<and> list_all is_ws (tl rest) then Some name else None)"

text \<open>\<open>/^\s*(name|version)\s*=\s*"([^"]+)"(?:\s*#.*)?$/\<close>: the field and its value.\<close>

definition comment_or_end :: "string \<Rightarrow> bool" where
  "comment_or_end r \<longleftrightarrow> r = [] \<or>
     (case dropWhile is_ws r of
        [] \<Rightarrow> False
      | c # t \<Rightarrow> c = CHR ''#'' \<and> CHR 0x0A \<notin> set t \<and> CHR 0x0D \<notin> set t)"

definition field_value :: "string \<Rightarrow> string option" where
  "field_value r =
     (case dropWhile is_ws r of
        [] \<Rightarrow> None
      | c # r1 \<Rightarrow>
          if c \<noteq> CHR ''='' then None
          else (case dropWhile is_ws r1 of
              [] \<Rightarrow> None
            | q # r2 \<Rightarrow>
                let v = takeWhile (\<lambda>d. d \<noteq> CHR 0x22) r2; rest = dropWhile (\<lambda>d. d \<noteq> CHR 0x22) r2 in
                if q = CHR 0x22 \<and> v \<noteq> [] \<and> rest \<noteq> [] \<and> comment_or_end (tl rest) then Some v else None))"

definition cargo_field :: "string \<Rightarrow> (string \<times> string) option" where
  "cargo_field line =
     (let l = dropWhile is_ws line in
      if starts_with ''name'' l then map_option (Pair ''name'') (field_value (drop 4 l))
      else if starts_with ''version'' l then map_option (Pair ''version'') (field_value (drop 7 l))
      else None)"

record cargo_state =
  cs_inPackageSection :: bool
  cs_packageName :: "string option"
  cs_version :: "string option"

definition cargo_line :: "cargo_state \<Rightarrow> string \<Rightarrow> cargo_state" where
  "cargo_line st line =
     (case cargo_section line of
        Some name \<Rightarrow> st\<lparr>cs_inPackageSection := (name = ''package'')\<rparr>
      | None \<Rightarrow>
          if \<not> cs_inPackageSection st then st
          else (case cargo_field line of
              None \<Rightarrow> st
            | Some (k, v) \<Rightarrow>
                if k = ''name'' then st\<lparr>cs_packageName := Some v\<rparr> else st\<lparr>cs_version := Some v\<rparr>))"

definition parseCargoPackage :: "string \<Rightarrow> string \<Rightarrow> (string \<times> string) res" where
  "parseCargoPackage contents relativePath =
     (let st = foldl cargo_line \<lparr>cs_inPackageSection = False, cs_packageName = None, cs_version = None\<rparr>
          (split_lines contents) in
      case (cs_packageName st, cs_version st) of
        (Some n, Some v) \<Rightarrow> Inr (n, v)
      | _ \<Rightarrow> Inl (identity_fail (''Cargo package name/version is unavailable: '' @ relativePath)))"

definition parseNpmPackage :: "json_parser \<Rightarrow> string \<Rightarrow> string \<Rightarrow> (string \<times> string) res" where
  "parseNpmPackage parse contents relativePath =
     (case parse contents of
        None \<Rightarrow> Inl (identity_fail (''npm package metadata is unreadable: '' @ relativePath))
      | Some metadata \<Rightarrow>
          if \<not> isPlainObject metadata \<or> \<not> is_str (fld metadata ''name'') \<or> \<not> is_str (fld metadata ''version'')
          then Inl (identity_fail (''npm package name/version is unavailable: '' @ relativePath))
          else Inr (str_of (fld metadata ''name''), str_of (fld metadata ''version'')))"

text \<open>One source; \<open>readFile\<close> gives the text of a path, \<open>None\<close> when it throws.\<close>

definition collect_source ::
  "json_parser \<Rightarrow> string \<Rightarrow> (string \<Rightarrow> string option) \<Rightarrow> version_source \<Rightarrow> (string \<times> js) res" where
  "collect_source parse root readFile source =
     (case readFile (posix_resolve root [vs_relativePath source]) of
        None \<Rightarrow> Inl (identity_fail (''release manifest is unreadable: '' @ vs_relativePath source))
      | Some contents \<Rightarrow>
          bindE (case vs_kind source of
              Cargo \<Rightarrow> parseCargoPackage contents (vs_relativePath source)
            | Npm \<Rightarrow> parseNpmPackage parse contents (vs_relativePath source)) (\<lambda>(packageName, version).
          if packageName \<noteq> vs_packageName source
          then Inl (identity_fail (''unexpected release package name: '' @ vs_relativePath source))
          else Inr (vs_id source, JObj [(''relative_path'', JStr (vs_relativePath source)),
            (''package_name'', JStr packageName), (''version'', JStr version)])))"

definition collectReleaseVersionSources ::
  "json_parser \<Rightarrow> string \<Rightarrow> (string \<Rightarrow> string option) \<Rightarrow> js res" where
  "collectReleaseVersionSources parse root readFile =
     bindE (mapE (collect_source parse root readFile) RELEASE_VERSION_SOURCES) (\<lambda>ps. Inr (JObj ps))"

section \<open>The identity\<close>

definition version_source_ok :: "js \<Rightarrow> version_source \<Rightarrow> unit res" where
  "version_source_ok versionSources source =
     (let entry = fld versionSources (vs_id source) in
      if \<not> isPlainObject entry \<or>
         \<not> strict_eq (fld entry ''relative_path'') (JStr (vs_relativePath source)) \<or>
         \<not> strict_eq (fld entry ''package_name'') (JStr (vs_packageName source)) \<or>
         \<not> isValidSemVer (fld entry ''version'')
      then Inl (identity_fail (''invalid SemVer in '' @ vs_relativePath source))
      else (case parseSemVer (fld entry ''version'') of
          None \<Rightarrow> Inl TypeErr
        | Some p \<Rightarrow>
            if sv_prerelease p \<noteq> None
            then bindE (str_or_throw (fld entry ''relativePath'')) (\<lambda>path.
              Inl (identity_fail (''pre-release version is not accepted for a formal release: '' @ path)))
            else Inr ()))"

definition validateVersionSources :: "js \<Rightarrow> unit res" where
  "validateVersionSources versionSources =
     (if \<not> isPlainObject versionSources then Inl (identity_fail ''release version sources are unavailable'')
      else if \<not> exactKeys versionSources (map vs_id RELEASE_VERSION_SOURCES)
      then Inl (identity_fail ''release version sources are incomplete or unexpected'')
      else bindE (mapE (version_source_ok versionSources) RELEASE_VERSION_SOURCES) (\<lambda>_. Inr ()))"

definition releaseTagVersion :: "js \<Rightarrow> string res" where
  "releaseTagVersion tag =
     (if \<not> is_str tag \<or> \<not> starts_with ''v'' (str_of tag)
      then Inl (identity_fail ''tag must use the v<SemVer> format'')
      else let tagVersion = drop 1 (str_of tag) in
        (case parseSemVer (JStr tagVersion) of
           None \<Rightarrow> Inl (identity_fail ''tag must exactly match v<SemVer>'')
         | Some parsed \<Rightarrow>
             if sv_prerelease parsed \<noteq> None
             then Inl (identity_fail ''pre-release tags are not accepted for a formal release'')
             else Inr tagVersion))"

definition validateTag :: "js \<Rightarrow> js \<Rightarrow> string res" where
  "validateTag tag version =
     bindE (releaseTagVersion tag) (\<lambda>tagVersion.
       if \<not> strict_eq (JStr tagVersion) version
       then Inl (identity_fail ''tag version does not match manifest version'') else Inr tagVersion)"

definition validateTagEvent :: "js \<Rightarrow> js \<Rightarrow> unit res" where
  "validateTagEvent tag tagEvent =
     (if \<not> isPlainObject tagEvent then Inl (identity_fail ''GitHub tag creation event is unavailable'')
      else if \<not> strict_eq (fld tagEvent ''ref'') (JStr (''refs/tags/'' @ str_of tag)) \<or>
         \<not> strict_eq (fld tagEvent ''created'') (JBool True) \<or>
         \<not> strict_eq (fld tagEvent ''deleted'') (JBool False) \<or>
         \<not> strict_eq (fld tagEvent ''forced'') (JBool False) \<or>
         \<not> strict_eq (fld tagEvent ''before'') (JStr ZERO_COMMIT)
      then Inl (identity_fail ''tag event is not an unforced creation of the exact release tag'')
      else Inr ())"

definition same_version :: "js \<Rightarrow> js \<Rightarrow> version_source \<Rightarrow> unit res" where
  "same_version versionSources version source =
     (if \<not> strict_eq (fld (fld versionSources (vs_id source)) ''version'') version
      then Inl (identity_fail (''release version mismatch: '' @ vs_relativePath source)) else Inr ())"

text \<open>\<open>/(^|\/)main$/\<close>.\<close>

definition is_main_ref :: "string \<Rightarrow> bool" where
  "is_main_ref s \<longleftrightarrow> s = ''main'' \<or> ends_with ''/main'' s"

text \<open>The checks of \<open>validateReleaseIdentity\<close> after the tag, each with its message.\<close>

definition identity_checks :: "js \<Rightarrow> (bool \<times> string) list" where
  "identity_checks input =
     [(strict_eq (fld input ''tagRefExists'') (JBool True), ''release tag ref does not exist''),
      (isValidCommit (fld input ''checkoutHead''), ''checkout HEAD is invalid''),
      (isValidCommit (fld input ''sourceCommit''), ''release source commit is invalid''),
      (isValidCommit (fld input ''tagCommit''), ''tag target commit is invalid''),
      (isValidCommit (fld input ''mainRefCommit''), ''main ref commit is unavailable''),
      (strict_eq (fld input ''checkoutHead'') (fld input ''sourceCommit''),
        ''checkout HEAD differs from release source commit''),
      (strict_eq (fld input ''tagCommit'') (fld input ''sourceCommit''),
        ''tag target differs from release source commit''),
      (is_str (fld input ''mainRef'') \<and> is_main_ref (str_of (fld input ''mainRef'')),
        ''release source ref is not main''),
      (strict_eq (fld input ''mainAncestry'') (JBool True), ''release source commit is not contained in main''),
      (strict_eq (fld input ''clean'') (JBool True), ''release source checkout is not clean'')]"

fun run_checks :: "(bool \<times> string) list \<Rightarrow> unit res" where
  "run_checks [] = Inr ()"
| "run_checks ((ok, message) # cs) = (if \<not> ok then Inl (identity_fail message) else run_checks cs)"

text \<open>The object that \<open>validateReleaseIdentity\<close> returns.\<close>

definition identity_object :: "js \<Rightarrow> js \<Rightarrow> string \<Rightarrow> js" where
  "identity_object input version tagVersion = (let tag = fld input ''tag'' in JObj
     [(''schema_version'', JInt 1), (''kind'', JStr ''release-identity''), (''mode'', JStr ''release''),
      (''package_name'', JStr NPM_PACKAGE_NAME), (''version'', version), (''tag'', tag),
      (''tag_version'', JStr tagVersion), (''tag_ref'', JStr (''refs/tags/'' @ str_of tag)),
      (''tag_event'', JObj [(''ref'', fld (fld input ''tagEvent'') ''ref''), (''created'', JBool True),
        (''deleted'', JBool False), (''forced'', JBool False), (''before'', JStr ZERO_COMMIT)]),
      (''checkout_head'', fld input ''checkoutHead''), (''source_commit'', fld input ''sourceCommit''),
      (''tag_commit'', fld input ''tagCommit''), (''main_ref'', fld input ''mainRef''),
      (''main_ref_commit'', fld input ''mainRefCommit''), (''main_ancestry'', JBool True),
      (''clean'', JBool True),
      (''version_sources'', JObj (map (\<lambda>s. (vs_id s, fld (fld input ''versionSources'') (vs_id s)))
         RELEASE_VERSION_SOURCES))])"

definition validateReleaseIdentity :: "js \<Rightarrow> js res" where
  "validateReleaseIdentity input =
     (if \<not> isPlainObject input \<or> \<not> strict_eq (fld input ''mode'') (JStr ''release'')
      then Inl (identity_fail ''only formal release mode is supported'')
      else
      let versionSources = fld input ''versionSources''; tag = fld input ''tag'' in
      bindE (validateVersionSources versionSources) (\<lambda>_.
      let version = fld (fld versionSources ''npm'') ''version'' in
      bindE (mapE (same_version versionSources version) RELEASE_VERSION_SOURCES) (\<lambda>_.
      bindE (validateTag tag version) (\<lambda>tagVersion.
      bindE (validateTagEvent tag (fld input ''tagEvent'')) (\<lambda>_.
      bindE (run_checks (identity_checks input)) (\<lambda>_.
        Inr (identity_object input version tagVersion)))))))"

section \<open>The registry\<close>

definition npmVersionUrl :: "string \<Rightarrow> string \<Rightarrow> string" where
  "npmVersionUrl packageName version =
     ''https://registry.npmjs.org/'' @ encodeURIComponent packageName @ ''/'' @ encodeURIComponent version"

text \<open>A request resolves to a value or throws (\<open>None\<close>).\<close>

definition checkNpmVersionAvailability ::
  "js \<Rightarrow> js \<Rightarrow> (string \<Rightarrow> js option) option \<Rightarrow> js \<Rightarrow> string res" where
  "checkNpmVersionAvailability packageName version request allowExisting =
     (if \<not> strict_eq packageName (JStr NPM_PACKAGE_NAME) \<or> \<not> isValidSemVer version
      then Inl (identity_fail ''invalid npm duplicate-check identity'')
      else (case request of
          None \<Rightarrow> Inl (identity_fail ''npm registry request function is unavailable'')
        | Some send \<Rightarrow>
            (case send (npmVersionUrl (str_of packageName) (str_of version)) of
               None \<Rightarrow> Inl (identity_fail ''npm registry request failed'')
             | Some response \<Rightarrow>
                 (case fld response ''status'' of
                    JNum n \<Rightarrow>
                      if \<not> num_is_integer n then Inl (identity_fail ''npm registry response is ambiguous'')
                      else let status = num_int n in
                        if status = 404 then Inr ''not-found''
                        else if 200 \<le> status \<and> status < 300 then
                          (if strict_eq allowExisting (JBool True) then Inr ''exists''
                           else Inl (identity_fail (''npm version already exists: '' @ str_of packageName @
                             ''@'' @ str_of version)))
                        else Inl (identity_fail (''npm registry response is ambiguous (HTTP '' @ num_str n @ '')''))
                  | _ \<Rightarrow> Inl (identity_fail ''npm registry response is ambiguous'')))))"


section \<open>The command\<close>

record identity_env =
  ie_argv :: "string list"
  ie_root :: string
  ie_variable :: "string \<Rightarrow> string option"
  ie_git :: "string list \<Rightarrow> process_result"
  ie_read :: "string \<Rightarrow> string option"
  ie_parse :: json_parser
  ie_request :: "string \<Rightarrow> js option"

definition argument :: "string \<Rightarrow> string list \<Rightarrow> string option \<Rightarrow> string option res" where
  "argument name argv fallback =
     (case option_value name argv of
        None \<Rightarrow> Inr fallback
      | Some None \<Rightarrow> Inl (identity_fail (''missing '' @ name))
      | Some (Some v) \<Rightarrow> Inr (Some v))"

definition gitCommit :: "(string list \<Rightarrow> process_result) \<Rightarrow> string \<Rightarrow> string \<Rightarrow> string res" where
  "gitCommit git ref message =
     (case git [''rev-parse'', ''--verify'', ref @ ''^{commit}''] of
        Exited out \<Rightarrow> Inr (str_trim out)
      | _ \<Rightarrow> Inl (identity_fail message))"

definition gitMainAncestry :: "(string list \<Rightarrow> process_result) \<Rightarrow> string \<Rightarrow> string \<Rightarrow> bool res" where
  "gitMainAncestry git sourceCommit mainRef =
     (case git [''merge-base'', ''--is-ancestor'', sourceCommit, mainRef] of
        Exited _ \<Rightarrow> Inr True
      | ExitStatus n \<Rightarrow> (if n = 1 then Inr False else Inl (identity_fail ''main ref ancestry could not be verified''))
      | NotRun \<Rightarrow> Inl (identity_fail ''main ref ancestry could not be verified''))"

definition gitWorktreeClean :: "(string list \<Rightarrow> process_result) \<Rightarrow> bool res" where
  "gitWorktreeClean git =
     (case git [''status'', ''--porcelain=v1'', ''--untracked-files=all'', ''--ignored=matching''] of
        Exited out \<Rightarrow> Inr (out = '''')
      | _ \<Rightarrow> Inl (identity_fail ''source checkout cleanliness could not be verified''))"

definition githubTagEvent :: "json_parser \<Rightarrow> (string \<Rightarrow> string option) \<Rightarrow> string option \<Rightarrow> js res" where
  "githubTagEvent parse readFile eventPath =
     (case eventPath of
        None \<Rightarrow> Inl (identity_fail ''GitHub tag event path is unavailable'')
      | Some path \<Rightarrow>
          if path = [] then Inl (identity_fail ''GitHub tag event path is unavailable'')
          else (case Option.bind (readFile path) parse of
              None \<Rightarrow> Inl (identity_fail ''GitHub tag event is unreadable'')
            | Some event \<Rightarrow>
                if \<not> isPlainObject event then Inl (identity_fail ''GitHub tag event is invalid'')
                else Inr (JObj (map (\<lambda>k. (k, fld event k)) [''ref'', ''created'', ''deleted'', ''forced'', ''before'']))))"

definition identity_input :: "string \<Rightarrow> js \<Rightarrow> string \<Rightarrow> string \<Rightarrow> string \<Rightarrow> string \<Rightarrow> bool \<Rightarrow> bool \<Rightarrow> js \<Rightarrow> js" where
  "identity_input tag tagEvent checkoutHead sourceCommit tagCommit mainRefCommit mainAncestry clean versionSources = JObj
     [(''mode'', JStr ''release''), (''tag'', JStr tag), (''tagEvent'', tagEvent), (''tagRefExists'', JBool True),
      (''checkoutHead'', JStr checkoutHead), (''sourceCommit'', JStr sourceCommit), (''tagCommit'', JStr tagCommit),
      (''mainRef'', JStr MAIN_REF), (''mainRefCommit'', JStr mainRefCommit), (''mainAncestry'', JBool mainAncestry),
      (''clean'', JBool clean), (''versionSources'', versionSources)]"

text \<open>What the command prints, before \<open>JSON.stringify\<close>.\<close>

definition run_identity :: "identity_env \<Rightarrow> js res" where
  "run_identity env =
     (let argv = ie_argv env; git = ie_git env in
      bindE (argument ''--mode'' argv (Some ''release'')) (\<lambda>mode.
      bindE (argument ''--tag'' argv (ie_variable env ''GITHUB_REF_NAME'')) (\<lambda>tagArg.
      bindE (argument ''--source-commit'' argv (ie_variable env ''GITHUB_SHA'')) (\<lambda>commitArg.
      bindE (argument ''--event-path'' argv (ie_variable env ''GITHUB_EVENT_PATH'')) (\<lambda>eventPath.
      if mode \<noteq> Some ''release'' then Inl (identity_fail ''only formal release mode is supported'')
      else (case tagArg of
          None \<Rightarrow> Inl (identity_fail ''release tag is unavailable'')
        | Some tag \<Rightarrow>
      bindE (releaseTagVersion (JStr tag)) (\<lambda>_.
      (case commitArg of
          None \<Rightarrow> Inl (identity_fail ''release source commit is invalid'')
        | Some sourceCommit \<Rightarrow>
      if \<not> isValidCommit (JStr sourceCommit) then Inl (identity_fail ''release source commit is invalid'')
      else
      bindE (gitCommit git ''HEAD'' ''checkout HEAD is unavailable'') (\<lambda>checkoutHead.
      bindE (gitCommit git (''refs/tags/'' @ tag) ''release tag ref is missing or does not target a commit'') (\<lambda>tagCommit.
      bindE (gitCommit git MAIN_REF ''main ref is unavailable'') (\<lambda>mainRefCommit.
      bindE (gitWorktreeClean git) (\<lambda>clean.
      bindE (collectReleaseVersionSources (ie_parse env) (ie_root env) (ie_read env)) (\<lambda>versionSources.
      bindE (githubTagEvent (ie_parse env) (ie_read env) eventPath) (\<lambda>tagEvent.
      bindE (gitMainAncestry git sourceCommit MAIN_REF) (\<lambda>mainAncestry.
      bindE (validateReleaseIdentity (identity_input tag tagEvent checkoutHead sourceCommit tagCommit
          mainRefCommit mainAncestry clean versionSources)) (\<lambda>identity.
      bindE (checkNpmVersionAvailability (JStr NPM_PACKAGE_NAME) (fld identity ''version'')
          (Some (ie_request env)) (JBool (''--allow-existing-version'' \<in> set argv))) (\<lambda>npmRegistry.
        Inr (js_spread identity ''npm_registry'' (JObj [(''status'', JStr npmRegistry)])))))))))))))))))))"

section \<open>Properties\<close>

definition formal_version :: "string \<Rightarrow> bool" where
  "formal_version v \<longleftrightarrow> (\<exists>p. parseSemVer (JStr v) = Some p \<and> sv_prerelease p = None)"

definition release_identity_spec :: "js \<Rightarrow> string \<Rightarrow> string \<Rightarrow> bool" where
  "release_identity_spec input version commit \<longleftrightarrow>
     isPlainObject input \<and> fld input ''mode'' = JStr ''release'' \<and> formal_version version \<and>
     isPlainObject (fld input ''versionSources'') \<and>
     mset (obj_keys (fld input ''versionSources'')) = mset (map vs_id RELEASE_VERSION_SOURCES) \<and>
     list_all (\<lambda>s. let entry = fld (fld input ''versionSources'') (vs_id s) in
        isPlainObject entry \<and> fld entry ''relative_path'' = JStr (vs_relativePath s) \<and>
        fld entry ''package_name'' = JStr (vs_packageName s) \<and> fld entry ''version'' = JStr version)
       RELEASE_VERSION_SOURCES \<and>
     fld input ''tag'' = JStr (''v'' @ version) \<and> isPlainObject (fld input ''tagEvent'') \<and>
     fld (fld input ''tagEvent'') ''ref'' = JStr (''refs/tags/v'' @ version) \<and>
     fld (fld input ''tagEvent'') ''created'' = JBool True \<and>
     fld (fld input ''tagEvent'') ''deleted'' = JBool False \<and>
     fld (fld input ''tagEvent'') ''forced'' = JBool False \<and>
     fld (fld input ''tagEvent'') ''before'' = JStr ZERO_COMMIT \<and>
     fld input ''tagRefExists'' = JBool True \<and>
     length commit = 40 \<and> list_all is_hex commit \<and>
     fld input ''checkoutHead'' = JStr commit \<and> fld input ''sourceCommit'' = JStr commit \<and>
     fld input ''tagCommit'' = JStr commit \<and> isValidCommit (fld input ''mainRefCommit'') \<and>
     is_str (fld input ''mainRef'') \<and> is_main_ref (str_of (fld input ''mainRef'')) \<and>
     fld input ''mainAncestry'' = JBool True \<and> fld input ''clean'' = JBool True"


lemma run_checks_iff: "run_checks cs = Inr () \<longleftrightarrow> list_all fst cs"
  by (induction cs rule: run_checks.induct) auto

lemma mapE_unit: "(\<exists>ys. mapE f xs = Inr ys) \<longleftrightarrow> list_all (\<lambda>x. \<exists>u. f x = Inr u) xs"
  by (induction xs) (auto simp: bindE_Inr_iff)

lemma formal_version_parse:
  "formal_version v \<longleftrightarrow> isValidSemVer (JStr v) \<and> (\<forall>p. parseSemVer (JStr v) = Some p \<longrightarrow> sv_prerelease p = None)"
  by (auto simp: formal_version_def isValidSemVer_def)

lemma semver_string: "isValidSemVer v \<Longrightarrow> \<exists>s. v = JStr s"
  by (auto simp: isValidSemVer_def parseSemVer_def split: js.splits)

lemma version_source_ok_iff:
  "version_source_ok vs s = Inr () \<longleftrightarrow> (let entry = fld vs (vs_id s) in
     isPlainObject entry \<and> fld entry ''relative_path'' = JStr (vs_relativePath s) \<and>
     fld entry ''package_name'' = JStr (vs_packageName s) \<and>
     (\<exists>v. fld entry ''version'' = JStr v \<and> formal_version v))"
proof (cases "isValidSemVer (fld (fld vs (vs_id s)) ''version'')")
  case True
  then obtain v p where "fld (fld vs (vs_id s)) ''version'' = JStr v" "parseSemVer (JStr v) = Some p"
    using semver_string [OF True] by (auto simp: isValidSemVer_def)
  then show ?thesis by (auto simp: version_source_ok_def Let_def formal_version_def isValidSemVer_def bindE_Inr_iff)
next
  case False
  then show ?thesis by (auto simp: version_source_ok_def Let_def formal_version_parse)
qed

lemma releaseTagVersion_iff:
  "releaseTagVersion tag = Inr v \<longleftrightarrow> tag = JStr (''v'' @ v) \<and> formal_version v"
proof (cases tag)
  case (JStr s)
  show ?thesis
  proof (cases s)
    case (Cons c cs)
    then show ?thesis
      by (auto simp: JStr releaseTagVersion_def Let_def formal_version_def starts_with_def
          split: option.splits if_splits)
  qed (simp add: JStr releaseTagVersion_def starts_with_def)
qed (auto simp: releaseTagVersion_def)

lemma validateVersionSources_iff:
  "validateVersionSources vs = Inr () \<longleftrightarrow> isPlainObject vs \<and> mset (obj_keys vs) = mset (map vs_id RELEASE_VERSION_SOURCES) \<and>
     list_all (\<lambda>s. version_source_ok vs s = Inr ()) RELEASE_VERSION_SOURCES"
  using mapE_unit [of "version_source_ok vs" RELEASE_VERSION_SOURCES]
  by (auto simp: validateVersionSources_def exactKeys_iff bindE_Inr_iff)

lemma npm_source: "\<exists>s \<in> set RELEASE_VERSION_SOURCES. vs_id s = ''npm''"
  by (simp add: RELEASE_VERSION_SOURCES_def)

lemma version_sources_same:
  "(validateVersionSources vs = Inr () \<and>
    (\<exists>us. mapE (same_version vs (fld (fld vs ''npm'') ''version'')) RELEASE_VERSION_SOURCES = Inr us) \<and>
    fld (fld vs ''npm'') ''version'' = JStr v) \<longleftrightarrow>
   isPlainObject vs \<and> mset (obj_keys vs) = mset (map vs_id RELEASE_VERSION_SOURCES) \<and> formal_version v \<and>
   list_all (\<lambda>s. let entry = fld vs (vs_id s) in
        isPlainObject entry \<and> fld entry ''relative_path'' = JStr (vs_relativePath s) \<and>
        fld entry ''package_name'' = JStr (vs_packageName s) \<and> fld entry ''version'' = JStr v) RELEASE_VERSION_SOURCES"
proof -
  have same: "(\<exists>us. mapE (same_version vs (JStr v)) RELEASE_VERSION_SOURCES = Inr us) \<longleftrightarrow>
      list_all (\<lambda>s. fld (fld vs (vs_id s)) ''version'' = JStr v) RELEASE_VERSION_SOURCES"
    by (simp add: mapE_unit same_version_def list_all_iff)
  show ?thesis
    unfolding validateVersionSources_iff version_source_ok_iff Let_def
    using same npm_source by (auto simp: list_all_iff)
qed

lemma validateReleaseIdentity_spec:
  "validateReleaseIdentity input = Inr r \<longleftrightarrow> (\<exists>version commit. release_identity_spec input version commit \<and>
     r = identity_object input (JStr version) version)"
proof -
  let ?vs = "fld input ''versionSources''" and ?tag = "fld input ''tag''" and ?ev = "fld input ''tagEvent''"
  let ?ver = "fld (fld ?vs ''npm'') ''version''"
  have "validateReleaseIdentity input = Inr r \<longleftrightarrow> isPlainObject input \<and> fld input ''mode'' = JStr ''release'' \<and>
      (\<exists>v. (validateVersionSources ?vs = Inr () \<and> (\<exists>us. mapE (same_version ?vs ?ver) RELEASE_VERSION_SOURCES = Inr us) \<and>
        ?ver = JStr v) \<and> releaseTagVersion ?tag = Inr v \<and> validateTagEvent ?tag ?ev = Inr () \<and>
        run_checks (identity_checks input) = Inr () \<and> r = identity_object input (JStr v) v)"
    by (auto simp: validateReleaseIdentity_def Let_def bindE_Inr_iff validateTag_def)
  also have "\<dots> \<longleftrightarrow> (\<exists>version commit. release_identity_spec input version commit \<and>
     r = identity_object input (JStr version) version)"
    unfolding version_sources_same releaseTagVersion_iff run_checks_iff
    by (auto simp: release_identity_spec_def identity_checks_def validateTagEvent_def isValidCommit_def
        is_str_iff commit_pattern_iff)
  finally show ?thesis .
qed


text \<open>
  Property C20. The identity of a release is accepted exactly for one version without a
  pre-release part that all five package manifests carry, the tag \<open>v\<close> and that version
  created without force, and one commit that is at once the checkout, the source and the
  target of the tag, contained in main and clean; the result is built from exactly these.
\<close>

theorem validateReleaseIdentity_iff:
  "validateReleaseIdentity input = Inr r \<longleftrightarrow> (\<exists>version commit. release_identity_spec input version commit \<and>
     r = identity_object input (JStr version) version)"
  by (rule validateReleaseIdentity_spec)

lemma checkNpm_yields:
  "yields (checkNpmVersionAvailability name version (Some send) allow) (\<lambda>s. \<exists>v response n.
     version = JStr v \<and> send (npmVersionUrl NPM_PACKAGE_NAME v) = Some response \<and>
     fld response ''status'' = JNum n \<and> num_is_integer n \<and>
     (num_int n = 404 \<and> s = ''not-found'' \<or>
      200 \<le> num_int n \<and> num_int n < 300 \<and> allow = JBool True \<and> s = ''exists''))"
proof (cases "isValidSemVer version \<and> name = JStr NPM_PACKAGE_NAME")
  case True
  then obtain v where "version = JStr v" using semver_string by blast
  with True show ?thesis
    by (auto simp: checkNpmVersionAvailability_def yields_def Let_def split: option.splits js.splits if_splits)
qed (auto simp: checkNpmVersionAvailability_def yields_def)

text \<open>
  The registry lets a release pass only when a request for that very package and
  version was answered with the status 404, or with a status of success when publishing an
  existing version was allowed; no answer, any other status and anything that is not an
  integral status stop it.
\<close>

lemma checkNpmVersionAvailability_iff:
  "checkNpmVersionAvailability (JStr NPM_PACKAGE_NAME) (JStr v) (Some send) allow = Inr s \<longleftrightarrow>
     isValidSemVer (JStr v) \<and> (\<exists>response n. send (npmVersionUrl NPM_PACKAGE_NAME v) = Some response \<and>
     fld response ''status'' = JNum n \<and> num_is_integer n \<and>
     (num_int n = 404 \<and> s = ''not-found'' \<or>
      200 \<le> num_int n \<and> num_int n < 300 \<and> allow = JBool True \<and> s = ''exists''))"
  by (auto simp: checkNpmVersionAvailability_def Let_def split: option.splits js.splits if_splits)

definition git_commit_is :: "(string list \<Rightarrow> process_result) \<Rightarrow> string \<Rightarrow> string \<Rightarrow> bool" where
  "git_commit_is git ref commit \<longleftrightarrow>
     (\<exists>out. git [''rev-parse'', ''--verify'', ref @ ''^{commit}''] = Exited out \<and> str_trim out = commit)"

lemma gitCommit_Inr: "gitCommit git ref m = Inr c \<longleftrightarrow> git_commit_is git ref c"
  by (auto simp: gitCommit_def git_commit_is_def split: process_result.splits)

lemma gitWorktreeClean_true:
  "gitWorktreeClean git = Inr True \<longleftrightarrow>
     git [''status'', ''--porcelain=v1'', ''--untracked-files=all'', ''--ignored=matching''] = Exited ''''"
  by (auto simp: gitWorktreeClean_def split: process_result.splits)

lemma gitMainAncestry_true:
  "gitMainAncestry git c m = Inr True \<longleftrightarrow> (\<exists>out. git [''merge-base'', ''--is-ancestor'', c, m] = Exited out)"
  by (auto simp: gitMainAncestry_def split: process_result.splits if_splits)

text \<open>
  Property C21. The command succeeds only in a repository where Git resolves the checkout, the
  release tag \<open>v\<close> and version and the source commit to the same commit, reports an empty
  status including ignored files, and finds the commit an ancestor of \<open>origin/main\<close>, and when
  the registry does not have the version or an existing one was allowed on the command line.
\<close>

theorem run_identity_sound:
  "case run_identity env of
     Inl _ \<Rightarrow> True
   | Inr out \<Rightarrow> \<exists>version commit response n. formal_version version \<and> length commit = 40 \<and> list_all is_hex commit \<and>
       git_commit_is (ie_git env) ''HEAD'' commit \<and>
       git_commit_is (ie_git env) (''refs/tags/v'' @ version) commit \<and>
       ie_git env [''status'', ''--porcelain=v1'', ''--untracked-files=all'', ''--ignored=matching''] = Exited '''' \<and>
       (\<exists>o'. ie_git env [''merge-base'', ''--is-ancestor'', commit, MAIN_REF] = Exited o') \<and>
       ie_request env (npmVersionUrl NPM_PACKAGE_NAME version) = Some response \<and>
       fld response ''status'' = JNum n \<and>
       (num_int n = 404 \<or> 200 \<le> num_int n \<and> num_int n < 300 \<and> ''--allow-existing-version'' \<in> set (ie_argv env)) \<and>
       fld out ''version'' = JStr version \<and> fld out ''source_commit'' = JStr commit"
proof -
  have run: "yields (run_identity env) (\<lambda>out. \<exists>tag tagEvent head source tagCommit mainCommit clean ancestry vs identity s.
      gitCommit (ie_git env) ''HEAD'' ''checkout HEAD is unavailable'' = Inr head \<and>
      gitCommit (ie_git env) (''refs/tags/'' @ tag) ''release tag ref is missing or does not target a commit'' = Inr tagCommit \<and>
      gitWorktreeClean (ie_git env) = Inr clean \<and> gitMainAncestry (ie_git env) source MAIN_REF = Inr ancestry \<and>
      validateReleaseIdentity (identity_input tag tagEvent head source tagCommit mainCommit ancestry clean vs) = Inr identity \<and>
      checkNpmVersionAvailability (JStr NPM_PACKAGE_NAME) (fld identity ''version'')
          (Some (ie_request env)) (JBool (''--allow-existing-version'' \<in> set (ie_argv env))) = Inr s \<and>
      out = js_spread identity ''npm_registry'' (JObj [(''status'', JStr s)]))"
    unfolding run_identity_def Let_def by (intro yielding) blast
  show ?thesis
  proof (cases "run_identity env")
    case (Inr out)
    from yieldsD [OF run Inr] obtain tag tagEvent head source tagCommit mainCommit clean ancestry vs identity s where
      g: "gitCommit (ie_git env) ''HEAD'' ''checkout HEAD is unavailable'' = Inr head"
      "gitCommit (ie_git env) (''refs/tags/'' @ tag) ''release tag ref is missing or does not target a commit'' = Inr tagCommit"
      "gitWorktreeClean (ie_git env) = Inr clean" "gitMainAncestry (ie_git env) source MAIN_REF = Inr ancestry"
      and v: "validateReleaseIdentity (identity_input tag tagEvent head source tagCommit mainCommit ancestry clean vs) = Inr identity"
      and c: "checkNpmVersionAvailability (JStr NPM_PACKAGE_NAME) (fld identity ''version'')
          (Some (ie_request env)) (JBool (''--allow-existing-version'' \<in> set (ie_argv env))) = Inr s"
      and out: "out = js_spread identity ''npm_registry'' (JObj [(''status'', JStr s)])"
      by blast
    from v obtain version commit where
      spec: "release_identity_spec (identity_input tag tagEvent head source tagCommit mainCommit ancestry clean vs) version commit"
      and id: "identity = identity_object (identity_input tag tagEvent head source tagCommit mainCommit ancestry clean vs)
        (JStr version) version"
      unfolding validateReleaseIdentity_spec by blast
    have eqs: "tag = ''v'' @ version" "head = commit" "source = commit" "tagCommit = commit" "ancestry" "clean"
        "formal_version version" "length commit = 40" "list_all is_hex commit"
      using spec by (simp_all add: release_identity_spec_def identity_input_def)
    have fields: "isPlainObject identity" "fld identity ''version'' = JStr version" "fld identity ''source_commit'' = JStr commit"
      using spec by (simp_all add: id identity_object_def Let_def release_identity_spec_def)
    obtain response n where npm: "ie_request env (npmVersionUrl NPM_PACKAGE_NAME version) = Some response"
        "fld response ''status'' = JNum n"
        "num_int n = 404 \<or> 200 \<le> num_int n \<and> num_int n < 300 \<and> ''--allow-existing-version'' \<in> set (ie_argv env)"
      using yieldsD [OF checkNpm_yields c] fields(2) by auto
    have git: "git_commit_is (ie_git env) ''HEAD'' commit" "git_commit_is (ie_git env) (''refs/tags/v'' @ version) commit"
      using g(1,2) by (simp_all add: eqs gitCommit_Inr)
    show ?thesis
      unfolding Inr sum.case
      by (rule exI [of _ version], rule exI [of _ commit], rule exI [of _ response], rule exI [of _ n])
        (use npm git g(3,4) eqs fields in \<open>simp add: gitWorktreeClean_true gitMainAncestry_true out fld_js_spread\<close>)
  qed simp
qed

end
