(* ===== verification/LicenseSyntax.thy ===== *)
theory LicenseSyntax
  imports ScriptLib
begin

text \<open>
  SPDX license expressions in \<open>scripts/release-sbom.mjs\<close>: the tokens, the recursive descent
  parser and the check against the catalogues of identifiers.

  The parser's closures share an index into the tokens and two lists; here they are the state
  that each function takes and returns. A call that continues on the tokens a previous call
  left is guarded by the comparison of their lengths, which gives the recursion its measure;
  the comparison always holds (\<open>parser_shrinks\<close>), so the equations without it hold as well
  (\<open>parse_or_eq\<close> and the rest), and they are the ones of the code. \<open>parse_iff\<close> relates the
  parser to a grammar.
\<close>

definition sbom_fail :: "string \<Rightarrow> js_error" where
  "sbom_fail message = Fail (''Release SBOM gate failed: '' @ message)"

definition SPDX_LICENSE_IDENTIFIER_CATALOGUE :: "string list" where
  "SPDX_LICENSE_IDENTIFIER_CATALOGUE = [''Apache-2.0'', ''BSD-1-Clause'', ''BSD-3-Clause'', ''CC0-1.0'', ''ISC'',
     ''LGPL-2.1-or-later'', ''MIT'', ''Unicode-3.0'', ''Unlicense'', ''Zlib'']"

definition SPDX_EXCEPTION_IDENTIFIER_CATALOGUE :: "string list" where
  "SPDX_EXCEPTION_IDENTIFIER_CATALOGUE = [''LLVM-exception'']"

section \<open>Tokens\<close>

definition is_token_char :: "char \<Rightarrow> bool" where
  "is_token_char c \<longleftrightarrow> is_alnum c \<or> c = CHR ''.'' \<or> c = CHR ''+'' \<or> c = CHR ''-''"

function license_tokens :: "string \<Rightarrow> string \<Rightarrow> string list res" where
  "license_tokens expression [] = Inr []"
| "license_tokens expression (c # cs) =
     (if is_ws c then license_tokens expression cs
      else if c = CHR ''('' \<or> c = CHR '')'' then
        bindE (license_tokens expression cs) (\<lambda>ts. Inr ([c] # ts))
      else if \<not> is_alnum c then Inl (sbom_fail (''license expression has invalid token: '' @ expression))
      else bindE (license_tokens expression (dropWhile is_token_char cs)) (\<lambda>ts.
        Inr ((c # takeWhile is_token_char cs) # ts)))"
  by pat_completeness auto
termination
  by (relation "measure (\<lambda>(e, s). length s)") (auto simp: le_imp_less_Suc length_dropWhile_le)

definition tokenizeLicenseExpression :: "string \<Rightarrow> string list res" where
  "tokenizeLicenseExpression expression =
     (if length expression = 0 then Inl (sbom_fail ''license expression is missing'')
      else license_tokens expression expression)"

section \<open>The parser\<close>

datatype license_op = OrOp | AndOp

datatype license_tree =
    License string "string option"
  | Binary license_op license_tree license_tree

text \<open>The tokens that remain, and the identifiers and exceptions pushed so far.\<close>

type_synonym parser_state = "string list \<times> string list \<times> string list"

definition parser_left :: "parser_state \<Rightarrow> nat" where
  "parser_left st = length (fst st)"

definition malformed :: "string \<Rightarrow> js_error" where
  "malformed expression = sbom_fail (''license expression is malformed: '' @ expression)"

definition KEYWORDS :: "string list" where
  "KEYWORDS = [''AND'', ''OR'', ''WITH'', ''('', '')'']"

text \<open>
  \<open>parsePrimary\<close> refuses a keyword or a closing parenthesis (the opening one starts a group),
  and the exception after \<open>WITH\<close> any of the five.
\<close>

definition primary_identifier :: "string \<Rightarrow> parser_state \<Rightarrow> (license_tree \<times> parser_state) res" where
  "primary_identifier expression st =
     (case st of
        ([], ids, excs) \<Rightarrow> Inl (malformed expression)
      | (t # ts, ids, excs) \<Rightarrow>
          if t \<in> set KEYWORDS then Inl (malformed expression)
          else Inr (License t None, (ts, ids @ [t], excs)))"

text \<open>\<open>WITH\<close> after a node.\<close>

definition with_suffix :: "string \<Rightarrow> license_tree \<Rightarrow> parser_state \<Rightarrow> (license_tree \<times> parser_state) res" where
  "with_suffix expression node st =
     (case st of
        (t # ts, ids, excs) \<Rightarrow>
          if t \<noteq> ''WITH'' then Inr (node, st)
          else (case node of
              Binary _ _ _ \<Rightarrow> Inl (sbom_fail (''license exception must follow a license identifier: '' @ expression))
            | License i _ \<Rightarrow>
                (case ts of
                   [] \<Rightarrow> Inl (sbom_fail (''license exception is missing: '' @ expression))
                 | x # xs \<Rightarrow>
                     if x \<in> set KEYWORDS then Inl (sbom_fail (''license exception is missing: '' @ expression))
                     else Inr (License i (Some x), (xs, ids, excs @ [x]))))
      | _ \<Rightarrow> Inr (node, st))"

definition consume_close :: "string \<Rightarrow> parser_state \<Rightarrow> parser_state res" where
  "consume_close expression st =
     (case st of
        (t # ts, ids, excs) \<Rightarrow>
          if t = '')'' then Inr (ts, ids, excs) else Inl (sbom_fail (''license expression expected ): '' @ expression))
      | _ \<Rightarrow> Inl (sbom_fail (''license expression expected ): '' @ expression)))"

definition next_is :: "string \<Rightarrow> parser_state \<Rightarrow> bool" where
  "next_is t st \<longleftrightarrow> fst st \<noteq> [] \<and> hd (fst st) = t"

definition skip :: "parser_state \<Rightarrow> parser_state" where
  "skip st = (tl (fst st), snd st)"

text \<open>A continuation on a later state; the first case never happens.\<close>

definition shrunk :: "bool \<Rightarrow> parser_state \<Rightarrow> parser_state \<Rightarrow> bool" where
  "shrunk strict old new \<longleftrightarrow> (if strict then parser_left new < parser_left old else parser_left new \<le> parser_left old)"

function
  parse_or :: "string \<Rightarrow> parser_state \<Rightarrow> (license_tree \<times> parser_state) res" and
  or_loop :: "string \<Rightarrow> license_tree \<Rightarrow> parser_state \<Rightarrow> (license_tree \<times> parser_state) res" and
  parse_and :: "string \<Rightarrow> parser_state \<Rightarrow> (license_tree \<times> parser_state) res" and
  and_loop :: "string \<Rightarrow> license_tree \<Rightarrow> parser_state \<Rightarrow> (license_tree \<times> parser_state) res" and
  parse_with :: "string \<Rightarrow> parser_state \<Rightarrow> (license_tree \<times> parser_state) res"
where
  "parse_or e st = bindE (parse_and e st) (\<lambda>(node, st1).
     if \<not> shrunk False st st1 then Inl (malformed e) else or_loop e node st1)"
| "or_loop e node st =
     (if \<not> next_is ''OR'' st then Inr (node, st)
      else bindE (parse_and e (skip st)) (\<lambda>(right, st1).
        if \<not> shrunk True st st1 then Inl (malformed e) else or_loop e (Binary OrOp node right) st1))"
| "parse_and e st = bindE (parse_with e st) (\<lambda>(node, st1).
     if \<not> shrunk False st st1 then Inl (malformed e) else and_loop e node st1)"
| "and_loop e node st =
     (if \<not> next_is ''AND'' st then Inr (node, st)
      else bindE (parse_with e (skip st)) (\<lambda>(right, st1).
        if \<not> shrunk True st st1 then Inl (malformed e) else and_loop e (Binary AndOp node right) st1))"
| "parse_with e st =
     (if next_is ''('' st
      then bindE (parse_or e (skip st)) (\<lambda>(node, st1).
        bindE (consume_close e st1) (\<lambda>st2. with_suffix e node st2))
      else bindE (primary_identifier e st) (\<lambda>(node, st1). with_suffix e node st1))"
  by pat_completeness auto
termination
  by (relation "measures [
      \<lambda>s. case s of Inl (Inl (e, st)) \<Rightarrow> parser_left st | Inl (Inr (e, n, st)) \<Rightarrow> parser_left st
        | Inr (Inl (e, st)) \<Rightarrow> parser_left st | Inr (Inr (Inl (e, n, st))) \<Rightarrow> parser_left st
        | Inr (Inr (Inr (e, st))) \<Rightarrow> parser_left st,
      \<lambda>s. case s of Inl (Inl _) \<Rightarrow> 4 | Inl (Inr _) \<Rightarrow> 3 | Inr (Inl _) \<Rightarrow> 2 | Inr (Inr (Inl _)) \<Rightarrow> 1
        | Inr (Inr (Inr _)) \<Rightarrow> (0 :: nat)]")
    (auto simp: shrunk_def next_is_def skip_def parser_left_def)

declare parse_or.simps [simp del] or_loop.simps [simp del] parse_and.simps [simp del]
  and_loop.simps [simp del] parse_with.simps [simp del]


definition parseLicenseExpressionSyntax :: "string \<Rightarrow> (license_tree \<times> string list \<times> string list) res" where
  "parseLicenseExpressionSyntax expression =
     bindE (tokenizeLicenseExpression expression) (\<lambda>tokens.
     bindE (parse_or expression (tokens, [], [])) (\<lambda>(tree, rest, identifiers, exceptions).
       if rest \<noteq> [] then Inl (sbom_fail (''license expression has trailing tokens: '' @ expression))
       else Inr (tree, rev (remdups (rev identifiers)), rev (remdups (rev exceptions)))))"

section \<open>The equations of the code\<close>

lemma with_suffix_left: "with_suffix e n st = Inr (t, st') \<Longrightarrow> parser_left st' \<le> parser_left st"
  by (auto simp: with_suffix_def parser_left_def split: prod.splits list.splits license_tree.splits if_splits)

lemma primary_left: "primary_identifier e st = Inr (t, st') \<Longrightarrow> parser_left st' < parser_left st"
  by (auto simp: primary_identifier_def parser_left_def split: prod.splits list.splits if_splits)

lemma consume_left: "consume_close e st = Inr st' \<Longrightarrow> parser_left st' < parser_left st"
  by (auto simp: consume_close_def parser_left_def split: prod.splits list.splits if_splits)

lemma skip_left: "next_is t st \<Longrightarrow> parser_left (skip st) < parser_left st"
  by (auto simp: next_is_def skip_def parser_left_def)

lemma parser_shrinks:
  "parse_or e st = Inr (t, st') \<Longrightarrow> parser_left st' \<le> parser_left st"
  "or_loop e n st = Inr (t, st') \<Longrightarrow> parser_left st' \<le> parser_left st"
  "parse_and e st = Inr (t, st') \<Longrightarrow> parser_left st' \<le> parser_left st"
  "and_loop e n st = Inr (t, st') \<Longrightarrow> parser_left st' \<le> parser_left st"
  "parse_with e st = Inr (t, st') \<Longrightarrow> parser_left st' < parser_left st"
proof (induction e st and e n st and e st and e n st and e st arbitrary: t st' and t st' and t st' and t st' and t st'
    rule: parse_or_or_loop_parse_and_and_loop_parse_with.induct)
  case (1 e st)
  then obtain n s1 where r: "parse_and e st = Inr (n, s1)" "shrunk False st s1" "or_loop e n s1 = Inr (t, st')"
    by (auto simp: parse_or.simps [of e st] bindE_Inr_iff split: if_splits)
  then have "parser_left st' \<le> parser_left s1" using "1.IH"(2) [OF r(1) refl] by simp
  with r(2) show ?case by (simp add: shrunk_def)
next
  case (2 e node st)
  show ?case
  proof (cases "next_is ''OR'' st")
    case True
    then obtain n s1 where r: "parse_and e (skip st) = Inr (n, s1)" "shrunk True st s1"
        "or_loop e (Binary OrOp node n) s1 = Inr (t, st')"
      using "2.prems" by (auto simp: or_loop.simps [of e node st] bindE_Inr_iff split: if_splits)
    then have "parser_left st' \<le> parser_left s1" using "2.IH"(2) [OF _ r(1) refl] True by simp
    with r(2) show ?thesis by (simp add: shrunk_def)
  qed (use "2.prems" in \<open>simp add: or_loop.simps [of e node st]\<close>)
next
  case (3 e st)
  then obtain n s1 where r: "parse_with e st = Inr (n, s1)" "shrunk False st s1" "and_loop e n s1 = Inr (t, st')"
    by (auto simp: parse_and.simps [of e st] bindE_Inr_iff split: if_splits)
  then have "parser_left st' \<le> parser_left s1" using "3.IH"(2) [OF r(1) refl] by simp
  with r(2) show ?case by (simp add: shrunk_def)
next
  case (4 e node st)
  show ?case
  proof (cases "next_is ''AND'' st")
    case True
    then obtain n s1 where r: "parse_with e (skip st) = Inr (n, s1)" "shrunk True st s1"
        "and_loop e (Binary AndOp node n) s1 = Inr (t, st')"
      using "4.prems" by (auto simp: and_loop.simps [of e node st] bindE_Inr_iff split: if_splits)
    then have "parser_left st' \<le> parser_left s1" using "4.IH"(2) [OF _ r(1) refl] True by simp
    with r(2) show ?thesis by (simp add: shrunk_def)
  qed (use "4.prems" in \<open>simp add: and_loop.simps [of e node st]\<close>)
next
  case (5 e st)
  show ?case
  proof (cases "next_is ''('' st")
    case True
    with "5.prems" obtain n s1 s2 where r: "parse_or e (skip st) = Inr (n, s1)" "consume_close e s1 = Inr s2"
        "with_suffix e n s2 = Inr (t, st')"
      by (auto simp: parse_with.simps [of e st] bindE_Inr_iff split: prod.splits)
    show ?thesis
      using "5.IH" [OF True r(1)] skip_left [OF True] consume_left [OF r(2)] with_suffix_left [OF r(3)] by simp
  next
    case False
    with "5.prems" obtain n s1 where r: "primary_identifier e st = Inr (n, s1)" "with_suffix e n s1 = Inr (t, st')"
      by (auto simp: parse_with.simps [of e st] bindE_Inr_iff split: prod.splits)
    show ?thesis using primary_left [OF r(1)] with_suffix_left [OF r(2)] by simp
  qed
qed

lemma bindE_guard:
  "(\<And>x y. m = Inr (x, y) \<Longrightarrow> P y) \<Longrightarrow>
     bindE m (\<lambda>(x, y). if \<not> P y then g x y else f x y) = bindE m (\<lambda>(x, y). f x y)"
  by (cases m) auto

lemma parse_or_eq: "parse_or e st = bindE (parse_and e st) (\<lambda>(node, st1). or_loop e node st1)"
  by (subst parse_or.simps, rule bindE_guard) (simp add: shrunk_def parser_shrinks)

lemma or_loop_eq:
  "or_loop e node st = (if \<not> next_is ''OR'' st then Inr (node, st)
     else bindE (parse_and e (skip st)) (\<lambda>(right, st1). or_loop e (Binary OrOp node right) st1))"
proof (cases "next_is ''OR'' st")
  case True
  have "shrunk True st s1" if "parse_and e (skip st) = Inr (n, s1)" for n s1
    using parser_shrinks(3) [OF that] skip_left [OF True] by (simp add: shrunk_def)
  then show ?thesis using True by (subst or_loop.simps) (simp add: bindE_guard)
qed (subst or_loop.simps, simp)

lemma parse_and_eq: "parse_and e st = bindE (parse_with e st) (\<lambda>(node, st1). and_loop e node st1)"
  by (subst parse_and.simps, rule bindE_guard) (auto simp: shrunk_def dest: parser_shrinks(5))

lemma and_loop_eq:
  "and_loop e node st = (if \<not> next_is ''AND'' st then Inr (node, st)
     else bindE (parse_with e (skip st)) (\<lambda>(right, st1). and_loop e (Binary AndOp node right) st1))"
proof (cases "next_is ''AND'' st")
  case True
  have "shrunk True st s1" if "parse_with e (skip st) = Inr (n, s1)" for n s1
    using parser_shrinks(5) [OF that] skip_left [OF True] by (simp add: shrunk_def)
  then show ?thesis using True by (subst and_loop.simps) (simp add: bindE_guard)
qed (subst and_loop.simps, simp)

lemmas parser_equations = parse_or_eq or_loop_eq parse_and_eq and_loop_eq parse_with.simps


section \<open>The grammar\<close>

text \<open>
  The grammar of license expressions over tokens, with the tree each phrase denotes: \<open>OR\<close> binds
  weaker than \<open>AND\<close>, both associate to the left, and an exception may follow any phrase that
  denotes a single license, also a parenthesised one.
\<close>

inductive g_or :: "string list \<Rightarrow> license_tree \<Rightarrow> bool"
  and g_and :: "string list \<Rightarrow> license_tree \<Rightarrow> bool"
  and g_with :: "string list \<Rightarrow> license_tree \<Rightarrow> bool"
  and g_primary :: "string list \<Rightarrow> license_tree \<Rightarrow> bool"
where
  or_base: "g_and w t \<Longrightarrow> g_or w t"
| or_step: "g_or u a \<Longrightarrow> g_and v b \<Longrightarrow> g_or (u @ ''OR'' # v) (Binary OrOp a b)"
| and_base: "g_with w t \<Longrightarrow> g_and w t"
| and_step: "g_and u a \<Longrightarrow> g_with v b \<Longrightarrow> g_and (u @ ''AND'' # v) (Binary AndOp a b)"
| with_base: "g_primary w t \<Longrightarrow> g_with w t"
| with_step: "g_primary w (License i x0) \<Longrightarrow> x \<notin> set KEYWORDS \<Longrightarrow> g_with (w @ [''WITH'', x]) (License i (Some x))"
| primary_license: "i \<notin> set KEYWORDS \<Longrightarrow> g_primary [i] (License i None)"
| primary_group: "g_or w t \<Longrightarrow> g_primary (''('' # w @ ['')'']) t"

fun leaves :: "license_tree \<Rightarrow> (string \<times> string option) list" where
  "leaves (License i x) = [(i, x)]"
| "leaves (Binary op a b) = leaves a @ leaves b"

definition parsed_ids :: "parser_state \<Rightarrow> license_tree \<Rightarrow> parser_state \<Rightarrow> bool" where
  "parsed_ids st t st' \<longleftrightarrow> fst (snd st') = fst (snd st) @ map fst (leaves t)"

lemma with_suffix_sound:
  assumes "with_suffix e n st = Inr (t, st')" and "g_primary w n" and "parsed_ids st0 n st"
  shows "\<exists>v. fst st = v @ fst st' \<and> g_with (w @ v) t \<and> parsed_ids st0 t st'"
proof (cases "next_is ''WITH'' st")
  case True
  then obtain ts ids excs where st: "st = (''WITH'' # ts, ids, excs)"
    by (cases st; cases "fst st") (auto simp: next_is_def)
  with assms(1) obtain i x0 x xs where r: "n = License i x0" "ts = x # xs" "x \<notin> set KEYWORDS"
      "t = License i (Some x)" "st' = (xs, ids, excs @ [x])"
    by (auto simp: with_suffix_def split: license_tree.splits list.splits if_splits)
  then show ?thesis using assms(2,3) with_step [of w i x0 x] st
    by (intro exI [of _ "[''WITH'', x]"]) (auto simp: parsed_ids_def)
next
  case False
  then have "t = n" "st' = st"
    using assms(1) by (auto simp: with_suffix_def next_is_def split: prod.splits list.splits if_splits)
  then show ?thesis using assms(2,3) with_base by auto
qed

lemma skip_fst: "next_is t st \<Longrightarrow> fst st = t # fst (skip st)" "snd (skip st) = snd st"
  by (auto simp: next_is_def skip_def)

lemma parser_sound:
  "parse_or e st = Inr (t, st') \<Longrightarrow> \<exists>w. fst st = w @ fst st' \<and> g_or w t \<and> parsed_ids st t st'"
  "or_loop e n st = Inr (t, st') \<Longrightarrow> parsed_ids st0 n st \<Longrightarrow>
     \<exists>w. fst st = w @ fst st' \<and> (\<forall>u. g_or u n \<longrightarrow> g_or (u @ w) t) \<and> parsed_ids st0 t st'"
  "parse_and e st = Inr (t, st') \<Longrightarrow> \<exists>w. fst st = w @ fst st' \<and> g_and w t \<and> parsed_ids st t st'"
  "and_loop e n st = Inr (t, st') \<Longrightarrow> parsed_ids st0 n st \<Longrightarrow>
     \<exists>w. fst st = w @ fst st' \<and> (\<forall>u. g_and u n \<longrightarrow> g_and (u @ w) t) \<and> parsed_ids st0 t st'"
  "parse_with e st = Inr (t, st') \<Longrightarrow> \<exists>w. fst st = w @ fst st' \<and> g_with w t \<and> parsed_ids st t st'"
proof (induction e st and e n st and e st and e n st and e st
    arbitrary: t st' and t st' st0 and t st' and t st' st0 and t st'
    rule: parse_or_or_loop_parse_and_and_loop_parse_with.induct)
  case (1 e st)
  then obtain n s1 where r: "parse_and e st = Inr (n, s1)" "shrunk False st s1" "or_loop e n s1 = Inr (t, st')"
    by (auto simp: parse_or.simps [of e st] bindE_Inr_iff split: if_splits)
  obtain w where w: "fst st = w @ fst s1" "g_and w n" "parsed_ids st n s1" using "1.IH"(1) [OF r(1)] by blast
  obtain v where v: "fst s1 = v @ fst st'" "\<forall>u. g_or u n \<longrightarrow> g_or (u @ v) t" "parsed_ids st t st'"
    using "1.IH"(2) [OF r(1) refl _ r(3) w(3)] r(2) by blast
  show ?case using w v or_base by (intro exI [of _ "w @ v"]) auto
next
  case (2 e n st)
  show ?case
  proof (cases "next_is ''OR'' st")
    case True
    then obtain b s1 where r: "parse_and e (skip st) = Inr (b, s1)" "shrunk True st s1"
        "or_loop e (Binary OrOp n b) s1 = Inr (t, st')"
      using "2.prems"(1) by (auto simp: or_loop.simps [of e n st] bindE_Inr_iff split: if_splits)
    obtain w where w: "fst (skip st) = w @ fst s1" "g_and w b" "parsed_ids (skip st) b s1"
      using "2.IH"(1) [OF _ r(1)] True by blast
    have ids: "parsed_ids st0 (Binary OrOp n b) s1"
      using w(3) "2.prems"(2) by (simp add: parsed_ids_def skip_fst)
    obtain v where v: "fst s1 = v @ fst st'" "\<forall>u. g_or u (Binary OrOp n b) \<longrightarrow> g_or (u @ v) t" "parsed_ids st0 t st'"
      using "2.IH"(2) [OF _ r(1) refl _ r(3) ids] True r(2) by blast
    show ?thesis
      using v w skip_fst(1) [OF True] or_step [OF _ w(2)] by (intro exI [of _ "''OR'' # w @ v"]) fastforce
  qed (use "2.prems" in \<open>auto simp: or_loop.simps [of e n st]\<close>)
next
  case (3 e st)
  then obtain n s1 where r: "parse_with e st = Inr (n, s1)" "shrunk False st s1" "and_loop e n s1 = Inr (t, st')"
    by (auto simp: parse_and.simps [of e st] bindE_Inr_iff split: if_splits)
  obtain w where w: "fst st = w @ fst s1" "g_with w n" "parsed_ids st n s1" using "3.IH"(1) [OF r(1)] by blast
  obtain v where v: "fst s1 = v @ fst st'" "\<forall>u. g_and u n \<longrightarrow> g_and (u @ v) t" "parsed_ids st t st'"
    using "3.IH"(2) [OF r(1) refl _ r(3) w(3)] r(2) by blast
  show ?case using w v and_base by (intro exI [of _ "w @ v"]) auto
next
  case (4 e n st)
  show ?case
  proof (cases "next_is ''AND'' st")
    case True
    then obtain b s1 where r: "parse_with e (skip st) = Inr (b, s1)" "shrunk True st s1"
        "and_loop e (Binary AndOp n b) s1 = Inr (t, st')"
      using "4.prems"(1) by (auto simp: and_loop.simps [of e n st] bindE_Inr_iff split: if_splits)
    obtain w where w: "fst (skip st) = w @ fst s1" "g_with w b" "parsed_ids (skip st) b s1"
      using "4.IH"(1) [OF _ r(1)] True by blast
    have ids: "parsed_ids st0 (Binary AndOp n b) s1"
      using w(3) "4.prems"(2) by (simp add: parsed_ids_def skip_fst)
    obtain v where v: "fst s1 = v @ fst st'" "\<forall>u. g_and u (Binary AndOp n b) \<longrightarrow> g_and (u @ v) t" "parsed_ids st0 t st'"
      using "4.IH"(2) [OF _ r(1) refl _ r(3) ids] True r(2) by blast
    show ?thesis
      using v w skip_fst(1) [OF True] and_step [OF _ w(2)] by (intro exI [of _ "''AND'' # w @ v"]) fastforce
  qed (use "4.prems" in \<open>auto simp: and_loop.simps [of e n st]\<close>)
next
  case (5 e st)
  show ?case
  proof (cases "next_is ''('' st")
    case True
    with "5.prems" obtain n s1 s2 where r: "parse_or e (skip st) = Inr (n, s1)" "consume_close e s1 = Inr s2"
        "with_suffix e n s2 = Inr (t, st')"
      by (auto simp: parse_with.simps [of e st] bindE_Inr_iff split: prod.splits)
    obtain w where w: "fst (skip st) = w @ fst s1" "g_or w n" "parsed_ids (skip st) n s1"
      using "5.IH" [OF True r(1)] by blast
    have c: "fst s1 = '')'' # fst s2" "snd s2 = snd s1"
      using r(2) by (auto simp: consume_close_def split: prod.splits list.splits if_splits)
    have "parsed_ids st n s2" using w(3) by (simp add: parsed_ids_def skip_fst c)
    from with_suffix_sound [OF r(3) primary_group [OF w(2)] this]
    show ?thesis using w(1) c(1) skip_fst(1) [OF True] by auto
  next
    case False
    with "5.prems" obtain n s1 where r: "primary_identifier e st = Inr (n, s1)" "with_suffix e n s1 = Inr (t, st')"
      by (auto simp: parse_with.simps [of e st] bindE_Inr_iff split: prod.splits)
    from r(1) obtain i where i: "n = License i None" "i \<notin> set KEYWORDS" "fst st = i # fst s1" "parsed_ids st n s1"
      by (auto simp: primary_identifier_def parsed_ids_def split: prod.splits list.splits if_splits)
    from with_suffix_sound [OF r(2) _ i(4), of "[i]"] i show ?thesis using primary_license by auto
  qed
qed


text \<open>Conversely, the parser follows every derivation; what comes next decides where a loop stops.\<close>

definition not_next :: "string list \<Rightarrow> string list \<Rightarrow> bool" where
  "not_next ks rest \<longleftrightarrow> rest = [] \<or> hd rest \<notin> set ks"

lemma next_is_Cons [simp]: "next_is t (u # us, s) \<longleftrightarrow> u = t" "\<not> next_is t ([], s)"
  by (auto simp: next_is_def)

lemma skip_Cons [simp]: "skip (u # us, s) = (us, s)"
  by (simp add: skip_def)

lemma not_next_is: "not_next ks rest \<Longrightarrow> k \<in> set ks \<Longrightarrow> \<not> next_is k (rest, s)"
  by (auto simp: not_next_def next_is_def)

lemma with_suffix_stop: "not_next [''WITH''] rest \<Longrightarrow> with_suffix e t (rest, s) = Inr (t, (rest, s))"
  by (cases rest) (auto simp: with_suffix_def not_next_def split: prod.splits)

lemma and_loop_stop: "not_next [''AND''] rest \<Longrightarrow> and_loop e t (rest, s) = Inr (t, (rest, s))"
  by (subst and_loop_eq) (simp add: not_next_is)

lemma or_loop_stop: "not_next [''OR''] rest \<Longrightarrow> or_loop e t (rest, s) = Inr (t, (rest, s))"
  by (subst or_loop_eq) (simp add: not_next_is)

lemma parser_complete:
  "g_or w t \<Longrightarrow> not_next [''WITH'', ''AND''] rest \<Longrightarrow> \<exists>s'. parse_or e (w @ rest, s) = or_loop e t (rest, s')"
  "g_and w t \<Longrightarrow> not_next [''WITH''] rest \<Longrightarrow> \<exists>s'. parse_and e (w @ rest, s) = and_loop e t (rest, s')"
  "g_with w t \<Longrightarrow> not_next [''WITH''] rest \<Longrightarrow> \<exists>s'. parse_with e (w @ rest, s) = Inr (t, (rest, s'))"
  "g_primary w t \<Longrightarrow> \<exists>s'. parse_with e (w @ rest, s) = with_suffix e t (rest, s')"
proof (induction arbitrary: rest s and rest s and rest s and rest s rule: g_or_g_and_g_with_g_primary.inducts)
  case (or_base w t)
  have "not_next [''WITH''] rest" using or_base.prems by (auto simp: not_next_def)
  then obtain s' where "parse_and e (w @ rest, s) = and_loop e t (rest, s')"
    using or_base.IH by blast
  moreover have "and_loop e t (rest, s') = Inr (t, (rest, s'))"
    using or_base.prems by (intro and_loop_stop) (auto simp: not_next_def)
  ultimately have "parse_or e (w @ rest, s) = or_loop e t (rest, s')" by (subst parse_or_eq) simp
  then show ?case by blast
next
  case (or_step u a v b)
  obtain s1 where 1: "parse_or e (u @ ''OR'' # v @ rest, s) = or_loop e a (''OR'' # v @ rest, s1)"
    using or_step.IH(1) [of "''OR'' # v @ rest" s] by (auto simp: not_next_def)
  obtain s2 where 2: "parse_and e (v @ rest, s1) = and_loop e b (rest, s2)"
    using or_step.IH(2) [of rest s1] or_step.prems by (auto simp: not_next_def)
  have 3: "and_loop e b (rest, s2) = Inr (b, (rest, s2))"
    using or_step.prems by (intro and_loop_stop) (auto simp: not_next_def)
  have "or_loop e a (''OR'' # v @ rest, s1) = or_loop e (Binary OrOp a b) (rest, s2)"
    by (subst or_loop_eq) (simp add: 2 3)
  then show ?case using 1 by (intro exI [of _ s2]) simp
next
  case (and_base w t)
  then obtain s' where "parse_with e (w @ rest, s) = Inr (t, (rest, s'))" by blast
  then have "parse_and e (w @ rest, s) = and_loop e t (rest, s')" by (subst parse_and_eq) simp
  then show ?case by blast
next
  case (and_step u a v b)
  obtain s1 where 1: "parse_and e (u @ ''AND'' # v @ rest, s) = and_loop e a (''AND'' # v @ rest, s1)"
    using and_step.IH(1) [of "''AND'' # v @ rest" s] by (auto simp: not_next_def)
  obtain s2 where 2: "parse_with e (v @ rest, s1) = Inr (b, (rest, s2))"
    using and_step.IH(2) [of rest s1] and_step.prems by blast
  have "and_loop e a (''AND'' # v @ rest, s1) = and_loop e (Binary AndOp a b) (rest, s2)"
    by (subst and_loop_eq) (simp add: 2)
  then show ?case using 1 by (intro exI [of _ s2]) simp
next
  case (with_base w t)
  then show ?case using with_suffix_stop by metis
next
  case (with_step w i x0 x)
  obtain s1 where "parse_with e (w @ ''WITH'' # x # rest, s) = with_suffix e (License i x0) (''WITH'' # x # rest, s1)"
    using with_step.IH [of "''WITH'' # x # rest" s] by blast
  then show ?case using with_step.hyps(2) by (cases s1) (simp add: with_suffix_def)
next
  case (primary_license i)
  then have "i \<noteq> ''(''" by (auto simp: KEYWORDS_def)
  obtain a b where s: "s = (a, b)" by (cases s)
  have "parse_with e (i # rest, s) = with_suffix e (License i None) (rest, (a @ [i], b))"
    using primary_license \<open>i \<noteq> ''(''\<close> by (subst parse_with.simps) (simp add: primary_identifier_def s)
  then show ?case by (intro exI [of _ "(a @ [i], b)"]) simp
next
  case (primary_group w t)
  obtain s1 where 1: "parse_or e (w @ '')'' # rest, s) = or_loop e t ('')'' # rest, s1)"
    using primary_group.IH [of "'')'' # rest" s] by (auto simp: not_next_def)
  have 2: "or_loop e t ('')'' # rest, s1) = Inr (t, ('')'' # rest, s1))"
    by (rule or_loop_stop) (simp add: not_next_def)
  have "parse_with e ((''('' # w @ ['')'']) @ rest, s) = with_suffix e t (rest, s1)"
    using 1 2 by (subst parse_with.simps) (cases s1, simp add: consume_close_def)
  then show ?case by (intro exI [of _ s1]) simp
qed

lemma rev_remdups_set: "set (rev (remdups (rev xs))) = set xs"
  by simp

text \<open>
  The parser accepts a text exactly when its tokens are a phrase of the grammar, and returns
  the tree that the phrase denotes; the identifiers it reports are those of the tree.
\<close>

lemma parse_syntax:
  "parseLicenseExpressionSyntax e = Inr (t, ids, excs) \<Longrightarrow>
     (\<exists>ts. tokenizeLicenseExpression e = Inr ts \<and> g_or ts t) \<and> set ids = fst ` set (leaves t)"
proof -
  assume "parseLicenseExpressionSyntax e = Inr (t, ids, excs)"
  then obtain ts us xs where r: "tokenizeLicenseExpression e = Inr ts" "parse_or e (ts, [], []) = Inr (t, ([], us, xs))"
      "ids = rev (remdups (rev us))"
    by (auto simp: parseLicenseExpressionSyntax_def bindE_Inr_iff split: if_splits)
  from parser_sound(1) [OF r(2)] have "g_or ts t" "us = map fst (leaves t)" by (auto simp: parsed_ids_def)
  with r show ?thesis by simp
qed

lemma parse_syntax_complete:
  assumes "tokenizeLicenseExpression e = Inr ts" and "g_or ts t"
  shows "\<exists>ids excs. parseLicenseExpressionSyntax e = Inr (t, ids, excs)"
proof -
  obtain s where "parse_or e (ts @ [], ([], [])) = or_loop e t ([], s)"
    using parser_complete(1) [OF assms(2), of "[]" e "([], [])"] by (auto simp: not_next_def)
  moreover have "or_loop e t ([], s) = Inr (t, ([], s))" by (rule or_loop_stop) (simp add: not_next_def)
  ultimately show ?thesis using assms(1) by (cases s) (simp add: parseLicenseExpressionSyntax_def)
qed

text \<open>
  Property C22. The license expression parser implements its grammar: a text parses to a tree
  exactly when its tokens are a phrase that denotes this tree, with \<open>AND\<close> binding tighter than
  \<open>OR\<close>, both associating to the left, and \<open>WITH\<close> after a single license.
\<close>

theorem parseLicenseExpressionSyntax_grammar:
  "(\<exists>ids excs. parseLicenseExpressionSyntax e = Inr (t, ids, excs)) \<longleftrightarrow>
   (\<exists>ts. tokenizeLicenseExpression e = Inr ts \<and> g_or ts t)"
  using parse_syntax parse_syntax_complete by blast

section \<open>Catalogues\<close>

definition LICENSE_REF :: string where
  "LICENSE_REF = ''LicenseRef-''"

fun visit_license :: "license_tree \<Rightarrow> unit res" where
  "visit_license (License i x) =
     (if i \<notin> set SPDX_LICENSE_IDENTIFIER_CATALOGUE \<and> \<not> (starts_with LICENSE_REF i \<and> length i > length LICENSE_REF)
      then Inl (sbom_fail (''unknown SPDX license identifier: '' @ i))
      else (case x of
          Some y \<Rightarrow> if y \<notin> set SPDX_EXCEPTION_IDENTIFIER_CATALOGUE
            then Inl (sbom_fail (''unknown SPDX exception identifier: '' @ y)) else Inr ()
        | None \<Rightarrow> Inr ()))"
| "visit_license (Binary op a b) = bindE (visit_license a) (\<lambda>_. visit_license b)"

definition parseLicenseExpression :: "string \<Rightarrow> (license_tree \<times> string list) res" where
  "parseLicenseExpression expression =
     bindE (parseLicenseExpressionSyntax expression) (\<lambda>(tree, identifiers, exceptions).
     bindE (visit_license tree) (\<lambda>_. Inr (tree, identifiers)))"

definition tryParseLicenseExpression :: "string \<Rightarrow> (license_tree \<times> string list) option" where
  "tryParseLicenseExpression expression =
     (case parseLicenseExpression expression of Inl _ \<Rightarrow> None | Inr p \<Rightarrow> Some p)"

text \<open>
  Observation. A second exception on a parenthesised license replaces the first one in the tree
  before the catalogue is consulted: an expression with an unknown exception is accepted.
\<close>

lemma hidden_exception_accepted:
  "parseLicenseExpression ''(MIT WITH Unknown-exception) WITH LLVM-exception'' =
     Inr (License ''MIT'' (Some ''LLVM-exception''), [''MIT'']) \<and>
   ''Unknown-exception'' \<notin> set SPDX_EXCEPTION_IDENTIFIER_CATALOGUE"
  by code_simp

end
