(* ===== verification/JsonText.thy ===== *)
theory JsonText
  imports ScriptLib
begin

text \<open>
  \<open>JSON.stringify\<close>, comparison sorts and the environment of a script: the file system, the
  digests, \<open>JSON.parse\<close>, the decoding of UTF-8 and the locale's collation are parameters.
\<close>

section \<open>JSON.stringify\<close>

definition json_char :: "char \<Rightarrow> string" where
  "json_char c = (let n = of_char c :: nat in
     if c = CHR 0x22 then [CHR 0x5C, CHR 0x22]
     else if c = CHR 0x5C then [CHR 0x5C, CHR 0x5C]
     else if n = 8 then [CHR 0x5C, CHR ''b''] else if n = 9 then [CHR 0x5C, CHR ''t'']
     else if n = 10 then [CHR 0x5C, CHR ''n''] else if n = 12 then [CHR 0x5C, CHR ''f'']
     else if n = 13 then [CHR 0x5C, CHR ''r'']
     else if n < 32 then [CHR 0x5C, CHR ''u'', CHR ''0'', CHR ''0''] @
       [char_of (n div 16 + 48), char_of (if n mod 16 < 10 then n mod 16 + 48 else n mod 16 + 87)]
     else [c])"

definition json_quote :: "string \<Rightarrow> string" where
  "json_quote s = [CHR 0x22] @ concat (map json_char s) @ [CHR 0x22]"

text \<open>\<open>None\<close> is undefined: such a property is left out, and such an element prints as null.\<close>

fun json_str :: "js \<Rightarrow> string option" where
  "json_str JUndef = None"
| "json_str JNull = Some ''null''"
| "json_str (JBool b) = Some (if b then ''true'' else ''false'')"
| "json_str (JNum n) = Some (if num_is_finite n then num_str n else ''null'')"
| "json_str (JStr s) = Some (json_quote s)"
| "json_str (JArr xs) = Some (''['' @ join '','' (map (\<lambda>x. case json_str x of None \<Rightarrow> ''null'' | Some s \<Rightarrow> s) xs) @ '']'')"
| "json_str (JObj ps) = Some (''{'' @ join '','' (concat (map (\<lambda>(k, v).
     case json_str v of None \<Rightarrow> [] | Some s \<Rightarrow> [json_quote k @ '':'' @ s]) ps)) @ ''}'')"

definition json_same :: "js \<Rightarrow> js \<Rightarrow> bool" where
  "json_same a b \<longleftrightarrow> json_str a = json_str b"

section \<open>Sorting with a comparison\<close>

text \<open>
  \<open>Array.prototype.sort\<close> with a comparison function is stable; for a consistent comparison its
  result is the one of insertion.
\<close>

fun insert_by :: "('a \<Rightarrow> 'a \<Rightarrow> int) \<Rightarrow> 'a \<Rightarrow> 'a list \<Rightarrow> 'a list" where
  "insert_by cmp x [] = [x]"
| "insert_by cmp x (y # ys) = (if cmp x y \<le> 0 then x # y # ys else y # insert_by cmp x ys)"

definition sort_by :: "('a \<Rightarrow> 'a \<Rightarrow> int) \<Rightarrow> 'a list \<Rightarrow> 'a list" where
  "sort_by cmp xs = foldr (insert_by cmp) xs []"

lemma insert_by_mset [simp]: "mset (insert_by cmp x xs) = add_mset x (mset xs)"
  by (induction xs) auto

lemma sort_by_mset [simp]: "mset (sort_by cmp xs) = mset xs"
  by (induction xs) (auto simp: sort_by_def)

lemma sort_by_set [simp]: "set (sort_by cmp xs) = set xs"
  by (metis set_mset_mset sort_by_mset)

lemma sort_by_length [simp]: "length (sort_by cmp xs) = length xs"
  by (metis size_mset sort_by_mset)

section \<open>The environment of a script\<close>

record script_env =
  se_fs :: file_system
  se_sha256 :: "byte list \<Rightarrow> string"
  se_sha1 :: "byte list \<Rightarrow> string"
  se_parse :: "byte list \<Rightarrow> js option"
  se_text :: "byte list \<Rightarrow> string"
  se_collate :: "string \<Rightarrow> string \<Rightarrow> int"
  se_root :: string

definition se_read :: "script_env \<Rightarrow> string \<Rightarrow> byte list option" where
  "se_read env path = fs_read (se_fs env) path"

definition se_exists :: "script_env \<Rightarrow> string \<Rightarrow> bool" where
  "se_exists env path \<longleftrightarrow> fs_stat (se_fs env) path \<noteq> None"

definition se_json :: "script_env \<Rightarrow> string \<Rightarrow> js option" where
  "se_json env path = Option.bind (se_read env path) (se_parse env)"

text \<open>\<open>dirname\<close> of \<open>node:path\<close> on a POSIX host.\<close>

definition posix_dirname :: "string \<Rightarrow> string" where
  "posix_dirname p =
     (let q = rev (dropWhile (\<lambda>c. c = CHR ''/'') (rev p));
          d = rev (dropWhile (\<lambda>c. c = CHR ''/'') (dropWhile (\<lambda>c. c \<noteq> CHR ''/'') (rev q)))
      in if q = [] then (if p = [] then ''.'' else ''/'')
         else if CHR ''/'' \<notin> set q then ''.'' else if d = [] then ''/'' else d)"

section \<open>Digest lists\<close>

text \<open>
  A line of a sums file, \<open>/^([0-9a-f]{64}) {2}([^\s\r\n]+)$/\<close>: the digest, two spaces and a
  name without white space.
\<close>

definition sums_line :: "string \<Rightarrow> (string \<times> string) option" where
  "sums_line line =
     (let h = take 64 line; name = drop 66 line in
      if rx_test hash_pattern h \<and> take 2 (drop 64 line) = ''  '' \<and> name \<noteq> [] \<and> list_all (\<lambda>c. \<not> is_ws c) name
      then Some (h, name) else None)"

definition render_sums :: "(string \<times> string) list \<Rightarrow> string" where
  "render_sums es = concat (map (\<lambda>(h, p). h @ ''  '' @ p @ [CHR 0x0A]) es)"

text \<open>
  The check of such a file against the expected entries, shared by \<open>validateSbomSums\<close> and
  \<open>validateLicensePolicySums\<close>.
\<close>

definition validate_sums :: "js_error \<Rightarrow> string \<Rightarrow> (string \<times> string) list \<Rightarrow> unit res" where
  "validate_sums e contents expected =
     (if \<not> ends_with [CHR 0x0A] contents then Inl e
      else let lines = split_on CHR 0x0A (butlast contents) in
        if length lines \<noteq> length expected then Inl e
        else if list_all2 (\<lambda>line x. sums_line line = Some x) lines expected then Inr () else Inl e)"

lemma sums_line_print:
  assumes "length h = 64" and "list_all is_hex h" and "name \<noteq> []" and "list_all (\<lambda>c. \<not> is_ws c) name"
  shows "sums_line (h @ ''  '' @ name) = Some (h, name)"
  using assms by (simp add: sums_line_def hash_pattern_iff)

lemma sums_line_Some: "sums_line line = Some (h, name) \<Longrightarrow> line = h @ ''  '' @ name"
proof -
  assume "sums_line line = Some (h, name)"
  then have r: "h = take 64 line" "name = drop 66 line" "take 2 (drop 64 line) = ''  ''"
    by (auto simp: sums_line_def Let_def split: if_splits)
  have d: "drop 66 line = drop 2 (drop 64 line)" by (simp only: drop_drop) simp
  have "line = take 64 line @ take 2 (drop 64 line) @ drop 66 line"
    unfolding d by (simp only: append_take_drop_id)
  with r show ?thesis by simp
qed

definition sums_entry_ok :: "string \<times> string \<Rightarrow> bool" where
  "sums_entry_ok x \<longleftrightarrow> length (fst x) = 64 \<and> list_all is_hex (fst x) \<and> snd x \<noteq> [] \<and> list_all (\<lambda>c. \<not> is_ws c) (snd x)"

lemma sums_line_iff: "sums_line line = Some x \<longleftrightarrow> line = fst x @ ''  '' @ snd x \<and> sums_entry_ok x"
proof
  assume l: "sums_line line = Some x"
  then have "line = fst x @ ''  '' @ snd x" using sums_line_Some [of line "fst x" "snd x"] by simp
  moreover have "sums_entry_ok x"
    using l by (auto simp: sums_line_def Let_def sums_entry_ok_def hash_pattern_iff split: if_splits)
  ultimately show "line = fst x @ ''  '' @ snd x \<and> sums_entry_ok x" ..
next
  assume "line = fst x @ ''  '' @ snd x \<and> sums_entry_ok x"
  then show "sums_line line = Some x"
    using sums_line_print [of "fst x" "snd x"] by (auto simp: sums_entry_ok_def)
qed

lemma join_lines: "es \<noteq> [] \<Longrightarrow> join [c] es @ [c] = concat (map (\<lambda>l. l @ [c]) es)"
  by (induction "[c]" es rule: join.induct) auto

lemma validate_sums_iff:
  "validate_sums e contents es = Inr () \<longleftrightarrow> contents = render_sums es \<and> es \<noteq> [] \<and> list_all sums_entry_ok es"
proof -
  let ?print = "\<lambda>x. fst x @ ''  '' @ snd x" and ?nl = "CHR 0x0A"
  have nl: "?nl \<notin> set (?print x)" if ok: "sums_entry_ok x" for x
  proof -
    have "\<not> is_hex ?nl" "is_ws ?nl" by code_simp+
    then have "?nl \<notin> set (fst x)" "?nl \<notin> set (snd x)" using ok by (auto simp: sums_entry_ok_def list_all_iff)
    then show ?thesis by simp
  qed
  have render: "render_sums es = join [?nl] (map ?print es) @ [?nl]" if "es \<noteq> []"
    using that by (subst join_lines) (auto simp: render_sums_def o_def intro!: arg_cong [where f = concat])
  have split: "split_on ?nl (join [?nl] (map ?print es)) = map ?print es" if "es \<noteq> []" "list_all sums_entry_ok es"
    using that nl by (intro split_on_join) (auto simp: list_all_iff)
  have lines: "list_all2 (\<lambda>line x. sums_line line = Some x) ls es \<longleftrightarrow> ls = map ?print es \<and> list_all sums_entry_ok es" for ls
  proof (induction ls arbitrary: es)
    case (Cons l ls)
    then show ?case by (cases es) (auto simp: sums_line_iff)
  qed auto
  show ?thesis
  proof
    assume l: "validate_sums e contents es = Inr ()"
    then obtain r where r: "contents = r @ [?nl]" by (auto simp: validate_sums_def ends_with_iff split: if_splits)
    with l have ok: "split_on ?nl r = map ?print es" "list_all sums_entry_ok es"
      using lines by (auto simp: validate_sums_def Let_def split: if_splits)
    then have ne: "es \<noteq> []" using split_on_nonempty [of ?nl r] by auto
    have "r = join [?nl] (map ?print es)" using join_split [of ?nl r] ok(1) by simp
    with r ne ok render show "contents = render_sums es \<and> es \<noteq> [] \<and> list_all sums_entry_ok es" by simp
  next
    assume r: "contents = render_sums es \<and> es \<noteq> [] \<and> list_all sums_entry_ok es"
    then have c: "contents = join [?nl] (map ?print es) @ [?nl]" using render by simp
    then have "ends_with [?nl] contents" by (auto simp: ends_with_iff)
    moreover have "split_on ?nl (butlast contents) = map ?print es"
      unfolding c butlast_snoc using split r by blast
    ultimately show "validate_sums e contents es = Inr ()"
      using r lines [of "map ?print es"] by (simp add: validate_sums_def Let_def)
  qed
qed

end
