(* ===== verification/ThirdPartyEvidence.thy ===== *)
theory ThirdPartyEvidence
  imports JsonText
begin

text \<open>
  \<open>scripts/third-party-license-evidence.mjs\<close>: the checked-in license texts, bound to an upstream
  blob by the SHA-1 that Git gives it and to their contents by SHA-256. What an error message
  interpolates is left out.
\<close>

definition evidence_fail :: "string \<Rightarrow> js_error" where
  "evidence_fail message = Fail (''Third-party license evidence gate failed: '' @ message)"

definition EVIDENCE_KEYS :: "string list" where
  "EVIDENCE_KEYS = [''ecosystem'', ''name'', ''version'', ''source'', ''spdx_license'', ''upstream_repository'',
     ''upstream_tag'', ''upstream_commit'', ''upstream_file_path'', ''upstream_blob_sha1'', ''checked_in_path'',
     ''collected_text_sha256'']"

text \<open>\<open>blob <length>\0\<close> and the contents.\<close>

definition gitBlobSha1 :: "(byte list \<Rightarrow> string) \<Rightarrow> byte list \<Rightarrow> string" where
  "gitBlobSha1 sha1 bytes =
     sha1 (map (\<lambda>c. of_char c) (''blob '' @ nat_digits (length bytes)) @ [0] @ bytes)"

text \<open>
  A safe relative path resolves to a path below the root whose path from the root is itself, so
  the second check is on its first characters.
\<close>

definition resolveCheckedInPath :: "string \<Rightarrow> js \<Rightarrow> string res" where
  "resolveCheckedInPath root v =
     (if unsafe_path v then Inl (evidence_fail ''checked-in evidence path is not a safe relative path'')
      else if starts_with ''..'' (str_of v)
      then Inl (evidence_fail ''checked-in evidence path is outside the repository'')
      else Inr (posix_resolve root [str_of v]))"

text \<open>\<open>/^\d+\.\d+\.\d+$/\<close>.\<close>

definition PLAIN_VERSION :: rx where
  "PLAIN_VERSION = r_seq [r_plus (RCls is_digit), r_chr CHR ''.'', r_plus (RCls is_digit), r_chr CHR ''.'',
     r_plus (RCls is_digit)]"

definition evidence_identity_bad :: "js \<Rightarrow> bool" where
  "evidence_identity_bad entry \<longleftrightarrow>
     \<not> strict_eq (fld entry ''ecosystem'') (JStr ''cargo'') \<or> \<not> nonEmptyString (fld entry ''name'') \<or>
     \<not> is_str (fld entry ''version'') \<or> \<not> rx_test PLAIN_VERSION (str_of (fld entry ''version'')) \<or>
     \<not> is_str (fld entry ''source'') \<or> \<not> starts_with ''registry+'' (str_of (fld entry ''source''))"

definition validateEntry :: "script_env \<Rightarrow> js \<Rightarrow> js res" where
  "validateEntry env entry =
     (if \<not> isPlainObject entry \<or> \<not> exactKeys entry EVIDENCE_KEYS
      then Inl (evidence_fail ''entry has unexpected or missing fields'')
      else if evidence_identity_bad entry then Inl (evidence_fail ''component identity is invalid'')
      else if \<not> nonEmptyString (fld entry ''spdx_license'') then Inl (evidence_fail ''SPDX license is invalid'')
      else if list_ex (\<lambda>k. \<not> nonEmptyString (fld entry k)) [''upstream_repository'', ''upstream_tag'', ''upstream_file_path'']
      then Inl (evidence_fail ''upstream field is invalid'')
      else
      bindE (guard_any (evidence_fail ''upstream commit is invalid'') [not_re_test commit_pattern (fld entry ''upstream_commit'')]) (\<lambda>_.
      bindE (guard_any (evidence_fail ''upstream blob identity is invalid'') [not_re_test commit_pattern (fld entry ''upstream_blob_sha1'')]) (\<lambda>_.
      bindE (guard_any (evidence_fail ''collected text digest is invalid'') [not_re_test hash_pattern (fld entry ''collected_text_sha256'')]) (\<lambda>_.
      if unsafe_path (fld entry ''upstream_file_path'')
      then Inl (evidence_fail ''upstream file path is not a safe relative path'')
      else
      bindE (resolveCheckedInPath (se_root env) (fld entry ''checked_in_path'')) (\<lambda>checkedInPath.
      if \<not> se_exists env checkedInPath then Inl (evidence_fail ''checked-in license text is missing'')
      else (case se_read env checkedInPath of
          None \<Rightarrow> Inl (evidence_fail ''checked-in license text is unreadable'')
        | Some content \<Rightarrow>
            if \<not> strict_eq (JStr (se_sha256 env content)) (fld entry ''collected_text_sha256'')
            then Inl (evidence_fail ''checked-in license text digest mismatch'')
            else if \<not> strict_eq (JStr (gitBlobSha1 (se_sha1 env) content)) (fld entry ''upstream_blob_sha1'')
            then Inl (evidence_fail ''upstream blob identity mismatch'')
            else Inr (js_spread entry ''absolute_checked_in_path'' (JStr checkedInPath))))))))"

text \<open>\<open>`${ecosystem}|${name}|${version}|${source}`\<close> of strings.\<close>

definition component_identity :: "js \<Rightarrow> string" where
  "component_identity c = str_of (fld c ''ecosystem'') @ ''|'' @ str_of (fld c ''name'') @ ''|'' @
     str_of (fld c ''version'') @ ''|'' @ str_of (fld c ''source'')"

text \<open>The loop over the entries, with the identities and the paths seen so far.\<close>

fun check_entries :: "string list \<Rightarrow> (string \<times> js) list \<Rightarrow> js list \<Rightarrow> unit res" where
  "check_entries identities paths [] = Inr ()"
| "check_entries identities paths (entry # entries) =
     (let identity = component_identity entry; path = str_of (fld entry ''checked_in_path'');
          digest = fld entry ''collected_text_sha256'' in
      if identity \<in> set identities then Inl (evidence_fail ''duplicate component identity'')
      else if (case map_of paths path of None \<Rightarrow> False | Some d \<Rightarrow> \<not> strict_eq d digest)
      then Inl (evidence_fail ''checked-in evidence path has conflicting digests'')
      else check_entries (identity # identities) ((path, digest) # paths) entries)"

definition loadThirdPartyLicenseEvidence :: "script_env \<Rightarrow> string \<Rightarrow> js list res" where
  "loadThirdPartyLicenseEvidence env manifestPath =
     (case se_json env manifestPath of
        None \<Rightarrow> Inl (evidence_fail ''manifest is unreadable or malformed'')
      | Some manifest \<Rightarrow>
          if \<not> isPlainObject manifest \<or> \<not> exactKeys manifest [''schema_version'', ''artifact_kind'', ''entries'']
          then Inl (evidence_fail ''third-party evidence manifest has unexpected or missing fields'')
          else if \<not> strict_eq (fld manifest ''schema_version'') (JInt 1) \<or>
             \<not> strict_eq (fld manifest ''artifact_kind'') (JStr ''third-party-license-source-evidence'') \<or>
             \<not> is_arr (fld manifest ''entries'')
          then Inl (evidence_fail ''third-party evidence manifest schema is unsupported'')
          else
          bindE (mapE (validateEntry env) (elems (fld manifest ''entries''))) (\<lambda>entries.
          bindE (check_entries [] [] entries) (\<lambda>_.
            Inr (sort_by (\<lambda>a b. se_collate env (component_identity a) (component_identity b)) entries))))"

definition thirdPartyLicenseEvidenceForComponent :: "script_env \<Rightarrow> string \<Rightarrow> js \<Rightarrow> js option res" where
  "thirdPartyLicenseEvidenceForComponent env manifestPath component =
     bindE (loadThirdPartyLicenseEvidence env manifestPath) (\<lambda>entries.
     (case find (\<lambda>c. component_identity c = ''cargo|'' @ str_of (fld component ''name'') @ ''|'' @
           str_of (fld component ''version'') @ ''|'' @ str_of (fld component ''source'')) entries of
        None \<Rightarrow> Inr None
      | Some entry \<Rightarrow>
          if \<not> strict_eq (fld component ''license_expression'') (fld entry ''spdx_license'')
          then Inl (evidence_fail ''license expression differs from authoritative evidence'')
          else Inr (Some entry)))"

definition readThirdPartyLicenseText :: "script_env \<Rightarrow> js \<Rightarrow> byte list res" where
  "readThirdPartyLicenseText env entry =
     (case se_read env (str_of (fld entry ''absolute_checked_in_path'')) of
        None \<Rightarrow> Inl (evidence_fail ''checked-in license text is unreadable'')
      | Some content \<Rightarrow>
          if \<not> strict_eq (JStr (se_sha256 env content)) (fld entry ''collected_text_sha256'')
          then Inl (evidence_fail ''checked-in license text digest mismatch'') else Inr content)"

definition EVIDENCE_METADATA_KEYS :: "string list" where
  "EVIDENCE_METADATA_KEYS = [''upstream_repository'', ''upstream_tag'', ''upstream_commit'', ''upstream_file_path'',
     ''upstream_blob_sha1'', ''checked_in_path'', ''collected_text_sha256'']"

definition thirdPartyLicenseEvidenceMetadata :: "js \<Rightarrow> js" where
  "thirdPartyLicenseEvidenceMetadata entry = JObj (map (\<lambda>k. (k, fld entry k)) EVIDENCE_METADATA_KEYS)"

definition validateThirdPartyLicenseEvidenceMetadata :: "script_env \<Rightarrow> string \<Rightarrow> js \<Rightarrow> js \<Rightarrow> js option res" where
  "validateThirdPartyLicenseEvidenceMetadata env manifestPath component metadata =
     bindE (thirdPartyLicenseEvidenceForComponent env manifestPath component) (\<lambda>expected.
     (case expected of
        None \<Rightarrow> (if \<not> nullish metadata then Inl (evidence_fail ''unexpected upstream evidence metadata'') else Inr None)
      | Some entry \<Rightarrow>
          if \<not> isPlainObject metadata then Inl (evidence_fail ''upstream evidence metadata is missing'')
          else if \<not> exactKeys metadata EVIDENCE_METADATA_KEYS
          then Inl (evidence_fail ''upstream evidence metadata has unexpected or missing fields'')
          else if \<not> json_same metadata (thirdPartyLicenseEvidenceMetadata entry)
          then Inl (evidence_fail ''upstream evidence identity mismatch'')
          else Inr (Some entry)))"

section \<open>What the evidence holds\<close>

text \<open>A text whose contents have the digest of the entry and the identity of the upstream blob.\<close>

definition evidence_text :: "script_env \<Rightarrow> js \<Rightarrow> byte list \<Rightarrow> bool" where
  "evidence_text env entry content \<longleftrightarrow> fld entry ''collected_text_sha256'' = JStr (se_sha256 env content) \<and>
     fld entry ''upstream_blob_sha1'' = JStr (gitBlobSha1 (se_sha1 env) content)"

lemma validateEntry_yields:
  "yields (validateEntry env entry) (\<lambda>out. \<exists>p content. fld entry ''checked_in_path'' = JStr p \<and> safe_path_spec p \<and>
     se_read env (posix_resolve (se_root env) [p]) = Some content \<and> evidence_text env out content \<and>
     fld out ''absolute_checked_in_path'' = JStr (posix_resolve (se_root env) [p]) \<and>
     component_identity out = component_identity entry)"
proof -
  have path: "yields (resolveCheckedInPath root v) (\<lambda>r. \<exists>p. v = JStr p \<and> safe_path_spec p \<and> r = posix_resolve root [p])" for root v
    unfolding resolveCheckedInPath_def by (intro yielding) (auto simp: unsafe_path_iff)
  show ?thesis
    unfolding validateEntry_def
    by (intro yielding)
      (auto simp: evidence_text_def fld_js_spread component_identity_def dest!: yieldsD [OF path])
qed

lemma load_entries:
  assumes "loadThirdPartyLicenseEvidence env path = Inr es" and "e \<in> set es"
  shows "\<exists>p content. safe_path_spec p \<and> se_read env (posix_resolve (se_root env) [p]) = Some content \<and>
     evidence_text env e content \<and> fld e ''absolute_checked_in_path'' = JStr (posix_resolve (se_root env) [p])"
proof -
  have "yields (loadThirdPartyLicenseEvidence env path) (\<lambda>es. \<exists>xs ys. mapE (validateEntry env) xs = Inr ys \<and> set es = set ys)"
    unfolding loadThirdPartyLicenseEvidence_def by (intro yielding) auto
  then obtain xs ys where "mapE (validateEntry env) xs = Inr ys" "e \<in> set ys"
    using assms by (auto simp: yields_def)
  then obtain x where "validateEntry env x = Inr e"
    using list_all2_right [of "\<lambda>x y. validateEntry env x = Inr y" xs ys e] by (auto simp: mapE_Inr_iff)
  then show ?thesis using yieldsD [OF validateEntry_yields] by blast
qed

text \<open>
  The evidence for a component, once loaded, can be read again, and the text read
  has the SHA-256 and the Git blob identity of its entry: the text comes from a safe relative
  path below the repository, and the license expression of the component is the recorded one.
\<close>

lemma evidence_round_trip:
  "case thirdPartyLicenseEvidenceForComponent env path component of
     Inr (Some entry) \<Rightarrow>
       (\<exists>content p. readThirdPartyLicenseText env entry = Inr content \<and> evidence_text env entry content \<and>
         safe_path_spec p \<and> fld entry ''absolute_checked_in_path'' = JStr (posix_resolve (se_root env) [p])) \<and>
       strict_eq (fld component ''license_expression'') (fld entry ''spdx_license'')
   | _ \<Rightarrow> True"
proof (cases "thirdPartyLicenseEvidenceForComponent env path component")
  case (Inr r)
  show ?thesis
  proof (cases r)
    case (Some entry)
    with Inr obtain es where es: "loadThirdPartyLicenseEvidence env path = Inr es" "entry \<in> set es"
        "strict_eq (fld component ''license_expression'') (fld entry ''spdx_license'')"
      by (auto simp: thirdPartyLicenseEvidenceForComponent_def bindE_Inr_iff dest: find_member
          split: option.splits if_splits)
    obtain p content where c: "safe_path_spec p" "se_read env (posix_resolve (se_root env) [p]) = Some content"
        "evidence_text env entry content" "fld entry ''absolute_checked_in_path'' = JStr (posix_resolve (se_root env) [p])"
      using load_entries [OF es(1,2)] by blast
    have "readThirdPartyLicenseText env entry = Inr content"
      using c(2-4) by (simp add: readThirdPartyLicenseText_def evidence_text_def)
    with Inr Some es(3) c show ?thesis by auto
  qed (use Inr in simp)
qed simp

end
