(* ===== verification/LicensePolicy.thy ===== *)
theory LicensePolicy
  imports LicenseSyntax ThirdPartyEvidence
begin

text \<open>
  \<open>scripts/release-license-policy.mjs\<close>: the decision on a license expression, the check of the
  license inventory against the SBOM, the policy artifact and the gate. What an error message
  interpolates is left out.
\<close>

definition policy_fail :: "string \<Rightarrow> js_error" where
  "policy_fail message = Fail (''Release license policy gate failed: '' @ message)"

definition LICENSE_POLICY_ALLOWLIST :: "string list" where
  "LICENSE_POLICY_ALLOWLIST = sort [''MIT'', ''Apache-2.0'', ''BSD-3-Clause'', ''CC0-1.0'', ''ISC'', ''Zlib'',
     ''Unlicense'', ''Unicode-3.0'']"

definition APPROVED_EXCEPTION_ALLOWLIST :: "string list" where
  "APPROVED_EXCEPTION_ALLOWLIST = []"

definition RECIPROCAL_LICENSE_IDENTIFIERS :: "string list" where
  "RECIPROCAL_LICENSE_IDENTIFIERS =
     [''AGPL-1.0-only'', ''AGPL-1.0-or-later'', ''AGPL-3.0-only'', ''AGPL-3.0-or-later'', ''CDDL-1.0'', ''CDDL-1.1'',
      ''CPL-1.0'', ''EPL-1.0'', ''EPL-2.0'', ''EUPL-1.1'', ''EUPL-1.2'', ''GPL-2.0-only'', ''GPL-2.0-or-later'',
      ''GPL-3.0-only'', ''GPL-3.0-or-later'', ''LGPL-2.0-only'', ''LGPL-2.0-or-later'', ''LGPL-2.1-only'',
      ''LGPL-2.1-or-later'', ''LGPL-3.0-only'', ''LGPL-3.0-or-later'', ''MPL-1.0'', ''MPL-1.1'', ''MPL-2.0'',
      ''OSL-1.0'', ''OSL-1.1'', ''OSL-2.0'', ''OSL-2.1'', ''OSL-3.0'', ''RPL-1.1'', ''RPL-1.5'']"

section \<open>The decision on an expression\<close>

text \<open>\<open>reasonCodes\<close> is a set that the evaluation of the tree fills from left to right.\<close>

definition identifierDecision :: "string \<Rightarrow> string list \<Rightarrow> string \<times> string list" where
  "identifierDecision identifier reasonCodes =
     (if identifier \<in> set LICENSE_POLICY_ALLOWLIST then (''allowed'', reasonCodes)
      else if identifier \<in> set RECIPROCAL_LICENSE_IDENTIFIERS
      then (''needs-user-decision'', set_add ''copyleft-or-reciprocal-license'' reasonCodes)
      else if identifier \<notin> set SPDX_LICENSE_IDENTIFIER_CATALOGUE \<and> \<not> starts_with LICENSE_REF identifier
      then (''needs-user-decision'', set_add ''unknown-license-identifier'' reasonCodes)
      else (''needs-user-decision'', set_add ''unapproved-license-identifier'' reasonCodes))"

fun evaluateExpressionTree :: "license_tree \<Rightarrow> string list \<Rightarrow> string \<times> string list" where
  "evaluateExpressionTree (License identifier exc) reasonCodes =
     (let (status, rs) = identifierDecision identifier reasonCodes in
      case exc of
        None \<Rightarrow> (status, rs)
      | Some x \<Rightarrow>
          if x \<notin> set APPROVED_EXCEPTION_ALLOWLIST
          then (''needs-user-decision'', set_add (if x \<in> set SPDX_EXCEPTION_IDENTIFIER_CATALOGUE
            then ''unapproved-spdx-exception'' else ''unknown-spdx-exception'') rs)
          else (status, rs))"
| "evaluateExpressionTree (Binary op a b) reasonCodes =
     (let (sa, ra) = evaluateExpressionTree a reasonCodes; (sb, rb) = evaluateExpressionTree b ra in
      (if sa = ''allowed'' \<and> sb = ''allowed'' then ''allowed'' else ''needs-user-decision'', rb))"

text \<open>
  \<open>canonicalExpressionTree\<close>: the operands of a run of one operator as one list, sorted by their
  JSON text. \<open>collect_operands\<close> is its inner function \<open>collect\<close>.
\<close>

definition op_name :: "license_op \<Rightarrow> string" where
  "op_name op = (case op of OrOp \<Rightarrow> ''OR'' | AndOp \<Rightarrow> ''AND'')"

definition json_text :: "js \<Rightarrow> string" where
  "json_text v = (case json_str v of None \<Rightarrow> ''undefined'' | Some s \<Rightarrow> s)"

function canonicalExpressionTree :: "(string \<Rightarrow> string \<Rightarrow> int) \<Rightarrow> license_tree \<Rightarrow> js"
  and collect_operands :: "(string \<Rightarrow> string \<Rightarrow> int) \<Rightarrow> license_op \<Rightarrow> license_tree \<Rightarrow> js list" where
  "canonicalExpressionTree collate (License i x) =
     JObj ([(''kind'', JStr ''license''), (''identifier'', JStr i)] @
       (case x of None \<Rightarrow> [] | Some y \<Rightarrow> [(''exception'', JStr y)]))"
| "canonicalExpressionTree collate (Binary op a b) =
     JObj [(''kind'', JStr ''binary''), (''operator'', JStr (op_name op)),
       (''operands'', JArr (sort_by (\<lambda>l r. collate (json_text l) (json_text r))
          (collect_operands collate op a @ collect_operands collate op b)))]"
| "collect_operands collate op (License i x) = [canonicalExpressionTree collate (License i x)]"
| "collect_operands collate op (Binary op' a b) =
     (if op' = op then collect_operands collate op a @ collect_operands collate op b
      else [canonicalExpressionTree collate (Binary op' a b)])"
  by pat_completeness auto
termination
  by (relation "measures [\<lambda>s. case s of Inl (c, t) \<Rightarrow> size t | Inr (c, op, t) \<Rightarrow> size t,
      \<lambda>s. case s of Inl _ \<Rightarrow> 0 | Inr _ \<Rightarrow> (1 :: nat)]") auto

record evaluation =
  ev_status :: string
  ev_identifiers :: "string list"
  ev_exceptions :: "string list"
  ev_expression_tree :: js
  ev_reason_codes :: "string list"

text \<open>\<open>None\<close> is anything but a string.\<close>

definition evaluateLicenseExpression :: "(string \<Rightarrow> string \<Rightarrow> int) \<Rightarrow> string option \<Rightarrow> evaluation" where
  "evaluateLicenseExpression collate expression =
     (let invalid = (\<lambda>reason. \<lparr>ev_status = ''invalid-metadata'', ev_identifiers = [], ev_exceptions = [],
            ev_expression_tree = JNull, ev_reason_codes = [reason]\<rparr>) in
      case expression of
        None \<Rightarrow> invalid ''missing-license-expression''
      | Some e \<Rightarrow>
          if length e = 0 then invalid ''missing-license-expression''
          else (case parseLicenseExpressionSyntax e of
              Inl _ \<Rightarrow> invalid ''invalid-spdx-syntax''
            | Inr (tree, identifiers, exceptions) \<Rightarrow>
                (let (status, reasonCodes) = evaluateExpressionTree tree [] in
                 \<lparr>ev_status = status, ev_identifiers = sort identifiers, ev_exceptions = sort exceptions,
                  ev_expression_tree = canonicalExpressionTree collate tree, ev_reason_codes = sort reasonCodes\<rparr>)))"

text \<open>The closed-world rule on a tree.\<close>

definition approved_tree :: "license_tree \<Rightarrow> bool" where
  "approved_tree t \<longleftrightarrow> (\<forall>(i, x) \<in> set (leaves t). i \<in> set LICENSE_POLICY_ALLOWLIST \<and> x = None)"

lemma identifierDecision_allowed: "fst (identifierDecision i rs) = ''allowed'' \<longleftrightarrow> i \<in> set LICENSE_POLICY_ALLOWLIST"
  by (simp add: identifierDecision_def)

lemma evaluateExpressionTree_allowed: "fst (evaluateExpressionTree t rs) = ''allowed'' \<longleftrightarrow> approved_tree t"
proof (induction t arbitrary: rs)
  case (License i x)
  then show ?case
    using identifierDecision_allowed [of i rs]
    by (cases x) (auto simp: approved_tree_def APPROVED_EXCEPTION_ALLOWLIST_def split: prod.splits)
next
  case (Binary op a b)
  obtain sa ra where a: "evaluateExpressionTree a rs = (sa, ra)" by fastforce
  obtain sb rb where b: "evaluateExpressionTree b ra = (sb, rb)" by fastforce
  show ?case using Binary.IH(1) [of rs] Binary.IH(2) [of ra] by (simp add: a b approved_tree_def ball_Un)
qed

text \<open>An expression whose every identifier is on the allowlist, without exceptions.\<close>

definition approved_expression :: "string \<Rightarrow> bool" where
  "approved_expression e \<longleftrightarrow> (\<exists>ts t. tokenizeLicenseExpression e = Inr ts \<and> g_or ts t \<and> approved_tree t)"

lemma evaluate_allowed:
  "ev_status (evaluateLicenseExpression collate (Some e)) = ''allowed'' \<longleftrightarrow> approved_expression e"
proof (cases "parseLicenseExpressionSyntax e")
  case (Inl x)
  then have "\<not> approved_expression e"
    using parse_syntax_complete [of e] unfolding approved_expression_def by (metis Inl_Inr_False)
  with Inl show ?thesis by (simp add: evaluateLicenseExpression_def Let_def)
next
  case (Inr r)
  obtain t ids excs where r: "r = (t, ids, excs)" by (cases r)
  obtain s rs where s: "evaluateExpressionTree t [] = (s, rs)" by fastforce
  have ne: "e \<noteq> []"
    using Inr by (auto simp: parseLicenseExpressionSyntax_def tokenizeLicenseExpression_def bindE_Inr_iff split: if_splits)
  have same: "t' = t" if "tokenizeLicenseExpression e = Inr ts" "g_or ts t'" for ts t'
    using parse_syntax_complete [OF that] Inr r by simp
  obtain ts where "tokenizeLicenseExpression e = Inr ts" "g_or ts t" using parse_syntax Inr r by blast
  then have "approved_expression e \<longleftrightarrow> approved_tree t"
    unfolding approved_expression_def using same by blast
  then show ?thesis
    using ne Inr r s evaluateExpressionTree_allowed [of t "[]"]
    by (simp add: evaluateLicenseExpression_def Let_def)
qed

text \<open>
  The policy is closed-world: an expression is allowed exactly when it is a
  phrase of the grammar in which every license identifier, under \<open>OR\<close> as well as under
  \<open>AND\<close>, is on the allowlist and no exception is attached; an identifier that is not approved
  cannot hide behind an alternative.
\<close>

lemma evaluateLicenseExpression_closed_world:
  "ev_status (evaluateLicenseExpression collate (Some e)) = ''allowed'' \<longleftrightarrow> approved_expression e"
  by (rule evaluate_allowed)

end
