(* ===== verification/LicenseGate.thy ===== *)
theory LicenseGate
  imports LicensePolicy
begin

text \<open>
  The gate of \<open>scripts/release-license-policy.mjs\<close>: \<open>validateInventoryAndSbom\<close>,
  \<open>evaluateInventory\<close>, the two artifacts, the digest list and the command.
\<close>

section \<open>Inventory and SBOM\<close>

fun policy_checks :: "(bool \<times> string) list \<Rightarrow> unit res" where
  "policy_checks [] = Inr ()"
| "policy_checks ((ok, message) # cs) = (if \<not> ok then Inl (policy_fail message) else policy_checks cs)"

definition matches :: "rx \<Rightarrow> js \<Rightarrow> bool" where
  "matches r v \<longleftrightarrow> is_str v \<and> rx_test r (str_of v)"

definition validTextFile :: "js \<Rightarrow> bool" where
  "validTextFile v \<longleftrightarrow> isPlainObject v \<and> exactKeys v [''path'', ''sha256''] \<and> \<not> unsafe_path (fld v ''path'') \<and>
     matches hash_pattern (fld v ''sha256'')"

definition template_text :: "js \<Rightarrow> string" where
  "template_text v = (case to_str v of Some s \<Rightarrow> s | None \<Rightarrow> '''')"

definition expectedPackageComment :: "js \<Rightarrow> js \<Rightarrow> string" where
  "expectedPackageComment component inventory =
     ''source='' @ str_of (fld component ''source'') @ ''; source_commit='' @ str_of (fld inventory ''source_commit'') @
     ''; cargo_lock_sha256='' @ str_of (fld inventory ''cargo_lock_sha256'') @ ''; artifact_roles='' @
     join '','' (map str_of (elems (fld component ''artifact_roles''))) @ ''; declared_license_metadata='' @
     (case fld component ''declared_license_metadata'' of JStr s \<Rightarrow> s | _ \<Rightarrow> ''MISSING'')"

definition inventory_checks :: "js \<Rightarrow> js \<Rightarrow> (bool \<times> string) list" where
  "inventory_checks inventory document =
     [(isPlainObject inventory \<and> strict_eq (fld inventory ''schema_version'') (JInt 2) \<and>
        strict_eq (fld inventory ''inventory_kind'') (JStr ''license''), ''license inventory schema is unsupported''),
      (is_str (fld inventory ''package_name'') \<and> matches version_pattern (fld inventory ''package_version'') \<and>
        matches commit_pattern (fld inventory ''source_commit'') \<and>
        matches hash_pattern (fld inventory ''cargo_lock_sha256'') \<and>
        matches hash_pattern (fld inventory ''pnpm_lock_sha256'') \<and>
        strict_eq (fld inventory ''sbom_file'') (JStr ''sbom.spdx.json'') \<and> is_arr (fld inventory ''components''),
        ''license inventory identity is invalid''),
      (isPlainObject document \<and> strict_eq (fld document ''SPDXID'') (JStr ''SPDXRef-DOCUMENT'') \<and>
        strict_eq (fld document ''spdxVersion'') (JStr ''SPDX-2.3'') \<and> is_arr (fld document ''packages''),
        ''SPDX document identity is invalid''),
      (length (elems (fld document ''packages'')) = length (elems (fld inventory ''components'')),
        ''license inventory and SBOM component counts differ'')]"

fun package_index :: "(string \<times> js) list \<Rightarrow> js list \<Rightarrow> (string \<times> js) list res" where
  "package_index byId [] = Inr byId"
| "package_index byId (p # ps) =
     (if \<not> isPlainObject p \<or> \<not> is_str (fld p ''SPDXID'') \<or> str_of (fld p ''SPDXID'') \<in> set (map fst byId)
      then Inl (policy_fail ''SPDX package identity is missing or duplicated'')
      else package_index (byId @ [(str_of (fld p ''SPDXID''), p)]) ps)"

definition COMPONENT_KEYS :: "string list" where
  "COMPONENT_KEYS = [''ecosystem'', ''name'', ''version'', ''source'', ''spdx_id'', ''license_expression'',
     ''declared_license_metadata'', ''generator_license_expression'', ''license_status'', ''license_text_status'',
     ''license_text_files'', ''clarification_reason'', ''license_normalization'', ''artifact_roles'']"

definition null_or_str :: "js \<Rightarrow> bool" where
  "null_or_str v \<longleftrightarrow> strict_eq v JNull \<or> is_str v"

definition component_checks :: "string list \<Rightarrow> string list \<Rightarrow> js \<Rightarrow> (bool \<times> string) list" where
  "component_checks identities spdxIds c =
     (let roles = elems (fld c ''artifact_roles'') in
     [(isPlainObject c \<and> exactKeys c (COMPONENT_KEYS @ (if has_own c ''checksum_sha256'' then [''checksum_sha256''] else [])),
        ''license inventory component''),
      (is_str (fld c ''ecosystem'') \<and> is_str (fld c ''name'') \<and> matches version_pattern (fld c ''version'') \<and>
        nonEmptyString (fld c ''source'') \<and> is_str (fld c ''spdx_id'') \<and> str_of (fld c ''spdx_id'') \<notin> set spdxIds,
        ''license inventory component identity is invalid''),
      (component_identity c \<notin> set identities, ''license inventory component identity is duplicated''),
      (null_or_str (fld c ''license_expression''), ''license expression is invalid''),
      (null_or_str (fld c ''declared_license_metadata''), ''declared license metadata is invalid''),
      (fld c ''license_status'' \<in> JStr ` set [''resolved'', ''unknown'', ''missing''], ''license metadata status is invalid''),
      (fld c ''license_text_status'' \<in> JStr ` set [''resolved'', ''missing'', ''ambiguous'', ''unavailable''],
        ''license text status is invalid''),
      (is_arr (fld c ''license_text_files''), ''license text evidence is invalid''),
      (list_all validTextFile (elems (fld c ''license_text_files'')), ''license text evidence''),
      (null_or_str (fld c ''clarification_reason''), ''license clarification is invalid''),
      (isPlainObject (fld c ''license_normalization'') \<and> is_bool (fld (fld c ''license_normalization'') ''applied''),
        ''license normalization is invalid''),
      (is_arr (fld c ''artifact_roles'') \<and> list_all is_str roles \<and> distinct (map str_of roles), ''artifact roles are invalid''),
      (sort (map str_of roles) = map str_of roles, ''artifact roles are not canonical''),
      (fld c ''checksum_sha256'' = JUndef \<or> matches hash_pattern (fld c ''checksum_sha256''), ''component checksum is invalid'')])"

text \<open>What the inventory says of a component, against its package of the SBOM.\<close>

definition package_checks :: "js \<Rightarrow> js \<Rightarrow> js \<Rightarrow> (bool \<times> string) list" where
  "package_checks inventory c p =
     (let declared = fld p ''licenseDeclared''; expression = fld c ''license_expression'';
          cargo = strict_eq (fld c ''ecosystem'') (JStr ''cargo'');
          registry = starts_with ''registry+'' (str_of (fld c ''source'')) in
     [(strict_eq (fld p ''name'') (fld c ''name'') \<and> strict_eq (fld p ''versionInfo'') (fld c ''version'') \<and>
        strict_eq (fld p ''packageComment'') (JStr (expectedPackageComment c inventory)),
        ''license inventory and SBOM identity mismatch''),
      (strict_eq declared (if nullish expression then JStr ''NOASSERTION'' else expression),
        ''license inventory and SBOM license mismatch''),
      (\<not> (cargo \<and> \<not> strict_eq expression JNull \<and> \<not> strict_eq (fld c ''generator_license_expression'') declared),
        ''cargo generator license mismatch''),
      (\<not> (cargo \<and> strict_eq expression JNull \<and> \<not> strict_eq declared (JStr ''NOASSERTION'')),
        ''unresolved cargo license must be NOASSERTION in SBOM''),
      (\<not> (strict_eq (fld c ''ecosystem'') (JStr ''npm'') \<and> \<not> strict_eq (fld c ''generator_license_expression'') JNull),
        ''npm generator license is unexpected''),
      (\<not> (registry \<and> \<not> strict_eq (fld p ''downloadLocation'') (fld c ''source'')), ''registry source mismatch''),
      (\<not> (\<not> registry \<and> \<not> strict_eq (fld p ''downloadLocation'') (JStr ''NOASSERTION'')), ''local source mismatch'')])"

definition checksum_check :: "js \<Rightarrow> js \<Rightarrow> unit res" where
  "checksum_check c p =
     (let sums = fld p ''checksums'' in
      if fld c ''checksum_sha256'' \<noteq> JUndef then
        (if \<not> is_arr sums \<or> length (elems sums) \<noteq> 1 then Inl (policy_fail ''component checksum mismatch'')
         else guard_any (policy_fail ''component checksum mismatch'')
           [bindE (getp (hd (elems sums)) ''algorithm'') (\<lambda>a. Inr (\<not> strict_eq a (JStr ''SHA256''))),
            bindE (getp (hd (elems sums)) ''checksumValue'') (\<lambda>v. Inr (\<not> strict_eq v (fld c ''checksum_sha256'')))])
      else if sums \<noteq> JUndef then Inl (policy_fail ''unexpected component checksum'')
      else Inr ())"

fun inventory_components ::
  "js \<Rightarrow> (string \<times> js) list \<Rightarrow> string list \<Rightarrow> string list \<Rightarrow> js list \<Rightarrow> string list res" where
  "inventory_components inventory byId identities spdxIds [] = Inr spdxIds"
| "inventory_components inventory byId identities spdxIds (c # cs) =
     (if nullish c then Inl TypeErr
      else
      bindE (policy_checks (component_checks identities spdxIds c)) (\<lambda>_.
      (case map_of byId (str_of (fld c ''spdx_id'')) of
         None \<Rightarrow> Inl (policy_fail ''license inventory and SBOM identity mismatch'')
       | Some p \<Rightarrow>
           bindE (policy_checks (package_checks inventory c p)) (\<lambda>_.
           bindE (checksum_check c p) (\<lambda>_.
             inventory_components inventory byId (component_identity c # identities)
               (str_of (fld c ''spdx_id'') # spdxIds) cs)))))"

definition validateInventoryAndSbom :: "js \<Rightarrow> js \<Rightarrow> bool res" where
  "validateInventoryAndSbom inventory document =
     bindE (policy_checks (inventory_checks inventory document)) (\<lambda>_.
     bindE (package_index [] (elems (fld document ''packages''))) (\<lambda>byId.
     bindE (inventory_components inventory byId [] [] (elems (fld inventory ''components''))) (\<lambda>spdxIds.
       if list_ex (\<lambda>i. i \<notin> set spdxIds) (map fst byId)
       then Inl (policy_fail ''SBOM contains a package absent from license inventory'')
       else Inr True)))"

section \<open>Evaluation\<close>

definition missing_declaration :: "js \<Rightarrow> bool" where
  "missing_declaration c \<longleftrightarrow> strict_eq (fld c ''declared_license_metadata'') JNull \<or>
     length (str_of (fld c ''declared_license_metadata'')) = 0"

definition str_option :: "js \<Rightarrow> string option" where
  "str_option v = (case v of JStr s \<Rightarrow> Some s | _ \<Rightarrow> None)"

definition derivedLicenseMetadataStatus :: "js \<Rightarrow> string" where
  "derivedLicenseMetadataStatus c =
     (if \<not> strict_eq (fld c ''license_expression'') JNull then ''resolved''
      else if missing_declaration c then ''missing'' else ''unknown'')"

definition evaluate_component :: "(string \<Rightarrow> string \<Rightarrow> int) \<Rightarrow> js \<Rightarrow> (js \<times> evaluation) res" where
  "evaluate_component collate c =
     (let evaluation =
        (if missing_declaration c then
           \<lparr>ev_status = ''missing-declared-metadata'', ev_identifiers = [], ev_exceptions = [],
            ev_expression_tree = JNull, ev_reason_codes = [''missing-declared-metadata'']\<rparr>
         else if strict_eq (fld c ''license_expression'') JNull then
           (let raw = evaluateLicenseExpression collate (str_option (fld c ''declared_license_metadata'')) in
            if ev_status raw = ''allowed''
            then raw\<lparr>ev_status := ''invalid-metadata'', ev_reason_codes := [''missing-normalized-license-expression'']\<rparr>
            else raw)
         else evaluateLicenseExpression collate (str_option (fld c ''license_expression''))) in
      if \<not> strict_eq (fld c ''license_status'') (JStr (derivedLicenseMetadataStatus c))
      then Inl (policy_fail ''license metadata status does not match Phase 4A observation'')
      else Inr (c, evaluation))"

definition evaluateInventory :: "(string \<Rightarrow> string \<Rightarrow> int) \<Rightarrow> js \<Rightarrow> js \<Rightarrow> (js \<times> evaluation) list res" where
  "evaluateInventory collate inventory document =
     bindE (validateInventoryAndSbom inventory document) (\<lambda>_.
     bindE (mapE (evaluate_component collate) (elems (fld inventory ''components''))) (\<lambda>evaluations.
       Inr (sort_by (\<lambda>l r. collate (component_identity (fst l)) (component_identity (fst r))) evaluations)))"

definition bad_status :: "string \<Rightarrow> bool" where
  "bad_status s \<longleftrightarrow> s = ''invalid-metadata'' \<or> s = ''missing-declared-metadata''"

definition gateStatus :: "(js \<times> evaluation) list \<Rightarrow> string" where
  "gateStatus evaluations =
     (if list_ex (\<lambda>(c, e). bad_status (ev_status e)) evaluations then ''FAIL''
      else if list_ex (\<lambda>(c, e). ev_status e = ''needs-user-decision'') evaluations then ''NEEDS USER DECISION''
      else ''PASS'')"

section \<open>The policy artifact\<close>

definition strings :: "string list \<Rightarrow> js" where
  "strings xs = JArr (map JStr xs)"

definition null_or :: "string option \<Rightarrow> js" where
  "null_or h = (case h of None \<Rightarrow> JNull | Some s \<Rightarrow> JStr s)"

definition policy_decisions :: "(string \<Rightarrow> string \<Rightarrow> int) \<Rightarrow> (js \<times> evaluation) list \<Rightarrow> js list" where
  "policy_decisions collate evaluations =
     map (\<lambda>(component, reason). JObj [(''component'', JStr component), (''reason'', JStr reason)])
       (sort_by (\<lambda>l r. collate (fst l @ ''|'' @ snd l) (fst r @ ''|'' @ snd r))
         (concat (map (\<lambda>(c, e). map (Pair (component_identity c)) (ev_reason_codes e))
           (filter (\<lambda>(c, e). ev_status e = ''needs-user-decision'') evaluations))))"

definition policy_invalid :: "(string \<Rightarrow> string \<Rightarrow> int) \<Rightarrow> (js \<times> evaluation) list \<Rightarrow> js list" where
  "policy_invalid collate evaluations =
     map (\<lambda>(c, e). JObj [(''component'', JStr (component_identity c)), (''status'', JStr (ev_status e)),
         (''reason_codes'', strings (ev_reason_codes e))])
       (sort_by (\<lambda>l r. collate (component_identity (fst l) @ ''|'' @ ev_status (snd l))
           (component_identity (fst r) @ ''|'' @ ev_status (snd r)))
         (filter (\<lambda>(c, e). bad_status (ev_status e)) evaluations))"

definition policy_missing_text :: "(string \<Rightarrow> string \<Rightarrow> int) \<Rightarrow> (js \<times> evaluation) list \<Rightarrow> js list" where
  "policy_missing_text collate evaluations =
     map (\<lambda>(c, e). JObj [(''component'', JStr (component_identity c)), (''spdx_id'', fld c ''spdx_id''),
         (''status'', fld c ''license_text_status''), (''files'', fld c ''license_text_files'')])
       (sort_by (\<lambda>l r. collate (component_identity (fst l)) (component_identity (fst r)))
         (filter (\<lambda>(c, e). \<not> strict_eq (fld c ''license_text_status'') (JStr ''resolved'')) evaluations))"

definition policy_component :: "js \<times> evaluation \<Rightarrow> js" where
  "policy_component entry = (case entry of (c, e) \<Rightarrow> JObj
     (map (\<lambda>k. (k, fld c k)) [''ecosystem'', ''name'', ''version'', ''source'', ''spdx_id'',
        ''declared_license_metadata'', ''license_expression''] @
      [(''policy_status'', JStr (ev_status e)), (''reason_codes'', strings (ev_reason_codes e)),
       (''identifiers'', strings (ev_identifiers e)), (''exceptions'', strings (ev_exceptions e)),
       (''expression_tree'', ev_expression_tree e)] @
      map (\<lambda>k. (k, fld c k)) [''license_text_status'', ''license_text_files'']))"

definition createLicensePolicyArtifact ::
  "(string \<Rightarrow> string \<Rightarrow> int) \<Rightarrow> js \<Rightarrow> js \<Rightarrow> string option \<Rightarrow> string option \<Rightarrow> js res" where
  "createLicensePolicyArtifact collate inventory document inventorySha256 sbomSha256 =
     bindE (evaluateInventory collate inventory document) (\<lambda>evaluations. Inr (JObj
       [(''schema_version'', JInt 1), (''artifact_kind'', JStr ''license-policy''),
        (''package_name'', fld inventory ''package_name''), (''package_version'', fld inventory ''package_version''),
        (''source_commit'', fld inventory ''source_commit''),
        (''inventory_file'', if strict_eq (fld inventory ''sbom_file'') (JStr ''sbom.spdx.json'')
           then JStr ''license-inventory.json'' else fld inventory ''sbom_file''),
        (''inventory_sha256'', null_or inventorySha256), (''sbom_file'', JStr ''sbom.spdx.json''),
        (''sbom_sha256'', null_or sbomSha256), (''gate_status'', JStr (gateStatus evaluations)),
        (''policy'', JObj [(''allowlist'', strings LICENSE_POLICY_ALLOWLIST),
           (''approved_exceptions'', strings APPROVED_EXCEPTION_ALLOWLIST),
           (''syntax_catalogue'', strings (sort SPDX_LICENSE_IDENTIFIER_CATALOGUE)),
           (''exception_catalogue'', strings (sort SPDX_EXCEPTION_IDENTIFIER_CATALOGUE)),
           (''expression_rule'', JStr ''Every license identifier and exception in the SPDX expression must be approved; OR order is not significant.'')]),
        (''components'', JArr (map policy_component evaluations)),
        (''needs_user_decision'', JArr (policy_decisions collate evaluations)),
        (''invalid_metadata'', JArr (policy_invalid collate evaluations)),
        (''license_text_missing_observations'', JArr (policy_missing_text collate evaluations)),
        (''third_party_license_artifact'', JStr ''THIRD_PARTY_LICENSES.json'')]))"


section \<open>The notice artifact\<close>

definition isThirdPartyComponent :: "js \<Rightarrow> bool" where
  "isThirdPartyComponent c \<longleftrightarrow> strict_eq (fld c ''ecosystem'') (JStr ''cargo'') \<and>
     starts_with ''registry+'' (str_of (fld c ''source''))"

text \<open>The packages of all metadata files; a null among them throws where its name is read.\<close>

definition metadata_packages :: "js list \<Rightarrow> js list res" where
  "metadata_packages metadata =
     (if list_ex nullish metadata then Inl TypeErr
      else let ps = concat (map (\<lambda>m. elems (fld m ''packages'')) metadata) in
        if list_ex nullish ps then Inl TypeErr else Inr ps)"

definition candidate_paths :: "script_env \<Rightarrow> js \<Rightarrow> js list \<Rightarrow> string list" where
  "candidate_paths env entry ps =
     sort_by (se_collate env) (map (\<lambda>p. str_of (fld p ''manifest_path''))
       (filter (\<lambda>p. strict_eq (fld p ''name'') (fld entry ''name'') \<and> strict_eq (fld p ''version'') (fld entry ''version'') \<and>
          strict_eq (fld p ''source'') (fld entry ''source'') \<and> is_str (fld p ''manifest_path'')) ps))"

definition license_text :: "js \<Rightarrow> string \<Rightarrow> js" where
  "license_text file s = JObj [(''path'', fld file ''path''), (''sha256'', fld file ''sha256''), (''text'', JStr s)]"

text \<open>The texts of one file in the sources of the package: \<open>None\<close> when no candidate has the file.\<close>

definition collect_text :: "script_env \<Rightarrow> string list \<Rightarrow> js \<Rightarrow> js option res" where
  "collect_text env manifests file =
     (let existing = filter (se_exists env)
          (map (\<lambda>m. posix_resolve (se_root env) [posix_dirname m, str_of (fld file ''path'')]) manifests) in
      bindE (mapE (\<lambda>p. case se_read env p of None \<Rightarrow> Inl (Fail ''unreadable'') | Some b \<Rightarrow> Inr b) existing) (\<lambda>contents.
      case filter (\<lambda>b. strict_eq (JStr (se_sha256 env b)) (fld file ''sha256'')) contents of
        b # _ \<Rightarrow> Inr (Some (license_text file (se_text env b)))
      | [] \<Rightarrow> (if existing = [] then Inr None else Inl (policy_fail ''third-party license text hash mismatch''))))"

fun collect_texts :: "script_env \<Rightarrow> string list \<Rightarrow> js list \<Rightarrow> js list option res" where
  "collect_texts env manifests [] = Inr (Some [])"
| "collect_texts env manifests (file # files) =
     bindE (collect_text env manifests file) (\<lambda>t.
     (case t of
        None \<Rightarrow> Inr None
      | Some x \<Rightarrow> bindE (collect_texts env manifests files) (\<lambda>xs. Inr (map_option (Cons x) xs))))"

text \<open>The text of a file from checked-in evidence, which must be the one of the entry.\<close>

definition evidence_text_of :: "script_env \<Rightarrow> js \<Rightarrow> js \<Rightarrow> js res" where
  "evidence_text_of env evidence file =
     (if \<not> strict_eq (fld file ''path'') (fld evidence ''upstream_file_path'') \<or>
         \<not> strict_eq (fld file ''sha256'') (fld evidence ''collected_text_sha256'')
      then Inl (policy_fail ''third-party checked-in evidence identity mismatch'')
      else bindE (readThirdPartyLicenseText env evidence) (\<lambda>b. Inr (license_text file (se_text env b))))"

definition sourceLicenseTexts :: "script_env \<Rightarrow> string \<Rightarrow> js \<Rightarrow> js list \<Rightarrow> js list option res" where
  "sourceLicenseTexts env evidencePath entry cargoMetadata =
     bindE (thirdPartyLicenseEvidenceForComponent env evidencePath entry) (\<lambda>evidence.
     (case evidence of
        Some x \<Rightarrow> bindE (mapE (evidence_text_of env x) (elems (fld entry ''license_text_files''))) (\<lambda>ts. Inr (Some ts))
      | None \<Rightarrow>
          bindE (metadata_packages cargoMetadata) (\<lambda>ps.
          let manifests = candidate_paths env entry ps in
          if manifests = [] then Inr None
          else collect_texts env manifests (elems (fld entry ''license_text_files'')))))"

definition third_party_component :: "script_env \<Rightarrow> string \<Rightarrow> js list \<Rightarrow> js \<Rightarrow> js res" where
  "third_party_component env evidencePath cargoMetadata c =
     (let resolved = strict_eq (fld c ''license_text_status'') (JStr ''resolved'');
          result = map (\<lambda>k. (k, fld c k)) [''ecosystem'', ''name'', ''version'', ''source'', ''spdx_id'',
            ''license_expression'', ''license_text_status'', ''license_text_files''] @
            [(''collection_status'', JStr (if resolved then ''available'' else ''pending-source-evidence''))] in
      bindE (thirdPartyLicenseEvidenceForComponent env evidencePath c) (\<lambda>evidence.
      let with_evidence = result @ (case evidence of None \<Rightarrow> []
            | Some x \<Rightarrow> [(''upstream_evidence'', thirdPartyLicenseEvidenceMetadata x)]) in
      if resolved \<and> cargoMetadata \<noteq> [] then
        bindE (sourceLicenseTexts env evidencePath c cargoMetadata) (\<lambda>texts.
        (case texts of
           Some ts \<Rightarrow> Inr (JObj (with_evidence @ [(''license_texts'', JArr ts)]))
         | None \<Rightarrow> Inr (js_spread (JObj with_evidence) ''collection_status'' (JStr ''pending-source-evidence''))))
      else Inr (JObj with_evidence)))"

definition notice_key :: "js \<Rightarrow> string" where
  "notice_key c = str_of (fld c ''name'') @ ''|'' @ str_of (fld c ''version'') @ ''|'' @ str_of (fld c ''source'')"

definition is_available :: "js \<Rightarrow> bool" where
  "is_available c \<longleftrightarrow> strict_eq (fld c ''collection_status'') (JStr ''available'')"

definition createThirdPartyLicenseArtifact ::
  "script_env \<Rightarrow> string \<Rightarrow> js \<Rightarrow> js \<Rightarrow> string option \<Rightarrow> js list \<Rightarrow> js res" where
  "createThirdPartyLicenseArtifact env evidencePath inventory document inventorySha256 cargoMetadata =
     bindE (evaluateInventory (se_collate env) inventory document) (\<lambda>evaluations.
     bindE (mapE (third_party_component env evidencePath cargoMetadata)
         (filter isThirdPartyComponent (map fst evaluations))) (\<lambda>unsorted.
     let components = sort_by (\<lambda>l r. se_collate env (notice_key l) (notice_key r)) unsorted;
         collectionStatus = (if list_all is_available components then ''complete'' else ''incomplete'');
         textContentStatus =
           (if components = [] then ''not-applicable''
            else if cargoMetadata \<noteq> [] \<and> list_all (\<lambda>c. is_available c \<and> is_arr (fld c ''license_texts'')) components
            then ''collected'' else ''not-collected'') in
     Inr (JObj
       [(''schema_version'', JInt 1), (''artifact_kind'', JStr ''third-party-license-notice-evidence''),
        (''package_name'', fld inventory ''package_name''), (''package_version'', fld inventory ''package_version''),
        (''source_commit'', fld inventory ''source_commit''), (''inventory_file'', JStr ''license-inventory.json''),
        (''inventory_sha256'', null_or inventorySha256), (''collection_status'', JStr collectionStatus),
        (''text_content_status'', JStr textContentStatus),
        (''final_release_text_gate'', JObj [(''required'', JBool True),
           (''status'', JStr (if collectionStatus = ''complete'' \<and>
               (textContentStatus = ''collected'' \<or> textContentStatus = ''not-applicable'') then ''ready'' else ''pending'')),
           (''enforcement'', JStr ''release-license-policy.mjs --require-third-party-license-text'')]),
        (''legal_obligation_determination'', JStr ''not-performed''), (''components'', JArr components)])))"

section \<open>The gate\<close>

definition enforceLicensePolicy :: "js \<Rightarrow> js \<Rightarrow> bool \<Rightarrow> unit res" where
  "enforceLicensePolicy policy thirdParty requireThirdPartyLicenseText =
     (if strict_eq (fld policy ''gate_status'') (JStr ''NEEDS USER DECISION'')
      then Inl (policy_fail ''NEEDS USER DECISION'')
      else if strict_eq (fld policy ''gate_status'') (JStr ''FAIL'')
      then Inl (policy_fail ''license metadata is invalid or missing'')
      else if requireThirdPartyLicenseText \<and>
         \<not> strict_eq (fld (fld thirdParty ''final_release_text_gate'') ''status'') (JStr ''ready'')
      then Inl (policy_fail ''final third-party license / notice text evidence is incomplete'')
      else Inr ())"

record policy_paths =
  pp_inventory :: string
  pp_sbom :: string
  pp_sbom_sums :: string
  pp_policy :: string
  pp_third_party :: string
  pp_policy_sums :: string
  pp_cargo_metadata :: "string list"
  pp_require_text :: bool

definition policy_json :: "script_env \<Rightarrow> string \<Rightarrow> js res" where
  "policy_json env path = (case se_json env path of None \<Rightarrow> Inl (policy_fail ''unreadable or malformed'') | Some v \<Rightarrow> Inr v)"

definition policy_sha256 :: "script_env \<Rightarrow> string \<Rightarrow> string res" where
  "policy_sha256 env path =
     (case se_read env path of None \<Rightarrow> Inl (policy_fail ''unreadable'') | Some b \<Rightarrow> Inr (se_sha256 env b))"

definition validateLicensePolicySums :: "script_env \<Rightarrow> string \<Rightarrow> string \<Rightarrow> string \<Rightarrow> unit res" where
  "validateLicensePolicySums env path policyPath thirdPartyPath =
     (case se_read env path of
        None \<Rightarrow> Inl (policy_fail ''unreadable'')
      | Some b \<Rightarrow>
          if \<not> ends_with [CHR 0x0A] (se_text env b) then Inl (policy_fail ''LICENSE-POLICY-SHA256SUMS'')
          else
          bindE (policy_sha256 env policyPath) (\<lambda>h1.
          bindE (policy_sha256 env thirdPartyPath) (\<lambda>h2.
            validate_sums (policy_fail ''LICENSE-POLICY-SHA256SUMS'') (se_text env b)
              [(h1, ''license-policy.json''), (h2, ''THIRD_PARTY_LICENSES.json'')])))"

definition validateOutputs :: "script_env \<Rightarrow> string \<Rightarrow> policy_paths \<Rightarrow> js list \<Rightarrow> js \<Rightarrow> js \<Rightarrow> (js \<times> js) res" where
  "validateOutputs env evidencePath paths cargoMetadata inventory document =
     bindE (policy_json env (pp_policy paths)) (\<lambda>policy.
     bindE (policy_json env (pp_third_party paths)) (\<lambda>thirdParty.
     bindE (policy_sha256 env (pp_inventory paths)) (\<lambda>inventorySha256.
     bindE (policy_sha256 env (pp_sbom paths)) (\<lambda>sbomSha256.
     bindE (createLicensePolicyArtifact (se_collate env) inventory document (Some inventorySha256) (Some sbomSha256)) (\<lambda>expectedPolicy.
     bindE (createThirdPartyLicenseArtifact env evidencePath inventory document (Some inventorySha256) cargoMetadata) (\<lambda>expectedThirdParty.
     if \<not> json_same policy expectedPolicy
     then Inl (policy_fail ''license policy artifact differs from deterministic output'')
     else if \<not> json_same thirdParty expectedThirdParty
     then Inl (policy_fail ''third-party license artifact differs from deterministic output'')
     else bindE (validateLicensePolicySums env (pp_policy_sums paths) (pp_policy paths) (pp_third_party paths)) (\<lambda>_.
       Inr (policy, thirdParty))))))))"

definition validateSbomSums :: "script_env \<Rightarrow> string \<Rightarrow> string \<Rightarrow> string \<Rightarrow> unit res" where
  "validateSbomSums env path sbomPath inventoryPath =
     (case se_read env path of
        None \<Rightarrow> Inl (sbom_fail ''unreadable'')
      | Some b \<Rightarrow>
          if \<not> ends_with [CHR 0x0A] (se_text env b) then Inl (sbom_fail ''SBOM-SHA256SUMS'')
          else (case (se_read env sbomPath, se_read env inventoryPath) of
              (Some s, Some i) \<Rightarrow> validate_sums (sbom_fail ''SBOM-SHA256SUMS'') (se_text env b)
                [(se_sha256 env s, ''sbom.spdx.json''), (se_sha256 env i, ''license-inventory.json'')]
            | _ \<Rightarrow> Inl (sbom_fail ''unreadable'')))"

text \<open>The command \<open>validate\<close> of the script.\<close>

definition run_validate_policy :: "script_env \<Rightarrow> string \<Rightarrow> policy_paths \<Rightarrow> js res" where
  "run_validate_policy env evidencePath paths =
     bindE (policy_json env (pp_inventory paths)) (\<lambda>inventory.
     bindE (policy_json env (pp_sbom paths)) (\<lambda>document.
     bindE (validateSbomSums env (pp_sbom_sums paths) (pp_sbom paths) (pp_inventory paths)) (\<lambda>_.
     bindE (validateInventoryAndSbom inventory document) (\<lambda>_.
     bindE (mapE (policy_json env) (pp_cargo_metadata paths)) (\<lambda>cargoMetadata.
     bindE (validateOutputs env evidencePath paths cargoMetadata inventory document) (\<lambda>(policy, thirdParty).
     bindE (enforceLicensePolicy policy thirdParty (pp_require_text paths)) (\<lambda>_. Inr policy)))))))"


section \<open>What passes the gate\<close>

definition approved_component :: "js \<Rightarrow> bool" where
  "approved_component c \<longleftrightarrow> (\<exists>d. fld c ''declared_license_metadata'' = JStr d \<and> d \<noteq> []) \<and>
     (\<exists>e. fld c ''license_expression'' = JStr e \<and> approved_expression e)"

lemma missing_declaration_iff: "(\<exists>d. fld c ''declared_license_metadata'' = JStr d \<and> d \<noteq> []) \<longleftrightarrow> \<not> missing_declaration c"
  by (cases "fld c ''declared_license_metadata''") (auto simp: missing_declaration_def)

lemma evaluate_expression_status:
  "ev_status (evaluateLicenseExpression collate x) \<in> {''allowed'', ''needs-user-decision'', ''invalid-metadata''}"
proof -
  have "fst (evaluateExpressionTree t rs) \<in> {''allowed'', ''needs-user-decision''}" for t rs
    by (induction t arbitrary: rs) (auto simp: identifierDecision_def split: prod.splits option.splits)
  note tree = this
  show ?thesis
  proof (cases x)
    case (Some e)
    show ?thesis
    proof (cases "parseLicenseExpressionSyntax e")
      case (Inr r)
      obtain t ids xs where r: "r = (t, ids, xs)" by (cases r)
      obtain s rs where s: "evaluateExpressionTree t [] = (s, rs)" by fastforce
      show ?thesis using tree [of t "[]"] by (auto simp: evaluateLicenseExpression_def Let_def Some Inr r s)
    qed (simp add: evaluateLicenseExpression_def Let_def Some)
  qed (simp add: evaluateLicenseExpression_def)
qed

lemma evaluate_missing_expression: "ev_status (evaluateLicenseExpression collate None) = ''invalid-metadata''"
  by (simp add: evaluateLicenseExpression_def)

lemma evaluate_component_status:
  assumes "evaluate_component collate c = Inr (c', e)"
  shows "c' = c" and "\<not> bad_status (ev_status e) \<and> ev_status e \<noteq> ''needs-user-decision'' \<longleftrightarrow> approved_component c"
proof -
  show "c' = c" using assms by (auto simp: evaluate_component_def Let_def split: if_splits)
  have status: "ev_status e \<in> {''allowed'', ''needs-user-decision'', ''invalid-metadata'', ''missing-declared-metadata''}"
    using assms evaluate_expression_status
    by (fastforce simp: evaluate_component_def Let_def split: if_splits)
  have "ev_status e = ''allowed'' \<longleftrightarrow> approved_component c"
  proof (cases "missing_declaration c \<or> fld c ''license_expression'' = JNull")
    case True
    then show ?thesis using assms
      by (auto simp: evaluate_component_def Let_def approved_component_def missing_declaration_iff split: if_splits)
  next
    case False
    then have e: "e = evaluateLicenseExpression collate (str_option (fld c ''license_expression''))"
      using assms by (auto simp: evaluate_component_def Let_def split: if_splits)
    show ?thesis
    proof (cases "fld c ''license_expression''")
      case (JStr s)
      then show ?thesis using False by (simp add: e str_option_def evaluate_allowed approved_component_def missing_declaration_iff)
    qed (simp_all add: e str_option_def approved_component_def missing_declaration_iff evaluate_missing_expression)
  qed
  with status show "\<not> bad_status (ev_status e) \<and> ev_status e \<noteq> ''needs-user-decision'' \<longleftrightarrow> approved_component c"
    by (auto simp: bad_status_def)
qed

lemma evaluateInventory_components:
  assumes "evaluateInventory collate inventory document = Inr es"
  shows "fst ` set es = set (elems (fld inventory ''components''))"
    and "(c, e) \<in> set es \<Longrightarrow> \<not> bad_status (ev_status e) \<and> ev_status e \<noteq> ''needs-user-decision'' \<longleftrightarrow> approved_component c"
proof -
  obtain ys where ys: "list_all2 (\<lambda>c y. evaluate_component collate c = Inr y) (elems (fld inventory ''components'')) ys"
      "set es = set ys"
    using assms by (auto simp: evaluateInventory_def bindE_Inr_iff mapE_Inr_iff)
  have same: "evaluate_component collate c = Inr y \<Longrightarrow> fst y = c" for c y
    using evaluate_component_status(1) [of collate c "fst y" "snd y"] by simp
  show "fst ` set es = set (elems (fld inventory ''components''))"
    unfolding ys(2) using list_all2_left [OF ys(1)] list_all2_right [OF ys(1)] same by (force simp: image_iff)
  show "\<not> bad_status (ev_status e) \<and> ev_status e \<noteq> ''needs-user-decision'' \<longleftrightarrow> approved_component c"
    if mem: "(c, e) \<in> set es"
  proof -
    obtain x where "evaluate_component collate x = Inr (c, e)"
      using list_all2_right [OF ys(1), of "(c, e)"] mem ys(2) by auto
    from evaluate_component_status [OF this] show ?thesis by simp
  qed
qed

lemma gateStatus_pass:
  "gateStatus es = ''PASS'' \<longleftrightarrow> (\<forall>(c, e) \<in> set es. \<not> bad_status (ev_status e) \<and> ev_status e \<noteq> ''needs-user-decision'')"
  by (auto simp: gateStatus_def list_ex_iff)

lemma policy_artifact_passes:
  assumes "createLicensePolicyArtifact collate inventory document h1 h2 = Inr policy"
  shows "fld policy ''gate_status'' = JStr ''PASS'' \<longleftrightarrow> list_all approved_component (elems (fld inventory ''components''))"
    and "fld policy ''gate_status'' \<in> {JStr ''PASS'', JStr ''FAIL'', JStr ''NEEDS USER DECISION''}"
proof -
  obtain es where es: "evaluateInventory collate inventory document = Inr es" "fld policy ''gate_status'' = JStr (gateStatus es)"
    using assms by (auto simp: createLicensePolicyArtifact_def bindE_Inr_iff)
  have "gateStatus es = ''PASS'' \<longleftrightarrow> (\<forall>c \<in> fst ` set es. approved_component c)"
    unfolding gateStatus_pass using evaluateInventory_components(2) [OF es(1)] by fastforce
  also have "\<dots> \<longleftrightarrow> list_all approved_component (elems (fld inventory ''components''))"
    by (simp add: evaluateInventory_components(1) [OF es(1)] list_all_iff)
  finally show "fld policy ''gate_status'' = JStr ''PASS'' \<longleftrightarrow> list_all approved_component (elems (fld inventory ''components''))"
    using es(2) by simp
  show "fld policy ''gate_status'' \<in> {JStr ''PASS'', JStr ''FAIL'', JStr ''NEEDS USER DECISION''}"
    using es(2) by (simp add: gateStatus_def)
qed

text \<open>
  The license texts of a registry package are collected: the inventory has resolved them, and either
  the checked-in evidence for the package holds the text of every file, with its path and digest,
  or every file lies, with its digest, beside the manifest of a package of the Cargo metadata with the
  name, version and source.
\<close>

definition registry_component :: "js \<Rightarrow> bool" where
  "registry_component c \<longleftrightarrow> fld c ''ecosystem'' = JStr ''cargo'' \<and> (\<exists>s. str_of (fld c ''source'') = ''registry+'' @ s)"

definition checked_in :: "script_env \<Rightarrow> js \<Rightarrow> js \<Rightarrow> bool" where
  "checked_in env evidence file \<longleftrightarrow>
     strict_eq (fld file ''path'') (fld evidence ''upstream_file_path'') \<and> strict_eq (fld file ''sha256'') (fld evidence ''collected_text_sha256'') \<and>
     (\<exists>content. se_read env (str_of (fld evidence ''absolute_checked_in_path'')) = Some content \<and>
        fld evidence ''collected_text_sha256'' = JStr (se_sha256 env content))"

definition same_package :: "js \<Rightarrow> js \<Rightarrow> string \<Rightarrow> bool" where
  "same_package c p manifest \<longleftrightarrow> strict_eq (fld p ''name'') (fld c ''name'') \<and> strict_eq (fld p ''version'') (fld c ''version'') \<and>
     strict_eq (fld p ''source'') (fld c ''source'') \<and> fld p ''manifest_path'' = JStr manifest"

definition beside_manifest :: "script_env \<Rightarrow> string set \<Rightarrow> js \<Rightarrow> bool" where
  "beside_manifest env manifests file \<longleftrightarrow> (\<exists>manifest content path. manifest \<in> manifests \<and>
     path = posix_resolve (se_root env) [posix_dirname manifest, str_of (fld file ''path'')] \<and>
     se_exists env path \<and> se_read env path = Some content \<and> fld file ''sha256'' = JStr (se_sha256 env content))"

definition text_collected :: "script_env \<Rightarrow> string \<Rightarrow> js list \<Rightarrow> js \<Rightarrow> bool" where
  "text_collected env evidencePath metadata c \<longleftrightarrow> fld c ''license_text_status'' = JStr ''resolved'' \<and> metadata \<noteq> [] \<and>
     (case thirdPartyLicenseEvidenceForComponent env evidencePath c of
        Inl _ \<Rightarrow> False
      | Inr (Some evidence) \<Rightarrow> list_all (checked_in env evidence) (elems (fld c ''license_text_files''))
      | Inr None \<Rightarrow>
          (let manifests = {m. \<exists>data \<in> set metadata. \<exists>p \<in> set (elems (fld data ''packages'')). same_package c p m} in
           manifests \<noteq> {} \<and> list_all (beside_manifest env manifests) (elems (fld c ''license_text_files''))))"

lemma isThirdPartyComponent_iff: "isThirdPartyComponent = registry_component"
  by (rule ext) (auto simp: isThirdPartyComponent_def registry_component_def starts_with_iff)

lemma candidate_paths_set: "set (candidate_paths env c ps) = {m. \<exists>p \<in> set ps. same_package c p m}"
  by (force simp: candidate_paths_def same_package_def is_str_iff)

lemma collect_text_found:
  assumes "collect_text env manifests file = Inr t"
  shows "t \<noteq> None \<longleftrightarrow> beside_manifest env (set manifests) file"
proof -
  let ?paths = "filter (se_exists env) (map (\<lambda>m. posix_resolve (se_root env) [posix_dirname m, str_of (fld file ''path'')]) manifests)"
  let ?hit = "\<lambda>b. JStr (se_sha256 env b) = fld file ''sha256''"
  obtain contents where m: "mapE (\<lambda>p. case se_read env p of None \<Rightarrow> Inl (Fail ''unreadable'') | Some b \<Rightarrow> Inr b) ?paths = Inr contents"
    and r: "(case filter (\<lambda>b. strict_eq (JStr (se_sha256 env b)) (fld file ''sha256'')) contents of
        b # _ \<Rightarrow> Inr (Some (license_text file (se_text env b)))
      | [] \<Rightarrow> (if ?paths = [] then Inr None else Inl (policy_fail ''third-party license text hash mismatch''))) = Inr t"
    using assms unfolding collect_text_def Let_def bindE_Inr_iff by blast
  have read: "list_all2 (\<lambda>p b. se_read env p = Some b) ?paths contents"
    using m unfolding mapE_Inr_iff by (rule list_all2_mono) (simp split: option.splits)
  have "t \<noteq> None \<longleftrightarrow> filter ?hit contents \<noteq> []"
    using r by (auto split: list.splits if_splits)
  also have "\<dots> \<longleftrightarrow> (\<exists>b \<in> set contents. ?hit b)" by (simp add: filter_empty_conv)
  also have "\<dots> \<longleftrightarrow> (\<exists>p \<in> set ?paths. \<exists>b. se_read env p = Some b \<and> ?hit b)"
  proof
    assume "\<exists>b \<in> set contents. ?hit b"
    then obtain b where "b \<in> set contents" "?hit b" by blast
    with list_all2_right [OF read] show "\<exists>p \<in> set ?paths. \<exists>b. se_read env p = Some b \<and> ?hit b" by blast
  next
    assume "\<exists>p \<in> set ?paths. \<exists>b. se_read env p = Some b \<and> ?hit b"
    then obtain p b where p: "p \<in> set ?paths" "se_read env p = Some b" "?hit b" by blast
    with list_all2_left [OF read p(1)] show "\<exists>b \<in> set contents. ?hit b" by auto
  qed
  also have "\<dots> \<longleftrightarrow> beside_manifest env (set manifests) file"
    by (fastforce simp: beside_manifest_def)
  finally show ?thesis .
qed

lemma collect_texts_found:
  "collect_texts env manifests files = Inr t \<Longrightarrow> t \<noteq> None \<longleftrightarrow> list_all (beside_manifest env (set manifests)) files"
proof (induction files arbitrary: t)
  case (Cons x xs)
  obtain u where u: "collect_text env manifests x = Inr u" using Cons.prems by (auto simp: bindE_Inr_iff)
  then show ?case
    using Cons collect_text_found [OF u] by (cases u) (auto simp: bindE_Inr_iff)
qed simp

lemma sourceLicenseTexts_found:
  assumes "sourceLicenseTexts env evidencePath c metadata = Inr texts"
    and "fld c ''license_text_status'' = JStr ''resolved''" and "metadata \<noteq> []"
  shows "texts \<noteq> None \<longleftrightarrow> text_collected env evidencePath metadata c"
proof -
  obtain evidence where e: "thirdPartyLicenseEvidenceForComponent env evidencePath c = Inr evidence"
    using assms(1) by (auto simp: sourceLicenseTexts_def bindE_Inr_iff)
  show ?thesis
  proof (cases evidence)
    case (Some x)
    then obtain ts where ts: "mapE (evidence_text_of env x) (elems (fld c ''license_text_files'')) = Inr ts" "texts = Some ts"
      using assms(1) e by (auto simp: sourceLicenseTexts_def bindE_Inr_iff)
    have "checked_in env x v" if "evidence_text_of env x v = Inr r" for v r
      using that by (auto simp: evidence_text_of_def checked_in_def bindE_Inr_iff readThirdPartyLicenseText_def
          split: if_splits option.splits)
    then have "list_all (checked_in env x) (elems (fld c ''license_text_files''))"
      using ts(1) unfolding mapE_Inr_iff list_all_iff by (auto dest!: list_all2_left)
    then show ?thesis using assms(2,3) e Some ts(2) by (simp add: text_collected_def)
  next
    case None
    obtain ps where ps: "metadata_packages metadata = Inr ps"
        "(if candidate_paths env c ps = [] then Inr None
          else collect_texts env (candidate_paths env c ps) (elems (fld c ''license_text_files''))) = Inr texts"
      using assms(1) e None by (auto simp: sourceLicenseTexts_def bindE_Inr_iff Let_def)
    let ?manifests = "{m. \<exists>data \<in> set metadata. \<exists>p \<in> set (elems (fld data ''packages'')). same_package c p m}"
    have set: "set (candidate_paths env c ps) = ?manifests"
    proof -
      have "ps = concat (map (\<lambda>m. elems (fld m ''packages'')) metadata)"
        using ps(1) by (auto simp: metadata_packages_def Let_def split: if_splits)
      then have ps: "set ps = (\<Union>data \<in> set metadata. set (elems (fld data ''packages'')))" by simp
      show ?thesis unfolding candidate_paths_set ps by blast
    qed
    have "texts \<noteq> None \<longleftrightarrow> ?manifests \<noteq> {} \<and> list_all (beside_manifest env ?manifests) (elems (fld c ''license_text_files''))"
      using ps(2) collect_texts_found [of env "candidate_paths env c ps" "elems (fld c ''license_text_files'')" texts]
      unfolding set by (cases "candidate_paths env c ps = []") (simp_all flip: set add: set_empty)
    then show ?thesis using assms(2,3) e None by (simp add: text_collected_def Let_def)
  qed
qed

lemma third_party_component_collected:
  assumes "third_party_component env evidencePath metadata c = Inr r"
  shows "is_available r \<and> metadata \<noteq> [] \<and> is_arr (fld r ''license_texts'') \<longleftrightarrow> text_collected env evidencePath metadata c"
proof -
  let ?resolved = "fld c ''license_text_status'' = JStr ''resolved''"
  obtain evidence where e: "thirdPartyLicenseEvidenceForComponent env evidencePath c = Inr evidence"
    using assms by (auto simp: third_party_component_def bindE_Inr_iff Let_def)
  show ?thesis
  proof (cases "?resolved \<and> metadata \<noteq> []")
    case True
    then obtain texts where t: "sourceLicenseTexts env evidencePath c metadata = Inr texts"
      using assms e by (auto simp: third_party_component_def bindE_Inr_iff Let_def)
    have "is_available r \<and> metadata \<noteq> [] \<and> is_arr (fld r ''license_texts'') \<longleftrightarrow> texts \<noteq> None"
      using assms True e t by (cases evidence; cases texts)
        (simp_all add: third_party_component_def Let_def is_available_def fld_js_spread
          del: obj_update.simps, (drule sym, simp add: fld_js_spread del: obj_update.simps)+)
    then show ?thesis using sourceLicenseTexts_found [OF t] True by blast
  next
    case False
    then show ?thesis
      using assms e by (cases evidence) (auto simp: third_party_component_def Let_def is_available_def text_collected_def)
  qed
qed

lemma third_party_ready:
  assumes "createThirdPartyLicenseArtifact env evidencePath inventory document h metadata = Inr thirdParty"
  shows "fld (fld thirdParty ''final_release_text_gate'') ''status'' = JStr ''ready'' \<longleftrightarrow>
    list_all (text_collected env evidencePath metadata) (filter isThirdPartyComponent (elems (fld inventory ''components'')))"
proof -
  let ?cs = "\<lambda>components. filter isThirdPartyComponent components"
  obtain es unsorted where es: "evaluateInventory (se_collate env) inventory document = Inr es"
      "mapE (third_party_component env evidencePath metadata) (filter isThirdPartyComponent (map fst es)) = Inr unsorted"
    using assms by (auto simp: createThirdPartyLicenseArtifact_def bindE_Inr_iff)
  let ?components = "sort_by (\<lambda>l r. se_collate env (notice_key l) (notice_key r)) unsorted"
  have set: "set ?components = set unsorted" and null: "?components = [] \<longleftrightarrow> unsorted = []"
    using sort_by_set [of _ unsorted] sort_by_length [of _ unsorted] by (auto simp flip: length_0_conv)
  have steps: "list_all2 (\<lambda>c r. third_party_component env evidencePath metadata c = Inr r) (?cs (map fst es)) unsorted"
    using es(2) unfolding mapE_Inr_iff .
  then have "list_all (\<lambda>r. is_available r \<and> metadata \<noteq> [] \<and> is_arr (fld r ''license_texts'')) unsorted \<longleftrightarrow>
      list_all (text_collected env evidencePath metadata) (?cs (map fst es))"
    by (induction rule: list_all2_induct) (auto dest: third_party_component_collected)
  moreover have "set (?cs (map fst es)) = set (?cs (elems (fld inventory ''components'')))"
    using evaluateInventory_components(1) [OF es(1)] by auto
  moreover have "fld (fld thirdParty ''final_release_text_gate'') ''status'' = JStr ''ready'' \<longleftrightarrow>
      list_all (\<lambda>r. is_available r \<and> metadata \<noteq> [] \<and> is_arr (fld r ''license_texts'')) unsorted"
    using assms es null
    by (auto simp: createThirdPartyLicenseArtifact_def bindE_Inr_iff Let_def list_all_iff set split: if_splits)
  ultimately show ?thesis unfolding list_all_iff by (simp only:)
qed

text \<open>
  Property C14. The gate passes exactly when every component of the inventory declares a license
  and has a license expression that the closed-world rule approves (one component with an
  unapproved, malformed or missing expression stops it) and, where the license texts are required
  as for a release, the text of every license file of every registry package was collected with its
  digest, from the checked-in evidence for the package or from its sources in the Cargo metadata.
\<close>

theorem license_gate_iff:
  "case createLicensePolicyArtifact (se_collate env) inventory document h1 h2 of
     Inl _ \<Rightarrow> True
   | Inr policy \<Rightarrow>
       (case createThirdPartyLicenseArtifact env evidencePath inventory document h3 metadata of
          Inl _ \<Rightarrow> True
        | Inr thirdParty \<Rightarrow> (enforceLicensePolicy policy thirdParty required = Inr ()) =
            (let components = elems (fld inventory ''components'') in
             list_all approved_component components \<and>
             (if required then list_all (text_collected env evidencePath metadata) (filter registry_component components) else True)))"
proof (cases "createLicensePolicyArtifact (se_collate env) inventory document h1 h2")
  case policy: (Inr policy)
  show ?thesis
  proof (cases "createThirdPartyLicenseArtifact env evidencePath inventory document h3 metadata")
    case (Inr thirdParty)
    have "enforceLicensePolicy policy thirdParty required = Inr () \<longleftrightarrow>
        fld policy ''gate_status'' = JStr ''PASS'' \<and>
        (if required then fld (fld thirdParty ''final_release_text_gate'') ''status'' = JStr ''ready'' else True)"
      using policy_artifact_passes(2) [OF policy] by (auto simp: enforceLicensePolicy_def)
    then show ?thesis
      using policy Inr by (simp add: policy_artifact_passes(1) [OF policy] third_party_ready [OF Inr] Let_def isThirdPartyComponent_iff)
  qed (simp add: policy)
qed simp

lemma ends_render: "ends_with [CHR 0x0A] (render_sums [x, y])"
proof -
  obtain h p h' p' where "x = (h, p)" "y = (h', p')" by (cases x, cases y)
  then have "render_sums [x, y] = (h @ ''  '' @ p @ [CHR 0x0A] @ h' @ ''  '' @ p') @ [CHR 0x0A]"
    by (simp add: render_sums_def)
  then show ?thesis unfolding ends_with_iff by blast
qed

text \<open>
  The digest list of the policy is accepted exactly when it is the rendered list
  of the digests the two files have now: no line more or less, in this order, each ended by
  one newline.
\<close>

lemma validateLicensePolicySums_iff:
  "validateLicensePolicySums env path policyPath thirdPartyPath = Inr () \<longleftrightarrow>
     (\<exists>b p t. se_read env path = Some b \<and> se_read env policyPath = Some p \<and> se_read env thirdPartyPath = Some t \<and>
        length (se_sha256 env p) = 64 \<and> list_all is_hex (se_sha256 env p) \<and>
        length (se_sha256 env t) = 64 \<and> list_all is_hex (se_sha256 env t) \<and>
        se_text env b = render_sums [(se_sha256 env p, ''license-policy.json''), (se_sha256 env t, ''THIRD_PARTY_LICENSES.json'')])"
proof -
  let ?pn = "''license-policy.json''" and ?tn = "''THIRD_PARTY_LICENSES.json''"
  have names: "list_all (\<lambda>c. \<not> is_ws c) ?pn" "list_all (\<lambda>c. \<not> is_ws c) ?tn" by code_simp+
  have ok: "list_all sums_entry_ok [(h, ?pn), (h', ?tn)] \<longleftrightarrow>
      length h = 64 \<and> list_all is_hex h \<and> length h' = 64 \<and> list_all is_hex h'" for h h'
    using names by (simp add: sums_entry_ok_def)
  have sha: "policy_sha256 env p = (case se_read env p of None \<Rightarrow> Inl (policy_fail ''unreadable'') | Some b \<Rightarrow> Inr (se_sha256 env b))" for p
    by (simp add: policy_sha256_def)
  show ?thesis
    using ends_render ok [simplified]
    by (cases "se_read env path"; cases "se_read env policyPath"; cases "se_read env thirdPartyPath")
      (auto simp: validateLicensePolicySums_def sha validate_sums_iff)
qed

end
