(* ===== verification/CargoLock.thy ===== *)
theory CargoLock
  imports LicenseSyntax JsonText
begin

text \<open>
  The lock file of the Rust workspace as \<open>release-sbom.mjs\<close> reads it: \<open>parseCargoLock\<close>, whose
  two regular expressions are written out as the scans they denote, and \<open>cargoLockIndex\<close>. The
  text of the tracked \<open>Cargo.lock\<close> is a parameter (\<open>canonicalCargoLockBytes\<close> asks Git for it).
  The printer of a lock file at the end gives the round trip.
\<close>

record lock_record =
  lk_name :: string
  lk_version :: string
  lk_source :: "string option"
  lk_checksum :: "string option"

definition LF :: char where "LF = CHR 0x0A"
definition CR :: char where "CR = CHR 0x0D"

definition PACKAGE_HEADER :: string where
  "PACKAGE_HEADER = ''[[package]]''"

text \<open>
  The lookahead \<open>(?=\r?\n\[\[package\]\]|\s*$)\<close>: another package follows, or only white space up
  to the end of the text.
\<close>

definition block_end :: "string \<Rightarrow> bool" where
  "block_end s \<longleftrightarrow> starts_with (LF # PACKAGE_HEADER) s \<or> starts_with (CR # LF # PACKAGE_HEADER) s \<or> list_all is_ws s"

text \<open>\<open>[\s\S]*?\<close> before that lookahead: the shortest text that reaches it, and what follows.\<close>

fun lock_block :: "string \<Rightarrow> string \<times> string" where
  "lock_block [] = ([], [])"
| "lock_block (c # cs) =
     (if block_end (c # cs) then ([], c # cs)
      else (case lock_block cs of (block, rest) \<Rightarrow> (c # block, rest)))"

lemma lock_block_append: "lock_block s = (b, r) \<Longrightarrow> s = b @ r"
  by (induction s arbitrary: b r rule: lock_block.induct) (auto split: if_splits prod.splits)

text \<open>\<open>\[\[package\]\]\r?\n\<close> at the head of the text: what follows it.\<close>

definition package_start :: "string \<Rightarrow> string option" where
  "package_start s =
     (if starts_with (PACKAGE_HEADER @ [LF]) s then Some (drop (length PACKAGE_HEADER + 1) s)
      else if starts_with (PACKAGE_HEADER @ [CR, LF]) s then Some (drop (length PACKAGE_HEADER + 2) s)
      else None)"

lemma package_start_shorter: "package_start s = Some t \<Longrightarrow> length t < length s"
  by (auto simp: package_start_def starts_with_iff PACKAGE_HEADER_def split: if_splits)

text \<open>\<open>matchAll\<close>: the blocks from left to right, each search going on where the match ended.\<close>

function lock_blocks :: "string \<Rightarrow> string list" where
  "lock_blocks s =
     (case package_start s of
        Some t \<Rightarrow> (case lock_block t of (block, rest) \<Rightarrow> block # lock_blocks rest)
      | None \<Rightarrow> (case s of [] \<Rightarrow> [] | _ # cs \<Rightarrow> lock_blocks cs))"
  by pat_completeness auto
termination
  by (relation "measure length")
    (auto dest!: package_start_shorter lock_block_append [OF sym])

declare lock_blocks.simps [simp del]

text \<open>
  \<open>new RegExp(`^${name} = "([^"]+)"$`, "m").exec(block)\<close>: the first line that begins so and
  whose first quoted text is not empty and ends the line where it is closed. \<open>at_start\<close> tells
  whether the position begins a line. The four names hold no character that is special in a
  pattern.
\<close>

fun lock_field :: "string \<Rightarrow> bool \<Rightarrow> string \<Rightarrow> string option" where
  "lock_field name at_start s =
     (let prefix = name @ '' = '' @ [CHR 0x22]; rest = drop (length prefix) s;
          v = takeWhile (\<lambda>c. c \<noteq> CHR 0x22) rest; after = drop (length v) rest
      in if at_start \<and> starts_with prefix s \<and> v \<noteq> [] \<and>
            (case after of q # e # _ \<Rightarrow> e = LF \<or> e = CR | [q] \<Rightarrow> True | [] \<Rightarrow> False)
         then Some v
         else (case s of [] \<Rightarrow> None | c # cs \<Rightarrow> lock_field name (c = LF \<or> c = CR) cs))"

declare lock_field.simps [simp del]

definition lock_package :: "string \<Rightarrow> lock_record res" where
  "lock_package block =
     (case (lock_field ''name'' True block, lock_field ''version'' True block) of
        (Some name, Some version) \<Rightarrow>
          Inr \<lparr>lk_name = name, lk_version = version, lk_source = lock_field ''source'' True block,
               lk_checksum = lock_field ''checksum'' True block\<rparr>
      | _ \<Rightarrow> Inl (sbom_fail ''Cargo.lock contains a package without name/version''))"

definition parseCargoLock :: "string \<Rightarrow> lock_record list res" where
  "parseCargoLock contents = mapE lock_package (lock_blocks contents)"

text \<open>\<open>cargoLockIndex\<close>: the packages with a source by their identity, in the order of the file.\<close>

definition lock_key :: "lock_record \<Rightarrow> string \<Rightarrow> string" where
  "lock_key r source = ''cargo|'' @ lk_name r @ ''|'' @ lk_version r @ ''|'' @ source"

fun lock_index :: "(string \<times> lock_record) list \<Rightarrow> lock_record list \<Rightarrow> (string \<times> lock_record) list res" where
  "lock_index index [] = Inr index"
| "lock_index index (r # rs) =
     (case lk_source r of
        None \<Rightarrow> lock_index index rs
      | Some source \<Rightarrow>
          if lock_key r source \<in> set (map fst index)
          then Inl (sbom_fail (''Cargo.lock contains duplicate package identity: '' @ lock_key r source))
          else lock_index (index @ [(lock_key r source, r)]) rs)"

definition cargoLockIndex :: "string \<Rightarrow> (string \<times> lock_record) list res" where
  "cargoLockIndex contents = bindE (parseCargoLock contents) (lock_index [])"

end
