(* ===== verification/CargoGraph.thy ===== *)
theory CargoGraph
  imports CargoLock
begin

text \<open>
  The dependency closure of the shipped Rust packages (\<open>collectCargoGraph\<close> of
  \<open>release-sbom.mjs\<close>): for every formal target the graph of its Cargo metadata is walked from
  the one root package along the normal (not build, not dev) dependencies. The walk is the
  code's loop over a stack with a set of visited packages; its termination measure and what it
  reaches are proved here.

  The metadata are parsed JSON. A package id is compared as a \<open>Map\<close> key; for strings, numbers,
  booleans and null that is the equality of the values (an id that is an object would be
  compared by reference: Cargo's ids are strings).
\<close>

section \<open>Packages and their identity\<close>

record formal_target =
  ft_target :: string
  ft_package :: string
  ft_role :: string

definition NATIVE_TARGETS_SBOM :: "formal_target list" where
  "NATIVE_TARGETS_SBOM =
     [\<lparr>ft_target = ''x86_64-pc-windows-msvc'', ft_package = ''symbol-nem-wallet-core-node'', ft_role = ''native''\<rparr>,
      \<lparr>ft_target = ''x86_64-apple-darwin'', ft_package = ''symbol-nem-wallet-core-node'', ft_role = ''native''\<rparr>,
      \<lparr>ft_target = ''aarch64-apple-darwin'', ft_package = ''symbol-nem-wallet-core-node'', ft_role = ''native''\<rparr>,
      \<lparr>ft_target = ''x86_64-unknown-linux-gnu'', ft_package = ''symbol-nem-wallet-core-node'', ft_role = ''native''\<rparr>,
      \<lparr>ft_target = ''wasm32-unknown-unknown'', ft_package = ''symbol-nem-wallet-core-wasm'', ft_role = ''wasm''\<rparr>]"

text \<open>
  \<open>relative(from, to)\<close> of \<open>node:path\<close> for absolute POSIX paths, and \<open>replaceAll("\\", "/")\<close>.
\<close>

fun drop_common :: "string list \<Rightarrow> string list \<Rightarrow> string list \<times> string list" where
  "drop_common (a # as) (b # bs) = (if a = b then drop_common as bs else (a # as, b # bs))"
| "drop_common as bs = (as, bs)"

definition posix_relative :: "string \<Rightarrow> string \<Rightarrow> string" where
  "posix_relative from dest =
     (let parts = (\<lambda>p. norm_parts True [] (split_on CHR ''/'' p));
          (up, down) = drop_common (parts (posix_resolve from [])) (parts (posix_resolve from [dest]))
      in join ''/'' (replicate (length up) ''..'' @ down))"

definition forward_slashes :: "string \<Rightarrow> string" where
  "forward_slashes = map (\<lambda>c. if c = CHR 0x5C then CHR ''/'' else c)"

definition cargoPackageSource :: "string \<Rightarrow> js \<Rightarrow> string res" where
  "cargoPackageSource root p =
     (if is_str (fld p ''source'') \<and> length (str_of (fld p ''source'')) > 0 then Inr (str_of (fld p ''source''))
      else if \<not> is_str (fld p ''manifest_path'') then Inl TypeErr
      else let directory = forward_slashes (posix_relative root (posix_dirname (str_of (fld p ''manifest_path'')))) in
        if length directory = 0 \<or> starts_with ''..'' directory
        then Inl (sbom_fail ''Cargo path package is outside the checked out source'')
        else Inr (''path:'' @ directory))"

definition cargoIdentityKey :: "string \<Rightarrow> js \<Rightarrow> string res" where
  "cargoIdentityKey root p =
     bindE (str_or_throw (fld p ''name'')) (\<lambda>name.
     bindE (str_or_throw (fld p ''version'')) (\<lambda>version.
     bindE (cargoPackageSource root p) (\<lambda>source.
       Inr (''cargo|'' @ name @ ''|'' @ version @ ''|'' @ source))))"

section \<open>Metadata\<close>

definition readCargoMetadata :: "script_env \<Rightarrow> string \<Rightarrow> js res" where
  "readCargoMetadata env path =
     (case se_json env path of
        None \<Rightarrow> Inl (sbom_fail ''Cargo metadata is unreadable or malformed'')
      | Some metadata \<Rightarrow>
          if nullish metadata then Inl TypeErr
          else if \<not> strict_eq (fld metadata ''version'') (JInt 1) \<or> \<not> is_arr (fld metadata ''packages'') \<or>
             \<not> isPlainObject (fld metadata ''resolve'') \<or> \<not> is_arr (fld (fld metadata ''resolve'') ''nodes'')
          then Inl (sbom_fail ''Cargo metadata has an unsupported shape'')
          else Inr metadata)"

text \<open>A value has a property: everything but \<open>null\<close> and \<open>undefined\<close>.\<close>

definition prop_of :: "string \<Rightarrow> js \<Rightarrow> js res" where
  "prop_of k v = (if nullish v then Inl TypeErr else Inr (fld v k))"

fun some_null_kind :: "js list \<Rightarrow> bool res" where
  "some_null_kind [] = Inr False"
| "some_null_kind (k # ks) =
     bindE (prop_of ''kind'' k) (\<lambda>kind. if strict_eq kind JNull then Inr True else some_null_kind ks)"

definition normalRuntimeDependency :: "js \<Rightarrow> bool res" where
  "normalRuntimeDependency dep =
     bindE (prop_of ''dep_kinds'' dep) (\<lambda>kinds. if is_arr kinds then some_null_kind (elems kinds) else Inr False)"

text \<open>\<open>node.deps ?? []\<close> as \<open>for of\<close> walks it; a string gives its characters.\<close>

definition iterate :: "js \<Rightarrow> js list res" where
  "iterate v = (case v of
     JUndef \<Rightarrow> Inr [] | JNull \<Rightarrow> Inr [] | JArr xs \<Rightarrow> Inr xs
   | JStr s \<Rightarrow> Inr (map (\<lambda>c. JStr [c]) s) | _ \<Rightarrow> Inl TypeErr)"

section \<open>The walk\<close>

text \<open>
  \<open>packageMap\<close> and \<open>edgeMap\<close>: associations in insertion order. The roles of a package are a set
  in insertion order. \<open>ce_generator\<close> is the property \<open>generator_license_expression\<close> that
  \<open>validateGeneratorCoverage\<close> adds later.
\<close>

record cargo_entry =
  ce_identity :: string
  ce_package :: js
  ce_roles :: "string list"
  ce_generator :: "js option"

type_synonym package_map = "cargo_entry list"
type_synonym edge_map = "(string \<times> string) list"

definition find_entry :: "string \<Rightarrow> package_map \<Rightarrow> cargo_entry option" where
  "find_entry identity pm = find (\<lambda>e. ce_identity e = identity) pm"

definition add_role :: "string \<Rightarrow> string \<Rightarrow> package_map \<Rightarrow> package_map" where
  "add_role identity role =
     map (\<lambda>e. if ce_identity e = identity then e\<lparr>ce_roles := set_add role (ce_roles e)\<rparr> else e)"

definition addCargoPackage :: "string \<Rightarrow> package_map \<Rightarrow> js \<Rightarrow> string \<Rightarrow> (string \<times> package_map) res" where
  "addCargoPackage root pm p role =
     bindE (cargoIdentityKey root p) (\<lambda>identity.
     (case find_entry identity pm of
        None \<Rightarrow> Inr (identity, pm @ [\<lparr>ce_identity = identity, ce_package = p, ce_roles = [role], ce_generator = None\<rparr>])
      | Some current \<Rightarrow>
          bindE (if \<not> strict_eq (fld (ce_package current) ''name'') (fld p ''name'') \<or>
                    \<not> strict_eq (fld (ce_package current) ''version'') (fld p ''version'') then Inr True
                 else bindE (cargoPackageSource root (ce_package current)) (\<lambda>s.
                      bindE (cargoPackageSource root p) (\<lambda>s'. Inr (s \<noteq> s')))) (\<lambda>differs.
          if differs then Inl (sbom_fail (''Cargo package identity is inconsistent: '' @ identity))
          else Inr (identity, add_role identity role pm))))"

text \<open>A JavaScript \<open>Map\<close> made from pairs: the last pair of a key counts.\<close>

definition js_map_of :: "('a \<times> 'b) list \<Rightarrow> 'a \<Rightarrow> 'b option" where
  "js_map_of ps = map_of (rev ps)"

text \<open>\<open>edgeMap.set(`${source}\n${target}`, {source, target})\<close>.\<close>

definition edge_key :: "string \<times> string \<Rightarrow> string" where
  "edge_key e = fst e @ [LF] @ snd e"

definition add_edge :: "string \<times> string \<Rightarrow> edge_map \<Rightarrow> edge_map" where
  "add_edge e em =
     (if edge_key e \<in> edge_key ` set em then map (\<lambda>e'. if edge_key e' = edge_key e then e else e') em else em @ [e])"

text \<open>The dependencies of one package: those that count are added, linked and pushed.\<close>

fun walk_deps ::
  "string \<Rightarrow> (js \<Rightarrow> js option) \<Rightarrow> string \<Rightarrow> string \<Rightarrow> js list \<Rightarrow> js list \<times> package_map \<times> edge_map \<Rightarrow>
     (js list \<times> package_map \<times> edge_map) res" where
  "walk_deps root byId role source [] s = Inr s"
| "walk_deps root byId role source (d # ds) (stack, pm, em) =
     bindE (normalRuntimeDependency d) (\<lambda>normal.
     if \<not> normal then walk_deps root byId role source ds (stack, pm, em)
     else (case byId (fld d ''pkg'') of
         None \<Rightarrow> Inl (sbom_fail ''Cargo dependency graph references an unknown dependency'')
       | Some p \<Rightarrow>
           bindE (addCargoPackage root pm p role) (\<lambda>(related, pm').
             walk_deps root byId role source ds
               (fld d ''pkg'' # stack, pm', add_edge (source, related) em))))"

lemma js_map_of_Some: "js_map_of ps k = Some v \<Longrightarrow> k \<in> fst ` set ps"
  unfolding js_map_of_def by (metis domI dom_map_of_conv_image_fst set_rev)

text \<open>
  The loop; the head of \<open>stack\<close> is the element \<open>pop\<close> returns. Every visited id is an id of the
  metadata (another one is an error), so each round either shortens the stack or takes one of
  the finitely many ids.
\<close>

function (sequential) cargo_walk ::
  "string \<Rightarrow> (js \<times> js) list \<Rightarrow> (js \<Rightarrow> js option) \<Rightarrow> string \<Rightarrow> js list \<Rightarrow> js list \<Rightarrow> package_map \<Rightarrow> edge_map \<Rightarrow>
     (js list \<times> package_map \<times> edge_map) res" where
  "cargo_walk root ids nodes role [] visited pm em = Inr (visited, pm, em)"
| "cargo_walk root ids nodes role (i # stack) visited pm em =
     (if i \<in> set visited then cargo_walk root ids nodes role stack visited pm em
      else (case (js_map_of ids i, nodes i) of
          (Some p, Some node) \<Rightarrow>
            bindE (addCargoPackage root pm p role) (\<lambda>(source, pm').
            bindE (iterate (fld node ''deps'')) (\<lambda>deps.
            bindE (walk_deps root (js_map_of ids) role source deps (stack, pm', em)) (\<lambda>(stack', pm'', em').
              cargo_walk root ids nodes role stack' (i # visited) pm'' em')))
        | _ \<Rightarrow> Inl (sbom_fail ''Cargo dependency graph references an unknown package'')))"
  by pat_completeness auto

termination
proof (relation "inv_image (less_than <*lex*> less_than)
    (\<lambda>(root, ids, nodes, role, stack, visited, pm, em). (card (fst ` set ids - set visited), length stack))", goal_cases)
  case (3 root ids nodes role i stack visited pm em)
  then have "i \<in> fst ` set ids - set visited" by (auto dest!: js_map_of_Some [OF sym])
  then have "card (fst ` set ids - set (i # visited)) < card (fst ` set ids - set visited)"
    by (intro psubset_card_mono) auto
  then show ?case by simp
qed auto


section \<open>All targets\<close>

record cargo_graph =
  cg_packages :: package_map
  cg_edges :: edge_map
  cg_all :: "(string \<times> js) list"
  cg_metadata :: "(string \<times> js) list"

definition by_id :: "js list \<Rightarrow> (js \<times> js) list res" where
  "by_id xs = mapE (\<lambda>x. bindE (prop_of ''id'' x) (\<lambda>i. Inr (i, x))) xs"

fun add_all :: "string \<Rightarrow> js list \<Rightarrow> (string \<times> js) list \<Rightarrow> (string \<times> js) list res" where
  "add_all root [] all = Inr all"
| "add_all root (p # ps) all =
     bindE (cargoIdentityKey root p) (\<lambda>identity.
     (case map_of all identity of
        Some existing \<Rightarrow>
          if \<not> strict_eq (fld existing ''name'') (fld p ''name'') \<or> \<not> strict_eq (fld existing ''version'') (fld p ''version'')
          then Inl (sbom_fail (''Cargo metadata contains an inconsistent package identity: '' @ identity))
          else add_all root ps (obj_update all identity p)
      | None \<Rightarrow> add_all root ps (obj_update all identity p)))"

definition collect_target ::
  "script_env \<Rightarrow> (string \<Rightarrow> string option) \<Rightarrow> formal_target \<Rightarrow> cargo_graph \<Rightarrow> cargo_graph res" where
  "collect_target env inputs t g =
     bindE (case inputs (ft_target t) of
         None \<Rightarrow> Inl (sbom_fail ''Cargo metadata is unreadable or malformed'')
       | Some path \<Rightarrow> readCargoMetadata env path) (\<lambda>metadata.
     bindE (by_id (elems (fld metadata ''packages''))) (\<lambda>ids.
     bindE (add_all (se_root env) (elems (fld metadata ''packages'')) (cg_all g)) (\<lambda>all.
     bindE (by_id (elems (fld (fld metadata ''resolve'') ''nodes''))) (\<lambda>nodes.
     (case filter (\<lambda>p. strict_eq (fld p ''name'') (JStr (ft_package t))) (elems (fld metadata ''packages'')) of
        [r] \<Rightarrow>
          if fld r ''id'' \<notin> fst ` set nodes then Inl (sbom_fail ''Cargo metadata has no resolve node for the root'')
          else bindE (cargo_walk (se_root env) ids (js_map_of nodes) (ft_role t) [fld r ''id''] []
                 (cg_packages g) (cg_edges g)) (\<lambda>(visited, pm, em).
            Inr \<lparr>cg_packages = pm, cg_edges = em, cg_all = all,
                 cg_metadata = obj_update (cg_metadata g) (ft_target t) metadata\<rparr>)
      | _ \<Rightarrow> Inl (sbom_fail ''Cargo metadata has an ambiguous root''))))))"

fun collect_targets ::
  "script_env \<Rightarrow> (string \<Rightarrow> string option) \<Rightarrow> formal_target list \<Rightarrow> cargo_graph \<Rightarrow> cargo_graph res" where
  "collect_targets env inputs [] g = Inr g"
| "collect_targets env inputs (t # ts) g = bindE (collect_target env inputs t g) (collect_targets env inputs ts)"

definition collectCargoGraph :: "script_env \<Rightarrow> (string \<Rightarrow> string option) \<Rightarrow> cargo_graph res" where
  "collectCargoGraph env inputs =
     bindE (collect_targets env inputs NATIVE_TARGETS_SBOM
         \<lparr>cg_packages = [], cg_edges = [], cg_all = [], cg_metadata = []\<rparr>) (\<lambda>g.
       Inr (g\<lparr>cg_packages := sort_by (\<lambda>l r. se_collate env (ce_identity l) (ce_identity r)) (cg_packages g),
              cg_edges := sort_by (\<lambda>l r. se_collate env (edge_key l) (edge_key r)) (cg_edges g),
              cg_all := sort_by (\<lambda>l r. se_collate env (fst l) (fst r)) (cg_all g)\<rparr>))"

section \<open>What the walk reaches\<close>

text \<open>The graph of one target: the normal dependencies of a package that has a node.\<close>

definition cargo_dep :: "(js \<Rightarrow> js option) \<Rightarrow> (js \<times> js) set" where
  "cargo_dep nodes = {(a, b). \<exists>node deps d. nodes a = Some node \<and> iterate (fld node ''deps'') = Inr deps \<and>
     d \<in> set deps \<and> normalRuntimeDependency d = Inr True \<and> b = fld d ''pkg''}"

text \<open>The identities of a set of ids, and the identities with their roles that a package map records.\<close>

definition identities :: "string \<Rightarrow> (js \<Rightarrow> js option) \<Rightarrow> js set \<Rightarrow> string set" where
  "identities root byId S = {k. \<exists>i p. i \<in> S \<and> byId i = Some p \<and> cargoIdentityKey root p = Inr k}"

definition recorded :: "package_map \<Rightarrow> (string \<times> string) set" where
  "recorded pm = (\<Union>e \<in> set pm. {ce_identity e} \<times> set (ce_roles e))"

lemma identities_Un: "identities root byId (S \<union> T) = identities root byId S \<union> identities root byId T"
  by (auto simp: identities_def)

lemma recorded_add_role:
  assumes "find_entry k pm = Some e"
  shows "recorded (add_role k role pm) = insert (k, role) (recorded pm)"
proof -
  have "e \<in> set pm" "ce_identity e = k" using assms find_member [of _ pm e] by (auto simp: find_entry_def)
  then have "(\<exists>x \<in> set pm. ce_identity x = k)" by blast
  moreover have "recorded (add_role k role pm) =
      (\<Union>x \<in> set pm. {ce_identity x} \<times> (if ce_identity x = k then insert role (set (ce_roles x)) else set (ce_roles x)))"
    unfolding recorded_def add_role_def by (auto split: if_splits)
  ultimately show ?thesis by (auto simp: recorded_def split: if_splits)
qed

lemma addCargoPackage_Inr:
  assumes "addCargoPackage root pm p role = Inr (k, pm')"
  shows "cargoIdentityKey root p = Inr k" and "recorded pm' = insert (k, role) (recorded pm)"
proof -
  show key: "cargoIdentityKey root p = Inr k"
    using assms by (auto simp: addCargoPackage_def bindE_Inr_iff split: option.splits if_splits)
  show "recorded pm' = insert (k, role) (recorded pm)"
  proof (cases "find_entry k pm")
    case None
    then have "pm' = pm @ [\<lparr>ce_identity = k, ce_package = p, ce_roles = [role], ce_generator = None\<rparr>]"
      using assms key by (simp add: addCargoPackage_def)
    then show ?thesis by (auto simp: recorded_def)
  next
    case (Some e)
    then have "pm' = add_role k role pm"
      using assms key by (auto simp: addCargoPackage_def bindE_Inr_iff split: if_splits)
    with recorded_add_role [OF Some] show ?thesis by simp
  qed
qed

definition normal_ids :: "js list \<Rightarrow> js set" where
  "normal_ids ds = {fld d ''pkg'' |d. d \<in> set ds \<and> normalRuntimeDependency d = Inr True}"

lemma normal_ids_Cons:
  "normal_ids (d # ds) = (if normalRuntimeDependency d = Inr True then insert (fld d ''pkg'') (normal_ids ds) else normal_ids ds)"
  by (auto simp: normal_ids_def)

lemma edge_keys_add: "edge_key ` set (add_edge e em) = insert (edge_key e) (edge_key ` set em)"
proof -
  have "edge_key ` set (map (\<lambda>e'. if edge_key e' = edge_key e then e else e') em) = edge_key ` set em"
    unfolding set_map image_image by (rule image_cong) auto
  then show ?thesis by (auto simp: add_edge_def simp del: set_map)
qed

lemma walk_deps_Inr:
  "walk_deps root byId role source ds (stack, pm, em) = Inr (stack', pm', em') \<Longrightarrow>
     set stack' = set stack \<union> normal_ids ds \<and>
     recorded pm' = recorded pm \<union> (\<lambda>k. (k, role)) ` identities root byId (normal_ids ds) \<and>
     edge_key ` set em' = edge_key ` set em \<union> (\<lambda>k. edge_key (source, k)) ` identities root byId (normal_ids ds)"
proof (induction ds arbitrary: stack pm em)
  case Nil
  then show ?case by (simp add: normal_ids_def identities_def)
next
  case (Cons d ds)
  then obtain normal where n: "normalRuntimeDependency d = Inr normal" by (auto simp: bindE_Inr_iff)
  show ?case
  proof (cases normal)
    case False
    then show ?thesis using Cons n by (auto simp: normal_ids_Cons)
  next
    case True
    with Cons.prems n obtain p k pm1 where p: "byId (fld d ''pkg'') = Some p" "addCargoPackage root pm p role = Inr (k, pm1)"
        and rest: "walk_deps root byId role source ds (fld d ''pkg'' # stack, pm1, add_edge (source, k) em) = Inr (stack', pm', em')"
      by (auto simp: bindE_Inr_iff split: option.splits)
    note add = addCargoPackage_Inr [OF p(2)]
    have one: "identities root byId (insert (fld d ''pkg'') S) = insert k (identities root byId S)" for S
      using p(1) add(1) by (auto simp: identities_def)
    show ?thesis using Cons.IH [OF rest] n True by (auto simp: normal_ids_Cons one add(2) edge_keys_add)
  qed
qed


text \<open>
  The walk: what was visited or on the stack is visited at the end, the visited ids are closed
  under the dependencies, and nothing else is visited; the package map and the edges record
  exactly the visited ids.
\<close>

lemma cargo_walk_visits:
  "cargo_walk root ids nodes role stack visited pm em = Inr (visited', pm', em') \<Longrightarrow>
     set visited \<subseteq> set visited' \<and> set stack \<subseteq> set visited' \<and>
     set visited' \<subseteq> set visited \<union> (cargo_dep nodes)\<^sup>* `` set stack \<and>
     (cargo_dep nodes `` set visited \<subseteq> set visited \<union> set stack \<longrightarrow> cargo_dep nodes `` set visited' \<subseteq> set visited') \<and>
     (\<lambda>k. (k, role)) ` identities root (js_map_of ids) (set visited' - set visited) \<subseteq> recorded pm' \<and>
     recorded pm \<subseteq> recorded pm' \<and>
     recorded pm' \<subseteq> recorded pm \<union> (\<lambda>k. (k, role)) ` identities root (js_map_of ids) (set visited')"
proof (induction root ids nodes role stack visited pm em arbitrary: visited' pm' em' rule: cargo_walk.induct)
  case (1 root ids nodes role visited pm em)
  then show ?case by (auto simp: identities_def)
next
  case (2 root ids nodes role i stack visited pm em)
  show ?case
  proof (cases "i \<in> set visited")
    case True
    with 2 have "cargo_walk root ids nodes role stack visited pm em = Inr (visited', pm', em')" by simp
    from 2(1) [OF True this] True show ?thesis by (auto simp: Image_def)
  next
    case False
    from "2.prems" False obtain p node source pm1 deps stack2 pm2 em2
      where p: "js_map_of ids i = Some p" and node: "nodes i = Some node"
        and add: "addCargoPackage root pm p role = Inr (source, pm1)"
        and deps: "iterate (fld node ''deps'') = Inr deps"
        and walk: "walk_deps root (js_map_of ids) role source deps (stack, pm1, em) = Inr (stack2, pm2, em2)"
        and rest: "cargo_walk root ids nodes role stack2 (i # visited) pm2 em2 = Inr (visited', pm', em')"
      by (auto simp: bindE_Inr_iff split: option.splits)
    have succ: "cargo_dep nodes `` {i} = normal_ids deps"
      using node deps by (auto simp: cargo_dep_def normal_ids_def)
    note w = walk_deps_Inr [OF walk]
    note IH = 2(2) [OF False refl p node add refl deps walk refl refl rest]
    note v1 = IH [THEN conjunct1] and v2 = IH [THEN conjunct2, THEN conjunct1]
      and v3 = IH [THEN conjunct2, THEN conjunct2, THEN conjunct1]
      and v4 = IH [THEN conjunct2, THEN conjunct2, THEN conjunct2, THEN conjunct1, rule_format]
      and v5 = IH [THEN conjunct2, THEN conjunct2, THEN conjunct2, THEN conjunct2, THEN conjunct1]
      and v6 = IH [THEN conjunct2, THEN conjunct2, THEN conjunct2, THEN conjunct2, THEN conjunct2, THEN conjunct1]
      and v7 = IH [THEN conjunct2, THEN conjunct2, THEN conjunct2, THEN conjunct2, THEN conjunct2, THEN conjunct2]
    have stack2: "set stack2 = set stack \<union> cargo_dep nodes `` {i}" using w succ by simp
    have i: "identities root (js_map_of ids) {i} = {source}"
      using p addCargoPackage_Inr(1) [OF add] by (auto simp: identities_def)
    have known: "normal_ids deps \<subseteq> set visited'" using v2 stack2 succ by simp
    have pm2: "recorded pm2 = insert (source, role) (recorded pm) \<union>
        (\<lambda>k. (k, role)) ` identities root (js_map_of ids) (normal_ids deps)"
      using w addCargoPackage_Inr(2) [OF add] by simp
    have mono: "identities root byId S \<subseteq> identities root byId T" if "S \<subseteq> T" for byId S T
      using that by (auto simp: identities_def)
    have r: "(cargo_dep nodes)\<^sup>* `` (cargo_dep nodes `` {i}) \<subseteq> (cargo_dep nodes)\<^sup>* `` {i}"
      by (auto intro: converse_rtrancl_into_rtrancl)
    have a: "set visited \<subseteq> set visited'" "set (i # stack) \<subseteq> set visited'"
      using v1 v2 stack2 by auto
    have b: "set visited' \<subseteq> set visited \<union> (cargo_dep nodes)\<^sup>* `` set (i # stack)"
    proof -
      have "set visited' \<subseteq> insert i (set visited) \<union> ((cargo_dep nodes)\<^sup>* `` set stack \<union> (cargo_dep nodes)\<^sup>* `` {i})"
        using v3 r unfolding stack2 Image_Un by auto
      then show ?thesis by auto
    qed
    have c: "cargo_dep nodes `` set visited' \<subseteq> set visited'"
      if "cargo_dep nodes `` set visited \<subseteq> set visited \<union> set (i # stack)"
    proof -
      have "cargo_dep nodes `` set (i # visited) \<subseteq> set (i # visited) \<union> set stack2"
        using that unfolding stack2 by auto
      then show ?thesis by (rule v4)
    qed
    have d: "(\<lambda>k. (k, role)) ` identities root (js_map_of ids) (set visited' - set visited) \<subseteq> recorded pm'"
    proof -
      have "identities root (js_map_of ids) (set visited' - set visited) \<subseteq>
          identities root (js_map_of ids) ({i} \<union> (set visited' - set (i # visited)))" by (rule mono) auto
      then show ?thesis using v5 v6 pm2 unfolding identities_Un i by blast
    qed
    have e: "recorded pm' \<subseteq> recorded pm \<union> (\<lambda>k. (k, role)) ` identities root (js_map_of ids) (set visited')"
      using v7 pm2 mono [OF known, of "js_map_of ids"] mono [of "{i}" "set visited'" "js_map_of ids"] a(2) i by auto
    have "recorded pm \<subseteq> recorded pm'" using v6 pm2 by blast
    with a b c d e show ?thesis by blast
  qed
qed

lemma cargo_walk_reach:
  assumes "cargo_walk root ids nodes role [r] [] pm em = Inr (visited, pm', em')"
  shows "set visited = (cargo_dep nodes)\<^sup>* `` {r}"
    and "recorded pm' = recorded pm \<union> (\<lambda>k. (k, role)) ` identities root (js_map_of ids) ((cargo_dep nodes)\<^sup>* `` {r})"
proof -
  note w = cargo_walk_visits [OF assms]
  have closed: "cargo_dep nodes `` set visited \<subseteq> set visited" "r \<in> set visited" using w by auto
  have "x \<in> set visited" if "(r, x) \<in> (cargo_dep nodes)\<^sup>*" for x
    using that closed by (induction rule: rtrancl_induct) auto
  then have "(cargo_dep nodes)\<^sup>* `` {r} \<subseteq> set visited" by auto
  with w show v: "set visited = (cargo_dep nodes)\<^sup>* `` {r}" by auto
  show "recorded pm' = recorded pm \<union> (\<lambda>k. (k, role)) ` identities root (js_map_of ids) ((cargo_dep nodes)\<^sup>* `` {r})"
    unfolding v [symmetric] using w by auto
qed


text \<open>The edges between the identities of the packages in a set and their dependencies.\<close>

definition dep_edges :: "string \<Rightarrow> (js \<Rightarrow> js option) \<Rightarrow> (js \<Rightarrow> js option) \<Rightarrow> js set \<Rightarrow> string set" where
  "dep_edges root byId nodes S = (\<Union>a \<in> S. \<Union>b \<in> cargo_dep nodes `` {a}.
     edge_key ` (identities root byId {a} \<times> identities root byId {b}))"

lemma cargo_walk_edges:
  "cargo_walk root ids nodes role stack visited pm em = Inr (visited', pm', em') \<Longrightarrow>
     edge_key ` set em' = edge_key ` set em \<union> dep_edges root (js_map_of ids) nodes (set visited' - set visited)"
proof (induction root ids nodes role stack visited pm em arbitrary: visited' pm' em' rule: cargo_walk.induct)
  case (1 root ids nodes role visited pm em)
  then show ?case by (auto simp: dep_edges_def)
next
  case (2 root ids nodes role i stack visited pm em)
  show ?case
  proof (cases "i \<in> set visited")
    case True
    with 2 show ?thesis by simp
  next
    case False
    from "2.prems" False obtain p node source pm1 deps stack2 pm2 em2
      where p: "js_map_of ids i = Some p" and node: "nodes i = Some node"
        and add: "addCargoPackage root pm p role = Inr (source, pm1)"
        and deps: "iterate (fld node ''deps'') = Inr deps"
        and walk: "walk_deps root (js_map_of ids) role source deps (stack, pm1, em) = Inr (stack2, pm2, em2)"
        and rest: "cargo_walk root ids nodes role stack2 (i # visited) pm2 em2 = Inr (visited', pm', em')"
      by (auto simp: bindE_Inr_iff split: option.splits)
    note IH = 2(2) [OF False refl p node add refl deps walk refl refl rest]
    have succ: "cargo_dep nodes `` {i} = normal_ids deps"
      using node deps by (auto simp: cargo_dep_def normal_ids_def)
    have i: "identities root (js_map_of ids) {i} = {source}"
      using p addCargoPackage_Inr(1) [OF add] by (auto simp: identities_def)
    have "i \<in> set visited'" using cargo_walk_visits [OF rest] by auto
    then have split: "set visited' - set visited = {i} \<union> (set visited' - set (i # visited))" using False by auto
    have one: "dep_edges root (js_map_of ids) nodes {i} =
        (\<lambda>k. edge_key (source, k)) ` identities root (js_map_of ids) (normal_ids deps)"
    proof -
      have "identities root (js_map_of ids) (normal_ids deps) =
          (\<Union>b \<in> normal_ids deps. identities root (js_map_of ids) {b})"
        by (auto simp: identities_def)
      then show ?thesis unfolding dep_edges_def by (simp only: succ i UN_insert UN_empty) auto
    qed
    have union: "dep_edges root (js_map_of ids) nodes ({i} \<union> T) =
        dep_edges root (js_map_of ids) nodes {i} \<union> dep_edges root (js_map_of ids) nodes T" for T
      unfolding dep_edges_def by auto
    show ?thesis unfolding IH split union one using walk_deps_Inr [OF walk] by auto
  qed
qed

section \<open>What the whole collection records\<close>

text \<open>
  The graph of one target as its metadata give it: the root package is the only one of its
  name; a package belongs to the closure when the root reaches its id.
\<close>

definition target_closure :: "js \<Rightarrow> formal_target \<Rightarrow> js set" where
  "target_closure metadata t =
     (case (by_id (elems (fld (fld metadata ''resolve'') ''nodes''))) of
        Inl _ \<Rightarrow> {}
      | Inr nodes \<Rightarrow> {i. \<exists>r \<in> set (elems (fld metadata ''packages'')).
          strict_eq (fld r ''name'') (JStr (ft_package t)) \<and> (fld r ''id'', i) \<in> (cargo_dep (js_map_of nodes))\<^sup>*})"

definition target_identities :: "string \<Rightarrow> js \<Rightarrow> formal_target \<Rightarrow> string set" where
  "target_identities root metadata t =
     (case by_id (elems (fld metadata ''packages'')) of
        Inl _ \<Rightarrow> {} | Inr ids \<Rightarrow> identities root (js_map_of ids) (target_closure metadata t))"

definition target_edges :: "string \<Rightarrow> js \<Rightarrow> formal_target \<Rightarrow> string set" where
  "target_edges root metadata t =
     (case (by_id (elems (fld metadata ''packages'')), by_id (elems (fld (fld metadata ''resolve'') ''nodes''))) of
        (Inr ids, Inr nodes) \<Rightarrow> dep_edges root (js_map_of ids) (js_map_of nodes) (target_closure metadata t) | _ \<Rightarrow> {})"

definition metadata_of :: "script_env \<Rightarrow> (string \<Rightarrow> string option) \<Rightarrow> formal_target \<Rightarrow> js" where
  "metadata_of env inputs t =
     (case Option.bind (inputs (ft_target t)) (se_json env) of None \<Rightarrow> JUndef | Some m \<Rightarrow> m)"

lemma collect_target_run:
  assumes "collect_target env inputs t g = Inr g'"
  obtains path m ids nodes r visited where
    "inputs (ft_target t) = Some path" "readCargoMetadata env path = Inr m"
    "by_id (elems (fld m ''packages'')) = Inr ids"
    "by_id (elems (fld (fld m ''resolve'') ''nodes'')) = Inr nodes"
    "filter (\<lambda>p. strict_eq (fld p ''name'') (JStr (ft_package t))) (elems (fld m ''packages'')) = [r]"
    "cargo_walk (se_root env) ids (js_map_of nodes) (ft_role t) [fld r ''id''] []
        (cg_packages g) (cg_edges g) = Inr (visited, cg_packages g', cg_edges g')"
  using assms by (fastforce simp: collect_target_def bindE_Inr_iff split: option.splits list.splits if_splits)

lemma collect_target_records:
  assumes "collect_target env inputs t g = Inr g'"
  shows "recorded (cg_packages g') = recorded (cg_packages g) \<union>
      target_identities (se_root env) (metadata_of env inputs t) t \<times> {ft_role t} \<and>
    edge_key ` set (cg_edges g') = edge_key ` set (cg_edges g) \<union>
      target_edges (se_root env) (metadata_of env inputs t) t"
proof -
  obtain path m ids nodes r visited where
      path: "inputs (ft_target t) = Some path" "readCargoMetadata env path = Inr m"
    and ids: "by_id (elems (fld m ''packages'')) = Inr ids"
    and nodes: "by_id (elems (fld (fld m ''resolve'') ''nodes'')) = Inr nodes"
    and r: "filter (\<lambda>p. strict_eq (fld p ''name'') (JStr (ft_package t))) (elems (fld m ''packages'')) = [r]"
    and walk: "cargo_walk (se_root env) ids (js_map_of nodes) (ft_role t) [fld r ''id''] []
        (cg_packages g) (cg_edges g) = Inr (visited, cg_packages g', cg_edges g')"
    using assms by (rule collect_target_run)
  have m: "metadata_of env inputs t = m"
    using path by (auto simp: metadata_of_def readCargoMetadata_def split: option.splits if_splits)
  have "{p \<in> set (elems (fld m ''packages'')). strict_eq (fld p ''name'') (JStr (ft_package t))} = {r}"
    using arg_cong [OF r, of set] by simp
  then have "target_closure m t = (cargo_dep (js_map_of nodes))\<^sup>* `` {fld r ''id''}"
    unfolding target_closure_def nodes by auto
  then show ?thesis
    unfolding m cargo_walk_reach(2) [OF walk] cargo_walk_edges [OF walk] cargo_walk_reach(1) [OF walk]
      target_identities_def target_edges_def ids nodes by auto
qed

lemma collect_targets_record:
  "collect_targets env inputs ts g = Inr g' \<Longrightarrow>
     recorded (cg_packages g') = recorded (cg_packages g) \<union>
       (\<Union>t \<in> set ts. target_identities (se_root env) (metadata_of env inputs t) t \<times> {ft_role t}) \<and>
     edge_key ` set (cg_edges g') = edge_key ` set (cg_edges g) \<union>
       (\<Union>t \<in> set ts. target_edges (se_root env) (metadata_of env inputs t) t)"
proof (induction ts arbitrary: g)
  case (Cons t ts)
  then obtain g1 where g1: "collect_target env inputs t g = Inr g1" "collect_targets env inputs ts g1 = Inr g'"
    by (auto simp: bindE_Inr_iff)
  show ?case using collect_target_records [OF g1(1)] Cons.IH [OF g1(2)] by (simp add: Un_assoc)
qed simp

text \<open>
  Property C13. The dependency closure is exact: a package is listed with a role exactly when
  some formal target with this role has a root package from which a chain of normal
  dependencies leads to it, and the edges are the normal dependencies between these packages.
  Nothing shipped is left out and nothing else is listed; the loop over the stack ends on
  every graph, cyclic ones included.
\<close>

theorem collectCargoGraph_closure:
  "case collectCargoGraph env inputs of
     Inl _ \<Rightarrow> True
   | Inr g \<Rightarrow> recorded (cg_packages g) =
         (\<Union>t \<in> set NATIVE_TARGETS_SBOM. target_identities (se_root env) (metadata_of env inputs t) t \<times> {ft_role t}) \<and>
       edge_key ` set (cg_edges g) =
         (\<Union>t \<in> set NATIVE_TARGETS_SBOM. target_edges (se_root env) (metadata_of env inputs t) t)"
proof (cases "collect_targets env inputs NATIVE_TARGETS_SBOM \<lparr>cg_packages = [], cg_edges = [], cg_all = [], cg_metadata = []\<rparr>")
  case (Inr g)
  have "recorded (sort_by cmp pm) = recorded pm" for cmp pm by (simp add: recorded_def)
  moreover have "recorded [] = {}" by (simp add: recorded_def)
  ultimately show ?thesis using collect_targets_record [OF Inr] by (simp add: collectCargoGraph_def Inr)
qed (simp add: collectCargoGraph_def)

end
