(* ===== verification/SbomComponents.thy ===== *)
theory SbomComponents
  imports CargoGraph ThirdPartyEvidence
begin

text \<open>
  The components of the software bill of materials (\<open>release-sbom.mjs\<close>): the output of the
  generator \<open>cargo-sbom\<close> and its comparison with the dependency closure, the license of a
  package and the files that hold its text, and the component built from each package.
  \<open>readdir\<close> gives the names of the regular files of a directory; an exception of the file
  system is \<open>Fail ''ENOENT''\<close>.
\<close>

definition sbom_json :: "script_env \<Rightarrow> string \<Rightarrow> js res" where
  "sbom_json env path = (case se_json env path of None \<Rightarrow> Inl (sbom_fail ''unreadable or malformed'') | Some v \<Rightarrow> Inr v)"

definition sbom_sha256 :: "script_env \<Rightarrow> string \<Rightarrow> string res" where
  "sbom_sha256 env path =
     (case se_read env path of None \<Rightarrow> Inl (sbom_fail ''unreadable'') | Some b \<Rightarrow> Inr (se_sha256 env b))"

text \<open>\<open>if (!ok) fail(message)\<close>, one after the other.\<close>

fun sbom_checks :: "(bool \<times> string) list \<Rightarrow> unit res" where
  "sbom_checks [] = Inr ()"
| "sbom_checks ((ok, message) # cs) = (if \<not> ok then Inl (sbom_fail message) else sbom_checks cs)"

lemma sbom_checks_iff [res_simps]: "sbom_checks cs = Inr u \<longleftrightarrow> list_all fst cs"
  by (induction cs rule: sbom_checks.induct) auto

text \<open>The text of a value in a template literal that was converted before.\<close>

definition text_of :: "js \<Rightarrow> string" where
  "text_of v = (case to_str v of Some s \<Rightarrow> s | None \<Rightarrow> [])"

lemma text_of_str [simp]: "text_of (JStr s) = s"
  by (simp add: text_of_def)

section \<open>The output of the generator\<close>

text \<open>\<open>/^SPDXRef-[A-Za-z0-9.-]+$/\<close>.\<close>

definition spdx_char :: "char \<Rightarrow> bool" where
  "spdx_char c \<longleftrightarrow> is_alnum c \<or> c = CHR ''.'' \<or> c = CHR ''-''"

definition SPDX_ID_PATTERN :: "string \<Rightarrow> bool" where
  "SPDX_ID_PATTERN s \<longleftrightarrow> starts_with ''SPDXRef-'' s \<and> drop 8 s \<noteq> [] \<and> list_all spdx_char (drop 8 s)"

fun sbom_packages :: "string list \<Rightarrow> string list \<Rightarrow> js list \<Rightarrow> string list res" where
  "sbom_packages ids seen [] = Inr ids"
| "sbom_packages ids seen (p # ps) =
     (let identity = str_of (fld p ''name'') @ ''|'' @ str_of (fld p ''versionInfo'') @ ''|'' @ str_of (fld p ''downloadLocation'') in
      bindE (sbom_checks
        [(isPlainObject p \<and> is_str (fld p ''SPDXID'') \<and> is_str (fld p ''name'') \<and> is_str (fld p ''versionInfo'') \<and>
            is_str (fld p ''downloadLocation'') \<and> is_str (fld p ''licenseDeclared''),
          ''cargo-sbom output contains an incomplete package''),
         (SPDX_ID_PATTERN (str_of (fld p ''SPDXID'')) \<and> str_of (fld p ''SPDXID'') \<notin> set ids,
          ''cargo-sbom output contains a duplicate or invalid SPDX ID''),
         (identity \<notin> set seen, ''cargo-sbom output contains a duplicate package identity'')]) (\<lambda>_.
      sbom_packages (str_of (fld p ''SPDXID'') # ids) (identity # seen) ps))"

definition sbom_relationship_ok :: "string list \<Rightarrow> js \<Rightarrow> bool" where
  "sbom_relationship_ok ids r \<longleftrightarrow> isPlainObject r \<and> is_str (fld r ''spdxElementId'') \<and>
     is_str (fld r ''relatedSpdxElement'') \<and> is_str (fld r ''relationshipType'') \<and>
     str_of (fld r ''spdxElementId'') \<in> set ids \<and> str_of (fld r ''relatedSpdxElement'') \<in> set ids"

definition parseCargoSbom :: "script_env \<Rightarrow> string \<Rightarrow> js res" where
  "parseCargoSbom env path =
     bindE (sbom_json env path) (\<lambda>document.
     if nullish document then Inl TypeErr
     else if \<not> strict_eq (fld document ''SPDXID'') (JStr ''SPDXRef-DOCUMENT'') \<or>
        \<not> strict_eq (fld document ''spdxVersion'') (JStr ''SPDX-2.3'') \<or>
        \<not> is_arr (fld document ''packages'') \<or> \<not> is_arr (fld document ''relationships'')
     then Inl (sbom_fail ''cargo-sbom output is not SPDX 2.3 JSON'')
     else bindE (sbom_packages [''SPDXRef-DOCUMENT''] [] (elems (fld document ''packages''))) (\<lambda>ids.
       if list_all (sbom_relationship_ok ids) (elems (fld document ''relationships'')) then Inr document
       else Inl (sbom_fail ''cargo-sbom output contains an invalid relationship'')))"

definition cargoSbomPackageMatches :: "js \<Rightarrow> js \<Rightarrow> bool" where
  "cargoSbomPackageMatches p g \<longleftrightarrow>
     strict_eq (fld g ''name'') (fld p ''name'') \<and> strict_eq (fld g ''versionInfo'') (fld p ''version'') \<and>
     (if \<not> is_str (fld p ''source'') then strict_eq (fld g ''downloadLocation'') (JStr ''NONE'')
      else strict_eq (fld g ''downloadLocation'') (fld p ''source''))"

section \<open>Licenses\<close>

text \<open>\<open>CURVE25519_DALEK_DERIVE_NORMALIZATION\<close>.\<close>

definition DALEK_RAW :: string where "DALEK_RAW = ''MIT/Apache-2.0''"
definition DALEK_NORMALIZED :: string where "DALEK_NORMALIZED = ''MIT OR Apache-2.0''"
definition DALEK_REPOSITORY :: string where "DALEK_REPOSITORY = ''https://github.com/dalek-cryptography/curve25519-dalek''"
definition DALEK_FILES :: "string list" where "DALEK_FILES = [''LICENSE-APACHE'', ''LICENSE-MIT'']"

definition no_normalization :: js where
  "no_normalization = JObj [(''applied'', JBool False), (''basis'', JNull)]"

definition dalek_normalization :: "js \<Rightarrow> js" where
  "dalek_normalization p = JObj [(''applied'', JBool True), (''basis'', JObj
     [(''type'', JStr ''upstream-package-metadata-and-license-files''), (''repository'', fld p ''repository''),
      (''declared_license_metadata'', JStr DALEK_RAW), (''license_text_files'', JArr (map JStr DALEK_FILES)),
      (''normalized_spdx_expression'', JStr DALEK_NORMALIZED)])]"

text \<open>The expression, if there is one, and the normalisation that led to it.\<close>

definition cargoLicenseMetadata :: "script_env \<Rightarrow> js \<Rightarrow> string option \<times> js" where
  "cargoLicenseMetadata env p =
     (let raw = (case fld p ''license'' of JStr s \<Rightarrow> Some s | _ \<Rightarrow> None) in
      if strict_eq (fld p ''name'') (JStr ''curve25519-dalek-derive'') \<and> strict_eq (fld p ''version'') (JStr ''0.1.1'') \<and>
         raw = Some DALEK_RAW \<and> strict_eq (fld p ''repository'') (JStr DALEK_REPOSITORY) \<and> is_str (fld p ''manifest_path'') \<and>
         list_all (\<lambda>f. se_exists env (posix_resolve (posix_dirname (str_of (fld p ''manifest_path''))) [f])) DALEK_FILES
      then (Some DALEK_NORMALIZED, dalek_normalization p)
      else (case raw of
          None \<Rightarrow> (None, no_normalization)
        | Some s \<Rightarrow> (case tryParseLicenseExpression s of None \<Rightarrow> (None, no_normalization) | Some _ \<Rightarrow> (Some s, no_normalization))))"

definition licenseStatus :: "string option \<Rightarrow> string" where
  "licenseStatus e = (case e of None \<Rightarrow> ''missing'' | Some s \<Rightarrow> if length s = 0 then ''missing'' else ''resolved'')"

text \<open>The two file name patterns are case insensitive; \<open>.\<close> is any character but a line end.\<close>

definition lower :: "string \<Rightarrow> string" where
  "lower = map (\<lambda>c. if is_upper c then char_of ((of_char c :: nat) + 32) else c)"

definition GENERIC_NAMES :: "string list" where
  "GENERIC_NAMES = [''license'', ''copying'', ''unlicense'', ''notice'']"

definition is_generic_file :: "string \<Rightarrow> bool" where
  "is_generic_file n \<longleftrightarrow> lower n \<in> set GENERIC_NAMES"

definition is_license_file :: "string \<Rightarrow> bool" where
  "is_license_file n \<longleftrightarrow> is_generic_file n \<or>
     list_ex (\<lambda>g. starts_with g (lower n) \<and> (case drop (length g) n of
        c # cs \<Rightarrow> c \<in> set ''-_.'' \<and> list_all (\<lambda>d. d \<noteq> LF \<and> d \<noteq> CR) cs | [] \<Rightarrow> False)) GENERIC_NAMES"

text \<open>
  The object the code looks an identifier up in; an identifier that parsed is one of the
  catalogue or begins with \<open>LicenseRef-\<close>, so it is no property of \<open>Object.prototype\<close>.
\<close>

definition license_names :: "string \<Rightarrow> string list" where
  "license_names identifier = (case map_of
     [(''Apache-2.0'', [''LICENSE-APACHE'', ''LICENSE-APACHE-2.0'']), (''BSD-1-Clause'', [''LICENSE-BSD-1-CLAUSE'', ''LICENSE'']),
      (''BSD-3-Clause'', [''LICENSE-BSD-3-CLAUSE'', ''LICENSE'']), (''CC0-1.0'', [''LICENSE-CC0'', ''LICENSE'']),
      (''ISC'', [''LICENSE-ISC'', ''LICENSE'']), (''MIT'', [''LICENSE-MIT'', ''LICENSE'']),
      (''Unicode-3.0'', [''LICENSE-UNICODE'']), (''Unlicense'', [''UNLICENSE'']), (''Zlib'', [''LICENSE-ZLIB''])] identifier of
     None \<Rightarrow> [] | Some ns \<Rightarrow> ns)"

definition license_candidates :: "string list \<Rightarrow> string \<Rightarrow> string list" where
  "license_candidates licenseFiles identifier =
     (let names = license_names identifier;
          explicit = filter (\<lambda>f. list_ex (\<lambda>n. lower f = lower n \<or> lower f = lower n @ ''.md'')
            (filter (\<lambda>n. n \<noteq> ''LICENSE'') names)) licenseFiles
      in if explicit \<noteq> [] then explicit
         else filter (\<lambda>f. ''LICENSE'' \<in> set names \<and> lower f = ''license'') licenseFiles)"

record license_files =
  lf_status :: string
  lf_files :: "js list"
  lf_reason :: "string option"

definition pathRelativeToRepository :: "string \<Rightarrow> string \<Rightarrow> string res" where
  "pathRelativeToRepository root path =
     (let v = forward_slashes (posix_relative root path) in
      if unsafe_path (JStr v) then Inl (sbom_fail ''license text path is not a safe relative path'') else Inr v)"

definition text_file :: "string \<Rightarrow> string \<Rightarrow> js" where
  "text_file path digest = JObj [(''path'', JStr path), (''sha256'', JStr digest)]"

text \<open>The loop over the identifiers: an outcome that ends it, or the texts selected.\<close>

fun select_texts ::
  "script_env \<Rightarrow> js \<Rightarrow> string \<Rightarrow> string list \<Rightarrow> bool \<Rightarrow> string list \<Rightarrow> string list \<Rightarrow> js list \<Rightarrow> license_files res" where
  "select_texts env p directory licenseFiles single used [] selected =
     Inr \<lparr>lf_status = ''resolved'',
          lf_files = sort_by (\<lambda>l r. se_collate env (str_of (fld l ''path'')) (str_of (fld r ''path''))) selected,
          lf_reason = None\<rparr>"
| "select_texts env p directory licenseFiles single used (i # rest) selected =
     (let found = license_candidates licenseFiles i; generic = filter is_generic_file licenseFiles;
          matches = (if found = [] \<and> single \<and> length generic = 1 then generic else found)
      in case matches of
           [] \<Rightarrow> Inr \<lparr>lf_status = ''missing'', lf_files = [], lf_reason = Some (''no source license text for '' @ i)\<rparr>
         | [match] \<Rightarrow>
             if match \<in> set used then select_texts env p directory licenseFiles single used rest selected
             else
             bindE (if \<not> is_str (fld p ''source'') then pathRelativeToRepository (se_root env) (posix_resolve directory [match])
                    else Inr match) (\<lambda>path.
             bindE (sbom_sha256 env (posix_resolve directory [match])) (\<lambda>digest.
               select_texts env p directory licenseFiles single (match # used) rest (selected @ [text_file path digest])))
         | _ \<Rightarrow> Inr \<lparr>lf_status = ''ambiguous'', lf_files = [], lf_reason = Some (''multiple source license texts for '' @ i)\<rparr>)"

fun fail_message :: "js_error \<Rightarrow> string" where
  "fail_message (Fail m) = m"
| "fail_message _ = []"

definition packageLicenseFiles ::
  "script_env \<Rightarrow> string \<Rightarrow> (string \<Rightarrow> string list option) \<Rightarrow> js \<Rightarrow> string \<Rightarrow> license_files res" where
  "packageLicenseFiles env evidencePath readdir p expression =
     (case parseLicenseExpression expression of
        Inl e \<Rightarrow> Inr \<lparr>lf_status = ''unavailable'', lf_files = [], lf_reason = Some (fail_message e)\<rparr>
      | Inr (tree, identifiers) \<Rightarrow>
          bindE (if is_str (fld p ''source'')
                 then thirdPartyLicenseEvidenceForComponent env evidencePath (js_spread p ''license_expression'' (JStr expression))
                 else Inr None) (\<lambda>evidence.
          (case evidence of
             Some entry \<Rightarrow> Inr \<lparr>lf_status = ''resolved'', lf_files = [JObj [(''path'', fld entry ''upstream_file_path''),
                (''sha256'', fld entry ''collected_text_sha256'')]], lf_reason = None\<rparr>
           | None \<Rightarrow>
               if is_str (fld p ''source'') \<and> \<not> is_str (fld p ''manifest_path'') then Inl TypeErr
               else (let directory = (if \<not> is_str (fld p ''source'') then se_root env
                                      else posix_dirname (str_of (fld p ''manifest_path'')))
                 in case readdir directory of
                      None \<Rightarrow> Inl (Fail ''ENOENT'')
                    | Some entries \<Rightarrow> select_texts env p directory (filter is_license_file entries)
                        (length identifiers = 1) [] identifiers []))))"


section \<open>The generator covers the closure\<close>

definition name_version :: "js \<Rightarrow> js \<Rightarrow> string" where
  "name_version name version = text_of name @ ''|'' @ text_of version"

definition valid_expression :: "js \<Rightarrow> bool" where
  "valid_expression v \<longleftrightarrow> (case v of JStr s \<Rightarrow> tryParseLicenseExpression s \<noteq> None | _ \<Rightarrow> False)"

text \<open>One package of the closure: exactly one generated package has its name and version.\<close>

definition cover_entry :: "script_env \<Rightarrow> js list \<Rightarrow> cargo_entry \<Rightarrow> cargo_entry res" where
  "cover_entry env generated e =
     (let p = ce_package e in
      case filter (\<lambda>g. name_version (fld g ''name'') (fld g ''versionInfo'') = name_version (fld p ''name'') (fld p ''version'')) generated of
        [g] \<Rightarrow>
          if \<not> cargoSbomPackageMatches p g then Inl (sbom_fail ''cargo-sbom output does not exactly cover'')
          else let license = fld g ''licenseDeclared'' in
            bindE (case fst (cargoLicenseMetadata env p) of
                Some declared \<Rightarrow> if license \<noteq> JStr declared then Inl (sbom_fail ''cargo-sbom changed a valid license expression'') else Inr ()
              | None \<Rightarrow> if \<not> valid_expression license
                  then Inl (sbom_fail ''cargo-sbom did not provide a valid expression for unresolved license metadata'') else Inr ()) (\<lambda>_.
            if ce_generator e \<noteq> None \<and> ce_generator e \<noteq> Some license
            then Inl (sbom_fail ''cargo-sbom license output differs between bindings'')
            else Inr (e\<lparr>ce_generator := Some license\<rparr>))
      | _ \<Rightarrow> Inl (sbom_fail ''cargo-sbom output does not exactly cover''))"

definition excluded_entry :: "js \<Rightarrow> js \<Rightarrow> string \<Rightarrow> string \<Rightarrow> js" where
  "excluded_entry name version source reason =
     JObj [(''name'', name), (''version'', version), (''source'', JStr source), (''reason'', JStr reason)]"

definition OUTSIDE_REASON :: string where
  "OUTSIDE_REASON = ''cargo-sbom output is outside the normal dependency closure for the formal target set''"

text \<open>A generated package outside the closure must be a package of the metadata or of the lock file.\<close>

definition excluded_package ::
  "string \<Rightarrow> cargo_graph \<Rightarrow> (string \<times> lock_record) list \<Rightarrow> js \<Rightarrow> (string \<times> js) res" where
  "excluded_package root g lock generated =
     (let same = (\<lambda>p. strict_eq (fld p ''name'') (fld generated ''name'') \<and> strict_eq (fld p ''version'') (fld generated ''versionInfo''))
      in case filter same (map snd (cg_all g)) of
           [p] \<Rightarrow>
             if \<not> cargoSbomPackageMatches p generated then Inl (sbom_fail ''cargo-sbom metadata differs for excluded package'')
             else bindE (cargoIdentityKey root p) (\<lambda>identity.
               bindE (cargoPackageSource root p) (\<lambda>source.
                 Inr (identity, excluded_entry (fld p ''name'') (fld p ''version'') source OUTSIDE_REASON)))
         | [] \<Rightarrow>
             (case filter (\<lambda>r. strict_eq (JStr (lk_name r)) (fld generated ''name'') \<and>
                 strict_eq (JStr (lk_version r)) (fld generated ''versionInfo'')) (map snd lock) of
                [r] \<Rightarrow>
                  (case lk_source r of
                     Some source \<Rightarrow>
                       if \<not> strict_eq (fld generated ''downloadLocation'') (JStr source)
                       then Inl (sbom_fail ''cargo-sbom output contains an untraceable package'')
                       else if \<not> valid_expression (fld generated ''licenseDeclared'')
                       then Inl (sbom_fail ''cargo-sbom excluded package license is invalid'')
                       else Inr (lock_key r source, excluded_entry (JStr (lk_name r)) (JStr (lk_version r)) source OUTSIDE_REASON)
                   | None \<Rightarrow> Inl (sbom_fail ''cargo-sbom output contains an untraceable package''))
              | _ \<Rightarrow> Inl (sbom_fail ''cargo-sbom output contains an untraceable package''))
         | _ \<Rightarrow> Inl (sbom_fail ''cargo-sbom output contains an ambiguous package''))"

fun cover_excluded ::
  "string \<Rightarrow> cargo_graph \<Rightarrow> (string \<times> lock_record) list \<Rightarrow> js list \<Rightarrow> (string \<times> js) list \<Rightarrow> (string \<times> js) list res" where
  "cover_excluded root g lock [] excluded = Inr excluded"
| "cover_excluded root g lock (p # ps) excluded =
     (if list_ex (\<lambda>e. strict_eq (fld (ce_package e) ''name'') (fld p ''name'') \<and>
           strict_eq (fld (ce_package e) ''version'') (fld p ''versionInfo'')) (cg_packages g)
      then cover_excluded root g lock ps excluded
      else bindE (excluded_package root g lock p) (\<lambda>(identity, entry).
        cover_excluded root g lock ps (obj_update excluded identity entry)))"

fun cover_bindings ::
  "script_env \<Rightarrow> (string \<times> lock_record) list \<Rightarrow> (string \<times> js) list \<Rightarrow> cargo_graph \<Rightarrow> (string \<times> js) list \<Rightarrow>
     (cargo_graph \<times> (string \<times> js) list) res" where
  "cover_bindings env lock [] g excluded = Inr (g, excluded)"
| "cover_bindings env lock ((binding, document) # ds) g excluded =
     (let generated = elems (fld document ''packages''); role = (if binding = ''node'' then ''native'' else ''wasm'') in
      bindE (mapE (\<lambda>e. if role \<in> set (ce_roles e) then cover_entry env generated e else Inr e) (cg_packages g)) (\<lambda>pm.
      let g' = g\<lparr>cg_packages := pm\<rparr> in
      bindE (cover_excluded (se_root env) g' lock generated excluded) (\<lambda>excluded'.
        cover_bindings env lock ds g' excluded')))"

definition excluded_name :: "js \<Rightarrow> string" where
  "excluded_name x = text_of (fld x ''name'') @ ''|'' @ text_of (fld x ''version'') @ ''|'' @ text_of (fld x ''source'')"

text \<open>The packages of the graph gain their generator expression; the excluded packages are returned.\<close>

definition validateGeneratorCoverage ::
  "script_env \<Rightarrow> cargo_graph \<Rightarrow> (string \<times> js) list \<Rightarrow> (string \<times> lock_record) list \<Rightarrow> (cargo_graph \<times> js list) res" where
  "validateGeneratorCoverage env g documents lock =
     bindE (cover_bindings env lock documents g []) (\<lambda>(g', excluded).
       Inr (g', sort_by (\<lambda>l r. se_collate env (excluded_name l) (excluded_name r)) (map snd excluded)))"

section \<open>Components\<close>

text \<open>
  The object of a component. \<open>None\<close> in \<open>cp_license_expression\<close>, \<open>cp_declared\<close>,
  \<open>cp_generator\<close> and \<open>cp_clarification\<close> is \<open>null\<close>; \<open>JUndef\<close> in \<open>cp_checksum\<close> and \<open>None\<close> in
  \<open>cp_description\<close> and \<open>cp_repository\<close> is \<open>undefined\<close>.
\<close>

record component =
  cp_ecosystem :: string
  cp_name :: js
  cp_version :: js
  cp_source :: string
  cp_license_expression :: "string option"
  cp_declared :: "string option"
  cp_generator :: js
  cp_license_status :: string
  cp_text_status :: string
  cp_text_files :: "js list"
  cp_clarification :: "string option"
  cp_normalization :: js
  cp_roles :: "string list"
  cp_checksum :: js
  cp_description :: "string option"
  cp_repository :: "string option"
  cp_source_commit :: js
  cp_cargo_lock :: js
  cp_identity :: string

definition packageIdentityKey :: "component \<Rightarrow> string" where
  "packageIdentityKey c = cp_ecosystem c @ ''|'' @ text_of (cp_name c) @ ''|'' @ text_of (cp_version c) @ ''|'' @ cp_source c"

definition js_string :: "js \<Rightarrow> string option" where
  "js_string v = (case v of JStr s \<Rightarrow> Some s | _ \<Rightarrow> None)"

definition cargo_status :: "js \<Rightarrow> string option \<Rightarrow> string" where
  "cargo_status license expression =
     (case expression of None \<Rightarrow> if is_str license then ''unknown'' else ''missing'' | Some e \<Rightarrow> licenseStatus (Some e))"

text \<open>
  One element of \<open>buildCargoComponents\<close>. An expression that \<open>cargoLicenseMetadata\<close> returns
  parses (\<open>cargo_expression_parses\<close>), so \<open>parsed.parsed\<close> is undefined exactly when there is none.
\<close>

definition cargo_checksum :: "(string \<times> lock_record) list \<Rightarrow> string \<Rightarrow> js \<Rightarrow> js res" where
  "cargo_checksum lock identity p =
     (if \<not> is_str (fld p ''source'') then Inr JUndef
      else (case Option.bind (map_of lock identity) lk_checksum of
          Some h \<Rightarrow> if rx_test hash_pattern h then Inr (JStr h) else Inl (sbom_fail ''Cargo.lock checksum is missing'')
        | None \<Rightarrow> Inl (sbom_fail ''Cargo.lock checksum is missing'')))"

definition cargo_component ::
  "script_env \<Rightarrow> string \<Rightarrow> (string \<Rightarrow> string list option) \<Rightarrow> (string \<times> lock_record) list \<Rightarrow> js \<Rightarrow> js \<Rightarrow> cargo_entry \<Rightarrow> component res" where
  "cargo_component env evidencePath readdir lock sourceCommit cargoDigest e =
     (let p = ce_package e; expression = fst (cargoLicenseMetadata env p) in
      bindE (cargoPackageSource (se_root env) p) (\<lambda>source.
      bindE (case expression of
          None \<Rightarrow> Inr \<lparr>lf_status = ''unavailable'', lf_files = [], lf_reason = Some
            (if is_str (fld p ''license'') then ''Cargo package license metadata is not a valid SPDX expression''
             else ''Cargo package has no license expression'')\<rparr>
        | Some s \<Rightarrow> packageLicenseFiles env evidencePath readdir p s) (\<lambda>text.
      bindE (cargoIdentityKey (se_root env) p) (\<lambda>identity.
      bindE (cargo_checksum lock identity p) (\<lambda>checksum.
      let c = \<lparr>cp_ecosystem = ''cargo'', cp_name = fld p ''name'', cp_version = fld p ''version'', cp_source = source,
            cp_license_expression = expression, cp_declared = js_string (fld p ''license''),
            cp_generator = (case ce_generator e of None \<Rightarrow> JNull | Some v \<Rightarrow> v),
            cp_license_status = cargo_status (fld p ''license'') expression,
            cp_text_status = lf_status text, cp_text_files = lf_files text, cp_clarification = lf_reason text,
            cp_normalization = snd (cargoLicenseMetadata env p), cp_roles = sort (ce_roles e), cp_checksum = checksum,
            cp_description = map_option str_trim (js_string (fld p ''description'')),
            cp_repository = js_string (fld p ''repository''), cp_source_commit = sourceCommit, cp_cargo_lock = cargoDigest,
            cp_identity = []\<rparr>
      in Inr (c\<lparr>cp_identity := packageIdentityKey c\<rparr>))))))"

definition buildCargoComponents ::
  "script_env \<Rightarrow> string \<Rightarrow> (string \<Rightarrow> string list option) \<Rightarrow> cargo_graph \<Rightarrow> (string \<times> lock_record) list \<Rightarrow> js \<Rightarrow> js \<Rightarrow>
     component list res" where
  "buildCargoComponents env evidencePath readdir g lock sourceCommit cargoDigest =
     mapE (cargo_component env evidencePath readdir lock sourceCommit cargoDigest) (cg_packages g)"

lemma cargo_expression_parses:
  "fst (cargoLicenseMetadata env p) = Some s \<Longrightarrow> tryParseLicenseExpression s \<noteq> None"
proof -
  have "tryParseLicenseExpression DALEK_NORMALIZED \<noteq> None" unfolding DALEK_NORMALIZED_def by code_simp
  then show "fst (cargoLicenseMetadata env p) = Some s \<Longrightarrow> tryParseLicenseExpression s \<noteq> None"
    by (auto simp: cargoLicenseMetadata_def Let_def split: if_splits option.splits js.splits)
qed

end
