(* ===== verification/SbomDocuments.thy ===== *)
theory SbomDocuments
  imports SbomComponents
begin

text \<open>
  The two documents of \<open>release-sbom.mjs\<close>, the license inventory and the SPDX document: how
  they are created from the context of a release and how a document that was read back is
  validated against the context. The validated release manifest, the digests of the tracked
  lock files and the ISO timestamp of the source commit are parameters.
\<close>

section \<open>The context\<close>

record sbom_context =
  cx_package_name :: js
  cx_package_version :: js
  cx_source_commit :: js
  cx_cargo_lock :: js
  cx_pnpm_lock :: js
  cx_npm_count :: int
  cx_components :: "component list"
  cx_edges :: edge_map
  cx_excluded :: "js list"
  cx_rn_manifest :: js
  cx_rn_artifacts :: "js list"
  cx_timestamp :: string

text \<open>\<open>Object.keys(v ?? {}).length\<close>.\<close>

definition key_count :: "js \<Rightarrow> nat" where
  "key_count v = (case v of JObj ps \<Rightarrow> length ps | JArr xs \<Rightarrow> length xs | JStr s \<Rightarrow> length s | _ \<Rightarrow> 0)"

definition UNREACHABLE_REASON :: string where
  "UNREACHABLE_REASON = ''not reachable through a normal dependency edge for the formal native/WASM target set''"

fun exclude_unreachable :: "string \<Rightarrow> cargo_graph \<Rightarrow> (string \<times> js) list \<Rightarrow> (string \<times> js) list \<Rightarrow> (string \<times> js) list res" where
  "exclude_unreachable root g [] excluded = Inr excluded"
| "exclude_unreachable root g ((identity, p) # ps) excluded =
     (if identity \<in> set (map ce_identity (cg_packages g)) then exclude_unreachable root g ps excluded
      else bindE (cargoPackageSource root p) (\<lambda>source.
        exclude_unreachable root g ps (obj_update excluded identity
          (excluded_entry (fld p ''name'') (fld p ''version'') source UNREACHABLE_REASON))))"

definition exclude_generated :: "(string \<times> js) list \<Rightarrow> js list \<Rightarrow> (string \<times> js) list" where
  "exclude_generated excluded generated =
     foldl (\<lambda>acc x. let identity = ''cargo|'' @ excluded_name x in
       if identity \<in> set (map fst acc) then acc else obj_update acc identity x) excluded generated"

definition root_component ::
  "script_env \<Rightarrow> string \<Rightarrow> (string \<Rightarrow> string list option) \<Rightarrow> js \<Rightarrow> js \<Rightarrow> string \<Rightarrow> component res" where
  "root_component env evidencePath readdir phase3 meta packageRootPath =
     (let license = js_string (fld meta ''license'');
          p = JObj [(''source'', JStr ''npm''), (''manifest_path'', JStr (posix_resolve packageRootPath [''package.json''])),
            (''name'', fld meta ''name''), (''version'', fld meta ''version'')];
          parses = (case license of None \<Rightarrow> False | Some s \<Rightarrow> tryParseLicenseExpression s \<noteq> None)
      in bindE (case license of
            None \<Rightarrow> Inr \<lparr>lf_status = ''missing'', lf_files = [], lf_reason = Some ''npm package license metadata is missing''\<rparr>
          | Some s \<Rightarrow> packageLicenseFiles env evidencePath readdir p s) (\<lambda>text.
         let c = \<lparr>cp_ecosystem = ''npm'', cp_name = fld meta ''name'', cp_version = fld meta ''version'',
               cp_source = ''path:packages/wallet-core'',
               cp_license_expression = (if parses then license else None), cp_declared = license, cp_generator = JNull,
               cp_license_status = (if parses then licenseStatus license else if license = None then ''missing'' else ''unknown''),
               cp_text_status = lf_status text, cp_text_files = lf_files text, cp_clarification = lf_reason text,
               cp_normalization = no_normalization, cp_roles = [''npm-package''],
               cp_checksum = fld (fld phase3 ''npm_tarball'') ''sha256'', cp_description = None, cp_repository = None,
               cp_source_commit = fld phase3 ''source_commit'', cp_cargo_lock = fld phase3 ''cargo_lock_sha256'', cp_identity = []\<rparr>
         in Inr (c\<lparr>cp_identity := packageIdentityKey c\<rparr>)))"

definition NODE_BINDING :: string where "NODE_BINDING = ''symbol-nem-wallet-core-node''"
definition WASM_BINDING :: string where "WASM_BINDING = ''symbol-nem-wallet-core-wasm''"

definition find_cargo :: "string \<Rightarrow> component list \<Rightarrow> component option" where
  "find_cargo name cs = find (\<lambda>c. cp_ecosystem c = ''cargo'' \<and> strict_eq (cp_name c) (JStr name)) cs"

definition createContext ::
  "script_env \<Rightarrow> string \<Rightarrow> (string \<Rightarrow> string list option) \<Rightarrow> string \<Rightarrow> string \<Rightarrow> string \<Rightarrow> string \<Rightarrow> js \<Rightarrow> js \<Rightarrow> string \<Rightarrow>
     cargo_graph \<Rightarrow> (string \<times> js) list \<Rightarrow> sbom_context res" where
  "createContext env evidencePath readdir cargoLock cargoDigest pnpmDigest timestamp phase3 meta packageRootPath g documents =
     (if \<not> strict_eq (fld phase3 ''cargo_lock_sha256'') (JStr cargoDigest) \<or>
         \<not> strict_eq (fld phase3 ''pnpm_lock_sha256'') (JStr pnpmDigest)
      then Inl (sbom_fail ''Phase 3 lockfile identity differs from canonical tracked source'')
      else
      bindE (cargoLockIndex cargoLock) (\<lambda>lock.
      bindE (validateGeneratorCoverage env g documents lock) (\<lambda>(g', generated).
      bindE (exclude_unreachable (se_root env) g' (cg_all g') []) (\<lambda>unreachable.
      bindE (buildCargoComponents env evidencePath readdir g' lock (fld phase3 ''source_commit'') (fld phase3 ''cargo_lock_sha256'')) (\<lambda>cargo.
      let count = key_count (fld meta ''dependencies'') + key_count (fld meta ''optionalDependencies'') +
            key_count (fld meta ''peerDependencies'') in
      if count \<noteq> 0 then Inl (sbom_fail ''npm runtime/optional/peer dependency scope is non-empty and requires explicit SBOM expansion'')
      else
      bindE (root_component env evidencePath readdir phase3 meta packageRootPath) (\<lambda>root.
      if find_cargo NODE_BINDING cargo = None \<or> find_cargo WASM_BINDING cargo = None
      then Inl (sbom_fail ''actual Cargo graph does not contain both shipped bindings'')
      else Inr \<lparr>cx_package_name = fld phase3 ''package_name'', cx_package_version = fld phase3 ''package_version'',
        cx_source_commit = fld phase3 ''source_commit'', cx_cargo_lock = fld phase3 ''cargo_lock_sha256'',
        cx_pnpm_lock = fld phase3 ''pnpm_lock_sha256'', cx_npm_count = int count, cx_components = root # cargo,
        cx_edges = cg_edges g',
        cx_excluded = sort_by (\<lambda>l r. se_collate env (excluded_name l) (excluded_name r))
          (map snd (exclude_generated unreachable generated)),
        cx_rn_manifest = fld (fld phase3 ''react_native'') ''artifact_manifest'',
        cx_rn_artifacts = elems (fld (fld phase3 ''react_native'') ''artifacts''), cx_timestamp = timestamp\<rparr>))))))"

text \<open>
  \<open>packageMetadataFromRoot\<close> and \<open>validateAndLoad\<close>; \<open>phase3\<close> is the outcome of
  \<open>validateReleaseManifest\<close>, and the two digests are those of the tracked lock files.
\<close>

definition packageMetadataFromRoot :: "script_env \<Rightarrow> string \<Rightarrow> js res" where
  "packageMetadataFromRoot env root =
     bindE (sbom_json env (posix_resolve root [''package.json''])) (\<lambda>meta.
     if nullish meta then Inl TypeErr
     else if \<not> strict_eq (fld meta ''name'') (JStr ''@nemnesia/symbol-nem-wallet-core'') \<or> \<not> is_str (fld meta ''version'') \<or>
        \<not> rx_test version_pattern (str_of (fld meta ''version''))
     then Inl (sbom_fail ''npm package identity is invalid'') else Inr meta)"

definition cargo_sbom_of :: "script_env \<Rightarrow> (string \<Rightarrow> string option) \<Rightarrow> string \<Rightarrow> js res" where
  "cargo_sbom_of env paths binding =
     (case paths binding of None \<Rightarrow> Inl (sbom_fail ''unreadable or malformed'') | Some path \<Rightarrow> parseCargoSbom env path)"

definition validateAndLoad ::
  "script_env \<Rightarrow> string \<Rightarrow> (string \<Rightarrow> string list option) \<Rightarrow> string \<Rightarrow> string \<Rightarrow> string \<Rightarrow> string \<Rightarrow> js res \<Rightarrow> string \<Rightarrow>
     (string \<Rightarrow> string option) \<Rightarrow> (string \<Rightarrow> string option) \<Rightarrow> sbom_context res" where
  "validateAndLoad env evidencePath readdir cargoLock cargoDigest pnpmDigest timestamp phase3 packageRoot cargoMetadata cargoSbom =
     bindE phase3 (\<lambda>phase3.
     bindE (packageMetadataFromRoot env packageRoot) (\<lambda>meta.
     if \<not> strict_eq (fld phase3 ''package_name'') (JStr ''@nemnesia/symbol-nem-wallet-core'') \<or>
        \<not> strict_eq (fld phase3 ''package_version'') (fld meta ''version'')
     then Inl (sbom_fail ''Phase 3 package identity differs from npm metadata'')
     else
     bindE (collectCargoGraph env cargoMetadata) (\<lambda>g.
     bindE (cargo_sbom_of env cargoSbom ''node'') (\<lambda>node.
     bindE (cargo_sbom_of env cargoSbom ''wasm'') (\<lambda>wasm.
       createContext env evidencePath readdir cargoLock cargoDigest pnpmDigest timestamp phase3 meta packageRoot g
         [(''node'', node), (''wasm'', wasm)])))))"

section \<open>The license inventory\<close>

definition spdx_slug :: "string \<Rightarrow> string" where
  "spdx_slug = map (\<lambda>c. if spdx_char c then c else CHR ''-'')"

definition replace_at :: "string \<Rightarrow> string" where
  "replace_at s = concat (map (\<lambda>c. if c = CHR ''@'' then ''-at-'' else [c]) s)"

definition spdxIdForComponent :: "script_env \<Rightarrow> component \<Rightarrow> string" where
  "spdxIdForComponent env c =
     ''SPDXRef-Package-'' @ spdx_slug (replace_at (cp_ecosystem c @ ''-'' @ text_of (cp_name c) @ ''-'' @ text_of (cp_version c))) @
     ''-'' @ take 16 (se_sha256 env (utf8_bytes (cp_identity c)))"

definition opt_json :: "string option \<Rightarrow> js" where
  "opt_json x = (case x of None \<Rightarrow> JNull | Some s \<Rightarrow> JStr s)"

definition inventory_component :: "script_env \<Rightarrow> component \<Rightarrow> js" where
  "inventory_component env c = JObj
     ([(''ecosystem'', JStr (cp_ecosystem c)), (''name'', cp_name c), (''version'', cp_version c), (''source'', JStr (cp_source c)),
       (''spdx_id'', JStr (spdxIdForComponent env c)), (''license_expression'', opt_json (cp_license_expression c)),
       (''declared_license_metadata'', opt_json (cp_declared c)), (''generator_license_expression'', cp_generator c),
       (''license_status'', JStr (cp_license_status c)), (''license_text_status'', JStr (cp_text_status c)),
       (''license_text_files'', JArr (cp_text_files c)), (''clarification_reason'', opt_json (cp_clarification c)),
       (''license_normalization'', cp_normalization c), (''artifact_roles'', JArr (map JStr (cp_roles c)))] @
      (if cp_checksum c = JUndef then [] else [(''checksum_sha256'', cp_checksum c)]))"

text \<open>\<open>{ ...v }\<close>.\<close>

definition own_copy :: "js \<Rightarrow> js" where
  "own_copy v = (case v of
     JObj ps \<Rightarrow> JObj ps
   | JArr xs \<Rightarrow> JObj (zip (map nat_digits [0..<length xs]) xs)
   | JStr s \<Rightarrow> JObj (zip (map nat_digits [0..<length s]) (map (\<lambda>c. JStr [c]) s))
   | _ \<Rightarrow> JObj [])"

definition is_cargo :: "component \<Rightarrow> bool" where
  "is_cargo c \<longleftrightarrow> cp_ecosystem c = ''cargo''"

definition is_registry :: "component \<Rightarrow> bool" where
  "is_registry c \<longleftrightarrow> is_cargo c \<and> starts_with ''registry+'' (cp_source c)"

definition null_if_undefined :: "js \<Rightarrow> js" where
  "null_if_undefined v = (if nullish v then JNull else v)"

definition INVENTORY_KEYS :: "string list" where
  "INVENTORY_KEYS = [''schema_version'', ''inventory_kind'', ''package_name'', ''package_version'', ''source_commit'',
     ''cargo_lock_sha256'', ''pnpm_lock_sha256'', ''sbom_file'', ''npm_runtime_dependency_count'', ''rust_component_count'',
     ''rust_dependency_package_count'', ''excluded_cargo_packages'', ''react_native_artifact_manifest'',
     ''react_native_artifacts'', ''components'']"

definition sorted_components :: "script_env \<Rightarrow> component list \<Rightarrow> component list" where
  "sorted_components env cs = sort_by (\<lambda>l r. se_collate env (packageIdentityKey l) (packageIdentityKey r)) cs"

definition createLicenseInventory :: "script_env \<Rightarrow> sbom_context \<Rightarrow> js" where
  "createLicenseInventory env cx = JObj
     [(''schema_version'', JInt 2), (''inventory_kind'', JStr ''license''), (''package_name'', cx_package_name cx),
      (''package_version'', cx_package_version cx), (''source_commit'', cx_source_commit cx),
      (''cargo_lock_sha256'', cx_cargo_lock cx), (''pnpm_lock_sha256'', cx_pnpm_lock cx), (''sbom_file'', JStr ''sbom.spdx.json''),
      (''npm_runtime_dependency_count'', JInt (cx_npm_count cx)),
      (''rust_component_count'', JInt (int (length (filter is_cargo (cx_components cx))))),
      (''rust_dependency_package_count'', JInt (int (length (filter is_registry (cx_components cx))))),
      (''excluded_cargo_packages'', JArr (cx_excluded cx)),
      (''react_native_artifact_manifest'', null_if_undefined (cx_rn_manifest cx)),
      (''react_native_artifacts'', JArr (map own_copy (cx_rn_artifacts cx))),
      (''components'', JArr (map (inventory_component env) (sorted_components env (cx_components cx))))]"

definition NORMALIZATION_BASIS_KEYS :: "string list" where
  "NORMALIZATION_BASIS_KEYS = [''type'', ''repository'', ''declared_license_metadata'', ''license_text_files'',
     ''normalized_spdx_expression'']"

definition validateLicenseNormalization :: "js \<Rightarrow> js \<Rightarrow> unit res" where
  "validateLicenseNormalization v c =
     bindE (sbom_checks [(isPlainObject v \<and> exactKeys v [''applied'', ''basis''], ''license normalization has unexpected or missing fields''),
       (is_bool (fld v ''applied''), ''license normalization applied flag is invalid'')]) (\<lambda>_.
     if strict_eq (fld v ''applied'') (JBool False)
     then sbom_checks [(strict_eq (fld v ''basis'') JNull, ''license normalization basis is unexpected'')]
     else (let basis = fld v ''basis''; files = fld basis ''license_text_files'' in
       sbom_checks
         [(isPlainObject basis \<and> exactKeys basis NORMALIZATION_BASIS_KEYS, ''license normalization basis has unexpected or missing fields''),
          (strict_eq (fld basis ''type'') (JStr ''upstream-package-metadata-and-license-files'') \<and>
             strict_eq (fld basis ''repository'') (JStr DALEK_REPOSITORY) \<and>
             strict_eq (fld basis ''declared_license_metadata'') (fld c ''declared_license_metadata'') \<and>
             strict_eq (fld basis ''normalized_spdx_expression'') (fld c ''license_expression'') \<and>
             is_arr files \<and> length (elems files) \<noteq> 0, ''license normalization basis is inconsistent''),
          (list_all (\<lambda>f. \<not> unsafe_path f) (elems files), ''license normalization evidence is not a safe relative path''),
          (valid_expression (fld basis ''normalized_spdx_expression''), ''license normalization expression is invalid'')]))"


text \<open>\<open>packageIdentityKey\<close> of a component that was read back.\<close>

definition js_identity :: "js \<Rightarrow> string res" where
  "js_identity c =
     bindE (mapE str_or_throw [fld c ''ecosystem'', fld c ''name'', fld c ''version'', fld c ''source'']) (\<lambda>ps. Inr (join ''|'' ps))"

definition INVENTORY_COMPONENT_KEYS :: "string list" where
  "INVENTORY_COMPONENT_KEYS = [''ecosystem'', ''name'', ''version'', ''source'', ''spdx_id'', ''license_expression'',
     ''declared_license_metadata'', ''generator_license_expression'', ''license_status'', ''license_text_status'',
     ''license_text_files'', ''clarification_reason'', ''license_normalization'', ''artifact_roles'']"

definition component_metadata_same :: "script_env \<Rightarrow> js \<Rightarrow> component \<Rightarrow> bool" where
  "component_metadata_same env c e \<longleftrightarrow>
     strict_eq (fld c ''spdx_id'') (JStr (spdxIdForComponent env e)) \<and>
     strict_eq (fld c ''license_expression'') (opt_json (cp_license_expression e)) \<and>
     strict_eq (fld c ''declared_license_metadata'') (opt_json (cp_declared e)) \<and>
     strict_eq (fld c ''generator_license_expression'') (cp_generator e) \<and>
     strict_eq (fld c ''license_status'') (JStr (cp_license_status e)) \<and>
     strict_eq (fld c ''license_text_status'') (JStr (cp_text_status e)) \<and>
     json_same (fld c ''license_text_files'') (JArr (cp_text_files e)) \<and>
     strict_eq (null_if_undefined (fld c ''clarification_reason'')) (opt_json (cp_clarification e)) \<and>
     json_same (fld c ''license_normalization'') (cp_normalization e) \<and>
     json_same (fld c ''artifact_roles'') (JArr (map JStr (cp_roles e)))"

definition inventory_component_step :: "script_env \<Rightarrow> (string \<times> component) list \<Rightarrow> string list \<Rightarrow> js \<Rightarrow> string res" where
  "inventory_component_step env expected actual c =
     (if nullish c then Inl TypeErr
      else
      bindE (sbom_checks [(isPlainObject c \<and> exactKeys c (INVENTORY_COMPONENT_KEYS @
          (if fld c ''checksum_sha256'' = JUndef then [] else [''checksum_sha256''])),
          ''license inventory component has unexpected or missing fields'')]) (\<lambda>_.
      bindE (js_identity c) (\<lambda>identity.
      (case js_map_of expected identity of
         None \<Rightarrow> Inl (sbom_fail ''license inventory component identity is missing or duplicated'')
       | Some e \<Rightarrow>
           if identity \<in> set actual then Inl (sbom_fail ''license inventory component identity is missing or duplicated'')
           else
           bindE (validateLicenseNormalization (fld c ''license_normalization'') c) (\<lambda>_.
           bindE (sbom_checks
             [(component_metadata_same env c e, ''license inventory component metadata differs''),
              (strict_eq (fld c ''checksum_sha256'') (cp_checksum e), ''license inventory checksum differs''),
              (strict_eq (fld c ''license_expression'') JNull \<or> valid_expression (fld c ''license_expression''),
                ''invalid normalized SPDX license expression'')]) (\<lambda>_. Inr identity))))))"

fun inventory_component_loop :: "script_env \<Rightarrow> (string \<times> component) list \<Rightarrow> string list \<Rightarrow> js list \<Rightarrow> string list res" where
  "inventory_component_loop env expected actual [] = Inr actual"
| "inventory_component_loop env expected actual (c # cs) =
     bindE (inventory_component_step env expected actual c) (\<lambda>identity.
       inventory_component_loop env expected (identity # actual) cs)"

definition expected_components :: "sbom_context \<Rightarrow> (string \<times> component) list" where
  "expected_components cx = map (\<lambda>c. (cp_identity c, c)) (cx_components cx)"

definition inventory_header :: "js \<Rightarrow> sbom_context \<Rightarrow> (bool \<times> string) list" where
  "inventory_header inventory cx =
     [(isPlainObject inventory \<and> exactKeys inventory INVENTORY_KEYS, ''license inventory has unexpected or missing fields''),
      (strict_eq (fld inventory ''schema_version'') (JInt 2) \<and> strict_eq (fld inventory ''inventory_kind'') (JStr ''license''),
        ''license inventory schema is unsupported''),
      (strict_eq (fld inventory ''package_name'') (cx_package_name cx) \<and> strict_eq (fld inventory ''package_version'') (cx_package_version cx) \<and>
        strict_eq (fld inventory ''source_commit'') (cx_source_commit cx), ''license inventory package/source identity differs''),
      (strict_eq (fld inventory ''cargo_lock_sha256'') (cx_cargo_lock cx) \<and> strict_eq (fld inventory ''pnpm_lock_sha256'') (cx_pnpm_lock cx) \<and>
        strict_eq (fld inventory ''sbom_file'') (JStr ''sbom.spdx.json''), ''license inventory lockfile/SBOM identity differs''),
      (strict_eq (fld inventory ''npm_runtime_dependency_count'') (JInt (cx_npm_count cx)) \<and>
        strict_eq (fld inventory ''rust_component_count'') (JInt (int (length (filter is_cargo (cx_components cx))))) \<and>
        strict_eq (fld inventory ''rust_dependency_package_count'') (JInt (int (length (filter is_registry (cx_components cx))))),
        ''license inventory dependency counts differ''),
      (json_same (fld inventory ''excluded_cargo_packages'') (JArr (cx_excluded cx)), ''license inventory excluded dependency evidence differs''),
      (json_same (fld inventory ''react_native_artifact_manifest'') (null_if_undefined (cx_rn_manifest cx)),
        ''license inventory React Native manifest evidence differs''),
      (json_same (fld inventory ''react_native_artifacts'') (JArr (cx_rn_artifacts cx)),
        ''license inventory React Native artifact evidence differs''),
      (is_arr (fld inventory ''components'') \<and> length (elems (fld inventory ''components'')) = length (cx_components cx),
        ''license inventory component count differs'')]"

definition validateLicenseInventory :: "script_env \<Rightarrow> js \<Rightarrow> sbom_context \<Rightarrow> bool res" where
  "validateLicenseInventory env inventory cx =
     bindE (sbom_checks (inventory_header inventory cx)) (\<lambda>_.
     bindE (inventory_component_loop env (expected_components cx) [] (elems (fld inventory ''components''))) (\<lambda>actual.
       if length actual \<noteq> card (set (map fst (expected_components cx)))
       then Inl (sbom_fail ''license inventory dependency graph is incomplete'') else Inr True))"

section \<open>The SPDX document\<close>

definition npmPurl :: "js \<Rightarrow> js \<Rightarrow> string" where
  "npmPurl name version =
     ''pkg:npm/'' @ (let n = text_of name in if starts_with ''@'' n then ''%40'' @ drop 1 n else n) @ ''@'' @ text_of version"

definition cargoPurl :: "js \<Rightarrow> js \<Rightarrow> string" where
  "cargoPurl name version = ''pkg:cargo/'' @ text_of name @ ''@'' @ text_of version"

definition spdxIdForReactNativeFile :: "js \<Rightarrow> string" where
  "spdxIdForReactNativeFile f = ''SPDXRef-File-'' @ spdx_slug (str_of (fld f ''relative_path''))"

definition rn_file :: "js \<Rightarrow> js" where
  "rn_file a = JObj [(''relative_path'', fld a ''relative_path''), (''sha256'', fld a ''sha256''), (''size'', fld a ''size'')]"

definition normalizedReactNativeFiles :: "sbom_context \<Rightarrow> js list" where
  "normalizedReactNativeFiles cx =
     (if nullish (cx_rn_manifest cx) then [] else [rn_file (cx_rn_manifest cx)]) @ map rn_file (cx_rn_artifacts cx)"

definition commentForComponent :: "component \<Rightarrow> string" where
  "commentForComponent c =
     ''source='' @ cp_source c @ ''; source_commit='' @ text_of (cp_source_commit c) @ ''; cargo_lock_sha256='' @
     text_of (cp_cargo_lock c) @ ''; artifact_roles='' @ join '','' (cp_roles c) @ ''; declared_license_metadata='' @
     (case cp_declared c of None \<Rightarrow> ''MISSING'' | Some s \<Rightarrow> s)"

definition opt_field :: "string \<Rightarrow> string option \<Rightarrow> (string \<times> js) list" where
  "opt_field k v = (case v of None \<Rightarrow> [] | Some s \<Rightarrow> [(k, JStr s)])"

definition purl_ref :: "string \<Rightarrow> (string \<times> js) list" where
  "purl_ref locator = [(''externalRefs'', JArr [JObj [(''referenceCategory'', JStr ''PACKAGE-MANAGER''),
     (''referenceLocator'', JStr locator), (''referenceType'', JStr ''purl'')]])]"

text \<open>\<open>packageIds.get(identity)\<close>: the last component of an identity; \<open>undefined\<close> without one.\<close>

definition package_id :: "script_env \<Rightarrow> component list \<Rightarrow> string \<Rightarrow> js" where
  "package_id env cs identity =
     (case js_map_of (map (\<lambda>c. (cp_identity c, spdxIdForComponent env c)) cs) identity of None \<Rightarrow> JUndef | Some i \<Rightarrow> JStr i)"

definition checksum_list :: "js \<Rightarrow> js" where
  "checksum_list v = JArr [JObj [(''algorithm'', JStr ''SHA256''), (''checksumValue'', v)]]"

definition spdx_package :: "script_env \<Rightarrow> component list \<Rightarrow> component \<Rightarrow> js" where
  "spdx_package env cs c = JObj
     ([(''SPDXID'', package_id env cs (cp_identity c)), (''name'', cp_name c), (''versionInfo'', cp_version c),
       (''downloadLocation'', JStr (if is_registry c then cp_source c else ''NOASSERTION'')), (''filesAnalyzed'', JBool False),
       (''licenseConcluded'', JStr ''NOASSERTION''),
       (''licenseDeclared'', JStr (case cp_license_expression c of None \<Rightarrow> ''NOASSERTION'' | Some s \<Rightarrow> s)),
       (''copyrightText'', JStr ''NOASSERTION''), (''packageComment'', JStr (commentForComponent c))] @
      opt_field ''description'' (cp_description c) @ opt_field ''homepage'' (cp_repository c) @
      (if cp_checksum c = JUndef then [] else [(''checksums'', checksum_list (cp_checksum c))]) @
      (if is_registry c then purl_ref (cargoPurl (cp_name c) (cp_version c))
       else if cp_ecosystem c = ''npm'' then purl_ref (npmPurl (cp_name c) (cp_version c)) else []))"

definition spdx_relationship :: "js \<Rightarrow> string \<Rightarrow> js \<Rightarrow> js" where
  "spdx_relationship a kind b = JObj [(''spdxElementId'', a), (''relationshipType'', JStr kind), (''relatedSpdxElement'', b)]"

definition relationship_key :: "js \<Rightarrow> string" where
  "relationship_key r = text_of (fld r ''spdxElementId'') @ ''|'' @ text_of (fld r ''relationshipType'') @ ''|'' @
     text_of (fld r ''relatedSpdxElement'')"

definition spdx_file :: "js \<Rightarrow> js" where
  "spdx_file f = JObj [(''SPDXID'', JStr (spdxIdForReactNativeFile f)), (''fileName'', fld f ''relative_path''),
     (''checksums'', checksum_list (fld f ''sha256'')), (''licenseConcluded'', JStr ''NOASSERTION''),
     (''copyrightText'', JStr ''NOASSERTION'')]"

definition SPDX_CREATORS :: js where
  "SPDX_CREATORS = JArr [JStr ''Tool: cargo-sbom-v0.10.0'', JStr ''Tool: symbol-nem-wallet-core-release-sbom-v1'']"

definition spdx_relationships :: "script_env \<Rightarrow> sbom_context \<Rightarrow> component list \<Rightarrow> component \<Rightarrow> component \<Rightarrow> component \<Rightarrow> js list" where
  "spdx_relationships env cx cs root node wasm =
     sort_by (\<lambda>l r. se_collate env (relationship_key l) (relationship_key r))
       ([spdx_relationship (JStr ''SPDXRef-DOCUMENT'') ''DESCRIBES'' (package_id env cs (cp_identity root))] @
        map (\<lambda>f. spdx_relationship (JStr ''SPDXRef-DOCUMENT'') ''DESCRIBES'' (JStr (spdxIdForReactNativeFile f)))
          (normalizedReactNativeFiles cx) @
        map (\<lambda>(a, b). spdx_relationship (package_id env cs a) ''DEPENDS_ON'' (package_id env cs b)) (cx_edges cx) @
        [spdx_relationship (package_id env cs (cp_identity root)) ''DEPENDS_ON'' (package_id env cs (cp_identity node)),
         spdx_relationship (package_id env cs (cp_identity root)) ''DEPENDS_ON'' (package_id env cs (cp_identity wasm))])"

definition release_name :: "sbom_context \<Rightarrow> string" where
  "release_name cx = ''symbol-nem-wallet-core-'' @ text_of (cx_package_version cx)"

definition document_namespace :: "sbom_context \<Rightarrow> string" where
  "document_namespace cx = ''https://spdx.org/spdxdocs/'' @ release_name cx @ ''-'' @ text_of (cx_source_commit cx)"

definition createSpdxDocument :: "script_env \<Rightarrow> sbom_context \<Rightarrow> js res" where
  "createSpdxDocument env cx =
     (let cs = sorted_components env (cx_components cx) in
      case find (\<lambda>c. cp_ecosystem c = ''npm'') cs of
        None \<Rightarrow> Inl (sbom_fail ''SPDX root npm package is missing'')
      | Some root \<Rightarrow>
        (case (find_cargo NODE_BINDING cs, find_cargo WASM_BINDING cs) of
           (Some node, Some wasm) \<Rightarrow> Inr (JObj
             [(''SPDXID'', JStr ''SPDXRef-DOCUMENT''),
              (''creationInfo'', JObj [(''created'', JStr (cx_timestamp cx)), (''creators'', SPDX_CREATORS)]),
              (''dataLicense'', JStr ''CC0-1.0''), (''documentNamespace'', JStr (document_namespace cx)),
              (''documentDescribes'', JArr (package_id env cs (cp_identity root) #
                 map (JStr \<circ> spdxIdForReactNativeFile) (normalizedReactNativeFiles cx))),
              (''files'', JArr (map spdx_file (normalizedReactNativeFiles cx))), (''name'', JStr (release_name cx)),
              (''packages'', JArr (map (spdx_package env cs) cs)),
              (''relationships'', JArr (spdx_relationships env cx cs root node wasm)), (''spdxVersion'', JStr ''SPDX-2.3'')])
         | _ \<Rightarrow> Inl (sbom_fail ''SPDX binding packages are missing'')))"


section \<open>Validation of the SPDX document\<close>

definition SPDX_DOCUMENT_KEYS :: "string list" where
  "SPDX_DOCUMENT_KEYS = [''SPDXID'', ''creationInfo'', ''dataLicense'', ''documentNamespace'', ''documentDescribes'',
     ''files'', ''name'', ''packages'', ''relationships'', ''spdxVersion'']"

text \<open>\<open>/^\d{4}-\d{2}-\d{2}T\d{2}:\d{2}:\d{2}\.\d{3}Z$/\<close>, position by position.\<close>

definition TIMESTAMP_SHAPE :: string where
  "TIMESTAMP_SHAPE = ''0000-00-00T00:00:00.000Z''"

definition is_timestamp :: "string \<Rightarrow> bool" where
  "is_timestamp s \<longleftrightarrow> list_all2 (\<lambda>c p. if p = CHR ''0'' then is_digit c else c = p) s TIMESTAMP_SHAPE"

definition spdx_header :: "js \<Rightarrow> js \<Rightarrow> sbom_context \<Rightarrow> (bool \<times> string) list" where
  "spdx_header document expected cx =
     [(strict_eq (fld document ''documentNamespace'') (fld expected ''documentNamespace'') \<and>
        strict_eq (fld document ''name'') (fld expected ''name''), ''SPDX document identity is not source-derived''),
      (isPlainObject (fld document ''creationInfo'') \<and> exactKeys (fld document ''creationInfo'') [''created'', ''creators''],
        ''SPDX creationInfo has unexpected or missing fields''),
      (is_str (fld (fld document ''creationInfo'') ''created'') \<and>
        is_timestamp (str_of (fld (fld document ''creationInfo'') ''created'')) \<and>
        strict_eq (fld (fld document ''creationInfo'') ''created'') (JStr (cx_timestamp cx)),
        ''SPDX creation timestamp is not source-derived''),
      (is_arr (fld (fld document ''creationInfo'') ''creators'') \<and>
        json_same (fld (fld document ''creationInfo'') ''creators'') SPDX_CREATORS, ''SPDX generator identity is invalid''),
      (is_arr (fld document ''packages'') \<and> length (elems (fld document ''packages'')) = length (cx_components cx),
        ''SPDX package count differs from the actual runtime closure'')]"

definition keyed :: "string \<Rightarrow> js list \<Rightarrow> (string \<times> js) list" where
  "keyed k xs = map (\<lambda>x. (str_of (fld x k), x)) xs"

definition spdx_file_step :: "(string \<times> js) list \<Rightarrow> string list \<Rightarrow> js \<Rightarrow> string res" where
  "spdx_file_step expected ids f =
     (if nullish f then Inl TypeErr
      else bindE (sbom_checks
        [(isPlainObject f \<and> exactKeys f [''SPDXID'', ''fileName'', ''checksums'', ''licenseConcluded'', ''copyrightText''],
          ''SPDX file has unexpected or missing fields''),
         (is_str (fld f ''SPDXID'') \<and> (case js_map_of expected (str_of (fld f ''SPDXID'')) of None \<Rightarrow> False
            | Some e \<Rightarrow> json_same f e \<and> str_of (fld f ''SPDXID'') \<notin> set ids),
          ''SPDX React Native file identity differs from the release manifest''),
         (\<not> unsafe_path (fld f ''fileName''), ''SPDX React Native file path is not a safe relative path''),
         (strict_eq (fld f ''licenseConcluded'') (JStr ''NOASSERTION'') \<and> strict_eq (fld f ''copyrightText'') (JStr ''NOASSERTION''),
          ''SPDX React Native file legal fields are unexpected'')]) (\<lambda>_. Inr (str_of (fld f ''SPDXID''))))"

fun spdx_file_loop :: "(string \<times> js) list \<Rightarrow> string list \<Rightarrow> js list \<Rightarrow> string list res" where
  "spdx_file_loop expected ids [] = Inr ids"
| "spdx_file_loop expected ids (f # fs) =
     bindE (spdx_file_step expected ids f) (\<lambda>i. spdx_file_loop expected (i # ids) fs)"

definition SPDX_PACKAGE_KEYS :: "string list" where
  "SPDX_PACKAGE_KEYS = [''SPDXID'', ''name'', ''versionInfo'', ''downloadLocation'', ''filesAnalyzed'', ''licenseConcluded'',
     ''licenseDeclared'', ''copyrightText'', ''packageComment'']"

definition SPDX_OPTIONAL_KEYS :: "string list" where
  "SPDX_OPTIONAL_KEYS = [''description'', ''homepage'', ''checksums'', ''externalRefs'']"

text \<open>The part of a step that compares the package with the canonical one.\<close>

definition canonical_package :: "(string \<times> js) list \<Rightarrow> string list \<Rightarrow> js \<Rightarrow> js res" where
  "canonical_package expected ids p =
     (if nullish p then Inl TypeErr
      else bindE (sbom_checks
        [(isPlainObject p \<and> exactKeys p (SPDX_PACKAGE_KEYS @ filter (has_own p) SPDX_OPTIONAL_KEYS),
          ''SPDX package has unexpected or missing fields''),
         (is_str (fld p ''SPDXID'') \<and> SPDX_ID_PATTERN (str_of (fld p ''SPDXID'')) \<and> str_of (fld p ''SPDXID'') \<notin> set ids,
          ''SPDX IDs are missing or duplicated'')]) (\<lambda>_.
      (case js_map_of expected (str_of (fld p ''SPDXID'')) of
         None \<Rightarrow> Inl (sbom_fail ''SPDX package fields differ from the canonical output'')
       | Some e \<Rightarrow> bindE (sbom_checks
          [(sort (obj_keys p) = sort (obj_keys e), ''SPDX package fields differ from the canonical output''),
           (list_all (\<lambda>k. json_same (fld p k) (fld e k)) (obj_keys e), ''SPDX package field differs from the canonical output'')])
          (\<lambda>_. Inr e))))"

definition componentFromSpdxPackage :: "js \<Rightarrow> sbom_context \<Rightarrow> component res" where
  "componentFromSpdxPackage p cx =
     (case filter (\<lambda>c. strict_eq (cp_name c) (fld p ''name'') \<and> strict_eq (cp_version c) (fld p ''versionInfo'')) (cx_components cx) of
        [c] \<Rightarrow> Inr c | _ \<Rightarrow> Inl (sbom_fail ''SPDX package identity is ambiguous''))"

definition package_component_checks :: "js \<Rightarrow> component \<Rightarrow> (bool \<times> string) list" where
  "package_component_checks p c =
     [(is_str (fld p ''versionInfo'') \<and> rx_test version_pattern (str_of (fld p ''versionInfo'')), ''SPDX package version is invalid''),
      (strict_eq (fld p ''filesAnalyzed'') (JBool False) \<and> strict_eq (fld p ''licenseConcluded'') (JStr ''NOASSERTION'') \<and>
        strict_eq (fld p ''copyrightText'') (JStr ''NOASSERTION''), ''SPDX package legal/file fields are unexpected''),
      (strict_eq (fld p ''licenseDeclared'') (JStr (case cp_license_expression c of None \<Rightarrow> ''NOASSERTION'' | Some s \<Rightarrow> s)),
        ''SPDX license expression differs''),
      (strict_eq (fld p ''licenseDeclared'') (JStr ''NOASSERTION'') \<or> valid_expression (fld p ''licenseDeclared''),
        ''SPDX license expression is invalid''),
      (strict_eq (fld p ''packageComment'') (JStr (commentForComponent c)), ''SPDX package source comment differs'')]"

definition package_origin_check :: "js \<Rightarrow> component \<Rightarrow> unit res" where
  "package_origin_check p c =
     (if is_registry c then
        (let sums = fld p ''checksums'' in
         if \<not> strict_eq (fld p ''downloadLocation'') (JStr (cp_source c)) \<or> \<not> is_arr sums \<or> length (elems sums) \<noteq> 1
         then Inl (sbom_fail ''SPDX Cargo package source/checksum differs'')
         else guard_any (sbom_fail ''SPDX Cargo package source/checksum differs'')
           [bindE (prop_of ''algorithm'' (hd (elems sums))) (\<lambda>a. Inr (\<not> strict_eq a (JStr ''SHA256''))),
            bindE (prop_of ''checksumValue'' (hd (elems sums))) (\<lambda>v. Inr (\<not> strict_eq v (cp_checksum c)))])
      else if \<not> strict_eq (fld p ''downloadLocation'') (JStr ''NOASSERTION'')
      then Inl (sbom_fail ''SPDX local package download location is not NOASSERTION'') else Inr ())"

definition package_purl_check :: "js \<Rightarrow> component \<Rightarrow> unit res" where
  "package_purl_check p c =
     (if cp_ecosystem c \<noteq> ''npm'' then Inr ()
      else let refs = fld p ''externalRefs'' in
        if \<not> is_arr refs \<or> length (elems refs) \<noteq> 1 then Inl (sbom_fail ''SPDX npm root purl is missing or invalid'')
        else guard_any (sbom_fail ''SPDX npm root purl is missing or invalid'')
          [bindE (prop_of ''referenceLocator'' (hd (elems refs))) (\<lambda>l. Inr (\<not> strict_eq l (JStr (npmPurl (cp_name c) (cp_version c)))))])"

fun spdx_package_loop ::
  "sbom_context \<Rightarrow> (string \<times> js) list \<Rightarrow> string list \<Rightarrow> string list \<Rightarrow> js list \<Rightarrow> string list res" where
  "spdx_package_loop cx expected ids seen [] = Inr ids"
| "spdx_package_loop cx expected ids seen (p # ps) =
     bindE (canonical_package expected ids p) (\<lambda>e.
     bindE (componentFromSpdxPackage p cx) (\<lambda>c.
     if packageIdentityKey c \<in> set seen then Inl (sbom_fail ''SPDX package identity is duplicated'')
     else
     bindE (sbom_checks (package_component_checks p c)) (\<lambda>_.
     bindE (package_origin_check p c) (\<lambda>_.
     bindE (package_purl_check p c) (\<lambda>_.
       spdx_package_loop cx expected (str_of (fld p ''SPDXID'') # ids) (packageIdentityKey c # seen) ps)))))"

text \<open>\<open>spdxIdForComponent(context.components.find(...))\<close>: a TypeError when there is none.\<close>

definition component_id :: "script_env \<Rightarrow> component option \<Rightarrow> string res" where
  "component_id env c = (case c of None \<Rightarrow> Inl TypeErr | Some x \<Rightarrow> Inr (spdxIdForComponent env x))"

definition find_identity :: "string \<Rightarrow> component list \<Rightarrow> component option" where
  "find_identity i cs = find (\<lambda>c. cp_identity c = i) cs"

definition rel_text :: "string \<Rightarrow> string \<Rightarrow> string \<Rightarrow> string" where
  "rel_text a kind b = a @ ''|'' @ kind @ ''|'' @ b"

definition expected_relationships :: "script_env \<Rightarrow> sbom_context \<Rightarrow> component \<Rightarrow> string list \<Rightarrow> string list res" where
  "expected_relationships env cx root fileIds =
     (let cs = cx_components cx; r = spdxIdForComponent env root in
      bindE (mapE (\<lambda>(a, b). bindE (component_id env (find_identity a cs)) (\<lambda>i.
          bindE (component_id env (find_identity b cs)) (\<lambda>j. Inr (rel_text i ''DEPENDS_ON'' j)))) (cx_edges cx)) (\<lambda>edges.
      bindE (component_id env (find_cargo NODE_BINDING cs)) (\<lambda>node.
      bindE (component_id env (find_cargo WASM_BINDING cs)) (\<lambda>wasm.
        Inr ([rel_text ''SPDXRef-DOCUMENT'' ''DESCRIBES'' r] @ map (rel_text ''SPDXRef-DOCUMENT'' ''DESCRIBES'') fileIds @
             edges @ [rel_text r ''DEPENDS_ON'' node, rel_text r ''DEPENDS_ON'' wasm])))))"

definition known_id :: "string list \<Rightarrow> js \<Rightarrow> bool" where
  "known_id ids v \<longleftrightarrow> is_str v \<and> str_of v \<in> set ids"

fun spdx_relationship_loop :: "string list \<Rightarrow> string list \<Rightarrow> js list \<Rightarrow> string list res" where
  "spdx_relationship_loop ids actual [] = Inr actual"
| "spdx_relationship_loop ids actual (r # rs) =
     bindE (sbom_checks
       [(isPlainObject r \<and> exactKeys r [''spdxElementId'', ''relationshipType'', ''relatedSpdxElement''],
         ''SPDX relationship has unexpected or missing fields''),
        (known_id ids (fld r ''spdxElementId'') \<and> known_id ids (fld r ''relatedSpdxElement''),
         ''SPDX relationship references an unknown ID'')]) (\<lambda>_.
     bindE (str_or_throw (fld r ''relationshipType'')) (\<lambda>kind.
     let key = rel_text (str_of (fld r ''spdxElementId'')) kind (str_of (fld r ''relatedSpdxElement'')) in
     if key \<in> set actual then Inl (sbom_fail ''SPDX relationship is duplicated'')
     else spdx_relationship_loop ids (key # actual) rs))"

definition validateSpdxDocument :: "script_env \<Rightarrow> js \<Rightarrow> sbom_context \<Rightarrow> bool res" where
  "validateSpdxDocument env document cx =
     bindE (sbom_checks
       [(isPlainObject document \<and> exactKeys document SPDX_DOCUMENT_KEYS, ''SPDX document has unexpected or missing fields''),
        (strict_eq (fld document ''SPDXID'') (JStr ''SPDXRef-DOCUMENT'') \<and> strict_eq (fld document ''spdxVersion'') (JStr ''SPDX-2.3'') \<and>
          strict_eq (fld document ''dataLicense'') (JStr ''CC0-1.0''), ''SPDX document identity is invalid'')]) (\<lambda>_.
     bindE (createSpdxDocument env cx) (\<lambda>expected.
     bindE (sbom_checks (spdx_header document expected cx)) (\<lambda>_.
     let expectedFiles = keyed ''SPDXID'' (elems (fld expected ''files'')) in
     if \<not> is_arr (fld document ''files'') \<or> length (elems (fld document ''files'')) \<noteq> card (set (map fst expectedFiles))
     then Inl (sbom_fail ''SPDX React Native file count differs from the release manifest'')
     else
     bindE (spdx_file_loop expectedFiles [''SPDXRef-DOCUMENT''] (elems (fld document ''files''))) (\<lambda>fileIds.
     bindE (spdx_package_loop cx (keyed ''SPDXID'' (elems (fld expected ''packages''))) fileIds [] (elems (fld document ''packages''))) (\<lambda>ids.
     (case find (\<lambda>c. cp_ecosystem c = ''npm'') (cx_components cx) of
        None \<Rightarrow> Inl (sbom_fail ''SPDX npm root component is missing'')
      | Some root \<Rightarrow>
          if \<not> is_arr (fld document ''documentDescribes'') \<or>
             \<not> json_same (fld document ''documentDescribes'') (fld expected ''documentDescribes'')
          then Inl (sbom_fail ''SPDX document described elements are invalid'')
          else
          bindE (expected_relationships env cx root (remdups (map fst expectedFiles))) (\<lambda>relationships.
          if \<not> is_arr (fld document ''relationships'') then Inl (sbom_fail ''SPDX relationships are missing'')
          else
          bindE (spdx_relationship_loop ids [] (elems (fld document ''relationships''))) (\<lambda>actual.
          if length actual \<noteq> card (set relationships) \<or> \<not> list_all (\<lambda>k. k \<in> set actual) relationships
          then Inl (sbom_fail ''SPDX dependency relationships do not match the actual closure'')
          else Inr True))))))))"

end
