(* ===== verification/SbomRoundTrip.thy ===== *)
theory SbomRoundTrip
  imports SbomDocuments
begin

text \<open>
  What \<open>release-sbom.mjs\<close> generates, it accepts: the packages of the graph have distinct
  identities, the components built from them are well formed, and the license inventory
  created from them passes \<open>validateLicenseInventory\<close>.
\<close>

section \<open>The package map\<close>

definition map_inv :: "string \<Rightarrow> package_map \<Rightarrow> bool" where
  "map_inv root pm \<longleftrightarrow> distinct (map ce_identity pm) \<and>
     (\<forall>e \<in> set pm. cargoIdentityKey root (ce_package e) = Inr (ce_identity e) \<and> ce_generator e = None)"

lemma package_entry_None: "find_entry k pm = None \<longleftrightarrow> k \<notin> ce_identity ` set pm"
  by (auto simp: find_entry_def find_None_iff)

lemma addCargoPackage_inv:
  assumes "addCargoPackage root pm p role = Inr (k, pm')" and "map_inv root pm"
  shows "map_inv root pm'"
proof (cases "find_entry k pm")
  case None
  then have "pm' = pm @ [\<lparr>ce_identity = k, ce_package = p, ce_roles = [role], ce_generator = None\<rparr>]"
    using assms(1) by (auto simp: addCargoPackage_def bindE_Inr_iff split: option.splits if_splits)
  with None assms addCargoPackage_Inr(1) [OF assms(1)] show ?thesis
    by (auto simp: map_inv_def package_entry_None)
next
  case (Some e)
  then have pm': "pm' = add_role k role pm"
    using assms(1) by (auto simp: addCargoPackage_def bindE_Inr_iff split: option.splits if_splits)
  have "map ce_identity (add_role k role pm) = map ce_identity pm" by (simp add: add_role_def)
  with assms(2) show ?thesis by (auto simp: pm' map_inv_def add_role_def simp del: map_map)
qed

lemma walk_deps_inv:
  "walk_deps root byId role source ds (stack, pm, em) = Inr (stack', pm', em') \<Longrightarrow> map_inv root pm \<Longrightarrow> map_inv root pm'"
proof (induction ds arbitrary: stack pm em)
  case (Cons d ds)
  show ?case
  proof (cases "normalRuntimeDependency d = Inr True")
    case False
    with Cons show ?thesis by (auto simp: bindE_Inr_iff)
  next
    case True
    with Cons.prems(1) obtain p k pm1 where p: "addCargoPackage root pm p role = Inr (k, pm1)"
        and rest: "walk_deps root byId role source ds (fld d ''pkg'' # stack, pm1, add_edge (source, k) em) = Inr (stack', pm', em')"
      by (auto simp: bindE_Inr_iff split: option.splits)
    show ?thesis by (rule Cons.IH [OF rest addCargoPackage_inv [OF p Cons.prems(2)]])
  qed
qed simp

lemma cargo_walk_inv:
  "cargo_walk root ids nodes role stack visited pm em = Inr (visited', pm', em') \<Longrightarrow> map_inv root pm \<Longrightarrow> map_inv root pm'"
proof (induction root ids nodes role stack visited pm em arbitrary: visited' pm' em' rule: cargo_walk.induct)
  case (2 root ids nodes role i stack visited pm em)
  show ?case
  proof (cases "i \<in> set visited")
    case True
    with 2 show ?thesis by simp
  next
    case False
    from "2.prems"(1) False obtain p node source pm1 deps stack2 pm2 em2
      where p: "js_map_of ids i = Some p" "nodes i = Some node"
        and add: "addCargoPackage root pm p role = Inr (source, pm1)"
        and deps: "iterate (fld node ''deps'') = Inr deps"
        and walk: "walk_deps root (js_map_of ids) role source deps (stack, pm1, em) = Inr (stack2, pm2, em2)"
        and rest: "cargo_walk root ids nodes role stack2 (i # visited) pm2 em2 = Inr (visited', pm', em')"
      by (auto simp: bindE_Inr_iff split: option.splits)
    show ?thesis
      by (rule 2(2) [OF False refl p add refl deps walk refl refl rest])
        (rule walk_deps_inv [OF walk addCargoPackage_inv [OF add "2.prems"(2)]])
  qed
qed simp

lemma collect_target_inv:
  assumes "collect_target env inputs t g = Inr g'" and "map_inv (se_root env) (cg_packages g)"
  shows "map_inv (se_root env) (cg_packages g')"
  by (rule collect_target_run [OF assms(1)]) (rule cargo_walk_inv [OF _ assms(2)])

lemma collect_targets_inv:
  "collect_targets env inputs ts g = Inr g' \<Longrightarrow> map_inv (se_root env) (cg_packages g) \<Longrightarrow> map_inv (se_root env) (cg_packages g')"
  by (induction ts arbitrary: g) (auto simp: bindE_Inr_iff intro: collect_target_inv)

lemma collectCargoGraph_inv:
  assumes "collectCargoGraph env inputs = Inr g"
  shows "map_inv (se_root env) (cg_packages g)"
proof -
  obtain g0 where g0: "collect_targets env inputs NATIVE_TARGETS_SBOM
        \<lparr>cg_packages = [], cg_edges = [], cg_all = [], cg_metadata = []\<rparr> = Inr g0"
      and g: "cg_packages g = sort_by (\<lambda>l r. se_collate env (ce_identity l) (ce_identity r)) (cg_packages g0)"
    using assms by (auto simp: collectCargoGraph_def bindE_Inr_iff)
  have inv: "map_inv (se_root env) (cg_packages g0)"
    using collect_targets_inv [OF g0] by (simp add: map_inv_def)
  have "mset (map ce_identity (cg_packages g)) = mset (map ce_identity (cg_packages g0))" by (simp add: g)
  then have "distinct (map ce_identity (cg_packages g)) = distinct (map ce_identity (cg_packages g0))"
    by (rule mset_eq_imp_distinct_iff)
  with inv show ?thesis by (simp add: map_inv_def g)
qed

section \<open>The generator expressions\<close>

definition covered :: "cargo_entry \<Rightarrow> cargo_entry \<Rightarrow> bool" where
  "covered e e' \<longleftrightarrow> ce_identity e' = ce_identity e \<and> ce_package e' = ce_package e \<and> ce_roles e' = ce_roles e \<and>
     (ce_generator e' = ce_generator e \<or> (\<exists>s. ce_generator e' = Some (JStr s)))"

lemma cover_entry_covered:
  assumes "cover_entry env generated e = Inr e'"
  shows "covered e e'"
proof -
  have "\<exists>v. e' = e\<lparr>ce_generator := Some v\<rparr> \<and> is_str v"
    using assms
    by (auto simp: cover_entry_def Let_def bindE_Inr_iff valid_expression_def
        split: list.splits if_splits option.splits js.splits)
  then show ?thesis by (auto simp: covered_def is_str_iff)
qed


section \<open>Well-formed components\<close>

definition component_wf :: "script_env \<Rightarrow> component \<Rightarrow> bool" where
  "component_wf env c \<longleftrightarrow> cp_identity c = packageIdentityKey c \<and> to_str (cp_name c) \<noteq> None \<and> to_str (cp_version c) \<noteq> None \<and>
     strict_eq (cp_generator c) (cp_generator c) \<and> strict_eq (cp_checksum c) (cp_checksum c) \<and>
     validateLicenseNormalization (cp_normalization c) (inventory_component env c) = Inr () \<and>
     (case cp_license_expression c of None \<Rightarrow> True | Some s \<Rightarrow> tryParseLicenseExpression s \<noteq> None)"

lemma json_same_refl [simp]: "json_same v v"
  by (simp add: json_same_def)

lemma strict_eq_opt_json [simp]: "strict_eq (opt_json x) (opt_json x)"
  by (cases x) (simp_all add: opt_json_def)

lemma null_if_undefined_opt_json [simp]: "null_if_undefined (opt_json x) = opt_json x"
  by (cases x) (simp_all add: opt_json_def null_if_undefined_def)

lemma inventory_component_fields:
  "fld (inventory_component env c) ''ecosystem'' = JStr (cp_ecosystem c)"
  "fld (inventory_component env c) ''name'' = cp_name c"
  "fld (inventory_component env c) ''version'' = cp_version c"
  "fld (inventory_component env c) ''source'' = JStr (cp_source c)"
  "fld (inventory_component env c) ''spdx_id'' = JStr (spdxIdForComponent env c)"
  "fld (inventory_component env c) ''license_expression'' = opt_json (cp_license_expression c)"
  "fld (inventory_component env c) ''declared_license_metadata'' = opt_json (cp_declared c)"
  "fld (inventory_component env c) ''generator_license_expression'' = cp_generator c"
  "fld (inventory_component env c) ''license_status'' = JStr (cp_license_status c)"
  "fld (inventory_component env c) ''license_text_status'' = JStr (cp_text_status c)"
  "fld (inventory_component env c) ''license_text_files'' = JArr (cp_text_files c)"
  "fld (inventory_component env c) ''clarification_reason'' = opt_json (cp_clarification c)"
  "fld (inventory_component env c) ''license_normalization'' = cp_normalization c"
  "fld (inventory_component env c) ''artifact_roles'' = JArr (map JStr (cp_roles c))"
  "fld (inventory_component env c) ''checksum_sha256'' = cp_checksum c"
  by (simp_all add: inventory_component_def)

lemma inventory_component_object:
  "\<not> nullish (inventory_component env c)" "isPlainObject (inventory_component env c)"
  "exactKeys (inventory_component env c) (INVENTORY_COMPONENT_KEYS @ (if cp_checksum c = JUndef then [] else [''checksum_sha256'']))"
  by (simp_all add: inventory_component_def exactKeys_def INVENTORY_COMPONENT_KEYS_def)

lemma js_identity_component:
  "component_wf env c \<Longrightarrow> js_identity (inventory_component env c) = Inr (cp_identity c)"
  by (auto simp: js_identity_def inventory_component_fields component_wf_def str_or_throw_def packageIdentityKey_def text_of_def)

lemma inventory_component_step_accepts:
  assumes "component_wf env c" and "js_map_of expected (cp_identity c) = Some c" and "cp_identity c \<notin> set actual"
  shows "inventory_component_step env expected actual (inventory_component env c) = Inr (cp_identity c)"
proof -
  have same: "component_metadata_same env (inventory_component env c) c"
    using assms(1) by (simp add: component_metadata_same_def inventory_component_fields component_wf_def)
  have expression: "strict_eq (opt_json (cp_license_expression c)) JNull \<or> valid_expression (opt_json (cp_license_expression c))"
    using assms(1) by (auto simp: component_wf_def opt_json_def valid_expression_def split: option.splits)
  show ?thesis
    unfolding inventory_component_step_def js_identity_component [OF assms(1)] inventory_component_fields
    using assms same expression inventory_component_object [of env c]
    by (simp add: component_wf_def)
qed

lemma inventory_component_loop_accepts:
  assumes "\<And>c. c \<in> set cs \<Longrightarrow> component_wf env c \<and> js_map_of expected (cp_identity c) = Some c"
    and "distinct (map cp_identity cs)" and "set (map cp_identity cs) \<inter> set actual = {}"
  shows "inventory_component_loop env expected actual (map (inventory_component env) cs) = Inr (rev (map cp_identity cs) @ actual)"
  using assms
proof (induction cs arbitrary: actual)
  case (Cons c cs)
  have "inventory_component_step env expected actual (inventory_component env c) = Inr (cp_identity c)"
    using Cons.prems by (intro inventory_component_step_accepts) auto
  moreover have "inventory_component_loop env expected (cp_identity c # actual) (map (inventory_component env) cs) =
      Inr (rev (map cp_identity cs) @ cp_identity c # actual)"
    using Cons.prems by (intro Cons.IH) auto
  ultimately show ?case by simp
qed simp

definition context_wf :: "script_env \<Rightarrow> sbom_context \<Rightarrow> bool" where
  "context_wf env cx \<longleftrightarrow> list_all (component_wf env) (cx_components cx) \<and> distinct (map cp_identity (cx_components cx)) \<and>
     list_all (\<lambda>v. strict_eq v v) [cx_package_name cx, cx_package_version cx, cx_source_commit cx, cx_cargo_lock cx, cx_pnpm_lock cx] \<and>
     json_same (JArr (map own_copy (cx_rn_artifacts cx))) (JArr (cx_rn_artifacts cx))"

lemma js_map_of_distinct: "distinct (map fst ps) \<Longrightarrow> (k, v) \<in> set ps \<Longrightarrow> js_map_of ps k = Some v"
  by (simp add: js_map_of_def rev_map [symmetric])

lemma sorted_components_perm: "mset (sorted_components env cs) = mset cs"
  by (simp add: sorted_components_def)

lemma created_inventory_accepted:
  assumes "context_wf env cx"
  shows "validateLicenseInventory env (createLicenseInventory env cx) cx = Inr True"
proof -
  let ?cs = "cx_components cx"
  have set_eq: "set (sorted_components env ?cs) = set ?cs" and len: "length (sorted_components env ?cs) = length ?cs"
    by (simp_all add: sorted_components_def)
  have dist: "distinct (map cp_identity (sorted_components env ?cs))"
  proof -
    have "mset (map cp_identity (sorted_components env ?cs)) = mset (map cp_identity ?cs)" by (simp add: sorted_components_def)
    then have "distinct (map cp_identity (sorted_components env ?cs)) = distinct (map cp_identity ?cs)"
      by (rule mset_eq_imp_distinct_iff)
    with assms show ?thesis by (simp add: context_wf_def)
  qed
  have find: "js_map_of (expected_components cx) (cp_identity c) = Some c" if "c \<in> set ?cs" for c
    using assms that by (intro js_map_of_distinct) (auto simp: expected_components_def context_wf_def comp_def)
  have loop: "inventory_component_loop env (expected_components cx) [] (map (inventory_component env) (sorted_components env ?cs)) =
      Inr (rev (map cp_identity (sorted_components env ?cs)) @ [])"
    using assms find dist set_eq by (intro inventory_component_loop_accepts) (auto simp: context_wf_def list_all_iff)
  have header: "list_all fst (inventory_header (createLicenseInventory env cx) cx)"
    using assms by (simp add: inventory_header_def createLicenseInventory_def len context_wf_def exactKeys_def
        INVENTORY_KEYS_def)
  have size: "card (set (map fst (expected_components cx))) = length ?cs"
    using assms distinct_card [of "map cp_identity ?cs"] by (simp add: expected_components_def context_wf_def comp_def)
  have comps: "elems (fld (createLicenseInventory env cx) ''components'') = map (inventory_component env) (sorted_components env ?cs)"
    by (simp add: createLicenseInventory_def)
  show ?thesis
    unfolding validateLicenseInventory_def comps loop size using header len
    by (simp add: bindE_Inr_iff sbom_checks_iff [THEN iffD2])
qed


lemma no_normalization_valid: "validateLicenseNormalization no_normalization v = Inr ()"
  by (simp add: validateLicenseNormalization_def no_normalization_def exactKeys_def)

lemma dalek_paths: "list_all (\<lambda>f. \<not> unsafe_path f) (map JStr DALEK_FILES)"
  unfolding DALEK_FILES_def by code_simp

lemma dalek_expression: "valid_expression (JStr DALEK_NORMALIZED)"
  unfolding DALEK_NORMALIZED_def by code_simp

lemma dalek_normalization_valid:
  assumes "strict_eq (fld p ''repository'') (JStr DALEK_REPOSITORY)"
    and "fld v ''declared_license_metadata'' = JStr DALEK_RAW" and "fld v ''license_expression'' = JStr DALEK_NORMALIZED"
  shows "validateLicenseNormalization (dalek_normalization p) v = Inr ()"
  using assms dalek_paths dalek_expression
  by (simp add: validateLicenseNormalization_def dalek_normalization_def exactKeys_def NORMALIZATION_BASIS_KEYS_def DALEK_FILES_def)

lemma cargo_metadata_cases:
  "snd (cargoLicenseMetadata env p) = no_normalization \<or>
   fst (cargoLicenseMetadata env p) = Some DALEK_NORMALIZED \<and> snd (cargoLicenseMetadata env p) = dalek_normalization p \<and>
     js_string (fld p ''license'') = Some DALEK_RAW \<and> strict_eq (fld p ''repository'') (JStr DALEK_REPOSITORY)"
  unfolding cargoLicenseMetadata_def Let_def js_string_def by (auto split: if_splits option.splits)

lemma cargo_component_wf:
  assumes run: "cargo_component env evidencePath readdir lock sourceCommit cargoDigest e = Inr c"
    and key: "cargoIdentityKey (se_root env) (ce_package e) = Inr k"
    and generator: "ce_generator e = None \<or> (\<exists>s. ce_generator e = Some (JStr s))"
  shows "component_wf env c \<and> cp_identity c = k \<and> cp_ecosystem c = ''cargo''"
proof -
  let ?p = "ce_package e"
  from run obtain source where c: "cp_ecosystem c = ''cargo''" "cp_name c = fld ?p ''name''" "cp_version c = fld ?p ''version''"
      "cp_source c = source" "cargoPackageSource (se_root env) ?p = Inr source"
      "cp_license_expression c = fst (cargoLicenseMetadata env ?p)" "cp_declared c = js_string (fld ?p ''license'')"
      "cp_generator c = (case ce_generator e of None \<Rightarrow> JNull | Some v \<Rightarrow> v)"
      "cp_normalization c = snd (cargoLicenseMetadata env ?p)" "cp_identity c = packageIdentityKey c"
      "\<exists>v. cargo_checksum lock k ?p = Inr v \<and> cp_checksum c = v"
    using key by (auto simp: cargo_component_def Let_def bindE_Inr_iff packageIdentityKey_def)
  from key obtain name version where texts: "to_str (fld ?p ''name'') = Some name" "to_str (fld ?p ''version'') = Some version"
      "k = ''cargo|'' @ name @ ''|'' @ version @ ''|'' @ source"
    using c(5) by (auto simp: cargoIdentityKey_def bindE_Inr_iff str_or_throw_def split: option.splits)
  have checksum: "strict_eq (cp_checksum c) (cp_checksum c)"
  proof -
    from c(11) obtain v where v: "cargo_checksum lock k ?p = Inr v" "cp_checksum c = v" by blast
    from v(1) have "v = JUndef \<or> is_str v" by (auto simp: cargo_checksum_def split: if_splits option.splits)
    then show ?thesis by (auto simp: v(2) is_str_iff)
  qed
  have normalization: "validateLicenseNormalization (cp_normalization c) (inventory_component env c) = Inr ()"
    using cargo_metadata_cases [of env ?p]
  proof
    assume "snd (cargoLicenseMetadata env ?p) = no_normalization"
    then show ?thesis by (simp add: c(9) no_normalization_valid)
  next
    assume dalek: "fst (cargoLicenseMetadata env ?p) = Some DALEK_NORMALIZED \<and> snd (cargoLicenseMetadata env ?p) = dalek_normalization ?p \<and>
      js_string (fld ?p ''license'') = Some DALEK_RAW \<and> strict_eq (fld ?p ''repository'') (JStr DALEK_REPOSITORY)"
    then have "validateLicenseNormalization (dalek_normalization ?p) (inventory_component env c) = Inr ()"
      by (intro dalek_normalization_valid) (simp_all add: inventory_component_fields c(6,7) opt_json_def)
    with dalek show ?thesis by (simp add: c(9))
  qed
  show ?thesis
    using c(1-8,10) texts checksum normalization generator cargo_expression_parses [of env ?p]
    by (auto simp: component_wf_def packageIdentityKey_def text_of_def split: option.splits)
qed

lemma root_component_fields:
  assumes "root_component env evidencePath readdir phase3 meta packageRootPath = Inr c"
  shows "cp_ecosystem c = ''npm''" "cp_name c = fld meta ''name''" "cp_version c = fld meta ''version''"
    "cp_identity c = packageIdentityKey c" "cp_checksum c = fld (fld phase3 ''npm_tarball'') ''sha256''"
  using assms by (auto simp: root_component_def Let_def bindE_Inr_iff packageIdentityKey_def)

lemma root_component_wf:
  assumes "root_component env evidencePath readdir phase3 meta packageRootPath = Inr c"
    and "is_str (fld meta ''name'')" and "is_str (fld meta ''version'')"
    and "strict_eq (fld (fld phase3 ''npm_tarball'') ''sha256'') (fld (fld phase3 ''npm_tarball'') ''sha256'')"
  shows "component_wf env c \<and> cp_ecosystem c = ''npm''"
proof -
  from assms(1) have c: "cp_ecosystem c = ''npm''" "cp_name c = fld meta ''name''" "cp_version c = fld meta ''version''"
      "cp_generator c = JNull" "cp_normalization c = no_normalization" "cp_identity c = packageIdentityKey c"
      "cp_checksum c = fld (fld phase3 ''npm_tarball'') ''sha256''"
      "\<And>s. cp_license_expression c = Some s \<Longrightarrow> tryParseLicenseExpression s \<noteq> None"
    by (auto simp: root_component_def Let_def bindE_Inr_iff packageIdentityKey_def split: option.splits if_splits)
  show ?thesis
    using c assms(2-4) by (auto simp: component_wf_def no_normalization_valid is_str_iff split: option.splits)
qed


section \<open>Generating and validating\<close>

lemma cover_bindings_covered:
  "cover_bindings env lock ds g excluded = Inr (g', excluded') \<Longrightarrow>
     list_all2 covered (cg_packages g) (cg_packages g') \<and> cg_all g' = cg_all g \<and> cg_edges g' = cg_edges g"
proof (induction ds arbitrary: g excluded)
  case Nil
  then show ?case by (simp add: covered_def list_all2_refl)
next
  case (Cons d ds)
  obtain binding document where d: "d = (binding, document)" by fastforce
  from Cons.prems obtain pm excluded1 where
      pm: "mapE (\<lambda>e. if (if binding = ''node'' then ''native'' else ''wasm'') \<in> set (ce_roles e)
          then cover_entry env (elems (fld document ''packages'')) e else Inr e) (cg_packages g) = Inr pm"
      and rest: "cover_bindings env lock ds (g\<lparr>cg_packages := pm\<rparr>) excluded1 = Inr (g', excluded')"
    by (auto simp: d Let_def bindE_Inr_iff)
  have "list_all2 covered (cg_packages g) pm"
    using pm unfolding mapE_Inr_iff
    by (rule list_all2_mono) (auto split: if_splits dest: cover_entry_covered simp: covered_def)
  moreover have "list_all2 covered pm (cg_packages g')" using Cons.IH [OF rest] by simp
  ultimately have "list_all2 covered (cg_packages g) (cg_packages g')"
    by (rule list_all2_trans [rotated]) (auto simp: covered_def)
  with Cons.IH [OF rest] show ?case by simp
qed

lemma cargo_components_wf:
  assumes "map_inv (se_root env) (cg_packages g)" and "list_all2 covered (cg_packages g) (cg_packages g')"
    and "buildCargoComponents env evidencePath readdir g' lock commit digest = Inr cs"
  shows "list_all (component_wf env) cs \<and> map cp_identity cs = map ce_identity (cg_packages g) \<and>
    list_all (\<lambda>c. cp_ecosystem c = ''cargo'') cs"
proof -
  have run: "list_all2 (\<lambda>e c. cargo_component env evidencePath readdir lock commit digest e = Inr c) (cg_packages g') cs"
    using assms(3) by (simp add: buildCargoComponents_def mapE_Inr_iff)
  have "list_all2 (\<lambda>e c. e \<in> set (cg_packages g) \<and> (\<exists>e'. covered e e' \<and> cargo_component env evidencePath readdir lock commit digest e' = Inr c))
      (cg_packages g) cs"
    using assms(2) run by (auto simp: list_all2_conv_all_nth intro!: nth_mem) (metis)
  then have "list_all2 (\<lambda>e c. component_wf env c \<and> cp_identity c = ce_identity e \<and> cp_ecosystem c = ''cargo'') (cg_packages g) cs"
  proof (rule list_all2_mono)
    fix e c assume "e \<in> set (cg_packages g) \<and> (\<exists>e'. covered e e' \<and> cargo_component env evidencePath readdir lock commit digest e' = Inr c)"
    then obtain e' where e: "e \<in> set (cg_packages g)" "covered e e'" "cargo_component env evidencePath readdir lock commit digest e' = Inr c"
      by blast
    then have key: "cargoIdentityKey (se_root env) (ce_package e') = Inr (ce_identity e)" "ce_generator e = None"
      using assms(1) by (auto simp: map_inv_def covered_def)
    show "component_wf env c \<and> cp_identity c = ce_identity e \<and> cp_ecosystem c = ''cargo''"
      by (rule cargo_component_wf [OF e(3) key(1)]) (use e(2) key(2) in \<open>auto simp: covered_def\<close>)
  qed
  then show ?thesis by (induction rule: list_all2_induct) auto
qed


text \<open>What an accepted run of the loop says about each component.\<close>

lemma inventory_component_loop_steps:
  "inventory_component_loop env expected actual cs = Inr out \<Longrightarrow> c \<in> set cs \<Longrightarrow>
     \<exists>seen i. inventory_component_step env expected seen c = Inr i"
  by (induction cs arbitrary: actual) (auto simp: bindE_Inr_iff)

lemma created_inventory_checksum:
  assumes "validateLicenseInventory env (createLicenseInventory env cx) cx = Inr True"
    and "c \<in> set (cx_components cx)" and "distinct (map cp_identity (cx_components cx))"
    and "cp_identity c = packageIdentityKey c" "to_str (cp_name c) \<noteq> None" "to_str (cp_version c) \<noteq> None"
  shows "strict_eq (cp_checksum c) (cp_checksum c)"
proof -
  have "inventory_component env c \<in> set (elems (fld (createLicenseInventory env cx) ''components''))"
    using assms(2) by (simp add: createLicenseInventory_def sorted_components_def)
  then obtain seen i where "inventory_component_step env (expected_components cx) seen (inventory_component env c) = Inr i"
    using assms(1) inventory_component_loop_steps by (force simp: validateLicenseInventory_def bindE_Inr_iff split: if_splits)
  moreover have "js_identity (inventory_component env c) = Inr (cp_identity c)"
    using assms(4-6) by (auto simp: js_identity_def inventory_component_fields str_or_throw_def packageIdentityKey_def text_of_def)
  moreover have "js_map_of (expected_components cx) (cp_identity c) = Some c"
    using assms(2,3) by (intro js_map_of_distinct) (auto simp: expected_components_def comp_def)
  ultimately show ?thesis
    by (auto simp: inventory_component_step_def bindE_Inr_iff inventory_component_fields sbom_checks_iff split: if_splits)
qed

lemma created_inventory_header:
  assumes "validateLicenseInventory env (createLicenseInventory env cx) cx = Inr True"
  shows "strict_eq (cx_source_commit cx) (cx_source_commit cx)"
    and "json_same (JArr (map own_copy (cx_rn_artifacts cx))) (JArr (cx_rn_artifacts cx))"
proof -
  have "list_all fst (inventory_header (createLicenseInventory env cx) cx)"
    using assms by (auto simp: validateLicenseInventory_def bindE_Inr_iff sbom_checks_iff)
  then show "strict_eq (cx_source_commit cx) (cx_source_commit cx)"
    and "json_same (JArr (map own_copy (cx_rn_artifacts cx))) (JArr (cx_rn_artifacts cx))"
    by (simp_all add: inventory_header_def createLicenseInventory_def)
qed

lemma createContext_run:
  assumes "createContext env evidencePath readdir cargoLock cargoDigest pnpmDigest timestamp phase3 meta packageRoot g documents = Inr cx"
  obtains lock g' generated cargo root where
    "cx_components cx = root # cargo" "list_all2 covered (cg_packages g) (cg_packages g')"
    "buildCargoComponents env evidencePath readdir g' lock (fld phase3 ''source_commit'') (fld phase3 ''cargo_lock_sha256'') = Inr cargo"
    "root_component env evidencePath readdir phase3 meta packageRoot = Inr root"
    "fld phase3 ''cargo_lock_sha256'' = JStr cargoDigest" "fld phase3 ''pnpm_lock_sha256'' = JStr pnpmDigest"
    "cx_package_name cx = fld phase3 ''package_name''" "cx_package_version cx = fld phase3 ''package_version''"
    "cx_source_commit cx = fld phase3 ''source_commit''" "cx_cargo_lock cx = JStr cargoDigest" "cx_pnpm_lock cx = JStr pnpmDigest"
    "cx_rn_artifacts cx = elems (fld (fld phase3 ''react_native'') ''artifacts'')"
proof -
  from assms obtain lock g' generated unreachable cargo root where
      cover: "validateGeneratorCoverage env g documents lock = Inr (g', generated)"
    and build: "buildCargoComponents env evidencePath readdir g' lock (fld phase3 ''source_commit'') (fld phase3 ''cargo_lock_sha256'') = Inr cargo"
    and root: "root_component env evidencePath readdir phase3 meta packageRoot = Inr root"
    and digests: "fld phase3 ''cargo_lock_sha256'' = JStr cargoDigest" "fld phase3 ''pnpm_lock_sha256'' = JStr pnpmDigest"
    and cx: "cx_components cx = root # cargo" "cx_package_name cx = fld phase3 ''package_name''"
      "cx_package_version cx = fld phase3 ''package_version''" "cx_source_commit cx = fld phase3 ''source_commit''"
      "cx_cargo_lock cx = JStr cargoDigest" "cx_pnpm_lock cx = JStr pnpmDigest"
      "cx_rn_artifacts cx = elems (fld (fld phase3 ''react_native'') ''artifacts'')"
    by (auto simp: createContext_def Let_def bindE_Inr_iff split: if_splits)
  have "list_all2 covered (cg_packages g) (cg_packages g')"
    using cover cover_bindings_covered by (auto simp: validateGeneratorCoverage_def bindE_Inr_iff)
  with cx build root digests that show thesis by blast
qed

text \<open>
  Property C23. What the script generates, its validation accepts: the license inventory created
  from a context that loads is valid for that context, whatever the dependency graph, the
  generator's documents and the license files are, exactly when the source commit and the
  tarball digest of the release manifest are plain values and its React Native artifacts are
  objects, as the manifest's validation makes sure.
\<close>

theorem generated_inventory_valid:
  "case validateAndLoad env evidencePath readdir cargoLock cargoDigest pnpmDigest timestamp (Inr phase3) packageRoot
       cargoMetadata cargoSbom of
     Inl _ \<Rightarrow> True
   | Inr cx \<Rightarrow> (validateLicenseInventory env (createLicenseInventory env cx) cx = Inr True) =
       (strict_eq (fld phase3 ''source_commit'') (fld phase3 ''source_commit'') \<and>
        strict_eq (fld (fld phase3 ''npm_tarball'') ''sha256'') (fld (fld phase3 ''npm_tarball'') ''sha256'') \<and>
        (let artifacts = elems (fld (fld phase3 ''react_native'') ''artifacts'') in
         json_same (JArr (map own_copy artifacts)) (JArr artifacts)))"
proof (cases "validateAndLoad env evidencePath readdir cargoLock cargoDigest pnpmDigest timestamp (Inr phase3) packageRoot
    cargoMetadata cargoSbom")
  case (Inr cx)
  then obtain meta g documents where
      meta: "is_str (fld meta ''name'')" "is_str (fld meta ''version'')"
    and phase3: "fld phase3 ''package_name'' = JStr ''@nemnesia/symbol-nem-wallet-core''" "fld phase3 ''package_version'' = fld meta ''version''"
    and g: "collectCargoGraph env cargoMetadata = Inr g"
    and cx: "createContext env evidencePath readdir cargoLock cargoDigest pnpmDigest timestamp phase3 meta packageRoot g documents = Inr cx"
    by (auto simp: validateAndLoad_def packageMetadataFromRoot_def bindE_Inr_iff is_str_iff split: if_splits dest!: strict_eq_imp_eq)
  from cx show ?thesis
  proof (rule createContext_run)
    fix lock g' generated cargo root
    assume comps: "cx_components cx = root # cargo" and covered: "list_all2 covered (cg_packages g) (cg_packages g')"
      and build: "buildCargoComponents env evidencePath readdir g' lock (fld phase3 ''source_commit'') (fld phase3 ''cargo_lock_sha256'') = Inr cargo"
      and root: "root_component env evidencePath readdir phase3 meta packageRoot = Inr root"
      and fields: "fld phase3 ''cargo_lock_sha256'' = JStr cargoDigest" "fld phase3 ''pnpm_lock_sha256'' = JStr pnpmDigest"
        "cx_package_name cx = fld phase3 ''package_name''" "cx_package_version cx = fld phase3 ''package_version''"
        "cx_source_commit cx = fld phase3 ''source_commit''" "cx_cargo_lock cx = JStr cargoDigest" "cx_pnpm_lock cx = JStr pnpmDigest"
        "cx_rn_artifacts cx = elems (fld (fld phase3 ''react_native'') ''artifacts'')"
    have cargo: "list_all (component_wf env) cargo" "map cp_identity cargo = map ce_identity (cg_packages g)"
        "list_all (\<lambda>c. cp_ecosystem c = ''cargo'') cargo"
      using cargo_components_wf [OF collectCargoGraph_inv [OF g] covered build] by auto
    note rf = root_component_fields [OF root]
    have names: "to_str (cp_name root) \<noteq> None" "to_str (cp_version root) \<noteq> None"
      using meta by (auto simp: rf is_str_iff)
    have distinct: "distinct (map cp_identity (cx_components cx))"
    proof -
      have "cp_identity root \<noteq> cp_identity c" if "c \<in> set cargo" for c
        using that cargo(1,3) rf(1,4) by (auto simp: list_all_iff component_wf_def packageIdentityKey_def)
      then have "cp_identity root \<notin> set (map cp_identity cargo)" by (auto dest: sym)
      moreover have "distinct (map cp_identity cargo)"
        using collectCargoGraph_inv [OF g] unfolding cargo(2) by (simp add: map_inv_def)
      ultimately show ?thesis by (simp add: comps)
    qed
    let ?sha = "fld (fld phase3 ''npm_tarball'') ''sha256''"
    let ?arts = "elems (fld (fld phase3 ''react_native'') ''artifacts'')"
    have "context_wf env cx" if "strict_eq (fld phase3 ''source_commit'') (fld phase3 ''source_commit'')"
        "strict_eq ?sha ?sha" "json_same (JArr (map own_copy ?arts)) (JArr ?arts)"
      using that cargo(1) distinct root_component_wf [OF root meta that(2)] meta
      by (auto simp: context_wf_def comps fields phase3 is_str_iff)
    moreover have "strict_eq ?sha ?sha" if "validateLicenseInventory env (createLicenseInventory env cx) cx = Inr True"
      using created_inventory_checksum [OF that _ distinct rf(4) names] by (simp add: comps rf(5))
    ultimately show ?thesis
      using created_inventory_accepted created_inventory_header [of env cx] by (auto simp: Inr fields Let_def)
  qed
qed simp

end
