(* ===== verification/SpdxCanonical.thy ===== *)
theory SpdxCanonical
  imports SbomDocuments
begin

text \<open>
  What \<open>validateSpdxDocument\<close> accepts: the canonical document of the context, up to the order
  of its keys, packages, files and relationships.
\<close>

definition package_text :: "js \<Rightarrow> (string \<times> string option) list" where
  "package_text p = map (\<lambda>k. (k, json_str (fld p k))) (sort (obj_keys p))"

abbreviation spdx_id :: "js \<Rightarrow> string" where
  "spdx_id x \<equiv> str_of (fld x ''SPDXID'')"

lemma keyed_lookup: "js_map_of (keyed k xs) i = Some e \<Longrightarrow> e \<in> set xs \<and> str_of (fld e k) = i"
  by (auto simp: js_map_of_def keyed_def dest!: map_of_SomeD)

lemma canonical_package_Inr:
  assumes "canonical_package expected ids p = Inr e"
  shows "js_map_of expected (spdx_id p) = Some e" and "spdx_id p \<notin> set ids" and "package_text p = package_text e"
proof -
  show "js_map_of expected (spdx_id p) = Some e" "spdx_id p \<notin> set ids"
    using assms by (auto simp: canonical_package_def bindE_Inr_iff sbom_checks_iff split: if_splits option.splits)
  have keys: "sort (obj_keys p) = sort (obj_keys e)" "list_all (\<lambda>k. json_same (fld p k) (fld e k)) (obj_keys e)"
    using assms by (auto simp: canonical_package_def bindE_Inr_iff sbom_checks_iff split: if_splits option.splits)
  show "package_text p = package_text e"
    unfolding package_text_def keys(1) using keys(2) by (auto simp: list_all_iff json_same_def)
qed

lemma spdx_package_loop_Inr:
  "spdx_package_loop cx expected ids seen ps = Inr ids' \<Longrightarrow>
     ids' = rev (map spdx_id ps) @ ids \<and> distinct (map spdx_id ps) \<and> set (map spdx_id ps) \<inter> set ids = {} \<and>
     (\<forall>p \<in> set ps. \<exists>e. js_map_of expected (spdx_id p) = Some e \<and> package_text p = package_text e)"
proof (induction ps arbitrary: ids seen)
  case (Cons p ps)
  then obtain e c where e: "canonical_package expected ids p = Inr e"
      and rest: "spdx_package_loop cx expected (spdx_id p # ids) (packageIdentityKey c # seen) ps = Inr ids'"
    by (auto simp: bindE_Inr_iff split: if_splits)
  show ?case using Cons.IH [OF rest] canonical_package_Inr [OF e] by auto
qed simp

lemma spdx_file_loop_Inr:
  "spdx_file_loop expected ids fs = Inr ids' \<Longrightarrow>
     ids' = rev (map spdx_id fs) @ ids \<and> distinct (map spdx_id fs) \<and> set (map spdx_id fs) \<inter> set ids = {} \<and>
     (\<forall>f \<in> set fs. \<exists>e. js_map_of expected (spdx_id f) = Some e \<and> json_str f = json_str e)"
proof (induction fs arbitrary: ids)
  case (Cons f fs)
  then obtain i where i: "spdx_file_step expected ids f = Inr i" and rest: "spdx_file_loop expected (i # ids) fs = Inr ids'"
    by (auto simp: bindE_Inr_iff)
  have "i = spdx_id f \<and> i \<notin> set ids \<and> (\<exists>e. js_map_of expected i = Some e \<and> json_str f = json_str e)"
    using i by (auto simp: spdx_file_step_def bindE_Inr_iff sbom_checks_iff json_same_def split: if_splits option.splits)
  with Cons.IH [OF rest] show ?case by auto
qed simp

text \<open>Distinct ids looked up in as many entries leave no entry out.\<close>

lemma all_matched:
  assumes "distinct (map spdx_id ps)" and "\<forall>p \<in> set ps. \<exists>e. js_map_of (keyed ''SPDXID'' xs) (spdx_id p) = Some e \<and> f p = f e"
    and "length ps = length xs"
  shows "mset (map f ps) = mset (map f xs)"
proof -
  obtain e where e: "\<And>p. p \<in> set ps \<Longrightarrow> js_map_of (keyed ''SPDXID'' xs) (spdx_id p) = Some (e p) \<and> f p = f (e p)"
    using assms(2) by metis
  note look = keyed_lookup [OF e [THEN conjunct1]]
  have ids: "map (spdx_id \<circ> e) ps = map spdx_id ps" using look by simp
  have "distinct (map e ps)"
  proof -
    have "distinct (map spdx_id (map e ps))" by (simp only: map_map ids assms(1))
    then show ?thesis unfolding distinct_map by (auto intro: inj_on_imageI2)
  qed
  then have card: "card (set (map e ps)) = length xs" using assms(3) distinct_card by fastforce
  have sub: "set (map e ps) \<subseteq> set xs" using look by auto
  have full: "set (map e ps) = set xs"
    using card sub card_length [of xs] by (intro card_seteq) auto
  then have "distinct xs" using card by (metis card_distinct)
  with full \<open>distinct (map e ps)\<close> have "mset (map e ps) = mset xs"
    by (metis set_eq_iff_mset_eq_distinct)
  then have "mset (map f (map e ps)) = mset (map f xs)" by (metis mset_map)
  moreover have "map f (map e ps) = map f ps" using e by simp
  ultimately show ?thesis by (simp only:)
qed


lemma spdx_relationship_loop_Inr:
  "spdx_relationship_loop ids actual rs = Inr out \<Longrightarrow>
     out = rev (map relationship_key rs) @ actual \<and> distinct (map relationship_key rs)"
proof -
  have "spdx_relationship_loop ids actual rs = Inr out \<Longrightarrow>
     out = rev (map relationship_key rs) @ actual \<and> distinct (map relationship_key rs) \<and>
     set (map relationship_key rs) \<inter> set actual = {}"
  proof (induction rs arbitrary: actual)
    case (Cons r rs)
    from Cons.prems have key: "relationship_key r \<notin> set actual"
        and rest: "spdx_relationship_loop ids (relationship_key r # actual) rs = Inr out"
      by (auto simp: bindE_Inr_iff sbom_checks_iff relationship_key_def rel_text_def text_of_def str_or_throw_def
          known_id_def is_str_iff Let_def split: if_splits option.splits)
    show ?case using Cons.IH [OF rest] key by auto
  qed simp
  then show "spdx_relationship_loop ids actual rs = Inr out \<Longrightarrow>
     out = rev (map relationship_key rs) @ actual \<and> distinct (map relationship_key rs)" by blast
qed

text \<open>
  The release context names every component by its identity; the npm package and the two bindings
  occur once.
\<close>

definition unambiguous :: "sbom_context \<Rightarrow> bool" where
  "unambiguous cx \<longleftrightarrow> distinct (map cp_identity (cx_components cx)) \<and>
     length (filter (\<lambda>c. cp_ecosystem c = ''npm'') (cx_components cx)) \<le> 1 \<and>
     list_all (\<lambda>name. length (filter (\<lambda>c. cp_ecosystem c = ''cargo'' \<and> cp_name c = JStr name) (cx_components cx)) \<le> 1)
       [NODE_BINDING, WASM_BINDING] \<and>
     distinct (map spdxIdForReactNativeFile (normalizedReactNativeFiles cx))"

text \<open>
  A document that differs from the canonical one only in the order of its keys, files, packages
  and relationships; values are compared by their JSON text.
\<close>

definition rearranged :: "js \<Rightarrow> js \<Rightarrow> bool" where
  "rearranged document expected \<longleftrightarrow>
     mset (obj_keys document) = mset (obj_keys expected) \<and>
     list_all (\<lambda>k. fld document k = fld expected k) [''SPDXID'', ''spdxVersion'', ''dataLicense'', ''name'', ''documentNamespace''] \<and>
     package_text (fld document ''creationInfo'') = package_text (fld expected ''creationInfo'') \<and>
     json_same (fld document ''documentDescribes'') (fld expected ''documentDescribes'') \<and>
     mset (map json_str (elems (fld document ''files''))) = mset (map json_str (elems (fld expected ''files''))) \<and>
     mset (map package_text (elems (fld document ''packages''))) = mset (map package_text (elems (fld expected ''packages''))) \<and>
     relationship_key ` set (elems (fld document ''relationships'')) = relationship_key ` set (elems (fld expected ''relationships'')) \<and>
     distinct (map relationship_key (elems (fld document ''relationships'')))"

lemma find_filter: "find P xs = (case filter P xs of [] \<Rightarrow> None | x # _ \<Rightarrow> Some x)"
  by (induction xs) auto

lemma find_single:
  assumes "length (filter P xs) \<le> 1" and "mset ys = mset xs"
  shows "find P ys = find P xs"
proof -
  have m: "mset (filter P ys) = mset (filter P xs)" using assms(2) by simp
  then have "filter P ys = filter P xs"
    using assms(1) by (cases "filter P xs"; cases "filter P ys"; auto simp: le_Suc_eq dest: mset_eq_length)
  then show ?thesis by (simp add: find_filter)
qed

lemma sorted_components_mset: "mset (sorted_components env cs) = mset cs"
  by (simp add: sorted_components_def)

lemma find_identity_member: "distinct (map cp_identity cs) \<Longrightarrow> c \<in> set cs \<Longrightarrow> find_identity (cp_identity c) cs = Some c"
  by (induction cs) (auto simp: find_identity_def)

lemma package_id_find:
  assumes "distinct (map cp_identity cs)" and "find_identity i cs = Some c"
  shows "package_id env (sorted_components env cs) i = JStr (spdxIdForComponent env c)"
proof -
  let ?ys = "map (\<lambda>c. (cp_identity c, spdxIdForComponent env c)) (sorted_components env cs)"
  have c: "c \<in> set cs" "cp_identity c = i" using assms(2) find_member unfolding find_identity_def by fastforce+
  have "mset (map fst ?ys) = mset (map cp_identity cs)"
    using arg_cong [OF sorted_components_mset [of env cs], of "image_mset cp_identity"] by (simp add: comp_def)
  then have "distinct (map fst ?ys)" using assms(1) mset_eq_imp_distinct_iff by blast
  moreover have "c \<in> set (sorted_components env cs)" using c(1) sorted_components_mset mset_eq_setD by metis
  then have "(i, spdxIdForComponent env c) \<in> set ?ys" using c(2) by force
  ultimately have "js_map_of ?ys i = Some (spdxIdForComponent env c)"
    by (simp add: js_map_of_def rev_map [symmetric] map_of_eq_Some_iff)
  then show ?thesis by (simp add: package_id_def)
qed

lemma canonical_fields:
  assumes "createSpdxDocument env cx = Inr expected"
  obtains root node wasm where
    "find (\<lambda>c. cp_ecosystem c = ''npm'') (sorted_components env (cx_components cx)) = Some root"
    "find_cargo NODE_BINDING (sorted_components env (cx_components cx)) = Some node"
    "find_cargo WASM_BINDING (sorted_components env (cx_components cx)) = Some wasm"
    "elems (fld expected ''files'') = map spdx_file (normalizedReactNativeFiles cx)"
    "length (elems (fld expected ''packages'')) = length (cx_components cx)"
    "elems (fld expected ''relationships'') = spdx_relationships env cx (sorted_components env (cx_components cx)) root node wasm"
    "mset (obj_keys expected) = mset SPDX_DOCUMENT_KEYS" "fld expected ''SPDXID'' = JStr ''SPDXRef-DOCUMENT''"
    "fld expected ''spdxVersion'' = JStr ''SPDX-2.3''" "fld expected ''dataLicense'' = JStr ''CC0-1.0''"
    "fld expected ''creationInfo'' = JObj [(''created'', JStr (cx_timestamp cx)), (''creators'', SPDX_CREATORS)]"
  using assms mset_eq_length [OF sorted_components_mset [of env "cx_components cx"]]
  by (auto simp: createSpdxDocument_def Let_def SPDX_DOCUMENT_KEYS_def split: option.splits)

lemma edge_keys:
  assumes "distinct (map cp_identity cs)"
  shows "mapE (\<lambda>(a, b). bindE (component_id env (find_identity a cs)) (\<lambda>i.
      bindE (component_id env (find_identity b cs)) (\<lambda>j. Inr (rel_text i ''DEPENDS_ON'' j)))) es = Inr keys \<Longrightarrow>
    keys = map (\<lambda>(a, b). relationship_key (spdx_relationship (package_id env (sorted_components env cs) a) ''DEPENDS_ON''
      (package_id env (sorted_components env cs) b))) es"
proof (induction es arbitrary: keys)
  case (Cons e es)
  then show ?case
    using package_id_find [OF assms]
    by (auto simp: bindE_Inr_iff component_id_def relationship_key_def spdx_relationship_def rel_text_def split: prod.splits option.splits)
qed simp

lemma expected_relationships_canonical:
  assumes "unambiguous cx" and "createSpdxDocument env cx = Inr expected"
    and "find (\<lambda>c. cp_ecosystem c = ''npm'') (cx_components cx) = Some root"
    and "expected_relationships env cx root (remdups (map spdx_id (elems (fld expected ''files'')))) = Inr relationships"
  shows "set relationships = relationship_key ` set (elems (fld expected ''relationships''))"
proof -
  let ?cs = "cx_components cx" and ?ss = "sorted_components env (cx_components cx)"
  let ?id = "package_id env ?ss"
  have ids: "distinct (map cp_identity ?cs)" using assms(1) by (simp add: unambiguous_def)
  obtain r node wasm where c: "find (\<lambda>c. cp_ecosystem c = ''npm'') ?ss = Some r"
      "find_cargo NODE_BINDING ?ss = Some node" "find_cargo WASM_BINDING ?ss = Some wasm"
      "elems (fld expected ''files'') = map spdx_file (normalizedReactNativeFiles cx)"
      "elems (fld expected ''relationships'') = spdx_relationships env cx ?ss r node wasm"
    by (rule canonical_fields [OF assms(2)])
  have same: "find P ?ss = find P ?cs" if "length (filter P ?cs) \<le> 1" for P
    using that sorted_components_mset by (rule find_single)
  have root: "r = root" using c(1) assms(1,3) same [of "\<lambda>c. cp_ecosystem c = ''npm''"] by (simp add: unambiguous_def)
  have bindings: "find_cargo NODE_BINDING ?cs = Some node" "find_cargo WASM_BINDING ?cs = Some wasm"
    using c(2,3) assms(1) same [of "\<lambda>c. cp_ecosystem c = ''cargo'' \<and> cp_name c = JStr NODE_BINDING"]
      same [of "\<lambda>c. cp_ecosystem c = ''cargo'' \<and> cp_name c = JStr WASM_BINDING"]
    by (simp_all add: unambiguous_def find_cargo_def)
  have id: "?id (cp_identity x) = JStr (spdxIdForComponent env x)" if "x \<in> set ?cs" for x
    by (rule package_id_find [OF ids find_identity_member [OF ids that]])
  have members: "root \<in> set ?cs" "node \<in> set ?cs" "wasm \<in> set ?cs"
    using assms(3) bindings find_member unfolding find_cargo_def by fastforce+
  obtain edges where edges: "mapE (\<lambda>(a, b). bindE (component_id env (find_identity a ?cs)) (\<lambda>i.
          bindE (component_id env (find_identity b ?cs)) (\<lambda>j. Inr (rel_text i ''DEPENDS_ON'' j)))) (cx_edges cx) = Inr edges"
    and rels: "relationships = [rel_text ''SPDXRef-DOCUMENT'' ''DESCRIBES'' (spdxIdForComponent env root)] @
        map (rel_text ''SPDXRef-DOCUMENT'' ''DESCRIBES'') (remdups (map spdx_id (elems (fld expected ''files'')))) @
        edges @ [rel_text (spdxIdForComponent env root) ''DEPENDS_ON'' (spdxIdForComponent env node),
          rel_text (spdxIdForComponent env root) ''DEPENDS_ON'' (spdxIdForComponent env wasm)]"
    using assms(4) bindings by (auto simp: expected_relationships_def Let_def bindE_Inr_iff component_id_def)
  have "edges = map (\<lambda>(a, b). relationship_key (spdx_relationship (?id a) ''DEPENDS_ON'' (?id b))) (cx_edges cx)"
    using edges by (rule edge_keys [OF ids])
  then have edges: "set edges = relationship_key ` (\<lambda>(a, b). spdx_relationship (?id a) ''DEPENDS_ON'' (?id b)) ` set (cx_edges cx)"
    by (simp add: image_image case_prod_beta)
  have key: "relationship_key (spdx_relationship (JStr a) kind (JStr b)) = rel_text a kind b" for a kind b
    by (simp add: relationship_key_def spdx_relationship_def rel_text_def)
  have files: "spdx_id (spdx_file f) = spdxIdForReactNativeFile f" for f by (simp add: spdx_file_def)
  show ?thesis unfolding c(5) rels root c(4) spdx_relationships_def sort_by_set
    by (simp add: id members key files edges image_Un image_image Un_ac insert_commute del: image_insert add: image_insert)
qed
lemma creation_info:
  assumes "exactKeys v [''created'', ''creators'']" and "fld v ''created'' = JStr s" and "json_same (fld v ''creators'') c"
  shows "package_text v = package_text (JObj [(''created'', JStr s), (''creators'', c)])"
proof -
  have "mset (obj_keys v) = mset (obj_keys (JObj [(''created'', JStr s), (''creators'', c)]))"
    using assms(1) by (simp add: exactKeys_iff)
  then have keys: "sort (obj_keys v) = sort (obj_keys (JObj [(''created'', JStr s), (''creators'', c)]))"
    by (simp only: sort_eq_iff)
  show ?thesis unfolding package_text_def keys using assms(2,3) by (auto simp: json_same_def)
qed

text \<open>
  Property C24. For a context whose components have identities of their own, with one npm package, one component
  for each of the two bindings and React Native files of different ids, the only SPDX documents that are accepted are the canonical one
  and its rearrangements: the same document identity, versions, license, name, namespace and
  creation info, the same described elements, the same files and packages, field by field, and the
  relationships of the canonical document, each once.
\<close>

theorem validateSpdxDocument_canonical:
  assumes "unambiguous cx"
  shows "case validateSpdxDocument env document cx of
     Inl _ \<Rightarrow> True
   | Inr _ \<Rightarrow> (\<exists>expected. createSpdxDocument env cx = Inr expected \<and> rearranged document expected)"
proof (cases "validateSpdxDocument env document cx")
  case (Inr ok)
  let ?files = "elems (fld document ''files'')" and ?packages = "elems (fld document ''packages'')"
  let ?rels = "elems (fld document ''relationships'')"
  obtain expected root fileIds ids relationships actual where
      expected: "createSpdxDocument env cx = Inr expected"
    and identity: "mset (obj_keys document) = mset SPDX_DOCUMENT_KEYS" "fld document ''SPDXID'' = JStr ''SPDXRef-DOCUMENT''"
      "fld document ''spdxVersion'' = JStr ''SPDX-2.3''" "fld document ''dataLicense'' = JStr ''CC0-1.0''"
    and header: "list_all fst (spdx_header document expected cx)"
    and fcount: "length ?files = card (set (map fst (keyed ''SPDXID'' (elems (fld expected ''files'')))))"
    and files: "spdx_file_loop (keyed ''SPDXID'' (elems (fld expected ''files''))) [''SPDXRef-DOCUMENT''] ?files = Inr fileIds"
    and packages: "spdx_package_loop cx (keyed ''SPDXID'' (elems (fld expected ''packages''))) fileIds [] ?packages = Inr ids"
    and root: "find (\<lambda>c. cp_ecosystem c = ''npm'') (cx_components cx) = Some root"
    and describes: "json_same (fld document ''documentDescribes'') (fld expected ''documentDescribes'')"
    and rels: "expected_relationships env cx root (remdups (map fst (keyed ''SPDXID'' (elems (fld expected ''files''))))) = Inr relationships"
    and loop: "spdx_relationship_loop ids [] ?rels = Inr actual"
    and count: "length actual = card (set relationships)" "list_all (\<lambda>k. k \<in> set actual) relationships"
    using Inr by (auto simp: validateSpdxDocument_def Let_def bindE_Inr_iff sbom_checks_iff exactKeys_iff split: if_splits option.splits)
  have fst_keyed: "map fst (keyed k xs) = map (\<lambda>x. str_of (fld x k)) xs" for k xs by (simp add: keyed_def comp_def)
  obtain r node wasm where e: "elems (fld expected ''files'') = map spdx_file (normalizedReactNativeFiles cx)"
      "length (elems (fld expected ''packages'')) = length (cx_components cx)" "mset (obj_keys expected) = mset SPDX_DOCUMENT_KEYS"
      "fld expected ''SPDXID'' = JStr ''SPDXRef-DOCUMENT''" "fld expected ''spdxVersion'' = JStr ''SPDX-2.3''"
      "fld expected ''dataLicense'' = JStr ''CC0-1.0''"
      "fld expected ''creationInfo'' = JObj [(''created'', JStr (cx_timestamp cx)), (''creators'', SPDX_CREATORS)]"
    by (rule canonical_fields [OF expected])
  have creation: "package_text (fld document ''creationInfo'') = package_text (fld expected ''creationInfo'')"
    unfolding e(7) using header by (intro creation_info) (auto simp: spdx_header_def)
  have named: "fld document ''name'' = fld expected ''name''" "fld document ''documentNamespace'' = fld expected ''documentNamespace''"
    using header by (auto simp: spdx_header_def intro: strict_eq_imp_eq)
  have "length ?packages = length (cx_components cx)" using header by (simp add: spdx_header_def)
  then have ps: "mset (map package_text ?packages) = mset (map package_text (elems (fld expected ''packages'')))"
    using spdx_package_loop_Inr [OF packages] e(2) by (intro all_matched) auto
  have "distinct (map spdx_id (elems (fld expected ''files'')))"
    using assms by (simp add: e(1) unambiguous_def comp_def spdx_file_def)
  then have "length ?files = length (elems (fld expected ''files''))"
    using fcount distinct_card [of "map spdx_id (elems (fld expected ''files''))"] by (simp add: fst_keyed)
  then have fs: "mset (map json_str ?files) = mset (map json_str (elems (fld expected ''files'')))"
    using spdx_file_loop_Inr [OF files] by (intro all_matched) auto
  have "set (map relationship_key ?rels) = set relationships"
  proof -
    have "set relationships \<subseteq> set actual" using count(2) by (auto simp: list_all_iff)
    moreover have "card (set actual) = card (set relationships)"
      using count(1) spdx_relationship_loop_Inr [OF loop] distinct_card [of actual] by simp
    ultimately have "set relationships = set actual" by (intro card_subset_eq) auto
    then show ?thesis using spdx_relationship_loop_Inr [OF loop] by simp
  qed
  then have rs: "relationship_key ` set ?rels = relationship_key ` set (elems (fld expected ''relationships''))"
    using expected_relationships_canonical [OF assms expected root rels [unfolded fst_keyed]] by simp
  have "rearranged document expected"
    using identity e(3-6) creation named describes fs ps rs spdx_relationship_loop_Inr [OF loop] by (simp add: rearranged_def)
  then show ?thesis using expected unfolding Inr by simp
qed simp

text \<open>A context of the npm package and the two bindings, and its document in another order.\<close>

definition plain_component :: "string \<Rightarrow> string \<Rightarrow> component" where
  "plain_component ecosystem name = \<lparr>cp_ecosystem = ecosystem, cp_name = JStr name, cp_version = JStr ''1.0.0'', cp_source = ''workspace'',
     cp_license_expression = None, cp_declared = None, cp_generator = JNull, cp_license_status = ''MISSING'', cp_text_status = ''MISSING'',
     cp_text_files = [], cp_clarification = None, cp_normalization = JNull, cp_roles = [], cp_checksum = JUndef, cp_description = None,
     cp_repository = None, cp_source_commit = JNull, cp_cargo_lock = JNull, cp_identity = name\<rparr>"

definition plain_env :: script_env where
  "plain_env = \<lparr>se_fs = \<lparr>fs_read = (\<lambda>_. None), fs_stat = (\<lambda>_. None), fs_list = (\<lambda>_. None)\<rparr>, se_sha256 = (\<lambda>_. ''0''),
     se_sha1 = (\<lambda>_. ''0''), se_parse = (\<lambda>_. None), se_text = (\<lambda>_. ''''), se_collate = (\<lambda>_ _. 0), se_root = ''/repo''\<rparr>"

definition plain_context :: sbom_context where
  "plain_context = \<lparr>cx_package_name = JStr ''wallet'', cx_package_version = JStr ''1.0.0'', cx_source_commit = JStr ''c'', cx_cargo_lock = JNull,
     cx_pnpm_lock = JNull, cx_npm_count = 0, cx_components = [plain_component ''npm'' ''wallet'', plain_component ''cargo'' NODE_BINDING,
     plain_component ''cargo'' WASM_BINDING], cx_edges = [], cx_excluded = [], cx_rn_manifest = JNull, cx_rn_artifacts = [],
     cx_timestamp = ''2024-01-02T03:04:05.678Z''\<rparr>"

definition rearranged_document :: "js \<Rightarrow> js" where
  "rearranged_document d = JObj (map (\<lambda>k. (k, if k = ''packages'' \<or> k = ''relationships'' then JArr (rev (elems (fld d k))) else fld d k))
     (rev (obj_keys d)))"


definition plain_expected :: js where
  "plain_expected = (case createSpdxDocument plain_env plain_context of Inr d \<Rightarrow> d | Inl _ \<Rightarrow> JNull)"

definition plain_document :: js where
  "plain_document = rearranged_document plain_expected"

lemma plain_created: "createSpdxDocument plain_env plain_context = Inr plain_expected"
proof -
  have "\<not> isl (createSpdxDocument plain_env plain_context)" by code_simp
  then show ?thesis by (auto simp: plain_expected_def split: sum.splits)
qed

lemma plain_header:
  "isPlainObject plain_document \<and> exactKeys plain_document SPDX_DOCUMENT_KEYS \<and> fld plain_document ''SPDXID'' = JStr ''SPDXRef-DOCUMENT'' \<and>
   fld plain_document ''spdxVersion'' = JStr ''SPDX-2.3'' \<and> fld plain_document ''dataLicense'' = JStr ''CC0-1.0''"
  "list_all fst (spdx_header plain_document plain_expected plain_context)"
  "is_arr (fld plain_document ''files'') \<and> elems (fld plain_document ''files'') = [] \<and> elems (fld plain_expected ''files'') = []"
  "is_arr (fld plain_document ''documentDescribes'') \<and>
   json_same (fld plain_document ''documentDescribes'') (fld plain_expected ''documentDescribes'')"
  "is_arr (fld plain_document ''relationships'')"
  by code_simp+

lemma plain_packages:
  "spdx_package_loop plain_context (keyed ''SPDXID'' (elems (fld plain_expected ''packages''))) [''SPDXRef-DOCUMENT''] []
     (elems (fld plain_document ''packages'')) = Inr (rev (map spdx_id (elems (fld plain_document ''packages''))) @ [''SPDXRef-DOCUMENT''])"
  by code_simp

lemma plain_relationships:
  "expected_relationships plain_env plain_context (plain_component ''npm'' ''wallet'') [] =
     Inr (map relationship_key (elems (fld plain_expected ''relationships'')))"
  "spdx_relationship_loop (rev (map spdx_id (elems (fld plain_document ''packages''))) @ [''SPDXRef-DOCUMENT'']) []
     (elems (fld plain_document ''relationships'')) = Inr (rev (map relationship_key (elems (fld plain_document ''relationships''))))"
  "list_all (\<lambda>k. k \<in> set (map relationship_key (elems (fld plain_document ''relationships''))))
     (map relationship_key (elems (fld plain_expected ''relationships'')))"
  "length (elems (fld plain_document ''relationships'')) = card (set (map relationship_key (elems (fld plain_expected ''relationships''))))"
  by code_simp+

lemma plain_accepted: "validateSpdxDocument plain_env plain_document plain_context = Inr True"
proof -
  have root: "find (\<lambda>c. cp_ecosystem c = ''npm'') (cx_components plain_context) = Some (plain_component ''npm'' ''wallet'')"
    by (simp add: plain_context_def plain_component_def)
  have none: "keyed ''SPDXID'' [] = []" "card {} = 0" by (simp_all add: keyed_def)
  have checks: "sbom_checks cs = Inr ()" if "list_all fst cs" for cs using that by (simp add: sbom_checks_iff)
  show ?thesis
    using plain_header plain_packages plain_relationships root none
    by (simp add: validateSpdxDocument_def checks plain_created Let_def)
qed

theorem validateSpdxDocument_canonical_witness:
  "validateSpdxDocument plain_env plain_document plain_context = Inr True \<and>
   (\<exists>expected. createSpdxDocument plain_env plain_context = Inr expected \<and> rearranged plain_document expected) \<and>
   plain_document \<noteq> plain_expected"
proof -
  have "unambiguous plain_context" by code_simp
  from validateSpdxDocument_canonical [OF this, of plain_env plain_document] plain_accepted
  have "\<exists>expected. createSpdxDocument plain_env plain_context = Inr expected \<and> rearranged plain_document expected" by simp
  moreover have "plain_document \<noteq> plain_expected" by code_simp
  ultimately show ?thesis using plain_accepted by simp
qed

end
