(* ===== verification/Crc32.thy ===== *)
theory Crc32
  imports Environment
begin

unbundle bit_operations_syntax

text \<open>
  \<open>crc32\<close> of \<open>c-abi-release.mjs\<close>, the checksum in the trailer of the archives, on 32-bit
  words: the code's bitwise operators work modulo \<open>2^32\<close>. It is related to the table-driven
  sample code of RFC 1952, which a reader of the archive uses, and shown to notice every
  change of a single byte.
\<close>

definition CRC_POLYNOMIAL :: "32 word" where
  "CRC_POLYNOMIAL = 0xEDB88320"

definition crc_bit :: "32 word \<Rightarrow> 32 word" where
  "crc_bit crc = drop_bit 1 crc XOR (if crc AND 1 = 1 then CRC_POLYNOMIAL else 0)"

definition crc_byte :: "32 word \<Rightarrow> byte \<Rightarrow> 32 word" where
  "crc_byte crc b = (crc_bit ^^ 8) (crc XOR ucast b)"

definition crc32 :: "byte list \<Rightarrow> 32 word" where
  "crc32 bytes = foldl crc_byte 0xFFFFFFFF bytes XOR 0xFFFFFFFF"

section \<open>One step\<close>

lemma xor_cancel: "x XOR c = y XOR c \<longleftrightarrow> x = (y :: 'a :: len word)"
  by (metis xor.assoc xor_self_eq xor.right_neutral)

lemma crc_bit_odd: "crc_bit c = drop_bit 1 c XOR (if odd c then CRC_POLYNOMIAL else 0)"
  by (simp add: crc_bit_def even_iff_mod_2_eq_zero and_one_eq odd_iff_mod_2_eq_one)

lemma crc_bit_xor: "crc_bit (a XOR b) = crc_bit a XOR crc_bit b"
  by (rule bit_word_eqI) (auto simp: crc_bit_odd bit_xor_iff bit_drop_bit_eq even_xor_iff)

lemma crc_bits_xor: "(crc_bit ^^ n) (a XOR b) = (crc_bit ^^ n) a XOR (crc_bit ^^ n) b"
  by (induction n) (simp_all add: crc_bit_xor)

lemma crc_bit_zero: "crc_bit c = 0 \<Longrightarrow> c = 0"
proof (cases "odd c")
  case True
  assume "crc_bit c = 0"
  then have "bit (crc_bit c) 31 = False" by simp
  moreover have "bit (drop_bit 1 c) 31 = False" by (auto simp: bit_drop_bit_eq dest: bit_imp_le_length)
  moreover have "bit CRC_POLYNOMIAL 31" by (simp add: CRC_POLYNOMIAL_def)
  ultimately show ?thesis using True by (simp add: crc_bit_odd bit_xor_iff)
next
  case False
  assume "crc_bit c = 0"
  then have "drop_bit 1 c = 0" using False by (simp add: crc_bit_odd)
  then have "c div 2 = 0" by (simp add: drop_bit_Suc flip: drop_bit_half)
  moreover have "c = 2 * (c div 2) + c mod 2" by (simp add: mult_div_mod_eq)
  ultimately show ?thesis using False by (auto simp: mod_2_eq_odd)
qed

lemma crc_bits_zero: "(crc_bit ^^ n) c = 0 \<Longrightarrow> c = 0"
  by (induction n) (auto dest: crc_bit_zero)

lemma crc_bits_inj: "(crc_bit ^^ n) a = (crc_bit ^^ n) b \<Longrightarrow> a = b"
proof -
  assume "(crc_bit ^^ n) a = (crc_bit ^^ n) b"
  then have "(crc_bit ^^ n) (a XOR b) = 0" by (simp add: crc_bits_xor)
  then have "a XOR b = 0" by (rule crc_bits_zero)
  then show "a = b" by (metis xor_cancel xor_self_eq)
qed

lemma crc_byte_state: "crc_byte a x = crc_byte b x \<Longrightarrow> a = b"
proof -
  assume "crc_byte a x = crc_byte b x"
  then have "a XOR ucast x = b XOR ucast x" unfolding crc_byte_def by (rule crc_bits_inj)
  then show "a = b" by (simp only: xor_cancel)
qed

lemma crc_byte_input: "crc_byte c x = crc_byte c y \<Longrightarrow> x = y"
proof -
  assume "crc_byte c x = crc_byte c y"
  then have "c XOR ucast x = c XOR (ucast y :: 32 word)" unfolding crc_byte_def by (rule crc_bits_inj)
  then have low: "(ucast x :: 32 word) = ucast y" by (simp only: xor.commute [of c] xor_cancel)
  show "x = y"
  proof (rule bit_word_eqI)
    fix n
    assume "n < LENGTH(8)"
    moreover have "bit (ucast x :: 32 word) n = bit (ucast y :: 32 word) n" by (simp only: low)
    ultimately show "bit x n = bit y n" by (simp add: bit_ucast_iff)
  qed
qed

lemma crc_rest: "foldl crc_byte a bs = foldl crc_byte b bs \<Longrightarrow> a = b"
  by (induction bs arbitrary: a b) (auto dest: crc_byte_state)

section \<open>The table of RFC 1952\<close>

definition rfc_table :: "byte \<Rightarrow> 32 word" where
  "rfc_table n = (crc_bit ^^ 8) (ucast n)"

definition rfc_update :: "32 word \<Rightarrow> byte \<Rightarrow> 32 word" where
  "rfc_update c b = rfc_table (ucast c XOR b) XOR drop_bit 8 c"

definition rfc1952_crc :: "byte list \<Rightarrow> 32 word" where
  "rfc1952_crc bytes = foldl rfc_update 0xFFFFFFFF bytes XOR 0xFFFFFFFF"

lemma crc_bits_high: "(\<forall>i < n. \<not> bit c i) \<Longrightarrow> (crc_bit ^^ n) c = drop_bit n c"
proof (induction n arbitrary: c)
  case (Suc n)
  then have "even c" using bit_0 by blast
  then have one: "crc_bit c = drop_bit 1 c" by (simp add: crc_bit_odd)
  have "(crc_bit ^^ Suc n) c = (crc_bit ^^ n) (drop_bit 1 c)" by (simp only: funpow_Suc_right comp_apply one)
  also have "\<dots> = drop_bit n (drop_bit 1 c)" using Suc.prems by (intro Suc.IH) (auto simp: bit_drop_bit_eq)
  finally show ?case by simp
qed simp

lemma rfc_update_byte: "rfc_update c b = crc_byte c b"
proof -
  let ?low = "ucast (ucast c XOR b :: byte) :: 32 word" and ?high = "push_bit 8 (drop_bit 8 c)"
  have "c XOR ucast b = ?low XOR ?high"
    by (rule bit_word_eqI) (auto simp: bit_xor_iff bit_push_bit_iff bit_drop_bit_eq bit_ucast_iff dest: bit_imp_le_length)
  moreover have "drop_bit 8 ?high = drop_bit 8 c"
  proof (rule bit_word_eqI)
    fix n
    show "bit (drop_bit 8 ?high) n = bit (drop_bit 8 c) n"
      using bit_imp_le_length [of c "8 + n"] by (auto simp: bit_push_bit_iff bit_drop_bit_eq)
  qed
  then have "(crc_bit ^^ 8) ?high = drop_bit 8 c" by (subst crc_bits_high) (auto simp: bit_push_bit_iff)
  ultimately show ?thesis by (simp add: rfc_update_def rfc_table_def crc_byte_def crc_bits_xor)
qed

lemma crc32_rfc: "crc32 bytes = rfc1952_crc bytes"
proof -
  have "rfc_update = crc_byte" by (intro ext) (rule rfc_update_byte)
  then show ?thesis by (simp add: crc32_def rfc1952_crc_def)
qed

text \<open>
  The checksum notices every change of one byte: two inputs that agree in all
  positions but one have different checksums.
\<close>

lemma crc32_one_byte:
  "crc32 (xs @ x # ys) = crc32 (xs @ y # ys) \<longleftrightarrow> x = y"
proof
  assume "crc32 (xs @ x # ys) = crc32 (xs @ y # ys)"
  then have "crc_byte (foldl crc_byte 0xFFFFFFFF xs) x = crc_byte (foldl crc_byte 0xFFFFFFFF xs) y"
    unfolding crc32_def xor_cancel by (simp add: crc_rest)
  then show "x = y" by (rule crc_byte_input)
qed simp

end
