(* ===== verification/CAbiArchive.thy ===== *)
theory CAbiArchive
  imports Bytes Crc32
begin

text \<open>
  The archives of the C ABI release (\<open>createTarGz\<close> and \<open>parseTarGz\<close> of \<open>c-abi-release.mjs\<close>): a
  ustar stream of regular files in a gzip member, written without any timestamp or owner of
  the machine, and the reader that checks such an archive. The two functions of \<open>node:zlib\<close> are
  parameters; \<open>gzip_law\<close> is what RFC 1952 promises of them.

  A decoded text is its list of code points. Sizes and offsets are natural numbers: the
  numbers stay far below \<open>2^53\<close>, where a double counts exactly.
\<close>

definition cabi_fail :: "string \<Rightarrow> js_error" where
  "cabi_fail message = Fail (''C ABI release gate failed: '' @ message)"

section \<open>Writing\<close>

definition ascii_bytes :: "string \<Rightarrow> byte list" where
  "ascii_bytes s = map (\<lambda>c. of_nat (of_char c)) s"

text \<open>\<open>Math.floor(value).toString(8)\<close>.\<close>

fun oct_digits :: "nat \<Rightarrow> byte list" where
  "oct_digits n = (if n < 8 then [of_nat (n + 48)] else oct_digits (n div 8) @ [of_nat (n mod 8 + 48)])"

declare oct_digits.simps [simp del]

definition octalField :: "nat \<Rightarrow> nat \<Rightarrow> byte list res" where
  "octalField value width =
     (let encoded = oct_digits value in
      if length encoded + 1 > width then Inl (cabi_fail ''archive field is too large'')
      else Inr (replicate (width - 1 - length encoded) 48 @ encoded @ [0]))"

text \<open>\<open>source.copy(target, offset)\<close> within the target.\<close>

definition put_bytes :: "byte list \<Rightarrow> nat \<Rightarrow> byte list \<Rightarrow> byte list" where
  "put_bytes target offset source = take offset target @ source @ drop (offset + length source) target"

definition header_write :: "byte list \<Rightarrow> nat \<Rightarrow> nat \<Rightarrow> string \<Rightarrow> byte list res" where
  "header_write header offset width value =
     (let bytes = ascii_bytes value in
      if length bytes > width then Inl (cabi_fail ''archive header field is too long'')
      else Inr (put_bytes header offset bytes))"

definition tarHeader :: "string \<Rightarrow> nat \<Rightarrow> byte list res" where
  "tarHeader path sz =
     (if unsafe_path (JStr path) then Inl (cabi_fail ''archive entry is not a safe relative path'')
      else
      bindE (header_write (replicate 512 0) 0 100 path) (\<lambda>h.
      bindE (octalField 420 8) (\<lambda>f. let h = put_bytes h 100 f in
      bindE (octalField 0 8) (\<lambda>f. let h = put_bytes (put_bytes h 108 f) 116 f in
      bindE (octalField sz 12) (\<lambda>f. let h = put_bytes h 124 f in
      bindE (octalField 0 12) (\<lambda>f. let h = put_bytes (put_bytes h 136 f) 148 (ascii_bytes ''        '') in
      bindE (header_write h 156 1 ''0'') (\<lambda>h.
      bindE (header_write h 257 6 (''ustar'' @ [CHR 0x00])) (\<lambda>h.
      bindE (header_write h 263 2 ''00'') (\<lambda>h.
      bindE (header_write h 265 32 ''root'') (\<lambda>h.
      bindE (header_write h 297 32 ''root'') (\<lambda>h.
      bindE (octalField 0 8) (\<lambda>f. let h = put_bytes (put_bytes h 329 f) 337 f in
      bindE (octalField (sum_list (map unat h)) 8) (\<lambda>f.
        Inr (put_bytes h 148 f))))))))))))))"

definition block_padding :: "nat \<Rightarrow> nat" where
  "block_padding n = (512 - n mod 512) mod 512"

text \<open>\<open>None\<close> is an entry whose value is no Buffer.\<close>

definition tar_chunks :: "(string \<times> byte list option) list \<Rightarrow> string \<Rightarrow> byte list res" where
  "tar_chunks entries name =
     (case map_of entries name of
        Some (Some bytes) \<Rightarrow> bindE (tarHeader name (length bytes)) (\<lambda>h.
          Inr (h @ bytes @ replicate (block_padding (length bytes)) 0))
      | _ \<Rightarrow> Inl (cabi_fail (''archive entry is not bytes: '' @ name)))"

definition tar_stream :: "(string \<times> byte list option) list \<Rightarrow> byte list res" where
  "tar_stream entries =
     bindE (mapE (tar_chunks entries) (sort (map fst entries))) (\<lambda>chunks.
       Inr (concat chunks @ replicate 1024 0))"

record zlib =
  zl_deflate_raw :: "byte list \<Rightarrow> byte list"
  zl_gunzip :: "byte list \<Rightarrow> byte list option"

definition write_u32_le :: "32 word \<Rightarrow> byte list" where
  "write_u32_le w = [ucast w, ucast (drop_bit 8 w), ucast (drop_bit 16 w), ucast (drop_bit 24 w)]"

definition GZIP_HEADER :: "byte list" where
  "GZIP_HEADER = [0x1f, 0x8b, 0x08, 0x00, 0x00, 0x00, 0x00, 0x00, 0x02, 0x03]"

definition deterministicGzip :: "zlib \<Rightarrow> byte list \<Rightarrow> byte list" where
  "deterministicGzip z bytes =
     GZIP_HEADER @ zl_deflate_raw z bytes @ write_u32_le (crc32 bytes) @ write_u32_le (of_nat (length bytes))"

definition createTarGz :: "zlib \<Rightarrow> (string \<times> byte list option) list \<Rightarrow> byte list res" where
  "createTarGz z entries = bindE (tar_stream entries) (\<lambda>tar. Inr (deterministicGzip z tar))"

section \<open>Reading\<close>

text \<open>\<open>replace(/\0.*$/, "")\<close>; the dot stands for no line terminator.\<close>

definition line_terminator :: "int \<Rightarrow> bool" where
  "line_terminator c \<longleftrightarrow> c \<in> {10, 13, 0x2028, 0x2029}"

fun strip_nul :: "int list \<Rightarrow> int list" where
  "strip_nul [] = []"
| "strip_nul (c # cs) =
     (if c = 0 \<and> list_all (\<lambda>x. \<not> line_terminator x) cs then [] else c # strip_nul cs)"

definition parseTarOctal :: "byte list \<Rightarrow> nat res" where
  "parseTarOctal bytes =
     (let t = trim (strip_nul (ascii_decode bytes)) in
      if \<not> list_all (\<lambda>c. 48 \<le> c \<and> c \<le> 55) t then Inl (cabi_fail ''archive contains an invalid tar number'')
      else Inr (foldl (\<lambda>n c. n * 8 + nat (c - 48)) 0 t))"

text \<open>\<open>validSafePath\<close> on a decoded text.\<close>

definition unsafe_text :: "int list \<Rightarrow> bool" where
  "unsafe_text t \<longleftrightarrow> t = [] \<or> 0x5C \<in> set t \<or> 0x0A \<in> set t \<or> 0x0D \<in> set t \<or> take 1 t = [0x2F] \<or>
     list_ex (\<lambda>part. part = [] \<or> part = [0x2E] \<or> part = [0x2E, 0x2E]) (split_on 0x2F t)"

definition byte_slice :: "nat \<Rightarrow> nat \<Rightarrow> byte list \<Rightarrow> byte list" where
  "byte_slice a b bytes = take (b - a) (drop a bytes)"

text \<open>What a header block says: the path of a regular file and its size.\<close>

definition tar_entry :: "byte list \<Rightarrow> (int list \<times> nat) res" where
  "tar_entry header =
     bindE (parseTarOctal (byte_slice 148 156 header)) (\<lambda>supplied.
     if supplied \<noteq> sum_list (map unat (put_bytes header 148 (ascii_bytes ''        '')))
     then Inl (cabi_fail ''archive tar header checksum is invalid'')
     else
     let name = strip_nul (utf8_decode (byte_slice 0 100 header));
         pre = strip_nul (utf8_decode (byte_slice 345 500 header));
         path = (if pre = [] then name else pre @ 0x2F # name) in
     if unsafe_text path then Inl (cabi_fail ''archive entry path is not a safe relative path'')
     else if header ! 156 \<noteq> 0x30 then Inl (cabi_fail ''archive contains a non-regular entry'')
     else bindE (parseTarOctal (byte_slice 124 136 header)) (\<lambda>sz. Inr (path, sz)))"

function tar_loop ::
  "byte list \<Rightarrow> nat \<Rightarrow> nat \<Rightarrow> (int list \<times> byte list) list \<Rightarrow> (nat \<times> nat \<times> (int list \<times> byte list) list) res" where
  "tar_loop tar offset zeros entries =
     (if offset + 512 \<le> length tar then
        let header = byte_slice offset (offset + 512) tar; start = offset + 512 in
        if list_all (\<lambda>b. b = 0) header then
          (if zeros + 1 = 2 then Inr (2, start, entries) else tar_loop tar start (zeros + 1) entries)
        else bindE (tar_entry header) (\<lambda>(path, sz).
          if \<not> safe_integer (int sz) \<or> start + sz > length tar then Inl (cabi_fail ''archive entry is truncated'')
          else if path \<in> fst ` set entries then Inl (cabi_fail ''archive contains a duplicate entry'')
          else tar_loop tar (start + sz + block_padding sz) 0
            (entries @ [(path, byte_slice start (start + sz) tar)]))
      else Inr (zeros, offset, entries))"
  by pat_completeness auto
termination
  by (relation "measure (\<lambda>(tar, offset, zeros, entries). length tar - offset)") auto

declare tar_loop.simps [simp del]

definition parseTarGz :: "zlib \<Rightarrow> byte list \<Rightarrow> (int list \<times> byte list) list res" where
  "parseTarGz z bytes =
     (case zl_gunzip z bytes of
        None \<Rightarrow> Inl (cabi_fail ''archive gzip stream is invalid'')
      | Some tar \<Rightarrow> bindE (tar_loop tar 0 0 []) (\<lambda>(zeros, offset, entries).
          if zeros \<noteq> 2 \<or> offset \<noteq> length tar
          then Inl (cabi_fail ''archive has malformed tar termination or trailing bytes'')
          else Inr entries))"

section \<open>Octal fields\<close>

lemma uint_small: "n < 256 \<Longrightarrow> uint (of_nat n :: byte) = int n"
  by (simp add: unsigned_of_nat take_bit_eq_mod)

lemma oct_digits_bytes: "b \<in> set (oct_digits n) \<Longrightarrow> 48 \<le> uint b \<and> uint b \<le> 55"
proof (induction n arbitrary: b rule: oct_digits.induct)
  case (1 n)
  have "uint (of_nat (n mod 8 + 48) :: byte) = int (n mod 8 + 48)" by (rule uint_small) presburger
  moreover have "n mod 8 < 8" by simp
  ultimately have last: "48 \<le> uint (of_nat (n mod 8 + 48) :: byte) \<and> uint (of_nat (n mod 8 + 48) :: byte) \<le> 55" by linarith
  show ?case
  proof (cases "n < 8")
    case True
    then show ?thesis using 1(2) last by (simp add: oct_digits.simps [of n])
  next
    case False
    then show ?thesis using 1(2) 1(1) [OF False, of b] last by (auto simp: oct_digits.simps [of n])
  qed
qed

definition oct_value :: "int list \<Rightarrow> nat" where
  "oct_value t = foldl (\<lambda>n c. n * 8 + nat (c - 48)) 0 t"

lemma oct_value_snoc: "oct_value (t @ [c]) = oct_value t * 8 + nat (c - 48)"
  by (simp add: oct_value_def)

lemma oct_value_zeros: "oct_value (replicate k 48 @ t) = oct_value t"
  by (induction k) (simp_all add: oct_value_def)

lemma oct_value_digits: "oct_value (map uint (oct_digits n)) = n"
proof (induction n rule: oct_digits.induct)
  case (1 n)
  have u: "uint (of_nat (n mod 8 + 48) :: byte) = int (n mod 8 + 48)" by (rule uint_small) presburger
  show ?case
  proof (cases "n < 8")
    case True
    then show ?thesis using u by (simp add: oct_digits.simps [of n] oct_value_def)
  next
    case False
    then show ?thesis using u 1 [OF False] by (simp add: oct_digits.simps [of n] oct_value_snoc)
  qed
qed

lemma strip_nul_plain: "0 \<notin> set t \<Longrightarrow> strip_nul (t @ 0 # replicate k 0) = t"
proof (induction t)
  case Nil
  have "list_all (\<lambda>x. \<not> line_terminator x) (replicate k 0)" by (simp add: list_all_iff line_terminator_def)
  then show ?case by simp
qed simp

lemma strip_nul_none: "0 \<notin> set t \<Longrightarrow> strip_nul t = t"
  by (induction t) auto

lemma trim_plain: "\<forall>c \<in> set t. \<not> is_space c \<Longrightarrow> trim t = t"
proof -
  assume ok: "\<forall>c \<in> set t. \<not> is_space c"
  then have "dropWhile is_space t = t" by (cases t) auto
  moreover have "dropWhile is_space (rev t) = rev t" using ok by (cases "rev t") (auto dest: arg_cong [where f = set])
  ultimately show ?thesis by (simp add: trim_def)
qed

lemma octalField_Inr:
  assumes "octalField n width = Inr f"
  shows "length f = width" and "parseTarOctal f = Inr n" and "length (oct_digits n) < width"
proof -
  let ?d = "oct_digits n"
  from assms have fit: "length ?d + 1 \<le> width" and f: "f = replicate (width - 1 - length ?d) 48 @ ?d @ [0]"
    by (auto simp: octalField_def Let_def split: if_splits)
  show "length f = width" using fit by (simp add: f)
  show "length ?d < width" using fit by simp
  let ?t = "replicate (width - 1 - length ?d) 48 @ map uint ?d"
  have digits: "48 \<le> c \<and> c \<le> 55" if "c \<in> set ?t" for c
    using that oct_digits_bytes [of _ n] by (auto split: if_splits)
  have "map (\<lambda>b. uint b mod 128) ?d = map uint ?d"
    using oct_digits_bytes [of _ n] by (intro map_cong refl mod_pos_pos_trivial) fastforce+
  then have "ascii_decode f = ?t @ 0 # replicate 0 0" by (simp add: ascii_decode_def f)
  moreover have "0 \<notin> set ?t" using digits [of 0] by auto
  ultimately have strip: "strip_nul (ascii_decode f) = ?t" by (metis strip_nul_plain)
  have "trim ?t = ?t" using digits by (intro trim_plain) (force simp: is_space_def)
  moreover have "list_all (\<lambda>c. 48 \<le> c \<and> c \<le> 55) ?t" using digits by (simp add: list_all_iff)
  moreover have "oct_value ?t = n" by (simp add: oct_value_zeros oct_value_digits)
  ultimately show "parseTarOctal f = Inr n" by (simp add: parseTarOctal_def strip oct_value_def)
qed

lemma oct_digits_length: "length (oct_digits n) \<le> k \<longleftrightarrow> n < 8 ^ k \<and> 0 < k"
proof (induction k arbitrary: n)
  case 0
  show ?case by (subst oct_digits.simps) simp
next
  case (Suc k)
  show ?case
  proof (cases "n < 8")
    case True
    moreover have "n < 8 ^ Suc k" using True by (rule order.strict_trans2) simp
    ultimately show ?thesis by (subst oct_digits.simps) simp
  next
    case False
    have "n div 8 < 8 ^ k \<longleftrightarrow> n < 8 ^ Suc k" by (simp add: div_less_iff_less_mult mult.commute)
    moreover have "0 < k" if "n < 8 ^ Suc k" using that False by (cases k) auto
    ultimately show ?thesis using Suc.IH [of "n div 8"] False by (subst oct_digits.simps) auto
  qed
qed

lemma octalField_ok: "(\<exists>f. octalField n (Suc k) = Inr f) \<longleftrightarrow> n < 8 ^ k \<and> 0 < k"
  using oct_digits_length [of n k] by (auto simp: octalField_def Let_def)

section \<open>The header\<close>

lemma length_put: "offset + length s \<le> length t \<Longrightarrow> length (put_bytes t offset s) = length t"
  by (simp add: put_bytes_def)

lemma slice_put_same:
  "offset + length s \<le> length t \<Longrightarrow> b = offset + length s \<Longrightarrow> byte_slice offset b (put_bytes t offset s) = s"
  by (simp add: put_bytes_def byte_slice_def)

lemma slice_put_other:
  assumes "offset + length s \<le> length t" and "b \<le> offset \<or> offset + length s \<le> a"
  shows "byte_slice a b (put_bytes t offset s) = byte_slice a b t"
  using assms(2)
proof
  assume "b \<le> offset"
  then show ?thesis using assms(1) by (auto simp: put_bytes_def byte_slice_def drop_take min_def)
next
  assume "offset + length s \<le> a"
  then show ?thesis using assms(1) by (simp add: put_bytes_def byte_slice_def)
qed

lemma put_slice: "offset + length s \<le> length t \<Longrightarrow> byte_slice offset (offset + length s) t = s \<Longrightarrow> put_bytes t offset s = t"
  by (simp add: put_bytes_def byte_slice_def) (metis append_take_drop_id drop_drop add.commute)

lemma put_put: "offset + length s \<le> length t \<Longrightarrow> length s' = length s \<Longrightarrow> put_bytes (put_bytes t offset s) offset s' = put_bytes t offset s'"
  by (simp add: put_bytes_def)

lemma slice_one: "a < length t \<Longrightarrow> byte_slice a (a + 1) t = [t ! a]"
  by (simp add: byte_slice_def take_Suc_conv_app_nth flip: Cons_nth_drop_Suc)

lemma header_write_Inr: "header_write h offset width v = Inr h' \<longleftrightarrow> length v \<le> width \<and> h' = put_bytes h offset (ascii_bytes v)"
  by (auto simp: header_write_def Let_def ascii_bytes_def)

lemma length_ascii [simp]: "length (ascii_bytes s) = length s"
  by (simp add: ascii_bytes_def)

text \<open>What the written header holds in the fields that the reader looks at.\<close>

lemma tarHeader_Inr:
  assumes "tarHeader path n = Inr h"
  obtains sz cs where "\<not> unsafe_path (JStr path)" "length path \<le> 100" "octalField n 12 = Inr sz" "length h = 512"
    "byte_slice 0 100 h = ascii_bytes path @ replicate (100 - length path) 0"
    "byte_slice 345 500 h = replicate 155 0" "h ! 156 = 0x30" "byte_slice 124 136 h = sz" "byte_slice 148 156 h = cs"
    "parseTarOctal cs = Inr (sum_list (map unat (put_bytes h 148 (ascii_bytes ''        ''))))"
proof -
  from assms obtain mode z sz mt cs a b c h8 where safe: "\<not> unsafe_path (JStr path)" "length path \<le> 100"
    and f: "octalField 420 8 = Inr mode" "octalField 0 8 = Inr z" "octalField n 12 = Inr sz" "octalField 0 12 = Inr mt"
    and a: "a = put_bytes (put_bytes (put_bytes (put_bytes (put_bytes (replicate 512 0) 0 (ascii_bytes path)) 100 mode) 108 z)
        116 z) 124 sz"
    and b: "b = put_bytes (put_bytes a 136 mt) 148 (ascii_bytes ''        '')"
    and c: "c = put_bytes (put_bytes (put_bytes (put_bytes (put_bytes b 156 (ascii_bytes ''0'')) 257
        (ascii_bytes (''ustar'' @ [CHR 0x00]))) 263 (ascii_bytes ''00'')) 265 (ascii_bytes ''root'')) 297 (ascii_bytes ''root'')"
    and h8: "h8 = put_bytes (put_bytes c 329 z) 337 z"
    and cs: "octalField (sum_list (map unat h8)) 8 = Inr cs" and h: "h = put_bytes h8 148 cs"
    by (auto simp: tarHeader_def bindE_Inr_iff header_write_Inr Let_def split: if_splits)
  note len = f [THEN octalField_Inr(1)] cs [THEN octalField_Inr(1)]
  note simps = length_put slice_put_other slice_put_same len
  have la: "length a = 512" unfolding a using safe(2) by (simp add: length_put len)
  have lb: "length b = 512" unfolding b by (simp add: length_put len la)
  have lc: "length c = 512" unfolding c by (simp add: length_put len lb)
  have l8: "length h8 = 512" unfolding h8 by (simp add: length_put len lc)
  have "byte_slice 148 156 b = ascii_bytes ''        ''" unfolding b by (simp add: simps la)
  then have "byte_slice 148 156 c = ascii_bytes ''        ''" unfolding c by (simp add: simps lb)
  then have "byte_slice 148 156 h8 = ascii_bytes ''        ''" unfolding h8 by (simp add: simps lc)
  then have "put_bytes h 148 (ascii_bytes ''        '') = h8" by (simp add: h put_put l8 len put_slice)
  then have sum: "parseTarOctal cs = Inr (sum_list (map unat (put_bytes h 148 (ascii_bytes ''        ''))))"
    using octalField_Inr(2) [OF cs] by simp
  have rest: "byte_slice k l h = byte_slice k l a"
    if "l \<le> 136 \<or> 345 \<le> k" for k l
    using that by (auto simp: h h8 c b simps l8 lc lb la)
  have "byte_slice 0 100 a = ascii_bytes path @ replicate (100 - length path) 0"
    using safe(2) unfolding a by (simp add: simps) (simp add: byte_slice_def put_bytes_def)
  moreover have "byte_slice 345 500 a = replicate 155 0"
    using safe(2) unfolding a by (simp add: simps) (simp add: byte_slice_def)
  moreover have "byte_slice 124 136 a = sz" using safe(2) unfolding a by (simp add: simps)
  moreover have "byte_slice 148 156 h = cs" by (simp add: h simps l8)
  moreover have "byte_slice 156 157 c = ascii_bytes ''0''" unfolding c by (simp add: simps lb)
  then have "byte_slice 156 157 h = [0x30]" by (simp add: h h8 simps l8 lc ascii_bytes_def)
  then have "h ! 156 = 0x30" using slice_one [of 156 h] by (simp add: h length_put l8 len)
  moreover have "length h = 512" by (simp add: h length_put l8 len)
  ultimately show ?thesis using that [OF safe f(3), of cs] sum rest by simp
qed

section \<open>The reader against the format\<close>

text \<open>
  The format, stated apart from the reader: a text field is what stands before its NUL padding,
  a number field holds octal digits between white space, a path is a sequence of proper
  components, and a header block of 512 bytes carries the sum of its bytes, with its checksum field
  counted as eight spaces.
\<close>

definition nul_padding :: "int list \<Rightarrow> bool" where
  "nul_padding pad \<longleftrightarrow> (case pad of [] \<Rightarrow> True | c # cs \<Rightarrow> c = 0 \<and> list_all (\<lambda>x. x \<notin> {10, 13, 0x2028, 0x2029}) cs)"

definition padded_text :: "int list \<Rightarrow> int list \<Rightarrow> bool" where
  "padded_text field t \<longleftrightarrow> (\<exists>pad. field = t @ pad \<and> nul_padding pad) \<and>
     (\<forall>t' pad. field = t' @ pad \<longrightarrow> nul_padding pad \<longrightarrow> length t \<le> length t')"

definition number_field :: "byte list \<Rightarrow> nat \<Rightarrow> bool" where
  "number_field field n \<longleftrightarrow> (\<exists>before digits after.
     padded_text (ascii_decode field) (before @ digits @ after) \<and>
     (\<forall>c \<in> set before \<union> set after. is_space c) \<and> (\<forall>c \<in> set digits. 0x30 \<le> c \<and> c \<le> 0x37) \<and>
     n = horner_sum (\<lambda>c. nat (c - 0x30)) 8 (rev digits))"

definition proper_path :: "int list \<Rightarrow> bool" where
  "proper_path t \<longleftrightarrow> (\<exists>parts. 0x2F # t = concat (map ((#) 0x2F) parts) \<and>
     (\<forall>p \<in> set parts. p \<notin> {[], [0x2E], [0x2E, 0x2E]} \<and> set p \<inter> {0x2F, 0x5C, 0x0A, 0x0D} = {}))"

definition tar_header_spec :: "byte list \<Rightarrow> int list \<Rightarrow> nat \<Rightarrow> bool" where
  "tar_header_spec header path sz \<longleftrightarrow>
     number_field (take 8 (drop 148 header)) (\<Sum>i<512. if i \<in> {148..<156} then 32 else unat (header ! i)) \<and>
     (\<exists>name pre. padded_text (utf8_decode (take 100 header)) name \<and>
        padded_text (utf8_decode (take 155 (drop 345 header))) pre \<and>
        path = (if pre = [] then name else pre @ [0x2F] @ name)) \<and>
     proper_path path \<and> header ! 156 = 0x30 \<and> number_field (take 12 (drop 124 header)) sz"

lemma strip_nul_cases: "strip_nul (c # cs) = (if nul_padding (c # cs) then [] else c # strip_nul cs)"
  by (simp add: nul_padding_def line_terminator_def)

lemma strip_nul_padding: "\<exists>pad. t = strip_nul t @ pad \<and> nul_padding pad"
proof (induction t)
  case Nil
  show ?case by (simp add: nul_padding_def)
next
  case (Cons c cs)
  then obtain pad where "cs = strip_nul cs @ pad" "nul_padding pad" by blast
  then show ?case by (cases "nul_padding (c # cs)") (auto simp: strip_nul_cases simp del: strip_nul.simps)
qed

lemma strip_nul_least: "t = t' @ pad \<Longrightarrow> nul_padding pad \<Longrightarrow> length (strip_nul t) \<le> length t'"
proof (induction t arbitrary: t')
  case (Cons c cs)
  show ?case
  proof (cases t')
    case Nil
    then have "nul_padding (c # cs)" using Cons.prems by simp
    then show ?thesis by (simp add: strip_nul_cases del: strip_nul.simps)
  next
    case (Cons d ds)
    then show ?thesis using Cons.IH [of ds] Cons.prems by (simp add: strip_nul_cases del: strip_nul.simps)
  qed
qed simp

lemma padded_text_iff: "padded_text field t \<longleftrightarrow> t = strip_nul field"
proof
  assume t: "padded_text field t"
  obtain pad where pad: "field = t @ pad" "nul_padding pad" using t by (auto simp: padded_text_def)
  obtain pad' where pad': "field = strip_nul field @ pad'" "nul_padding pad'" using strip_nul_padding by blast
  have "length t \<le> length (strip_nul field)" using t pad' by (auto simp: padded_text_def)
  moreover have "length (strip_nul field) \<le> length t" by (rule strip_nul_least [OF pad])
  ultimately show "t = strip_nul field" using pad(1) pad'(1) by (metis append_eq_append_conv le_antisym)
next
  assume "t = strip_nul field"
  then show "padded_text field t"
    unfolding padded_text_def using strip_nul_padding [of field] strip_nul_least [of field] by simp
qed

text \<open>
  The layout of an accepted stream: files, each a header block, its content and padding to the
  next block, single zero blocks in between, and two zero blocks at the very end.
\<close>

definition zero_block :: "byte list \<Rightarrow> bool" where
  "zero_block bytes \<longleftrightarrow> list_all (\<lambda>b. b = 0) (take 512 bytes)"

inductive tar_layout :: "byte list \<Rightarrow> (int list \<times> byte list) list \<Rightarrow> bool" where
  tar_end: "tar_layout (replicate 1024 0) []"
| tar_gap: "tar_layout rest es \<Longrightarrow> \<not> zero_block rest \<Longrightarrow> tar_layout (replicate 512 0 @ rest) es"
| tar_file: "length header = 512 \<Longrightarrow> \<not> zero_block header \<Longrightarrow> tar_header_spec header path (length content) \<Longrightarrow>
    length pad = block_padding (length content) \<Longrightarrow> tar_layout rest es \<Longrightarrow>
    tar_layout (header @ content @ pad @ rest) ((path, content) # es)"

lemma trim_split: "\<exists>before after. t = before @ trim t @ after \<and> (\<forall>c \<in> set before \<union> set after. is_space c)"
proof -
  have "t = takeWhile is_space t @ dropWhile is_space t" by simp
  moreover have "dropWhile is_space t = trim t @ rev (takeWhile is_space (rev (dropWhile is_space t)))"
    unfolding trim_def by (metis rev_append rev_rev_ident takeWhile_dropWhile_id)
  ultimately show ?thesis by (metis Un_iff set_rev set_takeWhileD)
qed

lemma dropWhile_all: "\<forall>c \<in> set xs. P c \<Longrightarrow> dropWhile P (xs @ ys) = dropWhile P ys"
  by (induction xs) auto

lemma trim_around:
  assumes "\<forall>c \<in> set before \<union> set after. is_space c" and "\<forall>c \<in> set digits. \<not> is_space c"
  shows "trim (before @ digits @ after) = digits"
proof (cases "digits = []")
  case True
  then have "dropWhile is_space (before @ digits @ after) = []"
    unfolding dropWhile_eq_Nil_conv using assms(1) True by auto
  then show ?thesis unfolding trim_def by (simp only: True rev.simps dropWhile.simps)
next
  case False
  then have "dropWhile is_space (before @ digits @ after) = digits @ after"
    using assms by (cases digits) (auto simp: dropWhile_all)
  moreover have "dropWhile is_space (rev after @ rev digits) = rev digits"
    using assms False by (cases "rev digits") (auto simp: dropWhile_all dest: arg_cong [where f = set])
  ultimately show ?thesis by (simp add: trim_def)
qed

lemma oct_value_horner: "oct_value t = horner_sum (\<lambda>c. nat (c - 0x30)) 8 (rev t)"
  by (induction t rule: rev_induct) (simp_all add: oct_value_snoc, simp add: oct_value_def)

lemma number_field_iff: "number_field field n \<longleftrightarrow> parseTarOctal field = Inr n"
proof -
  let ?t = "strip_nul (ascii_decode field)"
  have space: "\<not> is_space c" if "48 \<le> c" "c \<le> 55" for c using that by (simp add: is_space_def)
  have "number_field field n \<longleftrightarrow> (\<exists>before digits after. ?t = before @ digits @ after \<and>
      (\<forall>c \<in> set before \<union> set after. is_space c) \<and> (\<forall>c \<in> set digits. 48 \<le> c \<and> c \<le> 55) \<and> n = oct_value digits)"
    unfolding number_field_def padded_text_iff oct_value_horner by (auto simp: eq_commute)
  also have "\<dots> \<longleftrightarrow> (\<forall>c \<in> set (trim ?t). 48 \<le> c \<and> c \<le> 55) \<and> n = oct_value (trim ?t)"
  proof
    assume "\<exists>before digits after. ?t = before @ digits @ after \<and>
      (\<forall>c \<in> set before \<union> set after. is_space c) \<and> (\<forall>c \<in> set digits. 48 \<le> c \<and> c \<le> 55) \<and> n = oct_value digits"
    then obtain before digits after where t: "?t = before @ digits @ after"
      and ws: "\<forall>c \<in> set before \<union> set after. is_space c" and digits: "\<forall>c \<in> set digits. 48 \<le> c \<and> c \<le> 55"
      and n: "n = oct_value digits" by blast
    have "trim ?t = digits" unfolding t using ws digits space by (intro trim_around) auto
    then show "(\<forall>c \<in> set (trim ?t). 48 \<le> c \<and> c \<le> 55) \<and> n = oct_value (trim ?t)" using digits n by simp
  next
    assume ok: "(\<forall>c \<in> set (trim ?t). 48 \<le> c \<and> c \<le> 55) \<and> n = oct_value (trim ?t)"
    then show "\<exists>before digits after. ?t = before @ digits @ after \<and>
      (\<forall>c \<in> set before \<union> set after. is_space c) \<and> (\<forall>c \<in> set digits. 48 \<le> c \<and> c \<le> 55) \<and> n = oct_value digits"
      using trim_split [of ?t] by blast
  qed
  also have "\<dots> \<longleftrightarrow> parseTarOctal field = Inr n"
    by (auto simp: parseTarOctal_def Let_def oct_value_def list_all_iff)
  finally show ?thesis .
qed

lemma concat_split_on: "concat (map ((#) c) (split_on c t)) = c # t"
proof (induction t)
  case (Cons x xs)
  then show ?case by (cases "split_on c xs") auto
qed simp

lemma split_on_concat: "c # t = concat (map ((#) c) parts) \<Longrightarrow> \<forall>p \<in> set parts. c \<notin> set p \<Longrightarrow> split_on c t = parts"
proof (induction parts arbitrary: t)
  case (Cons p ps)
  show ?case
  proof (cases ps)
    case Nil
    then show ?thesis using Cons.prems by (simp add: split_on_plain)
  next
    case (Cons q qs)
    let ?rest = "q @ concat (map ((#) c) qs)"
    have "t = p @ c # ?rest" using Cons.prems(1) Cons by simp
    moreover have "split_on c ?rest = ps" using Cons.IH [of ?rest] Cons.prems(2) Cons by simp
    ultimately show ?thesis using Cons.prems(2) by (simp add: split_on_append_sep split_on_plain)
  qed
qed simp

lemma proper_path_iff: "proper_path t \<longleftrightarrow> \<not> unsafe_text t"
proof
  assume "proper_path t"
  then obtain parts where t: "0x2F # t = concat (map ((#) 0x2F) parts)"
    and ps: "\<forall>p \<in> set parts. p \<notin> {[], [0x2E], [0x2E, 0x2E]} \<and> set p \<inter> {0x2F, 0x5C, 0x0A, 0x0D} = {}"
    by (auto simp: proper_path_def)
  have split: "split_on 0x2F t = parts" using ps by (intro split_on_concat [OF t]) auto
  have "set t \<subseteq> set (concat (map ((#) 0x2F) parts))" unfolding t [symmetric] by auto
  then have "c = 0x2F \<or> (\<exists>p \<in> set parts. c \<in> set p)" if "c \<in> set t" for c using that by (auto split: if_splits)
  then have chars: "set t \<inter> {0x5C, 0x0A, 0x0D} = {}" using ps by fastforce
  obtain p rest where p: "parts = p # rest" using t by (cases parts) auto
  then obtain c cs where "p = c # cs" "c \<noteq> 0x2F" using ps by (cases p) auto
  then have "t \<noteq> []" "take 1 t \<noteq> [0x2F]" using t p by auto
  then show "\<not> unsafe_text t" using split chars ps by (auto simp: unsafe_text_def list_ex_iff)
next
  assume ok: "\<not> unsafe_text t"
  have "\<forall>p \<in> set (split_on 0x2F t). p \<notin> {[], [0x2E], [0x2E, 0x2E]} \<and> set p \<inter> {0x2F, 0x5C, 0x0A, 0x0D} = {}"
  proof
    fix p assume p: "p \<in> set (split_on 0x2F t)"
    have "0x2F \<notin> set p" using p by (rule split_on_no_sep)
    moreover have "set p \<subseteq> set t" using p by (rule split_on_chars)
    ultimately show "p \<notin> {[], [0x2E], [0x2E, 0x2E]} \<and> set p \<inter> {0x2F, 0x5C, 0x0A, 0x0D} = {}"
      using ok p by (auto simp: unsafe_text_def list_ex_iff)
  qed
  then show "proper_path t" unfolding proper_path_def using concat_split_on [of "0x2F" t] by metis
qed

lemma header_sum:
  assumes "length header = 512"
  shows "sum_list (map unat (put_bytes header 148 (ascii_bytes ''        ''))) =
    (\<Sum>i<512. if i \<in> {148..<156} then 32 else unat (header ! i))"
proof -
  let ?h = "put_bytes header 148 (ascii_bytes ''        '')"
  have spaces: "ascii_bytes ''        '' = replicate 8 32" by (simp add: ascii_bytes_def numeral_eq_Suc)
  have len: "length ?h = 512" using assms by (simp add: length_put)
  have "unat (?h ! i) = (if i \<in> {148..<156} then 32 else unat (header ! i))" if "i < 512" for i
    using that assms by (auto simp: put_bytes_def spaces nth_append)
  then show ?thesis by (simp add: sum_list_sum_nth len atLeast0LessThan)
qed

lemma tar_entry_iff:
  assumes "length header = 512"
  shows "tar_entry header = Inr (path, sz) \<longleftrightarrow> tar_header_spec header path sz"
proof -
  have "byte_slice 0 100 header = take 100 header" "byte_slice 345 500 header = take 155 (drop 345 header)"
    "byte_slice 148 156 header = take 8 (drop 148 header)" "byte_slice 124 136 header = take 12 (drop 124 header)"
    by (simp_all add: byte_slice_def)
  then show ?thesis
    unfolding tar_entry_def tar_header_spec_def number_field_iff padded_text_iff proper_path_iff header_sum [OF assms]
    by (auto simp: bindE_Inr_iff Let_def)
qed

lemma tar_layout_length: "tar_layout bytes es \<Longrightarrow> 1024 \<le> length bytes"
  by (induction rule: tar_layout.induct) auto

lemma strip_nul_length: "length (strip_nul t) \<le> length t"
  by (induction t) auto

lemma trim_length: "length (trim t) \<le> length t"
  by (simp add: trim_def) (metis length_dropWhile_le length_rev order_trans)

lemma oct_value_bound: "\<forall>c \<in> set t. c \<le> 55 \<Longrightarrow> oct_value t < 8 ^ length t"
proof (induction t rule: rev_induct)
  case (snoc c t)
  then have "oct_value t * 8 + nat (c - 48) < 8 ^ length t * 8" by fastforce
  then show ?case by (simp add: oct_value_snoc mult.commute)
qed (simp add: oct_value_def)

lemma parseTarOctal_bound:
  assumes "parseTarOctal f = Inr n"
  shows "n < 8 ^ length f"
proof -
  let ?t = "trim (strip_nul (ascii_decode f))"
  have t: "n = oct_value ?t" "\<forall>c \<in> set ?t. c \<le> 55"
    using assms by (auto simp: parseTarOctal_def Let_def oct_value_def list_all_iff split: if_splits)
  have "length ?t \<le> length f"
    using trim_length [of "strip_nul (ascii_decode f)"] strip_nul_length [of "ascii_decode f"] by (simp add: ascii_decode_def)
  then have "(8 :: nat) ^ length ?t \<le> 8 ^ length f" by (intro power_increasing) simp_all
  with oct_value_bound [OF t(2)] show ?thesis unfolding t(1) by (rule order.strict_trans2)
qed

lemma tar_entry_size: "tar_entry header = Inr (path, n) \<Longrightarrow> safe_integer (int n)"
proof -
  assume "tar_entry header = Inr (path, n)"
  then have "n < 8 ^ length (byte_slice 124 136 header)"
    by (auto simp: tar_entry_def bindE_Inr_iff Let_def dest!: parseTarOctal_bound split: if_splits)
  also have "(8 :: nat) ^ length (byte_slice 124 136 header) \<le> 8 ^ 12"
    by (intro power_increasing) (simp_all add: byte_slice_def)
  finally show ?thesis by (simp add: safe_integer_def)
qed

lemma slice_split:
  assumes "k \<le> length tar"
  shows "drop off tar = byte_slice off k tar @ drop k tar \<or> k < off"
  using assms by (cases "off \<le> k") (auto simp: byte_slice_def, metis append_take_drop_id drop_drop le_add_diff_inverse2)

lemma tar_loop_zero:
  "off + 512 \<le> length tar \<Longrightarrow> list_all (\<lambda>b. b = 0) (byte_slice off (off + 512) tar) \<Longrightarrow>
   tar_loop tar off zeros acc =
     (if zeros = 1 then Inr (2, off + 512, acc) else tar_loop tar (off + 512) (zeros + 1) acc)"
  by (subst tar_loop.simps) (simp add: Let_def)

lemma tar_loop_entry:
  "off + 512 \<le> length tar \<Longrightarrow> \<not> list_all (\<lambda>b. b = 0) (byte_slice off (off + 512) tar) \<Longrightarrow>
   tar_loop tar off zeros acc = bindE (tar_entry (byte_slice off (off + 512) tar)) (\<lambda>(path, n).
     if \<not> safe_integer (int n) \<or> off + 512 + n > length tar then Inl (cabi_fail ''archive entry is truncated'')
     else if path \<in> fst ` set acc then Inl (cabi_fail ''archive contains a duplicate entry'')
     else tar_loop tar (off + 512 + n + block_padding n) 0 (acc @ [(path, byte_slice (off + 512) (off + 512 + n) tar)]))"
  by (subst tar_loop.simps) (simp only: Let_def if_True if_False)

lemma tar_loop_end: "\<not> off + 512 \<le> length tar \<Longrightarrow> tar_loop tar off zeros acc = Inr (zeros, off, acc)"
  by (subst tar_loop.simps) simp

lemma tar_loop_sound:
  "tar_loop tar off zeros acc = Inr (2, length tar, out) \<Longrightarrow> zeros \<le> 1 \<Longrightarrow> distinct (map fst acc) \<Longrightarrow>
   \<exists>es. out = acc @ es \<and> distinct (map fst out) \<and>
     (if zeros = 0 then tar_layout (drop off tar) es
      else drop off tar = replicate 512 0 \<and> es = [] \<or> tar_layout (drop off tar) es \<and> \<not> zero_block (drop off tar))"
proof (induction tar off zeros acc rule: tar_loop.induct)
  case (1 tar off zeros acc)
  let ?header = "byte_slice off (off + 512) tar" and ?start = "off + 512"
  have fit: "?start \<le> length tar" using 1(3,4) tar_loop_end [of off tar zeros acc] by (cases "?start \<le> length tar") auto
  then have split: "drop off tar = ?header @ drop ?start tar" and len: "length ?header = 512"
    using slice_split [of ?start tar off] by (auto simp: byte_slice_def)
  have block: "zero_block (drop off tar) \<longleftrightarrow> list_all (\<lambda>b. b = 0) ?header" by (simp add: split len zero_block_def)
  show ?case
  proof (cases "list_all (\<lambda>b. b = 0) ?header")
    case True
    then have zero: "?header = replicate 512 0" by (intro replicate_eqI len) (simp add: list_all_iff)
    show ?thesis
    proof (cases "zeros + 1 = 2")
      case two: True
      then have "out = acc" "?start = length tar" using 1(3) by (simp_all add: tar_loop_zero [OF fit True])
      then show ?thesis using two 1(5) split zero by auto
    next
      case one: False
      then have z: "zeros = 0" using 1(4) by simp
      then have "tar_loop tar ?start 1 acc = Inr (2, length tar, out)"
        using 1(3) by (simp add: tar_loop_zero [OF fit True])
      then obtain es where es: "out = acc @ es" "distinct (map fst out)"
          "drop ?start tar = replicate 512 0 \<and> es = [] \<or> tar_layout (drop ?start tar) es \<and> \<not> zero_block (drop ?start tar)"
        using 1(1) [OF fit refl refl True one] z 1(5) by (auto simp: add.commute)
      have two: "replicate 512 0 @ replicate 512 0 = replicate 1024 (0 :: byte)" by (simp flip: replicate_add)
      from es(3) have "tar_layout (drop off tar) es"
        unfolding split zero using tar_gap tar_end two by auto
      then show ?thesis using z es(1,2) by auto
    qed
  next
    case False
    then obtain path n where entry: "tar_entry ?header = Inr (path, n)" and size: "safe_integer (int n)" "?start + n \<le> length tar"
      and new: "path \<notin> fst ` set acc"
      and loop: "tar_loop tar (?start + n + block_padding n) 0 (acc @ [(path, byte_slice ?start (?start + n) tar)]) = Inr (2, length tar, out)"
      using 1(3) by (auto simp: tar_loop_entry [OF fit False] bindE_Inr_iff split: if_splits)
    let ?content = "byte_slice ?start (?start + n) tar" and ?next = "?start + n + block_padding n"
    obtain es where es: "out = (acc @ [(path, ?content)]) @ es" "distinct (map fst out)" "tar_layout (drop ?next tar) es"
      using 1(2) [OF fit refl refl False, of "(path, n)" path n] entry loop new size 1(5) by (auto simp: not_less)
    have bound: "?next \<le> length tar" using tar_layout_length [OF es(3)] by simp
    have "drop ?start tar = ?content @ byte_slice (?start + n) ?next tar @ drop ?next tar"
      using slice_split [OF size(2), of ?start] slice_split [OF bound, of "?start + n"] by auto
    moreover have "length ?content = n" "length (byte_slice (?start + n) ?next tar) = block_padding n"
      using size(2) bound by (auto simp: byte_slice_def)
    moreover have "\<not> zero_block ?header" using False len by (simp add: zero_block_def)
    ultimately have "tar_layout (drop off tar) ((path, ?content) # es)"
      unfolding split using tar_file [OF len, of path ?content "byte_slice (?start + n) ?next tar"] entry es(3) by (simp add: tar_entry_iff [OF len])
    then show ?thesis using es 1(4) False block by (intro exI [of _ "(path, ?content) # es"]) auto
  qed
qed

lemma tar_loop_complete:
  "tar_layout rest es \<Longrightarrow> drop off tar = rest \<Longrightarrow> distinct (map fst (acc @ es)) \<Longrightarrow> zeros = 0 \<or> zeros = 1 \<and> \<not> zero_block rest \<Longrightarrow>
   tar_loop tar off zeros acc = Inr (2, length tar, acc @ es)"
proof (induction arbitrary: off acc zeros rule: tar_layout.induct)
  case tar_end
  have len: "length tar = off + 1024" using arg_cong [where f = length, OF tar_end(1)] by simp
  have "drop (off + 512) tar = drop 512 (drop off tar)" by (simp add: add.commute)
  then have "byte_slice off (off + 512) tar = replicate 512 0" "byte_slice (off + 512) (off + 512 + 512) tar = replicate 512 0"
    using tar_end(1) by (simp_all add: byte_slice_def)
  moreover have "zero_block (replicate 1024 0)" by (simp add: zero_block_def list_all_iff)
  ultimately show ?case
    using tar_end(3) len tar_loop_zero [of off tar 0 acc] tar_loop_zero [of "off + 512" tar 1 acc] by (simp add: list_all_iff)
next
  case (tar_gap rest es)
  have len: "length tar = off + 512 + length rest" using arg_cong [where f = length, OF tar_gap.prems(1)] by simp
  have header: "byte_slice off (off + 512) tar = replicate 512 0" by (simp add: byte_slice_def tar_gap.prems(1))
  have "drop (off + 512) tar = drop 512 (drop off tar)" by (simp add: add.commute)
  then have next_block: "drop (off + 512) tar = rest" by (simp add: tar_gap.prems(1))
  have "zero_block (replicate 512 0 @ rest)" by (simp add: zero_block_def list_all_iff)
  then have z: "zeros = 0" using tar_gap.prems(3) by simp
  show ?case
    using tar_gap.IH [OF next_block tar_gap.prems(2), of 1] tar_gap.hyps(2) len header z
    by (simp add: tar_loop_zero list_all_iff)
next
  case (tar_file header path content pad rest es)
  let ?n = "length content"
  have whole: "drop off tar = header @ content @ pad @ rest" by (rule tar_file.prems(1))
  have len: "length tar = off + 512 + ?n + length pad + length rest"
    using arg_cong [where f = length, OF whole] tar_file.hyps(1) by simp
  have header: "byte_slice off (off + 512) tar = header" by (simp add: byte_slice_def whole tar_file.hyps(1))
  have "drop (off + 512) tar = drop 512 (drop off tar)" by (simp add: add.commute)
  then have start: "drop (off + 512) tar = content @ pad @ rest" by (simp add: whole tar_file.hyps(1))
  then have content: "byte_slice (off + 512) (off + 512 + ?n) tar = content" by (simp add: byte_slice_def)
  have "drop (off + 512 + ?n + block_padding ?n) tar = drop (?n + block_padding ?n) (drop (off + 512) tar)"
    by (simp add: algebra_simps)
  then have next_block: "drop (off + 512 + ?n + block_padding ?n) tar = rest"
    using tar_file.hyps(4) by (simp add: start)
  have entry: "\<not> list_all (\<lambda>b. b = 0) (byte_slice off (off + 512) tar)"
    using tar_file.hyps(1,2) by (simp add: header zero_block_def)
  have read: "tar_entry header = Inr (path, ?n)" using tar_file.hyps(1,3) by (simp add: tar_entry_iff)
  show ?case
    using tar_file.IH [OF next_block, of "acc @ [(path, content)]" 0] tar_file.prems(2) len tar_entry_size [OF read]
    by (auto simp: tar_loop_entry [OF _ entry] header read content)
qed

lemma parseTarGz_layout:
  "parseTarGz z bytes = Inr es \<longleftrightarrow>
     (\<exists>tar. zl_gunzip z bytes = Some tar \<and> tar_layout tar es \<and> distinct (map fst es))"
proof -
  have "tar_loop tar 0 0 [] = Inr (2, length tar, es) \<longleftrightarrow> tar_layout tar es \<and> distinct (map fst es)" for tar
    using tar_loop_sound [of tar 0 0 "[]" es] tar_loop_complete [of tar es 0 tar "[]" 0] by auto
  then show ?thesis
    by (auto simp: parseTarGz_def bindE_Inr_iff split: option.splits if_splits)
qed

text \<open>
  Property C15. The archives that are accepted are exactly the gzip streams of a tar layout: from
  the first byte to the last a sequence of header blocks with their padded contents, possibly with
  single zero blocks between them, ended by two zero blocks with nothing after them, in which no
  path occurs twice. Each header block carries its own checksum, names a regular file under a
  path of proper components and gives the length of the content in octal.
\<close>

theorem parseTarGz_iff:
  "parseTarGz z bytes = Inr es \<longleftrightarrow>
     (\<exists>tar. zl_gunzip z bytes = Some tar \<and> tar_layout tar es \<and> distinct (map fst es))"
  by (rule parseTarGz_layout)

section \<open>The round trip\<close>

text \<open>
  RFC 1952: a member with this header is inflated to the bytes that were deflated when its
  trailer holds their CRC-32, by the algorithm of the RFC, and their length modulo \<open>2^32\<close>.
\<close>

definition gzip_law :: "zlib \<Rightarrow> bool" where
  "gzip_law z \<longleftrightarrow> (\<forall>bytes. zl_gunzip z (GZIP_HEADER @ zl_deflate_raw z bytes @
     write_u32_le (rfc1952_crc bytes) @ write_u32_le (of_nat (length bytes))) = Some bytes)"

text \<open>A name that its ASCII bytes spell.\<close>

definition ascii_name :: "string \<Rightarrow> bool" where
  "ascii_name s \<longleftrightarrow> list_all (\<lambda>c. (0 :: nat) < of_char c \<and> of_char c < (128 :: nat)) s"

lemma ascii_bytes_plain: "ascii_name s \<Longrightarrow> map uint (ascii_bytes s) = ucs s"
proof (induction s)
  case (Cons c s)
  have "uint (of_nat (of_char c) :: byte) = int (of_char c)" using Cons.prems by (intro uint_small) (simp add: ascii_name_def)
  then show ?case using Cons by (simp add: ascii_name_def ascii_bytes_def ucs_def of_nat_of_char)
qed (simp add: ascii_bytes_def ucs_def)

lemma utf8_plain: "\<forall>b \<in> set bs. uint b < 128 \<Longrightarrow> utf8_decode bs = map uint bs"
proof -
  have "\<forall>c \<in> set cs. c < 128 \<Longrightarrow> utf8_go 0 0 0x80 0xBF cs = cs" for cs by (induction cs) auto
  then show "\<forall>b \<in> set bs. uint b < 128 \<Longrightarrow> utf8_decode bs = map uint bs" by (simp add: utf8_decode_def)
qed

lemma split_on_ucs: "split_on 0x2F (ucs s) = map ucs (split_on CHR ''/'' s)"
proof (induction s)
  case (Cons c s)
  have "(of_char c = (0x2F :: int)) = (c = CHR ''/'')"
    using of_char_eq_iff [of c "CHR ''/''"] by simp
  then show ?case using Cons by (auto simp: ucs_def split: list.splits)
qed (simp add: ucs_def)

lemma inj_ucs: "inj ucs"
  unfolding ucs_def by (rule inj_mapI) (simp add: inj_def)

lemma unsafe_text_ucs: "unsafe_text (ucs s) \<longleftrightarrow> unsafe_path (JStr s)"
proof -
  have char: "(of_char c = (of_char d :: int)) = (c = d)" for c d by simp
  have mem: "of_char d \<in> set (ucs s) \<longleftrightarrow> d \<in> set s" for d by (auto simp: ucs_def)
  have eq: "ucs p = ucs q \<longleftrightarrow> p = q" for p q unfolding ucs_def by (rule inj_map_eq_map) (simp add: inj_def)
  have "take 1 (ucs s) = [0x2F] \<longleftrightarrow> starts_with ''/'' s"
    using char [of _ "CHR ''/''"] by (cases s) (auto simp: ucs_def starts_with_def)
  moreover have "ucs s = [] \<longleftrightarrow> s = []" by (simp add: ucs_def)
  moreover have "ucs p = [0x2E] \<longleftrightarrow> p = ''.''" "ucs p = [0x2E, 0x2E] \<longleftrightarrow> p = ''..''" "ucs p = [] \<longleftrightarrow> p = []" for p
    using eq [of p "''.''"] eq [of p "''..''"] by (simp_all add: ucs_def)
  ultimately show ?thesis
    using mem [of "CHR 0x5C"] mem [of "CHR 0x0A"] mem [of "CHR 0x0D"]
    by (simp add: unsafe_text_def unsafe_path_def includes_char split_on_ucs list_ex_iff)
qed

lemma written_header:
  assumes "tarHeader name n = Inr h" and "ascii_name name"
  shows "length h = 512" "\<not> zero_block h" "tar_entry h = Inr (ucs name, n)"
proof -
  from assms(1) obtain sz cs where safe: "\<not> unsafe_path (JStr name)" "length name \<le> 100" and sz: "octalField n 12 = Inr sz"
    and h: "length h = 512" "byte_slice 0 100 h = ascii_bytes name @ replicate (100 - length name) 0"
      "byte_slice 345 500 h = replicate 155 0" "h ! 156 = 0x30" "byte_slice 124 136 h = sz" "byte_slice 148 156 h = cs"
    and cs: "parseTarOctal cs = Inr (sum_list (map unat (put_bytes h 148 (ascii_bytes ''        ''))))"
    by (rule tarHeader_Inr)
  show "length h = 512" by (rule h)
  have "0x30 \<in> set (take 512 h)" using nth_mem [of 156 h] h(1,4) by simp
  then show "\<not> zero_block h" by (auto simp: zero_block_def list_all_iff intro!: bexI [where x = "0x30"])
  have small: "\<forall>b \<in> set (ascii_bytes name). uint b < 128"
  proof
    fix b assume "b \<in> set (ascii_bytes name)"
    then have "uint b \<in> set (ucs name)" by (metis ascii_bytes_plain [OF assms(2)] image_eqI set_map)
    then obtain c where "c \<in> set name" "uint b = int (of_char c)" by (auto simp: ucs_def of_nat_of_char)
    then show "uint b < 128" using assms(2) by (auto simp: ascii_name_def list_all_iff)
  qed
  have "utf8_decode (byte_slice 0 100 h) = ucs name @ replicate (100 - length name) 0"
    unfolding h(2) by (subst utf8_plain) (auto simp: small ascii_bytes_plain [OF assms(2)])
  moreover have "of_char c \<noteq> (0 :: int)" if "c \<in> set name" for c
    using that assms(2) of_nat_of_char [of c, where ?'a = int] by (auto simp: ascii_name_def list_all_iff)
  then have "0 \<notin> set (ucs name)" by (force simp: ucs_def)
  then have "strip_nul (ucs name @ replicate k 0) = ucs name" for k
    by (cases k) (simp_all add: strip_nul_plain strip_nul_none)
  moreover have "strip_nul (utf8_decode (byte_slice 345 500 h)) = []"
    unfolding h(3) using strip_nul_plain [of "[]" 154] by (subst utf8_plain) (simp_all add: numeral_eq_Suc flip: replicate_Suc)
  moreover have "parseTarOctal sz = Inr n" by (rule octalField_Inr(2) [OF sz])
  ultimately show "tar_entry h = Inr (ucs name, n)"
    using cs h(4,5,6) safe(1) by (simp add: tar_entry_def Let_def unsafe_text_ucs)
qed

lemma written_layout:
  assumes "list_all2 (\<lambda>name chunk. tar_chunks entries name = Inr chunk) names chunks" and "list_all ascii_name names"
  shows "tar_layout (concat chunks @ replicate 1024 0) (map (\<lambda>name. (ucs name, the (the (map_of entries name)))) names)"
  using assms
proof (induction rule: list_all2_induct)
  case Nil
  show ?case using tar_end by simp
next
  case (Cons name names chunk chunks)
  from Cons(1) obtain content h where entry: "map_of entries name = Some (Some content)"
    and header: "tarHeader name (length content) = Inr h"
    and chunk: "chunk = h @ content @ replicate (block_padding (length content)) 0"
    by (auto simp: tar_chunks_def bindE_Inr_iff split: option.splits)
  have "ascii_name name" using Cons.prems by simp
  note h = written_header [OF header this]
  note spec = h(3) [unfolded tar_entry_iff [OF h(1)]]
  show ?case
    using tar_file [OF h(1,2) spec, of "replicate (block_padding (length content)) 0"] Cons.IH Cons.prems by (simp add: entry chunk)
qed

lemma created_archive_parses:
  assumes "gzip_law z" and "createTarGz z entries = Inr archive"
    and "distinct (map fst entries)" and "list_all (\<lambda>e. ascii_name (fst e)) entries"
  shows "parseTarGz z archive =
    Inr (map (\<lambda>name. (ucs name, the (the (map_of entries name)))) (sort (map fst entries)))"
proof -
  let ?names = "sort (map fst entries)"
  from assms(2) obtain chunks where chunks: "list_all2 (\<lambda>name chunk. tar_chunks entries name = Inr chunk) ?names chunks"
    and archive: "archive = deterministicGzip z (concat chunks @ replicate 1024 0)"
    by (auto simp: createTarGz_def tar_stream_def bindE_Inr_iff mapE_Inr_iff)
  have "zl_gunzip z archive = Some (concat chunks @ replicate 1024 0)"
    using assms(1) unfolding archive deterministicGzip_def gzip_law_def crc32_rfc by blast
  moreover have "list_all ascii_name ?names" using assms(4) by (auto simp: list_all_iff)
  moreover have "distinct (map ucs ?names)"
    using assms(3) inj_on_subset [OF inj_ucs] by (simp add: distinct_map)
  ultimately show ?thesis using written_layout [OF chunks] by (auto simp: parseTarGz_layout comp_def)
qed

text \<open>
  Property C16. What \<open>createTarGz\<close> writes, \<open>parseTarGz\<close> reads: for entries with ASCII names an archive
  is parsed to the same contents under the same names, sorted by name, and the order in which
  the entries were given leaves no trace. The code's CRC-32 is the one RFC 1952 asks for.
\<close>

theorem archive_round_trip:
  assumes "gzip_law z" and "createTarGz z entries = Inr archive"
    and "distinct (map fst entries)" and "list_all (\<lambda>e. ascii_name (fst e)) entries"
  shows "parseTarGz z archive =
    Inr (map (\<lambda>name. (ucs name, the (the (map_of entries name)))) (sort (map fst entries)))"
  by (rule created_archive_parses [OF assms])

text \<open>A pair of functions with the law, which stores the bytes as they are.\<close>

definition stored_zlib :: zlib where
  "stored_zlib = \<lparr>zl_deflate_raw = (\<lambda>bytes. bytes), zl_gunzip = (\<lambda>bytes. Some (take (length bytes - 18) (drop 10 bytes)))\<rparr>"

lemma stored_zlib_law: "gzip_law stored_zlib"
  by (simp add: gzip_law_def stored_zlib_def GZIP_HEADER_def write_u32_le_def)

definition sample_entries :: "(string \<times> byte list option) list" where
  "sample_entries = [(''lib/a'', Some [1, 2, 3]), (''LICENSE'', Some [])]"

lemma octalField_fits: "n < 8 ^ k \<Longrightarrow> 0 < k \<Longrightarrow> \<exists>f. octalField n (Suc k) = Inr f"
  using octalField_ok by blast

lemma sum_bytes_bound: "sum_list (map unat (h :: byte list)) \<le> 255 * length h"
proof (induction h)
  case (Cons b h)
  then show ?case using unat_byte [of b] by simp
qed simp

lemma octalField_12: "octalField n 12 = Inr f \<Longrightarrow> n < 8 ^ 11"
  using octalField_ok [of n 11] by auto

lemma length_put_512: "length t = 512 \<Longrightarrow> offset + length s \<le> 512 \<Longrightarrow> length (put_bytes t offset s) = 512"
  by (simp add: length_put)

lemma tarHeader_exists:
  "(\<exists>h. tarHeader path n = Inr h) \<longleftrightarrow> \<not> unsafe_path (JStr path) \<and> length path \<le> 100 \<and> n < 8 ^ 11"
proof
  assume "\<exists>h. tarHeader path n = Inr h"
  then obtain h where h: "tarHeader path n = Inr h" ..
  then obtain sz where "\<not> unsafe_path (JStr path)" "length path \<le> 100" "octalField n 12 = Inr sz" by (rule tarHeader_Inr)
  then show "\<not> unsafe_path (JStr path) \<and> length path \<le> 100 \<and> n < 8 ^ 11" using octalField_12 by blast
next
  assume ok: "\<not> unsafe_path (JStr path) \<and> length path \<le> 100 \<and> n < 8 ^ 11"
  obtain mode z sz mt where f: "octalField 420 8 = Inr mode" "octalField 0 8 = Inr z" "octalField n 12 = Inr sz" "octalField 0 12 = Inr mt"
    using octalField_fits [of 420 7] octalField_fits [of 0 7] octalField_fits [of n 11] octalField_fits [of 0 11] ok by auto
  note len = f [THEN octalField_Inr(1)]
  have sum: "\<exists>f. octalField (sum_list (map unat h)) 8 = Inr f" if "length h = 512" for h :: "byte list"
    using octalField_fits [of "sum_list (map unat h)" 7] sum_bytes_bound [of h] that by simp
  let ?h = "put_bytes (put_bytes (put_bytes (put_bytes (put_bytes (put_bytes (put_bytes (put_bytes (put_bytes
        (put_bytes (put_bytes (put_bytes (put_bytes (put_bytes (replicate 512 0) 0 (ascii_bytes path)) 100 mode) 108 z) 116 z)
        124 sz) 136 mt) 148 (ascii_bytes ''        '')) 156 (ascii_bytes ''0'')) 257 (ascii_bytes (''ustar'' @ [CHR 0x00])))
        263 (ascii_bytes ''00'')) 265 (ascii_bytes ''root'')) 297 (ascii_bytes ''root'')) 329 z) 337 z"
  have "length ?h = 512" using ok by (intro length_put_512) (simp_all add: len)
  from sum [OF this] obtain cs where "octalField (sum_list (map unat ?h)) 8 = Inr cs" ..
  then show "\<exists>h. tarHeader path n = Inr h"
    using ok f by (simp add: tarHeader_def header_write_def Let_def)
qed

text \<open>What an entry must be to be archived.\<close>

definition archivable :: "string \<times> byte list option \<Rightarrow> bool" where
  "archivable e = (case e of (name, content) \<Rightarrow>
     \<not> unsafe_path (JStr name) \<and> length name \<le> 100 \<and>
     (case content of None \<Rightarrow> False | Some bytes \<Rightarrow> length bytes < 8 ^ 11))"

lemma tar_chunks_exist:
  assumes "distinct (map fst entries)" and "(name, content) \<in> set entries"
  shows "(\<exists>chunk. tar_chunks entries name = Inr chunk) \<longleftrightarrow> archivable (name, content)"
proof -
  have "map_of entries name = Some content" using assms by simp
  then show ?thesis
    using tarHeader_exists [of name] by (cases content) (auto simp: tar_chunks_def archivable_def bindE_Inr_iff)
qed

lemma archive_exists:
  assumes "distinct (map fst entries)"
  shows "(\<exists>archive. createTarGz z entries = Inr archive) \<longleftrightarrow> list_all archivable entries"
proof -
  have "(\<exists>archive. createTarGz z entries = Inr archive) \<longleftrightarrow> (\<forall>name \<in> fst ` set entries. \<exists>chunk. tar_chunks entries name = Inr chunk)"
    using mapE_exists [of "tar_chunks entries" "sort (map fst entries)"]
    by (auto simp: createTarGz_def tar_stream_def bindE_Inr_iff list_all_iff)
  also have "\<dots> \<longleftrightarrow> list_all archivable entries"
    using tar_chunks_exist [OF assms] by (fastforce simp: list_all_iff)
  finally show ?thesis .
qed

text \<open>
  An archive is created exactly when every entry is a Buffer of less than 8 GiB
  under a safe relative path of at most 100 characters: the checksum and the other numbers of a
  header always fit their fields.
\<close>

lemma createTarGz_exists:
  assumes "distinct (map fst entries)"
  shows "(\<exists>archive. createTarGz z entries = Inr archive) \<longleftrightarrow> list_all archivable entries"
  by (rule archive_exists [OF assms])

lemma createTarGz_exists_witness:
  "(\<exists>archive. createTarGz stored_zlib sample_entries = Inr archive) = list_all archivable sample_entries"
  by (rule createTarGz_exists) (simp add: sample_entries_def)

lemma safe_sample: "\<not> unsafe_path (JStr ''lib/a'')" "\<not> unsafe_path (JStr ''LICENSE'')"
  by code_simp+

theorem archive_round_trip_witness:
  "case createTarGz stored_zlib sample_entries of
     Inl _ \<Rightarrow> False
   | Inr archive \<Rightarrow> parseTarGz stored_zlib archive = Inr [(ucs ''LICENSE'', []), (ucs ''lib/a'', [1, 2, 3])]"
proof -
  have "\<exists>archive. createTarGz stored_zlib sample_entries = Inr archive"
    using archive_exists [of sample_entries] by (simp add: sample_entries_def archivable_def safe_sample)
  moreover have "sort (map fst sample_entries) = [''LICENSE'', ''lib/a'']" by (simp add: sample_entries_def)
  ultimately show ?thesis
    using archive_round_trip [OF stored_zlib_law, of sample_entries] by (auto simp: sample_entries_def ascii_name_def)
qed

end
