(* ===== verification/CAbiEvidence.thy ===== *)
theory CAbiEvidence
  imports CAbiArchive RnTargets JsonText ReleaseIdentity
begin

text \<open>
  The evidence of one target of the C ABI release: \<open>c-abi-targets.mjs\<close>, and from
  \<open>c-abi-release.mjs\<close> the version gate, the glibc boundary, \<open>validateCommonEvidence\<close>,
  \<open>validateTargetEvidence\<close> and \<open>validateTargetEvidenceSet\<close>. The files, the digests, JSON.parse,
  zlib and the output of \<open>readelf\<close> are parameters. What a message interpolates is left out.
\<close>

section \<open>The targets\<close>

definition C_ABI_TARGET_ORDER :: "string list" where
  "C_ABI_TARGET_ORDER = [''win32-x64-msvc'', ''darwin-x64'', ''darwin-arm64'', ''linux-x64-gnu'']"

definition c_abi_target ::
  "string \<Rightarrow> string \<Rightarrow> string \<Rightarrow> string \<Rightarrow> string option \<Rightarrow> string \<Rightarrow> string \<Rightarrow> string list \<Rightarrow> string \<times> js" where
  "c_abi_target target_id rust runner platform glibc static dynamic companions =
     (target_id, JObj ([(''target_id'', JStr target_id), (''rust_target'', JStr rust), (''runner'', JStr runner),
        (''platform'', JStr platform)] @ (case glibc of None \<Rightarrow> [] | Some g \<Rightarrow> [(''glibc_baseline'', JStr g)]) @
       [(''static_library'', JStr static), (''dynamic_library'', JStr dynamic),
        (''companion_libraries'', JArr (map JStr companions))]))"

definition C_ABI_TARGETS :: "(string \<times> js) list" where
  "C_ABI_TARGETS =
     [c_abi_target ''win32-x64-msvc'' ''x86_64-pc-windows-msvc'' ''windows-2025-vs2026'' ''windows-x64-msvc'' None
        ''symbol_nem_wallet_core_native.lib'' ''symbol_nem_wallet_core_native.dll'' [''symbol_nem_wallet_core_native.dll.lib''],
      c_abi_target ''darwin-x64'' ''x86_64-apple-darwin'' ''macos-15-intel'' ''macos-x64'' None
        ''libsymbol_nem_wallet_core_native.a'' ''libsymbol_nem_wallet_core_native.dylib'' [],
      c_abi_target ''darwin-arm64'' ''aarch64-apple-darwin'' ''macos-15'' ''macos-arm64'' None
        ''libsymbol_nem_wallet_core_native.a'' ''libsymbol_nem_wallet_core_native.dylib'' [],
      c_abi_target ''linux-x64-gnu'' ''x86_64-unknown-linux-gnu'' ''ubuntu-24.04'' ''linux-x64-glibc'' (Some ''2.28'')
        ''libsymbol_nem_wallet_core_native.a'' ''libsymbol_nem_wallet_core_native.so'' []]"

text \<open>
  The table is indexed with whatever the evidence says: the key is converted to a string, and a
  name inherited from \<open>Object.prototype\<close> finds a function, an object none of whose read
  properties is defined.
\<close>

definition cAbiTarget :: "js \<Rightarrow> js res" where
  "cAbiTarget targetId = bindE (str_or_throw targetId) (\<lambda>key.
     Inr (case map_of C_ABI_TARGETS key of
         Some t \<Rightarrow> t
       | None \<Rightarrow> if key \<in> set OBJECT_PROTOTYPE_NAMES then JObj [] else JUndef))"

definition cAbiArchiveFilename :: "string \<Rightarrow> string \<Rightarrow> string" where
  "cAbiArchiveFilename version targetId = ''symbol-nem-wallet-core-c-abi-'' @ version @ ''-'' @ targetId @ ''.tar.gz''"

section \<open>The environment\<close>

record cabi_env =
  ca_script :: script_env
  ca_json :: json_parser
  ca_zlib :: zlib
  ca_readelf :: "string \<Rightarrow> process_result"

definition cabi_sha256 :: "cabi_env \<Rightarrow> byte list \<Rightarrow> js" where
  "cabi_sha256 env bytes = JStr (se_sha256 (ca_script env) bytes)"

definition cabi_read :: "cabi_env \<Rightarrow> string \<Rightarrow> byte list res" where
  "cabi_read env path = (case se_read (ca_script env) path of None \<Rightarrow> Inl (Fail ''ENOENT'') | Some bytes \<Rightarrow> Inr bytes)"

definition cabi_sha256_file :: "cabi_env \<Rightarrow> string \<Rightarrow> js res" where
  "cabi_sha256_file env path =
     (case se_read (ca_script env) path of None \<Rightarrow> Inl (cabi_fail ''unreadable'') | Some bytes \<Rightarrow> Inr (cabi_sha256 env bytes))"

definition ensureFile :: "cabi_env \<Rightarrow> string \<Rightarrow> unit res" where
  "ensureFile env path =
     (if fs_stat (se_fs (ca_script env)) path \<noteq> Some RegularFile then Inl (cabi_fail ''missing'') else Inr ())"

section \<open>Versions\<close>

definition MODE_VALUES :: "string list" where
  "MODE_VALUES = [''candidate'', ''release'']"

definition is_mode :: "js \<Rightarrow> bool" where
  "is_mode v \<longleftrightarrow> is_str v \<and> str_of v \<in> set MODE_VALUES"

definition versionGate :: "cabi_env \<Rightarrow> string \<Rightarrow> js \<Rightarrow> js \<Rightarrow> js \<Rightarrow> js res" where
  "versionGate env sourceRoot packageVersion mode releaseTag =
     (if \<not> isValidSemVer packageVersion then Inl (cabi_fail ''C ABI package version is not SemVer'')
      else if \<not> is_mode mode then Inl (cabi_fail ''unsupported release mode'')
      else
      bindE (collectReleaseVersionSources (ca_json env) sourceRoot
          (\<lambda>path. map_option (se_text (ca_script env)) (se_read (ca_script env) path))) (\<lambda>versions.
      if list_ex (\<lambda>id. \<not> strict_eq (fld (fld versions id) ''version'') packageVersion) (obj_keys versions)
      then Inl (cabi_fail ''release version mismatch'')
      else if mode = JStr ''release'' then
        (case parseSemVer packageVersion of
           None \<Rightarrow> Inl TypeErr
         | Some parsed \<Rightarrow>
             if sv_prerelease parsed \<noteq> None
             then Inl (cabi_fail ''pre-release versions are not accepted for formal release'')
             else if \<not> strict_eq releaseTag (JStr (''v'' @ str_of packageVersion))
             then Inl (cabi_fail ''release tag does not exactly match v<SemVer>'')
             else Inr versions)
      else if releaseTag \<noteq> JNull \<and> releaseTag \<noteq> JUndef
      then Inl (cabi_fail ''candidate evidence must not claim a formal release tag'')
      else Inr versions))"

text \<open>
  \<open>compareVersions\<close> on dotted decimal versions; the numbers of a version are small, so that
  their differences are exact.
\<close>

fun compare_parts :: "nat list \<Rightarrow> nat list \<Rightarrow> int" where
  "compare_parts [] [] = 0"
| "compare_parts (a # as) [] = (if a \<noteq> 0 then int a else compare_parts as [])"
| "compare_parts [] (b # bs) = (if b \<noteq> 0 then - int b else compare_parts [] bs)"
| "compare_parts (a # as) (b # bs) = (if a \<noteq> b then int a - int b else compare_parts as bs)"

definition compareVersions :: "string \<Rightarrow> string \<Rightarrow> int" where
  "compareVersions left right =
     compare_parts (map digits_val (split_on CHR ''.'' left)) (map digits_val (split_on CHR ''.'' right))"

text \<open>The matches of \<open>/GLIBC_(\d+(?:\.\d+)+)/g\<close>: their first groups, from left to right.\<close>

function dot_groups :: "string \<Rightarrow> string" where
  "dot_groups s =
     (if starts_with ''.'' s then
        let digits = takeWhile is_digit (drop 1 s) in
        if digits = [] then [] else CHR ''.'' # digits @ dot_groups (dropWhile is_digit (drop 1 s))
      else [])"
  by pat_completeness auto
termination
proof (relation "measure length", goal_cases)
  case (2 s digits)
  then obtain c r where "s = c # r" by (cases s) (auto simp: starts_with_def)
  then show ?case using length_dropWhile_le [of is_digit r] by simp
qed simp

declare dot_groups.simps [simp del]

definition version_prefix :: "string \<Rightarrow> string option" where
  "version_prefix s =
     (let digits = takeWhile is_digit s; groups = dot_groups (dropWhile is_digit s) in
      if digits = [] \<or> groups = [] then None else Some (digits @ groups))"

function glibc_versions :: "string \<Rightarrow> string list" where
  "glibc_versions [] = []"
| "glibc_versions (c # s) =
     (case (if starts_with ''GLIBC_'' (c # s) then version_prefix (drop 6 (c # s)) else None) of
        Some v \<Rightarrow> v # glibc_versions (drop (6 + length v) (c # s))
      | None \<Rightarrow> glibc_versions s)"
  by pat_completeness auto
termination by (relation "measure length") auto

definition glibcMaximum :: "cabi_env \<Rightarrow> string \<Rightarrow> string res" where
  "glibcMaximum env path =
     (case ca_readelf env path of
        Exited output \<Rightarrow>
          (case glibc_versions output of
             [] \<Rightarrow> Inl (cabi_fail ''Linux C ABI dynamic library has no GLIBC symbol evidence'')
           | v # vs \<Rightarrow> Inr (foldl (\<lambda>greatest version. if compareVersions version greatest > 0 then version else greatest) v vs))
      | _ \<Rightarrow> Inl (cabi_fail ''Linux C ABI glibc symbol evidence is unavailable''))"

section \<open>The evidence of a target\<close>

definition COMMON_EVIDENCE_KEYS :: "string list" where
  "COMMON_EVIDENCE_KEYS =
     [''schema_version'', ''artifact_kind'', ''project_name'', ''package_name'', ''npm_package_name'', ''package_version'',
      ''mode'', ''release_tag'', ''source_commit'', ''target_id'', ''rust_target'', ''runner'', ''platform'',
      ''toolchain_identifier'', ''build_mode'', ''cargo_lock_sha256'', ''header'', ''license'', ''static_library'',
      ''dynamic_library'', ''companion_libraries'']"

definition GLIBC_KEYS :: "string list" where
  "GLIBC_KEYS = [''glibc_baseline'', ''max_required_glibc_symbol'']"

definition HEADER_FILENAME :: string where "HEADER_FILENAME = ''symbol_nem_wallet_core.h''"
definition LICENSE_FILENAME :: string where "LICENSE_FILENAME = ''LICENSE''"
definition PROJECT_COPYRIGHT_NOTICE :: string where "PROJECT_COPYRIGHT_NOTICE = ''Copyright (c) 2026 ccHarvestasya''"
definition METADATA_PATH :: string where "METADATA_PATH = ''metadata/c-abi-artifact.json''"

definition evidence_identity_ok :: "js \<Rightarrow> bool" where
  "evidence_identity_ok e \<longleftrightarrow>
     fld e ''schema_version'' = JInt 1 \<and> fld e ''artifact_kind'' = JStr ''c-abi-artifact'' \<and>
     fld e ''project_name'' = JStr ''symbol-nem-wallet-core'' \<and> fld e ''package_name'' = JStr ''symbol-nem-wallet-core-native'' \<and>
     fld e ''npm_package_name'' = JStr NPM_PACKAGE_NAME \<and> isValidSemVer (fld e ''package_version'') \<and> is_mode (fld e ''mode'') \<and>
     \<not> (fld e ''mode'' = JStr ''release'' \<and> fld e ''release_tag'' \<noteq> JStr (''v'' @ str_of (fld e ''package_version''))) \<and>
     \<not> (fld e ''mode'' = JStr ''candidate'' \<and> fld e ''release_tag'' \<noteq> JNull) \<and>
     isValidCommit (fld e ''source_commit'') \<and> fld e ''build_mode'' = JStr ''release'' \<and>
     is_str (fld e ''toolchain_identifier'') \<and> str_of (fld e ''toolchain_identifier'') \<noteq> []"

text \<open>\<open>fileRecord(value, expectedFilename, label)\<close>.\<close>

definition file_record_checks :: "js \<Rightarrow> js \<Rightarrow> (bool \<times> string) list" where
  "file_record_checks value filename =
     [(isPlainObject value, ''not an object''), (exactKeys value [''filename'', ''sha256''], ''unexpected or missing fields''),
      (strict_eq (fld value ''filename'') filename, ''filename is invalid''), (is_hash (fld value ''sha256''), ''hash'')]"

text \<open>
  The loop over the companion libraries; \<open>companion.filename\<close> is compared with itself there, so
  only the other checks of \<open>fileRecord\<close> can fail.
\<close>

fun companion_loop :: "js \<Rightarrow> js list \<Rightarrow> js list \<Rightarrow> unit res" where
  "companion_loop target seen [] = Inr ()"
| "companion_loop target seen (c # cs) =
     (if nullish c then Inl TypeErr
      else bindE (gate_checks cabi_fail
        [(isPlainObject c, ''not an object''), (exactKeys c [''filename'', ''sha256''], ''unexpected or missing fields''),
         (is_hash (fld c ''sha256''), ''hash''),
         (list_ex (strict_eq (fld c ''filename'')) (elems (fld target ''companion_libraries'')) \<and> fld c ''filename'' \<notin> set seen,
          ''C ABI companion library is unexpected or duplicated'')]) (\<lambda>_.
      companion_loop target (fld c ''filename'' # seen) cs))"

text \<open>\<open>/^\d+\.\d+$/\<close>.\<close>

definition glibc_pattern :: "string \<Rightarrow> bool" where
  "glibc_pattern s \<longleftrightarrow> (case split_on CHR ''.'' s of
     [a, b] \<Rightarrow> a \<noteq> [] \<and> b \<noteq> [] \<and> list_all is_digit a \<and> list_all is_digit b | _ \<Rightarrow> False)"

definition glibc_check :: "js \<Rightarrow> js \<Rightarrow> unit res" where
  "glibc_check evidence target =
     (let baseline = fld target ''glibc_baseline''; required = fld evidence ''max_required_glibc_symbol'' in
      if baseline = JUndef then Inr ()
      else if \<not> strict_eq (fld evidence ''glibc_baseline'') baseline then Inl (cabi_fail ''Linux glibc evidence is invalid'')
      else bindE (str_or_throw required) (\<lambda>s.
        if \<not> glibc_pattern s then Inl (cabi_fail ''Linux glibc evidence is invalid'')
        else if \<not> is_str required then Inl TypeErr
        else if compareVersions s (str_of baseline) > 0
        then Inl (cabi_fail ''Linux C ABI dynamic library exceeds the glibc 2.28 boundary'')
        else Inr ()))"

definition validateCommonEvidence :: "js \<Rightarrow> js res" where
  "validateCommonEvidence evidence =
     bindE (cAbiTarget (fld evidence ''target_id'')) (\<lambda>target.
     bindE (gate_checks cabi_fail
       [(isPlainObject evidence, ''C ABI artifact evidence is not an object''),
        (exactKeys evidence (COMMON_EVIDENCE_KEYS @ [''archive''] @
           (if fld target ''glibc_baseline'' \<noteq> JUndef then GLIBC_KEYS else [])),
         ''C ABI artifact evidence has unexpected or missing fields''),
        (evidence_identity_ok evidence, ''C ABI artifact evidence identity is invalid''),
        (is_hash (fld evidence ''cargo_lock_sha256''), ''C ABI Cargo.lock identity is not a SHA-256 digest''),
        (target \<noteq> JUndef \<and> strict_eq (fld evidence ''rust_target'') (fld target ''rust_target'') \<and>
           strict_eq (fld evidence ''runner'') (fld target ''runner'') \<and>
           strict_eq (fld evidence ''platform'') (fld target ''platform''),
         ''C ABI target mapping is invalid'')]) (\<lambda>_.
     bindE (gate_checks cabi_fail
       (file_record_checks (fld evidence ''header'') (JStr HEADER_FILENAME) @
        file_record_checks (fld evidence ''license'') (JStr LICENSE_FILENAME) @
        file_record_checks (fld evidence ''static_library'') (fld target ''static_library'') @
        file_record_checks (fld evidence ''dynamic_library'') (fld target ''dynamic_library''))) (\<lambda>_.
     bindE (str_or_throw (fld evidence ''target_id'')) (\<lambda>targetId.
     bindE (gate_checks cabi_fail
       (file_record_checks (fld evidence ''archive'')
          (JStr (cAbiArchiveFilename (str_of (fld evidence ''package_version'')) targetId)))) (\<lambda>_.
     let companions = fld evidence ''companion_libraries'' in
     if fld target ''companion_libraries'' = JUndef \<and> is_arr companions then Inl TypeErr
     else if \<not> is_arr companions \<or> length (elems companions) \<noteq> length (elems (fld target ''companion_libraries''))
     then Inl (cabi_fail ''C ABI companion library evidence is incomplete'')
     else
     bindE (companion_loop target [] (elems companions)) (\<lambda>_.
     bindE (glibc_check evidence target) (\<lambda>_. Inr target)))))))"

section \<open>The archive of a target\<close>

fun has_infix :: "'a list \<Rightarrow> 'a list \<Rightarrow> bool" where
  "has_infix p [] = (p = [])"
| "has_infix p (x # xs) = (take (length p) (x # xs) = p \<or> has_infix p xs)"

definition validateProjectLicense :: "byte list \<Rightarrow> unit res" where
  "validateProjectLicense license =
     (if \<not> has_infix (ucs PROJECT_COPYRIGHT_NOTICE) (utf8_decode license)
      then Inl (cabi_fail ''invalid project copyright year'') else Inr ())"

text \<open>The names of the archive with the digests of their contents; the metadata have none.\<close>

definition expected_hashes :: "js \<Rightarrow> js \<Rightarrow> (string \<times> js) list" where
  "expected_hashes evidence target =
     [(''include/'' @ HEADER_FILENAME, fld (fld evidence ''header'') ''sha256''),
      (''lib/static/'' @ str_of (fld target ''static_library''), fld (fld evidence ''static_library'') ''sha256''),
      (''lib/dynamic/'' @ str_of (fld target ''dynamic_library''), fld (fld evidence ''dynamic_library'') ''sha256'')] @
     map (\<lambda>c. (''lib/dynamic/'' @ str_of (fld c ''filename''), fld c ''sha256'')) (elems (fld evidence ''companion_libraries'')) @
     [(LICENSE_FILENAME, fld (fld evidence ''license'') ''sha256'')]"

definition expected_names :: "js \<Rightarrow> string list" where
  "expected_names target =
     [''include/'' @ HEADER_FILENAME, ''lib/static/'' @ str_of (fld target ''static_library''),
      ''lib/dynamic/'' @ str_of (fld target ''dynamic_library'')] @
     map (\<lambda>c. ''lib/dynamic/'' @ str_of c) (elems (fld target ''companion_libraries'')) @ [LICENSE_FILENAME, METADATA_PATH]"

fun hashes_loop :: "cabi_env \<Rightarrow> (int list \<times> byte list) list \<Rightarrow> (string \<times> js) list \<Rightarrow> unit res" where
  "hashes_loop env entries [] = Inr ()"
| "hashes_loop env entries ((name, h) # hs) =
     (case map_of entries (ucs name) of
        None \<Rightarrow> Inl TypeErr
      | Some bytes \<Rightarrow>
          if \<not> strict_eq (cabi_sha256 env bytes) h then Inl (cabi_fail ''C ABI archive entry hash mismatch'')
          else hashes_loop env entries hs)"

text \<open>An entry that is read by its name; without one, the code works on undefined and throws.\<close>

definition archive_entry :: "(int list \<times> byte list) list \<Rightarrow> string \<Rightarrow> byte list res" where
  "archive_entry entries name = (case map_of entries (ucs name) of None \<Rightarrow> Inl TypeErr | Some bytes \<Rightarrow> Inr bytes)"

definition readJsonFromBytes :: "cabi_env \<Rightarrow> byte list \<Rightarrow> js res" where
  "readJsonFromBytes env bytes = (case se_parse (ca_script env) bytes of None \<Rightarrow> Inl (cabi_fail ''malformed'') | Some v \<Rightarrow> Inr v)"

definition archive_contents :: "cabi_env \<Rightarrow> js \<Rightarrow> js \<Rightarrow> (int list \<times> byte list) list \<Rightarrow> unit res" where
  "archive_contents env evidence target entries =
     bindE (gate_checks cabi_fail
       [(length entries = card (set (expected_names target)) \<and> list_all (\<lambda>e. fst e \<in> ucs ` set (expected_names target)) entries,
         ''C ABI archive inventory is not exact'')]) (\<lambda>_.
     bindE (hashes_loop env entries (expected_hashes evidence target)) (\<lambda>_.
     bindE (archive_entry entries LICENSE_FILENAME) (\<lambda>license.
     bindE (validateProjectLicense license) (\<lambda>_.
     bindE (archive_entry entries METADATA_PATH) (\<lambda>bytes.
     bindE (readJsonFromBytes env bytes) (\<lambda>metadata.
     gate_checks cabi_fail
       [(isPlainObject metadata, ''C ABI archive metadata is not an object''),
        (exactKeys metadata (COMMON_EVIDENCE_KEYS @ (if fld target ''glibc_baseline'' = JUndef then [] else GLIBC_KEYS) @ [''archive'']),
         ''C ABI archive metadata has unexpected or missing fields''),
        (json_same metadata (js_spread evidence ''archive''
           (JObj [(''filename'', fld (fld evidence ''archive'') ''filename'')])),
         ''C ABI archive metadata identity mismatch'')]))))))"

definition validateTargetEvidence :: "cabi_env \<Rightarrow> js \<Rightarrow> string \<Rightarrow> string \<Rightarrow> bool \<Rightarrow> js res" where
  "validateTargetEvidence env evidence archivePath sourceRoot verifyVersionSources =
     bindE (validateCommonEvidence evidence) (\<lambda>target.
     bindE (if verifyVersionSources
            then versionGate env sourceRoot (fld evidence ''package_version'') (fld evidence ''mode'') (fld evidence ''release_tag'')
            else Inr JUndef) (\<lambda>_.
     bindE (ensureFile env archivePath) (\<lambda>_.
     let archive = fld evidence ''archive'' in
     bindE (gate_checks cabi_fail
       [(strict_eq (JStr (posix_basename archivePath)) (fld archive ''filename''), ''C ABI archive filename is not canonical''),
        (is_hash (fld archive ''sha256''), ''C ABI archive evidence is not a SHA-256 digest'')]) (\<lambda>_.
     bindE (cabi_sha256_file env archivePath) (\<lambda>h.
     if \<not> strict_eq h (fld archive ''sha256'') then Inl (cabi_fail ''C ABI archive hash mismatch'')
     else
     bindE (cabi_read env archivePath) (\<lambda>bytes.
     bindE (parseTarGz (ca_zlib env) bytes) (\<lambda>entries.
     bindE (archive_contents env evidence target entries) (\<lambda>_. Inr evidence))))))))"

section \<open>The evidence of all targets\<close>

record target_output =
  to_evidence :: js
  to_archivePath :: string

fun target_set_loop :: "cabi_env \<Rightarrow> string \<Rightarrow> js \<Rightarrow> js \<Rightarrow> js \<Rightarrow> js \<Rightarrow> js list \<Rightarrow> target_output list \<Rightarrow> js list res" where
  "target_set_loop env root version commit mode tag seen [] = Inr seen"
| "target_set_loop env root version commit mode tag seen (x # xs) =
     (let evidence = to_evidence x; targetId = fld evidence ''target_id'' in
      if nullish evidence then Inl TypeErr
      else
      bindE (gate_checks cabi_fail
        [(\<not> list_ex (strict_eq targetId) seen, ''duplicate C ABI target''),
         (list_ex (strict_eq targetId) (map JStr C_ABI_TARGET_ORDER), ''unexpected C ABI target'')]) (\<lambda>_.
      bindE (validateTargetEvidence env evidence (to_archivePath x) root False) (\<lambda>_.
      bindE (gate_checks cabi_fail
        [(strict_eq (fld evidence ''package_version'') version \<and> strict_eq (fld evidence ''source_commit'') commit \<and>
          strict_eq (fld evidence ''mode'') mode \<and> strict_eq (fld evidence ''release_tag'') tag,
          ''C ABI target evidence identity differs across targets'')]) (\<lambda>_.
      target_set_loop env root version commit mode tag (targetId # seen) xs))))"

definition validateTargetEvidenceSet ::
  "cabi_env \<Rightarrow> string \<Rightarrow> js \<Rightarrow> js \<Rightarrow> js \<Rightarrow> js \<Rightarrow> target_output list \<Rightarrow> target_output list res" where
  "validateTargetEvidenceSet env root version commit mode tag entries =
     (if length entries \<noteq> length C_ABI_TARGET_ORDER
      then Inl (cabi_fail ''C ABI target set is incomplete or contains unexpected targets'')
      else
      bindE (target_set_loop env root version commit mode tag [] entries) (\<lambda>seen.
      if list_ex (\<lambda>t. \<not> list_ex (strict_eq (JStr t)) seen) C_ABI_TARGET_ORDER then Inl (cabi_fail ''missing C ABI target'')
      else
      bindE (if version = JUndef then Inr JUndef else versionGate env root version mode tag) (\<lambda>_. Inr entries)))"

section \<open>What is accepted\<close>

lemma gate_checks_append: "gate_checks fail (xs @ ys) = bindE (gate_checks fail xs) (\<lambda>_. gate_checks fail ys)"
  by (induction fail xs rule: gate_checks.induct) (auto simp: gate_checks.simps)

text \<open>The shape of a table entry.\<close>

definition table_entry_ok :: "string \<Rightarrow> js \<Rightarrow> bool" where
  "table_entry_ok key t \<longleftrightarrow> key \<in> set C_ABI_TARGET_ORDER \<and> isPlainObject t \<and> fld t ''target_id'' = JStr key \<and>
     is_str (fld t ''rust_target'') \<and> is_str (fld t ''runner'') \<and> is_str (fld t ''platform'') \<and>
     is_str (fld t ''static_library'') \<and> is_str (fld t ''dynamic_library'') \<and> is_arr (fld t ''companion_libraries'') \<and>
     list_all is_str (elems (fld t ''companion_libraries'')) \<and> distinct (elems (fld t ''companion_libraries'')) \<and>
     (fld t ''glibc_baseline'' = JUndef \<or> fld t ''glibc_baseline'' = JStr ''2.28'') \<and> distinct (expected_names t) \<and>
     list_all (\<lambda>n. ascii_name n \<and> \<not> unsafe_path (JStr n) \<and> length n \<le> 100) (expected_names t)"

lemma table_entries_ok: "list_all (\<lambda>(key, t). table_entry_ok key t) C_ABI_TARGETS"
  by code_simp

lemma table_lookup: "map_of C_ABI_TARGETS key = Some t \<Longrightarrow> table_entry_ok key t"
  using table_entries_ok by (auto simp: list_all_iff dest!: map_of_SomeD)

lemma cAbiTarget_Inr:
  "cAbiTarget v = Inr t \<longleftrightarrow> (\<exists>key. to_str v = Some key \<and>
     t = (case map_of C_ABI_TARGETS key of Some x \<Rightarrow> x | None \<Rightarrow> if key \<in> set OBJECT_PROTOTYPE_NAMES then JObj [] else JUndef))"
  by (auto simp: cAbiTarget_def bindE_Inr_iff str_or_throw_def split: option.splits)

text \<open>Accepted evidence names a target of the table: an inherited name has no list of companions.\<close>

lemma evidence_target:
  assumes "validateCommonEvidence evidence = Inr target"
  obtains key where "to_str (fld evidence ''target_id'') = Some key" "map_of C_ABI_TARGETS key = Some target"
  using assms that by (auto simp: validateCommonEvidence_def bindE_Inr_iff cAbiTarget_Inr gate_checks_iff Let_def
      split: option.splits if_splits)

lemma validateCommonEvidence_Inr:
  assumes "validateCommonEvidence evidence = Inr target"
  shows "isPlainObject evidence" "evidence_identity_ok evidence"
    "strict_eq (fld evidence ''rust_target'') (fld target ''rust_target'')" "strict_eq (fld evidence ''runner'') (fld target ''runner'')"
    "strict_eq (fld evidence ''platform'') (fld target ''platform'')" "is_hash (fld evidence ''cargo_lock_sha256'')"
    "cAbiTarget (fld evidence ''target_id'') = Inr target" "target \<noteq> JUndef"
  using assms by (auto simp: validateCommonEvidence_def bindE_Inr_iff gate_checks_iff Let_def split: if_splits)

lemma hashes_loop_Inr:
  "hashes_loop env entries hs = Inr u \<longleftrightarrow>
     list_all (\<lambda>(name, h). \<exists>content. map_of entries (ucs name) = Some content \<and> h = cabi_sha256 env content) hs"
  by (induction env entries hs rule: hashes_loop.induct)
    (auto simp: cabi_sha256_def split: option.splits)

lemma parsed_distinct: "parseTarGz z bytes = Inr entries \<Longrightarrow> distinct (map fst entries)"
  by (auto simp: parseTarGz_layout)

text \<open>
  What an accepted archive holds: exactly the files of its target, each with the digest the
  evidence gives, the project's license with its notice, and the evidence itself.
\<close>

definition archive_matches :: "cabi_env \<Rightarrow> js \<Rightarrow> js \<Rightarrow> (int list \<times> byte list) list \<Rightarrow> bool" where
  "archive_matches env evidence target entries \<longleftrightarrow>
     distinct (map fst entries) \<and> set (map fst entries) = ucs ` set (expected_names target) \<and>
     list_all (\<lambda>(name, h). \<exists>content. map_of entries (ucs name) = Some content \<and> h = cabi_sha256 env content)
       (expected_hashes evidence target) \<and>
     (\<exists>license. map_of entries (ucs LICENSE_FILENAME) = Some license \<and>
       has_infix (ucs PROJECT_COPYRIGHT_NOTICE) (utf8_decode license)) \<and>
     (\<exists>bytes metadata. map_of entries (ucs METADATA_PATH) = Some bytes \<and> se_parse (ca_script env) bytes = Some metadata \<and>
       json_same metadata (js_spread evidence ''archive'' (JObj [(''filename'', fld (fld evidence ''archive'') ''filename'')])))"

lemma card_expected: "card (ucs ` set (expected_names target)) = card (set (expected_names target))"
  by (rule card_image) (rule inj_on_subset [OF inj_ucs], simp)

lemma archive_contents_Inr:
  assumes "archive_contents env evidence target entries = Inr u" and "distinct (map fst entries)"
    and "distinct (expected_names target)"
  shows "archive_matches env evidence target entries"
proof -
  from assms(1) have len: "length entries = card (set (expected_names target))"
    and sub: "set (map fst entries) \<subseteq> ucs ` set (expected_names target)"
    by (auto simp: archive_contents_def bindE_Inr_iff gate_checks_iff list_all_iff)
  have "card (set (map fst entries)) = card (ucs ` set (expected_names target))"
    using len distinct_card [OF assms(2)] card_expected [of target] by simp
  then have names: "set (map fst entries) = ucs ` set (expected_names target)"
    by (intro card_subset_eq sub finite_imageI) simp_all
  then show ?thesis
    using assms(1,2)
    by (auto simp: archive_matches_def archive_contents_def archive_entry_def readJsonFromBytes_def validateProjectLicense_def
        bindE_Inr_iff gate_checks_iff hashes_loop_Inr split: option.splits if_splits)
qed

lemma validateTargetEvidence_Inr:
  assumes "validateTargetEvidence env evidence archivePath root verify = Inr e"
  obtains key target bytes entries where "e = evidence" "validateCommonEvidence evidence = Inr target"
    "to_str (fld evidence ''target_id'') = Some key" "map_of C_ABI_TARGETS key = Some target"
    "se_read (ca_script env) archivePath = Some bytes" "fld (fld evidence ''archive'') ''sha256'' = cabi_sha256 env bytes"
    "parseTarGz (ca_zlib env) bytes = Inr entries" "archive_matches env evidence target entries"
proof -
  from assms obtain target bytes entries u where e: "e = evidence" and target: "validateCommonEvidence evidence = Inr target"
    and disk: "se_read (ca_script env) archivePath = Some bytes" "strict_eq (cabi_sha256 env bytes) (fld (fld evidence ''archive'') ''sha256'')"
    and entries: "parseTarGz (ca_zlib env) bytes = Inr entries" "archive_contents env evidence target entries = Inr u"
    by (auto simp: validateTargetEvidence_def bindE_Inr_iff Let_def cabi_sha256_file_def cabi_read_def split: option.splits if_splits)
  obtain key where key: "to_str (fld evidence ''target_id'') = Some key" "map_of C_ABI_TARGETS key = Some target"
    using target by (rule evidence_target)
  have "distinct (expected_names target)" using table_lookup [OF key(2)] by (simp add: table_entry_ok_def)
  then have "archive_matches env evidence target entries"
    by (rule archive_contents_Inr [OF entries(2) parsed_distinct [OF entries(1)]])
  moreover have "fld (fld evidence ''archive'') ''sha256'' = cabi_sha256 env bytes" using strict_eq_imp_eq [OF disk(2)] by simp
  ultimately show ?thesis using that e target key disk(1) entries(1) by blast
qed

text \<open>
  Evidence of a C ABI target is accepted only when it names a target of the table with
  its Rust target, runner and platform, the archive beside it has the digest it records, and the
  archive holds exactly the files of that target: each with the recorded digest, the license with
  the project's notice, and the evidence itself as metadata.
\<close>

lemma validateTargetEvidence_sound:
  "case validateTargetEvidence env evidence archivePath root verify of
     Inl _ \<Rightarrow> True
   | Inr e \<Rightarrow> e = evidence \<and> evidence_identity_ok evidence \<and>
       (\<exists>key target bytes entries.
         to_str (fld evidence ''target_id'') = Some key \<and> map_of C_ABI_TARGETS key = Some target \<and>
         fld evidence ''rust_target'' = fld target ''rust_target'' \<and> fld evidence ''runner'' = fld target ''runner'' \<and>
         fld evidence ''platform'' = fld target ''platform'' \<and>
         se_read (ca_script env) archivePath = Some bytes \<and>
         fld (fld evidence ''archive'') ''sha256'' = cabi_sha256 env bytes \<and>
         parseTarGz (ca_zlib env) bytes = Inr entries \<and> archive_matches env evidence target entries)"
proof (cases "validateTargetEvidence env evidence archivePath root verify")
  case (Inr e)
  then obtain key target bytes entries where r: "e = evidence" "validateCommonEvidence evidence = Inr target"
    "to_str (fld evidence ''target_id'') = Some key" "map_of C_ABI_TARGETS key = Some target"
    "se_read (ca_script env) archivePath = Some bytes" "fld (fld evidence ''archive'') ''sha256'' = cabi_sha256 env bytes"
    "parseTarGz (ca_zlib env) bytes = Inr entries" "archive_matches env evidence target entries"
    by (rule validateTargetEvidence_Inr)
  note common = validateCommonEvidence_Inr [OF r(2)]
  show ?thesis using r common(2) common(3,4,5) [THEN strict_eq_imp_eq] by (auto simp: Inr)
qed simp

lemma target_set_loop_Inr:
  "target_set_loop env root version commit mode tag seen xs = Inr out \<Longrightarrow>
   out = rev (map (\<lambda>x. fld (to_evidence x) ''target_id'') xs) @ seen \<and>
   list_all (\<lambda>x. fld (to_evidence x) ''target_id'' \<in> JStr ` set C_ABI_TARGET_ORDER) xs \<and>
   (distinct seen \<longrightarrow> set seen \<subseteq> range JStr \<longrightarrow> distinct out) \<and>
   list_all (\<lambda>x. validateTargetEvidence env (to_evidence x) (to_archivePath x) root False = Inr (to_evidence x) \<and>
     fld (to_evidence x) ''package_version'' = version \<and> fld (to_evidence x) ''source_commit'' = commit \<and>
     fld (to_evidence x) ''mode'' = mode \<and> fld (to_evidence x) ''release_tag'' = tag) xs"
proof (induction xs arbitrary: seen)
  case (Cons x xs)
  let ?id = "fld (to_evidence x) ''target_id''"
  from Cons.prems have fresh: "\<not> list_ex (strict_eq ?id) seen" and known: "list_ex (strict_eq ?id) (map JStr C_ABI_TARGET_ORDER)"
    and valid: "\<exists>e. validateTargetEvidence env (to_evidence x) (to_archivePath x) root False = Inr e"
    and same: "strict_eq (fld (to_evidence x) ''package_version'') version" "strict_eq (fld (to_evidence x) ''source_commit'') commit"
      "strict_eq (fld (to_evidence x) ''mode'') mode" "strict_eq (fld (to_evidence x) ''release_tag'') tag"
    and rest: "target_set_loop env root version commit mode tag (?id # seen) xs = Inr out"
    by (auto simp: bindE_Inr_iff gate_checks_iff Let_def split: if_splits)
  from known obtain t where t: "t \<in> set C_ABI_TARGET_ORDER" "?id = JStr t" by (auto simp: list_ex_iff)
  have fresh': "?id \<notin> set seen" using fresh t(2) by (auto simp: list_ex_iff)
  have "validateTargetEvidence env (to_evidence x) (to_archivePath x) root False = Inr (to_evidence x)"
    using valid by (metis validateTargetEvidence_Inr)
  note v = this
  note ih = Cons.IH [OF rest]
  have "distinct seen \<longrightarrow> set seen \<subseteq> range JStr \<longrightarrow> distinct out"
    using conjunct1 [OF conjunct2 [OF conjunct2 [OF ih]]] fresh' t(2) by simp
  then show ?case using ih t same [THEN strict_eq_imp_eq] v by simp
qed simp

text \<open>
  Property C25. An accepted set of target outputs is complete and consistent: one output for each of the
  four targets and no other, each with valid evidence, and all of the same version, source commit,
  mode and release tag.
\<close>

theorem validateTargetEvidenceSet_complete:
  "case validateTargetEvidenceSet env root version commit mode tag xs of
     Inl _ \<Rightarrow> True
   | Inr out \<Rightarrow> out = xs \<and>
       mset (map (\<lambda>x. fld (to_evidence x) ''target_id'') xs) = mset (map JStr C_ABI_TARGET_ORDER) \<and>
       list_all (\<lambda>x. validateTargetEvidence env (to_evidence x) (to_archivePath x) root False = Inr (to_evidence x) \<and>
         fld (to_evidence x) ''package_version'' = version \<and> fld (to_evidence x) ''source_commit'' = commit \<and>
         fld (to_evidence x) ''mode'' = mode \<and> fld (to_evidence x) ''release_tag'' = tag) xs"
proof (cases "validateTargetEvidenceSet env root version commit mode tag xs")
  case (Inr out)
  then obtain seen where out: "out = xs" and loop: "target_set_loop env root version commit mode tag [] xs = Inr seen"
    and all: "\<forall>t \<in> set C_ABI_TARGET_ORDER. JStr t \<in> set seen"
    by (fastforce simp: validateTargetEvidenceSet_def bindE_Inr_iff list_ex_iff split: if_splits)
  note run = target_set_loop_Inr [OF loop]
  let ?ids = "map (\<lambda>x. fld (to_evidence x) ''target_id'') xs"
  have "set ?ids = set (map JStr C_ABI_TARGET_ORDER)" "distinct ?ids"
    using run all by (auto simp: list_all_iff image_subset_iff)
  moreover have "distinct (map JStr C_ABI_TARGET_ORDER)" by (simp add: C_ABI_TARGET_ORDER_def)
  ultimately have "mset ?ids = mset (map JStr C_ABI_TARGET_ORDER)"
    using set_eq_iff_mset_eq_distinct by blast
  then show ?thesis using run by (simp add: Inr out)
qed simp

end
