(* ===== verification/CAbiPrepare.thy ===== *)
theory CAbiPrepare
  imports CAbiEvidence
begin

text \<open>
  \<open>prepareTargetArtifacts\<close> of \<open>c-abi-release.mjs\<close>: the archive and the evidence of one target are
  built from the files of its build, written, and validated as a reader will validate them. The
  writes go to the file system of the environment; a write succeeds. Paths are absolute, as
  \<open>run\<close> makes them.
\<close>

section \<open>Printed JSON\<close>

text \<open>\<open>JSON.stringify(value, null, 2)\<close> at a depth of nesting.\<close>

definition json_indent :: "nat \<Rightarrow> string" where
  "json_indent n = CHR 0x0A # replicate (2 * n) CHR '' ''"

fun json_pretty :: "nat \<Rightarrow> js \<Rightarrow> string option" where
  "json_pretty n (JArr xs) =
     (if xs = [] then Some ''[]''
      else Some (''['' @ json_indent (n + 1) @ join ('','' @ json_indent (n + 1))
        (map (\<lambda>x. case json_pretty (n + 1) x of None \<Rightarrow> ''null'' | Some s \<Rightarrow> s) xs) @ json_indent n @ '']''))"
| "json_pretty n (JObj ps) =
     (let items = concat (map (\<lambda>(k, v). case json_pretty (n + 1) v of None \<Rightarrow> [] | Some s \<Rightarrow> [json_quote k @ '': '' @ s]) ps) in
      if items = [] then Some ''{}''
      else Some (''{'' @ json_indent (n + 1) @ join ('','' @ json_indent (n + 1)) items @ json_indent n @ ''}''))"
| "json_pretty n v = json_str v"

text \<open>The bytes of a JSON file: the text with a newline. \<open>evidence\<close> objects always print.\<close>

definition json_file :: "js \<Rightarrow> byte list" where
  "json_file v = utf8_bytes ((case json_pretty 0 v of None \<Rightarrow> ''undefined'' | Some s \<Rightarrow> s) @ [CHR 0x0A])"

section \<open>Text files\<close>

text \<open>\<open>Buffer.from(text, "utf8")\<close> of decoded code points, and \<open>replaceAll("\r\n", "\n")\<close>.\<close>

definition utf8_encode_point :: "int \<Rightarrow> byte list" where
  "utf8_encode_point c =
     (if c < 0x80 then [of_int c]
      else if c < 0x800 then [of_int (0xC0 + c div 0x40), of_int (0x80 + c mod 0x40)]
      else if c < 0x10000 then [of_int (0xE0 + c div 0x1000), of_int (0x80 + c div 0x40 mod 0x40), of_int (0x80 + c mod 0x40)]
      else [of_int (0xF0 + c div 0x40000), of_int (0x80 + c div 0x1000 mod 0x40), of_int (0x80 + c div 0x40 mod 0x40),
            of_int (0x80 + c mod 0x40)])"

fun replace_crlf :: "int list \<Rightarrow> int list" where
  "replace_crlf [] = []"
| "replace_crlf (c # cs) =
     (if c = 13 \<and> take 1 cs = [10] then 10 # replace_crlf (drop 1 cs) else c # replace_crlf cs)"

definition canonicalTextBytes :: "cabi_env \<Rightarrow> string \<Rightarrow> byte list res" where
  "canonicalTextBytes env path =
     (case se_read (ca_script env) path of
        None \<Rightarrow> Inl (cabi_fail ''unreadable'')
      | Some bytes \<Rightarrow> Inr (concat (map utf8_encode_point (replace_crlf (utf8_decode bytes)))))"

section \<open>The inputs\<close>

record target_input =
  ti_targetId :: js
  ti_rustTarget :: js
  ti_runner :: js
  ti_platform :: js
  ti_packageVersion :: js
  ti_sourceCommit :: js
  ti_mode :: js
  ti_releaseTag :: js
  ti_toolchainIdentifier :: js
  ti_cargoLockSha256 :: js
  ti_headerPath :: string
  ti_licensePath :: string
  ti_staticLibraryPath :: string
  ti_dynamicLibraryPath :: string
  ti_companionPaths :: "string list"
  ti_outputDir :: string
  ti_sourceRoot :: string

text \<open>The version gate is given no \<open>sourceRoot\<close> here: it reads the sources of the repository itself.\<close>

definition validateTargetInputs :: "cabi_env \<Rightarrow> target_input \<Rightarrow> js res" where
  "validateTargetInputs env i =
     bindE (cAbiTarget (ti_targetId i)) (\<lambda>target.
     let toolchain = ti_toolchainIdentifier i in
     bindE (gate_checks cabi_fail
       [(target \<noteq> JUndef, ''unexpected C ABI target''),
        (strict_eq (fld target ''rust_target'') (ti_rustTarget i), ''target triple mismatch''),
        (strict_eq (fld target ''runner'') (ti_runner i), ''runner identity mismatch''),
        (strict_eq (fld target ''platform'') (ti_platform i), ''platform identity mismatch''),
        (is_str toolchain \<and> str_of toolchain \<noteq> [] \<and> CHR 0x0D \<notin> set (str_of toolchain) \<and> CHR 0x0A \<notin> set (str_of toolchain),
         ''Rust toolchain identity is invalid''),
        (isValidCommit (ti_sourceCommit i), ''source commit is not a commit''),
        (is_hash (ti_cargoLockSha256 i), ''Cargo.lock identity is not a SHA-256 digest'')]) (\<lambda>_.
     bindE (versionGate env (se_root (ca_script env)) (ti_packageVersion i) (ti_mode i) (ti_releaseTag i)) (\<lambda>_.
       Inr target)))"

record target_files =
  tf_header :: "byte list"
  tf_license :: "byte list"
  tf_static :: "byte list"
  tf_dynamic :: "byte list"
  tf_companions :: "(string \<times> byte list) list"

definition js_file_record :: "js \<Rightarrow> js \<Rightarrow> js" where
  "js_file_record filename h = JObj [(''filename'', filename), (''sha256'', h)]"

text \<open>\<open>companions.get(filename)\<close>: hashing undefined throws.\<close>

definition companion_record :: "cabi_env \<Rightarrow> target_files \<Rightarrow> js \<Rightarrow> js res" where
  "companion_record env files filename =
     (case map_of (rev (tf_companions files)) (str_of filename) of
        None \<Rightarrow> Inl TypeErr
      | Some bytes \<Rightarrow> Inr (js_file_record filename (cabi_sha256 env bytes)))"

definition commonEvidence :: "cabi_env \<Rightarrow> js \<Rightarrow> target_input \<Rightarrow> target_files \<Rightarrow> string option \<Rightarrow> js res" where
  "commonEvidence env target i files glibcMaxRequired =
     bindE (mapE (companion_record env files) (elems (fld target ''companion_libraries''))) (\<lambda>companions. Inr (JObj
       ([(''schema_version'', JInt 1), (''artifact_kind'', JStr ''c-abi-artifact''),
         (''project_name'', JStr ''symbol-nem-wallet-core''), (''package_name'', JStr ''symbol-nem-wallet-core-native''),
         (''npm_package_name'', JStr NPM_PACKAGE_NAME), (''package_version'', ti_packageVersion i), (''mode'', ti_mode i),
         (''release_tag'', ti_releaseTag i), (''source_commit'', ti_sourceCommit i), (''target_id'', ti_targetId i),
         (''rust_target'', fld target ''rust_target''), (''runner'', fld target ''runner''), (''platform'', fld target ''platform''),
         (''toolchain_identifier'', ti_toolchainIdentifier i), (''build_mode'', JStr ''release''),
         (''cargo_lock_sha256'', ti_cargoLockSha256 i),
         (''header'', js_file_record (JStr HEADER_FILENAME) (cabi_sha256 env (tf_header files))),
         (''license'', js_file_record (JStr LICENSE_FILENAME) (cabi_sha256 env (tf_license files))),
         (''static_library'', js_file_record (fld target ''static_library'') (cabi_sha256 env (tf_static files))),
         (''dynamic_library'', js_file_record (fld target ''dynamic_library'') (cabi_sha256 env (tf_dynamic files))),
         (''companion_libraries'', JArr companions)] @
        (if fld target ''glibc_baseline'' = JUndef then []
         else [(''glibc_baseline'', fld target ''glibc_baseline''),
               (''max_required_glibc_symbol'', case glibcMaxRequired of None \<Rightarrow> JUndef | Some v \<Rightarrow> JStr v)]))))"

definition expectedArchiveEntries :: "js \<Rightarrow> js \<Rightarrow> target_files \<Rightarrow> (string \<times> byte list option) list" where
  "expectedArchiveEntries target metadata files =
     [(''include/'' @ HEADER_FILENAME, Some (tf_header files)),
      (''lib/static/'' @ str_of (fld target ''static_library''), Some (tf_static files)),
      (''lib/dynamic/'' @ str_of (fld target ''dynamic_library''), Some (tf_dynamic files))] @
     map (\<lambda>c. (''lib/dynamic/'' @ str_of c, map_of (rev (tf_companions files)) (str_of c))) (elems (fld target ''companion_libraries'')) @
     [(LICENSE_FILENAME, Some (tf_license files)), (METADATA_PATH, Some (json_file metadata))]"

section \<open>The preparation\<close>

definition has_forbidden_suffix :: "string \<Rightarrow> bool" where
  "has_forbidden_suffix n \<longleftrightarrow> ends_with ''.rlib'' n \<or> ends_with ''.node'' n \<or> ends_with ''.pdb'' n \<or> ends_with ''.dSYM'' n"

definition target_glibc :: "cabi_env \<Rightarrow> js \<Rightarrow> string \<Rightarrow> (string option) res" where
  "target_glibc env target path =
     (if fld target ''glibc_baseline'' = JUndef then Inr None
      else bindE (glibcMaximum env path) (\<lambda>required.
        if compareVersions required (str_of (fld target ''glibc_baseline'')) > 0
        then Inl (cabi_fail ''Linux C ABI dynamic library exceeds the glibc 2.28 boundary'')
        else Inr (Some required)))"

definition read_target_files :: "cabi_env \<Rightarrow> target_input \<Rightarrow> target_files res" where
  "read_target_files env i =
     bindE (canonicalTextBytes env (ti_headerPath i)) (\<lambda>header.
     bindE (cabi_read env (ti_licensePath i)) (\<lambda>license.
     bindE (validateProjectLicense license) (\<lambda>_.
     bindE (cabi_read env (ti_staticLibraryPath i)) (\<lambda>staticLibrary.
     bindE (cabi_read env (ti_dynamicLibraryPath i)) (\<lambda>dynamicLibrary.
     bindE (mapE (cabi_read env) (ti_companionPaths i)) (\<lambda>companions.
       Inr \<lparr>tf_header = header, tf_license = license, tf_static = staticLibrary, tf_dynamic = dynamicLibrary,
            tf_companions = zip (map posix_basename (ti_companionPaths i)) companions\<rparr>))))))"

text \<open>What is written: the evidence, the metadata inside the archive and the archive.\<close>

record prepared_target =
  pt_evidence :: js
  pt_metadata :: js
  pt_archiveFilename :: string
  pt_archive :: "byte list"

definition build_target :: "cabi_env \<Rightarrow> target_input \<Rightarrow> prepared_target res" where
  "build_target env i =
     bindE (validateTargetInputs env i) (\<lambda>target.
     let expectedCompanions = fld target ''companion_libraries'';
         suppliedCompanions = map posix_basename (ti_companionPaths i) in
     if expectedCompanions = JUndef then Inl TypeErr
     else if length suppliedCompanions \<noteq> length (elems expectedCompanions) \<or> \<not> distinct suppliedCompanions \<or>
       list_ex (\<lambda>n. JStr n \<notin> set (elems expectedCompanions)) suppliedCompanions
     then Inl (cabi_fail ''C ABI companion library set is invalid'')
     else
     bindE (mapE (ensureFile env) ([ti_headerPath i, ti_licensePath i, ti_staticLibraryPath i, ti_dynamicLibraryPath i] @ ti_companionPaths i)) (\<lambda>_.
     if posix_basename (ti_headerPath i) \<noteq> HEADER_FILENAME \<or> posix_basename (ti_licensePath i) \<noteq> LICENSE_FILENAME
     then Inl (cabi_fail ''C ABI header or LICENSE filename is not canonical'')
     else if list_ex has_forbidden_suffix
       ([posix_basename (ti_staticLibraryPath i), posix_basename (ti_dynamicLibraryPath i)] @ suppliedCompanions)
     then Inl (cabi_fail ''debug, rlib, or Node-API input was supplied to C ABI release preparation'')
     else
     bindE (target_glibc env target (ti_dynamicLibraryPath i)) (\<lambda>glibcMaxRequired.
     bindE (read_target_files env i) (\<lambda>files.
     bindE (commonEvidence env target i files glibcMaxRequired) (\<lambda>common.
     bindE (str_or_throw (ti_targetId i)) (\<lambda>targetId.
     let archiveFilename = cAbiArchiveFilename (str_of (ti_packageVersion i)) targetId;
         metadata = js_spread common ''archive'' (JObj [(''filename'', JStr archiveFilename)]) in
     bindE (createTarGz (ca_zlib env) (expectedArchiveEntries target metadata files)) (\<lambda>archiveBytes.
       Inr \<lparr>pt_evidence = js_spread common ''archive'' (js_file_record (JStr archiveFilename) (cabi_sha256 env archiveBytes)),
            pt_metadata = metadata, pt_archiveFilename = archiveFilename, pt_archive = archiveBytes\<rparr>)))))))"

definition write_file :: "file_system \<Rightarrow> string \<Rightarrow> byte list \<Rightarrow> file_system" where
  "write_file fs path bytes = fs\<lparr>fs_read := (fs_read fs)(path \<mapsto> bytes), fs_stat := (fs_stat fs)(path \<mapsto> RegularFile)\<rparr>"

definition archive_path :: "target_input \<Rightarrow> prepared_target \<Rightarrow> string" where
  "archive_path i p = posix_resolve (ti_outputDir i) [pt_archiveFilename p]"

definition evidence_path :: "target_input \<Rightarrow> string" where
  "evidence_path i = posix_resolve (ti_outputDir i) [''c-abi-artifact.json'']"

definition write_target :: "cabi_env \<Rightarrow> target_input \<Rightarrow> prepared_target \<Rightarrow> cabi_env" where
  "write_target env i p =
     (let fs = se_fs (ca_script env);
          fs1 = write_file fs (archive_path i p) (pt_archive p);
          fs2 = write_file fs1 (evidence_path i) (json_file (pt_evidence p)) in
      env\<lparr>ca_script := (ca_script env)\<lparr>se_fs := fs2\<rparr>\<rparr>)"

definition prepareTargetArtifacts :: "cabi_env \<Rightarrow> target_input \<Rightarrow> (js \<times> cabi_env) res" where
  "prepareTargetArtifacts env i =
     bindE (build_target env i) (\<lambda>p.
     let env' = write_target env i p in
     bindE (validateTargetEvidence env' (pt_evidence p) (archive_path i p) (ti_sourceRoot i) True) (\<lambda>_.
       Inr (pt_evidence p, env')))"

end
