(* ===== verification/CAbiPrepared.thy ===== *)
theory CAbiPrepared
  imports CAbiPrepare
begin

text \<open>
  What \<open>prepareTargetArtifacts\<close> writes, its own closing validation accepts: the archive is parsed to
  the files it was made of, the digests agree, and the metadata inside match the evidence. What the
  validation can still refuse is stated exactly.
\<close>

section \<open>Paths\<close>

definition plain_file :: "string \<Rightarrow> bool" where
  "plain_file p \<longleftrightarrow> p \<noteq> [] \<and> CHR ''/'' \<notin> set p \<and> p \<noteq> ''.'' \<and> p \<noteq> ''..''"

lemma norm_parts_snoc: "plain_file p \<Longrightarrow> norm_parts a acc (ps @ [p]) = norm_parts a acc ps @ [p]"
  by (induction a acc ps rule: norm_parts.induct) (auto simp: plain_file_def split: list.splits)

lemma join_snoc_sep: "\<exists>u. ''/'' @ join ''/'' (ps @ [p]) = u @ CHR ''/'' # p"
proof (induction ps)
  case (Cons q ps)
  then obtain u where "''/'' @ join ''/'' (ps @ [p]) = u @ CHR ''/'' # p" by blast
  moreover have "join ''/'' ((q # ps) @ [p]) = q @ ''/'' @ join ''/'' (ps @ [p])" by (cases ps) auto
  ultimately have "''/'' @ join ''/'' ((q # ps) @ [p]) = (''/'' @ q @ u) @ CHR ''/'' # p" by simp
  then show ?case by blast
qed auto

lemma basename_resolved:
  assumes "plain_file p"
  shows "posix_basename (posix_resolve d [p]) = p"
proof -
  have "split_on CHR ''/'' p = [p]" "\<not> starts_with ''/'' p"
    using assms by (auto simp: plain_file_def split_on_plain starts_with_iff)
  then have "\<exists>ps. posix_resolve d [p] = ''/'' @ join ''/'' (ps @ [p])"
    using assms by (auto simp: posix_resolve_def norm_parts_snoc)
  then obtain u where u: "posix_resolve d [p] = u @ CHR ''/'' # p" using join_snoc_sep by metis
  have "dropWhile (\<lambda>c. c = CHR ''/'') (rev p @ x) = rev p @ x" for x
    using assms by (cases "rev p") (auto simp: plain_file_def dest: arg_cong [where f = set])
  then have "posix_basename (posix_resolve d [p]) = last (split_on CHR ''/'' (u @ CHR ''/'' # p))"
    by (simp add: posix_basename_def u)
  then show ?thesis using \<open>split_on CHR ''/'' p = [p]\<close> by (simp add: split_on_append_sep)
qed

lemma semver_no_slash: "isValidSemVer (JStr s) \<Longrightarrow> CHR ''/'' \<notin> set s"
proof -
  assume "isValidSemVer (JStr s)"
  then have "rx_lang SEMVER_PATTERN s" by (auto simp: isValidSemVer_def parseSemVer_def rx_test_iff split: if_splits)
  then have "list_all (\<lambda>c. c \<noteq> CHR ''/'') s"
    by (rule rx_chars_lang)
      (auto simp: SEMVER_PATTERN_def SEMVER_CORE_def NUMERIC_IDENTIFIER_def PRERELEASE_IDENTIFIER_def IDENTIFIER_def dotted_def
        r_opt_def r_plus_def r_chr_def is_ident_char_def char_class_defs less_eq_char_def)
  then show ?thesis by (auto simp: list_all_iff)
qed

lemma archive_filename_plain:
  assumes "isValidSemVer v" and "key \<in> set C_ABI_TARGET_ORDER"
  shows "plain_file (cAbiArchiveFilename (str_of v) key)"
proof -
  obtain s where "v = JStr s" using assms(1) by (auto simp: isValidSemVer_def parseSemVer_def split: js.splits)
  then have "CHR ''/'' \<notin> set (str_of v)" using assms(1) semver_no_slash by simp
  moreover have "CHR ''/'' \<notin> set key" using assms(2) by (auto simp: C_ABI_TARGET_ORDER_def)
  ultimately show ?thesis by (auto simp: plain_file_def cAbiArchiveFilename_def)
qed

section \<open>The evidence\<close>

lemma obj_update_new: "k \<notin> fst ` set ps \<Longrightarrow> obj_update ps k x = ps @ [(k, x)]"
  by (induction ps) auto

lemma obj_update_twice: "obj_update (obj_update ps k x) k y = obj_update ps k y"
  by (induction ps) auto

lemma spread_twice: "js_spread (js_spread v k x) k y = js_spread v k y"
  by (simp add: js_spread_def obj_update_twice)

lemma keys_spread: "isPlainObject v \<Longrightarrow> k \<notin> set (obj_keys v) \<Longrightarrow> obj_keys (js_spread v k x) = obj_keys v @ [k]"
  by (cases v) (auto simp: js_spread_def obj_update_new)

text \<open>The properties of the common part of the evidence, one by one.\<close>

definition common_fields :: "cabi_env \<Rightarrow> js \<Rightarrow> target_input \<Rightarrow> target_files \<Rightarrow> string option \<Rightarrow> js list \<Rightarrow> js \<Rightarrow> bool" where
  "common_fields env target i files g companions common \<longleftrightarrow>
     mapE (companion_record env files) (elems (fld target ''companion_libraries'')) = Inr companions \<and>
     isPlainObject common \<and>
     obj_keys common = COMMON_EVIDENCE_KEYS @ (if fld target ''glibc_baseline'' = JUndef then [] else GLIBC_KEYS) \<and>
     fld common ''schema_version'' = JInt 1 \<and> fld common ''artifact_kind'' = JStr ''c-abi-artifact'' \<and>
     fld common ''project_name'' = JStr ''symbol-nem-wallet-core'' \<and> fld common ''package_name'' = JStr ''symbol-nem-wallet-core-native'' \<and>
     fld common ''npm_package_name'' = JStr NPM_PACKAGE_NAME \<and> fld common ''package_version'' = ti_packageVersion i \<and>
     fld common ''mode'' = ti_mode i \<and> fld common ''release_tag'' = ti_releaseTag i \<and>
     fld common ''source_commit'' = ti_sourceCommit i \<and> fld common ''target_id'' = ti_targetId i \<and>
     fld common ''rust_target'' = fld target ''rust_target'' \<and> fld common ''runner'' = fld target ''runner'' \<and>
     fld common ''platform'' = fld target ''platform'' \<and> fld common ''toolchain_identifier'' = ti_toolchainIdentifier i \<and>
     fld common ''build_mode'' = JStr ''release'' \<and> fld common ''cargo_lock_sha256'' = ti_cargoLockSha256 i \<and>
     fld common ''header'' = js_file_record (JStr HEADER_FILENAME) (cabi_sha256 env (tf_header files)) \<and>
     fld common ''license'' = js_file_record (JStr LICENSE_FILENAME) (cabi_sha256 env (tf_license files)) \<and>
     fld common ''static_library'' = js_file_record (fld target ''static_library'') (cabi_sha256 env (tf_static files)) \<and>
     fld common ''dynamic_library'' = js_file_record (fld target ''dynamic_library'') (cabi_sha256 env (tf_dynamic files)) \<and>
     fld common ''companion_libraries'' = JArr companions \<and>
     (fld target ''glibc_baseline'' \<noteq> JUndef \<longrightarrow> fld common ''glibc_baseline'' = fld target ''glibc_baseline'' \<and>
       fld common ''max_required_glibc_symbol'' = (case g of None \<Rightarrow> JUndef | Some v \<Rightarrow> JStr v)) \<and>
     (fld target ''glibc_baseline'' = JUndef \<longrightarrow> fld common ''max_required_glibc_symbol'' = JUndef)"

lemma commonEvidence_Inr: "commonEvidence env target i files g = Inr common \<Longrightarrow> \<exists>cs. common_fields env target i files g cs common"
  by (auto simp: commonEvidence_def common_fields_def bindE_Inr_iff COMMON_EVIDENCE_KEYS_def GLIBC_KEYS_def)

lemma js_file_record_fld [simp]: "fld (js_file_record n h) ''filename'' = n" "fld (js_file_record n h) ''sha256'' = h"
    "isPlainObject (js_file_record n h)" "exactKeys (js_file_record n h) [''filename'', ''sha256'']" "\<not> nullish (js_file_record n h)"
  by (simp_all add: js_file_record_def exactKeys_iff)

lemma file_record_accepted: "is_hash h \<Longrightarrow> list_all fst (file_record_checks (js_file_record (JStr n) h) (JStr n))"
  by (simp add: file_record_checks_def)

lemma companion_loop_accepts:
  assumes "list_all2 (\<lambda>f c. \<exists>h. is_hash h \<and> c = js_file_record f h) fs cs"
    and "set fs \<subseteq> set (elems (fld target ''companion_libraries''))" "list_all is_str fs" "distinct fs" "set fs \<inter> set seen = {}"
  shows "companion_loop target seen cs = Inr ()"
  using assms
proof (induction arbitrary: seen rule: list_all2_induct)
  case (Cons f fs c cs)
  then obtain h where c: "c = js_file_record f h" "is_hash h" by blast
  from Cons.prems obtain s where s: "f = JStr s" by (auto simp: is_str_iff)
  then have "list_ex (strict_eq f) (elems (fld target ''companion_libraries''))" "f \<notin> set seen"
    using Cons.prems(1,4) by (auto simp: list_ex_iff)
  moreover have "companion_loop target (f # seen) cs = Inr ()" using Cons by auto
  ultimately show ?case using c by (simp add: gate_checks.simps)
qed simp

lemma cAbi_sha_hash: "hex_digest 64 (se_sha256 (ca_script env)) \<Longrightarrow> is_hash (cabi_sha256 env bytes)"
  by (simp add: cabi_sha256_def is_hash_iff hex_digest_def)

text \<open>The versions that the evidence may name: two numbers, as the pattern of the validation wants.\<close>

definition glibc_evidence_ok :: "js \<Rightarrow> bool" where
  "glibc_evidence_ok evidence \<longleftrightarrow> (case fld evidence ''max_required_glibc_symbol'' of JStr v \<Rightarrow> glibc_pattern v | _ \<Rightarrow> True)"

lemma versionGate_Inr:
  assumes "versionGate env root version mode tag = Inr vs"
  shows "isValidSemVer version" "is_mode mode" "mode = JStr ''release'' \<longrightarrow> tag = JStr (''v'' @ str_of version)"
    "mode \<noteq> JStr ''release'' \<longrightarrow> tag = JNull \<or> tag = JUndef"
  using assms by (auto simp: versionGate_def bindE_Inr_iff split: if_splits option.splits)

lemma built_identity:
  assumes "validateTargetInputs env i = Inr target" and "ti_releaseTag i \<noteq> JUndef" and "common_fields env target i files g cs common"
    and "\<And>k. k \<noteq> ''archive'' \<Longrightarrow> fld e k = fld common k"
  shows "evidence_identity_ok e" "cAbiTarget (fld e ''target_id'') = Inr target" "is_hash (fld e ''cargo_lock_sha256'')"
proof -
  from assms(1) obtain vs where tool: "is_str (ti_toolchainIdentifier i)" "str_of (ti_toolchainIdentifier i) \<noteq> []"
    and ids: "isValidCommit (ti_sourceCommit i)" "is_hash (ti_cargoLockSha256 i)" "cAbiTarget (ti_targetId i) = Inr target"
    and gate: "versionGate env (se_root (ca_script env)) (ti_packageVersion i) (ti_mode i) (ti_releaseTag i) = Inr vs"
    by (auto simp: validateTargetInputs_def bindE_Inr_iff gate_checks_iff Let_def)
  note f = assms(3) [unfolded common_fields_def]
  show "evidence_identity_ok e"
    using versionGate_Inr [OF gate] tool ids assms(2) f
    by (auto simp: evidence_identity_ok_def assms(4) is_mode_def MODE_VALUES_def is_str_iff)
  show "cAbiTarget (fld e ''target_id'') = Inr target" "is_hash (fld e ''cargo_lock_sha256'')"
    using ids f by (simp_all add: assms(4))
qed

lemma built_glibc:
  assumes "map_of C_ABI_TARGETS key = Some target" and "common_fields env target i files g cs common"
    and "\<And>k. k \<noteq> ''archive'' \<Longrightarrow> fld e k = fld common k" and "target_glibc env target path = Inr g"
  shows "glibc_check e target = (if glibc_evidence_ok e then Inr () else Inl (cabi_fail ''Linux glibc evidence is invalid''))"
proof (cases "fld target ''glibc_baseline'' = JUndef")
  case True
  then show ?thesis using assms(2) by (simp add: common_fields_def glibc_check_def glibc_evidence_ok_def assms(3))
next
  case False
  then have base: "fld target ''glibc_baseline'' = JStr ''2.28''" using table_lookup [OF assms(1)] by (auto simp: table_entry_ok_def)
  then obtain v where "g = Some v" "\<not> compareVersions v ''2.28'' > 0"
    using assms(4) by (auto simp: target_glibc_def bindE_Inr_iff split: if_splits)
  then show ?thesis using assms(2) base by (simp add: common_fields_def glibc_check_def glibc_evidence_ok_def assms(3) str_or_throw_def)
qed

lemma built_companions:
  assumes "map_of C_ABI_TARGETS key = Some target" and "common_fields env target i files g cs common"
    and "hex_digest 64 (se_sha256 (ca_script env))"
  shows "companion_loop target [] cs = Inr ()" "length cs = length (elems (fld target ''companion_libraries''))"
proof -
  have rel: "list_all2 (\<lambda>f c. \<exists>h. is_hash h \<and> c = js_file_record f h) (elems (fld target ''companion_libraries'')) cs"
    using conjunct1 [OF assms(2) [unfolded common_fields_def]] unfolding mapE_Inr_iff
    by (rule list.rel_mono_strong)
      (auto simp: companion_record_def split: option.splits intro!: exI conjI cAbi_sha_hash [OF assms(3)])
  then show "length cs = length (elems (fld target ''companion_libraries''))" by (simp add: list_all2_lengthD)
  show "companion_loop target [] cs = Inr ()"
    using rel table_lookup [OF assms(1)] by (intro companion_loop_accepts) (auto simp: table_entry_ok_def)
qed

lemma built_common_evidence:
  assumes common: "common_fields env target i files g cs common" and hex: "hex_digest 64 (se_sha256 (ca_script env))"
    and inputs: "validateTargetInputs env i = Inr target" and table: "map_of C_ABI_TARGETS key = Some target"
    and key: "to_str (ti_targetId i) = Some key" and glibc: "target_glibc env target path = Inr g"
    and tag: "ti_releaseTag i \<noteq> JUndef"
    and evidence: "evidence = js_spread common ''archive'' (js_file_record (JStr (cAbiArchiveFilename (str_of (ti_packageVersion i)) key)) h)"
    and h: "is_hash h"
  shows "validateCommonEvidence evidence = (if glibc_evidence_ok evidence then Inr target else Inl (cabi_fail ''Linux glibc evidence is invalid''))"
proof -
  note f = common [unfolded common_fields_def] and ok = table_lookup [OF table, unfolded table_entry_ok_def]
  have plain: "isPlainObject common" using f by simp
  have e: "fld evidence k = (if k = ''archive'' then js_file_record (JStr (cAbiArchiveFilename (str_of (ti_packageVersion i)) key)) h
      else fld common k)" for k
    unfolding evidence by (rule fld_js_spread [OF plain])
  note ident = built_identity [OF inputs tag common, of evidence, unfolded e, simplified]
  obtain rust runner platform st dy where strs: "fld target ''rust_target'' = JStr rust" "fld target ''runner'' = JStr runner"
      "fld target ''platform'' = JStr platform" "fld target ''static_library'' = JStr st" "fld target ''dynamic_library'' = JStr dy"
    using ok by (auto simp: is_str_iff)
  have "exactKeys evidence (COMMON_EVIDENCE_KEYS @ [''archive''] @ (if fld target ''glibc_baseline'' \<noteq> JUndef then GLIBC_KEYS else []))"
    using f by (simp add: evidence keys_spread [OF plain] exactKeys_iff COMMON_EVIDENCE_KEYS_def GLIBC_KEYS_def)
  moreover have "isPlainObject evidence" by (simp add: evidence js_spread_def)
  moreover have "target \<noteq> JUndef" "is_arr (fld target ''companion_libraries'')" using ok by auto
  moreover have "str_or_throw (fld evidence ''target_id'') = Inr key" using f by (simp add: e str_or_throw_def key)
  moreover note ident built_companions [OF table common hex] built_glibc [OF table common, of evidence, OF _ glibc]
  ultimately show ?thesis
    using f by (auto simp: validateCommonEvidence_def gate_checks_ok Let_def e strs file_record_accepted cAbi_sha_hash [OF hex] h is_arr_iff)
qed

section \<open>The archive\<close>

lemma map_of_ucs: "map_of (map (\<lambda>n. (ucs n, f n)) ns) (ucs n) = (if n \<in> set ns then Some (f n) else None)"
  by (induction ns) (auto dest: injD [OF inj_ucs])

lemma entry_names: "map fst (expectedArchiveEntries target metadata files) = expected_names target"
  by (simp add: expectedArchiveEntries_def expected_names_def)

text \<open>The parsed archive looked up by the name of an entry.\<close>

lemma parsed_entry:
  assumes "distinct (map fst entries)" and "(n, Some content) \<in> set entries"
  shows "map_of (map (\<lambda>n. (ucs n, the (the (map_of entries n)))) (sort (map fst entries))) (ucs n) = Some content"
proof -
  have "map_of entries n = Some (Some content)" using assms by simp
  moreover have "n \<in> set (sort (map fst entries))" using assms(2) by force
  ultimately show ?thesis by (simp add: map_of_ucs)
qed

lemma built_hashes:
  assumes "common_fields env target i files g cs common" and "\<And>k. k \<noteq> ''archive'' \<Longrightarrow> fld e k = fld common k"
  shows "list_all (\<lambda>(n, h). \<exists>content. (n, Some content) \<in> set (expectedArchiveEntries target metadata files) \<and> h = cabi_sha256 env content)
    (expected_hashes e target)"
proof -
  note f = assms(1) [unfolded common_fields_def]
  let ?es = "set (expectedArchiveEntries target metadata files)"
  have comp: "\<exists>content. (''lib/dynamic/'' @ str_of (fld c ''filename''), Some content) \<in> ?es \<and> fld c ''sha256'' = cabi_sha256 env content"
    if mem: "c \<in> set cs" for c
  proof -
    obtain x where x: "x \<in> set (elems (fld target ''companion_libraries''))" "companion_record env files x = Inr c"
      using list_all2_right [OF conjunct1 [OF f, unfolded mapE_Inr_iff] mem] by blast
    then obtain content where c: "map_of (rev (tf_companions files)) (str_of x) = Some content" "c = js_file_record x (cabi_sha256 env content)"
      by (auto simp: companion_record_def split: option.splits)
    have "(''lib/dynamic/'' @ str_of x, map_of (rev (tf_companions files)) (str_of x)) \<in> ?es"
      unfolding expectedArchiveEntries_def using x(1) by simp
    then show ?thesis using c by auto
  qed
  have fixed: "(''include/'' @ HEADER_FILENAME, Some (tf_header files)) \<in> ?es" "(LICENSE_FILENAME, Some (tf_license files)) \<in> ?es"
    "(''lib/static/'' @ str_of (fld target ''static_library''), Some (tf_static files)) \<in> ?es"
    "(''lib/dynamic/'' @ str_of (fld target ''dynamic_library''), Some (tf_dynamic files)) \<in> ?es"
    by (simp_all add: expectedArchiveEntries_def)
  have e: "fld e ''header'' = js_file_record (JStr HEADER_FILENAME) (cabi_sha256 env (tf_header files))"
    "fld e ''license'' = js_file_record (JStr LICENSE_FILENAME) (cabi_sha256 env (tf_license files))"
    "fld e ''static_library'' = js_file_record (fld target ''static_library'') (cabi_sha256 env (tf_static files))"
    "fld e ''dynamic_library'' = js_file_record (fld target ''dynamic_library'') (cabi_sha256 env (tf_dynamic files))"
    "fld e ''companion_libraries'' = JArr cs"
    using f by (simp_all add: assms(2))
  show ?thesis
    unfolding expected_hashes_def e js_file_record_fld elems.simps list_all_append list.pred_inject list.pred_map comp_def prod.case
      list_all_iff [of _ cs]
    using fixed comp by (blast intro: list.pred_inject(1))
qed

lemma built_archive:
  assumes common: "common_fields env target i files g cs common" and table: "map_of C_ABI_TARGETS key = Some target"
    and metadata: "metadata = js_spread common ''archive'' (JObj [(''filename'', n)])"
    and evidence: "evidence = js_spread common ''archive'' (js_file_record n h)"
    and archive: "createTarGz (ca_zlib env) (expectedArchiveEntries target metadata files) = Inr archive"
    and law: "gzip_law (ca_zlib env)" and license: "validateProjectLicense (tf_license files) = Inr ()"
    and json: "se_parse (ca_script env) (json_file metadata) = Some metadata"
  shows "\<exists>entries. parseTarGz (ca_zlib env) archive = Inr entries \<and> archive_contents env evidence target entries = Inr ()"
proof -
  let ?es = "expectedArchiveEntries target metadata files"
  let ?out = "map (\<lambda>n. (ucs n, the (the (map_of ?es n)))) (sort (map fst ?es))"
  note f = common [unfolded common_fields_def] and ok = table_lookup [OF table, unfolded table_entry_ok_def]
  have names: "distinct (map fst ?es)" using ok by (simp add: entry_names)
  have "list_all (\<lambda>e. ascii_name (fst e)) ?es"
    using ok by (simp add: list_all_iff flip: entry_names [of target metadata files])
  then have parsed: "parseTarGz (ca_zlib env) archive = Inr ?out" using created_archive_parses [OF law archive names] by simp
  note entry = parsed_entry [OF names]
  have plain: "isPlainObject common" using f by simp
  have e: "fld evidence k = (if k = ''archive'' then js_file_record n h else fld common k)" for k
    unfolding evidence by (rule fld_js_spread [OF plain])
  have "length ?out = card (set (expected_names target)) \<and> list_all (\<lambda>e. fst e \<in> ucs ` set (expected_names target)) ?out"
    using ok distinct_card [of "expected_names target"] by (auto simp: entry_names list_all_iff simp flip: length_map [of fst ?es])
  moreover have "hashes_loop env ?out (expected_hashes evidence target) = Inr ()"
    using built_hashes [OF common, of evidence metadata] entry by (fastforce simp: hashes_loop_Inr list_all_iff e)
  moreover have "(LICENSE_FILENAME, Some (tf_license files)) \<in> set ?es" "(METADATA_PATH, Some (json_file metadata)) \<in> set ?es"
    by (simp_all add: expectedArchiveEntries_def)
  then have "archive_entry ?out LICENSE_FILENAME = Inr (tf_license files)" "archive_entry ?out METADATA_PATH = Inr (json_file metadata)"
    using entry unfolding archive_entry_def by force+
  moreover have "exactKeys metadata (COMMON_EVIDENCE_KEYS @ (if fld target ''glibc_baseline'' = JUndef then [] else GLIBC_KEYS) @ [''archive''])"
    using f by (simp add: metadata keys_spread [OF plain] exactKeys_iff COMMON_EVIDENCE_KEYS_def GLIBC_KEYS_def)
  moreover have "json_same metadata (js_spread evidence ''archive'' (JObj [(''filename'', fld (fld evidence ''archive'') ''filename'')]))"
    by (simp add: e metadata) (simp add: evidence spread_twice json_same_def)
  moreover have "isPlainObject metadata" by (simp add: metadata js_spread_def)
  ultimately have "archive_contents env evidence target ?out = Inr ()"
    using license json by (simp add: archive_contents_def gate_checks_ok readJsonFromBytes_def)
  with parsed show ?thesis by blast
qed

section \<open>The closing validation\<close>

lemma write_target_env [simp]:
  "ca_zlib (write_target env i p) = ca_zlib env" "ca_json (write_target env i p) = ca_json env"
  "se_parse (ca_script (write_target env i p)) = se_parse (ca_script env)"
  "cabi_sha256 (write_target env i p) = cabi_sha256 env"
  by (simp_all add: write_target_def Let_def cabi_sha256_def fun_eq_iff)

lemma written_archive:
  assumes "archive_path i p \<noteq> evidence_path i"
  shows "se_read (ca_script (write_target env i p)) (archive_path i p) = Some (pt_archive p)"
    "fs_stat (se_fs (ca_script (write_target env i p))) (archive_path i p) = Some RegularFile"
  using assms by (simp_all add: write_target_def write_file_def Let_def se_read_def)

lemma companion_record_env: "cabi_sha256 env' = cabi_sha256 env \<Longrightarrow> companion_record env' = companion_record env"
  by (intro ext) (simp add: companion_record_def split: option.split)

lemma common_fields_env: "cabi_sha256 env' = cabi_sha256 env \<Longrightarrow> common_fields env' = common_fields env"
  using companion_record_env [of env' env] by (intro ext) (simp add: common_fields_def)

lemma build_target_Inr:
  assumes "build_target env i = Inr p"
  obtains key target g files cs common where "validateTargetInputs env i = Inr target" "to_str (ti_targetId i) = Some key"
    "map_of C_ABI_TARGETS key = Some target" "target_glibc env target (ti_dynamicLibraryPath i) = Inr g"
    "validateProjectLicense (tf_license files) = Inr ()" "common_fields env target i files g cs common"
    "pt_archiveFilename p = cAbiArchiveFilename (str_of (ti_packageVersion i)) key"
    "pt_metadata p = js_spread common ''archive'' (JObj [(''filename'', JStr (pt_archiveFilename p))])"
    "pt_evidence p = js_spread common ''archive'' (js_file_record (JStr (pt_archiveFilename p)) (cabi_sha256 env (pt_archive p)))"
    "createTarGz (ca_zlib env) (expectedArchiveEntries target (pt_metadata p) files) = Inr (pt_archive p)"
proof -
  from assms obtain target g files common key archive where inputs: "validateTargetInputs env i = Inr target"
    and comps: "fld target ''companion_libraries'' \<noteq> JUndef" and glibc: "target_glibc env target (ti_dynamicLibraryPath i) = Inr g"
    and files: "read_target_files env i = Inr files" and common: "commonEvidence env target i files g = Inr common"
    and key: "to_str (ti_targetId i) = Some key"
    and p: "p = \<lparr>pt_evidence = js_spread common ''archive''
          (js_file_record (JStr (cAbiArchiveFilename (str_of (ti_packageVersion i)) key)) (cabi_sha256 env archive)),
        pt_metadata = js_spread common ''archive'' (JObj [(''filename'', JStr (cAbiArchiveFilename (str_of (ti_packageVersion i)) key))]),
        pt_archiveFilename = cAbiArchiveFilename (str_of (ti_packageVersion i)) key, pt_archive = archive\<rparr>"
    and archive: "createTarGz (ca_zlib env) (expectedArchiveEntries target (pt_metadata p) files) = Inr archive"
    by (auto simp: build_target_def bindE_Inr_iff Let_def str_or_throw_def split: if_splits option.splits)
  have lookup: "cAbiTarget (ti_targetId i) = Inr target"
    using inputs by (auto simp: validateTargetInputs_def bindE_Inr_iff Let_def)
  then have table: "map_of C_ABI_TARGETS key = Some target"
    using key comps by (auto simp: cAbiTarget_Inr split: option.splits if_splits)
  have license: "validateProjectLicense (tf_license files) = Inr ()"
    using files by (auto simp: read_target_files_def bindE_Inr_iff)
  obtain cs where "common_fields env target i files g cs common" using commonEvidence_Inr [OF common] ..
  then show ?thesis using inputs key table glibc license p archive by (intro that) simp_all
qed

lemma prepared_target_validates:
  assumes build: "build_target env i = Inr p" and gzip: "gzip_law (ca_zlib env)"
    and hex: "hex_digest 64 (se_sha256 (ca_script env))" and tag: "ti_releaseTag i \<noteq> JUndef"
    and json: "se_parse (ca_script env) (json_file (pt_metadata p)) = Some (pt_metadata p)"
  shows "validateTargetEvidence (write_target env i p) (pt_evidence p) (archive_path i p) (ti_sourceRoot i) True =
    (if \<not> glibc_evidence_ok (pt_evidence p) then Inl (cabi_fail ''Linux glibc evidence is invalid'')
     else bindE (versionGate (write_target env i p) (ti_sourceRoot i) (ti_packageVersion i) (ti_mode i) (ti_releaseTag i))
       (\<lambda>_. Inr (pt_evidence p)))"
  using build
proof (rule build_target_Inr)
  fix key target g files cs common
  assume inputs: "validateTargetInputs env i = Inr target" and key: "to_str (ti_targetId i) = Some key"
    and table: "map_of C_ABI_TARGETS key = Some target" and glibc: "target_glibc env target (ti_dynamicLibraryPath i) = Inr g"
    and license: "validateProjectLicense (tf_license files) = Inr ()" and common: "common_fields env target i files g cs common"
    and name: "pt_archiveFilename p = cAbiArchiveFilename (str_of (ti_packageVersion i)) key"
    and metadata: "pt_metadata p = js_spread common ''archive'' (JObj [(''filename'', JStr (pt_archiveFilename p))])"
    and evidence: "pt_evidence p = js_spread common ''archive'' (js_file_record (JStr (pt_archiveFilename p)) (cabi_sha256 env (pt_archive p)))"
    and archive: "createTarGz (ca_zlib env) (expectedArchiveEntries target (pt_metadata p) files) = Inr (pt_archive p)"
  let ?env = "write_target env i p"
  have common': "common_fields ?env target i files g cs common" using common common_fields_env [of ?env env] by simp
  have valid: "validateCommonEvidence (pt_evidence p) =
      (if glibc_evidence_ok (pt_evidence p) then Inr target else Inl (cabi_fail ''Linux glibc evidence is invalid''))"
    by (rule built_common_evidence [OF common hex inputs table key glibc tag evidence [unfolded name] cAbi_sha_hash [OF hex]])
  have "isValidSemVer (ti_packageVersion i)"
    using inputs versionGate_Inr by (auto simp: validateTargetInputs_def bindE_Inr_iff Let_def)
  then have "plain_file (pt_archiveFilename p)"
    unfolding name by (rule archive_filename_plain) (use table_lookup [OF table] in \<open>simp add: table_entry_ok_def\<close>)
  then have base: "posix_basename (archive_path i p) = pt_archiveFilename p" unfolding archive_path_def by (rule basename_resolved)
  have "posix_basename (evidence_path i) = ''c-abi-artifact.json''"
    unfolding evidence_path_def by (rule basename_resolved) (simp add: plain_file_def)
  then have "archive_path i p \<noteq> evidence_path i" using base by (auto simp: name cAbiArchiveFilename_def)
  note disk = written_archive [OF this, of env]
  obtain entries where parsed: "parseTarGz (ca_zlib env) (pt_archive p) = Inr entries"
    and contents: "archive_contents ?env (pt_evidence p) target entries = Inr ()"
    using built_archive [OF common' table metadata evidence _ _ license] archive gzip json by auto
  have plain: "isPlainObject common" using common by (simp add: common_fields_def)
  have e: "fld (pt_evidence p) k = (if k = ''archive'' then js_file_record (JStr (pt_archiveFilename p)) (cabi_sha256 env (pt_archive p))
      else fld common k)" for k
    unfolding evidence by (rule fld_js_spread [OF plain])
  have ids: "fld common ''package_version'' = ti_packageVersion i" "fld common ''mode'' = ti_mode i" "fld common ''release_tag'' = ti_releaseTag i"
    using common by (simp_all add: common_fields_def)
  have sha: "strict_eq (cabi_sha256 env bs) (cabi_sha256 env bs)" for bs by (simp add: cabi_sha256_def)
  show ?thesis
    by (simp add: validateTargetEvidence_def valid e ids ensureFile_def disk base cAbi_sha_hash [OF hex] gate_checks_ok
        cabi_sha256_file_def cabi_read_def parsed contents sha)
qed

text \<open>
  Property C26. The preparation of a target refuses its own output in two cases only: when the Linux
  library needs a glibc version that is not two numbers, and when the version gate fails at the
  given source root. In every other case the archive and the evidence just written are valid: the
  archive parses back to the files, and all names, digests and metadata agree.
\<close>

theorem prepare_validates:
  assumes "build_target env i = Inr p" and "gzip_law (ca_zlib env)"
    and "hex_digest 64 (se_sha256 (ca_script env))" and "ti_releaseTag i \<noteq> JUndef"
    and "se_parse (ca_script env) (json_file (pt_metadata p)) = Some (pt_metadata p)"
  shows "validateTargetEvidence (write_target env i p) (pt_evidence p) (archive_path i p) (ti_sourceRoot i) True =
    (if \<not> glibc_evidence_ok (pt_evidence p) then Inl (cabi_fail ''Linux glibc evidence is invalid'')
     else bindE (versionGate (write_target env i p) (ti_sourceRoot i) (ti_packageVersion i) (ti_mode i) (ti_releaseTag i))
       (\<lambda>_. Inr (pt_evidence p)))"
  by (rule prepared_target_validates [OF assms])

section \<open>A prepared target\<close>

definition sample_cargo :: "string \<Rightarrow> string" where
  "sample_cargo name = ''[package]'' @ [CHR 0x0A] @ ''name = '' @ [CHR 0x22] @ name @ [CHR 0x22, CHR 0x0A] @
     ''version = '' @ [CHR 0x22] @ ''0.2.0'' @ [CHR 0x22]"

text \<open>The texts of the version sources stand for their one byte.\<close>

definition sample_paths :: "(string \<times> byte list) list" where
  "sample_paths =
     [(''/r/crates/core/Cargo.toml'', [1]), (''/r/crates/c-abi/Cargo.toml'', [2]), (''/r/crates/node/Cargo.toml'', [3]),
      (''/r/crates/wasm/Cargo.toml'', [4]), (''/r/packages/wallet-core/package.json'', [5]),
      (''/i/'' @ HEADER_FILENAME, [104]), (''/i/LICENSE'', utf8_bytes PROJECT_COPYRIGHT_NOTICE),
      (''/i/libsymbol_nem_wallet_core_native.a'', [97]), (''/i/libsymbol_nem_wallet_core_native.dylib'', [100])]"

definition sample_text :: "byte list \<Rightarrow> string" where
  "sample_text bytes =
     (if bytes = [1] then sample_cargo ''symbol-nem-wallet-core''
      else if bytes = [2] then sample_cargo ''symbol-nem-wallet-core-native''
      else if bytes = [3] then sample_cargo ''symbol-nem-wallet-core-node''
      else if bytes = [4] then sample_cargo ''symbol-nem-wallet-core-wasm'' else ''{}'')"

definition sample_cabi_env :: "(byte list \<Rightarrow> js option) \<Rightarrow> cabi_env" where
  "sample_cabi_env parse = \<lparr>
     ca_script = \<lparr>se_fs = \<lparr>fs_read = map_of sample_paths, fs_stat = (\<lambda>_. Some RegularFile), fs_list = (\<lambda>_. None)\<rparr>,
       se_sha256 = toy_digest, se_sha1 = toy_digest, se_parse = parse, se_text = sample_text,
       se_collate = (\<lambda>_ _. 0), se_root = ''/r''\<rparr>,
     ca_json = (\<lambda>_. Some (JObj [(''name'', JStr NPM_PACKAGE_NAME), (''version'', JStr ''0.2.0'')])),
     ca_zlib = stored_zlib, ca_readelf = (\<lambda>_. NotRun)\<rparr>"

definition sample_target_input :: target_input where
  "sample_target_input = \<lparr>ti_targetId = JStr ''darwin-x64'', ti_rustTarget = JStr ''x86_64-apple-darwin'',
     ti_runner = JStr ''macos-15-intel'', ti_platform = JStr ''macos-x64'', ti_packageVersion = JStr ''0.2.0'',
     ti_sourceCommit = JStr (replicate 40 CHR ''a''), ti_mode = JStr ''candidate'', ti_releaseTag = JNull,
     ti_toolchainIdentifier = JStr ''rustc 1.88.0'', ti_cargoLockSha256 = JStr (replicate 64 CHR ''0''),
     ti_headerPath = ''/i/'' @ HEADER_FILENAME, ti_licensePath = ''/i/LICENSE'',
     ti_staticLibraryPath = ''/i/libsymbol_nem_wallet_core_native.a'',
     ti_dynamicLibraryPath = ''/i/libsymbol_nem_wallet_core_native.dylib'', ti_companionPaths = [],
     ti_outputDir = ''/o'', ti_sourceRoot = ''/r''\<rparr>"

definition sample_target :: js where
  "sample_target = the (map_of C_ABI_TARGETS ''darwin-x64'')"

definition sample_target_files :: target_files where
  "sample_target_files = \<lparr>tf_header = [104], tf_license = utf8_bytes PROJECT_COPYRIGHT_NOTICE,
     tf_static = [97], tf_dynamic = [100], tf_companions = []\<rparr>"

definition sample_metadata :: js where
  "sample_metadata = (case commonEvidence (sample_cabi_env (\<lambda>_. None)) sample_target sample_target_input sample_target_files None of
      Inl _ \<Rightarrow> JUndef
    | Inr common \<Rightarrow> js_spread common ''archive''
        (JObj [(''filename'', JStr (cAbiArchiveFilename ''0.2.0'' ''darwin-x64''))]))"

definition sample_env :: cabi_env where
  "sample_env = sample_cabi_env (\<lambda>_. Some sample_metadata)"

lemma collect_sources_cong:
  "list_all (\<lambda>s. f (posix_resolve root [vs_relativePath s]) = g (posix_resolve root [vs_relativePath s])) RELEASE_VERSION_SOURCES \<Longrightarrow>
   collectReleaseVersionSources parse root f = collectReleaseVersionSources parse root g"
  by (simp add: collectReleaseVersionSources_def collect_source_def RELEASE_VERSION_SOURCES_def)

lemma sample_gate:
  assumes "ca_json env = ca_json sample_env" "se_text (ca_script env) = sample_text"
    and "list_all (\<lambda>s. se_read (ca_script env) (posix_resolve ''/r'' [vs_relativePath s]) =
      map_of sample_paths (posix_resolve ''/r'' [vs_relativePath s])) RELEASE_VERSION_SOURCES"
  shows "\<exists>versions. versionGate env ''/r'' (JStr ''0.2.0'') (JStr ''candidate'') JNull = Inr versions"
proof -
  have "collectReleaseVersionSources (\<lambda>_. Some (JObj [(''name'', JStr NPM_PACKAGE_NAME), (''version'', JStr ''0.2.0'')])) ''/r''
      (\<lambda>path. map_option sample_text (map_of sample_paths path)) =
    Inr (JObj (map (\<lambda>s. (vs_id s, JObj [(''relative_path'', JStr (vs_relativePath s)),
      (''package_name'', JStr (vs_packageName s)), (''version'', JStr ''0.2.0'')])) RELEASE_VERSION_SOURCES))"
    by code_simp
  moreover have "isValidSemVer (JStr ''0.2.0'')" by code_simp
  moreover have "collectReleaseVersionSources (ca_json env) ''/r''
      (\<lambda>path. map_option (se_text (ca_script env)) (se_read (ca_script env) path)) =
    collectReleaseVersionSources (ca_json env) ''/r'' (\<lambda>path. map_option sample_text (map_of sample_paths path))"
    by (rule collect_sources_cong) (use assms(2,3) in \<open>simp add: list_all_iff\<close>)
  ultimately show ?thesis
    using assms(1) by (simp add: sample_env_def versionGate_def sample_cabi_env_def is_mode_def MODE_VALUES_def RELEASE_VERSION_SOURCES_def)
qed

lemma sample_sources:
  "\<exists>versions. versionGate (sample_cabi_env ps) ''/r'' (JStr ''0.2.0'') (JStr ''candidate'') JNull = Inr versions"
  by (rule sample_gate) (simp_all add: sample_env_def sample_cabi_env_def se_read_def list_all_iff)

lemma sample_inputs: "validateTargetInputs (sample_cabi_env ps) sample_target_input = Inr sample_target"
proof -
  have "cAbiTarget (ti_targetId sample_target_input) = Inr sample_target" by code_simp
  moreover have "strict_eq (fld sample_target ''rust_target'') (ti_rustTarget sample_target_input)"
    "strict_eq (fld sample_target ''runner'') (ti_runner sample_target_input)"
    "strict_eq (fld sample_target ''platform'') (ti_platform sample_target_input)" "sample_target \<noteq> JUndef"
    "isValidCommit (ti_sourceCommit sample_target_input)" "is_hash (ti_cargoLockSha256 sample_target_input)"
    by code_simp+
  moreover have "se_root (ca_script (sample_cabi_env ps)) = ''/r''" by (simp add: sample_cabi_env_def)
  ultimately show ?thesis
    using sample_sources [of ps] by (auto simp: validateTargetInputs_def gate_checks_ok Let_def sample_target_input_def)
qed

lemma sample_files: "read_target_files (sample_cabi_env ps) sample_target_input = Inr sample_target_files"
proof -
  have "validateProjectLicense (utf8_bytes PROJECT_COPYRIGHT_NOTICE) = Inr ()" by code_simp
  moreover have "map utf8_encode_point (replace_crlf (utf8_decode [104])) = [[104]]" by code_simp
  ultimately show ?thesis
    by (simp add: read_target_files_def canonicalTextBytes_def cabi_read_def se_read_def sample_cabi_env_def
        sample_target_input_def sample_paths_def sample_target_files_def HEADER_FILENAME_def)
qed

lemma sample_companions: "fld sample_target ''companion_libraries'' = JArr []" "fld sample_target ''glibc_baseline'' = JUndef"
  by code_simp+

lemma sample_common: "commonEvidence (sample_cabi_env ps) sample_target sample_target_input sample_target_files None =
    commonEvidence (sample_cabi_env (\<lambda>_. None)) sample_target sample_target_input sample_target_files None"
  by (simp add: commonEvidence_def sample_companions cabi_sha256_def sample_cabi_env_def)

lemma sample_common_Inr:
  "\<exists>common. commonEvidence (sample_cabi_env ps) sample_target sample_target_input sample_target_files None = Inr common \<and>
     sample_metadata = js_spread common ''archive'' (JObj [(''filename'', JStr (cAbiArchiveFilename ''0.2.0'' ''darwin-x64''))])"
proof -
  have "\<exists>common. commonEvidence (sample_cabi_env (\<lambda>_. None)) sample_target sample_target_input sample_target_files None = Inr common"
    by (simp add: commonEvidence_def sample_companions)
  then show ?thesis by (auto simp: sample_common [of ps] sample_metadata_def)
qed

lemma sample_metadata_size: "length (the (json_pretty 0 sample_metadata)) < 3000" "json_pretty 0 sample_metadata \<noteq> None"
  by code_simp+

lemma utf8_bytes_length: "length (utf8_bytes s) \<le> 2 * length s"
  by (induction s) (auto simp: utf8_bytes_def utf8_char_def Let_def)

lemma sample_archivable: "list_all archivable (expectedArchiveEntries sample_target sample_metadata sample_target_files)"
proof -
  have safe: "\<not> unsafe_path (JStr (''include/'' @ HEADER_FILENAME))" "\<not> unsafe_path (JStr LICENSE_FILENAME)" "\<not> unsafe_path (JStr METADATA_PATH)"
    "\<not> unsafe_path (JStr (''lib/static/'' @ str_of (fld sample_target ''static_library'')))"
    "\<not> unsafe_path (JStr (''lib/dynamic/'' @ str_of (fld sample_target ''dynamic_library'')))"
    by code_simp+
  have names: "length (str_of (fld sample_target ''static_library'')) \<le> 50" "length (str_of (fld sample_target ''dynamic_library'')) \<le> 50"
    by code_simp+
  have "length (json_file sample_metadata) < 8 ^ 11"
  proof -
    obtain s where s: "json_pretty 0 sample_metadata = Some s" "length s < 3000" using sample_metadata_size by auto
    then show ?thesis using utf8_bytes_length [of "s @ [CHR 0x0A]"] by (simp add: json_file_def)
  qed
  moreover have "length (utf8_bytes PROJECT_COPYRIGHT_NOTICE) < 8 ^ 11"
    using utf8_bytes_length [of PROJECT_COPYRIGHT_NOTICE] by (simp add: PROJECT_COPYRIGHT_NOTICE_def)
  ultimately show ?thesis
    using safe names by (simp add: archivable_def expectedArchiveEntries_def sample_companions sample_target_files_def
        HEADER_FILENAME_def LICENSE_FILENAME_def METADATA_PATH_def)
qed

lemma sample_build: "\<exists>p. build_target sample_env sample_target_input = Inr p \<and> pt_metadata p = sample_metadata \<and>
    pt_archiveFilename p = cAbiArchiveFilename ''0.2.0'' ''darwin-x64'' \<and> glibc_evidence_ok (pt_evidence p)"
proof -
  obtain common where common: "commonEvidence sample_env sample_target sample_target_input sample_target_files None = Inr common"
    and m: "sample_metadata = js_spread common ''archive'' (JObj [(''filename'', JStr (cAbiArchiveFilename ''0.2.0'' ''darwin-x64''))])"
    using sample_common_Inr [of "\<lambda>_. Some sample_metadata"] unfolding sample_env_def by blast
  have "distinct (map fst (expectedArchiveEntries sample_target sample_metadata sample_target_files))"
    by (simp add: expectedArchiveEntries_def sample_companions) code_simp
  then obtain archive where "createTarGz (ca_zlib sample_env) (expectedArchiveEntries sample_target sample_metadata sample_target_files) = Inr archive"
    using archive_exists sample_archivable by blast
  moreover have "has_forbidden_suffix (posix_basename (ti_staticLibraryPath sample_target_input)) = False"
    "has_forbidden_suffix (posix_basename (ti_dynamicLibraryPath sample_target_input)) = False"
    "posix_basename (ti_headerPath sample_target_input) = HEADER_FILENAME"
    "posix_basename (ti_licensePath sample_target_input) = LICENSE_FILENAME"
    by code_simp+
  moreover have "ensureFile sample_env path = Inr ()" for path by (simp add: ensureFile_def sample_env_def sample_cabi_env_def)
  moreover have "ti_companionPaths sample_target_input = []" "ti_targetId sample_target_input = JStr ''darwin-x64''"
    "ti_packageVersion sample_target_input = JStr ''0.2.0''"
    by (simp_all add: sample_target_input_def)
  moreover have "glibc_evidence_ok (js_spread common ''archive'' v)" for v
    using common by (auto simp: commonEvidence_def sample_companions js_spread_def glibc_evidence_ok_def split: js.split)
  ultimately show ?thesis
    using common m sample_files [of "\<lambda>_. Some sample_metadata"] sample_inputs [of "\<lambda>_. Some sample_metadata"]
    by (simp add: build_target_def sample_companions target_glibc_def Let_def str_or_throw_def flip: sample_env_def)
qed

theorem prepare_validates_witness:
  "\<exists>p. build_target sample_env sample_target_input = Inr p \<and>
     validateTargetEvidence (write_target sample_env sample_target_input p) (pt_evidence p) (archive_path sample_target_input p)
       ''/r'' True = Inr (pt_evidence p)"
proof -
  obtain p where p: "build_target sample_env sample_target_input = Inr p" "pt_metadata p = sample_metadata"
    and ok: "glibc_evidence_ok (pt_evidence p)" and name: "pt_archiveFilename p = cAbiArchiveFilename ''0.2.0'' ''darwin-x64''"
    using sample_build by blast
  have "gzip_law (ca_zlib sample_env)" "hex_digest 64 (se_sha256 (ca_script sample_env))"
    "se_parse (ca_script sample_env) (json_file (pt_metadata p)) = Some (pt_metadata p)"
    using stored_zlib_law toy_digest_hex p(2) by (simp_all add: sample_env_def sample_cabi_env_def)
  moreover have "ti_releaseTag sample_target_input \<noteq> JUndef" by (simp add: sample_target_input_def)
  moreover have "\<exists>versions. versionGate (write_target sample_env sample_target_input p) ''/r'' (JStr ''0.2.0'') (JStr ''candidate'') JNull = Inr versions"
  proof (rule sample_gate)
    have "posix_resolve ''/r'' [vs_relativePath s] \<noteq> archive_path sample_target_input p"
      "posix_resolve ''/r'' [vs_relativePath s] \<noteq> evidence_path sample_target_input" if "s \<in> set RELEASE_VERSION_SOURCES" for s
    proof -
      have "list_all (\<lambda>s. posix_resolve ''/r'' [vs_relativePath s] \<notin>
          {posix_resolve ''/o'' [cAbiArchiveFilename ''0.2.0'' ''darwin-x64''], posix_resolve ''/o'' [''c-abi-artifact.json'']}) RELEASE_VERSION_SOURCES"
        by code_simp
      then show "posix_resolve ''/r'' [vs_relativePath s] \<noteq> archive_path sample_target_input p"
        "posix_resolve ''/r'' [vs_relativePath s] \<noteq> evidence_path sample_target_input"
        using that by (auto simp: list_all_iff archive_path_def evidence_path_def name sample_target_input_def)
    qed
    then show "list_all (\<lambda>s. se_read (ca_script (write_target sample_env sample_target_input p)) (posix_resolve ''/r'' [vs_relativePath s]) =
        map_of sample_paths (posix_resolve ''/r'' [vs_relativePath s])) RELEASE_VERSION_SOURCES"
      by (simp add: list_all_iff write_target_def write_file_def se_read_def sample_env_def sample_cabi_env_def)
  qed (simp_all add: write_target_def sample_env_def sample_cabi_env_def)
  ultimately show ?thesis
    using prepare_validates [OF p(1)] ok p(1) by (auto simp: sample_target_input_def)
qed

end
