(* ===== verification/JsonInj.thy ===== *)
theory JsonInj
  imports JsonText
begin

text \<open>A quoted text can be read back, so that two lists of strings with one JSON text are equal.\<close>

definition json_unescape :: "char \<Rightarrow> char" where
  "json_unescape y = (if y = CHR ''b'' then CHR 0x08 else if y = CHR ''t'' then CHR 0x09 else if y = CHR ''n'' then CHR 0x0A
     else if y = CHR ''f'' then CHR 0x0C else if y = CHR ''r'' then CHR 0x0D else y)"

definition json_hex :: "char \<Rightarrow> nat" where
  "json_hex d = (let n = of_char d in if n < 58 then n - 48 else n - 87)"

definition json_read :: "string \<Rightarrow> char \<times> string" where
  "json_read s =
     (if hd s \<noteq> CHR 0x5C then (hd s, tl s)
      else if s ! 1 \<noteq> CHR ''u'' then (json_unescape (s ! 1), drop 2 s)
      else (char_of (16 * json_hex (s ! 4) + json_hex (s ! 5)), drop 6 s))"

lemma json_hex_digit: "m < 10 \<Longrightarrow> json_hex (char_of (m + 48 :: nat)) = m" "10 \<le> m \<Longrightarrow> m < 16 \<Longrightarrow> json_hex (char_of (m + 87 :: nat)) = m"
  by (simp_all add: json_hex_def Let_def)

lemma json_read_unicode: "json_read ([CHR 0x5C, CHR ''u'', CHR ''0'', CHR ''0'', x, y] @ r) = (char_of (16 * json_hex x + json_hex y), r)"
  by (simp add: json_read_def)

lemma json_read_escape:
  "y \<noteq> CHR ''u'' \<Longrightarrow> json_read ([CHR 0x5C, y] @ r) = (json_unescape y, r)"
  by (simp add: json_read_def)

lemma char_is: "of_char c = (of_char d :: nat) \<Longrightarrow> c = d"
  by simp

lemma json_char_controls:
  "json_char CHR 0x08 = [CHR 0x5C, CHR ''b'']" "json_char CHR 0x09 = [CHR 0x5C, CHR ''t'']" "json_char CHR 0x0A = [CHR 0x5C, CHR ''n'']"
  "json_char CHR 0x0C = [CHR 0x5C, CHR ''f'']" "json_char CHR 0x0D = [CHR 0x5C, CHR ''r'']"
  by code_simp+

lemma json_read_char: "json_read (json_char c @ r) = (c, r)"
proof -
  define n where "n = (of_char c :: nat)"
  consider "c = CHR 0x22 \<or> c = CHR 0x5C" | "n \<in> {8, 9, 10, 12, 13}" | "n < 32" "n \<notin> {8, 9, 10, 12, 13}"
    | "32 \<le> n" "c \<noteq> CHR 0x22" "c \<noteq> CHR 0x5C" by force
  then show ?thesis
  proof cases
    case 1
    then show ?thesis by (auto simp: json_char_def Let_def json_read_def json_unescape_def)
  next
    case 2
    then have "c \<in> {CHR 0x08, CHR 0x09, CHR 0x0A, CHR 0x0C, CHR 0x0D}" 
      using n_def char_is [of c "CHR 0x08"] char_is [of c "CHR 0x09"] char_is [of c "CHR 0x0A"] char_is [of c "CHR 0x0C"]
        char_is [of c "CHR 0x0D"] by auto
    then show ?thesis
      by (elim insertE emptyE) (simp_all only: json_char_controls json_read_escape char.inject simp_thms, simp_all add: json_read_escape json_unescape_def)
  next
    case 3
    then have "c \<noteq> CHR 0x22" "c \<noteq> CHR 0x5C" using n_def by auto
    with 3 have "json_char c = [CHR 0x5C, CHR ''u'', CHR ''0'', CHR ''0'', char_of (n div 16 + 48),
        char_of (if n mod 16 < 10 then n mod 16 + 48 else n mod 16 + 87)]"
      by (simp add: json_char_def Let_def flip: n_def)
    moreover have "json_hex (char_of (n div 16 + 48)) = n div 16" using 3 by (intro json_hex_digit) auto
    moreover have "json_hex (char_of (if n mod 16 < 10 then n mod 16 + 48 else n mod 16 + 87)) = n mod 16"
      using json_hex_digit [of "n mod 16"] by simp
    moreover have "16 * (n div 16) + n mod 16 = n" by simp
    ultimately show ?thesis by (simp only: json_read_unicode) (simp add: n_def)
  next
    case 4
    then show ?thesis by (auto simp: json_char_def Let_def json_read_def n_def)
  qed
qed

lemma json_char_start: "hd (json_char c @ r) \<noteq> CHR 0x22"
  by (simp add: json_char_def Let_def)

lemma json_chars_inj:
  "concat (map json_char s) @ CHR 0x22 # r = concat (map json_char t) @ CHR 0x22 # q \<Longrightarrow> s = t \<and> r = q"
proof (induction s arbitrary: t)
  case Nil
  then show ?case
  proof (cases t)
    case (Cons d t')
    with Nil have "hd (json_char d @ concat (map json_char t') @ CHR 0x22 # q) = CHR 0x22"
      by (metis append_Nil append_assoc concat.simps list.map list.sel(1))
    then show ?thesis using json_char_start by blast
  qed simp
next
  case (Cons c s)
  show ?case
  proof (cases t)
    case Nil
    with Cons.prems have "hd (json_char c @ concat (map json_char s) @ CHR 0x22 # r) = CHR 0x22" by simp
    then show ?thesis using json_char_start by blast
  next
    case (Cons d t')
    with Cons.prems have "json_char c @ (concat (map json_char s) @ CHR 0x22 # r) = json_char d @ (concat (map json_char t') @ CHR 0x22 # q)"
      by simp
    then have "c = d" and "concat (map json_char s) @ CHR 0x22 # r = concat (map json_char t') @ CHR 0x22 # q"
      by (metis json_read_char prod.inject)+
    then show ?thesis using Cons.IH Cons by blast
  qed
qed

lemma json_quote_inj: "json_quote s @ r = json_quote t @ q \<Longrightarrow> s = t \<and> r = q"
  using json_chars_inj [of s r t q] by (simp add: json_quote_def)

lemma json_quotes_inj: "join '','' (map json_quote xs) = join '','' (map json_quote ys) \<Longrightarrow> xs = ys"
proof (induction xs arbitrary: ys)
  case Nil
  then show ?case by (cases ys; cases "tl ys") (auto simp: json_quote_def)
next
  case (Cons x xs)
  have split: "join '','' (map json_quote (z # zs)) = json_quote z @ (if zs = [] then [] else '','' @ join '','' (map json_quote zs))" for z zs
    by (cases zs) auto
  from Cons.prems obtain y ys' where ys: "ys = y # ys'"
  proof (cases ys)
    case Nil
    then have "json_quote x @ (if xs = [] then [] else '','' @ join '','' (map json_quote xs)) = []"
      using Cons.prems unfolding split by simp
    then show ?thesis by (simp add: json_quote_def)
  qed
  have "json_quote x @ (if xs = [] then [] else '','' @ join '','' (map json_quote xs)) =
      json_quote y @ (if ys' = [] then [] else '','' @ join '','' (map json_quote ys'))"
    using Cons.prems unfolding ys split .
  then have "x = y" and r: "(if xs = [] then [] else '','' @ join '','' (map json_quote xs)) =
      (if ys' = [] then [] else '','' @ join '','' (map json_quote ys'))"
    using json_quote_inj by blast+
  from r have "xs = ys'" using Cons.IH [of ys'] by (auto split: if_splits)
  with \<open>x = y\<close> ys show ?case by simp
qed

lemma json_same_strings [simp]: "json_same (JArr (map JStr xs)) (JArr (map JStr ys)) \<longleftrightarrow> xs = ys"
  using json_quotes_inj [of xs ys] by (auto simp: json_same_def o_def)

end
