(* ===== verification/GithubRelease.thy ===== *)
theory GithubRelease
  imports JsonInj
begin

text \<open>
  The publication of the GitHub Release, \<open>github-release.mjs\<close>: the check of the release's
  metadata, the plan of the assets still to be uploaded and the verification of the published
  bytes. The directory of the assets, SHA-256, the token of the environment and the answers of
  GitHub are parameters; the temporary copies of the downloads, which are removed at the end, and
  the command line are left out.
\<close>

section \<open>The environment\<close>

text \<open>An answer to a download: no answer, a status that is not a success, or a body that may be unreadable.\<close>

datatype asset_response = RequestFailed | HttpError int | AssetBody "byte list option"

record github_env =
  gh_fs :: file_system
  gh_sha256 :: "byte list \<Rightarrow> string"
  gh_root :: string
  gh_token :: "string option"
  gh_fetch :: "string \<Rightarrow> asset_response"

definition GITHUB_API :: string where "GITHUB_API = ''https://api.github.com''"
definition REPOSITORY :: string where "REPOSITORY = ''nemnesia/symbol-nem-wallet-core''"

definition gh_fail :: "string \<Rightarrow> js_error" where
  "gh_fail message = Fail (''GitHub Release gate failed: '' @ message)"

definition gh_read :: "github_env \<Rightarrow> string \<Rightarrow> byte list res" where
  "gh_read env path = (case fs_read (gh_fs env) path of None \<Rightarrow> Inl (Fail ''ENOENT'') | Some bytes \<Rightarrow> Inr bytes)"

section \<open>Local assets\<close>

definition filesUnder :: "github_env \<Rightarrow> string \<Rightarrow> string list res" where
  "filesUnder env root =
     (if fs_stat (gh_fs env) root \<noteq> Some Directory then Inl (gh_fail (''asset directory is missing: '' @ root))
      else (case fs_list (gh_fs env) root of
          None \<Rightarrow> Inl (Fail ''ENOENT'')
        | Some entries \<Rightarrow>
            bindE (mapE (\<lambda>(name, kind).
                if kind \<noteq> RegularFile then Inl (gh_fail (''asset directory contains a non-file entry: '' @ name))
                else Inr name) entries) (\<lambda>names. Inr (sort names))))"

definition local_digest :: "github_env \<Rightarrow> string \<Rightarrow> string \<Rightarrow> (string \<times> string) res" where
  "local_digest env root name =
     bindE (gh_read env (posix_resolve root [name])) (\<lambda>bytes. Inr (name, gh_sha256 env bytes))"

definition localAssetDigests :: "github_env \<Rightarrow> string \<Rightarrow> (string \<times> string) list res" where
  "localAssetDigests env assetRoot = bindE (filesUnder env assetRoot) (mapE (local_digest env assetRoot))"

text \<open>\<open>Object.keys(local).sort()\<close>.\<close>

definition local_names :: "(string \<times> string) list \<Rightarrow> string list" where
  "local_names locals = sort (remdups (map fst locals))"

section \<open>The release\<close>

definition asset_name :: "js \<Rightarrow> js" where
  "asset_name asset = fld asset ''name''"

definition release_bound :: "js \<Rightarrow> js \<Rightarrow> js \<Rightarrow> js \<Rightarrow> bool" where
  "release_bound release repository tag sourceCommit \<longleftrightarrow>
     isPlainObject release \<and> strict_eq (fld release ''tag_name'') tag \<and>
     strict_eq (fld release ''target_commitish'') sourceCommit \<and>
     strict_eq (fld release ''draft'') (JBool False) \<and> strict_eq (fld release ''prerelease'') (JBool False) \<and>
     (fld (fld release ''repository'') ''full_name'' = JUndef \<or>
      strict_eq (fld (fld release ''repository'') ''full_name'') repository)"

definition validateReleaseMetadata :: "js \<Rightarrow> js \<Rightarrow> js \<Rightarrow> js \<Rightarrow> unit res" where
  "validateReleaseMetadata release repository tag sourceCommit =
     gate_checks gh_fail
       [(strict_eq repository (JStr REPOSITORY), ''GitHub repository is not the approved release repository''),
        (release_bound release repository tag sourceCommit,
         ''GitHub Release metadata is not bound to the exact tag, source commit, or formal release state''),
        (is_arr (fld release ''assets''), ''GitHub Release asset metadata is missing''),
        (list_all is_str (map asset_name (elems (fld release ''assets''))) \<and>
         distinct (map asset_name (elems (fld release ''assets''))),
         ''GitHub Release asset names are duplicated or malformed'')]"

text \<open>\<open>new Map(release.assets.map((asset) => [asset.name, asset]))\<close>; the names are strings and distinct.\<close>

definition remoteByName :: "js \<Rightarrow> (string \<times> js) list" where
  "remoteByName release = map (\<lambda>asset. (str_of (asset_name asset), asset)) (elems (fld release ''assets''))"

section \<open>The plan\<close>

definition digest_ok :: "(string \<times> string) list \<Rightarrow> string \<times> js \<Rightarrow> bool" where
  "digest_ok locals entry = (case entry of (name, asset) \<Rightarrow>
     (case fld asset ''digest'' of
        JStr d \<Rightarrow> starts_with ''sha256:'' d \<and> rx_test hash_pattern (drop 7 d) \<and> Some (drop 7 d) = map_of locals name
      | _ \<Rightarrow> True))"

fun digest_loop :: "(string \<times> string) list \<Rightarrow> (string \<times> js) list \<Rightarrow> unit res" where
  "digest_loop locals [] = Inr ()"
| "digest_loop locals (e # es) =
     (if \<not> digest_ok locals e then Inl (gh_fail (''GitHub Release asset digest differs: '' @ fst e))
      else digest_loop locals es)"

record asset_plan =
  ap_missing :: "string list"
  ap_existing :: int
  ap_asset_count :: nat

definition planMissingAssets :: "github_env \<Rightarrow> js \<Rightarrow> string \<Rightarrow> js \<Rightarrow> js \<Rightarrow> js \<Rightarrow> asset_plan res" where
  "planMissingAssets env release assetRoot repository tag sourceCommit =
     bindE (validateReleaseMetadata release repository tag sourceCommit) (\<lambda>_.
     bindE (localAssetDigests env (posix_resolve (gh_root env) [assetRoot])) (\<lambda>locals.
     let localNames = local_names locals;
         extras = filter (\<lambda>n. n \<notin> fst ` set locals) (map fst (remoteByName release)) in
     if extras \<noteq> [] then Inl (gh_fail (''GitHub Release contains unexpected assets: '' @ join '', '' extras))
     else
     bindE (digest_loop locals (remoteByName release)) (\<lambda>_.
     let missing = filter (\<lambda>n. n \<notin> fst ` set (remoteByName release)) localNames in
       Inr \<lparr>ap_missing = missing, ap_existing = int (length localNames) - int (length missing), ap_asset_count = length localNames\<rparr>)))"

text \<open>The list of the missing assets that is written for the upload.\<close>

definition missing_text :: "string list \<Rightarrow> string" where
  "missing_text missing = join [CHR 0x0A] missing @ (if missing = [] then [] else [CHR 0x0A])"

section \<open>The verification\<close>

definition asset_url :: "string \<Rightarrow> int \<Rightarrow> string" where
  "asset_url repository i = GITHUB_API @ ''/repos/'' @ repository @ ''/releases/assets/'' @ num_str (num_of_int i)"

definition downloadRemoteAsset :: "github_env \<Rightarrow> string \<Rightarrow> int \<Rightarrow> byte list res" where
  "downloadRemoteAsset env repository i =
     (case gh_token env of
        None \<Rightarrow> Inl (gh_fail ''GH_TOKEN is unavailable for GitHub Release verification'')
      | Some token \<Rightarrow>
          if token = [] then Inl (gh_fail ''GH_TOKEN is unavailable for GitHub Release verification'')
          else (case gh_fetch env (asset_url repository i) of
              RequestFailed \<Rightarrow> Inl (gh_fail ''GitHub Release asset download failed'')
            | HttpError status \<Rightarrow> Inl (gh_fail ''GitHub Release asset download returned an HTTP error'')
            | AssetBody None \<Rightarrow> Inl (gh_fail ''GitHub Release asset bytes are unreadable'')
            | AssetBody (Some bytes) \<Rightarrow> Inr bytes))"

text \<open>\<open>Number.isInteger(asset.id)\<close>.\<close>

definition asset_id :: "js \<Rightarrow> int option" where
  "asset_id asset = (case fld asset ''id'' of JNum n \<Rightarrow> if num_is_integer n then Some (num_int n) else None | _ \<Rightarrow> None)"

definition verify_asset ::
  "github_env \<Rightarrow> string \<Rightarrow> string \<Rightarrow> (string \<times> string) list \<Rightarrow> (string \<times> js) list \<Rightarrow> string \<Rightarrow> unit res" where
  "verify_asset env repository root locals remote name =
     (case map_of remote name of
        None \<Rightarrow> Inl TypeErr
      | Some asset \<Rightarrow>
          (case asset_id asset of
             None \<Rightarrow> Inl (gh_fail (''GitHub Release asset id is invalid: '' @ name))
           | Some i \<Rightarrow>
               bindE (downloadRemoteAsset env repository i) (\<lambda>bytes.
               bindE (gh_read env (posix_resolve root [name])) (\<lambda>local.
               gate_checks gh_fail
                 [(length bytes = length local \<and> Some (gh_sha256 env bytes) = map_of locals name,
                   ''GitHub Release asset bytes differ: '' @ name),
                  (case fld asset ''digest'' of JStr d \<Rightarrow> Some d = map_option (\<lambda>h. ''sha256:'' @ h) (map_of locals name) | _ \<Rightarrow> True,
                   ''GitHub Release asset digest differs: '' @ name)]))))"

definition verifyReleaseAssets :: "github_env \<Rightarrow> js \<Rightarrow> string \<Rightarrow> js \<Rightarrow> js \<Rightarrow> js \<Rightarrow> string list res" where
  "verifyReleaseAssets env release assetRoot repository tag sourceCommit =
     bindE (validateReleaseMetadata release repository tag sourceCommit) (\<lambda>_.
     let root = posix_resolve (gh_root env) [assetRoot] in
     bindE (localAssetDigests env root) (\<lambda>locals.
     let localNames = local_names locals; remoteNames = sort (map fst (remoteByName release)) in
     if \<not> json_same (JArr (map JStr localNames)) (JArr (map JStr remoteNames))
     then Inl (gh_fail ''GitHub Release asset set differs from the exact local set'')
     else
     bindE (mapE (verify_asset env (str_of repository) root locals (remoteByName release)) localNames) (\<lambda>_. Inr localNames)))"

section \<open>What is verified\<close>

text \<open>
  The asset of a name is served: its id is a number, and with the token the download of the asset
  of that id succeeds with the bytes.
\<close>

definition release_asset :: "js \<Rightarrow> string \<Rightarrow> js \<Rightarrow> bool" where
  "release_asset release name asset \<longleftrightarrow> asset \<in> set (elems (fld release ''assets'')) \<and> fld asset ''name'' = JStr name"

definition served :: "github_env \<Rightarrow> js \<Rightarrow> byte list \<Rightarrow> bool" where
  "served env asset bytes \<longleftrightarrow>
     (\<exists>token m. gh_token env = Some token \<and> token \<noteq> [] \<and> fld asset ''id'' = JNum m \<and> num_is_integer m \<and>
        gh_fetch env (''https://api.github.com/repos/nemnesia/symbol-nem-wallet-core/releases/assets/'' @ num_str (num_of_int (num_int m))) =
          AssetBody (Some bytes))"

text \<open>
  The asset of a name is the local file: it is served with bytes of the digest and the length of the
  file, and a digest that GitHub states is the digest of the file.
\<close>

definition published :: "github_env \<Rightarrow> string \<Rightarrow> js \<Rightarrow> string \<Rightarrow> bool" where
  "published env root release name \<longleftrightarrow>
     (\<exists>asset bytes content.
        release_asset release name asset \<and> served env asset bytes \<and>
        fs_read (gh_fs env) (posix_resolve root [name]) = Some content \<and>
        length bytes = length content \<and> gh_sha256 env bytes = gh_sha256 env content \<and>
        (case fld asset ''digest'' of JStr d \<Rightarrow> d = ''sha256:'' @ gh_sha256 env content | _ \<Rightarrow> True))"

text \<open>
  The metadata of a formal release of a tag and a commit in the repository, with assets of these
  names, each once; and a directory that holds these files and nothing else.
\<close>

definition release_of :: "js \<Rightarrow> string \<Rightarrow> string \<Rightarrow> string list \<Rightarrow> bool" where
  "release_of release tag commit names \<longleftrightarrow>
     isPlainObject release \<and> fld release ''tag_name'' = JStr tag \<and> fld release ''target_commitish'' = JStr commit \<and>
     fld release ''draft'' = JBool False \<and> fld release ''prerelease'' = JBool False \<and>
     fld (fld release ''repository'') ''full_name'' \<in> {JUndef, JStr ''nemnesia/symbol-nem-wallet-core''} \<and>
     (\<exists>assets. fld release ''assets'' = JArr assets \<and> map (\<lambda>a. fld a ''name'') assets = map JStr names) \<and> distinct names"

definition holds_files :: "github_env \<Rightarrow> string \<Rightarrow> string list \<Rightarrow> bool" where
  "holds_files env root names \<longleftrightarrow> fs_stat (gh_fs env) root = Some Directory \<and>
     (\<exists>entries. fs_list (gh_fs env) root = Some entries \<and> set names = fst ` set entries \<and> snd ` set entries \<subseteq> {RegularFile})"

lemma asset_served:
  "served env asset bytes \<longleftrightarrow> (\<exists>i token. asset_id asset = Some i \<and>
     gh_token env = Some token \<and> token \<noteq> [] \<and> gh_fetch env (asset_url REPOSITORY i) = AssetBody (Some bytes))"
proof -
  have id: "asset_id asset = Some i \<longleftrightarrow> (\<exists>m. fld asset ''id'' = JNum m \<and> num_is_integer m \<and> i = num_int m)" for i
    by (auto simp: asset_id_def split: js.split)
  show ?thesis unfolding id served_def by (auto simp: asset_url_def GITHUB_API_def REPOSITORY_def)
qed

lemma published_alt:
  "published env root release name \<longleftrightarrow>
     (\<exists>asset i token bytes content.
        release_asset release name asset \<and> asset_id asset = Some i \<and>
        gh_token env = Some token \<and> token \<noteq> [] \<and> gh_fetch env (asset_url REPOSITORY i) = AssetBody (Some bytes) \<and>
        fs_read (gh_fs env) (posix_resolve root [name]) = Some content \<and>
        length bytes = length content \<and> gh_sha256 env bytes = gh_sha256 env content \<and>
        (case fld asset ''digest'' of JStr d \<Rightarrow> d = ''sha256:'' @ gh_sha256 env content | _ \<Rightarrow> True))"
  unfolding published_def asset_served by blast

lemma validateReleaseMetadata_iff:
  "validateReleaseMetadata release (JStr repository) (JStr tag) (JStr commit) = Inr () \<longleftrightarrow>
     repository = REPOSITORY \<and> release_of release tag commit (map fst (remoteByName release))"
proof -
  let ?as = "elems (fld release ''assets'')"
  have name: "asset_name = (\<lambda>a. fld a ''name'')" by (rule ext) (simp add: asset_name_def)
  have "list_all is_str (map asset_name ?as) \<longleftrightarrow> map asset_name ?as = map JStr (map fst (remoteByName release))"
    by (induction ?as) (auto simp: remoteByName_def list_all_iff is_str_iff)
  moreover have "map asset_name ?as = map JStr ns \<Longrightarrow> distinct (map asset_name ?as) \<longleftrightarrow> distinct ns" for ns
    by (simp add: distinct_map inj_on_def)
  ultimately have names: "list_all is_str (map asset_name ?as) \<and> distinct (map asset_name ?as) \<longleftrightarrow>
      map asset_name ?as = map JStr (map fst (remoteByName release)) \<and> distinct (map fst (remoteByName release))" by blast
  show ?thesis
    using names unfolding validateReleaseMetadata_def gate_checks_iff name
    by (auto simp: release_bound_def release_of_def REPOSITORY_def is_arr_iff)
qed

lemma release_of_names: "release_of release tag commit names \<Longrightarrow> map fst (remoteByName release) = names"
proof -
  assume "release_of release tag commit names"
  then have "map (\<lambda>a. fld a ''name'') (elems (fld release ''assets'')) = map JStr names" by (auto simp: release_of_def)
  then have "map str_of (map (\<lambda>a. fld a ''name'') (elems (fld release ''assets''))) = map str_of (map JStr names)" by (rule arg_cong)
  then show ?thesis by (simp add: remoteByName_def asset_name_def comp_def)
qed

lemma gh_read_Inr: "gh_read env path = Inr bytes \<longleftrightarrow> fs_read (gh_fs env) path = Some bytes"
  by (simp add: gh_read_def split: option.split)

lemma local_names_set [simp]: "set (local_names locals) = fst ` set locals"
  by (simp add: local_names_def)

lemma local_names_eq: "distinct ns \<Longrightarrow> local_names locals = sort ns \<longleftrightarrow> set ns = fst ` set locals"
proof
  assume "distinct ns" "set ns = fst ` set locals"
  then show "local_names locals = sort ns" unfolding local_names_def
    by (intro sort_eq_iff [THEN iffD2]) (simp add: set_eq_iff_mset_eq_distinct [symmetric])
next
  assume "local_names locals = sort ns"
  then show "set ns = fst ` set locals" by (metis local_names_set set_sort)
qed

lemma local_digest_Inr:
  "local_digest env root name = Inr d \<longleftrightarrow>
     (\<exists>content. fs_read (gh_fs env) (posix_resolve root [name]) = Some content \<and> d = (name, gh_sha256 env content))"
  by (auto simp: local_digest_def bindE_Inr_iff gh_read_Inr)

lemma localAssetDigests_lookup:
  assumes "localAssetDigests env root = Inr locals"
  shows "map_of locals name = Some h \<longleftrightarrow>
    name \<in> fst ` set locals \<and> (\<exists>content. fs_read (gh_fs env) (posix_resolve root [name]) = Some content \<and> h = gh_sha256 env content)"
proof -
  have digest: "fs_read (gh_fs env) (posix_resolve root [n]) = Some content \<Longrightarrow> (n, h) \<in> set locals \<Longrightarrow> h = gh_sha256 env content" for n h content
    using assms by (auto simp: localAssetDigests_def bindE_Inr_iff mapE_Inr_iff local_digest_Inr dest!: list_all2_right)
  have known: "(n, h) \<in> set locals \<Longrightarrow> \<exists>content. fs_read (gh_fs env) (posix_resolve root [n]) = Some content \<and> h = gh_sha256 env content" for n h
    using assms by (auto simp: localAssetDigests_def bindE_Inr_iff mapE_Inr_iff local_digest_Inr dest!: list_all2_right)
  show ?thesis
  proof
    assume "map_of locals name = Some h"
    then have m: "(name, h) \<in> set locals" by (rule map_of_SomeD)
    then have "name \<in> fst ` set locals" by force
    with known [OF m] show "name \<in> fst ` set locals \<and> (\<exists>content. fs_read (gh_fs env) (posix_resolve root [name]) = Some content \<and> h = gh_sha256 env content)"
      by simp
  next
    assume r: "name \<in> fst ` set locals \<and> (\<exists>content. fs_read (gh_fs env) (posix_resolve root [name]) = Some content \<and> h = gh_sha256 env content)"
    then obtain h' where h': "map_of locals name = Some h'" by (meson map_of_eq_None_iff not_None_eq)
    then have "(name, h') \<in> set locals" by (rule map_of_SomeD)
    then show "map_of locals name = Some h" using digest r h' by auto
  qed
qed

lemma validateReleaseMetadata_names:
  assumes "validateReleaseMetadata release repository tag sourceCommit = Inr ()"
  shows "repository = JStr REPOSITORY" "distinct (map fst (remoteByName release))"
    "map_of (remoteByName release) name = Some asset \<longleftrightarrow> release_asset release name asset"
proof -
  let ?as = "elems (fld release ''assets'')"
  have ok: "list_all is_str (map asset_name ?as)" "distinct (map asset_name ?as)" and "repository = JStr REPOSITORY"
    using assms by (simp_all add: validateReleaseMetadata_def gate_checks_iff)
  then show "repository = JStr REPOSITORY" by simp
  have str: "asset_name a = JStr (str_of (asset_name a))" if "a \<in> set ?as" for a
    using ok(1) that by (auto simp: list_all_iff is_str_iff)
  have "distinct ?as" and inj: "inj_on asset_name (set ?as)" using ok(2) unfolding distinct_map by blast+
  moreover have "inj_on (\<lambda>a. str_of (asset_name a)) (set ?as)"
  proof (rule inj_onI)
    fix a b assume "a \<in> set ?as" "b \<in> set ?as" "str_of (asset_name a) = str_of (asset_name b)"
    then have "asset_name a = asset_name b" using str [of a] str [of b] by simp
    then show "a = b" using inj \<open>a \<in> set ?as\<close> \<open>b \<in> set ?as\<close> by (simp add: inj_on_eq_iff)
  qed
  ultimately show d: "distinct (map fst (remoteByName release))" by (simp add: remoteByName_def distinct_map o_def)
  show "map_of (remoteByName release) name = Some asset \<longleftrightarrow> release_asset release name asset"
    using str unfolding map_of_eq_Some_iff [OF d] by (force simp: remoteByName_def asset_name_def release_asset_def)
qed

lemma verify_asset_iff:
  assumes "validateReleaseMetadata release repository tag sourceCommit = Inr ()" and "localAssetDigests env root = Inr locals"
    and "name \<in> fst ` set locals"
  shows "verify_asset env (str_of repository) root locals (remoteByName release) name = Inr () \<longleftrightarrow>
    published env root release name"
proof -
  note names = validateReleaseMetadata_names [OF assms(1)] and digest = localAssetDigests_lookup [OF assms(2)]
  have d: "Some h = map_of locals name \<longleftrightarrow> (\<exists>content. fs_read (gh_fs env) (posix_resolve root [name]) = Some content \<and> h = gh_sha256 env content)" for h
    using digest [of name h] assms(3) by metis
  have dl: "downloadRemoteAsset env r i = Inr bytes \<longleftrightarrow>
      (\<exists>token. gh_token env = Some token \<and> token \<noteq> []) \<and> gh_fetch env (asset_url r i) = AssetBody (Some bytes)" for r i bytes
    by (auto simp: downloadRemoteAsset_def split: option.splits asset_response.splits)
  show ?thesis
  proof (cases "map_of (remoteByName release) name")
    case None
    then have "\<not> release_asset release name asset" for asset using names(3) by (metis option.distinct(1))
    then show ?thesis using None by (simp add: verify_asset_def published_def)
  next
    case (Some asset)
    then have "release_asset release name a \<longleftrightarrow> a = asset" for a using names(3) by (metis option.inject)
    then have "published env root release name \<longleftrightarrow>
        (\<exists>i bytes content. asset_id asset = Some i \<and> downloadRemoteAsset env REPOSITORY i = Inr bytes \<and>
          fs_read (gh_fs env) (posix_resolve root [name]) = Some content \<and> length bytes = length content \<and>
          gh_sha256 env bytes = gh_sha256 env content \<and>
          (case fld asset ''digest'' of JStr d \<Rightarrow> d = ''sha256:'' @ gh_sha256 env content | _ \<Rightarrow> True))"
      unfolding published_alt dl by auto
    moreover have "(case fld asset ''digest'' of JStr d' \<Rightarrow> Some d' = map_option (\<lambda>h. ''sha256:'' @ h) (map_of locals name) | _ \<Rightarrow> True) \<longleftrightarrow>
        (case fld asset ''digest'' of JStr d \<Rightarrow> d = ''sha256:'' @ gh_sha256 env content | _ \<Rightarrow> True)"
      if "fs_read (gh_fs env) (posix_resolve root [name]) = Some content" for content
      using that digest [of name "gh_sha256 env content"] assms(3) by (auto split: js.split)
    ultimately show ?thesis
      by (auto simp: verify_asset_def names(1) Some bindE_Inr_iff gh_read_Inr gate_checks_iff d split: option.splits)
  qed
qed

lemma verifyReleaseAssets_pass:
  "verifyReleaseAssets env release assetRoot repository tag sourceCommit = Inr names \<longleftrightarrow>
     validateReleaseMetadata release repository tag sourceCommit = Inr () \<and>
     (\<exists>locals. localAssetDigests env (posix_resolve (gh_root env) [assetRoot]) = Inr locals \<and>
        names = local_names locals \<and>
        set (map fst (remoteByName release)) = fst ` set locals \<and>
        list_all (published env (posix_resolve (gh_root env) [assetRoot]) release) names)"
proof -
  let ?root = "posix_resolve (gh_root env) [assetRoot]"
  have A: "(\<exists>us. mapE (verify_asset env (str_of repository) ?root locals (remoteByName release)) (local_names locals) = Inr us) \<longleftrightarrow>
      list_all (published env ?root release) (local_names locals)"
    if "validateReleaseMetadata release repository tag sourceCommit = Inr ()" and "localAssetDigests env ?root = Inr locals" for locals
    using verify_asset_iff [OF that] unfolding mapE_exists by (simp add: list_all_iff)
  have B: "json_same (JArr (map JStr (local_names locals))) (JArr (map JStr (sort (map fst (remoteByName release))))) \<longleftrightarrow>
      set (map fst (remoteByName release)) = fst ` set locals"
    if "validateReleaseMetadata release repository tag sourceCommit = Inr ()" for locals
    using local_names_eq [OF validateReleaseMetadata_names(2) [OF that]] by simp
  have C: "verifyReleaseAssets env release assetRoot repository tag sourceCommit = Inr names \<longleftrightarrow>
     validateReleaseMetadata release repository tag sourceCommit = Inr () \<and>
     (\<exists>locals. localAssetDigests env ?root = Inr locals \<and> names = local_names locals \<and>
        json_same (JArr (map JStr (local_names locals))) (JArr (map JStr (sort (map fst (remoteByName release))))) \<and>
        (\<exists>us. mapE (verify_asset env (str_of repository) ?root locals (remoteByName release)) (local_names locals) = Inr us))"
    by (auto simp: verifyReleaseAssets_def bindE_Inr_iff Let_def split: if_splits simp del: json_same_strings)
  show ?thesis
  proof (cases "validateReleaseMetadata release repository tag sourceCommit = Inr ()")
    case True
    have "verifyReleaseAssets env release assetRoot repository tag sourceCommit = Inr names \<longleftrightarrow>
        (\<exists>locals. localAssetDigests env ?root = Inr locals \<and> names = local_names locals \<and>
          set (map fst (remoteByName release)) = fst ` set locals \<and>
          (\<exists>us. mapE (verify_asset env (str_of repository) ?root locals (remoteByName release)) (local_names locals) = Inr us))"
      using B [OF True] unfolding C by (simp add: True del: json_same_strings)
    also have "\<dots> \<longleftrightarrow> (\<exists>locals. localAssetDigests env ?root = Inr locals \<and> names = local_names locals \<and>
        set (map fst (remoteByName release)) = fst ` set locals \<and> list_all (published env ?root release) names)"
      by (intro ex_cong1 conj_cong refl) (simp only: A [OF True])
    finally show ?thesis using True by simp
  qed (simp add: C)
qed

lemma filesUnder_Inr:
  "filesUnder env root = Inr names \<longleftrightarrow> fs_stat (gh_fs env) root = Some Directory \<and>
     (\<exists>entries. fs_list (gh_fs env) root = Some entries \<and> snd ` set entries \<subseteq> {RegularFile} \<and> names = sort (map fst entries))"
proof -
  have "mapE (\<lambda>(name, kind). if kind \<noteq> RegularFile then Inl (gh_fail (''asset directory contains a non-file entry: '' @ name))
      else Inr name) entries = Inr ns \<longleftrightarrow> snd ` set entries \<subseteq> {RegularFile} \<and> ns = map fst entries" for entries ns
    by (induction entries arbitrary: ns) (auto simp: bindE_Inr_iff split: if_splits)
  then show ?thesis by (auto simp: filesUnder_def bindE_Inr_iff split: option.splits)
qed

lemma local_files:
  "(\<exists>locals. localAssetDigests env root = Inr locals \<and> names = local_names locals) \<longleftrightarrow>
     holds_files env root names \<and> sorted names \<and> distinct names \<and>
     (\<forall>name \<in> set names. fs_read (gh_fs env) (posix_resolve root [name]) \<noteq> None)" (is "?l \<longleftrightarrow> ?r")
proof
  assume ?l
  then obtain locals ns where l: "filesUnder env root = Inr ns" "mapE (local_digest env root) ns = Inr locals" "names = local_names locals"
    by (auto simp: localAssetDigests_def bindE_Inr_iff)
  have each: "list_all2 (\<lambda>n d. local_digest env root n = Inr d) ns locals" using l(2) by (simp add: mapE_Inr_iff)
  then have "map fst locals = ns" by (induction rule: list_all2_induct) (auto simp: local_digest_Inr)
  then have "set names = set ns" by (metis l(3) local_names_set list.set_map)
  moreover have "\<forall>n \<in> set ns. fs_read (gh_fs env) (posix_resolve root [n]) \<noteq> None"
    using each by (auto simp: local_digest_Inr dest!: list_all2_left)
  ultimately show ?r using l(1,3) by (auto simp: filesUnder_Inr holds_files_def local_names_def)
next
  assume r: ?r
  then obtain entries where e: "fs_list (gh_fs env) root = Some entries" "set names = fst ` set entries" "snd ` set entries \<subseteq> {RegularFile}"
    and dir: "fs_stat (gh_fs env) root = Some Directory" by (auto simp: holds_files_def)
  have "\<forall>n \<in> set (sort (map fst entries)). \<exists>d. local_digest env root n = Inr d"
    using r e(2) by (auto simp: local_digest_Inr)
  then obtain locals where l: "mapE (local_digest env root) (sort (map fst entries)) = Inr locals"
    using mapE_exists [of "local_digest env root" "sort (map fst entries)"] by (auto simp: list_all_iff)
  then have "list_all2 (\<lambda>n d. local_digest env root n = Inr d) (sort (map fst entries)) locals" by (simp add: mapE_Inr_iff)
  then have "map fst locals = sort (map fst entries)" by (induction rule: list_all2_induct) (auto simp: local_digest_Inr)
  then have "fst ` set locals = set names" using e(2) by (metis list.set_map set_sort)
  then have "local_names locals = names"
    using local_names_eq [of names locals] r by (simp add: sorted_sort_id)
  moreover have "localAssetDigests env root = Inr locals" using e dir l by (auto simp: localAssetDigests_def bindE_Inr_iff filesUnder_Inr)
  ultimately show ?l by blast
qed

lemma verifyReleaseAssets_spec:
  "verifyReleaseAssets env release assetRoot (JStr repository) (JStr tag) (JStr commit) = Inr names \<longleftrightarrow>
     repository = ''nemnesia/symbol-nem-wallet-core'' \<and> sorted names \<and> distinct names \<and>
     (\<exists>order. release_of release tag commit order \<and> set order = set names) \<and>
     holds_files env (posix_resolve (gh_root env) [assetRoot]) names \<and>
     list_all (published env (posix_resolve (gh_root env) [assetRoot]) release) names"
proof -
  let ?root = "posix_resolve (gh_root env) [assetRoot]"
  have release: "(\<exists>order. release_of release tag commit order \<and> set order = set ns) \<longleftrightarrow>
      release_of release tag commit (map fst (remoteByName release)) \<and> set (map fst (remoteByName release)) = set ns" for ns
    using release_of_names by metis
  have readable: "list_all (published env ?root release) ns \<Longrightarrow>
      \<forall>name \<in> set ns. fs_read (gh_fs env) (posix_resolve ?root [name]) \<noteq> None" for ns
    by (auto simp: list_all_iff published_def)
  have "verifyReleaseAssets env release assetRoot (JStr repository) (JStr tag) (JStr commit) = Inr names \<longleftrightarrow>
      repository = REPOSITORY \<and> release_of release tag commit (map fst (remoteByName release)) \<and>
      set (map fst (remoteByName release)) = set names \<and>
      (\<exists>locals. localAssetDigests env ?root = Inr locals \<and> names = local_names locals) \<and> list_all (published env ?root release) names"
    unfolding verifyReleaseAssets_pass validateReleaseMetadata_iff by (metis list.set_map local_names_set)
  then show ?thesis unfolding release local_files using readable [of names] by (auto simp: REPOSITORY_def)
qed

text \<open>
  Property C27. The verification passes exactly when the metadata are those of a formal release of the
  approved repository with this tag and this commit, the directory holds files only, the published names are
  the names of these files, each once, and every one of them can be downloaded with the length and
  the SHA-256 digest of the local file, which is also the digest that GitHub states, if it states one.
  It returns the names, sorted.
\<close>

theorem verifyReleaseAssets_iff:
  "verifyReleaseAssets env release assetRoot (JStr repository) (JStr tag) (JStr commit) = Inr names \<longleftrightarrow>
     repository = ''nemnesia/symbol-nem-wallet-core'' \<and> sorted names \<and> distinct names \<and>
     (\<exists>order. release_of release tag commit order \<and> set order = set names) \<and>
     holds_files env (posix_resolve (gh_root env) [assetRoot]) names \<and>
     list_all (published env (posix_resolve (gh_root env) [assetRoot]) release) names"
  by (rule verifyReleaseAssets_spec)

lemma digest_loop_Inr: "digest_loop locals es = Inr () \<longleftrightarrow> list_all (digest_ok locals) es"
  by (induction es) auto

text \<open>What the plan says, and when there is one.\<close>

lemma planMissingAssets_Inr:
  "planMissingAssets env release assetRoot repository tag sourceCommit = Inr p \<longleftrightarrow>
     validateReleaseMetadata release repository tag sourceCommit = Inr () \<and>
     (\<exists>locals. localAssetDigests env (posix_resolve (gh_root env) [assetRoot]) = Inr locals \<and>
        fst ` set (remoteByName release) \<subseteq> fst ` set locals \<and> list_all (digest_ok locals) (remoteByName release) \<and>
        p = \<lparr>ap_missing = filter (\<lambda>n. n \<notin> fst ` set (remoteByName release)) (local_names locals),
             ap_existing = int (length (local_names locals)) -
               int (length (filter (\<lambda>n. n \<notin> fst ` set (remoteByName release)) (local_names locals))),
             ap_asset_count = length (local_names locals)\<rparr>)"
  by (auto simp: planMissingAssets_def bindE_Inr_iff Let_def digest_loop_Inr filter_empty_conv split: if_splits)

text \<open>
  The release after the upload: the assets it had, and one for every missing file, which is served as
  that file. Of an asset that was there, GitHub's record is assumed to hold: it states the
  SHA-256 digest of the bytes it serves, and these are not another text with the digest of the local file.
\<close>

definition kept_asset :: "github_env \<Rightarrow> string \<Rightarrow> js \<Rightarrow> bool" where
  "kept_asset env root asset \<longleftrightarrow> (\<exists>bytes. served env asset bytes \<and> fld asset ''digest'' = JStr (''sha256:'' @ gh_sha256 env bytes) \<and>
     (\<forall>content. fs_read (gh_fs env) (posix_resolve root [str_of (fld asset ''name'')]) = Some content \<longrightarrow>
        gh_sha256 env bytes = gh_sha256 env content \<longrightarrow> bytes = content))"

definition uploaded_asset :: "github_env \<Rightarrow> string \<Rightarrow> js \<Rightarrow> string \<Rightarrow> bool" where
  "uploaded_asset env root release name \<longleftrightarrow> (\<exists>asset content. release_asset release name asset \<and>
     fs_read (gh_fs env) (posix_resolve root [name]) = Some content \<and> served env asset content \<and>
     (case fld asset ''digest'' of JStr d \<Rightarrow> d = ''sha256:'' @ gh_sha256 env content | _ \<Rightarrow> True))"

lemma kept_published:
  assumes "kept_asset env root asset" and "release_asset release name asset" and "digest_ok locals (name, asset)"
    and "localAssetDigests env root = Inr locals"
  shows "published env root release name"
proof -
  obtain bytes where b: "served env asset bytes" "fld asset ''digest'' = JStr (''sha256:'' @ gh_sha256 env bytes)"
      "\<And>content. fs_read (gh_fs env) (posix_resolve root [name]) = Some content \<Longrightarrow>
        gh_sha256 env bytes = gh_sha256 env content \<Longrightarrow> bytes = content"
    using assms(1,2) by (auto simp: kept_asset_def release_asset_def)
  have "map_of locals name = Some (gh_sha256 env bytes)" using assms(3) by (simp add: digest_ok_def b(2))
  then obtain content where c: "fs_read (gh_fs env) (posix_resolve root [name]) = Some content" "gh_sha256 env bytes = gh_sha256 env content"
    using localAssetDigests_lookup [OF assms(4)] by blast
  have "bytes = content" by (rule b(3) [OF c])
  then show ?thesis unfolding published_def using assms(2) b(1,2) c(1) by (intro exI [of _ asset] exI [of _ bytes] exI [of _ content]) simp
qed

text \<open>
  Property C28. Publishing what the plan asks for succeeds: when a release has a plan, and the
  metadata read after the upload are those of the same formal release with the assets it had and
  the missing ones, then the verification passes. Only the uploaded assets are assumed to be served as the local files;
  of those the release had, that GitHub states the digest of what it serves. An asset without a
  stated digest has no place here: the plan accepts it unseen, and only the verification finds out.
\<close>

theorem planned_release_verifies:
  assumes "planMissingAssets env release assetRoot (JStr repository) (JStr tag) (JStr commit) = Inr p"
    and "release_of release' tag commit names"
    and "set (elems (fld release ''assets'')) \<subseteq> set (elems (fld release' ''assets''))"
    and "list_all (\<lambda>name. name \<in> set (ap_missing p) \<or> (\<exists>asset. release_asset release name asset)) names"
    and "list_all (kept_asset env (posix_resolve (gh_root env) [assetRoot])) (elems (fld release ''assets''))"
    and "list_all (uploaded_asset env (posix_resolve (gh_root env) [assetRoot]) release') (ap_missing p)"
  shows "verifyReleaseAssets env release' assetRoot (JStr repository) (JStr tag) (JStr commit) = Inr (sort names) \<and>
    length names = ap_asset_count p"
proof -
  let ?root = "posix_resolve (gh_root env) [assetRoot]"
  from assms(1) obtain locals where meta: "validateReleaseMetadata release (JStr repository) (JStr tag) (JStr commit) = Inr ()"
    and locals: "localAssetDigests env ?root = Inr locals"
    and sub: "fst ` set (remoteByName release) \<subseteq> fst ` set locals" and digests: "list_all (digest_ok locals) (remoteByName release)"
    and count: "ap_asset_count p = length (local_names locals)"
    and missing: "ap_missing p = filter (\<lambda>n. n \<notin> fst ` set (remoteByName release)) (local_names locals)"
    unfolding planMissingAssets_Inr by auto
  have repository: "repository = REPOSITORY" using meta by (simp add: validateReleaseMetadata_iff)
  have remote: "map fst (remoteByName release') = names" by (rule release_of_names [OF assms(2)])
  have meta': "validateReleaseMetadata release' (JStr repository) (JStr tag) (JStr commit) = Inr ()"
    using assms(2) repository by (simp add: validateReleaseMetadata_iff remote)
  have known: "(name, asset) \<in> set (remoteByName release) \<longleftrightarrow> release_asset release name asset" for name asset
    using validateReleaseMetadata_names(2,3) [OF meta] by (metis map_of_eq_Some_iff)
  have old: "published env ?root release' name" if a: "release_asset release name asset" for name asset
  proof (rule kept_published [OF _ _ _ locals])
    show "kept_asset env ?root asset" using assms(5) a by (simp add: list_all_iff release_asset_def)
    show "release_asset release' name asset" using assms(3) a by (auto simp: release_asset_def)
    show "digest_ok locals (name, asset)" using digests a known by (simp add: list_all_iff)
  qed
  have new: "published env ?root release' name" if "name \<in> set (ap_missing p)" for name
    using assms(6) that unfolding list_all_iff uploaded_asset_def published_def by blast
  have all: "set names = fst ` set locals"
  proof
    show "set names \<subseteq> fst ` set locals"
    proof
      fix name assume "name \<in> set names"
      then consider "name \<in> set (ap_missing p)" | asset where "release_asset release name asset" using assms(4) by (auto simp: list_all_iff)
      then show "name \<in> fst ` set locals"
      proof cases
        case 1
        then show ?thesis by (simp add: missing)
      next
        case 2
        then show ?thesis using sub known by force
      qed
    qed
    show "fst ` set locals \<subseteq> set names"
    proof
      fix name assume "name \<in> fst ` set locals"
      then consider "name \<in> set (ap_missing p)" | "name \<in> fst ` set (remoteByName release)" by (auto simp: missing)
      then have "\<exists>asset. release_asset release' name asset"
      proof cases
        case 1
        then show ?thesis using new by (auto simp: published_def)
      next
        case 2
        then show ?thesis using known assms(3) by (force simp: release_asset_def)
      qed
      then obtain asset where "release_asset release' name asset" by blast
      then have "map_of (remoteByName release') name = Some asset" using validateReleaseMetadata_names(3) [OF meta'] by simp
      then show "name \<in> set names" using remote by (metis map_of_SomeD fst_conv image_eqI list.set_map)
    qed
  qed
  have sorted: "local_names locals = sort names"
    using local_names_eq [of names locals] all assms(2) by (simp add: release_of_def)
  have "list_all (published env ?root release') (sort names)"
    using assms(4) old new by (auto simp: list_all_iff)
  then have "verifyReleaseAssets env release' assetRoot (JStr repository) (JStr tag) (JStr commit) = Inr (sort names)"
    using verifyReleaseAssets_pass meta' locals all sorted remote by (metis list.set_map)
  then show ?thesis using count sorted by simp
qed

text \<open>
  Property C29. After a verification that passed, a plan finds nothing left to upload, so that
  publishing again changes nothing.
\<close>

theorem verified_release_complete:
  assumes "hex_digest 64 (gh_sha256 env)"
    and "verifyReleaseAssets env release assetRoot repository tag sourceCommit = Inr names"
  shows "planMissingAssets env release assetRoot repository tag sourceCommit =
    Inr \<lparr>ap_missing = [], ap_existing = int (length names), ap_asset_count = length names\<rparr>"
proof -
  from assms(2) obtain locals where meta: "validateReleaseMetadata release repository tag sourceCommit = Inr ()"
    and locals: "localAssetDigests env (posix_resolve (gh_root env) [assetRoot]) = Inr locals" "names = local_names locals"
    and all: "set (map fst (remoteByName release)) = fst ` set locals"
    and pub: "list_all (published env (posix_resolve (gh_root env) [assetRoot]) release) names"
    unfolding verifyReleaseAssets_pass by blast
  note names = validateReleaseMetadata_names [OF meta]
  have "digest_ok locals (name, asset)" if m: "(name, asset) \<in> set (remoteByName release)" for name asset
  proof -
    have asset: "release_asset release name asset" using names(3) [of name asset] m map_of_eq_Some_iff [OF names(2)] by simp
    have "name \<in> set names" using m all locals(2) by force
    then have "published env (posix_resolve (gh_root env) [assetRoot]) release name" using pub by (simp add: list_all_iff)
    then obtain asset' content where "release_asset release name asset'"
      and content: "fs_read (gh_fs env) (posix_resolve (posix_resolve (gh_root env) [assetRoot]) [name]) = Some content"
      and d: "case fld asset' ''digest'' of JStr d \<Rightarrow> d = ''sha256:'' @ gh_sha256 env content | _ \<Rightarrow> True"
      unfolding published_def by blast
    then have "asset' = asset" using asset names(3) [of name asset] names(3) [of name asset'] by simp
    from content have "map_of locals name = Some (gh_sha256 env content)"
      using localAssetDigests_lookup [OF locals(1)] \<open>name \<in> set names\<close> locals(2) by simp
    moreover have "rx_test hash_pattern (gh_sha256 env content)" using assms(1) by (rule hex_digest_sha256)
    ultimately show ?thesis using d \<open>asset' = asset\<close> by (auto simp: digest_ok_def starts_with_def split: js.splits)
  qed
  then have "list_all (digest_ok locals) (remoteByName release)" by (auto simp: list_all_iff)
  moreover have "filter (\<lambda>n. n \<notin> fst ` set (remoteByName release)) (local_names locals) = []"
    using all by (simp add: filter_empty_conv)
  ultimately show ?thesis using meta locals all unfolding planMissingAssets_Inr by auto
qed

section \<open>A release with one asset\<close>

definition sample_github :: github_env where
  "sample_github = \<lparr>gh_fs = \<lparr>fs_read = (\<lambda>p. if p = ''/r/assets/a'' then Some [1] else None),
       fs_stat = (\<lambda>p. if p = ''/r/assets'' then Some Directory else Some RegularFile),
       fs_list = (\<lambda>_. Some [(''a'', RegularFile)])\<rparr>,
     gh_sha256 = toy_digest, gh_root = ''/r'', gh_token = Some ''t'', gh_fetch = (\<lambda>_. AssetBody (Some [1]))\<rparr>"

definition sample_release :: "js list \<Rightarrow> js" where
  "sample_release assets = JObj [(''tag_name'', JStr ''v0.2.0''), (''target_commitish'', JStr ''c''), (''draft'', JBool False),
     (''prerelease'', JBool False), (''assets'', JArr assets)]"

definition sample_asset :: js where
  "sample_asset = JObj [(''name'', JStr ''a''), (''id'', JInt 7)]"

lemma sample_root: "posix_resolve (gh_root sample_github) [''assets''] = ''/r/assets''" "posix_resolve ''/r/assets'' [''a''] = ''/r/assets/a''"
  by code_simp+

lemma sample_locals: "localAssetDigests sample_github ''/r/assets'' = Inr [(''a'', toy_digest [1])]"
  by (simp add: localAssetDigests_def filesUnder_def local_digest_def gh_read_def sample_github_def sample_root)

lemma sample_meta: "validateReleaseMetadata (sample_release xs) (JStr REPOSITORY) (JStr ''v0.2.0'') (JStr ''c'') = Inr ()"
  if "xs = [] \<or> xs = [sample_asset]"
  using that by (auto simp: validateReleaseMetadata_def gate_checks_iff release_bound_def sample_release_def sample_asset_def asset_name_def)

lemma sample_published: "published sample_github ''/r/assets'' (sample_release [sample_asset]) ''a''"
  by (simp add: published_def served_def release_asset_def sample_release_def sample_asset_def sample_root)
    (simp add: sample_github_def sample_root)

text \<open>A release that has one of two files, which is completed.\<close>

definition two_files :: github_env where
  "two_files = sample_github\<lparr>gh_fs := \<lparr>fs_read = (\<lambda>p. if p = ''/r/assets/a'' \<or> p = ''/r/assets/b'' then Some [1] else None),
       fs_stat = (\<lambda>p. if p = ''/r/assets'' then Some Directory else Some RegularFile),
       fs_list = (\<lambda>_. Some [(''a'', RegularFile), (''b'', RegularFile)])\<rparr>\<rparr>"

definition recorded_asset :: js where
  "recorded_asset = JObj [(''name'', JStr ''b''), (''id'', JInt 8), (''digest'', JStr (''sha256:'' @ toy_digest [1]))]"

lemma two_root: "posix_resolve (gh_root two_files) [''assets''] = ''/r/assets''" "posix_resolve ''/r/assets'' [''b''] = ''/r/assets/b''"
  by code_simp+

lemma two_locals: "localAssetDigests two_files ''/r/assets'' = Inr [(''a'', toy_digest [1]), (''b'', toy_digest [1])]"
  by (simp add: localAssetDigests_def filesUnder_def local_digest_def gh_read_def two_files_def sample_github_def sample_root two_root)

lemma two_served: "served two_files sample_asset [1]" "served two_files recorded_asset [1]"
  by (simp_all add: served_def two_files_def sample_github_def sample_asset_def recorded_asset_def)

lemma two_plan:
  "planMissingAssets two_files (sample_release [recorded_asset]) ''assets'' (JStr REPOSITORY) (JStr ''v0.2.0'') (JStr ''c'') =
     Inr \<lparr>ap_missing = [''a''], ap_existing = 1, ap_asset_count = 2\<rparr>"
proof -
  have "rx_test hash_pattern (toy_digest [1])" using toy_digest_hex by (rule hex_digest_sha256)
  then have "digest_ok [(''a'', toy_digest [1]), (''b'', toy_digest [1])] (''b'', recorded_asset)"
    by (simp add: digest_ok_def recorded_asset_def starts_with_def)
  moreover have "local_names [(''a'', toy_digest [1]), (''b'', toy_digest [1])] = [''a'', ''b'']"
    by (simp add: local_names_def)
  moreover have "validateReleaseMetadata (sample_release [recorded_asset]) (JStr REPOSITORY) (JStr ''v0.2.0'') (JStr ''c'') = Inr ()"
    by (simp add: validateReleaseMetadata_def gate_checks_iff release_bound_def sample_release_def recorded_asset_def asset_name_def)
  moreover have "remoteByName (sample_release [recorded_asset]) = [(''b'', recorded_asset)]"
    by (simp add: remoteByName_def sample_release_def asset_name_def recorded_asset_def)
  ultimately show ?thesis by (simp add: planMissingAssets_Inr two_root two_locals)
qed

theorem planned_release_verifies_witness:
  "planMissingAssets two_files (sample_release [recorded_asset]) ''assets'' (JStr REPOSITORY) (JStr ''v0.2.0'') (JStr ''c'') =
     Inr \<lparr>ap_missing = [''a''], ap_existing = 1, ap_asset_count = 2\<rparr> \<and>
   verifyReleaseAssets two_files (sample_release [recorded_asset, sample_asset]) ''assets'' (JStr REPOSITORY) (JStr ''v0.2.0'') (JStr ''c'') =
     Inr [''a'', ''b'']"
proof -
  let ?new = "sample_release [recorded_asset, sample_asset]"
  have "release_of ?new ''v0.2.0'' ''c'' [''b'', ''a'']"
    by (simp add: release_of_def sample_release_def recorded_asset_def sample_asset_def)
  moreover have "set (elems (fld (sample_release [recorded_asset]) ''assets'')) \<subseteq> set (elems (fld ?new ''assets''))"
    by (simp add: sample_release_def)
  moreover have "\<exists>asset. release_asset (sample_release [recorded_asset]) ''b'' asset"
    by (simp add: release_asset_def sample_release_def recorded_asset_def)
  then have "list_all (\<lambda>name. name \<in> set [''a''] \<or> (\<exists>asset. release_asset (sample_release [recorded_asset]) name asset)) [''b'', ''a'']"
    by simp
  moreover have "kept_asset two_files ''/r/assets'' recorded_asset"
    unfolding kept_asset_def using two_served(2)
    by (intro exI [of _ "[1]"]) (simp add: recorded_asset_def two_files_def sample_github_def two_root)
  then have "list_all (kept_asset two_files ''/r/assets'') (elems (fld (sample_release [recorded_asset]) ''assets''))"
    by (simp add: sample_release_def)
  moreover have "uploaded_asset two_files ''/r/assets'' ?new ''a''"
    unfolding uploaded_asset_def using two_served(1)
    by (intro exI [of _ sample_asset] exI [of _ "[1]"])
      (simp add: release_asset_def sample_release_def sample_asset_def two_files_def sample_github_def sample_root)
  moreover have "sort [''b'', ''a''] = [''a'', ''b'']" by simp
  ultimately show ?thesis
    using planned_release_verifies [OF two_plan, of ?new "[''b'', ''a'']"] two_plan by (simp add: two_root)
qed

lemma sample_verified:
  "verifyReleaseAssets sample_github (sample_release [sample_asset]) ''assets'' (JStr REPOSITORY) (JStr ''v0.2.0'') (JStr ''c'') = Inr [''a'']"
  using sample_published sample_meta [of "[sample_asset]"]
  by (simp add: verifyReleaseAssets_pass sample_root sample_locals local_names_def remoteByName_def sample_release_def sample_asset_def asset_name_def)

theorem verified_release_complete_witness:
  "planMissingAssets sample_github (sample_release [sample_asset]) ''assets'' (JStr REPOSITORY) (JStr ''v0.2.0'') (JStr ''c'') =
     Inr \<lparr>ap_missing = [], ap_existing = 1, ap_asset_count = 1\<rparr>"
proof -
  have "hex_digest 64 (gh_sha256 sample_github)" using toy_digest_hex by (simp add: sample_github_def)
  then show ?thesis using verified_release_complete [OF _ sample_verified] by simp
qed

end
