(* ===== verification/NpmFetch.thy ===== *)
theory NpmFetch
  imports JsonText Complex_Main
begin

text \<open>
  The requests of \<open>npm-provenance.mjs\<close>: the JSON and the bytes fetched from the npm registry
  and the attestation record, which is fetched again while the registry has not published it yet.
  The answers of the registry and \<open>new URL\<close> are parameters; the answers to repeated requests are
  given by the number of the request. A request never waits longer than its timeout, after which
  \<open>fetch\<close> throws. What a message interpolates is left out.
\<close>

definition np_fail :: "string \<Rightarrow> js_error" where
  "np_fail message = Fail (''npm provenance gate failed: '' @ message)"

section \<open>URLs\<close>

record url =
  url_protocol :: string
  url_origin :: string
  url_username :: string
  url_password :: string
  url_hash :: string
  url_href :: string

text \<open>\<open>new URL(input)\<close> and \<open>new URL(input, base)\<close>; \<open>None\<close> is a TypeError.\<close>

record url_parser =
  up_parse :: "string \<Rightarrow> url option"
  up_resolve :: "string \<Rightarrow> string \<Rightarrow> url option"

definition NPM_ORIGIN :: string where "NPM_ORIGIN = ''https://registry.npmjs.org''"

definition registry_url :: "url \<Rightarrow> bool" where
  "registry_url u \<longleftrightarrow> url_protocol u = ''https:'' \<and> url_origin u = NPM_ORIGIN \<and> url_username u = [] \<and>
     url_password u = [] \<and> url_hash u = []"

definition safeHttpsUrl :: "url_parser \<Rightarrow> js \<Rightarrow> string \<Rightarrow> string res" where
  "safeHttpsUrl up value label =
     (case Option.bind (to_str value) (up_parse up) of
        None \<Rightarrow> Inl (np_fail (label @ '' is not a URL''))
      | Some u \<Rightarrow>
          if \<not> registry_url u then Inl (np_fail (label @ '' is not an npm registry HTTPS URL''))
          else Inr (url_href u))"

section \<open>JSON\<close>

text \<open>
  An answer: its \<open>ok\<close> and \<open>status\<close>, the \<open>location\<close> header, and its body as JSON and as bytes,
  which may be unreadable. \<open>None\<close> is a request that throws.
\<close>

record response =
  rs_ok :: bool
  rs_status :: js
  rs_location :: js
  rs_json :: "js option"
  rs_bytes :: "byte list option"

definition fetchResponse :: "response option \<Rightarrow> string \<Rightarrow> response res" where
  "fetchResponse answer label =
     (case answer of
        None \<Rightarrow> Inl (np_fail (label @ '' request failed''))
      | Some r \<Rightarrow> if \<not> rs_ok r then Inl (np_fail (label @ '' request returned an HTTP error'')) else Inr r)"

definition fetchJson :: "response option \<Rightarrow> string \<Rightarrow> js res" where
  "fetchJson answer label =
     bindE (fetchResponse answer label) (\<lambda>r.
       case rs_json r of None \<Rightarrow> Inl (np_fail (label @ '' response is malformed'')) | Some v \<Rightarrow> Inr v)"

section \<open>Bytes\<close>

definition int_status :: "js \<Rightarrow> int option" where
  "int_status v = (case v of JNum n \<Rightarrow> if num_is_integer n then Some (num_int n) else None | _ \<Rightarrow> None)"

text \<open>The statuses of an HTTP answer are integers.\<close>

definition is_redirect :: "response \<Rightarrow> bool" where
  "is_redirect r = (case int_status (rs_status r) of None \<Rightarrow> False | Some s \<Rightarrow> 300 \<le> s \<and> s \<le> 399)"

text \<open>
  The loop over redirects, with the URLs requested so far; \<open>n\<close> is how many redirects may still
  follow.
\<close>

fun bytes_loop ::
  "url_parser \<Rightarrow> (string \<Rightarrow> response option) \<Rightarrow> string \<Rightarrow> nat \<Rightarrow> string \<Rightarrow> string list \<Rightarrow> byte list res \<times> string list" where
  "bytes_loop up fetch label n currentUrl requested =
     (let requested' = requested @ [currentUrl] in
      case fetch currentUrl of
        None \<Rightarrow> (Inl (np_fail (label @ '' request failed'')), requested')
      | Some r \<Rightarrow>
          if is_redirect r then
            (if \<not> is_str (rs_location r) \<or> str_of (rs_location r) = []
             then (Inl (np_fail (label @ '' returned a redirect without a location'')), requested')
             else (case up_resolve up (str_of (rs_location r)) currentUrl of
                 None \<Rightarrow> (Inl TypeErr, requested')
               | Some u \<Rightarrow>
                   (case safeHttpsUrl up (JStr (url_href u)) (label @ '' redirect'') of
                      Inl e \<Rightarrow> (Inl e, requested')
                    | Inr target \<Rightarrow>
                        (case n of
                           0 \<Rightarrow> (Inl (np_fail (label @ '' exceeded the redirect limit'')), requested')
                         | Suc m \<Rightarrow> bytes_loop up fetch label m target requested'))))
          else if \<not> rs_ok r then (Inl (np_fail (label @ '' request returned an HTTP error'')), requested')
          else (case rs_bytes r of
              None \<Rightarrow> (Inl (np_fail (label @ '' response is unreadable'')), requested')
            | Some bytes \<Rightarrow> (Inr bytes, requested')))"

declare bytes_loop.simps [simp del]

definition REDIRECT_LIMIT :: nat where "REDIRECT_LIMIT = 3"

definition fetchBytes :: "url_parser \<Rightarrow> (string \<Rightarrow> response option) \<Rightarrow> js \<Rightarrow> string \<Rightarrow> byte list res \<times> string list" where
  "fetchBytes up fetch url label =
     (case safeHttpsUrl up url (label @ '' URL'') of
        Inl e \<Rightarrow> (Inl e, [])
      | Inr start \<Rightarrow> bytes_loop up fetch label REDIRECT_LIMIT start [])"

section \<open>The attestation record\<close>

definition ATTESTATION_RETRY_ATTEMPTS :: int where "ATTESTATION_RETRY_ATTEMPTS = 6"
definition ATTESTATION_RETRY_INITIAL_DELAY_MS :: rat where "ATTESTATION_RETRY_INITIAL_DELAY_MS = 2000"
definition ATTESTATION_RETRY_MAX_DELAY_MS :: rat where "ATTESTATION_RETRY_MAX_DELAY_MS = 10000"

text \<open>
  The delay before the next attempt. The delays are finite doubles, given by the numbers they
  denote, and a product with a power of two is exact or exceeds every finite double. From the
  1025th attempt on the power is infinite, and zero times it is NaN, given as \<open>None\<close>.
\<close>

definition retryDelay :: "nat \<Rightarrow> rat \<Rightarrow> rat \<Rightarrow> rat option" where
  "retryDelay attempt initialDelayMs maxDelayMs =
     (if 1024 \<le> attempt - 1 \<and> initialDelayMs = 0 then None
      else Some (min maxDelayMs (initialDelayMs * 2 ^ (attempt - 1))))"

definition retryableAttestationStatus :: "int \<Rightarrow> bool" where
  "retryableAttestationStatus status \<longleftrightarrow> status = 404 \<or> status = 429 \<or> 500 \<le> status \<and> status \<le> 599"

definition attestation_body :: "response \<Rightarrow> js res" where
  "attestation_body r =
     (case rs_json r of
        None \<Rightarrow> Inl (np_fail ''npm attestation record response is malformed'')
      | Some value \<Rightarrow>
          if \<not> isPlainObject value \<or> \<not> is_arr (fld value ''attestations'')
          then Inl (np_fail ''npm attestation record response is malformed'') else Inr value)"

text \<open>
  The loop; \<open>answers k\<close> is the answer to the k-th request. The result comes with the number of
  requests made and the delays slept.
\<close>

function attestation_loop ::
  "(nat \<Rightarrow> response option) \<Rightarrow> nat \<Rightarrow> rat \<Rightarrow> rat \<Rightarrow> nat \<Rightarrow> rat option list \<Rightarrow> js res \<times> nat \<times> rat option list" where
  "attestation_loop answers attempts initial maximum attempt slept =
     (if attempts < attempt then (Inl (np_fail ''npm attestation record retry did not complete''), attempt - 1, slept)
      else
        let again = attestation_loop answers attempts initial maximum (attempt + 1) (slept @ [retryDelay attempt initial maximum]) in
        case answers attempt of
          None \<Rightarrow>
            if attempt = attempts
            then (Inl (np_fail ''npm attestation record request failed after bounded retry''), attempt, slept)
            else again
        | Some r \<Rightarrow>
            if rs_ok r then (attestation_body r, attempt, slept)
            else (case int_status (rs_status r) of
                None \<Rightarrow> (Inl (np_fail ''npm attestation record response is ambiguous''), attempt, slept)
              | Some status \<Rightarrow>
                  if \<not> retryableAttestationStatus status
                  then (Inl (np_fail ''npm attestation record request returned an HTTP error''), attempt, slept)
                  else if attempt = attempts
                  then (Inl (np_fail ''npm attestation record request returned an HTTP error after bounded retry''), attempt, slept)
                  else again))"
  by pat_completeness auto
termination
  by (relation "measure (\<lambda>(answers, attempts, initial, maximum, attempt, slept). Suc attempts - attempt)") auto

declare attestation_loop.simps [simp del]

text \<open>\<open>None\<close> is a delay that is not finite; a number of attempts is below \<open>2 ^ 53\<close>.\<close>

definition fetchAttestationRecord ::
  "url_parser \<Rightarrow> (nat \<Rightarrow> response option) \<Rightarrow> js \<Rightarrow> js \<Rightarrow> rat option \<Rightarrow> rat option \<Rightarrow> js res \<times> nat \<times> rat option list" where
  "fetchAttestationRecord up answers url attempts initialDelayMs maxDelayMs =
     (case int_status attempts of
        None \<Rightarrow> (Inl (np_fail ''npm attestation retry attempts are invalid''), 0, [])
      | Some n \<Rightarrow>
          if n < 1 then (Inl (np_fail ''npm attestation retry attempts are invalid''), 0, [])
          else (case (initialDelayMs, maxDelayMs) of
              (Some initial, Some maximum) \<Rightarrow>
                if initial < 0 \<or> maximum < initial
                then (Inl (np_fail ''npm attestation retry delay policy is invalid''), 0, [])
                else (case safeHttpsUrl up url ''npm attestations URL'' of
                    Inl e \<Rightarrow> (Inl e, 0, [])
                  | Inr _ \<Rightarrow> attestation_loop answers (nat n) initial maximum 1 [])
            | _ \<Rightarrow> (Inl (np_fail ''npm attestation retry delay policy is invalid''), 0, [])))"

section \<open>Which URLs are requested\<close>

definition safe_url :: "url_parser \<Rightarrow> string \<Rightarrow> bool" where
  "safe_url up s \<longleftrightarrow> (\<exists>input u. up_parse up input = Some u \<and> registry_url u \<and> s = url_href u)"

lemma safeHttpsUrl_Inr: "safeHttpsUrl up v label = Inr s \<Longrightarrow> safe_url up s"
  by (auto simp: safeHttpsUrl_def safe_url_def bind_eq_Some_conv split: option.splits if_splits)

definition fetched :: "(string \<Rightarrow> response option) \<Rightarrow> byte list res \<times> string list \<Rightarrow> bool" where
  "fetched fetch r \<longleftrightarrow> (case fst r of
     Inl _ \<Rightarrow> True
   | Inr bytes \<Rightarrow> snd r \<noteq> [] \<and> (case fetch (last (snd r)) of
       None \<Rightarrow> False | Some a \<Rightarrow> rs_ok a \<and> \<not> is_redirect a \<and> rs_bytes a = Some bytes))"

lemma bytes_loop_requests:
  "list_all (safe_url up) requested \<Longrightarrow> safe_url up currentUrl \<Longrightarrow>
     bytes_loop up fetch label n currentUrl requested = (result, all) \<Longrightarrow>
     list_all (safe_url up) all \<and> length all \<le> length requested + n + 1 \<and> fetched fetch (result, all)"
proof (induction n arbitrary: currentUrl requested)
  case 0
  then show ?case
    by (subst (asm) bytes_loop.simps) (auto simp: Let_def fetched_def split: option.splits sum.splits if_splits)
next
  case (Suc n)
  from Suc.prems(3) consider "all = requested @ [currentUrl]" "fetched fetch (result, all)"
    | target where "bytes_loop up fetch label n target (requested @ [currentUrl]) = (result, all)" "safe_url up target"
    by (subst (asm) bytes_loop.simps) (auto simp: Let_def fetched_def dest: safeHttpsUrl_Inr split: option.splits sum.splits if_splits)
  then show ?case
  proof cases
    case 2
    then show ?thesis using Suc.IH [of "requested @ [currentUrl]" target] Suc.prems(1,2) by simp
  qed (use Suc.prems(1,2) in simp)
qed

lemma fetchBytes_safe:
  "case fetchBytes up fetch url label of (result, requested) \<Rightarrow>
     list_all (safe_url up) requested \<and> length requested \<le> 4 \<and> fetched fetch (result, requested)"
proof (cases "safeHttpsUrl up url (label @ '' URL'')")
  case (Inr start)
  then show ?thesis
    using bytes_loop_requests [of up "[]" start fetch label 3] safeHttpsUrl_Inr
    by (fastforce simp: fetchBytes_def REDIRECT_LIMIT_def split: prod.split)
qed (simp add: fetchBytes_def fetched_def)

text \<open>
  Property C30. The download of the tarball makes at most four requests, all of them for HTTPS URLs
  of the npm registry without credentials, wherever the registry redirects to; and the bytes it
  returns are the body of a success answer to the last one.
\<close>

theorem fetchBytes_registry_only:
  "case fetchBytes up fetch url label of (result, requested) \<Rightarrow>
     list_all (safe_url up) requested \<and> length requested \<le> 4 \<and> fetched fetch (result, requested)"
  by (rule fetchBytes_safe)

section \<open>When the attestation record arrives\<close>

text \<open>An answer after which the request is repeated.\<close>

definition retryable :: "response option \<Rightarrow> bool" where
  "retryable answer = (case answer of
     None \<Rightarrow> True
   | Some r \<Rightarrow> \<not> rs_ok r \<and> (case int_status (rs_status r) of None \<Rightarrow> False | Some s \<Rightarrow> retryableAttestationStatus s))"

lemma attestation_loop_retry:
  assumes "retryable (answers attempt)" and "attempt < attempts"
  shows "attestation_loop answers attempts initial maximum attempt slept =
    attestation_loop answers attempts initial maximum (attempt + 1) (slept @ [retryDelay attempt initial maximum])"
  using assms by (subst attestation_loop.simps) (auto simp: Let_def retryable_def split: option.splits)

lemma attestation_loop_skip:
  assumes "attempt \<le> k" and "k \<le> attempts" and "\<forall>j. attempt \<le> j \<longrightarrow> j < k \<longrightarrow> retryable (answers j)"
  shows "attestation_loop answers attempts initial maximum attempt slept =
    attestation_loop answers attempts initial maximum k (slept @ map (\<lambda>j. retryDelay j initial maximum) [attempt..<k])"
  using assms
proof (induction "k - attempt" arbitrary: attempt slept)
  case (Suc d)
  then have "attempt < k" by simp
  moreover have "attestation_loop answers attempts initial maximum attempt slept =
      attestation_loop answers attempts initial maximum (attempt + 1) (slept @ [retryDelay attempt initial maximum])"
    using Suc.prems \<open>attempt < k\<close> by (intro attestation_loop_retry) auto
  ultimately show ?case using Suc.hyps(1) [of "attempt + 1" "slept @ [retryDelay attempt initial maximum]"] Suc.hyps(2) Suc.prems
    by (simp add: upt_conv_Cons)
qed simp

lemma attestation_loop_ends:
  assumes "\<not> retryable (answers k) \<or> k = attempts" and "k \<le> attempts"
  shows "attestation_loop answers attempts initial maximum k slept = (res, n, all) \<Longrightarrow>
    n = k \<and> all = slept \<and>
    (case answers k of
       Some r \<Rightarrow> if rs_ok r then res = attestation_body r else \<exists>e. res = Inl (np_fail e)
     | None \<Rightarrow> \<exists>e. res = Inl (np_fail e))"
proof (cases "answers k")
  case None
  assume "attestation_loop answers attempts initial maximum k slept = (res, n, all)"
  then show ?thesis using assms None by (subst (asm) attestation_loop.simps) (auto simp: retryable_def)
next
  case (Some r)
  assume "attestation_loop answers attempts initial maximum k slept = (res, n, all)"
  then show ?thesis using assms Some
    by (subst (asm) attestation_loop.simps) (auto simp: retryable_def split: option.splits if_splits)
qed

text \<open>The request whose answer decides: the first that is not retryable, or the last one.\<close>

lemma deciding_request:
  "1 \<le> attempts \<Longrightarrow> \<exists>k. 1 \<le> k \<and> k \<le> attempts \<and> (\<forall>j. 1 \<le> j \<longrightarrow> j < k \<longrightarrow> retryable (answers j)) \<and>
     (\<not> retryable (answers k) \<or> k = attempts)" for attempts :: nat
proof (cases "\<exists>j. 1 \<le> j \<and> j < attempts \<and> \<not> retryable (answers j)")
  case True
  let ?P = "\<lambda>j. 1 \<le> j \<and> j < attempts \<and> \<not> retryable (answers j)"
  define k where "k = (LEAST j. ?P j)"
  have "?P k" unfolding k_def by (rule LeastI_ex [OF True])
  moreover have "retryable (answers j)" if "1 \<le> j" "j < k" for j
    using not_less_Least [of j ?P] that \<open>?P k\<close> unfolding k_def [symmetric] by auto
  ultimately show ?thesis by (intro exI [of _ k]) auto
qed auto

lemma retryDelay_bounds:
  "0 \<le> initial \<Longrightarrow> initial \<le> maximum \<Longrightarrow>
     (case retryDelay attempt initial maximum of None \<Rightarrow> initial = 0 | Some d \<Rightarrow> initial \<le> d \<and> d \<le> maximum)"
proof -
  assume i: "0 \<le> initial" "initial \<le> maximum"
  have "initial * 1 \<le> initial * 2 ^ (attempt - 1)" using i(1) by (intro mult_left_mono) simp_all
  then show ?thesis using i(2) by (auto simp: retryDelay_def)
qed

lemma fetchAttestationRecord_loop:
  assumes "int_status attempts = Some n" "1 \<le> n" "0 \<le> i" "i \<le> m" "safeHttpsUrl up url ''npm attestations URL'' = Inr s"
  shows "fetchAttestationRecord up answers url attempts (Some i) (Some m) = attestation_loop answers (nat n) i m 1 []"
  using assms by (simp add: fetchAttestationRecord_def)

lemma fetchAttestationRecord_cases:
  obtains e where "fetchAttestationRecord up answers url attempts initial maximum = (Inl e, 0, [])"
  | n i m s where "int_status attempts = Some n" "1 \<le> n" "initial = Some i" "maximum = Some m" "0 \<le> i" "i \<le> m"
      "safeHttpsUrl up url ''npm attestations URL'' = Inr s"
proof (cases "\<exists>n i m s. int_status attempts = Some n \<and> 1 \<le> n \<and> initial = Some i \<and> maximum = Some m \<and> 0 \<le> i \<and> i \<le> m \<and>
      safeHttpsUrl up url ''npm attestations URL'' = Inr s")
  case True
  then show ?thesis using that(2) by blast
next
  case False
  then have "\<exists>e. fetchAttestationRecord up answers url attempts initial maximum = (Inl e, 0, [])"
    by (auto simp: fetchAttestationRecord_def not_less not_le split: option.split sum.split)
  then show ?thesis using that(1) by blast
qed

text \<open>
  Property C31. The attestation record arrives: when the k-th of the allowed requests is answered
  with a record, and every request before it failed, was not found, was rate limited or met a
  server error, then exactly k requests are made, with the delays of the policy between them, and
  the record is returned.
\<close>

theorem attestation_record_arrives:
  assumes "int_status attempts = Some n" and "0 \<le> i" and "i \<le> m"
    and "safeHttpsUrl up url ''npm attestations URL'' = Inr s"
    and "1 \<le> k" and "int k \<le> n" and "list_all (\<lambda>j. retryable (answers j)) [1..<k]"
    and "answers k = Some r" and "rs_ok r" and "attestation_body r = Inr v"
  shows "fetchAttestationRecord up answers url attempts (Some i) (Some m) = (Inr v, k, map (\<lambda>j. retryDelay j i m) [1..<k])"
proof -
  have k: "k \<le> nat n" and n: "1 \<le> n" using assms(5,6) by linarith+
  have "\<not> retryable (answers k)" using assms(8,9) by (simp add: retryable_def)
  moreover have "attestation_loop answers (nat n) i m 1 [] =
      attestation_loop answers (nat n) i m k (map (\<lambda>j. retryDelay j i m) [1..<k])"
    using attestation_loop_skip [of 1 k "nat n" answers i m "[]"] assms(5,7) k by (simp add: list_all_iff)
  ultimately show ?thesis
    using attestation_loop_ends [of answers k "nat n" i m "map (\<lambda>j. retryDelay j i m) [1..<k]"] k assms(8,9,10)
      fetchAttestationRecord_loop [OF assms(1) n assms(2,3,4)]
    by (cases "attestation_loop answers (nat n) i m k (map (\<lambda>j. retryDelay j i m) [1..<k])") auto
qed

text \<open>
  Property C32. Whatever the registry answers, at most the allowed number of requests is made, one
  delay is slept before each but the first, and every delay lies between the initial and the
  maximal one (or is the immediate wait of a zero policy); the answer to the last request is the
  one that decides.
\<close>

theorem attestation_requests_bounded:
  "case fetchAttestationRecord up answers url attempts initial maximum of (result, requests, slept) \<Rightarrow>
     (requests = 0 \<and> slept = [] \<and> isl result) \<or>
     (\<exists>n i m. int_status attempts = Some n \<and> initial = Some i \<and> maximum = Some m \<and> 1 \<le> requests \<and> int requests \<le> n \<and>
        slept = map (\<lambda>j. retryDelay j i m) [1..<requests] \<and>
        list_all (\<lambda>d. case d of None \<Rightarrow> i = 0 | Some x \<Rightarrow> i \<le> x \<and> x \<le> m) slept \<and>
        (case answers requests of
           Some r \<Rightarrow> if rs_ok r then result = attestation_body r else isl result
         | None \<Rightarrow> isl result))"
proof (rule fetchAttestationRecord_cases [of up answers url attempts initial maximum])
  fix n i m s
  assume n: "int_status attempts = Some n" "1 \<le> n" and d: "initial = Some i" "maximum = Some m" "0 \<le> i" "i \<le> m"
    and s: "safeHttpsUrl up url ''npm attestations URL'' = Inr s"
  obtain k where k: "1 \<le> k" "k \<le> nat n" "\<forall>j. 1 \<le> j \<longrightarrow> j < k \<longrightarrow> retryable (answers j)"
    and last: "\<not> retryable (answers k) \<or> k = nat n"
    using deciding_request [of "nat n" answers] n(2) by fastforce
  let ?slept = "map (\<lambda>j. retryDelay j i m) [1..<k]"
  obtain result requests slept where r: "attestation_loop answers (nat n) i m k ?slept = (result, requests, slept)" by (rule prod_cases3)
  have run: "fetchAttestationRecord up answers url attempts initial maximum = (result, requests, slept)"
    using fetchAttestationRecord_loop [OF n d(3,4) s] attestation_loop_skip [of 1 k "nat n" answers i m "[]"] k r d by simp
  have "list_all (\<lambda>d. case d of None \<Rightarrow> i = 0 | Some x \<Rightarrow> i \<le> x \<and> x \<le> m) ?slept"
    using retryDelay_bounds [OF d(3,4)] by (simp add: list_all_iff)
  then show ?thesis
    using attestation_loop_ends [OF last k(2) r] run n d(1,2) k(1,2) by (auto split: option.splits)
qed simp

lemma default_policy:
  "map (\<lambda>j. retryDelay j ATTESTATION_RETRY_INITIAL_DELAY_MS ATTESTATION_RETRY_MAX_DELAY_MS) [1..<nat ATTESTATION_RETRY_ATTEMPTS] =
    [Some 2000, Some 4000, Some 8000, Some 10000, Some 10000]"
  by (simp add: retryDelay_def ATTESTATION_RETRY_ATTEMPTS_def ATTESTATION_RETRY_INITIAL_DELAY_MS_def ATTESTATION_RETRY_MAX_DELAY_MS_def upt_rec)

section \<open>A record that appears at the third request\<close>

definition sample_parser :: url_parser where
  "sample_parser = \<lparr>up_parse = (\<lambda>s. Some \<lparr>url_protocol = ''https:'', url_origin = NPM_ORIGIN, url_username = [],
       url_password = [], url_hash = [], url_href = s\<rparr>), up_resolve = (\<lambda>_ _. None)\<rparr>"

definition sample_answers :: "nat \<Rightarrow> response option" where
  "sample_answers j =
     (if j = 1 then None
      else if j = 2 then Some \<lparr>rs_ok = False, rs_status = JInt 404, rs_location = JNull, rs_json = None, rs_bytes = None\<rparr>
      else Some \<lparr>rs_ok = True, rs_status = JInt 200, rs_location = JNull, rs_json = Some (JObj [(''attestations'', JArr [])]),
        rs_bytes = None\<rparr>)"

theorem attestation_record_arrives_witness:
  "fetchAttestationRecord sample_parser sample_answers (JStr ''u'') (JInt 6) (Some 2000) (Some 10000) =
     (Inr (JObj [(''attestations'', JArr [])]), 3, [Some 2000, Some 4000])"
proof -
  let ?r = "\<lparr>rs_ok = True, rs_status = JInt 200, rs_location = JNull, rs_json = Some (JObj [(''attestations'', JArr [])]), rs_bytes = None\<rparr>"
  have "int_status (JInt 6) = Some 6" by (simp add: int_status_def)
  moreover have "safeHttpsUrl sample_parser (JStr ''u'') ''npm attestations URL'' = Inr ''u''"
    by (simp add: safeHttpsUrl_def sample_parser_def registry_url_def)
  moreover have "list_all (\<lambda>j. retryable (sample_answers j)) [1..<3]"
    by (simp add: upt_rec sample_answers_def retryable_def int_status_def retryableAttestationStatus_def)
  moreover have "sample_answers 3 = Some ?r" by (simp add: sample_answers_def)
  moreover have "attestation_body ?r = Inr (JObj [(''attestations'', JArr [])])" by (simp add: attestation_body_def)
  moreover have "map (\<lambda>j. retryDelay j 2000 10000) [1..<3] = [Some 2000, Some 4000]" by (simp add: upt_rec retryDelay_def)
  ultimately show ?thesis
    using attestation_record_arrives [of "JInt 6" 6 2000 10000 sample_parser "JStr ''u''" "''u''" 3 sample_answers ?r] by simp
qed

end
