(* ===== verification/NpmProvenance.thy ===== *)
theory NpmProvenance
  imports NpmFetch NativeManifest JsonInj
begin

text \<open>
  The provenance of the published npm package, \<open>npm-provenance.mjs\<close>, with
  \<open>npm-repository.mjs\<close>: what an attestation must say, the check of the registry's tarball, the
  capture of the evidence and its validation. SHA-256 and SHA-512, Base64 and UTF-8, JSON.parse,
  \<open>tar\<close>, the answers of the registry and the output of npm are parameters. What a message
  interpolates is left out.
\<close>

section \<open>npm-repository.mjs\<close>

definition EXPECTED_NPM_REPOSITORY :: "(string \<times> js) list" where
  "EXPECTED_NPM_REPOSITORY =
     [(''type'', JStr ''git''), (''url'', JStr ''git+https://github.com/nemnesia/symbol-nem-wallet-core.git''),
      (''directory'', JStr ''packages/wallet-core'')]"

definition NPM_PACKAGE_METADATA :: "(string \<times> js) list" where
  "NPM_PACKAGE_METADATA =
     [(''author'', JStr ''ccHarvestasya''),
      (''homepage'', JStr ''https://github.com/nemnesia/symbol-nem-wallet-core#readme''),
      (''bugs'', JObj [(''url'', JStr ''https://github.com/nemnesia/symbol-nem-wallet-core/issues'')]),
      (''keywords'', JArr (map JStr [''symbol'', ''nem'', ''wallet'', ''wallet-core'', ''cryptography'', ''webassembly'', ''napi''])),
      (''publishConfig'', JObj [(''access'', JStr ''public'')]),
      (''codegenConfig'', JObj
         [(''name'', JStr ''SymbolNemWalletCoreSpec''), (''type'', JStr ''modules''), (''jsSrcsDir'', JStr ''src/react-native''),
          (''android'', JObj [(''javaPackageName'', JStr ''com.nemnesia.symbolnemwalletcore'')]),
          (''ios'', JObj [(''modulesProvider'',
             JObj [(''NativeSymbolNemWalletCore'', JStr ''NativeSymbolNemWalletCoreProvider'')])])])]"

definition EXPECTED_NPM_PACKAGE_KEYS :: "string list" where
  "EXPECTED_NPM_PACKAGE_KEYS =
     [''name'', ''version'', ''description'', ''author'', ''homepage'', ''bugs'', ''keywords'', ''license'', ''publishConfig'',
      ''repository'', ''type'', ''types'', ''main'', ''module'', ''codegenConfig'', ''exports'', ''engines'', ''files'']"

definition repository_fail :: "string \<Rightarrow> js_error" where
  "repository_fail message = Fail (''npm repository metadata gate failed: '' @ message)"

definition validateNpmRepositoryMetadata :: "js \<Rightarrow> unit res" where
  "validateNpmRepositoryMetadata metadata =
     (let repository = fld metadata ''repository'' in
      gate_checks repository_fail
        [(isPlainObject repository, ''repository metadata is missing or invalid''),
         (exactKeys repository (map fst EXPECTED_NPM_REPOSITORY), ''repository metadata has unexpected or missing fields''),
         (list_all (\<lambda>(key, expected). strict_eq (fld repository key) expected) EXPECTED_NPM_REPOSITORY,
          ''repository differs from the canonical npm identity'')])"

definition NPM_PACKAGE :: string where "NPM_PACKAGE = ''@nemnesia/symbol-nem-wallet-core''"

definition validateNpmPackageMetadata :: "js \<Rightarrow> unit res" where
  "validateNpmPackageMetadata metadata =
     bindE (gate_checks repository_fail
       [(isPlainObject metadata, ''npm package metadata is not an object''),
        (exactKeys metadata EXPECTED_NPM_PACKAGE_KEYS, ''npm package metadata has unexpected or missing fields''),
        (strict_eq (fld metadata ''name'') (JStr NPM_PACKAGE) \<and> strict_eq (fld metadata ''version'') (JStr ''0.2.0''),
         ''package identity is not the formal production package'')]) (\<lambda>_.
     bindE (validateNpmRepositoryMetadata metadata) (\<lambda>_.
     gate_checks repository_fail
       [(list_all (\<lambda>(key, expected). json_same (fld metadata key) expected) NPM_PACKAGE_METADATA,
         ''npm package metadata differs from the canonical production metadata'')]))"

section \<open>The environment\<close>

definition WORKFLOW_PATH :: string where "WORKFLOW_PATH = ''.github/workflows/release.yml''"
definition RELEASE_REPOSITORY :: string where "RELEASE_REPOSITORY = ''nemnesia/symbol-nem-wallet-core''"
definition RELEASE_ENVIRONMENT :: string where "RELEASE_ENVIRONMENT = ''release''"
definition NPM_REGISTRY :: string where "NPM_REGISTRY = ''https://registry.npmjs.org/''"
definition REQUIRED_NATIVE_TARGETS :: "string list" where
  "REQUIRED_NATIVE_TARGETS = [''win32-x64-msvc'', ''darwin-x64'', ''darwin-arm64'', ''linux-x64-gnu'']"
definition PROVENANCE_PREDICATE_TYPES :: "string list" where
  "PROVENANCE_PREDICATE_TYPES = [''https://slsa.dev/provenance/v1'', ''https://slsa.dev/provenance/v0.2'']"

text \<open>
  \<open>np_decode64 p\<close> is \<open>Buffer.from(p, "base64").toString("utf8")\<close>, \<open>np_encode64 s\<close> is
  \<open>Buffer.from(s, "utf8").toString("base64")\<close>, \<open>np_hex64 h\<close> is
  \<open>Buffer.from(h, "hex").toString("base64")\<close>; \<open>np_tar_list\<close> and \<open>np_tar_entry\<close> are the lists and
  contents that \<open>tar\<close> prints, \<open>None\<close> when it fails.
\<close>

record provenance_env =
  np_url :: url_parser
  np_sha256 :: "byte list \<Rightarrow> string"
  np_sha512 :: "byte list \<Rightarrow> string"
  np_parse :: "string \<Rightarrow> js option"
  np_parse_bytes :: "byte list \<Rightarrow> js option"
  np_decode64 :: "string \<Rightarrow> string"
  np_encode64 :: "string \<Rightarrow> string"
  np_hex64 :: "string \<Rightarrow> string"
  np_tar_list :: "byte list \<Rightarrow> string option"
  np_tar_entry :: "byte list \<Rightarrow> string \<Rightarrow> byte list option"

record expected_release =
  ex_packageName :: string
  ex_version :: string
  ex_tag :: string
  ex_sourceCommit :: string
  ex_environment :: js
  ex_repository :: string
  ex_tarballSha256 :: js
  ex_tarballSize :: js
  ex_tarballSha512 :: js
  ex_workflowRunId :: "string option"
  ex_workflowRunAttempt :: js

definition is_commit :: "js \<Rightarrow> bool" where
  "is_commit v \<longleftrightarrow> is_str v \<and> rx_test commit_pattern (str_of v)"

definition packagePurl :: "string \<Rightarrow> string \<Rightarrow> string" where
  "packagePurl packageName version =
     ''pkg:npm/'' @ (if starts_with ''@'' packageName then ''%40'' @ drop 1 packageName else packageName) @ ''@'' @ version"

definition registryVersionUrl :: "string \<Rightarrow> string \<Rightarrow> string" where
  "registryVersionUrl packageName version =
     NPM_REGISTRY @ encodeURIComponent packageName @ ''/'' @ encodeURIComponent version"

section \<open>Attestations\<close>

definition decodeStatement :: "provenance_env \<Rightarrow> js \<Rightarrow> js res" where
  "decodeStatement env bundle =
     (let payload = fld (fld bundle ''dsseEnvelope'') ''payload'' in
      if \<not> isPlainObject bundle \<or> \<not> isPlainObject (fld bundle ''dsseEnvelope'') \<or> \<not> is_str payload
      then Inl (np_fail ''npm attestation has no DSSE payload'')
      else if np_encode64 env (np_decode64 env (str_of payload)) \<noteq> str_of payload
      then Inl (np_fail ''npm attestation DSSE payload is malformed'')
      else (case np_parse env (np_decode64 env (str_of payload)) of
          None \<Rightarrow> Inl (np_fail ''npm attestation DSSE payload is malformed'')
        | Some statement \<Rightarrow> Inr statement))"

definition subject_matches :: "expected_release \<Rightarrow> js \<Rightarrow> bool" where
  "subject_matches x subject \<longleftrightarrow>
     isPlainObject subject \<and> strict_eq (fld subject ''name'') (JStr (packagePurl (ex_packageName x) (ex_version x))) \<and>
     strict_eq (fld (fld subject ''digest'') ''sha512'') (ex_tarballSha512 x)"

definition github_url :: "expected_release \<Rightarrow> string" where
  "github_url x = ''https://github.com/'' @ ex_repository x"

definition tag_ref :: "expected_release \<Rightarrow> string" where
  "tag_ref x = ''refs/tags/'' @ ex_tag x"

definition workflow_matches :: "expected_release \<Rightarrow> js \<Rightarrow> bool" where
  "workflow_matches x workflow \<longleftrightarrow>
     isPlainObject workflow \<and> strict_eq (fld workflow ''repository'') (JStr (github_url x)) \<and>
     strict_eq (fld workflow ''path'') (JStr WORKFLOW_PATH) \<and> strict_eq (fld workflow ''ref'') (JStr (tag_ref x))"

definition dependency_matches :: "expected_release \<Rightarrow> js \<Rightarrow> bool" where
  "dependency_matches x dependency \<longleftrightarrow>
     isPlainObject dependency \<and> strict_eq (fld dependency ''uri'') (JStr (''git+'' @ github_url x @ ''@'' @ tag_ref x)) \<and>
     strict_eq (fld (fld dependency ''digest'') ''gitCommit'') (JStr (ex_sourceCommit x))"

definition runs_url :: "expected_release \<Rightarrow> string" where
  "runs_url x = github_url x @ ''/actions/runs/''"

text \<open>The run that published: its number, and its attempt when that is known too.\<close>

definition run_check :: "expected_release \<Rightarrow> string \<Rightarrow> unit res" where
  "run_check x invocationId =
     (case ex_workflowRunId x of
        None \<Rightarrow> Inr ()
      | Some run \<Rightarrow>
          let expectedInvocationPrefix = runs_url x @ run in
          if ex_workflowRunAttempt x \<noteq> JUndef then
            (case ex_workflowRunAttempt x of
               JNum a \<Rightarrow>
                 if num_is_integer a \<and> 1 \<le> num_int a \<and> invocationId = expectedInvocationPrefix @ ''/attempts/'' @ num_str a
                 then Inr ()
                 else Inl (np_fail ''npm provenance invocation attempt does not match the original release run'')
             | _ \<Rightarrow> Inl (np_fail ''npm provenance invocation attempt does not match the original release run''))
          else if invocationId \<noteq> expectedInvocationPrefix \<and> \<not> starts_with (expectedInvocationPrefix @ ''/attempts/'') invocationId
          then Inl (np_fail ''npm provenance invocation identity does not match the original release run'')
          else Inr ())"

definition provenanceIdentity :: "provenance_env \<Rightarrow> expected_release \<Rightarrow> js \<Rightarrow> js option res" where
  "provenanceIdentity env x attestation =
     (let predicateType = fld attestation ''predicateType'' in
      if \<not> isPlainObject attestation \<or> \<not> is_str predicateType
      then Inl (np_fail ''npm attestation identity is malformed'')
      else
      bindE (decodeStatement env (fld attestation ''bundle'')) (\<lambda>statement.
      bindE (getp statement ''predicateType'') (\<lambda>statementType.
      let predicate = fld statement ''predicate'';
          buildDefinition = fld predicate ''buildDefinition'';
          workflow = fld (fld buildDefinition ''externalParameters'') ''workflow'';
          dependencies = fld buildDefinition ''resolvedDependencies'';
          invocationId = fld (fld (fld predicate ''runDetails'') ''metadata'') ''invocationId'' in
      bindE (gate_checks np_fail
        [(strict_eq statementType predicateType, ''npm attestation predicate type differs from its DSSE statement''),
         (is_arr (fld statement ''subject'') \<and> list_ex (subject_matches x) (elems (fld statement ''subject'')),
          ''npm attestation subject does not match the registry tarball'')]) (\<lambda>_.
      if str_of predicateType \<notin> set PROVENANCE_PREDICATE_TYPES then Inr None
      else
      bindE (gate_checks np_fail
        [(workflow_matches x workflow, ''npm provenance workflow identity does not match the release''),
         (is_arr dependencies \<and> list_ex (dependency_matches x) (elems dependencies),
          ''npm provenance source commit identity does not match the release''),
         (is_str invocationId \<and> starts_with (runs_url x) (str_of invocationId),
          ''npm provenance invocation identity is unavailable'')]) (\<lambda>_.
      bindE (run_check x (str_of invocationId)) (\<lambda>_.
        Inr (Some (JObj
          [(''predicate_type'', predicateType), (''subject_name'', JStr (packagePurl (ex_packageName x) (ex_version x))),
           (''subject_sha512'', ex_tarballSha512 x), (''workflow_repository'', fld workflow ''repository''),
           (''workflow_path'', fld workflow ''path''), (''workflow_ref'', fld workflow ''ref''),
           (''source_commit'', JStr (ex_sourceCommit x)), (''invocation_id'', invocationId)]))))))))"

definition provenanceIdentities :: "provenance_env \<Rightarrow> js \<Rightarrow> expected_release \<Rightarrow> js list res" where
  "provenanceIdentities env attestations x =
     (if \<not> is_arr attestations \<or> elems attestations = [] then Inl (np_fail ''npm registry returned no attestations'')
      else bindE (mapE (provenanceIdentity env x) (elems attestations)) (\<lambda>results.
        let identities = List.map_filter id results in
        if identities = [] then Inl (np_fail ''npm registry returned no provenance attestation'') else Inr identities))"

definition verified_entry :: "expected_release \<Rightarrow> js \<Rightarrow> bool" where
  "verified_entry x entry \<longleftrightarrow> isPlainObject entry \<and> strict_eq (fld entry ''name'') (JStr (ex_packageName x)) \<and>
     strict_eq (fld entry ''version'') (JStr (ex_version x))"

definition provenance_bundle :: "js \<Rightarrow> bool" where
  "provenance_bundle bundle \<longleftrightarrow>
     is_str (fld bundle ''predicateType'') \<and> str_of (fld bundle ''predicateType'') \<in> set PROVENANCE_PREDICATE_TYPES"

definition validateAuditSignatures :: "js \<Rightarrow> expected_release \<Rightarrow> js res" where
  "validateAuditSignatures audit x =
     (let invalid = fld audit ''invalid''; missing = fld audit ''missing''; verified = fld audit ''verified'' in
      bindE (gate_checks np_fail
        [(isPlainObject audit \<and> is_arr invalid \<and> is_arr missing \<and> is_arr verified, ''npm audit signatures output is incomplete''),
         (elems invalid = [] \<and> elems missing = [], ''npm audit signatures reported invalid or missing evidence'')]) (\<lambda>_.
      (case List.find (verified_entry x) (elems verified) of
         None \<Rightarrow> Inl (np_fail ''npm audit signatures did not verify the release package attestation'')
       | Some packageResult \<Rightarrow>
           let bundles = fld packageResult ''attestationBundles'' in
           bindE (gate_checks np_fail
             [(is_arr bundles, ''npm audit signatures did not verify the release package attestation''),
              (list_ex provenance_bundle (elems bundles), ''npm audit signatures did not verify a provenance attestation'')]) (\<lambda>_.
             Inr (JObj [(''package_name'', JStr (ex_packageName x)), (''package_version'', JStr (ex_version x)),
               (''invalid_count'', JInt (int (length (elems invalid)))), (''missing_count'', JInt (int (length (elems missing)))),
               (''verified_attestation'', JBool True)])))))"

end
