(* ===== verification/NpmEvidence.thy ===== *)
theory NpmEvidence
  imports NpmProvenance
begin

text \<open>
  The evidence of the published package, second half of \<open>npm-provenance.mjs\<close>: the content of the
  registry's tarball, what a release manifest lets expect, the validation of the evidence and its
  capture. The files the capture writes and the temporary directory of the npm audit are left out.
\<close>

section \<open>The tarball of the registry\<close>

definition tar_text :: "provenance_env \<Rightarrow> byte list \<Rightarrow> string \<Rightarrow> string \<Rightarrow> byte list res" where
  "tar_text env tarball entryPath label =
     (case np_tar_entry env tarball entryPath of
        None \<Rightarrow> Inl (np_fail (label @ '' is missing or unreadable in the registry tarball'')) | Some bytes \<Rightarrow> Inr bytes)"

definition unsafe_entry :: "string \<Rightarrow> bool" where
  "unsafe_entry entry =
     (let path = (if ends_with ''/'' entry then butlast entry else entry) in
      path = [] \<or> starts_with ''/'' path \<or> CHR 0x5C \<in> set path \<or>
      list_ex (\<lambda>part. part = '''' \<or> part = ''.'' \<or> part = ''..'') (split_on CHR ''/'' path))"

definition tar_json :: "provenance_env \<Rightarrow> byte list \<Rightarrow> string \<Rightarrow> string \<Rightarrow> js res" where
  "tar_json env tarball entryPath label =
     (case Option.bind (np_tar_entry env tarball entryPath) (np_parse_bytes env) of
        None \<Rightarrow> Inl (np_fail (label @ '' is malformed'')) | Some v \<Rightarrow> Inr v)"

text \<open>\<open>artifacts.find((entry) => entry.target_id === targetId)\<close>.\<close>

definition find_target :: "js \<Rightarrow> js list \<Rightarrow> js option" where
  "find_target targetId entries = List.find (\<lambda>e. strict_eq (fld e ''target_id'') targetId) entries"

definition js_length :: "'a list \<Rightarrow> js" where
  "js_length xs = JInt (int (length xs))"

definition native_registry_step :: "provenance_env \<Rightarrow> byte list \<Rightarrow> js list \<Rightarrow> js \<Rightarrow> bool \<Rightarrow> js \<Rightarrow> unit res" where
  "native_registry_step env tarball artifacts manifest recovery artifact =
     (let targetId = fld artifact ''target_id'' in
      case find_target targetId artifacts of
        None \<Rightarrow> Inl (np_fail ''registry native artifact identity differs'')
      | Some runtime \<Rightarrow>
          bindE (gate_checks np_fail
            [(isPlainObject runtime \<and> strict_eq (fld runtime ''relative_path'') (fld artifact ''relative_path'') \<and>
              strict_eq (fld runtime ''sha256'') (fld artifact ''sha256''), ''registry native artifact identity differs'')]) (\<lambda>_.
          bindE (str_or_throw (fld runtime ''relative_path'')) (\<lambda>path.
          bindE (tar_text env tarball (''package/'' @ path) ''registry native artifact'') (\<lambda>bytes.
          if \<not> strict_eq (JStr (np_sha256 env bytes)) (fld runtime ''sha256'')
          then Inl (np_fail ''registry native artifact bytes differ'')
          else if recovery then Inr ()
          else if list_ex nullish (elems (fld manifest ''native_artifacts'')) then Inl TypeErr
          else (case find_target targetId (elems (fld manifest ''native_artifacts'')) of
              None \<Rightarrow> Inl (np_fail ''registry native artifact differs from the release'')
            | Some expectedArtifact \<Rightarrow>
                gate_checks np_fail
                  [(isPlainObject expectedArtifact \<and>
                    strict_eq (fld runtime ''relative_path'') (fld expectedArtifact ''relative_path'') \<and>
                    strict_eq (fld runtime ''sha256'') (fld expectedArtifact ''sha256'') \<and>
                    strict_eq (js_length bytes) (fld expectedArtifact ''size''),
                    ''registry native artifact differs from the release'')])))))"

definition WASM_FILENAME :: string where
  "WASM_FILENAME = ''symbol_nem_wallet_core_wasm_bg.wasm''"

definition wasm_registry_check :: "provenance_env \<Rightarrow> byte list \<Rightarrow> js \<Rightarrow> bool \<Rightarrow> unit res" where
  "wasm_registry_check env tarball manifest recovery =
     (let wasm = fld (fld manifest ''wasm'') ''canonical_artifact'' in
      bindE (if recovery then Inr (''package/dist/wasm/'' @ WASM_FILENAME)
             else bindE (str_or_throw (fld wasm ''relative_path'')) (\<lambda>p. Inr (''package/'' @ p))) (\<lambda>wasmPath.
      bindE (tar_text env tarball wasmPath ''registry canonical WASM'') (\<lambda>wasmBytes.
      if wasmBytes = [] then Inl (np_fail ''registry canonical WASM is empty'')
      else
      bindE (tar_json env tarball ''package/dist/wasm/artifact-manifest.json'' ''registry runtime WASM artifact manifest'') (\<lambda>runtime.
      bindE (gate_checks np_fail
        [(isPlainObject runtime \<and> join '','' (sort (obj_keys runtime)) = ''artifact_filename,sha256'' \<and>
          strict_eq (fld runtime ''artifact_filename'') (JStr WASM_FILENAME) \<and>
          strict_eq (JStr (np_sha256 env wasmBytes)) (fld runtime ''sha256''),
          ''registry runtime WASM metadata differs from the canonical artifact'')]) (\<lambda>_.
      if recovery then Inr ()
      else gate_checks np_fail
        [(strict_eq (JStr (np_sha256 env wasmBytes)) (fld wasm ''sha256'') \<and> strict_eq (fld runtime ''sha256'') (fld wasm ''sha256'') \<and>
          strict_eq (js_length wasmBytes) (fld wasm ''size''), ''registry canonical WASM differs from the release manifest'')])))))"

definition validateRegistryTarballContent ::
  "provenance_env \<Rightarrow> byte list \<Rightarrow> expected_release \<Rightarrow> js \<Rightarrow> bool \<Rightarrow> (js \<times> js) res" where
  "validateRegistryTarballContent env tarball x manifest recovery =
     (case np_tar_list env tarball of
        None \<Rightarrow> Inl (np_fail ''registry tarball is corrupt or unreadable'')
      | Some listing \<Rightarrow>
     let entries = filter (\<lambda>e. e \<noteq> []) (split_lines listing) in
     bindE (gate_checks np_fail
       [(\<not> list_ex unsafe_entry entries, ''registry tarball contains an unsafe path''),
        (length (filter (\<lambda>e. e = ''package/package.json'') entries) = 1,
         ''registry tarball package metadata is missing or duplicated'')]) (\<lambda>_.
     bindE (tar_json env tarball ''package/package.json'' ''registry tarball package metadata'') (\<lambda>metadata.
     bindE (gate_checks np_fail
       [(isPlainObject metadata \<and> strict_eq (fld metadata ''name'') (JStr NPM_PACKAGE) \<and>
         strict_eq (fld metadata ''version'') (JStr (ex_version x)),
         ''registry tarball package identity differs from the release'')]) (\<lambda>_.
     case validateNpmRepositoryMetadata metadata of
       Inl _ \<Rightarrow> Inl (np_fail ''registry tarball package metadata'')
     | Inr _ \<Rightarrow>
     bindE (gate_checks np_fail
       [(isPlainObject manifest \<and> isPlainObject (fld (fld manifest ''wasm'') ''canonical_artifact'') \<and>
         is_arr (fld manifest ''native_artifacts''),
         ''release manifest artifact identity is unavailable for registry tarball verification'')]) (\<lambda>_.
     case bindE (tar_json env tarball ''package/dist/native/artifact-manifest.json'' '''') (\<lambda>m. bindE (validateNativeManifest m metadata) (\<lambda>_. Inr m)) of
       Inl _ \<Rightarrow> Inl (np_fail ''registry native artifact manifest is malformed'')
     | Inr runtimeManifest \<Rightarrow>
     let artifacts = fld runtimeManifest ''artifacts'' in
     bindE (gate_checks np_fail
       [(isPlainObject runtimeManifest \<and> strict_eq (fld runtimeManifest ''package_name'') (JStr NPM_PACKAGE) \<and>
         strict_eq (fld runtimeManifest ''package_version'') (JStr (ex_version x)) \<and>
         strict_eq (fld runtimeManifest ''source_commit'') (JStr (ex_sourceCommit x)) \<and> is_arr artifacts,
         ''registry native artifact manifest identity differs from the release'')]) (\<lambda>_.
     bindE (if recovery then Inr (map JStr REQUIRED_NATIVE_TARGETS)
            else mapE (\<lambda>a. getp a ''target_id'') (elems (fld manifest ''native_artifacts''))) (\<lambda>expectedTargets.
     bindE (mapE (\<lambda>a. getp a ''target_id'') (elems artifacts)) (\<lambda>actualTargets.
     if \<not> json_same (JArr actualTargets) (JArr expectedTargets)
     then Inl (np_fail ''registry native artifact set differs from the release'')
     else
     bindE (mapE (native_registry_step env tarball (elems artifacts) manifest recovery) (elems artifacts)) (\<lambda>_.
     bindE (wasm_registry_check env tarball manifest recovery) (\<lambda>_. Inr (metadata, runtimeManifest)))))))))))"

section \<open>What is expected\<close>

definition expectedFromManifest :: "js \<Rightarrow> js \<Rightarrow> js \<Rightarrow> js \<Rightarrow> js \<Rightarrow> bool \<Rightarrow> expected_release res" where
  "expectedFromManifest manifest tag sourceCommit environment repository recovery =
     (let version = fld manifest ''package_version''; tarball = fld manifest ''npm_tarball'' in
      bindE (gate_checks np_fail
        [(isPlainObject manifest \<and> strict_eq (fld manifest ''mode'') (JStr ''release'') \<and>
          strict_eq (fld manifest ''package_name'') (JStr NPM_PACKAGE) \<and> is_str version \<and>
          strict_eq (fld manifest ''release_tag'') tag \<and> strict_eq (fld manifest ''source_commit'') sourceCommit \<and>
          isPlainObject tarball, ''release manifest identity is invalid''),
         (strict_eq tag (JStr (''v'' @ str_of version)), ''release tag/version identity is invalid''),
         (is_commit sourceCommit, ''source commit is invalid''),
         (is_hash (fld tarball ''sha256''), ''release tarball SHA-256 is invalid''),
         (case int_status (fld tarball ''size'') of None \<Rightarrow> False | Some n \<Rightarrow> 0 \<le> n, ''release tarball size is invalid''),
         (strict_eq environment (JStr RELEASE_ENVIRONMENT), ''release Environment is invalid''),
         (strict_eq repository (JStr RELEASE_REPOSITORY), ''GitHub repository is not the approved release repository'')]) (\<lambda>_.
        Inr \<lparr>ex_packageName = NPM_PACKAGE, ex_version = str_of version, ex_tag = str_of tag, ex_sourceCommit = str_of sourceCommit,
          ex_environment = environment, ex_repository = RELEASE_REPOSITORY,
          ex_tarballSha256 = (if recovery then JUndef else fld tarball ''sha256''), ex_tarballSize = JUndef, ex_tarballSha512 = JUndef,
          ex_workflowRunId = None, ex_workflowRunAttempt = JUndef\<rparr>))"

section \<open>The validation of the evidence\<close>

definition is_sha512 :: "js \<Rightarrow> bool" where
  "is_sha512 v \<longleftrightarrow> is_str v \<and> rx_test sha512_pattern (str_of v)"

definition integrity_of :: "provenance_env \<Rightarrow> string \<Rightarrow> string" where
  "integrity_of env sha512 = ''sha512-'' @ np_hex64 env sha512"

definition AUDIT_COMMAND :: string where
  "AUDIT_COMMAND = ''npm audit signatures --json --include-attestations''"

definition evidence_checks :: "provenance_env \<Rightarrow> js \<Rightarrow> expected_release \<Rightarrow> (bool \<times> string) list" where
  "evidence_checks env evidence x =
     (let registry = fld evidence ''registry''; canonical = fld evidence ''canonical_artifact'';
          candidate = fld evidence ''candidate_artifact''; publication = fld evidence ''publication_mode'' in
      [(isPlainObject evidence \<and> strict_eq (fld evidence ''schema_version'') (JInt 1) \<and>
        strict_eq (fld evidence ''artifact_kind'') (JStr ''npm-provenance''), ''npm provenance evidence schema is invalid''),
       (strict_eq (fld evidence ''package_name'') (JStr (ex_packageName x)) \<and>
        strict_eq (fld evidence ''package_version'') (JStr (ex_version x)) \<and>
        strict_eq (fld evidence ''release_tag'') (JStr (ex_tag x)) \<and>
        strict_eq (fld evidence ''source_commit'') (JStr (ex_sourceCommit x)) \<and>
        strict_eq (fld evidence ''environment'') (ex_environment x),
        ''npm provenance evidence identity differs from the release''),
       (isPlainObject registry \<and> strict_eq (fld registry ''package_name'') (JStr (ex_packageName x)) \<and>
        strict_eq (fld registry ''package_version'') (JStr (ex_version x)) \<and>
        strict_eq (fld registry ''tarball_sha256'') (ex_tarballSha256 x) \<and>
        strict_eq (fld registry ''tarball_size'') (ex_tarballSize x) \<and>
        is_sha512 (fld registry ''tarball_sha512'') \<and> is_str (fld registry ''dist_integrity''),
        ''npm registry evidence identity is invalid''),
       (strict_eq (fld registry ''dist_integrity'') (JStr (integrity_of env (str_of (fld registry ''tarball_sha512'')))),
        ''npm registry integrity does not match the tarball digest''),
       (ex_tarballSha512 x = JUndef \<or> strict_eq (fld registry ''tarball_sha512'') (ex_tarballSha512 x),
        ''npm registry SHA-512 differs from the downloaded tarball''),
       (isPlainObject canonical \<and> strict_eq (fld canonical ''source'') (JStr ''registry'') \<and>
        strict_eq (fld canonical ''sha256'') (fld registry ''tarball_sha256'') \<and>
        strict_eq (fld canonical ''sha512'') (fld registry ''tarball_sha512'') \<and>
        strict_eq (fld canonical ''size'') (fld registry ''tarball_size'') \<and>
        strict_eq (fld canonical ''integrity'') (fld registry ''dist_integrity'') \<and>
        strict_eq (fld canonical ''tarball_url'') (fld registry ''tarball_url''),
        ''npm canonical published artifact identity is invalid''),
       (publication = JStr ''fresh-publish'' \<or> publication = JStr ''post-publish-recovery'',
        ''npm provenance publication mode is invalid''),
       (publication = JStr ''post-publish-recovery'' \<longrightarrow>
          isPlainObject candidate \<and> is_hash (fld candidate ''sha256'') \<and>
          (case int_status (fld candidate ''size'') of None \<Rightarrow> False | Some n \<Rightarrow> 0 \<le> n),
        ''npm recovery candidate artifact evidence is missing''),
       (strict_eq (fld registry ''metadata_url'') (JStr (registryVersionUrl (ex_packageName x) (ex_version x))),
        ''npm metadata URL is not the exact package/version registry endpoint'')])"

definition registry_metadata_ok :: "js \<Rightarrow> js \<Rightarrow> expected_release \<Rightarrow> bool" where
  "registry_metadata_ok metadata registry x \<longleftrightarrow>
     isPlainObject metadata \<and> strict_eq (fld metadata ''name'') (JStr (ex_packageName x)) \<and>
     strict_eq (fld metadata ''version'') (JStr (ex_version x)) \<and> isPlainObject (fld metadata ''dist'') \<and>
     strict_eq (fld (fld metadata ''dist'') ''tarball'') (fld registry ''tarball_url'') \<and>
     strict_eq (fld (fld metadata ''dist'') ''integrity'') (fld registry ''dist_integrity'') \<and>
     strict_eq (fld (fld (fld metadata ''dist'') ''attestations'') ''url'') (fld registry ''attestations_url'')"

definition validateNpmProvenanceEvidence :: "provenance_env \<Rightarrow> js \<Rightarrow> expected_release \<Rightarrow> unit res" where
  "validateNpmProvenanceEvidence env evidence x =
     (let registry = fld evidence ''registry''; metadata = fld evidence ''registry_metadata''; up = np_url env in
      bindE (gate_checks np_fail (evidence_checks env evidence x)) (\<lambda>_.
      bindE (safeHttpsUrl up (fld registry ''metadata_url'') ''npm metadata URL'') (\<lambda>_.
      bindE (safeHttpsUrl up (fld registry ''tarball_url'') ''npm tarball URL'') (\<lambda>_.
      bindE (safeHttpsUrl up (fld registry ''attestations_url'') ''npm attestations URL'') (\<lambda>_.
      bindE (gate_checks np_fail
        [(registry_metadata_ok metadata registry x, ''npm registry metadata evidence is incomplete or inconsistent'')]) (\<lambda>_.
      case validateNpmRepositoryMetadata metadata of
        Inl _ \<Rightarrow> Inl (np_fail ''npm registry metadata evidence'')
      | Inr _ \<Rightarrow>
      bindE (provenanceIdentities env (fld (fld evidence ''registry_attestations'') ''attestations'')
          (x\<lparr>ex_tarballSha512 := fld registry ''tarball_sha512''\<rparr>)) (\<lambda>identities.
      let recorded = fld (fld evidence ''provenance'') ''identities'' in
      bindE (gate_checks np_fail
        [(is_arr recorded \<and> json_same recorded (JArr identities),
          ''npm provenance identity summary differs from the registry attestation''),
         (strict_eq (fld (fld evidence ''verification'') ''status'') (JStr ''PASS'') \<and>
          strict_eq (fld (fld evidence ''verification'') ''command'') (JStr AUDIT_COMMAND),
          ''npm provenance was not verified by the npm signature verifier'')]) (\<lambda>_.
      bindE (validateAuditSignatures (fld evidence ''audit_signatures'') x) (\<lambda>_. Inr ())))))))))"

section \<open>The capture\<close>

record capture_input =
  ci_manifest :: js
  ci_tag :: js
  ci_sourceCommit :: js
  ci_environment :: js
  ci_repository :: js
  ci_recovery :: bool
  ci_workflowRunId :: "string option"
  ci_workflowRunAttempt :: js

text \<open>
  The answers of the registry to the request for the package's metadata, to the requests for
  bytes and to the attempts for the attestation record; the output of \<open>npm audit signatures\<close> for
  the installed package, and the version npm prints.
\<close>

record capture_services =
  cs_metadata :: "string \<Rightarrow> response option"
  cs_bytes :: "string \<Rightarrow> response option"
  cs_attestations :: "nat \<Rightarrow> response option"
  cs_audit :: "js res"
  cs_npm_version :: "string res"

text \<open>The record is asked for with the default policy.\<close>

definition default_attestations :: "provenance_env \<Rightarrow> capture_services \<Rightarrow> string \<Rightarrow> js res" where
  "default_attestations env s url =
     fst (fetchAttestationRecord (np_url env) (cs_attestations s) (JStr url) (JInt ATTESTATION_RETRY_ATTEMPTS)
       (Some ATTESTATION_RETRY_INITIAL_DELAY_MS) (Some ATTESTATION_RETRY_MAX_DELAY_MS))"

definition with_tarball :: "provenance_env \<Rightarrow> byte list \<Rightarrow> expected_release \<Rightarrow> expected_release" where
  "with_tarball env tarball x =
     x\<lparr>ex_tarballSha256 := JStr (np_sha256 env tarball), ex_tarballSha512 := JStr (np_sha512 env tarball),
       ex_tarballSize := js_length tarball\<rparr>"

definition evidence_object ::
  "provenance_env \<Rightarrow> capture_input \<Rightarrow> js \<Rightarrow> string \<Rightarrow> string \<Rightarrow> string \<Rightarrow> byte list \<Rightarrow> js \<Rightarrow> js list \<Rightarrow> js \<Rightarrow> js \<Rightarrow> string \<Rightarrow> js" where
  "evidence_object env i metadata metadataUrl tarballUrl attestationsUrl tarball attestations identities audit summary npmVersion =
     (let m = ci_manifest i; sha256 = JStr (np_sha256 env tarball); sha512 = JStr (np_sha512 env tarball);
          integrity = fld (fld metadata ''dist'') ''integrity'' in
      JObj
        [(''schema_version'', JInt 1), (''artifact_kind'', JStr ''npm-provenance''), (''package_name'', JStr NPM_PACKAGE),
         (''package_version'', fld m ''package_version''), (''release_tag'', ci_tag i), (''source_commit'', ci_sourceCommit i),
         (''environment'', ci_environment i),
         (''publication_mode'', JStr (if ci_recovery i then ''post-publish-recovery'' else ''fresh-publish'')),
         (''candidate_artifact'', if ci_recovery i
           then JObj [(''sha256'', fld (fld m ''npm_tarball'') ''sha256''), (''size'', fld (fld m ''npm_tarball'') ''size'')] else JNull),
         (''canonical_artifact'', JObj
           [(''source'', JStr ''registry''), (''sha256'', sha256), (''sha512'', sha512), (''size'', js_length tarball),
            (''integrity'', integrity), (''tarball_url'', JStr tarballUrl)]),
         (''registry_metadata'', metadata),
         (''registry'', JObj
           [(''package_name'', fld metadata ''name''), (''package_version'', fld metadata ''version''),
            (''metadata_url'', JStr metadataUrl), (''tarball_url'', JStr tarballUrl), (''tarball_sha256'', sha256),
            (''tarball_sha512'', sha512), (''tarball_size'', js_length tarball), (''dist_integrity'', integrity),
            (''attestations_url'', JStr attestationsUrl)]),
         (''registry_attestations'', attestations),
         (''provenance'', JObj
           [(''predicate_types'', JArr (map (\<lambda>identity. fld identity ''predicate_type'') identities)), (''identities'', JArr identities)]),
         (''verification'', JObj
           [(''status'', JStr ''PASS''), (''command'', JStr AUDIT_COMMAND), (''npm_version'', JStr npmVersion), (''target'', summary)]),
         (''audit_signatures'', audit)])"

text \<open>Everything before the closing validation: the evidence and what it is validated against.\<close>

definition capture_evidence :: "provenance_env \<Rightarrow> capture_services \<Rightarrow> capture_input \<Rightarrow> (js \<times> expected_release) res" where
  "capture_evidence env s i =
     (let m = ci_manifest i in
      bindE (getp m ''package_version'') (\<lambda>version.
      bindE (str_or_throw version) (\<lambda>v.
      let metadataUrl = registryVersionUrl NPM_PACKAGE v in
      bindE (fetchJson (cs_metadata s metadataUrl) ''npm package metadata'') (\<lambda>metadata.
      let dist = fld metadata ''dist'' in
      bindE (gate_checks np_fail
        [(isPlainObject metadata \<and> strict_eq (fld metadata ''name'') (JStr NPM_PACKAGE) \<and>
          strict_eq (fld metadata ''version'') version \<and> isPlainObject dist,
          ''npm registry package metadata identity is invalid'')]) (\<lambda>_.
      case validateNpmRepositoryMetadata metadata of
        Inl _ \<Rightarrow> Inl (np_fail ''npm registry package metadata'')
      | Inr _ \<Rightarrow>
      bindE (safeHttpsUrl (np_url env) (fld dist ''tarball'') ''npm tarball URL'') (\<lambda>tarballUrl.
      bindE (gate_checks np_fail [(is_str (fld dist ''integrity''), ''npm registry tarball integrity is missing'')]) (\<lambda>_.
      bindE (safeHttpsUrl (np_url env) (fld (fld dist ''attestations'') ''url'') ''npm attestations URL'') (\<lambda>attestationsUrl.
      bindE (fst (fetchBytes (np_url env) (cs_bytes s) (JStr tarballUrl) ''npm release tarball'')) (\<lambda>tarball.
      let sha256 = JStr (np_sha256 env tarball); sha512 = np_sha512 env tarball in
      bindE (expectedFromManifest m (ci_tag i) (ci_sourceCommit i) (ci_environment i) (ci_repository i) (ci_recovery i)) (\<lambda>x.
      bindE (gate_checks np_fail
        [(ci_recovery i \<or> strict_eq sha256 (ex_tarballSha256 x) \<and> strict_eq (js_length tarball) (fld (fld m ''npm_tarball'') ''size''),
          ''registry tarball differs from the release manifest''),
         (strict_eq (fld dist ''integrity'') (JStr (integrity_of env sha512)),
          ''registry tarball integrity differs from the downloaded bytes'')]) (\<lambda>_.
      bindE (validateRegistryTarballContent env tarball
          (x\<lparr>ex_tarballSha512 := JStr sha512, ex_tarballSize := js_length tarball\<rparr>) m (ci_recovery i)) (\<lambda>_.
      bindE (default_attestations env s attestationsUrl) (\<lambda>attestations.
      let provenanceExpected = (with_tarball env tarball x)\<lparr>ex_workflowRunId := ci_workflowRunId i,
            ex_workflowRunAttempt := ci_workflowRunAttempt i\<rparr> in
      bindE (provenanceIdentities env (fld attestations ''attestations'') provenanceExpected) (\<lambda>identities.
      bindE (cs_audit s) (\<lambda>audit.
      bindE (validateAuditSignatures audit provenanceExpected) (\<lambda>summary.
      bindE (cs_npm_version s) (\<lambda>npmVersion.
        Inr (evidence_object env i metadata metadataUrl tarballUrl attestationsUrl tarball attestations identities audit summary npmVersion,
             with_tarball env tarball x))))))))))))))))))"

definition captureNpmProvenance :: "provenance_env \<Rightarrow> capture_services \<Rightarrow> capture_input \<Rightarrow> js res" where
  "captureNpmProvenance env s i =
     bindE (capture_evidence env s i) (\<lambda>(evidence, x).
     bindE (validateNpmProvenanceEvidence env evidence x) (\<lambda>_. Inr evidence))"

section \<open>What an attestation binds\<close>

text \<open>
  The statement of an attestation: the JSON text that its payload encodes, in canonical base64. It is
  about the tarball when one of its subjects has the package URL of the release and the SHA-512
  digest of the tarball.
\<close>

definition package_url :: "string \<Rightarrow> string \<Rightarrow> string \<Rightarrow> bool" where
  "package_url name version url \<longleftrightarrow>
     (case name of
        CHR ''@'' # scoped \<Rightarrow> url = ''pkg:npm/%40'' @ scoped @ ''@'' @ version
      | _ \<Rightarrow> url = ''pkg:npm/'' @ name @ ''@'' @ version)"

definition states :: "provenance_env \<Rightarrow> js \<Rightarrow> js \<Rightarrow> bool" where
  "states env attestation statement \<longleftrightarrow> (\<exists>payload type.
     fld (fld (fld attestation ''bundle'') ''dsseEnvelope'') ''payload'' = JStr payload \<and>
     np_encode64 env (np_decode64 env payload) = payload \<and> np_parse env (np_decode64 env payload) = Some statement \<and>
     fld attestation ''predicateType'' = JStr type \<and> fld statement ''predicateType'' = JStr type)"

definition about_tarball :: "expected_release \<Rightarrow> js \<Rightarrow> bool" where
  "about_tarball x statement \<longleftrightarrow> (\<exists>subject url. subject \<in> set (elems (fld statement ''subject'')) \<and>
     package_url (ex_packageName x) (ex_version x) url \<and> fld subject ''name'' = JStr url \<and>
     fld (fld subject ''digest'') ''sha512'' = ex_tarballSha512 x)"

text \<open>
  A statement of provenance says that the release workflow of the repository ran at the tag, on the
  source commit, and in which run; the run is the one that published, as far as it is known.
\<close>

definition of_provenance :: "js \<Rightarrow> bool" where
  "of_provenance statement \<longleftrightarrow>
     fld statement ''predicateType'' \<in> {JStr ''https://slsa.dev/provenance/v1'', JStr ''https://slsa.dev/provenance/v0.2''}"

abbreviation statement_workflow :: "js \<Rightarrow> js" where
  "statement_workflow statement \<equiv>
     fld (fld (fld (fld statement ''predicate'') ''buildDefinition'') ''externalParameters'') ''workflow''"

abbreviation statement_invocation :: "js \<Rightarrow> js" where
  "statement_invocation statement \<equiv> fld (fld (fld (fld statement ''predicate'') ''runDetails'') ''metadata'') ''invocationId''"

definition published_by :: "expected_release \<Rightarrow> string \<Rightarrow> bool" where
  "published_by x rest \<longleftrightarrow>
     (case ex_workflowRunId x of
        None \<Rightarrow> True
      | Some run \<Rightarrow>
          (case ex_workflowRunAttempt x of
             JUndef \<Rightarrow> rest = run \<or> (\<exists>attempt. rest = run @ ''/attempts/'' @ attempt)
           | JNum a \<Rightarrow> num_is_integer a \<and> 1 \<le> num_int a \<and> rest = run @ ''/attempts/'' @ num_str a
           | _ \<Rightarrow> False))"

definition built_from :: "expected_release \<Rightarrow> js \<Rightarrow> bool" where
  "built_from x statement \<longleftrightarrow>
     fld (statement_workflow statement) ''repository'' = JStr (''https://github.com/'' @ ex_repository x) \<and>
     fld (statement_workflow statement) ''path'' = JStr ''.github/workflows/release.yml'' \<and>
     fld (statement_workflow statement) ''ref'' = JStr (''refs/tags/'' @ ex_tag x) \<and>
     (\<exists>dependency \<in> set (elems (fld (fld (fld statement ''predicate'') ''buildDefinition'') ''resolvedDependencies'')).
        fld dependency ''uri'' = JStr (''git+https://github.com/'' @ ex_repository x @ ''@refs/tags/'' @ ex_tag x) \<and>
        fld (fld dependency ''digest'') ''gitCommit'' = JStr (ex_sourceCommit x)) \<and>
     (\<exists>rest. statement_invocation statement = JStr (''https://github.com/'' @ ex_repository x @ ''/actions/runs/'' @ rest) \<and>
        published_by x rest)"

text \<open>The identity that is recorded for a statement of provenance.\<close>

definition identity_of :: "expected_release \<Rightarrow> js \<Rightarrow> js \<Rightarrow> bool" where
  "identity_of x statement identity \<longleftrightarrow>
     (\<exists>url. package_url (ex_packageName x) (ex_version x) url \<and> fld identity ''subject_name'' = JStr url) \<and>
     fld identity ''predicate_type'' = fld statement ''predicateType'' \<and>
     fld identity ''subject_sha512'' = ex_tarballSha512 x \<and>
     fld identity ''workflow_repository'' = fld (statement_workflow statement) ''repository'' \<and>
     fld identity ''workflow_path'' = fld (statement_workflow statement) ''path'' \<and>
     fld identity ''workflow_ref'' = fld (statement_workflow statement) ''ref'' \<and>
     fld identity ''source_commit'' = JStr (ex_sourceCommit x) \<and>
     fld identity ''invocation_id'' = statement_invocation statement"

lemma package_url_iff: "package_url name version url \<longleftrightarrow> url = packagePurl name version"
  by (cases name) (auto simp: package_url_def packagePurl_def starts_with_def split: char.split bool.split)

lemma decodeStatement_Inr:
  "decodeStatement env (fld attestation ''bundle'') = Inr statement \<Longrightarrow> fld attestation ''predicateType'' = JStr type \<Longrightarrow>
   fld statement ''predicateType'' = JStr type \<Longrightarrow> states env attestation statement"
  by (auto simp: decodeStatement_def Let_def states_def is_str_iff split: if_splits option.splits)

lemma subject_about: "list_ex (subject_matches x) (elems (fld statement ''subject'')) \<Longrightarrow> about_tarball x statement"
  unfolding about_tarball_def package_url_iff list_ex_iff by (auto simp: subject_matches_def intro: strict_eq_imp_eq)

lemma run_check_Inr:
  "run_check x (runs_url x @ rest) = Inr () \<Longrightarrow> published_by x rest"
  by (auto simp: run_check_def published_by_def Let_def starts_with_iff split: option.splits js.splits if_splits)

lemma provenance_built:
  assumes "workflow_matches x (statement_workflow statement)"
    and "list_ex (dependency_matches x) (elems (fld (fld (fld statement ''predicate'') ''buildDefinition'') ''resolvedDependencies''))"
    and "statement_invocation statement = JStr invocation" and "starts_with (runs_url x) invocation" and "run_check x invocation = Inr ()"
  shows "built_from x statement"
proof -
  obtain rest where rest: "invocation = runs_url x @ rest" using assms(4) by (auto simp: starts_with_iff)
  then have "published_by x rest" using assms(5) run_check_Inr by simp
  then show ?thesis
    unfolding built_from_def using assms(1-3) rest
    by (auto simp: workflow_matches_def dependency_matches_def runs_url_def github_url_def tag_ref_def WORKFLOW_PATH_def list_ex_iff)
qed

lemma provenanceIdentity_sound:
  assumes "provenanceIdentity env x attestation = Inr identity"
  obtains statement where "states env attestation statement" "about_tarball x statement"
    "case identity of None \<Rightarrow> \<not> of_provenance statement
     | Some i \<Rightarrow> of_provenance statement \<and> built_from x statement \<and> identity_of x statement i"
proof -
  note d = assms [unfolded provenanceIdentity_def Let_def]
  from d obtain statement type where s: "decodeStatement env (fld attestation ''bundle'') = Inr statement"
      "fld attestation ''predicateType'' = JStr type" "fld statement ''predicateType'' = JStr type"
      "list_ex (subject_matches x) (elems (fld statement ''subject''))"
    by (auto simp: bindE_Inr_iff gate_checks_iff getp_def is_str_iff split: if_splits)
  have kind: "of_provenance statement \<longleftrightarrow> type \<in> set PROVENANCE_PREDICATE_TYPES"
    by (auto simp: of_provenance_def PROVENANCE_PREDICATE_TYPES_def s(3))
  have "case identity of None \<Rightarrow> \<not> of_provenance statement
     | Some i \<Rightarrow> of_provenance statement \<and> built_from x statement \<and> identity_of x statement i"
  proof (cases "of_provenance statement")
    case False
    then show ?thesis using d s kind by (auto simp: bindE_Inr_iff gate_checks_iff getp_def split: if_splits)
  next
    case True
    obtain invocation where built: "workflow_matches x (statement_workflow statement)"
        "list_ex (dependency_matches x) (elems (fld (fld (fld statement ''predicate'') ''buildDefinition'') ''resolvedDependencies''))"
        "statement_invocation statement = JStr invocation" "starts_with (runs_url x) invocation" "run_check x invocation = Inr ()"
      using d s True kind by (auto simp: bindE_Inr_iff gate_checks_iff getp_def is_str_iff split: if_splits)
    have "\<exists>i. identity = Some i \<and> identity_of x statement i"
      using d s True kind built(3)
      by (auto simp: bindE_Inr_iff gate_checks_iff getp_def identity_of_def package_url_iff split: if_splits)
    then show ?thesis using True provenance_built [OF built] by auto
  qed
  then show ?thesis using that decodeStatement_Inr [OF s(1-3)] subject_about [OF s(4)] by blast
qed

lemma map_filter_id: "List.map_filter id xs = map the (filter (\<lambda>x. x \<noteq> None) xs)"
  by (induction xs) (auto simp: List.map_filter_def)

lemma provenanceIdentities_Inr:
  "provenanceIdentities env attestations x = Inr identities \<longleftrightarrow>
     is_arr attestations \<and> identities \<noteq> [] \<and>
     (\<exists>results. mapE (provenanceIdentity env x) (elems attestations) = Inr results \<and> identities = List.map_filter id results)"
  by (auto simp: provenanceIdentities_def bindE_Inr_iff Let_def split: if_splits)

text \<open>
  Property C33. Provenance is accepted only when every attestation of the record states, in a payload that decodes, a
  subject with the package URL of the release and the SHA-512 digest of the tarball, and when every statement of provenance names
  the release workflow of the repository at the tag, a resolved dependency with the repository at the tag
  and the source commit, and a run of the repository, the one that published when that is known.
  The identities returned are those of the statements of provenance, in order, with their workflow and run, and there is one.
\<close>

theorem provenanceIdentities_bound:
  "case provenanceIdentities env attestations x of
     Inl _ \<Rightarrow> True
   | Inr identities \<Rightarrow> (\<exists>statements.
       list_all2 (states env) (elems attestations) statements \<and> list_all (about_tarball x) statements \<and>
       list_all (built_from x) (filter of_provenance statements) \<and>
       list_all2 (identity_of x) (filter of_provenance statements) identities \<and> identities \<noteq> [])"
proof (cases "provenanceIdentities env attestations x")
  case (Inr identities)
  then obtain results where r: "list_all2 (\<lambda>a i. provenanceIdentity env x a = Inr i) (elems attestations) results"
    and i: "identities = map the (filter (\<lambda>x. x \<noteq> None) results)" "identities \<noteq> []"
    by (auto simp: provenanceIdentities_Inr mapE_Inr_iff map_filter_id)
  have "\<exists>statements. list_all2 (states env) (elems attestations) statements \<and> list_all (about_tarball x) statements \<and>
      list_all (built_from x) (filter of_provenance statements) \<and>
      list_all2 (identity_of x) (filter of_provenance statements) (map the (filter (\<lambda>x. x \<noteq> None) results))"
    using r
  proof (induction rule: list_all2_induct)
    case (Cons a as i rs)
    from Cons.IH obtain ss where ss: "list_all2 (states env) as ss" "list_all (about_tarball x) ss"
        "list_all (built_from x) (filter of_provenance ss)"
        "list_all2 (identity_of x) (filter of_provenance ss) (map the (filter (\<lambda>x. x \<noteq> None) rs))" by blast
    obtain s where "states env a s" "about_tarball x s"
        "case i of None \<Rightarrow> \<not> of_provenance s | Some j \<Rightarrow> of_provenance s \<and> built_from x s \<and> identity_of x s j"
      by (rule provenanceIdentity_sound [OF Cons.hyps(1)])
    then show ?case using ss by (intro exI [of _ "s # ss"]) (auto split: option.splits)
  qed simp
  with Inr i show ?thesis by simp
qed simp

section \<open>The closing validation\<close>

definition without_run :: "expected_release \<Rightarrow> expected_release" where
  "without_run x = x\<lparr>ex_workflowRunId := None, ex_workflowRunAttempt := JUndef\<rparr>"

lemma run_check_without: "run_check (without_run x) i = Inr ()"
  by (simp add: run_check_def without_run_def)

lemma matches_without:
  "subject_matches (without_run x) = subject_matches x" "workflow_matches (without_run x) = workflow_matches x"
  "dependency_matches (without_run x) = dependency_matches x" "runs_url (without_run x) = runs_url x"
  by (auto simp: subject_matches_def workflow_matches_def dependency_matches_def runs_url_def github_url_def tag_ref_def without_run_def
      fun_eq_iff)

lemma provenanceIdentity_without:
  "provenanceIdentity env x a = Inr i \<Longrightarrow> provenanceIdentity env (without_run x) a = Inr i"
  by (auto simp: provenanceIdentity_def Let_def matches_without run_check_without bindE_Inr_iff split: if_splits)
    (simp_all add: without_run_def)

lemma provenanceIdentities_without:
  "provenanceIdentities env attestations x = Inr ids \<Longrightarrow> provenanceIdentities env attestations (without_run x) = Inr ids"
  unfolding provenanceIdentities_Inr mapE_Inr_iff using provenanceIdentity_without by (blast intro: list_all2_mono)

lemma validateAudit_cong:
  assumes "ex_packageName x = ex_packageName y" "ex_version x = ex_version y"
  shows "validateAuditSignatures audit x = validateAuditSignatures audit y"
proof -
  have v: "verified_entry x = verified_entry y" using assms by (simp add: verified_entry_def fun_eq_iff)
  show ?thesis unfolding validateAuditSignatures_def v assms ..
qed

lemma expectedFromManifest_Inr:
  assumes "expectedFromManifest m tag commit environment repository recovery = Inr x"
  shows "ex_packageName x = NPM_PACKAGE" "fld m ''package_version'' = JStr (ex_version x)" "tag = JStr (ex_tag x)"
    "commit = JStr (ex_sourceCommit x)" "environment = ex_environment x" "environment = JStr RELEASE_ENVIRONMENT"
    "ex_workflowRunId x = None" "ex_workflowRunAttempt x = JUndef" "is_hash (fld (fld m ''npm_tarball'') ''sha256'')"
    "case int_status (fld (fld m ''npm_tarball'') ''size'') of None \<Rightarrow> False | Some n \<Rightarrow> 0 \<le> n"
  using assms by (auto simp: expectedFromManifest_def Let_def bindE_Inr_iff gate_checks_iff is_str_iff is_commit_def)

lemma rethrow_unit: "(case m of Inl _ \<Rightarrow> Inl e | Inr _ \<Rightarrow> r) = Inr z \<longleftrightarrow> m = Inr () \<and> r = Inr z"
  by (auto split: sum.split)

lemma capture_steps:
  assumes "capture_evidence env s i = Inr (evidence, x)"
    and step: "\<And>version v metadata tarballUrl attestationsUrl tarball y attestations identities audit summary npmVersion.
      evidence = evidence_object env i metadata (registryVersionUrl NPM_PACKAGE v) tarballUrl attestationsUrl tarball
        attestations identities audit summary npmVersion \<Longrightarrow>
      x = with_tarball env tarball y \<Longrightarrow>
      getp (ci_manifest i) ''package_version'' = Inr version \<Longrightarrow> str_or_throw version = Inr v \<Longrightarrow>
      isPlainObject metadata \<Longrightarrow> fld metadata ''name'' = JStr NPM_PACKAGE \<Longrightarrow> strict_eq (fld metadata ''version'') version \<Longrightarrow>
      isPlainObject (fld metadata ''dist'') \<Longrightarrow> validateNpmRepositoryMetadata metadata = Inr () \<Longrightarrow>
      safeHttpsUrl (np_url env) (fld (fld metadata ''dist'') ''tarball'') ''npm tarball URL'' = Inr tarballUrl \<Longrightarrow>
      safeHttpsUrl (np_url env) (fld (fld (fld metadata ''dist'') ''attestations'') ''url'') ''npm attestations URL'' = Inr attestationsUrl \<Longrightarrow>
      expectedFromManifest (ci_manifest i) (ci_tag i) (ci_sourceCommit i) (ci_environment i) (ci_repository i) (ci_recovery i) = Inr y \<Longrightarrow>
      fld (fld metadata ''dist'') ''integrity'' = JStr (integrity_of env (np_sha512 env tarball)) \<Longrightarrow>
      provenanceIdentities env (fld attestations ''attestations'') ((with_tarball env tarball y)\<lparr>ex_workflowRunId := ci_workflowRunId i, ex_workflowRunAttempt := ci_workflowRunAttempt i\<rparr>) = Inr identities \<Longrightarrow>
      validateAuditSignatures audit ((with_tarball env tarball y)\<lparr>ex_workflowRunId := ci_workflowRunId i, ex_workflowRunAttempt := ci_workflowRunAttempt i\<rparr>) = Inr summary \<Longrightarrow> thesis"
  shows thesis
  using assms(1) unfolding capture_evidence_def Let_def
  by (clarsimp simp: bindE_Inr_iff gate_checks_iff rethrow_unit) (rule step, assumption+)

text \<open>What the capture has established when it validates the evidence.\<close>

lemma capture_evidence_Inr:
  assumes "capture_evidence env s i = Inr (evidence, x)"
  obtains metadata tarballUrl attestationsUrl tarball y attestations identities audit summary npmVersion where
    "evidence = evidence_object env i metadata (registryVersionUrl NPM_PACKAGE (ex_version y)) tarballUrl attestationsUrl tarball
       attestations identities audit summary npmVersion"
    "x = with_tarball env tarball y"
    "expectedFromManifest (ci_manifest i) (ci_tag i) (ci_sourceCommit i) (ci_environment i) (ci_repository i) (ci_recovery i) = Inr y"
    "isPlainObject metadata" "fld metadata ''name'' = JStr NPM_PACKAGE" "fld metadata ''version'' = JStr (ex_version y)"
    "isPlainObject (fld metadata ''dist'')" "validateNpmRepositoryMetadata metadata = Inr ()"
    "fld (fld metadata ''dist'') ''integrity'' = JStr (integrity_of env (np_sha512 env tarball))"
    "safe_url (np_url env) tarballUrl" "safe_url (np_url env) attestationsUrl"
    "provenanceIdentities env (fld attestations ''attestations'')
       ((with_tarball env tarball y)\<lparr>ex_workflowRunId := ci_workflowRunId i, ex_workflowRunAttempt := ci_workflowRunAttempt i\<rparr>) = Inr identities"
    "validateAuditSignatures audit
       ((with_tarball env tarball y)\<lparr>ex_workflowRunId := ci_workflowRunId i, ex_workflowRunAttempt := ci_workflowRunAttempt i\<rparr>) = Inr summary"
  using assms
proof (rule capture_steps)
  fix version v metadata tarballUrl attestationsUrl tarball y attestations identities audit summary npmVersion
  assume e: "evidence = evidence_object env i metadata (registryVersionUrl NPM_PACKAGE v) tarballUrl attestationsUrl tarball
      attestations identities audit summary npmVersion" and x: "x = with_tarball env tarball y"
    and version: "getp (ci_manifest i) ''package_version'' = Inr version" "str_or_throw version = Inr v"
    and metadata: "isPlainObject metadata" "fld metadata ''name'' = JStr NPM_PACKAGE"
      "strict_eq (fld metadata ''version'') version" "isPlainObject (fld metadata ''dist'')"
      "validateNpmRepositoryMetadata metadata = Inr ()"
    and urls: "safeHttpsUrl (np_url env) (fld (fld metadata ''dist'') ''tarball'') ''npm tarball URL'' = Inr tarballUrl"
      "safeHttpsUrl (np_url env) (fld (fld (fld metadata ''dist'') ''attestations'') ''url'') ''npm attestations URL'' = Inr attestationsUrl"
    and y: "expectedFromManifest (ci_manifest i) (ci_tag i) (ci_sourceCommit i) (ci_environment i) (ci_repository i) (ci_recovery i) = Inr y"
    and integrity: "fld (fld metadata ''dist'') ''integrity'' = JStr (integrity_of env (np_sha512 env tarball))"
    and ids: "provenanceIdentities env (fld attestations ''attestations'') ((with_tarball env tarball y)\<lparr>ex_workflowRunId := ci_workflowRunId i, ex_workflowRunAttempt := ci_workflowRunAttempt i\<rparr>) = Inr identities"
    and audit: "validateAuditSignatures audit ((with_tarball env tarball y)\<lparr>ex_workflowRunId := ci_workflowRunId i, ex_workflowRunAttempt := ci_workflowRunAttempt i\<rparr>) = Inr summary"
  have "version = JStr (ex_version y)" using version(1) expectedFromManifest_Inr(2) [OF y] by (auto simp: getp_def split: if_splits)
  then have v: "v = ex_version y" and m: "fld metadata ''version'' = JStr (ex_version y)"
    using version(2) metadata(3) by (simp_all add: str_or_throw_def)
  show ?thesis
    by (rule that [OF e [unfolded v] x y metadata(1,2) m metadata(4,5) integrity safeHttpsUrl_Inr [OF urls(1)]
          safeHttpsUrl_Inr [OF urls(2)] ids audit])
qed

text \<open>Parsing the serialisation of a URL gives the URL again, as the URL standard says.\<close>

definition url_law :: "url_parser \<Rightarrow> bool" where
  "url_law up \<longleftrightarrow> (\<forall>input u. up_parse up input = Some u \<longrightarrow> up_parse up (url_href u) = Some u)"

lemma safe_url_again: "url_law up \<Longrightarrow> safe_url up s \<Longrightarrow> safeHttpsUrl up (JStr s) label = Inr s"
  by (auto simp: url_law_def safe_url_def safeHttpsUrl_def)

definition normalised_urls :: "js \<Rightarrow> bool" where
  "normalised_urls evidence \<longleftrightarrow>
     (let dist = fld (fld evidence ''registry_metadata'') ''dist''; registry = fld evidence ''registry'' in
      fld dist ''tarball'' = fld registry ''tarball_url'' \<and> fld (fld dist ''attestations'') ''url'' = fld registry ''attestations_url'')"

lemma captured_evidence_validates:
  assumes capture: "capture_evidence env s i = Inr (evidence, x)" and hex: "hex_digest 128 (np_sha512 env)"
    and law: "url_law (np_url env)"
    and endpoint: "safe_url (np_url env) (registryVersionUrl NPM_PACKAGE (ex_version x))"
  shows "validateNpmProvenanceEvidence env evidence x =
    (if normalised_urls evidence then Inr ()
     else Inl (np_fail ''npm registry metadata evidence is incomplete or inconsistent''))"
  using capture
proof (rule capture_evidence_Inr)
  fix metadata tarballUrl attestationsUrl tarball y attestations identities audit summary npmVersion
  assume e: "evidence = evidence_object env i metadata (registryVersionUrl NPM_PACKAGE (ex_version y)) tarballUrl attestationsUrl tarball
       attestations identities audit summary npmVersion" and x: "x = with_tarball env tarball y"
    and y: "expectedFromManifest (ci_manifest i) (ci_tag i) (ci_sourceCommit i) (ci_environment i) (ci_repository i) (ci_recovery i) = Inr y"
    and metadata: "isPlainObject metadata" "fld metadata ''name'' = JStr NPM_PACKAGE" "fld metadata ''version'' = JStr (ex_version y)"
      "isPlainObject (fld metadata ''dist'')" "validateNpmRepositoryMetadata metadata = Inr ()"
    and integrity: "fld (fld metadata ''dist'') ''integrity'' = JStr (integrity_of env (np_sha512 env tarball))"
    and urls: "safe_url (np_url env) tarballUrl" "safe_url (np_url env) attestationsUrl"
    and ids: "provenanceIdentities env (fld attestations ''attestations'')
       ((with_tarball env tarball y)\<lparr>ex_workflowRunId := ci_workflowRunId i, ex_workflowRunAttempt := ci_workflowRunAttempt i\<rparr>) = Inr identities"
    and audit: "validateAuditSignatures audit
       ((with_tarball env tarball y)\<lparr>ex_workflowRunId := ci_workflowRunId i, ex_workflowRunAttempt := ci_workflowRunAttempt i\<rparr>) = Inr summary"
  note m = expectedFromManifest_Inr [OF y]
  have fields: "ex_packageName x = NPM_PACKAGE" "ex_version x = ex_version y" "ex_tag x = ex_tag y" "ex_sourceCommit x = ex_sourceCommit y"
    "ex_environment x = ex_environment y" "ex_tarballSha256 x = JStr (np_sha256 env tarball)"
    "ex_tarballSha512 x = JStr (np_sha512 env tarball)" "ex_tarballSize x = js_length tarball"
    by (simp_all add: x with_tarball_def m(1))
  have environment: "ex_environment y = JStr RELEASE_ENVIRONMENT" using m(5,6) by simp
  have sha512: "is_sha512 (JStr (np_sha512 env tarball))"
    using hex by (simp add: is_sha512_def hex_digest_def sha512_pattern_iff)
  have "gate_checks np_fail (evidence_checks env evidence x) = Inr ()"
    unfolding gate_checks_iff evidence_checks_def Let_def e evidence_object_def
    using m metadata integrity sha512 by (simp add: fields js_length_def environment)
  moreover have "x = without_run ((with_tarball env tarball y)\<lparr>ex_workflowRunId := ci_workflowRunId i, ex_workflowRunAttempt := ci_workflowRunAttempt i\<rparr>)"
    using m(7,8) by (simp add: x with_tarball_def without_run_def)
  then have "provenanceIdentities env (fld attestations ''attestations'') x = Inr identities"
    using provenanceIdentities_without [OF ids] by simp
  moreover have "validateAuditSignatures audit x = Inr summary"
    using audit validateAudit_cong [of x "(with_tarball env tarball y)\<lparr>ex_workflowRunId := ci_workflowRunId i,
        ex_workflowRunAttempt := ci_workflowRunAttempt i\<rparr>" audit] by (simp add: x with_tarball_def)
  moreover have "x\<lparr>ex_tarballSha512 := JStr (np_sha512 env tarball)\<rparr> = x" by (simp add: x with_tarball_def)
  moreover have "registry_metadata_ok metadata (fld evidence ''registry'') x \<longleftrightarrow> normalised_urls evidence"
    using metadata integrity by (auto simp: registry_metadata_ok_def normalised_urls_def fields e evidence_object_def Let_def)
  moreover have "safeHttpsUrl (np_url env) (JStr (registryVersionUrl NPM_PACKAGE (ex_version y))) label =
      Inr (registryVersionUrl NPM_PACKAGE (ex_version y))" for label
    using safe_url_again [OF law endpoint] fields(2) by simp
  moreover note safe_url_again [OF law urls(1)] safe_url_again [OF law urls(2)]
  moreover have "fld evidence ''registry_metadata'' = metadata" "fld evidence ''audit_signatures'' = audit"
    "fld (fld evidence ''registry'') ''metadata_url'' = JStr (registryVersionUrl NPM_PACKAGE (ex_version y))"
    "fld (fld evidence ''registry'') ''tarball_url'' = JStr tarballUrl"
    "fld (fld evidence ''registry'') ''attestations_url'' = JStr attestationsUrl"
    "fld (fld evidence ''registry'') ''tarball_sha512'' = JStr (np_sha512 env tarball)"
    "fld (fld evidence ''registry_attestations'') ''attestations'' = fld attestations ''attestations''"
    "fld (fld evidence ''provenance'') ''identities'' = JArr identities"
    "fld (fld evidence ''verification'') ''status'' = JStr ''PASS''" "fld (fld evidence ''verification'') ''command'' = JStr AUDIT_COMMAND"
    by (simp_all add: e evidence_object_def Let_def)
  ultimately show ?thesis
    by (simp add: validateNpmProvenanceEvidence_def Let_def gate_checks.simps metadata(5) json_same_def)
qed

text \<open>
  Property C34. The closing validation of the capture refuses the evidence just captured in one
  case only: when the registry's URLs of the tarball or of the attestations are not in the
  normalised form in which the evidence records them. Digests, identities, provenance and audit
  always agree.
\<close>

theorem captured_evidence_valid:
  assumes "capture_evidence env s i = Inr (evidence, x)" and "hex_digest 128 (np_sha512 env)"
    and "url_law (np_url env)" and "safe_url (np_url env) (registryVersionUrl NPM_PACKAGE (ex_version x))"
  shows "validateNpmProvenanceEvidence env evidence x =
    (if normalised_urls evidence then Inr ()
     else Inl (np_fail ''npm registry metadata evidence is incomplete or inconsistent''))"
  by (rule captured_evidence_validates [OF assms])

end
