(* ===== verification/NpmSample.thy ===== *)
theory NpmSample
  imports NpmEvidence NativeAssembly
begin

text \<open>
  A concrete run of the capture: a package recovered after its publication, with four native
  artifacts, one attestation and a passing audit. It shows that the hypotheses of the property on
  the closing validation can hold.
\<close>

section \<open>A package captured in recovery\<close>

definition sample_commit :: string where "sample_commit = replicate 40 CHR ''a''"

definition toy_sha512 :: "byte list \<Rightarrow> string" where
  "toy_sha512 bytes = replicate 128 CHR ''0''"

lemma toy_sha512_hex: "hex_digest 128 toy_sha512"
  by (simp add: hex_digest_def toy_sha512_def list_all_iff char_class_defs less_eq_char_def)

definition sample_published_metadata :: js where
  "sample_published_metadata = JObj
     [(''name'', JStr NPM_PACKAGE), (''version'', JStr ''0.2.0''), (''repository'', JObj EXPECTED_NPM_REPOSITORY),
      (''dist'', JObj [(''tarball'', JStr ''t''), (''integrity'', JStr ''sha512-h''), (''attestations'', JObj [(''url'', JStr ''a'')])])]"

definition sample_runtime_manifest :: js where
  "sample_runtime_manifest = JObj
     [(''schema_version'', JInt 1), (''package_name'', JStr NPM_PACKAGE), (''package_version'', JStr ''0.2.0''),
      (''source_commit'', JStr sample_commit), (''node_api_version'', JInt 8),
      (''artifacts'', JArr (map (\<lambda>t. native_entry t (t @ ''.node'') (toy_digest [5]) ''rustc'') REQUIRED_NATIVE_TARGETS))]"

definition sample_candidate :: js where
  "sample_candidate = JObj
     [(''mode'', JStr ''release''), (''package_name'', JStr NPM_PACKAGE), (''package_version'', JStr ''0.2.0''),
      (''release_tag'', JStr ''v0.2.0''), (''source_commit'', JStr sample_commit),
      (''npm_tarball'', JObj [(''sha256'', JStr (toy_digest [])), (''size'', JInt 9)]),
      (''wasm'', JObj [(''canonical_artifact'', JObj [])]), (''native_artifacts'', JArr [])]"

definition sample_expected :: expected_release where
  "sample_expected = \<lparr>ex_packageName = NPM_PACKAGE, ex_version = ''0.2.0'', ex_tag = ''v0.2.0'', ex_sourceCommit = sample_commit,
     ex_environment = JStr RELEASE_ENVIRONMENT, ex_repository = RELEASE_REPOSITORY, ex_tarballSha256 = JUndef,
     ex_tarballSize = JUndef, ex_tarballSha512 = JUndef, ex_workflowRunId = None, ex_workflowRunAttempt = JUndef\<rparr>"

definition sample_statement :: js where
  "sample_statement = JObj
     [(''predicateType'', JStr (hd PROVENANCE_PREDICATE_TYPES)),
      (''subject'', JArr [JObj [(''name'', JStr (packagePurl NPM_PACKAGE ''0.2.0'')), (''digest'', JObj [(''sha512'', JStr (toy_sha512 []))])]]),
      (''predicate'', JObj
        [(''buildDefinition'', JObj
           [(''externalParameters'', JObj [(''workflow'', JObj
               [(''repository'', JStr (github_url sample_expected)), (''path'', JStr WORKFLOW_PATH), (''ref'', JStr (tag_ref sample_expected))])]),
            (''resolvedDependencies'', JArr [JObj
               [(''uri'', JStr (''git+'' @ github_url sample_expected @ ''@'' @ tag_ref sample_expected)),
                (''digest'', JObj [(''gitCommit'', JStr sample_commit)])]])]),
         (''runDetails'', JObj [(''metadata'', JObj [(''invocationId'', JStr (runs_url sample_expected @ ''7/attempts/1''))])])])]"

definition sample_record :: js where
  "sample_record = JObj [(''attestations'', JArr [JObj
     [(''predicateType'', JStr (hd PROVENANCE_PREDICATE_TYPES)),
      (''bundle'', JObj [(''dsseEnvelope'', JObj [(''payload'', JStr ''p'')])])]])]"

definition sample_audit :: js where
  "sample_audit = JObj
     [(''invalid'', JArr []), (''missing'', JArr []),
      (''verified'', JArr [JObj [(''name'', JStr NPM_PACKAGE), (''version'', JStr ''0.2.0''),
         (''attestationBundles'', JArr [JObj [(''predicateType'', JStr (hd PROVENANCE_PREDICATE_TYPES))]])]])]"

definition sample_provenance :: provenance_env where
  "sample_provenance = \<lparr>np_url = sample_parser, np_sha256 = toy_digest, np_sha512 = toy_sha512, np_parse = (\<lambda>_. Some sample_statement),
     np_parse_bytes = (\<lambda>bytes. if bytes = [1] then Some sample_published_metadata
        else if bytes = [2] then Some sample_runtime_manifest
        else Some (JObj [(''artifact_filename'', JStr WASM_FILENAME), (''sha256'', JStr (toy_digest [5]))])),
     np_decode64 = id, np_encode64 = id, np_hex64 = (\<lambda>_. ''h''), np_tar_list = (\<lambda>_. Some ''package/package.json''),
     np_tar_entry = (\<lambda>_ path. if path = ''package/package.json'' then Some [1]
        else if path = ''package/dist/native/artifact-manifest.json'' then Some [2]
        else if path = ''package/dist/wasm/artifact-manifest.json'' then Some [4] else Some [5])\<rparr>"

definition sample_ok :: "js option \<Rightarrow> byte list option \<Rightarrow> response" where
  "sample_ok v bytes = \<lparr>rs_ok = True, rs_status = JInt 200, rs_location = JNull, rs_json = v, rs_bytes = bytes\<rparr>"

definition sample_services :: capture_services where
  "sample_services = \<lparr>cs_metadata = (\<lambda>_. Some (sample_ok (Some sample_published_metadata) None)),
     cs_bytes = (\<lambda>_. Some (sample_ok None (Some [9]))), cs_attestations = (\<lambda>_. Some (sample_ok (Some sample_record) None)),
     cs_audit = Inr sample_audit, cs_npm_version = Inr ''11.5.1''\<rparr>"

definition sample_capture :: capture_input where
  "sample_capture = \<lparr>ci_manifest = sample_candidate, ci_tag = JStr ''v0.2.0'', ci_sourceCommit = JStr sample_commit,
     ci_environment = JStr RELEASE_ENVIRONMENT, ci_repository = JStr RELEASE_REPOSITORY, ci_recovery = True,
     ci_workflowRunId = Some ''7'', ci_workflowRunAttempt = JInt 1\<rparr>"

lemma sample_expected_release:
  "expectedFromManifest sample_candidate (JStr ''v0.2.0'') (JStr sample_commit) (JStr RELEASE_ENVIRONMENT) (JStr RELEASE_REPOSITORY) True =
     Inr sample_expected"
  by code_simp

lemma sample_content:
  "validateRegistryTarballContent sample_provenance [9]
     (sample_expected\<lparr>ex_tarballSha512 := JStr (toy_sha512 [9]), ex_tarballSize := js_length [9 :: byte]\<rparr>) sample_candidate True =
   Inr (sample_published_metadata, sample_runtime_manifest)"
  by code_simp

lemma sample_attestations: "default_attestations sample_provenance sample_services ''a'' = Inr sample_record"
  by code_simp

definition sample_identified :: expected_release where
  "sample_identified = (with_tarball sample_provenance [9] sample_expected)\<lparr>ex_workflowRunId := Some ''7'', ex_workflowRunAttempt := JInt 1\<rparr>"

lemma sample_identity: "\<exists>ids. provenanceIdentities sample_provenance (fld sample_record ''attestations'') sample_identified = Inr ids"
proof -
  have "\<not> isl (provenanceIdentities sample_provenance (fld sample_record ''attestations'') sample_identified)" by code_simp
  then show ?thesis by (metis isl_def sum.exhaust)
qed

lemma sample_audited: "\<exists>summary. validateAuditSignatures sample_audit sample_identified = Inr summary"
proof -
  have "\<not> isl (validateAuditSignatures sample_audit sample_identified)" by code_simp
  then show ?thesis by (metis isl_def sum.exhaust)
qed

lemma sample_fetches:
  "safeHttpsUrl sample_parser (JStr u) label = Inr u"
  "fst (fetchBytes sample_parser (cs_bytes sample_services) (JStr u) label') = Inr [9]"
proof -
  show *: "safeHttpsUrl sample_parser (JStr u) label = Inr u" for u label
    by (simp add: safeHttpsUrl_def sample_parser_def registry_url_def)
  have "\<not> is_redirect (sample_ok None (Some [9]))" by code_simp
  then show "fst (fetchBytes sample_parser (cs_bytes sample_services) (JStr u) label') = Inr [9]"
    by (simp add: fetchBytes_def * bytes_loop.simps sample_services_def) (simp add: sample_ok_def)
qed

lemma sample_captured:
  "\<exists>evidence. capture_evidence sample_provenance sample_services sample_capture =
     Inr (evidence, with_tarball sample_provenance [9] sample_expected) \<and> normalised_urls evidence"
proof -
  obtain ids summary where ids: "provenanceIdentities sample_provenance (fld sample_record ''attestations'') sample_identified = Inr ids"
    and summary: "validateAuditSignatures sample_audit sample_identified = Inr summary"
    using sample_identity sample_audited by blast
  have input: "ci_manifest sample_capture = sample_candidate" "ci_tag sample_capture = JStr ''v0.2.0''"
    "ci_sourceCommit sample_capture = JStr sample_commit" "ci_environment sample_capture = JStr RELEASE_ENVIRONMENT"
    "ci_repository sample_capture = JStr RELEASE_REPOSITORY" "ci_recovery sample_capture" "ci_workflowRunId sample_capture = Some ''7''"
    "ci_workflowRunAttempt sample_capture = JInt 1"
    by (simp_all add: sample_capture_def)
  have services: "fetchJson (cs_metadata sample_services url) label = Inr sample_published_metadata"
    "cs_audit sample_services = Inr sample_audit" "cs_npm_version sample_services = Inr ''11.5.1''" for url label
    by (simp_all add: sample_services_def fetchJson_def fetchResponse_def sample_ok_def)
  have digests: "np_url sample_provenance = sample_parser" "np_sha512 sample_provenance = toy_sha512"
    "integrity_of sample_provenance (toy_sha512 [9]) = ''sha512-h''"
    by (simp_all add: sample_provenance_def integrity_of_def)
  have version: "getp sample_candidate ''package_version'' = Inr (JStr ''0.2.0'')" by (simp add: sample_candidate_def getp_def)
  have metadata: "validateNpmRepositoryMetadata sample_published_metadata = Inr ()" "isPlainObject sample_published_metadata"
    "fld sample_published_metadata ''name'' = JStr NPM_PACKAGE" "fld sample_published_metadata ''version'' = JStr ''0.2.0''"
    "isPlainObject (fld sample_published_metadata ''dist'')"
    "fld (fld sample_published_metadata ''dist'') ''tarball'' = JStr ''t''"
    "fld (fld sample_published_metadata ''dist'') ''integrity'' = JStr ''sha512-h''"
    "fld (fld (fld sample_published_metadata ''dist'') ''attestations'') ''url'' = JStr ''a''"
    by code_simp+
  show ?thesis
    by (simp add: capture_evidence_def Let_def input services digests version str_or_throw_def metadata sample_fetches
        sample_expected_release sample_content sample_attestations gate_checks_ok ids summary flip: sample_identified_def)
      (simp add: normalised_urls_def evidence_object_def Let_def metadata)
qed

theorem captured_evidence_valid_witness:
  "\<exists>evidence. captureNpmProvenance sample_provenance sample_services sample_capture = Inr evidence"
proof -
  obtain evidence where e: "capture_evidence sample_provenance sample_services sample_capture =
      Inr (evidence, with_tarball sample_provenance [9] sample_expected)" and n: "normalised_urls evidence"
    using sample_captured by blast
  have "hex_digest 128 (np_sha512 sample_provenance)" using toy_sha512_hex by (simp add: sample_provenance_def)
  moreover have "url_law (np_url sample_provenance)" by (simp add: url_law_def sample_provenance_def sample_parser_def)
  moreover have "safe_url (np_url sample_provenance) s" for s
    using safeHttpsUrl_Inr [OF sample_fetches(1)] by (simp add: sample_provenance_def)
  ultimately show ?thesis using captured_evidence_valid [OF e] n e by (simp add: captureNpmProvenance_def)
qed

end
