(* ===== verification/RnEvidence.thy ===== *)
theory RnEvidence
  imports RnPackage JsonInj
begin

text \<open>
  \<open>scripts/react-native-evidence.mjs\<close>: the evidence of the controlled build of a React Native
  artifact, its summary over the four targets, their validation, and the comparison of two
  independent builds. The file system, SHA-256 and \<open>JSON.parse\<close> are parameters, relative paths
  are resolved against the working directory. What a message interpolates is left out. A buffer
  of Node is shorter than \<open>2 ^ 53\<close> bytes.
\<close>

definition rn_evidence_fail :: "string \<Rightarrow> js_error" where
  "rn_evidence_fail message = Fail (''React Native release evidence failed: '' @ message)"

definition RN_EVIDENCE_KEYS :: "string list" where
  "RN_EVIDENCE_KEYS =
     [''schema_version'', ''kind'', ''target_id'', ''platform'', ''environment'', ''architecture'', ''source_commit'',
      ''package_version'', ''artifact_filename'', ''artifact_identity'', ''artifact_input_filename'', ''artifact_sha256'',
      ''artifact_size'', ''toolchain_identifier'', ''binary_format'', ''binary_identity'', ''required_symbols'',
      ''controlled_build'']"

definition CONTROLLED_BUILD_KEYS :: "string list" where
  "CONTROLLED_BUILD_KEYS =
     [''workflow'', ''runner'', ''build_mode'', ''source_commit'', ''package_version'', ''target_id'', ''toolchain_identifier'',
      ''package_name'', ''consumer_gemfile_sha256'', ''consumer_gemfile_lock_sha256'', ''consumer_podfile_sha256'',
      ''consumer_podfile_lock_sha256'', ''consumer_manifest_sha256'', ''build_input_sha256'']"

definition SUMMARY_KEYS :: "string list" where
  "SUMMARY_KEYS = [''schema_version'', ''kind'', ''source_commit'', ''package_version'', ''artifact_count'', ''targets'']"

definition SUMMARY_TARGET_KEYS :: "string list" where
  "SUMMARY_TARGET_KEYS =
     [''target_id'', ''artifact_sha256'', ''artifact_size'', ''artifact_identity'', ''toolchain_identifier'', ''binary_format'',
      ''binary_identity'', ''artifact_input_filename'']"

definition CONTROLLED_BUILD_PACKAGE :: string where
  "CONTROLLED_BUILD_PACKAGE = ''@nemnesia/symbol-nem-wallet-core''"

definition consumerManifestPath :: "script_env \<Rightarrow> string" where
  "consumerManifestPath env = posix_resolve (se_root env) [''integration/react-native/consumer/manifest.json'']"

definition packageJsonPath :: "script_env \<Rightarrow> string" where
  "packageJsonPath env = posix_resolve (se_root env) [''packages/wallet-core/package.json'']"

definition consumerGemfilePath :: "script_env \<Rightarrow> string" where
  "consumerGemfilePath env = posix_resolve (se_root env) [''integration/react-native/consumer/Gemfile'']"

definition consumerGemfileLockPath :: "script_env \<Rightarrow> string" where
  "consumerGemfileLockPath env = posix_resolve (se_root env) [''integration/react-native/consumer/Gemfile.lock'']"

definition consumerPodfilePath :: "script_env \<Rightarrow> string" where
  "consumerPodfilePath env = posix_resolve (se_root env) [''integration/react-native/consumer/ios/Podfile'']"

definition consumerPodfileLockPath :: "script_env \<Rightarrow> string" where
  "consumerPodfileLockPath env = posix_resolve (se_root env) [''integration/react-native/consumer/ios/Podfile.lock'']"

definition evidence_filename :: "string \<Rightarrow> string" where
  "evidence_filename targetId = targetId @ ''.json''"

section \<open>Values and files\<close>

definition validCommit_check :: "js \<Rightarrow> bool \<times> string" where
  "validCommit_check v = (is_str v \<and> rx_test commit_pattern (str_of v), ''source commit is invalid'')"

definition validVersion_check :: "js \<Rightarrow> bool \<times> string" where
  "validVersion_check v = (is_str v \<and> rx_test version_pattern (str_of v), ''package version is invalid'')"

definition validSize :: "js \<Rightarrow> bool" where
  "validSize v = (case v of JNum n \<Rightarrow> num_is_safe_integer n \<and> 0 < num_int n | _ \<Rightarrow> False)"

definition readEvidenceJson :: "script_env \<Rightarrow> string \<Rightarrow> string \<Rightarrow> js res" where
  "readEvidenceJson env path label =
     (case se_json env path of None \<Rightarrow> Inl (rn_evidence_fail (label @ '' is unreadable'')) | Some v \<Rightarrow> Inr v)"

definition fileDigest :: "script_env \<Rightarrow> string \<Rightarrow> (string \<times> nat) res" where
  "fileDigest env path =
     (case se_read env path of
        None \<Rightarrow> Inl (rn_evidence_fail ''React Native artifact is missing or unreadable'')
      | Some bytes \<Rightarrow>
          if fs_stat (se_fs env) path \<noteq> Some RegularFile
          then Inl (rn_evidence_fail ''React Native artifact is missing or unreadable'')
          else Inr (se_sha256 env bytes, length bytes))"

definition consumer_digest :: "script_env \<Rightarrow> string \<Rightarrow> string \<Rightarrow> js res" where
  "consumer_digest env path label =
     (case se_read env path of
        None \<Rightarrow> Inl (rn_evidence_fail (''source-controlled React Native '' @ label @ '' is unreadable''))
      | Some bytes \<Rightarrow> Inr (JStr (se_sha256 env bytes)))"

definition consumerManifestSha256 :: "script_env \<Rightarrow> js res" where
  "consumerManifestSha256 env = consumer_digest env (consumerManifestPath env) ''consumer manifest''"

definition consumerGemfileLockSha256 :: "script_env \<Rightarrow> js res" where
  "consumerGemfileLockSha256 env = consumer_digest env (consumerGemfileLockPath env) ''Gemfile.lock''"

definition consumerGemfileSha256 :: "script_env \<Rightarrow> js res" where
  "consumerGemfileSha256 env = consumer_digest env (consumerGemfilePath env) ''Gemfile''"

definition consumerPodfileSha256 :: "script_env \<Rightarrow> js res" where
  "consumerPodfileSha256 env = consumer_digest env (consumerPodfilePath env) ''Podfile''"

definition consumerPodfileLockSha256 :: "script_env \<Rightarrow> js res" where
  "consumerPodfileLockSha256 env = consumer_digest env (consumerPodfileLockPath env) ''Podfile.lock''"

definition packageIdentity :: "script_env \<Rightarrow> js res" where
  "packageIdentity env =
     bindE (readEvidenceJson env (packageJsonPath env) ''React Native package metadata'') (\<lambda>metadata.
     bindE (getp metadata ''name'') (\<lambda>name.
     if \<not> strict_eq name (JStr CONTROLLED_BUILD_PACKAGE) \<or> \<not> is_str (fld metadata ''version'')
     then Inl (rn_evidence_fail ''React Native package identity is invalid'') else Inr name))"

definition reactNativeBuildInput :: "script_env \<Rightarrow> js \<Rightarrow> js \<Rightarrow> js \<Rightarrow> js \<Rightarrow> js res" where
  "reactNativeBuildInput env sourceCommit packageVersion targetId toolchainIdentifier =
     bindE (packageIdentity env) (\<lambda>package.
     bindE (consumerManifestSha256 env) (\<lambda>manifest.
     bindE (consumerGemfileSha256 env) (\<lambda>gemfile.
     bindE (consumerGemfileLockSha256 env) (\<lambda>gemfileLock.
     bindE (consumerPodfileSha256 env) (\<lambda>podfile.
     bindE (consumerPodfileLockSha256 env) (\<lambda>podfileLock.
       Inr (JObj
         [(''source_commit'', sourceCommit), (''package_version'', packageVersion), (''target_id'', targetId),
          (''toolchain_identifier'', toolchainIdentifier), (''package_name'', package),
          (''consumer_manifest_sha256'', manifest), (''consumer_gemfile_sha256'', gemfile),
          (''consumer_gemfile_lock_sha256'', gemfileLock), (''consumer_podfile_sha256'', podfile),
          (''consumer_podfile_lock_sha256'', podfileLock)])))))))"

definition reactNativeBuildInputSha256 :: "script_env \<Rightarrow> js \<Rightarrow> js \<Rightarrow> js \<Rightarrow> js \<Rightarrow> js res" where
  "reactNativeBuildInputSha256 env sourceCommit packageVersion targetId toolchainIdentifier =
     bindE (reactNativeBuildInput env sourceCommit packageVersion targetId toolchainIdentifier) (\<lambda>input.
       Inr (JStr (se_sha256 env (utf8_bytes (the (json_str input))))))"

section \<open>What an inspection reports, as JSON\<close>

text \<open>The texts of an accepted inspection are those of its target, all ASCII.\<close>

definition ucs_string :: "int list \<Rightarrow> string" where
  "ucs_string t = map (\<lambda>c. char_of (nat c)) t"

definition elf_identity_json :: "js \<Rightarrow> binary_identity \<Rightarrow> js" where
  "elf_identity_json architecture b = JObj
     [(''format'', JStr ''ELF64''), (''endian'', JStr ''little''), (''type'', JStr ''ET_DYN''), (''machine'', JStr (elf_machine b)),
      (''architecture'', architecture), (''soname'', JStr (ucs_string (elf_soname b))),
      (''loadable_segments'', JInt (int (elf_segments b))), (''dynamic_symbols'', JInt (int (elf_exports b))),
      (''artifact_identity'', JStr (ucs_string (elf_artifact b)))]"

definition macho_identity_json :: "binary_identity \<Rightarrow> js" where
  "macho_identity_json b = JObj
     [(''format'', JStr ''Mach-O-64''), (''architecture'', JStr ''arm64''), (''platform'', JStr (macho_platform b)),
      (''load_commands'', JInt (macho_commands b)), (''sections'', JInt (macho_sections b)),
      (''exported_symbols'', JInt (int (macho_symbols b))), (''object_count'', JInt (int (macho_objects b))),
      (''artifact_identity'', case macho_artifact b of None \<Rightarrow> JUndef | Some t \<Rightarrow> JStr (ucs_string t))]"

definition identity_json :: "js \<Rightarrow> binary_identity \<Rightarrow> js" where
  "identity_json architecture b =
     (case b of ElfIdentity _ _ _ _ _ \<Rightarrow> elf_identity_json architecture b | MachOIdentity _ _ _ _ _ _ \<Rightarrow> macho_identity_json b)"

definition symbols_json :: "int list list \<Rightarrow> js" where
  "symbols_json symbols = JArr (map (\<lambda>s. JStr (ucs_string s)) symbols)"

definition expected_format :: "rn_target \<Rightarrow> js" where
  "expected_format target = JStr (if rn_platform target = JStr ''android'' then ''ELF64'' else ''Mach-O-64-static-archive'')"

section \<open>The evidence of an artifact\<close>

definition validateControlledBuild :: "script_env \<Rightarrow> js \<Rightarrow> js \<Rightarrow> unit res" where
  "validateControlledBuild env v evidence =
     (if \<not> isPlainObject v then Inl (rn_evidence_fail ''controlled build evidence is not an object'')
      else if \<not> exactKeys v CONTROLLED_BUILD_KEYS
      then Inl (rn_evidence_fail ''controlled build evidence has unexpected or missing fields'')
      else
      let differs = (\<lambda>key digest. bindE digest (\<lambda>d. Inr (\<not> strict_eq (fld v key) d))) in
      guard_any (rn_evidence_fail ''controlled build identity mismatch'')
        [Inr (\<not> strict_eq (fld v ''workflow'') (JStr ''react-native-controlled-build'')),
         Inr (\<not> nonEmptyString (fld v ''runner'')),
         Inr (\<not> strict_eq (fld v ''build_mode'') (JStr ''release'')),
         Inr (\<not> strict_eq (fld v ''source_commit'') (fld evidence ''source_commit'')),
         Inr (\<not> strict_eq (fld v ''package_version'') (fld evidence ''package_version'')),
         Inr (\<not> strict_eq (fld v ''target_id'') (fld evidence ''target_id'')),
         Inr (\<not> strict_eq (fld v ''toolchain_identifier'') (fld evidence ''toolchain_identifier'')),
         Inr (\<not> strict_eq (fld v ''package_name'') (JStr CONTROLLED_BUILD_PACKAGE)),
         differs ''consumer_manifest_sha256'' (consumerManifestSha256 env),
         differs ''consumer_gemfile_sha256'' (consumerGemfileSha256 env),
         differs ''consumer_gemfile_lock_sha256'' (consumerGemfileLockSha256 env),
         differs ''consumer_podfile_sha256'' (consumerPodfileSha256 env),
         differs ''consumer_podfile_lock_sha256'' (consumerPodfileLockSha256 env),
         differs ''build_input_sha256'' (reactNativeBuildInputSha256 env (fld evidence ''source_commit'')
           (fld evidence ''package_version'') (fld evidence ''target_id'') (fld evidence ''toolchain_identifier''))])"

text \<open>The name of the input file: a relative path of proper components.\<close>

definition input_filename_ok :: "js \<Rightarrow> bool" where
  "input_filename_ok v \<longleftrightarrow> is_str v \<and> str_of v \<noteq> [] \<and> \<not> starts_with ''/'' (str_of v) \<and> \<not> str_includes [CHR 0x5C] (str_of v) \<and>
     \<not> list_ex (\<lambda>part. part = '''' \<or> part = ''.'' \<or> part = ''..'') (split_on CHR ''/'' (str_of v))"

definition rn_target_of :: "js \<Rightarrow> rn_target option res" where
  "rn_target_of targetId = bindE (str_or_throw targetId) (\<lambda>t. Inr (rn_lookup t))"

definition evidence_fields_ok :: "js \<Rightarrow> rn_target \<Rightarrow> js \<Rightarrow> js \<Rightarrow> js \<Rightarrow> bool" where
  "evidence_fields_ok e target sourceCommit packageVersion artifactInputFilename \<longleftrightarrow>
     strict_eq (fld e ''schema_version'') (JInt 1) \<and> strict_eq (fld e ''kind'') (JStr ''react-native'') \<and>
     strict_eq (fld e ''platform'') (rn_platform target) \<and> strict_eq (fld e ''environment'') (rn_environment target) \<and>
     strict_eq (fld e ''architecture'') (rn_architecture target) \<and> strict_eq (fld e ''source_commit'') sourceCommit \<and>
     strict_eq (fld e ''package_version'') packageVersion \<and>
     strict_eq (fld e ''artifact_filename'') (rn_artifactFilename target) \<and>
     strict_eq (fld e ''artifact_identity'') (rn_artifactIdentity target) \<and>
     input_filename_ok (fld e ''artifact_input_filename'') \<and>
     strict_eq (fld e ''artifact_input_filename'') artifactInputFilename \<and>
     nonEmptyString (fld e ''toolchain_identifier'') \<and>
     strict_eq (fld e ''binary_format'') (expected_format target) \<and>
     is_arr (fld e ''required_symbols'') \<and> length (elems (fld e ''required_symbols'')) = 2 \<and>
     list_all is_str (elems (fld e ''required_symbols''))"

definition binary_evidence_ok :: "js \<Rightarrow> rn_target \<Rightarrow> rn_inspection \<Rightarrow> bool" where
  "binary_evidence_ok e target inspected \<longleftrightarrow>
     strict_eq (JStr (ri_format inspected)) (fld e ''binary_format'') \<and>
     json_same (identity_json (rn_architecture target) (ri_identity inspected)) (fld e ''binary_identity'') \<and>
     json_same (symbols_json (ri_requiredSymbols inspected)) (fld e ''required_symbols'')"

text \<open>The label of the first check converts the target to a string, which an object may refuse.\<close>

definition validateReactNativeArtifactEvidence :: "script_env \<Rightarrow> js \<Rightarrow> string \<Rightarrow> js \<Rightarrow> js \<Rightarrow> js \<Rightarrow> js res" where
  "validateReactNativeArtifactEvidence env e artifactPath sourceCommit packageVersion artifactInputFilename =
     bindE (if nullish (fld e ''target_id'') then Inr [] else str_or_throw (fld e ''target_id'')) (\<lambda>_.
     bindE (gate_checks rn_evidence_fail
       [(isPlainObject e, ''React Native evidence is not an object''),
        (exactKeys e RN_EVIDENCE_KEYS, ''React Native evidence has unexpected or missing fields'')]) (\<lambda>_.
     bindE (rn_target_of (fld e ''target_id'')) (\<lambda>found.
     (case found of
        None \<Rightarrow> Inl (rn_evidence_fail ''unknown React Native evidence target'')
      | Some target \<Rightarrow>
     bindE (gate_checks rn_evidence_fail
       [validCommit_check sourceCommit, validVersion_check packageVersion,
        (evidence_fields_ok e target sourceCommit packageVersion artifactInputFilename, ''React Native evidence identity mismatch''),
        (is_hash (fld e ''artifact_sha256''), ''React Native evidence hash is invalid''),
        (validSize (fld e ''artifact_size''), ''React Native evidence size is invalid'')]) (\<lambda>_.
     bindE (fileDigest env artifactPath) (\<lambda>(sha256, size).
     if \<not> strict_eq (JStr sha256) (fld e ''artifact_sha256'') \<or> \<not> strict_eq (JInt (int size)) (fld e ''artifact_size'')
     then Inl (rn_evidence_fail ''React Native evidence artifact digest mismatch'')
     else (case inspectReactNativeArtifact (se_fs env) (se_sha256 env) (JStr artifactPath) (fld e ''target_id'') of
        Inl _ \<Rightarrow> Inl (rn_evidence_fail ''React Native artifact identity mismatch'')
      | Inr inspected \<Rightarrow>
          if \<not> binary_evidence_ok e target inspected then Inl (rn_evidence_fail ''React Native binary evidence mismatch'')
          else bindE (validateControlledBuild env (fld e ''controlled_build'') e) (\<lambda>_. Inr e))))))))"

record evidence_input =
  ei_targetId :: string
  ei_artifactPath :: string
  ei_sourceCommit :: js
  ei_packageVersion :: js
  ei_toolchainIdentifier :: js
  ei_runner :: js
  ei_artifactInputFilename :: js

text \<open>\<open>artifactInputFilename = basename(artifactPath)\<close>.\<close>

definition ei_filename :: "evidence_input \<Rightarrow> js" where
  "ei_filename i = (if ei_artifactInputFilename i = JUndef then JStr (posix_basename (ei_artifactPath i)) else ei_artifactInputFilename i)"

definition controlled_build :: "script_env \<Rightarrow> evidence_input \<Rightarrow> js res" where
  "controlled_build env i =
     bindE (packageIdentity env) (\<lambda>package.
     bindE (consumerGemfileSha256 env) (\<lambda>gemfile.
     bindE (consumerGemfileLockSha256 env) (\<lambda>gemfileLock.
     bindE (consumerPodfileSha256 env) (\<lambda>podfile.
     bindE (consumerPodfileLockSha256 env) (\<lambda>podfileLock.
     bindE (consumerManifestSha256 env) (\<lambda>manifest.
     bindE (reactNativeBuildInputSha256 env (ei_sourceCommit i) (ei_packageVersion i) (JStr (ei_targetId i))
       (ei_toolchainIdentifier i)) (\<lambda>input.
       Inr (JObj
         [(''workflow'', JStr ''react-native-controlled-build''), (''runner'', ei_runner i), (''build_mode'', JStr ''release''),
          (''source_commit'', ei_sourceCommit i), (''package_version'', ei_packageVersion i), (''target_id'', JStr (ei_targetId i)),
          (''toolchain_identifier'', ei_toolchainIdentifier i), (''package_name'', package),
          (''consumer_gemfile_sha256'', gemfile), (''consumer_gemfile_lock_sha256'', gemfileLock),
          (''consumer_podfile_sha256'', podfile), (''consumer_podfile_lock_sha256'', podfileLock),
          (''consumer_manifest_sha256'', manifest), (''build_input_sha256'', input)]))))))))"

definition artifact_evidence :: "evidence_input \<Rightarrow> rn_target \<Rightarrow> rn_inspection \<Rightarrow> js \<Rightarrow> js" where
  "artifact_evidence i target inspected build = JObj
     [(''schema_version'', JInt 1), (''kind'', JStr ''react-native''), (''target_id'', JStr (ei_targetId i)),
      (''platform'', rn_platform target), (''environment'', rn_environment target), (''architecture'', rn_architecture target),
      (''source_commit'', ei_sourceCommit i), (''package_version'', ei_packageVersion i),
      (''artifact_filename'', rn_artifactFilename target), (''artifact_identity'', rn_artifactIdentity target),
      (''artifact_input_filename'', ei_filename i), (''artifact_sha256'', JStr (ri_sha256 inspected)),
      (''artifact_size'', JInt (int (ri_size inspected))), (''toolchain_identifier'', ei_toolchainIdentifier i),
      (''binary_format'', JStr (ri_format inspected)),
      (''binary_identity'', identity_json (rn_architecture target) (ri_identity inspected)),
      (''required_symbols'', symbols_json (ri_requiredSymbols inspected)), (''controlled_build'', build)]"

text \<open>The evidence before its closing validation.\<close>

definition build_evidence :: "script_env \<Rightarrow> evidence_input \<Rightarrow> js res" where
  "build_evidence env i =
     (case rn_lookup (ei_targetId i) of
        None \<Rightarrow> Inl (rn_evidence_fail ''unknown React Native target'')
      | Some target \<Rightarrow>
     bindE (gate_checks rn_evidence_fail
       [validCommit_check (ei_sourceCommit i), validVersion_check (ei_packageVersion i),
        (nonEmptyString (ei_toolchainIdentifier i), ''toolchain identifier is invalid''),
        (nonEmptyString (ei_runner i), ''runner is invalid'')]) (\<lambda>_.
     (case inspectReactNativeArtifact (se_fs env) (se_sha256 env) (JStr (ei_artifactPath i)) (JStr (ei_targetId i)) of
        Inl _ \<Rightarrow> Inl (rn_evidence_fail ''artifact identity is invalid'')
      | Inr inspected \<Rightarrow> bindE (controlled_build env i) (\<lambda>build. Inr (artifact_evidence i target inspected build)))))"

definition createReactNativeArtifactEvidence :: "script_env \<Rightarrow> evidence_input \<Rightarrow> js res" where
  "createReactNativeArtifactEvidence env i =
     bindE (build_evidence env i) (\<lambda>e.
     bindE (validateReactNativeArtifactEvidence env e (ei_artifactPath i) (ei_sourceCommit i) (ei_packageVersion i) (ei_filename i))
       (\<lambda>_. Inr e))"

section \<open>The summary\<close>

definition summary_target :: "js \<Rightarrow> js" where
  "summary_target entry = JObj (map (\<lambda>k. (k, fld entry k))
     [''target_id'', ''artifact_sha256'', ''artifact_size'', ''artifact_identity'', ''toolchain_identifier'', ''binary_format'',
      ''binary_identity'', ''artifact_input_filename''])"

definition summary_target_check :: "js \<Rightarrow> string \<times> rn_target \<Rightarrow> unit res" where
  "summary_target_check t known =
     (let targetId = fst known; target = snd known in
      gate_checks rn_evidence_fail
        [(isPlainObject t, ''React Native summary target is not an object''),
         (exactKeys t SUMMARY_TARGET_KEYS, ''React Native summary target has unexpected or missing fields''),
         (strict_eq (fld t ''target_id'') (JStr targetId) \<and> strict_eq (fld t ''artifact_identity'') (rn_artifactIdentity target) \<and>
          nonEmptyString (fld t ''toolchain_identifier''), ''React Native summary target order is invalid''),
         (is_hash (fld t ''artifact_sha256''), ''React Native summary hash is invalid''),
         (validSize (fld t ''artifact_size''), ''React Native summary size is invalid''),
         (strict_eq (fld t ''binary_format'') (expected_format target), ''React Native summary binary format is invalid'')])"

text \<open>The targets of the summary are as many as those of the canonical order.\<close>

fun summary_target_loop :: "js list \<Rightarrow> (string \<times> rn_target) list \<Rightarrow> unit res" where
  "summary_target_loop (t # ts) (k # ks) = bindE (summary_target_check t k) (\<lambda>_. summary_target_loop ts ks)"
| "summary_target_loop _ _ = Inr ()"

definition validateReactNativeSummary :: "js \<Rightarrow> js \<Rightarrow> js \<Rightarrow> js res" where
  "validateReactNativeSummary summary sourceCommit packageVersion =
     bindE (gate_checks rn_evidence_fail
       [(isPlainObject summary, ''React Native summary is not an object''),
        (exactKeys summary SUMMARY_KEYS, ''React Native summary has unexpected or missing fields''),
        validCommit_check sourceCommit, validVersion_check packageVersion,
        (strict_eq (fld summary ''schema_version'') (JInt 1) \<and> strict_eq (fld summary ''kind'') (JStr ''react-native-summary'') \<and>
         strict_eq (fld summary ''source_commit'') sourceCommit \<and> strict_eq (fld summary ''package_version'') packageVersion \<and>
         strict_eq (fld summary ''artifact_count'') (JInt (int (length CANONICAL_REACT_NATIVE_TARGET_ORDER))) \<and>
         is_arr (fld summary ''targets'') \<and>
         length (elems (fld summary ''targets'')) = length CANONICAL_REACT_NATIVE_TARGET_ORDER,
         ''React Native summary identity or count is invalid'')]) (\<lambda>_.
     bindE (summary_target_loop (elems (fld summary ''targets'')) REACT_NATIVE_TARGETS) (\<lambda>_. Inr summary))"

definition createReactNativeSummary :: "js \<Rightarrow> js \<Rightarrow> js \<Rightarrow> js res" where
  "createReactNativeSummary entries sourceCommit packageVersion =
     (if \<not> is_arr entries \<or> length (elems entries) \<noteq> length CANONICAL_REACT_NATIVE_TARGET_ORDER
      then Inl (rn_evidence_fail ''React Native summary must contain exactly four artifacts'')
      else if list_ex nullish (elems entries) then Inl TypeErr
      else
      let targets = map summary_target (elems entries);
          summary = JObj
            [(''schema_version'', JInt 1), (''kind'', JStr ''react-native-summary''), (''source_commit'', sourceCommit),
             (''package_version'', packageVersion), (''artifact_count'', JInt (int (length targets))), (''targets'', JArr targets)] in
      bindE (validateReactNativeSummary summary sourceCommit packageVersion) (\<lambda>_. Inr summary))"

section \<open>The set\<close>

text \<open>
  The summary and the evidence are given as objects or as paths; \<open>typeof null\<close> is \<open>object\<close> too.
  What is neither is no path: \<open>resolve\<close> throws, and reading it fails (a number would be a file
  descriptor, which no caller passes).
\<close>

definition given_object :: "js \<Rightarrow> bool" where
  "given_object v = (case v of JNull \<Rightarrow> True | JArr _ \<Rightarrow> True | JObj _ \<Rightarrow> True | _ \<Rightarrow> False)"

definition set_evidence :: "script_env \<Rightarrow> string \<Rightarrow> js \<Rightarrow> string \<Rightarrow> js res" where
  "set_evidence env cwd evidenceRoot targetId =
     (if given_object evidenceRoot then getp evidenceRoot targetId
      else if \<not> is_str evidenceRoot then Inl TypeErr
      else readEvidenceJson env (posix_resolve cwd [str_of evidenceRoot, evidence_filename targetId]) ''React Native evidence'')"

definition evidence_set_step :: "script_env \<Rightarrow> string \<Rightarrow> js \<Rightarrow> string \<Rightarrow> js \<Rightarrow> js \<Rightarrow> js \<times> string \<Rightarrow> js res" where
  "evidence_set_step env cwd evidenceRoot artifactRoot sourceCommit packageVersion entry =
     (let summaryTarget = fst entry; targetId = snd entry in
      bindE (set_evidence env cwd evidenceRoot targetId) (\<lambda>e.
      bindE (getp e ''artifact_input_filename'') (\<lambda>filename.
      if \<not> is_str filename then Inl TypeErr
      else
      bindE (validateReactNativeArtifactEvidence env e (posix_resolve cwd [artifactRoot, str_of filename]) sourceCommit packageVersion
        filename) (\<lambda>_.
      if \<not> list_all (\<lambda>key. json_same (fld summaryTarget key) (fld e key)) SUMMARY_TARGET_KEYS
      then Inl (rn_evidence_fail ''React Native summary/evidence mismatch'')
      else Inr e))))"

definition validateReactNativeEvidenceSet :: "script_env \<Rightarrow> string \<Rightarrow> js \<Rightarrow> js \<Rightarrow> string \<Rightarrow> js \<Rightarrow> js \<Rightarrow> (js \<times> js list) res" where
  "validateReactNativeEvidenceSet env cwd summaryPath evidenceRoot artifactRoot sourceCommit packageVersion =
     bindE (if given_object summaryPath then Inr summaryPath
            else if \<not> is_str summaryPath then Inl (rn_evidence_fail ''React Native summary is unreadable'')
            else readEvidenceJson env (posix_resolve cwd [str_of summaryPath]) ''React Native summary'') (\<lambda>summary.
     bindE (validateReactNativeSummary summary sourceCommit packageVersion) (\<lambda>_.
     bindE (mapE (evidence_set_step env cwd evidenceRoot artifactRoot sourceCommit packageVersion)
       (zip (elems (fld summary ''targets'')) CANONICAL_REACT_NATIVE_TARGET_ORDER)) (\<lambda>entries. Inr (summary, entries))))"

section \<open>Two independent builds\<close>

definition producer_run :: "string \<Rightarrow> string \<Rightarrow> string \<times> nat \<Rightarrow> rn_target \<Rightarrow> rn_inspection \<Rightarrow> js" where
  "producer_run runId path digest target inspected = JObj
     [(''run_id'', JStr runId), (''artifact_filename'', JStr (posix_basename path)), (''artifact_sha256'', JStr (fst digest)),
      (''artifact_size'', JInt (int (snd digest))), (''binary_format'', JStr (ri_format inspected)),
      (''binary_identity'', identity_json (rn_architecture target) (ri_identity inspected)),
      (''required_symbols'', symbols_json (ri_requiredSymbols inspected))]"

definition compare_result :: "js \<Rightarrow> rn_target \<Rightarrow> string \<Rightarrow> string \<Rightarrow> js \<Rightarrow> js \<Rightarrow> rn_inspection \<Rightarrow> rn_inspection \<Rightarrow> string \<times> nat \<Rightarrow> string \<times> nat \<Rightarrow> js res" where
  "compare_result targetId target firstPath secondPath sourceCommit packageVersion first second firstDigest secondDigest =
    (let id1 = identity_json (rn_architecture target) (ri_identity first);
         id2 = identity_json (rn_architecture target) (ri_identity second);
         binaryIdentityIdentical = json_same id1 id2;
         symbolsIdentical = json_same (symbols_json (ri_requiredSymbols first)) (symbols_json (ri_requiredSymbols second));
         architectureIdentical = strict_eq (fld id1 ''architecture'') (fld id2 ''architecture'');
         metadataIdentical = (ri_format first = ri_format second \<and> symbolsIdentical \<and> architectureIdentical \<and>
           strict_eq (fld id1 ''platform'') (fld id2 ''platform'')) in
     if fst firstDigest \<noteq> fst secondDigest \<or> snd firstDigest \<noteq> snd secondDigest \<or> ri_format first \<noteq> ri_format second \<or>
        \<not> binaryIdentityIdentical \<or> \<not> metadataIdentical \<or> \<not> symbolsIdentical
     then Inl (rn_evidence_fail ''independent iOS producer outputs differ'')
     else Inr (JObj
       [(''schema_version'', JInt 1), (''kind'', JStr ''react-native-ios-reproducibility''), (''target_id'', targetId),
        (''platform'', rn_platform target), (''environment'', rn_environment target), (''architecture'', rn_architecture target),
        (''source_commit'', sourceCommit), (''package_version'', packageVersion),
        (''artifact_filename'', rn_artifactFilename target), (''artifact_identity'', rn_artifactIdentity target),
        (''producer_runs'', JArr [producer_run ''producer-1'' firstPath firstDigest target first,
           producer_run ''producer-2'' secondPath secondDigest target second]),
        (''comparison'', JObj
          [(''bytes_identical'', JBool (fst firstDigest = fst secondDigest \<and> snd firstDigest = snd secondDigest)),
           (''native_identity_identical'', JBool binaryIdentityIdentical),
           (''architecture_identical'', JBool architectureIdentical), (''metadata_identical'', JBool metadataIdentical),
           (''digest_identical'', JBool (fst firstDigest = fst secondDigest))])]))"

definition compareReactNativeArtifacts :: "script_env \<Rightarrow> js \<Rightarrow> string \<Rightarrow> string \<Rightarrow> js \<Rightarrow> js \<Rightarrow> js res" where
  "compareReactNativeArtifacts env targetId firstPath secondPath sourceCommit packageVersion =
     bindE (rn_target_of targetId) (\<lambda>found.
     (case found of
        None \<Rightarrow> Inl (rn_evidence_fail ''reproducibility target is not an approved iOS target'')
      | Some target \<Rightarrow>
     bindE (gate_checks rn_evidence_fail
       [(rn_platform target = JStr ''ios'', ''reproducibility target is not an approved iOS target''),
        validCommit_check sourceCommit, validVersion_check packageVersion]) (\<lambda>_.
     (case (inspectReactNativeArtifact (se_fs env) (se_sha256 env) (JStr firstPath) targetId,
            inspectReactNativeArtifact (se_fs env) (se_sha256 env) (JStr secondPath) targetId) of
        (Inr first, Inr second) \<Rightarrow>
          bindE (fileDigest env firstPath) (\<lambda>firstDigest.
          bindE (fileDigest env secondPath) (\<lambda>secondDigest.
            compare_result targetId target firstPath secondPath sourceCommit packageVersion first second firstDigest secondDigest))
      | _ \<Rightarrow> Inl (rn_evidence_fail ''iOS producer artifact identity is invalid'')))))"


section \<open>What an accepted evidence says\<close>

lemma strict_eq_int_left [simp]: "strict_eq (JInt i) v \<longleftrightarrow> v = JInt i"
  by (cases v) auto

lemma validateEvidence_Inr:
  "validateReactNativeArtifactEvidence env e p commit version filename = Inr r \<longleftrightarrow> r = e \<and> isPlainObject e \<and>
     exactKeys e RN_EVIDENCE_KEYS \<and> is_hash (fld e ''artifact_sha256'') \<and> validSize (fld e ''artifact_size'') \<and>
     (\<exists>t target sha256 size inspected. to_str (fld e ''target_id'') = Some t \<and> rn_lookup t = Some target \<and>
        fst (validCommit_check commit) \<and> fst (validVersion_check version) \<and> evidence_fields_ok e target commit version filename \<and>
        fileDigest env p = Inr (sha256, size) \<and> fld e ''artifact_sha256'' = JStr sha256 \<and> fld e ''artifact_size'' = JInt (int size) \<and>
        inspectReactNativeArtifact (se_fs env) (se_sha256 env) (JStr p) (fld e ''target_id'') = Inr inspected \<and>
        binary_evidence_ok e target inspected \<and> validateControlledBuild env (fld e ''controlled_build'') e = Inr ())"
    (is "?l \<longleftrightarrow> ?r")
proof
  assume ?l
  then show ?r
    unfolding validateReactNativeArtifactEvidence_def rn_target_of_def
    by (auto simp: bindE_Inr_iff gate_checks_iff str_or_throw_def split: option.splits sum.splits if_splits)
next
  assume ?r
  then show ?l
    unfolding validateReactNativeArtifactEvidence_def rn_target_of_def
    by (auto simp: bindE_Inr_iff gate_checks_iff str_or_throw_def)
qed

lemma inspect_shape:
  "yields (inspectReactNativeArtifact fs sha256 path targetId) (\<lambda>r. \<exists>t target bytes.
     to_str targetId = Some t \<and> rn_lookup t = Some target \<and> fs_read fs (str_of path) = Some bytes \<and>
     fs_stat fs (str_of path) = Some RegularFile \<and> ri_sha256 r = sha256 bytes \<and> ri_size r = length bytes \<and>
     JStr (ri_format r) = expected_format target \<and> ri_requiredSymbols r = REQUIRED_RN_SYMBOLS)"
  unfolding inspectReactNativeArtifact_def by (intro yielding) (auto simp: str_or_throw_def expected_format_def split: option.splits)

lemma required_symbols_json:
  "symbols_json REQUIRED_RN_SYMBOLS = JArr [JStr ''snwc_rn_module_identity'', JStr ''symbolNemWalletCoreCxxModuleProvider'']"
  by code_simp

lemma embeds_nonempty: "embeds_target bytes t \<Longrightarrow> 0 < length bytes"
  by (auto simp: embeds_target_def has_c_string_def)

section \<open>Created evidence\<close>

lemma consumer_digest_str: "consumer_digest env path label = Inr d \<Longrightarrow> \<exists>s. d = JStr s"
  by (auto simp: consumer_digest_def split: option.splits)

lemmas consumer_defs = consumerManifestSha256_def consumerGemfileSha256_def consumerGemfileLockSha256_def
  consumerPodfileSha256_def consumerPodfileLockSha256_def

lemma packageIdentity_Inr: "packageIdentity env = Inr v \<Longrightarrow> v = JStr CONTROLLED_BUILD_PACKAGE"
  by (auto simp: packageIdentity_def bindE_Inr_iff split: if_splits)

lemma buildInput_str: "reactNativeBuildInputSha256 env c v t k = Inr d \<Longrightarrow> \<exists>s. d = JStr s"
  by (auto simp: reactNativeBuildInputSha256_def bindE_Inr_iff)

lemma controlled_build_valid:
  assumes "controlled_build env i = Inr build" and "is_str (ei_sourceCommit i)" and "is_str (ei_packageVersion i)"
    and "nonEmptyString (ei_toolchainIdentifier i)" and "nonEmptyString (ei_runner i)"
    and "fld e ''source_commit'' = ei_sourceCommit i" and "fld e ''package_version'' = ei_packageVersion i"
    and "fld e ''target_id'' = JStr (ei_targetId i)" and "fld e ''toolchain_identifier'' = ei_toolchainIdentifier i"
  shows "validateControlledBuild env build e = Inr ()"
proof -
  obtain package gemfile gemfileLock podfile podfileLock manifest input where
    d: "packageIdentity env = Inr package" "consumerGemfileSha256 env = Inr gemfile" "consumerGemfileLockSha256 env = Inr gemfileLock"
      "consumerPodfileSha256 env = Inr podfile" "consumerPodfileLockSha256 env = Inr podfileLock"
      "consumerManifestSha256 env = Inr manifest"
      "reactNativeBuildInputSha256 env (ei_sourceCommit i) (ei_packageVersion i) (JStr (ei_targetId i)) (ei_toolchainIdentifier i) = Inr input"
    and b: "build = JObj
         [(''workflow'', JStr ''react-native-controlled-build''), (''runner'', ei_runner i), (''build_mode'', JStr ''release''),
          (''source_commit'', ei_sourceCommit i), (''package_version'', ei_packageVersion i), (''target_id'', JStr (ei_targetId i)),
          (''toolchain_identifier'', ei_toolchainIdentifier i), (''package_name'', package),
          (''consumer_gemfile_sha256'', gemfile), (''consumer_gemfile_lock_sha256'', gemfileLock),
          (''consumer_podfile_sha256'', podfile), (''consumer_podfile_lock_sha256'', podfileLock),
          (''consumer_manifest_sha256'', manifest), (''build_input_sha256'', input)]"
    using assms(1) unfolding controlled_build_def by (auto simp: bindE_Inr_iff)
  have str: "\<exists>s. gemfile = JStr s" "\<exists>s. gemfileLock = JStr s" "\<exists>s. podfile = JStr s" "\<exists>s. podfileLock = JStr s"
      "\<exists>s. manifest = JStr s" "\<exists>s. input = JStr s" "package = JStr CONTROLLED_BUILD_PACKAGE"
    using d(2-6) consumer_digest_str buildInput_str [OF d(7)] packageIdentity_Inr [OF d(1)] by (auto simp: consumer_defs)
  have keys: "exactKeys build CONTROLLED_BUILD_KEYS"
    unfolding exactKeys_iff b CONTROLLED_BUILD_KEYS_def by simp
  show ?thesis
    unfolding validateControlledBuild_def guard_any_Inr_iff Let_def
    using keys str d assms(2-9) by (auto simp: b guard_any_Inr_iff is_str_iff nonEmptyString_iff)
qed

lemma build_evidence_Inr:
  assumes "build_evidence env i = Inr e"
  obtains target inspected build bytes where "rn_lookup (ei_targetId i) = Some target"
    "inspectReactNativeArtifact (se_fs env) (se_sha256 env) (JStr (ei_artifactPath i)) (JStr (ei_targetId i)) = Inr inspected"
    "controlled_build env i = Inr build" "e = artifact_evidence i target inspected build"
    "fst (validCommit_check (ei_sourceCommit i))" "fst (validVersion_check (ei_packageVersion i))"
    "nonEmptyString (ei_toolchainIdentifier i)" "nonEmptyString (ei_runner i)"
    "fileDigest env (ei_artifactPath i) = Inr (ri_sha256 inspected, ri_size inspected)"
    "JStr (ri_format inspected) = expected_format target" "ri_requiredSymbols inspected = REQUIRED_RN_SYMBOLS"
proof -
  obtain target inspected build where b: "rn_lookup (ei_targetId i) = Some target"
      "inspectReactNativeArtifact (se_fs env) (se_sha256 env) (JStr (ei_artifactPath i)) (JStr (ei_targetId i)) = Inr inspected"
      "controlled_build env i = Inr build" "e = artifact_evidence i target inspected build"
      "fst (validCommit_check (ei_sourceCommit i))" "fst (validVersion_check (ei_packageVersion i))"
      "nonEmptyString (ei_toolchainIdentifier i)" "nonEmptyString (ei_runner i)"
    using assms by (auto simp: build_evidence_def bindE_Inr_iff gate_checks_iff split: option.splits sum.splits)
  moreover have "fileDigest env (ei_artifactPath i) = Inr (ri_sha256 inspected, ri_size inspected)"
      "JStr (ri_format inspected) = expected_format target" "ri_requiredSymbols inspected = REQUIRED_RN_SYMBOLS"
    using yieldsD [OF inspect_shape b(2)] b(1) by (auto simp: fileDigest_def se_read_def)
  ultimately show ?thesis using that by blast
qed

lemma target_fields_str:
  assumes "map_of REACT_NATIVE_TARGETS t = Some x"
  shows "is_str (rn_platform x)" "is_str (rn_environment x)" "is_str (rn_architecture x)"
    "is_str (rn_artifactFilename x)" "is_str (rn_artifactIdentity x)"
proof -
  have "list_all (\<lambda>(t, x). is_str (rn_platform x) \<and> is_str (rn_environment x) \<and> is_str (rn_architecture x) \<and>
      is_str (rn_artifactFilename x) \<and> is_str (rn_artifactIdentity x)) REACT_NATIVE_TARGETS"
    by code_simp
  then show "is_str (rn_platform x)" "is_str (rn_environment x)" "is_str (rn_architecture x)"
    "is_str (rn_artifactFilename x)" "is_str (rn_artifactIdentity x)"
    using map_of_SomeD [OF assms] by (auto simp: list_all_iff)
qed

lemma inspected_target:
  assumes "inspectReactNativeArtifact fs sha256 path (JStr t) = Inr r" and "rn_lookup t = Some target"
  shows "map_of REACT_NATIVE_TARGETS t = Some target"
  using assms(1)
proof (rule inspectReactNativeArtifact_Inr)
  fix p bytes t'
  assume "to_str (JStr t) = Some t'" and "\<exists>target. map_of REACT_NATIVE_TARGETS t' = Some target \<and>
      ri_artifactFilename r = rn_artifactFilename target \<and> is_text (reported_identity (ri_identity r)) (rn_artifactIdentity target)"
  then obtain x where "map_of REACT_NATIVE_TARGETS t = Some x" by auto
  then show ?thesis using assms(2) native_fields_known by fastforce
qed

lemma strict_eq_refl: "is_str v \<Longrightarrow> strict_eq v v"
  by (cases v) auto

lemma artifact_evidence_keys: "exactKeys (artifact_evidence i target inspected build) RN_EVIDENCE_KEYS"
  unfolding exactKeys_iff artifact_evidence_def RN_EVIDENCE_KEYS_def by simp

lemma artifact_evidence_fields:
  "fld (artifact_evidence i target inspected build) ''target_id'' = JStr (ei_targetId i)"
  "fld (artifact_evidence i target inspected build) ''source_commit'' = ei_sourceCommit i"
  "fld (artifact_evidence i target inspected build) ''package_version'' = ei_packageVersion i"
  "fld (artifact_evidence i target inspected build) ''toolchain_identifier'' = ei_toolchainIdentifier i"
  "fld (artifact_evidence i target inspected build) ''artifact_input_filename'' = ei_filename i"
  "fld (artifact_evidence i target inspected build) ''artifact_identity'' = rn_artifactIdentity target"
  "fld (artifact_evidence i target inspected build) ''artifact_sha256'' = JStr (ri_sha256 inspected)"
  "fld (artifact_evidence i target inspected build) ''artifact_size'' = JInt (int (ri_size inspected))"
  "fld (artifact_evidence i target inspected build) ''binary_format'' = JStr (ri_format inspected)"
  "fld (artifact_evidence i target inspected build) ''binary_identity'' = identity_json (rn_architecture target) (ri_identity inspected)"
  "fld (artifact_evidence i target inspected build) ''required_symbols'' = symbols_json (ri_requiredSymbols inspected)"
  "fld (artifact_evidence i target inspected build) ''controlled_build'' = build"
  "isPlainObject (artifact_evidence i target inspected build)"
  unfolding artifact_evidence_def by simp_all

lemma created_evidence_validates:
  assumes "build_evidence env i = Inr e"
  shows "validateReactNativeArtifactEvidence env e (ei_artifactPath i) (ei_sourceCommit i) (ei_packageVersion i) (ei_filename i) = Inr e \<longleftrightarrow>
    input_filename_ok (ei_filename i) \<and> is_hash (fld e ''artifact_sha256'') \<and> validSize (fld e ''artifact_size'')"
  using assms
proof (rule build_evidence_Inr)
  fix target inspected build
  assume t: "rn_lookup (ei_targetId i) = Some target"
    and ins: "inspectReactNativeArtifact (se_fs env) (se_sha256 env) (JStr (ei_artifactPath i)) (JStr (ei_targetId i)) = Inr inspected"
    and build: "controlled_build env i = Inr build" and e: "e = artifact_evidence i target inspected build"
    and vals: "fst (validCommit_check (ei_sourceCommit i))" "fst (validVersion_check (ei_packageVersion i))"
      "nonEmptyString (ei_toolchainIdentifier i)" "nonEmptyString (ei_runner i)"
    and digest: "fileDigest env (ei_artifactPath i) = Inr (ri_sha256 inspected, ri_size inspected)"
    and shape: "JStr (ri_format inspected) = expected_format target" "ri_requiredSymbols inspected = REQUIRED_RN_SYMBOLS"
  note f = artifact_evidence_fields
  have strs: "is_str (ei_sourceCommit i)" "is_str (ei_packageVersion i)"
    using vals(1,2) by (simp_all add: validCommit_check_def validVersion_check_def)
  have built: "validateControlledBuild env (fld e ''controlled_build'') e = Inr ()"
    unfolding e f(12) using controlled_build_valid [OF build strs vals(3,4)] f by simp
  have bin: "binary_evidence_ok e target inspected"
    by (simp add: binary_evidence_ok_def e f json_same_def)
  note tf = target_fields_str [OF inspected_target [OF ins t]]
  have fields: "evidence_fields_ok e target (ei_sourceCommit i) (ei_packageVersion i) (ei_filename i) \<longleftrightarrow> input_filename_ok (ei_filename i)"
    using strs tf vals(3) shape required_symbols_json
    by (auto simp: evidence_fields_ok_def e f strict_eq_refl expected_format_def input_filename_ok_def)
      (simp_all add: artifact_evidence_def strict_eq_refl)
  show ?thesis
    unfolding validateEvidence_Inr
    using t ins built bin fields digest vals(1,2) artifact_evidence_keys
    by (auto simp: e f)
qed

text \<open>
  Property C35. The evidence that the build writes passes the validation of the release: creating
  it fails after the artifact was inspected and the digests of the consumer were taken only for
  an input file name that is not a relative path of proper components (or a digest or a size no
  Buffer has).
\<close>

theorem created_evidence_iff:
  "createReactNativeArtifactEvidence env i = Inr e \<longleftrightarrow>
     build_evidence env i = Inr e \<and> input_filename_ok (ei_filename i) \<and>
     is_hash (fld e ''artifact_sha256'') \<and> validSize (fld e ''artifact_size'')"
  using created_evidence_validates [of env i e]
  by (auto simp: createReactNativeArtifactEvidence_def bindE_Inr_iff validateEvidence_Inr)

end
