(* ===== verification/RnEvidenceSet.thy ===== *)
theory RnEvidenceSet
  imports RnEvidence RnManifest
begin

text \<open>
  The evidence of the four React Native targets together: a summary made of created evidence
  passes the validation of the set, and what an accepted set and an accepted comparison say.
\<close>

section \<open>The loop over the targets\<close>

lemma summary_target_loop_iff:
  "summary_target_loop ts ks = Inr u \<longleftrightarrow> list_all (\<lambda>(t, k). summary_target_check t k = Inr ()) (zip ts ks)"
  by (induction ts ks rule: summary_target_loop.induct) (auto simp: bindE_Inr_iff)

lemma summary_target_fld: "k \<in> set SUMMARY_TARGET_KEYS \<Longrightarrow> fld (summary_target e) k = fld e k"
  by (auto simp: summary_target_def SUMMARY_TARGET_KEYS_def)

lemma summary_target_keys: "isPlainObject (summary_target e)" "exactKeys (summary_target e) SUMMARY_TARGET_KEYS"
  by (simp_all add: summary_target_def exactKeys_iff SUMMARY_TARGET_KEYS_def)

section \<open>Created evidence\<close>

text \<open>What the builds of the targets are given: the file, the toolchain and the runner of each.\<close>

record build_plan =
  bp_cwd :: string
  bp_root :: string
  bp_sourceCommit :: js
  bp_packageVersion :: js
  bp_file :: "string \<Rightarrow> string"
  bp_toolchain :: "string \<Rightarrow> js"
  bp_runner :: "string \<Rightarrow> js"

definition plan_input :: "build_plan \<Rightarrow> string \<Rightarrow> evidence_input" where
  "plan_input b t = \<lparr>ei_targetId = t, ei_artifactPath = posix_resolve (bp_cwd b) [bp_root b, bp_file b t],
     ei_sourceCommit = bp_sourceCommit b, ei_packageVersion = bp_packageVersion b, ei_toolchainIdentifier = bp_toolchain b t,
     ei_runner = bp_runner b t, ei_artifactInputFilename = JStr (bp_file b t)\<rparr>"

lemma plan_filename [simp]: "ei_filename (plan_input b t) = JStr (bp_file b t)"
  by (simp add: ei_filename_def plan_input_def)

lemma planned_evidence:
  assumes "createReactNativeArtifactEvidence env (plan_input b t) = Inr e" and "map_of REACT_NATIVE_TARGETS t = Some target"
  shows "summary_target_check (summary_target e) (t, target) = Inr ()"
    and "map_of ps t = Some e \<Longrightarrow>
      evidence_set_step env (bp_cwd b) (JObj ps) (bp_root b) (bp_sourceCommit b) (bp_packageVersion b) (summary_target e, t) = Inr e"
    and "\<not> nullish e" and "fst (validCommit_check (bp_sourceCommit b))" and "fst (validVersion_check (bp_packageVersion b))"
proof -
  have c: "build_evidence env (plan_input b t) = Inr e" and ok: "input_filename_ok (JStr (bp_file b t))"
      "is_hash (fld e ''artifact_sha256'')" "validSize (fld e ''artifact_size'')"
    using assms(1) by (simp_all add: created_evidence_iff)
  have valid: "validateReactNativeArtifactEvidence env e (posix_resolve (bp_cwd b) [bp_root b, bp_file b t]) (bp_sourceCommit b)
      (bp_packageVersion b) (JStr (bp_file b t)) = Inr e"
    using created_evidence_validates [OF c] ok by (simp add: plan_input_def ei_filename_def)
  obtain target' inspected build where t: "rn_lookup t = Some target'"
    and e: "e = artifact_evidence (plan_input b t) target' inspected build"
    and ins: "inspectReactNativeArtifact (se_fs env) (se_sha256 env) (JStr (ei_artifactPath (plan_input b t))) (JStr t) = Inr inspected"
    and vals: "fst (validCommit_check (bp_sourceCommit b))" "fst (validVersion_check (bp_packageVersion b))"
      "nonEmptyString (bp_toolchain b t)" and shape: "JStr (ri_format inspected) = expected_format target'"
    using build_evidence_Inr [OF c] by (simp add: plan_input_def) blast
  have target: "target' = target" using inspected_target [OF ins t] assms(2) by simp
  note f = artifact_evidence_fields [of "plan_input b t" target inspected build]
  have p: "ei_targetId (plan_input b t) = t" "ei_toolchainIdentifier (plan_input b t) = bp_toolchain b t"
    by (simp_all add: plan_input_def)
  show "summary_target_check (summary_target e) (t, target) = Inr ()"
    using ok vals shape target_fields_str(5) [OF assms(2)] summary_target_keys [of e]
    by (simp add: summary_target_check_def gate_checks_iff Let_def summary_target_fld SUMMARY_TARGET_KEYS_def e target f p
        strict_eq_refl expected_format_def)
  show "evidence_set_step env (bp_cwd b) (JObj ps) (bp_root b) (bp_sourceCommit b) (bp_packageVersion b) (summary_target e, t) = Inr e"
    if "map_of ps t = Some e"
  proof -
    have "fld e ''artifact_input_filename'' = JStr (bp_file b t)" by (simp add: e target f)
    moreover have "isPlainObject e" by (simp add: e target f)
    then have "\<not> nullish e" by (cases e) auto
    ultimately show ?thesis
      using valid that
      by (simp add: evidence_set_step_def Let_def set_evidence_def given_object_def getp_def list_all_iff summary_target_fld json_same_def)
  qed
  have "isPlainObject e" by (simp add: e target f)
  then show "\<not> nullish e" by (cases e) auto
  show "fst (validCommit_check (bp_sourceCommit b))" "fst (validVersion_check (bp_packageVersion b))" using vals by simp_all
qed

lemma planned_set:
  assumes "list_all2 (\<lambda>t e. createReactNativeArtifactEvidence env (plan_input b t) = Inr e) CANONICAL_REACT_NATIVE_TARGET_ORDER entries"
  shows "\<exists>summary. createReactNativeSummary (JArr entries) (bp_sourceCommit b) (bp_packageVersion b) = Inr summary \<and>
    validateReactNativeEvidenceSet env (bp_cwd b) summary (JObj (zip CANONICAL_REACT_NATIVE_TARGET_ORDER entries)) (bp_root b)
      (bp_sourceCommit b) (bp_packageVersion b) = Inr (summary, entries)"
proof -
  define targets where "targets = map summary_target entries"
  define summary where "summary = JObj
    [(''schema_version'', JInt 1), (''kind'', JStr ''react-native-summary''), (''source_commit'', bp_sourceCommit b),
     (''package_version'', bp_packageVersion b), (''artifact_count'', JInt (int (length targets))), (''targets'', JArr targets)]"
  have len: "length entries = length CANONICAL_REACT_NATIVE_TARGET_ORDER" using list_all2_lengthD [OF assms] by simp
  have known: "map_of REACT_NATIVE_TARGETS (fst k) = Some (snd k)" if "k \<in> set REACT_NATIVE_TARGETS" for k
    using that rn_order_distinct map_of_is_SomeI [of REACT_NATIVE_TARGETS "fst k" "snd k"] unfolding rn_targets_order [symmetric] by simp
  have each: "createReactNativeArtifactEvidence env (plan_input b (fst k)) = Inr e" if "(e, k) \<in> set (zip entries REACT_NATIVE_TARGETS)" for e k
    using assms that unfolding rn_targets_order [symmetric] list_all2_map1 list_all2_conv_all_nth by (auto simp: in_set_zip)
  have loop: "list_all (\<lambda>(t, k). summary_target_check t k = Inr ()) (zip targets REACT_NATIVE_TARGETS)"
    unfolding targets_def zip_map1 list_all_iff
  proof
    fix y assume "y \<in> set (map (\<lambda>(x, k). (summary_target x, k)) (zip entries REACT_NATIVE_TARGETS))"
    then obtain e k where y: "y = (summary_target e, k)" "(e, k) \<in> set (zip entries REACT_NATIVE_TARGETS)" by auto
    show "case y of (t, k) \<Rightarrow> summary_target_check t k = Inr ()"
      using planned_evidence(1) [OF each [OF y(2)] known [OF set_zip_rightD [OF y(2)]]] y(1) by simp
  qed
  have member: "\<exists>k. (e, k) \<in> set (zip entries REACT_NATIVE_TARGETS)" if "e \<in> set entries" for e
    using that len by (metis in_set_impl_in_set_zip1 length_map rn_targets_order)
  have ne: "\<not> list_ex nullish entries"
  proof
    assume "list_ex nullish entries"
    then obtain e where "e \<in> set entries" "nullish e" by (auto simp: list_ex_iff)
    then show False using member planned_evidence(3) each known set_zip_rightD by meson
  qed
  obtain e0 where "e0 \<in> set entries" using len by (cases entries) (auto simp: CANONICAL_REACT_NATIVE_TARGET_ORDER_def)
  then obtain k0 where k0: "(e0, k0) \<in> set (zip entries REACT_NATIVE_TARGETS)" using member by blast
  note vals = planned_evidence(4,5) [OF each [OF k0] known [OF set_zip_rightD [OF k0]]]
  then have strs: "is_str (bp_sourceCommit b)" "is_str (bp_packageVersion b)"
    by (simp_all add: validCommit_check_def validVersion_check_def)
  have valid: "validateReactNativeSummary summary (bp_sourceCommit b) (bp_packageVersion b) = Inr summary"
    using loop vals strs len
    by (simp add: validateReactNativeSummary_def gate_checks_iff bindE_Inr_iff summary_target_loop_iff summary_def exactKeys_iff
        SUMMARY_KEYS_def strict_eq_refl targets_def)
  have create: "createReactNativeSummary (JArr entries) (bp_sourceCommit b) (bp_packageVersion b) = Inr summary"
    using valid ne len by (simp add: createReactNativeSummary_def Let_def summary_def targets_def bindE_Inr_iff)
  let ?order = CANONICAL_REACT_NATIVE_TARGET_ORDER
  have step: "evidence_set_step env (bp_cwd b) (JObj (zip ?order entries)) (bp_root b) (bp_sourceCommit b) (bp_packageVersion b)
      (summary_target (entries ! n), ?order ! n) = Inr (entries ! n)" if n: "n < length entries" for n
  proof -
    have m: "map_of (zip ?order entries) (?order ! n) = Some (entries ! n)"
      using n len rn_order_distinct by (simp add: map_of_zip_nth)
    have "createReactNativeArtifactEvidence env (plan_input b (?order ! n)) = Inr (entries ! n)"
      using assms n len by (simp add: list_all2_conv_all_nth)
    moreover obtain x where "map_of REACT_NATIVE_TARGETS (?order ! n) = Some x"
      using n len nth_mem [of n ?order] rn_known_iff by auto
    ultimately show ?thesis using planned_evidence(2) m by blast
  qed
  have "mapE (evidence_set_step env (bp_cwd b) (JObj (zip ?order entries)) (bp_root b) (bp_sourceCommit b) (bp_packageVersion b))
      (zip targets ?order) = Inr entries"
    using step len by (simp add: mapE_Inr_iff list_all2_conv_all_nth targets_def)
  then have "validateReactNativeEvidenceSet env (bp_cwd b) summary (JObj (zip ?order entries)) (bp_root b)
      (bp_sourceCommit b) (bp_packageVersion b) = Inr (summary, entries)"
    using valid by (simp add: validateReactNativeEvidenceSet_def bindE_Inr_iff given_object_def summary_def)
  with create show ?thesis by blast
qed

text \<open>
  Property C36. Evidence written by the four builds of one commit and version makes a summary, and
  the release reads the same summary and the same evidence back: the validation of the set
  accepts them, in the canonical order of the targets.
\<close>

theorem evidence_set_round_trip:
  "case mapE (\<lambda>t. createReactNativeArtifactEvidence env (plan_input b t)) CANONICAL_REACT_NATIVE_TARGET_ORDER of
     Inl _ \<Rightarrow> True
   | Inr entries \<Rightarrow>
       \<exists>summary. createReactNativeSummary (JArr entries) (bp_sourceCommit b) (bp_packageVersion b) = Inr summary \<and>
         validateReactNativeEvidenceSet env (bp_cwd b) summary (JObj (zip CANONICAL_REACT_NATIVE_TARGET_ORDER entries)) (bp_root b)
           (bp_sourceCommit b) (bp_packageVersion b) = Inr (summary, entries)"
  using planned_set by (auto simp: mapE_Inr_iff split: sum.split)

section \<open>An accepted set\<close>

text \<open>
  The evidence of a target is bound to the commit, the version and a file under the artifact
  root, whose digest and size it records and which carries the identity of that target.
\<close>

definition bound_evidence :: "script_env \<Rightarrow> string \<Rightarrow> string \<Rightarrow> js \<Rightarrow> js \<Rightarrow> string \<Rightarrow> js \<Rightarrow> bool" where
  "bound_evidence env cwd root commit version t e \<longleftrightarrow>
     fld e ''target_id'' = JStr t \<and> fld e ''source_commit'' = commit \<and> fld e ''package_version'' = version \<and>
     (\<exists>f bytes. fld e ''artifact_input_filename'' = JStr f \<and> input_filename_ok (JStr f) \<and>
        se_read env (posix_resolve cwd [root, f]) = Some bytes \<and> embeds_target bytes t \<and>
        fld e ''artifact_sha256'' = JStr (se_sha256 env bytes) \<and> fld e ''artifact_size'' = JInt (int (length bytes)))"

definition artifact_file :: "js \<Rightarrow> string" where
  "artifact_file e = str_of (fld e ''artifact_input_filename'')"

lemma validated_evidence:
  assumes "validateReactNativeArtifactEvidence env e (posix_resolve cwd [root, f]) commit version (JStr f) = Inr r"
    and "fld e ''target_id'' = JStr t"
  shows "bound_evidence env cwd root commit version t e"
proof -
  obtain target sha256 size inspected where v: "rn_lookup t = Some target" "evidence_fields_ok e target commit version (JStr f)"
      "fileDigest env (posix_resolve cwd [root, f]) = Inr (sha256, size)"
      "fld e ''artifact_sha256'' = JStr sha256" "fld e ''artifact_size'' = JInt (int size)"
      "inspectReactNativeArtifact (se_fs env) (se_sha256 env) (JStr (posix_resolve cwd [root, f])) (JStr t) = Inr inspected"
    using assms(1) unfolding validateEvidence_Inr assms(2) to_str.simps option.inject by blast
  have "fld e ''source_commit'' = commit" "fld e ''package_version'' = version" "fld e ''artifact_input_filename'' = JStr f"
      "input_filename_ok (JStr f)"
    using v(2) by (auto simp: evidence_fields_ok_def dest: strict_eq_imp_eq)
  moreover obtain bytes where "se_read env (posix_resolve cwd [root, f]) = Some bytes" "embeds_target bytes t"
      "sha256 = se_sha256 env bytes" "size = length bytes"
    by (rule inspectReactNativeArtifact_Inr [OF v(6)]) (use v(3) in \<open>simp add: se_read_def fileDigest_def\<close>)
  ultimately show ?thesis unfolding bound_evidence_def using assms(2) v(4,5) by blast
qed

text \<open>Only a string has the JSON text of a string.\<close>

lemma num_str_no_quote: "CHR 0x22 \<notin> set (num_str n)"
proof -
  have d: "CHR 0x22 \<notin> set (nat_digits k)" for k
    using nat_digits_digits [of "CHR 0x22" k] by (auto simp: is_digit_def less_eq_char_def)
  then have "CHR 0x22 \<notin> set (take j (nat_digits k))" "CHR 0x22 \<notin> set (drop j (nat_digits k))" for j k
    using set_take_subset set_drop_subset by fastforce+
  with d show ?thesis by (cases n rule: num_str.cases) (auto simp: Let_def)
qed

lemma json_same_str: "json_same (JStr s) v \<longleftrightarrow> v = JStr s"
proof (cases v)
  case (JNum n)
  have "json_quote s \<noteq> num_str n" using num_str_no_quote [of n]
    by (metis append_Cons json_quote_def list.set_intros(1))
  with JNum show ?thesis by (auto simp: json_same_def json_quote_def)
next
  case (JStr r)
  then show ?thesis using json_quote_inj [of s "[]" r "[]"] by (auto simp: json_same_def)
qed (auto simp: json_same_def json_quote_def)

lemma set_step_Inr:
  assumes "evidence_set_step env cwd evidenceRoot root commit version (summaryTarget, t) = Inr e"
    and "fld summaryTarget ''target_id'' = JStr t" and "is_hash (fld summaryTarget ''artifact_sha256'')"
  shows "bound_evidence env cwd root commit version t e" and "fld summaryTarget ''artifact_sha256'' = fld e ''artifact_sha256''"
    and "\<exists>r. inspectReactNativeArtifact (se_fs env) (se_sha256 env) (JStr (posix_resolve cwd [root, artifact_file e])) (JStr t) = Inr r"
proof -
  obtain f r where v: "fld e ''artifact_input_filename'' = JStr f"
      "validateReactNativeArtifactEvidence env e (posix_resolve cwd [root, f]) commit version (JStr f) = Inr r"
    and same: "list_all (\<lambda>key. json_same (fld summaryTarget key) (fld e key)) SUMMARY_TARGET_KEYS"
    using assms(1)
    by (auto simp: evidence_set_step_def Let_def bindE_Inr_iff getp_def is_str_iff split: if_splits)
  have t: "fld e ''target_id'' = JStr t"
    using same assms(2) by (simp add: SUMMARY_TARGET_KEYS_def json_same_str)
  show "bound_evidence env cwd root commit version t e" by (rule validated_evidence [OF v(2) t])
  show "fld summaryTarget ''artifact_sha256'' = fld e ''artifact_sha256''"
    using same assms(3) by (auto simp: SUMMARY_TARGET_KEYS_def json_same_str is_hash_iff)
  show "\<exists>r. inspectReactNativeArtifact (se_fs env) (se_sha256 env) (JStr (posix_resolve cwd [root, artifact_file e])) (JStr t) = Inr r"
    using v(2) t unfolding validateEvidence_Inr by (auto simp: artifact_file_def v(1))
qed

lemma one_target_string:
  assumes "inspectReactNativeArtifact fs sha256 path (JStr t) = Inr r" and "inspectReactNativeArtifact fs sha256 path (JStr u) = Inr q"
  shows "t = u"
proof -
  have "ri_targetId r = t" "ri_targetId q = u"
    using inspectReactNativeArtifact_Inr [OF assms(1), of "ri_targetId r = t"] inspectReactNativeArtifact_Inr [OF assms(2), of "ri_targetId q = u"]
    by simp_all
  then show ?thesis using inspectReactNativeArtifact_one_target [of fs sha256 path "JStr t" "JStr u"] assms by simp
qed

lemma accepted_set:
  assumes "validateReactNativeEvidenceSet env cwd summaryPath evidenceRoot root commit version = Inr (summary, entries)"
  shows "list_all2 (bound_evidence env cwd root commit version) CANONICAL_REACT_NATIVE_TARGET_ORDER entries"
    and "distinct (map artifact_file entries)"
    and "map (\<lambda>t. fld t ''artifact_sha256'') (elems (fld summary ''targets'')) = map (\<lambda>e. fld e ''artifact_sha256'') entries"
proof -
  let ?order = CANONICAL_REACT_NATIVE_TARGET_ORDER and ?targets = "elems (fld summary ''targets'')"
  obtain v where s: "validateReactNativeSummary summary commit version = Inr v"
      "mapE (evidence_set_step env cwd evidenceRoot root commit version) (zip ?targets ?order) = Inr entries"
    using assms unfolding validateReactNativeEvidenceSet_def by (auto simp: bindE_Inr_iff)
  have len: "length ?targets = length ?order"
    and loop: "list_all (\<lambda>(t, k). summary_target_check t k = Inr ()) (zip ?targets REACT_NATIVE_TARGETS)"
    using s(1) by (auto simp: validateReactNativeSummary_def bindE_Inr_iff gate_checks_iff summary_target_loop_iff)
  have order: "?order ! n = fst (REACT_NATIVE_TARGETS ! n)" "length REACT_NATIVE_TARGETS = length ?order" if "n < length ?order" for n
    using that by (simp_all add: rn_targets_order [symmetric])
  have check: "summary_target_check (?targets ! n) (REACT_NATIVE_TARGETS ! n) = Inr ()" if n: "n < length ?order" for n
    using loop n len order(2) [OF n] by (auto simp: list_all_length)
  have fields: "fld (?targets ! n) ''target_id'' = JStr (?order ! n)" "is_hash (fld (?targets ! n) ''artifact_sha256'')"
    if n: "n < length ?order" for n
    using check [OF n] order(1) [OF n] by (simp_all add: summary_target_check_def gate_checks_iff Let_def)
  have elen: "length entries = length ?order" using mapE_length [OF s(2)] len by simp
  have step: "evidence_set_step env cwd evidenceRoot root commit version (?targets ! n, ?order ! n) = Inr (entries ! n)"
    if n: "n < length ?order" for n
    using s(2) n len by (simp add: mapE_Inr_iff list_all2_conv_all_nth)
  note each = set_step_Inr [OF step fields]
  show "list_all2 (bound_evidence env cwd root commit version) ?order entries"
    using each(1) elen by (simp add: list_all2_conv_all_nth)
  show "map (\<lambda>t. fld t ''artifact_sha256'') ?targets = map (\<lambda>e. fld e ''artifact_sha256'') entries"
    using each(2) elen len by (intro nth_equalityI) simp_all
  have "n = m" if "n < length ?order" "m < length ?order" "artifact_file (entries ! n) = artifact_file (entries ! m)" for n m
  proof -
    have "?order ! n = ?order ! m" using each(3) [OF that(1,1,1)] each(3) [OF that(2,2,2)] that(3) one_target_string by metis
    then show ?thesis using that rn_order_distinct by (simp add: nth_eq_iff_index_eq)
  qed
  then show "distinct (map artifact_file entries)" using elen by (auto simp: distinct_conv_nth)
qed

text \<open>
  Property C37. An accepted set is complete and not mixed up: it has the evidence of the four
  targets in the canonical order, all of one commit and version, each bound by digest and size to
  a file under the artifact root that carries the identity of that very target; the four files
  are different, and the summary records the digests of the evidence.
\<close>

theorem accepted_set_bound:
  "case validateReactNativeEvidenceSet env cwd summaryPath evidenceRoot root commit version of
     Inl _ \<Rightarrow> True
   | Inr (summary, entries) \<Rightarrow>
       list_all2 (bound_evidence env cwd root commit version) CANONICAL_REACT_NATIVE_TARGET_ORDER entries \<and>
       distinct (map artifact_file entries) \<and>
       map (\<lambda>t. fld t ''artifact_sha256'') (elems (fld summary ''targets'')) = map (\<lambda>e. fld e ''artifact_sha256'') entries"
  using accepted_set by (auto split: sum.split)

section \<open>An accepted comparison\<close>

lemma fileDigest_read:
  "fileDigest env p = Inr (h, n) \<longleftrightarrow> fs_stat (se_fs env) p = Some RegularFile \<and>
     (\<exists>bytes. se_read env p = Some bytes \<and> h = se_sha256 env bytes \<and> n = length bytes)"
  by (auto simp: fileDigest_def split: option.splits)

lemma compare_result_digests: "compare_result targetId target p q commit version a b d d' = Inr r \<Longrightarrow> d = d'"
  by (auto simp: compare_result_def Let_def prod_eq_iff split: if_splits)

text \<open>Two builds that compare as equal are files of one digest and size, both of the iOS target.\<close>

lemma compareReactNativeArtifacts_sound:
  assumes "compareReactNativeArtifacts env (JStr t) p q commit version = Inr r"
  shows "\<exists>first second. se_read env p = Some first \<and> se_read env q = Some second \<and> se_sha256 env first = se_sha256 env second \<and>
    length first = length second \<and> embeds_target first t \<and> embeds_target second t"
proof -
  let ?inspect = "\<lambda>path. inspectReactNativeArtifact (se_fs env) (se_sha256 env) (JStr path) (JStr t)"
  obtain target where run: "(case (?inspect p, ?inspect q) of
      (Inr a, Inr b) \<Rightarrow> bindE (fileDigest env p) (\<lambda>d. bindE (fileDigest env q) (\<lambda>d'.
        compare_result (JStr t) target p q commit version a b d d'))
    | _ \<Rightarrow> Inl (rn_evidence_fail ''iOS producer artifact identity is invalid'')) = Inr r"
    using assms by (auto simp: compareReactNativeArtifacts_def rn_target_of_def bindE_Inr_iff [of "gate_checks _ _"]
        bindE_Inr_iff [of "str_or_throw _"] bindE_Inr_iff [of "bindE _ _"] split: option.splits)
  then obtain a b where c: "?inspect p = Inr a" "?inspect q = Inr b" by (auto split: sum.splits)
  obtain d d' where d: "fileDigest env p = Inr d" "fileDigest env q = Inr d'"
      "compare_result (JStr t) target p q commit version a b d d' = Inr r"
    using run unfolding c prod.case sum.case bindE_Inr_iff by blast
  obtain h n where hn: "d = (h, n)" "d' = (h, n)" using compare_result_digests [OF d(3)] by (metis surj_pair)
  have "\<exists>bytes. se_read env p = Some bytes \<and> embeds_target bytes t" "\<exists>bytes. se_read env q = Some bytes \<and> embeds_target bytes t"
    using inspectReactNativeArtifact_Inr [OF c(1), of "\<exists>bytes. se_read env p = Some bytes \<and> embeds_target bytes t"]
      inspectReactNativeArtifact_Inr [OF c(2), of "\<exists>bytes. se_read env q = Some bytes \<and> embeds_target bytes t"]
    by (auto simp: se_read_def)
  then show ?thesis using d(1,2) unfolding hn by (auto simp: fileDigest_read)
qed

end
