(* ===== verification/ReleaseDigests.thy ===== *)
theory ReleaseDigests
  imports JsonText NativeManifest
begin

text \<open>
  The files of the release gate, first part of \<open>scripts/release-operation.mjs\<close>: reading a file,
  its digest and size, paths inside the release directory, and the lists of digests
  (\<open>SHA256SUMS\<close>, \<open>SBOM-SHA256SUMS\<close>, \<open>LICENSE-POLICY-SHA256SUMS\<close>). The release directory is
  absolute, as the command makes it. What a message interpolates is left out.
\<close>

definition op_fail :: "string \<Rightarrow> js_error" where
  "op_fail message = Fail (''Release operation gate failed: '' @ message)"

section \<open>Files\<close>

definition op_json :: "script_env \<Rightarrow> string \<Rightarrow> string \<Rightarrow> js res" where
  "op_json env path label =
     (case se_json env path of None \<Rightarrow> Inl (op_fail (label @ '' is unreadable or malformed'')) | Some v \<Rightarrow> Inr v)"

definition op_bytes :: "script_env \<Rightarrow> string \<Rightarrow> string \<Rightarrow> byte list res" where
  "op_bytes env path label =
     (case se_read env path of None \<Rightarrow> Inl (op_fail (label @ '' is unreadable'')) | Some b \<Rightarrow> Inr b)"

definition sha256File :: "script_env \<Rightarrow> string \<Rightarrow> string \<Rightarrow> string res" where
  "sha256File env path label = bindE (op_bytes env path label) (\<lambda>b. Inr (se_sha256 env b))"

text \<open>The size of a file is asked for only after its bytes were read.\<close>

definition fileSize :: "script_env \<Rightarrow> string \<Rightarrow> string \<Rightarrow> nat res" where
  "fileSize env path label =
     (case (fs_stat (se_fs env) path, se_read env path) of
        (Some RegularFile, Some b) \<Rightarrow> Inr (length b)
      | _ \<Rightarrow> Inl (op_fail (label @ '' is missing'')))"

definition op_safe_path :: "js \<Rightarrow> string \<Rightarrow> string res" where
  "op_safe_path v label =
     (if unsafe_path v then Inl (op_fail (label @ '' is not a safe relative path'')) else Inr (str_of v))"

definition requiredFile :: "script_env \<Rightarrow> string \<Rightarrow> js \<Rightarrow> string \<Rightarrow> string res" where
  "requiredFile env root relativePath label =
     bindE (op_safe_path relativePath label) (\<lambda>p.
       let path = posix_resolve root [p] in
       if \<not> se_exists env path then Inl (op_fail (label @ '' is missing'')) else Inr path)"

lemma unsafe_path_str [simp]: "unsafe_path (JStr p) \<longleftrightarrow> \<not> safe_path_spec p"
  using unsafe_path_iff [of "JStr p"] by auto

lemma sha256File_Inr: "sha256File env path label = Inr h \<longleftrightarrow> (\<exists>b. se_read env path = Some b \<and> h = se_sha256 env b)"
  by (auto simp: sha256File_def op_bytes_def bindE_Inr_iff split: option.splits)

lemma fileSize_Inr:
  "fileSize env path label = Inr n \<longleftrightarrow> fs_stat (se_fs env) path = Some RegularFile \<and> (\<exists>b. se_read env path = Some b \<and> n = length b)"
  by (auto simp: fileSize_def split: option.splits file_kind.splits)

lemma op_json_Inr: "op_json env path label = Inr v \<longleftrightarrow> se_json env path = Some v"
  by (auto simp: op_json_def split: option.splits)

lemma requiredFile_Inr:
  "requiredFile env root v label = Inr path \<longleftrightarrow> (\<exists>p. v = JStr p \<and> safe_path_spec p \<and> path = posix_resolve root [p] \<and> se_exists env path)"
  using unsafe_path_iff [of v] by (auto simp: requiredFile_def op_safe_path_def bindE_Inr_iff Let_def split: if_splits)

section \<open>Lists of digests\<close>

definition digest_line :: "string \<Rightarrow> string \<Rightarrow> (string \<times> string) res" where
  "digest_line label line =
     (case sums_line line of
        None \<Rightarrow> Inl (op_fail (label @ '' line is malformed''))
      | Some (h, p) \<Rightarrow> bindE (op_safe_path (JStr p) (label @ '' path'')) (\<lambda>_. Inr (h, p)))"

definition parseDigestFile :: "script_env \<Rightarrow> string \<Rightarrow> string \<Rightarrow> (string \<times> string) list res" where
  "parseDigestFile env path label =
     bindE (op_bytes env path label) (\<lambda>b.
       let content = se_text env b in
       if \<not> ends_with [CHR 0x0A] content then Inl (op_fail (label @ '' must end with one newline''))
       else
       bindE (mapE (digest_line label) (split_on CHR 0x0A (butlast content))) (\<lambda>entries.
         if \<not> distinct (map snd entries) then Inl (op_fail (label @ '' contains duplicate paths'')) else Inr entries))"

text \<open>An expected entry has a digest and a path as the release manifest states them.\<close>

definition digest_entry_same :: "js \<times> js \<Rightarrow> string \<times> string \<Rightarrow> bool" where
  "digest_entry_same expected supplied \<longleftrightarrow>
     strict_eq (JStr (snd supplied)) (snd expected) \<and> strict_eq (JStr (fst supplied)) (fst expected)"

definition assertDigestEntries :: "script_env \<Rightarrow> string \<Rightarrow> string \<Rightarrow> (js \<times> js) list \<Rightarrow> unit res" where
  "assertDigestEntries env path label expected =
     bindE (parseDigestFile env path label) (\<lambda>actual.
       if length actual \<noteq> length expected then Inl (op_fail (label @ '' has missing or extra entries''))
       else if \<not> list_all2 digest_entry_same expected actual then Inl (op_fail (label @ '' entry differs''))
       else Inr ())"

record evidence_paths =
  ep_sbom :: string
  ep_inventory :: string
  ep_sbomSums :: string
  ep_policy :: string
  ep_thirdParty :: string
  ep_policySums :: string

definition validateEvidenceDigests :: "script_env \<Rightarrow> evidence_paths \<Rightarrow> unit res" where
  "validateEvidenceDigests env p =
     bindE (sha256File env (ep_sbom p) ''SPDX SBOM'') (\<lambda>sbom.
     bindE (sha256File env (ep_inventory p) ''license inventory'') (\<lambda>inventory.
     bindE (assertDigestEntries env (ep_sbomSums p) ''SBOM-SHA256SUMS''
       [(JStr sbom, JStr ''sbom.spdx.json''), (JStr inventory, JStr ''license-inventory.json'')]) (\<lambda>_.
     bindE (sha256File env (ep_policy p) ''license policy'') (\<lambda>policy.
     bindE (sha256File env (ep_thirdParty p) ''third-party license evidence'') (\<lambda>thirdParty.
       assertDigestEntries env (ep_policySums p) ''LICENSE-POLICY-SHA256SUMS''
         [(JStr policy, JStr ''license-policy.json''), (JStr thirdParty, JStr ''THIRD_PARTY_LICENSES.json'')])))))"

section \<open>What a list of digests is\<close>

lemma digest_line_Inr:
  "digest_line label line = Inr x \<longleftrightarrow> sums_line line = Some x \<and> safe_path_spec (snd x)"
  by (cases x) (auto simp: digest_line_def op_safe_path_def bindE_Inr_iff split: option.splits if_splits)

definition digest_list :: "(string \<times> string) list \<Rightarrow> bool" where
  "digest_list es \<longleftrightarrow> es \<noteq> [] \<and> list_all sums_entry_ok es \<and> list_all (\<lambda>e. safe_path_spec (snd e)) es \<and> distinct (map snd es)"

lemma parseDigestFile_Inr:
  "parseDigestFile env path label = Inr es \<longleftrightarrow>
     (\<exists>b. se_read env path = Some b \<and> se_text env b = render_sums es) \<and> digest_list es"
proof -
  let ?nl = "CHR 0x0A"
  have lines: "ends_with [?nl] content \<and> mapE (digest_line label) (split_on ?nl (butlast content)) = Inr es \<longleftrightarrow>
      content = render_sums es \<and> es \<noteq> [] \<and> list_all sums_entry_ok es \<and> list_all (\<lambda>e. safe_path_spec (snd e)) es" for content
  proof -
    have split: "mapE (digest_line label) ls = Inr es \<longleftrightarrow>
        list_all2 (\<lambda>line x. sums_line line = Some x) ls es \<and> list_all (\<lambda>e. safe_path_spec (snd e)) es" for ls
      unfolding mapE_Inr_iff digest_line_Inr by (auto simp: list_all2_conv_all_nth list_all_length)
    show ?thesis
      unfolding split using validate_sums_iff [of "op_fail []" content es]
      by (auto simp: validate_sums_def Let_def dest: list_all2_lengthD split: if_splits)
  qed
  show ?thesis
    unfolding parseDigestFile_def digest_list_def op_bytes_def Let_def
    using lines by (auto simp: bindE_Inr_iff split: option.splits if_splits)
qed

lemma expected_entries:
  "list_all2 digest_entry_same expected es \<longleftrightarrow> expected = map (\<lambda>(h, p). (JStr h, JStr p)) es"
proof (induction expected arbitrary: es)
  case (Cons x xs)
  show ?case
  proof (cases es)
    case (Cons e es')
    then show ?thesis using Cons.IH [of es'] by (cases x; cases e) (auto simp: digest_entry_same_def)
  qed simp
qed auto

lemma assertDigestEntries_Inr:
  "assertDigestEntries env path label expected = Inr u \<longleftrightarrow>
     (\<exists>es. expected = map (\<lambda>(h, p). (JStr h, JStr p)) es \<and> digest_list es \<and>
        (\<exists>b. se_read env path = Some b \<and> se_text env b = render_sums es))"
  unfolding assertDigestEntries_def
  by (auto simp: bindE_Inr_iff parseDigestFile_Inr expected_entries split: if_splits)

text \<open>
  Property C38. A list of digests is accepted exactly when it is, character for character, the
  canonical listing of the expected files: one line for each, in the expected order, with safe
  and distinct paths and nothing else.
\<close>

theorem assertDigestEntries_iff:
  "assertDigestEntries env path label expected = Inr u \<longleftrightarrow>
     (\<exists>es. expected = map (\<lambda>(h, p). (JStr h, JStr p)) es \<and> digest_list es \<and>
        (\<exists>b. se_read env path = Some b \<and> se_text env b = render_sums es))"
  by (rule assertDigestEntries_Inr)

end
