(* ===== verification/OperationIdentity.thy ===== *)
theory OperationIdentity
  imports ReleaseDigests SbomComponents ReleaseIdentity NpmEvidence RnTargets
begin

text \<open>
  The identities the release gate compares, second part of \<open>scripts/release-operation.mjs\<close>: the
  SPDX document, the release event with the identity evidence of \<open>release-identity.mjs\<close>, the
  source evidence and the release manifest. What a message interpolates is left out.
\<close>

definition OPERATION_PACKAGE :: string where "OPERATION_PACKAGE = ''@nemnesia/symbol-nem-wallet-core''"

definition REQUIRED_VERSION_SOURCE_IDS :: "string list" where
  "REQUIRED_VERSION_SOURCE_IDS = [''core'', ''cAbi'', ''node'', ''wasm'', ''npm'']"

text \<open>\<open>validFormalVersion\<close>: a semantic version without a pre-release part.\<close>

definition is_formal :: "js \<Rightarrow> bool" where
  "is_formal v = (case parseSemVer v of None \<Rightarrow> False | Some p \<Rightarrow> sv_prerelease p = None)"

lemma is_formal_iff: "is_formal v \<longleftrightarrow> (\<exists>s. v = JStr s \<and> formal_version s)"
proof (cases "isValidSemVer v")
  case True
  then obtain s where "v = JStr s" using semver_string by blast
  then show ?thesis by (auto simp: is_formal_def formal_version_def split: option.splits)
next
  case False
  then show ?thesis by (auto simp: is_formal_def formal_version_def isValidSemVer_def split: option.splits)
qed

section \<open>The SPDX document\<close>

definition spdx_identity_shape :: "js \<Rightarrow> bool" where
  "spdx_identity_shape p \<longleftrightarrow> isPlainObject p \<and> is_str (fld p ''SPDXID'') \<and> SPDX_ID_PATTERN (str_of (fld p ''SPDXID'')) \<and>
     is_str (fld p ''name'') \<and> is_str (fld p ''versionInfo'')"

fun spdx_identity_loop :: "string list \<Rightarrow> js list \<Rightarrow> unit res" where
  "spdx_identity_loop ids [] = Inr ()"
| "spdx_identity_loop ids (p # ps) =
     (if \<not> spdx_identity_shape p then Inl (op_fail ''SPDX packages are missing or malformed'')
      else if str_of (fld p ''SPDXID'') \<in> set ids then Inl (op_fail ''SPDX package IDs are duplicated'')
      else spdx_identity_loop (str_of (fld p ''SPDXID'') # ids) ps)"

text \<open>The members of an array that satisfy a predicate, by their positions: \<open>!==\<close> compares references.\<close>

definition members :: "(js \<Rightarrow> bool) \<Rightarrow> js list \<Rightarrow> nat list" where
  "members P ps = filter (\<lambda>i. P (ps ! i)) [0..<length ps]"

definition describedCount :: "js \<Rightarrow> int" where
  "describedCount sbom = (let files = fld sbom ''files'' in
     if is_arr files \<and> elems files \<noteq> [] then int (length (elems files)) + 1 else 1)"

definition spdx_root_checks :: "js \<Rightarrow> js \<Rightarrow> (bool \<times> string) list" where
  "spdx_root_checks sbom manifest =
     (let packages = elems (fld sbom ''packages'');
          described = members (\<lambda>p. strict_eq (fld p ''SPDXID'') (hd (elems (fld sbom ''documentDescribes'')))) packages;
          roots = members (\<lambda>p. strict_eq (fld p ''name'') (JStr OPERATION_PACKAGE) \<and>
            strict_eq (fld p ''versionInfo'') (fld manifest ''package_version'')) packages in
      [(length described = 1, ''SPDX document root package is missing or duplicated''),
       (length roots = 1, ''SPDX root npm package is missing or duplicated''),
       (described = roots, ''SPDX document root package identity differs from the release manifest'')])"

definition validateSpdxReleaseIdentity :: "js \<Rightarrow> js \<Rightarrow> unit res" where
  "validateSpdxReleaseIdentity sbom manifest =
     (let version = fld manifest ''package_version''; commit = fld manifest ''source_commit'';
          described = fld sbom ''documentDescribes'' in
      bindE (gate_checks op_fail
        [(isPlainObject manifest \<and> strict_eq (fld manifest ''package_name'') (JStr OPERATION_PACKAGE) \<and> is_str version \<and> is_str commit,
          ''release manifest identity is invalid''),
         (is_formal version, ''release manifest version is invalid''),
         (is_commit commit, ''release manifest source commit is invalid''),
         (isPlainObject sbom \<and> strict_eq (fld sbom ''SPDXID'') (JStr ''SPDXRef-DOCUMENT'') \<and>
          strict_eq (fld sbom ''spdxVersion'') (JStr ''SPDX-2.3'') \<and> strict_eq (fld sbom ''dataLicense'') (JStr ''CC0-1.0''),
          ''SPDX document identity is invalid''),
         (strict_eq (fld sbom ''name'') (JStr (''symbol-nem-wallet-core-'' @ str_of version)),
          ''SPDX document name differs from the release manifest''),
         (strict_eq (fld sbom ''documentNamespace'')
            (JStr (''https://spdx.org/spdxdocs/symbol-nem-wallet-core-'' @ str_of version @ ''-'' @ str_of commit)),
          ''SPDX document namespace differs from the release manifest''),
         (is_arr described \<and> int (length (elems described)) = describedCount sbom \<and> is_str (hd (elems described)),
          ''SPDX document root package identity is invalid''),
         (is_arr (fld sbom ''packages''), ''SPDX packages are missing or malformed'')]) (\<lambda>_.
      bindE (spdx_identity_loop [] (elems (fld sbom ''packages''))) (\<lambda>_.
        gate_checks op_fail (spdx_root_checks sbom manifest))))"

section \<open>The release event\<close>

definition operation_tag_checks :: "js \<Rightarrow> js \<Rightarrow> (bool \<times> string) list" where
  "operation_tag_checks tag version =
     [(is_formal version, ''release version is invalid''),
      (strict_eq tag (JStr (''v'' @ str_of version)), ''release tag/version mismatch'')]"

definition operation_source_checks :: "js \<Rightarrow> js \<Rightarrow> (bool \<times> string) list" where
  "operation_source_checks versionSources version =
     [(isPlainObject versionSources, ''release version sources are unavailable''),
      (json_same (JArr (map JStr (sort (obj_keys versionSources)))) (JArr (map JStr (sort REQUIRED_VERSION_SOURCE_IDS))),
       ''release version sources are incomplete or unexpected'')] @
     map (\<lambda>i. let entry = fld versionSources i in
       (isPlainObject entry \<and> strict_eq (fld entry ''version'') version, ''release version mismatch'')) REQUIRED_VERSION_SOURCE_IDS"

record operation_input =
  oi_environment :: js
  oi_tag :: js
  oi_version :: js
  oi_manifestVersion :: js
  oi_versionSources :: js
  oi_sourceCommit :: js
  oi_checkoutHead :: js
  oi_tagCommit :: js
  oi_mainAncestry :: js
  oi_clean :: js
  oi_provenanceRequired :: js
  oi_oidcRequired :: js

definition validateReleaseOperationIdentity :: "operation_input \<Rightarrow> js res" where
  "validateReleaseOperationIdentity i =
     bindE (gate_checks op_fail
       ([(strict_eq (oi_environment i) (JStr RELEASE_ENVIRONMENT), ''release job is not connected to the release Environment'')] @
        operation_tag_checks (oi_tag i) (oi_version i) @
        [(strict_eq (oi_manifestVersion i) (oi_version i), ''release manifest version differs from release version'')] @
        operation_source_checks (oi_versionSources i) (oi_version i) @
        [(is_commit (oi_sourceCommit i), ''release source commit is invalid''),
         (is_commit (oi_checkoutHead i), ''checkout HEAD is invalid''),
         (is_commit (oi_tagCommit i), ''tag target commit is invalid''),
         (strict_eq (oi_checkoutHead i) (oi_sourceCommit i), ''checkout HEAD differs from release source commit''),
         (strict_eq (oi_tagCommit i) (oi_sourceCommit i), ''tag target differs from release source commit''),
         (strict_eq (oi_mainAncestry i) (JBool True), ''release source commit is not contained in main''),
         (strict_eq (oi_clean i) (JBool True), ''release source checkout is not clean''),
         (strict_eq (oi_provenanceRequired i) (JBool True), ''npm provenance is not required''),
         (strict_eq (oi_oidcRequired i) (JBool True), ''npm Trusted Publishing / OIDC is not required'')])) (\<lambda>_.
       Inr (JObj
         [(''environment'', JStr RELEASE_ENVIRONMENT), (''tag'', oi_tag i), (''version'', oi_version i),
          (''source_commit'', oi_sourceCommit i), (''provenance_required'', JBool True), (''trusted_publishing'', JStr ''npm-oidc'')]))"

text \<open>\<open>`refs/tags/${tag}`\<close> is evaluated after the tag was found to be a string.\<close>

definition event_guard :: "js \<Rightarrow> js \<Rightarrow> js \<Rightarrow> unit res" where
  "event_guard identity tag sourceCommit =
     (let ref = JStr (''refs/tags/'' @ str_of tag); event = fld identity ''tag_event'' in
      guard_any (op_fail ''release identity evidence does not match the release event'')
        [Inr (\<not> strict_eq (fld identity ''package_name'') (JStr OPERATION_PACKAGE)),
         Inr (\<not> strict_eq (fld identity ''tag'') tag),
         Inr (\<not> strict_eq (fld identity ''tag_version'') (fld identity ''version'')),
         Inr (\<not> strict_eq (fld identity ''tag_ref'') ref),
         Inr (\<not> strict_eq (fld identity ''source_commit'') sourceCommit),
         Inr (\<not> is_str (fld identity ''main_ref'')),
         Inr (\<not> is_main_ref (str_of (fld identity ''main_ref''))),
         not_re_test commit_pattern (fld identity ''main_ref_commit''),
         Inr (\<not> strict_eq (fld event ''ref'') ref),
         Inr (\<not> strict_eq (fld event ''created'') (JBool True)),
         Inr (\<not> strict_eq (fld event ''deleted'') (JBool False)),
         Inr (\<not> strict_eq (fld event ''forced'') (JBool False)),
         Inr (\<not> strict_eq (fld event ''before'') (JStr (replicate 40 CHR ''0'')))])"

definition identity_operation :: "js \<Rightarrow> js \<Rightarrow> js \<Rightarrow> js \<Rightarrow> js \<Rightarrow> operation_input" where
  "identity_operation identity tag sourceCommit manifestVersion environment =
     \<lparr>oi_environment = environment, oi_tag = tag, oi_version = fld identity ''version'', oi_manifestVersion = manifestVersion,
      oi_versionSources = fld identity ''version_sources'', oi_sourceCommit = sourceCommit,
      oi_checkoutHead = fld identity ''checkout_head'', oi_tagCommit = fld identity ''tag_commit'',
      oi_mainAncestry = fld identity ''main_ancestry'', oi_clean = fld identity ''clean'',
      oi_provenanceRequired = JBool True, oi_oidcRequired = JBool True\<rparr>"

definition validateIdentityArtifact :: "js \<Rightarrow> js \<Rightarrow> js \<Rightarrow> js \<Rightarrow> js \<Rightarrow> js res" where
  "validateIdentityArtifact identity tag sourceCommit manifestVersion environment =
     bindE (gate_checks op_fail
       [(isPlainObject identity \<and> strict_eq (fld identity ''schema_version'') (JInt 1) \<and>
         strict_eq (fld identity ''kind'') (JStr ''release-identity'') \<and> strict_eq (fld identity ''mode'') (JStr ''release''),
         ''release identity evidence is invalid'')]) (\<lambda>_.
     bindE (validateReleaseOperationIdentity (identity_operation identity tag sourceCommit manifestVersion environment)) (\<lambda>result.
     bindE (event_guard identity tag sourceCommit) (\<lambda>_. Inr result)))"

section \<open>The source evidence and the release manifest\<close>

definition validateSourceEvidence :: "js \<Rightarrow> js \<Rightarrow> unit res" where
  "validateSourceEvidence source manifest =
     gate_checks op_fail
       [(isPlainObject source \<and> strict_eq (fld source ''package_name'') (JStr OPERATION_PACKAGE) \<and>
         strict_eq (fld source ''package_version'') (fld manifest ''package_version'') \<and>
         strict_eq (fld source ''source_commit'') (fld manifest ''source_commit'') \<and>
         strict_eq (fld source ''cargo_lock_sha256'') (fld manifest ''cargo_lock_sha256'') \<and>
         is_str (fld source ''pnpm_lock_sha256'') \<and>
         strict_eq (fld source ''pnpm_lock_sha256'') (fld manifest ''pnpm_lock_sha256''),
         ''source evidence identity differs from the release manifest''),
        (is_commit (fld source ''source_commit''), ''source evidence commit is invalid''),
        (is_hash (fld source ''cargo_lock_sha256''), ''source evidence Cargo.lock digest is invalid''),
        (is_hash (fld source ''pnpm_lock_sha256''), ''source evidence pnpm-lock.yaml digest is invalid''),
        (json_same (fld source ''required_react_native_targets'') (JArr (map JStr CANONICAL_REACT_NATIVE_TARGET_ORDER)),
         ''source React Native target evidence is invalid'')]"

definition native_identity_checks :: "js \<Rightarrow> js \<Rightarrow> string \<times> js \<Rightarrow> (bool \<times> string) list" where
  "native_identity_checks manifest sourceCommit entry =
     (let targetId = fst entry; artifact = snd entry in
      [(isPlainObject artifact \<and> strict_eq (fld artifact ''target_id'') (JStr targetId) \<and>
        strict_eq (fld artifact ''source_commit'') sourceCommit \<and>
        strict_eq (fld artifact ''package_version'') (fld manifest ''package_version'') \<and>
        strict_eq (fld artifact ''artifact_filename'') (JStr (targetId @ ''.node'')) \<and>
        is_str (fld artifact ''artifact_filename'') \<and> is_str (fld artifact ''relative_path''),
        ''release manifest native artifact identity is invalid''),
       (\<not> unsafe_path (fld artifact ''relative_path''), ''native artifact path is not a safe relative path''),
       (is_hash (fld artifact ''sha256''), ''native artifact hash is invalid'')])"

definition validateReleaseManifestIdentity :: "js \<Rightarrow> js \<Rightarrow> js \<Rightarrow> unit res" where
  "validateReleaseManifestIdentity manifest tag sourceCommit =
     (let version = fld manifest ''package_version''; natives = fld manifest ''native_artifacts'';
          wasm = fld manifest ''wasm''; canonical = fld wasm ''canonical_artifact''; tarball = fld manifest ''npm_tarball'' in
      gate_checks op_fail
       ([(isPlainObject manifest \<and> strict_eq (fld manifest ''schema_version'') (JInt 1) \<and>
          strict_eq (fld manifest ''mode'') (JStr ''release'') \<and> strict_eq (fld manifest ''package_name'') (JStr OPERATION_PACKAGE) \<and>
          strict_eq (fld manifest ''source_commit'') sourceCommit \<and> strict_eq (fld manifest ''digest_file'') (JStr ''SHA256SUMS''),
          ''release manifest identity is invalid''),
         (is_formal version, ''release manifest version is invalid'')] @
        operation_tag_checks (fld manifest ''release_tag'') version @
        [(strict_eq (fld manifest ''release_tag'') tag, ''release manifest tag differs from release event''),
         (is_commit (fld manifest ''source_commit''), ''release manifest source commit is invalid''),
         (is_hash (fld manifest ''cargo_lock_sha256''), ''release manifest Cargo.lock digest is invalid''),
         (is_hash (fld manifest ''pnpm_lock_sha256''), ''release manifest pnpm-lock.yaml digest is invalid''),
         (is_arr natives \<and> length (elems natives) = length REQUIRED_NATIVE_TARGETS, ''release manifest native artifact set is incomplete'')] @
        concat (map (native_identity_checks manifest sourceCommit) (zip REQUIRED_NATIVE_TARGETS (elems natives))) @
        [(isPlainObject wasm \<and> isPlainObject canonical, ''release manifest WASM identity is invalid''),
         (strict_eq (fld canonical ''source_commit'') sourceCommit \<and> strict_eq (fld canonical ''package_version'') version,
          ''release manifest canonical WASM identity differs''),
         (is_hash (fld canonical ''sha256''), ''canonical WASM hash is invalid''),
         (isPlainObject tarball \<and> strict_eq (fld tarball ''package_name'') (JStr OPERATION_PACKAGE) \<and>
          strict_eq (fld tarball ''package_version'') version \<and> is_str (fld tarball ''filename''),
          ''release manifest npm tarball identity is invalid''),
         (\<not> unsafe_path (fld tarball ''filename''), ''npm tarball filename is not a safe relative path''),
         (is_hash (fld tarball ''sha256''), ''npm tarball hash is invalid'')]))"

section \<open>The identity job and the gate\<close>

text \<open>The identity evidence, as the gate is given it, for the release it was made for.\<close>

definition gate_accepts :: "js \<Rightarrow> bool" where
  "gate_accepts identity \<longleftrightarrow>
     validateIdentityArtifact identity (fld identity ''tag'') (fld identity ''source_commit'') (fld identity ''version'')
       (JStr RELEASE_ENVIRONMENT) =
     Inr (JObj
       [(''environment'', JStr RELEASE_ENVIRONMENT), (''tag'', fld identity ''tag''), (''version'', fld identity ''version''),
        (''source_commit'', fld identity ''source_commit''), (''provenance_required'', JBool True),
        (''trusted_publishing'', JStr ''npm-oidc'')])"

lemma version_source_ids: "map vs_id RELEASE_VERSION_SOURCES = REQUIRED_VERSION_SOURCE_IDS"
  by (simp add: RELEASE_VERSION_SOURCES_def REQUIRED_VERSION_SOURCE_IDS_def)

lemma validated_identity_accepted:
  assumes "validateReleaseIdentity input = Inr identity"
  shows "gate_accepts (js_spread identity ''npm_registry'' registry)"
proof -
  obtain version commit where spec: "release_identity_spec input version commit"
    and i: "identity = identity_object input (JStr version) version"
    using assms unfolding validateReleaseIdentity_spec by blast
  note s = spec [unfolded release_identity_spec_def]
  have o: "isPlainObject identity" unfolding i identity_object_def Let_def by simp
  have f: "fld (js_spread identity ''npm_registry'' registry) k = fld identity k" if "k \<noteq> ''npm_registry''" for k
    using that by (simp add: fld_js_spread [OF o])
  have k: "fld identity ''schema_version'' = JInt 1" "fld identity ''kind'' = JStr ''release-identity''"
    "fld identity ''mode'' = JStr ''release''" "fld identity ''package_name'' = JStr OPERATION_PACKAGE"
    "fld identity ''version'' = JStr version" "fld identity ''tag'' = JStr (''v'' @ version)"
    "fld identity ''tag_version'' = JStr version" "fld identity ''tag_ref'' = JStr (''refs/tags/v'' @ version)"
    "fld identity ''checkout_head'' = JStr commit" "fld identity ''source_commit'' = JStr commit"
    "fld identity ''tag_commit'' = JStr commit" "fld identity ''main_ref'' = fld input ''mainRef''"
    "fld identity ''main_ref_commit'' = fld input ''mainRefCommit''" "fld identity ''main_ancestry'' = JBool True"
    "fld identity ''clean'' = JBool True"
    "fld (fld identity ''tag_event'') ''ref'' = JStr (''refs/tags/v'' @ version)"
    "fld (fld identity ''tag_event'') ''created'' = JBool True" "fld (fld identity ''tag_event'') ''deleted'' = JBool False"
    "fld (fld identity ''tag_event'') ''forced'' = JBool False" "fld (fld identity ''tag_event'') ''before'' = JStr ZERO_COMMIT"
    unfolding i identity_object_def Let_def using s by (simp_all add: NPM_PACKAGE_NAME_def OPERATION_PACKAGE_def)
  have sources: "fld identity ''version_sources'' =
      JObj (map (\<lambda>s. (vs_id s, fld (fld input ''versionSources'') (vs_id s))) RELEASE_VERSION_SOURCES)"
    unfolding i identity_object_def Let_def by simp
  have each: "isPlainObject (fld (fld identity ''version_sources'') j) \<and> fld (fld (fld identity ''version_sources'') j) ''version'' = JStr version"
    if "j \<in> set REQUIRED_VERSION_SOURCE_IDS" for j
  proof -
    from that obtain v where v: "v \<in> set RELEASE_VERSION_SOURCES" "j = vs_id v" unfolding version_source_ids [symmetric] by auto
    have "fld (fld identity ''version_sources'') j = fld (fld input ''versionSources'') j"
      unfolding sources using that by (auto simp: RELEASE_VERSION_SOURCES_def REQUIRED_VERSION_SOURCE_IDS_def)
    then show ?thesis using s v by (auto simp: list_all_iff Let_def)
  qed
  have src: "list_all fst (operation_source_checks (fld identity ''version_sources'') (JStr version))"
    using each by (auto simp: operation_source_checks_def list_all_iff Let_def sources o_def version_source_ids)
  let ?i = "js_spread identity ''npm_registry'' registry"
  let ?op = "identity_operation ?i (JStr (''v'' @ version)) (JStr commit) (JStr version) (JStr RELEASE_ENVIRONMENT)"
  have commit: "is_commit (JStr commit)" using s by (simp add: is_commit_def commit_pattern_iff)
  have formal: "is_formal (JStr version)" using s by (simp add: is_formal_iff)
  have op: "validateReleaseOperationIdentity ?op = Inr (JObj
       [(''environment'', JStr RELEASE_ENVIRONMENT), (''tag'', JStr (''v'' @ version)), (''version'', JStr version),
        (''source_commit'', JStr commit), (''provenance_required'', JBool True), (''trusted_publishing'', JStr ''npm-oidc'')])"
    unfolding validateReleaseOperationIdentity_def
    using src commit formal by (simp add: bindE_Inr_iff gate_checks_iff identity_operation_def f k operation_tag_checks_def)
  have main: "re_test commit_pattern (fld input ''mainRefCommit'') = Inr True" "is_str (fld input ''mainRef'')"
    "is_main_ref (str_of (fld input ''mainRef''))"
    using s by (auto simp: isValidCommit_def is_str_iff)
  then have event: "event_guard ?i (JStr (''v'' @ version)) (JStr commit) = Inr ()"
    unfolding event_guard_def guard_any_Inr_iff Let_def by (simp add: f k not_re_test_def ZERO_COMMIT_def)
  have "gate_checks op_fail
       [(isPlainObject ?i \<and> strict_eq (fld ?i ''schema_version'') (JInt 1) \<and>
         strict_eq (fld ?i ''kind'') (JStr ''release-identity'') \<and> strict_eq (fld ?i ''mode'') (JStr ''release''),
         ''release identity evidence is invalid'')] = Inr ()"
    by (simp add: gate_checks_iff f k) (simp add: js_spread_def)
  then show ?thesis
    unfolding gate_accepts_def validateIdentityArtifact_def using op event by (simp add: f k)
qed

lemma run_identity_validated:
  "yields (run_identity env) (\<lambda>out. \<exists>input identity registry. validateReleaseIdentity input = Inr identity \<and>
     out = js_spread identity ''npm_registry'' registry)"
  unfolding run_identity_def Let_def by (intro yielding) auto

text \<open>
  Property C39. What the identity job prints is accepted by the gate of the publish job for the
  very tag, commit and version it was made for, and yields the release identity of these.
\<close>

theorem identity_evidence_accepted:
  "case run_identity env of Inl _ \<Rightarrow> True | Inr out \<Rightarrow> gate_accepts out"
  using run_identity_validated [of env] validated_identity_accepted by (auto simp: yields_def split: sum.split)

section \<open>An accepted SPDX document\<close>

lemma spdx_identity_loop_Inr:
  "spdx_identity_loop ids ps = Inr u \<longleftrightarrow> list_all spdx_identity_shape ps \<and> distinct (map (\<lambda>p. str_of (fld p ''SPDXID'')) ps) \<and>
     set (map (\<lambda>p. str_of (fld p ''SPDXID'')) ps) \<inter> set ids = {}"
  by (induction ids ps rule: spdx_identity_loop.induct) auto

lemma only_index: "r < n \<Longrightarrow> filter (\<lambda>i. i = r) [0..<n] = [r]"
proof (induction n)
  case (Suc n)
  have "filter (\<lambda>i. i = n) [0..<n] = []" by (auto simp: filter_empty_conv)
  with Suc show ?case by (auto simp: less_Suc_eq filter_empty_conv)
qed simp

lemma members_one: "members P ps = [r] \<longleftrightarrow> r < length ps \<and> (\<forall>i < length ps. P (ps ! i) \<longleftrightarrow> i = r)"
proof
  assume m: "members P ps = [r]"
  then have "{i \<in> set [0..<length ps]. P (ps ! i)} = {r}" unfolding members_def by (metis set_filter empty_set list.simps(15))
  then show "r < length ps \<and> (\<forall>i < length ps. P (ps ! i) \<longleftrightarrow> i = r)" by auto
next
  assume r: "r < length ps \<and> (\<forall>i < length ps. P (ps ! i) \<longleftrightarrow> i = r)"
  then have "members P ps = filter (\<lambda>i. i = r) [0..<length ps]" unfolding members_def by (intro filter_cong) auto
  also have "\<dots> = [r]" using r by (intro only_index) simp
  finally show "members P ps = [r]" .
qed

lemma same_members: "length xs = 1 \<and> length ys = 1 \<and> xs = ys \<longleftrightarrow> (\<exists>r. xs = [r] \<and> ys = [r])"
  by (cases xs) auto

text \<open>
  The document is the one of the release: its name and its namespace are made of the version and
  the commit of the manifest, every package has an identifier of its own, and exactly one package
  is the npm package at that version, the one the document describes first.
\<close>

definition spdx_release_spec :: "js \<Rightarrow> js \<Rightarrow> bool" where
  "spdx_release_spec sbom manifest \<longleftrightarrow> (\<exists>version commit ids packages root.
     isPlainObject manifest \<and> fld manifest ''package_name'' = JStr OPERATION_PACKAGE \<and>
     fld manifest ''package_version'' = JStr version \<and> formal_version version \<and>
     fld manifest ''source_commit'' = JStr commit \<and> length commit = 40 \<and> list_all is_hex commit \<and>
     isPlainObject sbom \<and> fld sbom ''SPDXID'' = JStr ''SPDXRef-DOCUMENT'' \<and> fld sbom ''spdxVersion'' = JStr ''SPDX-2.3'' \<and>
     fld sbom ''dataLicense'' = JStr ''CC0-1.0'' \<and> fld sbom ''name'' = JStr (''symbol-nem-wallet-core-'' @ version) \<and>
     fld sbom ''documentNamespace'' =
       JStr (''https://spdx.org/spdxdocs/symbol-nem-wallet-core-'' @ version @ ''-'' @ commit) \<and>
     fld sbom ''documentDescribes'' = JArr ids \<and> int (length ids) = describedCount sbom \<and>
     fld sbom ''packages'' = JArr packages \<and> list_all spdx_identity_shape packages \<and>
     distinct (map (\<lambda>p. str_of (fld p ''SPDXID'')) packages) \<and> root < length packages \<and>
     ids \<noteq> [] \<and> hd ids = fld (packages ! root) ''SPDXID'' \<and>
     (\<forall>i < length packages. fld (packages ! i) ''name'' = JStr OPERATION_PACKAGE \<and>
        fld (packages ! i) ''versionInfo'' = JStr version \<longleftrightarrow> i = root))"

lemma spdx_loop_distinct:
  assumes "list_all spdx_identity_shape ps" and "distinct (map (\<lambda>p. str_of (fld p ''SPDXID'')) ps)" and "r < length ps" and "i < length ps"
  shows "fld (ps ! i) ''SPDXID'' = fld (ps ! r) ''SPDXID'' \<longleftrightarrow> i = r"
proof -
  have "str_of (fld (ps ! i) ''SPDXID'') = str_of (fld (ps ! r) ''SPDXID'') \<longleftrightarrow> i = r"
    using nth_eq_iff_index_eq [OF assms(2)] assms(3,4) by simp
  moreover have "is_str (fld (ps ! i) ''SPDXID'')" "is_str (fld (ps ! r) ''SPDXID'')"
    using assms(1,3,4) by (auto simp: list_all_length spdx_identity_shape_def)
  ultimately show ?thesis by (auto simp: is_str_iff)
qed

lemma spdx_roots_iff:
  assumes shape: "list_all spdx_identity_shape packages" "distinct (map (\<lambda>p. str_of (fld p ''SPDXID'')) packages)"
    and "fld sbom ''packages'' = JArr packages" and "fld sbom ''documentDescribes'' = JArr ids" and "is_str (hd ids)"
    and "fld manifest ''package_version'' = JStr version"
  shows "list_all fst (spdx_root_checks sbom manifest) \<longleftrightarrow>
    (\<exists>root < length packages. hd ids = fld (packages ! root) ''SPDXID'' \<and>
      (\<forall>i < length packages. fld (packages ! i) ''name'' = JStr OPERATION_PACKAGE \<and>
        fld (packages ! i) ''versionInfo'' = JStr version \<longleftrightarrow> i = root))"
proof -
  let ?described = "members (\<lambda>p. strict_eq (fld p ''SPDXID'') (hd ids)) packages"
  let ?roots = "members (\<lambda>p. strict_eq (fld p ''name'') (JStr OPERATION_PACKAGE) \<and> strict_eq (fld p ''versionInfo'') (JStr version)) packages"
  have eq: "strict_eq v (hd ids) \<longleftrightarrow> v = hd ids" for v using assms(5) by (auto simp: is_str_iff)
  have d: "?described = [r] \<longleftrightarrow> r < length packages \<and> hd ids = fld (packages ! r) ''SPDXID''" for r
    unfolding members_one eq using spdx_loop_distinct [OF shape, of r] by metis
  have "list_all fst (spdx_root_checks sbom manifest) \<longleftrightarrow> (\<exists>r. ?described = [r] \<and> ?roots = [r])"
    unfolding same_members [symmetric] by (simp add: spdx_root_checks_def Let_def assms(3,4,6))
  then show ?thesis unfolding d unfolding members_one by auto
qed

lemma validateSpdxReleaseIdentity_spec:
  "validateSpdxReleaseIdentity sbom manifest = Inr () \<longleftrightarrow> spdx_release_spec sbom manifest" (is "?l \<longleftrightarrow> ?r")
proof
  assume l: ?l
  have g: "isPlainObject manifest" "fld manifest ''package_name'' = JStr OPERATION_PACKAGE" "is_formal (fld manifest ''package_version'')"
      "is_commit (fld manifest ''source_commit'')" "isPlainObject sbom" "fld sbom ''SPDXID'' = JStr ''SPDXRef-DOCUMENT''"
      "fld sbom ''spdxVersion'' = JStr ''SPDX-2.3''" "fld sbom ''dataLicense'' = JStr ''CC0-1.0''"
      "fld sbom ''name'' = JStr (''symbol-nem-wallet-core-'' @ str_of (fld manifest ''package_version''))"
      "fld sbom ''documentNamespace'' = JStr (''https://spdx.org/spdxdocs/symbol-nem-wallet-core-'' @
         str_of (fld manifest ''package_version'') @ ''-'' @ str_of (fld manifest ''source_commit''))"
      "is_arr (fld sbom ''documentDescribes'')" "int (length (elems (fld sbom ''documentDescribes''))) = describedCount sbom"
      "is_str (hd (elems (fld sbom ''documentDescribes'')))" "is_arr (fld sbom ''packages'')"
      "spdx_identity_loop [] (elems (fld sbom ''packages'')) = Inr ()" "list_all fst (spdx_root_checks sbom manifest)"
    using l by (simp_all add: validateSpdxReleaseIdentity_def Let_def bindE_Inr_iff gate_checks_iff)
  obtain version where v: "fld manifest ''package_version'' = JStr version" "formal_version version" using g(3) by (auto simp: is_formal_iff)
  obtain commit where c: "fld manifest ''source_commit'' = JStr commit" "length commit = 40" "list_all is_hex commit"
    using g(4) by (auto simp: is_commit_def is_str_iff commit_pattern_iff)
  obtain ids packages where a: "fld sbom ''documentDescribes'' = JArr ids" "fld sbom ''packages'' = JArr packages"
    using g(11,14) by (auto simp: is_arr_iff)
  have "1 \<le> describedCount sbom" by (simp add: describedCount_def Let_def)
  then have ne: "ids \<noteq> []" using g(12) a(1) by auto
  have loop: "list_all spdx_identity_shape packages" "distinct (map (\<lambda>p. str_of (fld p ''SPDXID'')) packages)"
    using g(15) a(2) by (simp_all add: spdx_identity_loop_Inr)
  have root: "\<exists>root < length packages. hd ids = fld (packages ! root) ''SPDXID'' \<and>
      (\<forall>i < length packages. fld (packages ! i) ''name'' = JStr OPERATION_PACKAGE \<and>
        fld (packages ! i) ''versionInfo'' = JStr version \<longleftrightarrow> i = root)"
    using spdx_roots_iff [OF loop a(2,1) _ v(1)] g(13,16) a(1) by simp
  show ?r
    unfolding spdx_release_spec_def using g(1,2,5-10,12) v c a ne loop root by simp
next
  assume ?r
  then obtain version commit ids packages root where s: "isPlainObject manifest" "fld manifest ''package_name'' = JStr OPERATION_PACKAGE"
     "fld manifest ''package_version'' = JStr version" "formal_version version"
     "fld manifest ''source_commit'' = JStr commit" "length commit = 40" "list_all is_hex commit"
     "isPlainObject sbom" "fld sbom ''SPDXID'' = JStr ''SPDXRef-DOCUMENT''" "fld sbom ''spdxVersion'' = JStr ''SPDX-2.3''"
     "fld sbom ''dataLicense'' = JStr ''CC0-1.0''" "fld sbom ''name'' = JStr (''symbol-nem-wallet-core-'' @ version)"
     "fld sbom ''documentNamespace'' = JStr (''https://spdx.org/spdxdocs/symbol-nem-wallet-core-'' @ version @ ''-'' @ commit)"
     "fld sbom ''documentDescribes'' = JArr ids" "int (length ids) = describedCount sbom"
     "fld sbom ''packages'' = JArr packages" "list_all spdx_identity_shape packages"
     "distinct (map (\<lambda>p. str_of (fld p ''SPDXID'')) packages)" "root < length packages"
     "ids \<noteq> []" "hd ids = fld (packages ! root) ''SPDXID''"
     "\<forall>i < length packages. fld (packages ! i) ''name'' = JStr OPERATION_PACKAGE \<and>
        fld (packages ! i) ''versionInfo'' = JStr version \<longleftrightarrow> i = root"
    unfolding spdx_release_spec_def by blast
  have str: "is_str (hd ids)" using s(17,19,21) by (auto simp: list_all_length spdx_identity_shape_def)
  have "list_all fst (spdx_root_checks sbom manifest)"
    using spdx_roots_iff [OF s(17,18,16,14) str s(3)] s(19,21,22) by blast
  moreover have "is_commit (JStr commit)" "is_formal (JStr version)"
    using s(4,6,7) by (simp_all add: is_commit_def commit_pattern_iff is_formal_iff)
  moreover have "spdx_identity_loop [] packages = Inr ()" using s(17,18) by (simp add: spdx_identity_loop_Inr)
  ultimately show ?l
    using s(1-3,5,8-16) str by (simp add: validateSpdxReleaseIdentity_def Let_def bindE_Inr_iff gate_checks_iff)
qed

text \<open>
  Property C40. The gate accepts an SPDX document exactly when it is the document of the release:
  its name and namespace carry the version and the commit of the manifest, its packages have
  distinct identifiers, and exactly one of them is the npm package at that version, which is the
  one the document describes first.
\<close>

theorem validateSpdxReleaseIdentity_iff:
  "validateSpdxReleaseIdentity sbom manifest = Inr () \<longleftrightarrow> spdx_release_spec sbom manifest"
  by (rule validateSpdxReleaseIdentity_spec)

end
