(* ===== verification/ReleaseBundle.thy ===== *)
theory ReleaseBundle
  imports OperationIdentity RnEvidence RnManifest
begin

text \<open>
  The evidence of the release directory, third part of \<open>scripts/release-operation.mjs\<close>: the
  artifacts and their evidence, the npm tarball, the list of all digests, the SBOM and license
  evidence, and the verification of a fresh release that composes them. \<open>tar\<close> is a parameter
  that gives the bytes of an entry. The branch for a recovered release, which also validates the
  evidence of \<open>release-recovery.mjs\<close>, is not modelled. What a message interpolates is left out.
\<close>

record bundle_env =
  be_script :: script_env
  be_tar :: "string \<Rightarrow> string \<Rightarrow> byte list option"

definition be_json_bytes :: "bundle_env \<Rightarrow> byte list \<Rightarrow> js option" where
  "be_json_bytes env b = se_parse (be_script env) b"

section \<open>Native artifacts\<close>

text \<open>\<open>v !== digest()\<close> where the digest may throw.\<close>

definition differs_from :: "js \<Rightarrow> string res \<Rightarrow> bool res" where
  "differs_from v m = bindE m (\<lambda>h. Inr (\<not> strict_eq v (JStr h)))"

definition size_differs :: "js \<Rightarrow> nat res \<Rightarrow> bool res" where
  "size_differs v m = bindE m (\<lambda>n. Inr (\<not> strict_eq v (JInt (int n))))"

definition native_evidence_step :: "bundle_env \<Rightarrow> string \<Rightarrow> js \<Rightarrow> js \<Rightarrow> string \<Rightarrow> unit res" where
  "native_evidence_step env releaseDir manifest sourceCommit targetId =
     (let se = be_script env in
      case find_target (JStr targetId) (elems (fld manifest ''native_artifacts'')) of
        None \<Rightarrow> Inl (op_fail ''release manifest native artifact is missing'')
      | Some artifact \<Rightarrow>
          if \<not> isPlainObject artifact then Inl (op_fail ''release manifest native artifact is missing'')
          else
          bindE (requiredFile se releaseDir (JStr (targetId @ ''.json'')) ''native evidence'') (\<lambda>evidencePath.
          bindE (op_json se evidencePath ''native evidence'') (\<lambda>evidence.
          bindE (requiredFile se releaseDir (fld artifact ''artifact_filename'') ''native artifact'') (\<lambda>artifactPath.
          guard_any (op_fail ''native release evidence identity mismatch'')
            [bindE (getp evidence ''target_id'') (\<lambda>v. Inr (\<not> strict_eq v (JStr targetId))),
             Inr (\<not> strict_eq (fld evidence ''source_commit'') sourceCommit),
             Inr (\<not> strict_eq (fld evidence ''package_version'') (fld manifest ''package_version'')),
             Inr (\<not> strict_eq (fld evidence ''artifact_filename'') (fld artifact ''artifact_filename'')),
             Inr (\<not> strict_eq (fld evidence ''artifact_sha256'') (fld artifact ''sha256'')),
             differs_from (fld evidence ''artifact_sha256'') (sha256File se artifactPath ''native artifact''),
             size_differs (fld evidence ''artifact_size'') (fileSize se artifactPath ''native artifact'')]))))"

definition validateNativeEvidence :: "bundle_env \<Rightarrow> string \<Rightarrow> js \<Rightarrow> js \<Rightarrow> unit res" where
  "validateNativeEvidence env releaseDir manifest sourceCommit =
     bindE (mapE (native_evidence_step env releaseDir manifest sourceCommit) REQUIRED_NATIVE_TARGETS) (\<lambda>_. Inr ())"

section \<open>React Native artifacts\<close>

definition rn_artifact_file :: "string \<times> rn_target \<Rightarrow> string" where
  "rn_artifact_file known = fst known @ (if rn_platform (snd known) = JStr ''android'' then ''.so'' else ''.a'')"

definition rn_controlled_guard :: "script_env \<Rightarrow> js \<Rightarrow> js \<Rightarrow> js \<Rightarrow> string \<Rightarrow> bool res list" where
  "rn_controlled_guard se evidence manifest sourceCommit targetId =
     (let build = fld evidence ''controlled_build''; tool = fld evidence ''toolchain_identifier'';
          differs = (\<lambda>key digest. bindE digest (\<lambda>d. Inr (\<not> strict_eq (fld build key) d))) in
      [Inr (\<not> isPlainObject build),
       Inr (\<not> strict_eq (fld build ''workflow'') (JStr ''react-native-controlled-build'')),
       Inr (\<not> nonEmptyString (fld build ''runner'')),
       Inr (\<not> strict_eq (fld build ''build_mode'') (JStr ''release'')),
       Inr (\<not> strict_eq (fld build ''source_commit'') sourceCommit),
       Inr (\<not> strict_eq (fld build ''package_version'') (fld manifest ''package_version'')),
       Inr (\<not> strict_eq (fld build ''target_id'') (JStr targetId)),
       Inr (\<not> strict_eq (fld build ''toolchain_identifier'') tool),
       Inr (\<not> strict_eq (fld build ''package_name'') (JStr OPERATION_PACKAGE)),
       not_re_test hash_pattern (fld build ''consumer_gemfile_sha256''),
       not_re_test hash_pattern (fld build ''consumer_gemfile_lock_sha256''),
       not_re_test hash_pattern (fld build ''consumer_podfile_sha256''),
       not_re_test hash_pattern (fld build ''consumer_podfile_lock_sha256''),
       differs ''consumer_gemfile_sha256'' (consumerGemfileSha256 se),
       differs ''consumer_gemfile_lock_sha256'' (consumerGemfileLockSha256 se),
       differs ''consumer_podfile_sha256'' (consumerPodfileSha256 se),
       differs ''consumer_podfile_lock_sha256'' (consumerPodfileLockSha256 se),
       differs ''consumer_manifest_sha256'' (consumerManifestSha256 se),
       differs ''build_input_sha256'' (reactNativeBuildInputSha256 se sourceCommit (fld manifest ''package_version'') (JStr targetId) tool)])"

definition rn_identity_guard :: "script_env \<Rightarrow> js \<Rightarrow> js \<Rightarrow> js \<Rightarrow> js \<Rightarrow> string \<times> rn_target \<Rightarrow> string \<Rightarrow> rn_inspection \<Rightarrow> bool res list" where
  "rn_identity_guard se evidence artifact manifest sourceCommit known artifactPath inspected =
     (let targetId = fst known; target = snd known;
          identity = identity_json (rn_architecture target) (ri_identity inspected);
          symbols = symbols_json (ri_requiredSymbols inspected);
          file = fld evidence ''artifact_input_filename'' in
      [bindE (getp evidence ''target_id'') (\<lambda>v. Inr (\<not> strict_eq v (JStr targetId))),
       Inr (\<not> strict_eq (fld evidence ''source_commit'') sourceCommit),
       Inr (\<not> strict_eq (fld evidence ''package_version'') (fld manifest ''package_version'')),
       Inr (\<not> strict_eq (fld evidence ''platform'') (rn_platform target)),
       Inr (\<not> strict_eq (fld evidence ''environment'') (rn_environment target)),
       Inr (\<not> strict_eq (fld evidence ''architecture'') (rn_architecture target)),
       Inr (\<not> strict_eq (fld evidence ''artifact_filename'') (rn_artifactFilename target)),
       Inr (\<not> nonEmptyString file),
       Inr (str_includes [CHR 0x5C] (str_of file)),
       Inr (list_ex (\<lambda>part. part = '''' \<or> part = ''.'' \<or> part = ''..'') (split_on CHR ''/'' (str_of file))),
       bindE (getp artifact ''sha256'') (\<lambda>h. Inr (\<not> strict_eq (fld evidence ''artifact_sha256'') h)),
       differs_from (fld evidence ''artifact_sha256'') (sha256File se artifactPath ''React Native artifact''),
       size_differs (fld evidence ''artifact_size'') (fileSize se artifactPath ''React Native artifact''),
       Inr (\<not> strict_eq (fld evidence ''binary_format'') (JStr (ri_format inspected))),
       Inr (\<not> json_same (fld evidence ''binary_identity'') identity),
       Inr (\<not> json_same (fld evidence ''required_symbols'') (symbols_json REQUIRED_RN_SYMBOLS)),
       Inr (\<not> json_same (fld evidence ''required_symbols'') symbols),
       Inr (\<not> strict_eq (fld artifact ''binary_format'') (JStr (ri_format inspected))),
       Inr (\<not> json_same (fld artifact ''binary_identity'') identity),
       Inr (\<not> json_same (fld artifact ''required_symbols'') symbols),
       Inr (\<not> json_same (fld artifact ''controlled_build'') (fld evidence ''controlled_build''))] @
      rn_controlled_guard se evidence manifest sourceCommit targetId @
      [Inr (\<not> strict_eq (fld evidence ''toolchain_identifier'') (fld artifact ''toolchain_identifier''))])"

definition rn_evidence_step :: "bundle_env \<Rightarrow> string \<Rightarrow> js \<Rightarrow> js \<Rightarrow> js \<times> string \<times> rn_target \<Rightarrow> unit res" where
  "rn_evidence_step env releaseDir manifest sourceCommit entry =
     (let se = be_script env; artifact = fst entry; known = snd entry in
      bindE (requiredFile se releaseDir (JStr (fst known @ ''.json'')) ''React Native evidence'') (\<lambda>evidencePath.
      bindE (op_json se evidencePath ''React Native evidence'') (\<lambda>evidence.
      bindE (requiredFile se releaseDir (JStr (rn_artifact_file known)) ''React Native artifact'') (\<lambda>artifactPath.
      (case inspectReactNativeArtifact (se_fs se) (se_sha256 se) (JStr artifactPath) (JStr (fst known)) of
         Inl _ \<Rightarrow> Inl (op_fail ''React Native artifact identity is invalid'')
       | Inr inspected \<Rightarrow>
           guard_any (op_fail ''React Native release evidence identity mismatch'')
             (rn_identity_guard se evidence artifact manifest sourceCommit known artifactPath inspected))))))"

definition validateReactNativeEvidence :: "bundle_env \<Rightarrow> string \<Rightarrow> js \<Rightarrow> js \<Rightarrow> unit res" where
  "validateReactNativeEvidence env releaseDir manifest sourceCommit =
     (let se = be_script env; reactNative = fld manifest ''react_native''; artifactManifest = fld reactNative ''artifact_manifest'';
          artifacts = fld reactNative ''artifacts'' in
      bindE (gate_checks op_fail
        [(isPlainObject reactNative \<and> isPlainObject artifactManifest \<and> is_arr artifacts \<and>
          length (elems artifacts) = length CANONICAL_REACT_NATIVE_TARGET_ORDER,
          ''release manifest React Native artifact evidence is incomplete'')]) (\<lambda>_.
      bindE (requiredFile se releaseDir (JStr ''react-native-artifact-manifest.json'') ''React Native artifact manifest evidence'') (\<lambda>path.
      bindE (guard_any (op_fail ''React Native artifact manifest evidence differs from the release manifest'')
        [differs_from (fld artifactManifest ''sha256'') (sha256File se path ''React Native artifact manifest evidence''),
         size_differs (fld artifactManifest ''size'') (fileSize se path ''React Native artifact manifest evidence'')]) (\<lambda>_.
      bindE (mapE (rn_evidence_step env releaseDir manifest sourceCommit) (zip (elems artifacts) REACT_NATIVE_TARGETS)) (\<lambda>_. Inr ())))))"

section \<open>WebAssembly\<close>

definition validateWasmEvidence :: "bundle_env \<Rightarrow> string \<Rightarrow> js \<Rightarrow> js \<Rightarrow> unit res" where
  "validateWasmEvidence env releaseDir manifest sourceCommit =
     (let se = be_script env; source = fld (fld manifest ''wasm'') ''source_artifact'' in
      bindE (requiredFile se releaseDir (JStr ''wasm-evidence.json'') ''WASM evidence'') (\<lambda>path.
      bindE (op_json se path ''WASM evidence'') (\<lambda>evidence.
      guard_any (op_fail ''WASM release evidence identity mismatch'')
        [Inr (\<not> isPlainObject source),
         bindE (getp evidence ''source_commit'') (\<lambda>v. Inr (\<not> strict_eq v sourceCommit)),
         Inr (\<not> strict_eq (fld evidence ''package_version'') (fld manifest ''package_version'')),
         Inr (\<not> strict_eq (fld evidence ''artifact_filename'') (fld source ''artifact_filename'')),
         Inr (\<not> strict_eq (fld evidence ''artifact_sha256'') (fld source ''sha256'')),
         Inr (\<not> strict_eq (fld evidence ''artifact_size'') (fld source ''size''))])))"

section \<open>The npm tarball\<close>

definition readTarEntry :: "bundle_env \<Rightarrow> string \<Rightarrow> string \<Rightarrow> byte list res" where
  "readTarEntry env tarballPath entryPath =
     (case be_tar env tarballPath entryPath of
        None \<Rightarrow> Inl (op_fail ''npm tarball entry is missing or unreadable'') | Some b \<Rightarrow> Inr b)"

text \<open>\<open>JSON.parse\<close> of an entry within \<open>try\<close>.\<close>

definition tarball_json :: "bundle_env \<Rightarrow> string \<Rightarrow> string \<Rightarrow> string \<Rightarrow> js res" where
  "tarball_json env tarballPath entryPath message =
     (case Option.bind (be_tar env tarballPath entryPath) (be_json_bytes env) of None \<Rightarrow> Inl (op_fail message) | Some v \<Rightarrow> Inr v)"

definition bytes_hash :: "bundle_env \<Rightarrow> byte list \<Rightarrow> js" where
  "bytes_hash env b = JStr (se_sha256 (be_script env) b)"

definition native_tarball_step :: "bundle_env \<Rightarrow> string \<Rightarrow> js list \<Rightarrow> js \<Rightarrow> bool \<Rightarrow> js \<Rightarrow> unit res" where
  "native_tarball_step env tarballPath artifacts manifest recovery artifact =
     (let targetId = fld artifact ''target_id'' in
      case find_target targetId artifacts of
        None \<Rightarrow> Inl (op_fail ''native artifact in npm tarball differs from its runtime manifest'')
      | Some runtime \<Rightarrow>
          bindE (gate_checks op_fail
            [(isPlainObject runtime \<and> strict_eq (fld runtime ''relative_path'') (fld artifact ''relative_path'') \<and>
              strict_eq (fld runtime ''sha256'') (fld artifact ''sha256''),
              ''native artifact in npm tarball differs from its runtime manifest'')]) (\<lambda>_.
          bindE (str_or_throw (fld runtime ''relative_path'')) (\<lambda>path.
          bindE (readTarEntry env tarballPath (''package/'' @ path)) (\<lambda>b.
          if \<not> strict_eq (bytes_hash env b) (fld runtime ''sha256'')
          then Inl (op_fail ''native artifact bytes in npm tarball differ from its runtime manifest'')
          else if recovery then Inr ()
          else (case find_target targetId (elems (fld manifest ''native_artifacts'')) of
              None \<Rightarrow> Inl (op_fail ''native artifact in npm tarball differs from the release manifest'')
            | Some expectedArtifact \<Rightarrow>
                gate_checks op_fail
                  [(isPlainObject expectedArtifact \<and>
                    strict_eq (fld runtime ''relative_path'') (fld expectedArtifact ''relative_path'') \<and>
                    strict_eq (fld runtime ''sha256'') (fld expectedArtifact ''sha256'') \<and>
                    strict_eq (js_length b) (fld expectedArtifact ''size''),
                    ''native artifact in npm tarball differs from the release manifest'')])))))"

definition validateNpmTarballReactNativeManifest :: "bundle_env \<Rightarrow> byte list \<Rightarrow> js \<Rightarrow> js res" where
  "validateNpmTarballReactNativeManifest env manifestBytes packageMetadata =
     (case be_json_bytes env manifestBytes of
        None \<Rightarrow> Inl (op_fail ''npm tarball React Native artifact manifest is invalid'')
      | Some reactNativeManifest \<Rightarrow>
          (case validateReactNativeManifest reactNativeManifest packageMetadata True of
             Inl _ \<Rightarrow> Inl (op_fail ''npm tarball React Native artifact manifest is invalid'') | Inr v \<Rightarrow> Inr v))"

definition rn_tarball_step :: "bundle_env \<Rightarrow> string \<Rightarrow> (js \<times> js) \<times> string \<Rightarrow> unit res" where
  "rn_tarball_step env tarballPath entry =
     (let artifact = fst (fst entry); expected = snd (fst entry); targetId = snd entry;
          differ = op_fail ''React Native artifact in npm tarball differs from the release manifest'' in
      bindE (guard_any differ
        [Inr (nullish artifact), Inr (\<not> strict_eq (fld artifact ''target_id'') (JStr targetId)),
         bindE (getp expected ''relative_path'') (\<lambda>p. Inr (\<not> strict_eq (fld artifact ''relative_path'') p)),
         Inr (\<not> strict_eq (fld artifact ''sha256'') (fld expected ''sha256''))]) (\<lambda>_.
      bindE (str_or_throw (fld artifact ''relative_path'')) (\<lambda>path.
      bindE (readTarEntry env tarballPath (''package/'' @ path)) (\<lambda>b.
      if \<not> strict_eq (bytes_hash env b) (fld artifact ''sha256'')
      then Inl (op_fail ''React Native artifact bytes in npm tarball differ from its runtime manifest'') else Inr ()))))"

definition wasm_tarball_check :: "bundle_env \<Rightarrow> string \<Rightarrow> js \<Rightarrow> bool \<Rightarrow> byte list res" where
  "wasm_tarball_check env tarballPath manifest recovery =
     (let canonical = fld (fld manifest ''wasm'') ''canonical_artifact'' in
      bindE (if recovery then Inr ''package/dist/wasm/symbol_nem_wallet_core_wasm_bg.wasm''
             else bindE (str_or_throw (fld canonical ''relative_path'')) (\<lambda>p. Inr (''package/'' @ p))) (\<lambda>wasmPath.
      bindE (readTarEntry env tarballPath wasmPath) (\<lambda>wasmBytes.
      if wasmBytes = [] then Inl (op_fail ''canonical WASM in npm tarball is empty'')
      else
      bindE (tarball_json env tarballPath ''package/dist/wasm/artifact-manifest.json'' ''runtime WASM artifact manifest in npm tarball is invalid'') (\<lambda>m.
      bindE (gate_checks op_fail
        [(isPlainObject m \<and> join '','' (sort (obj_keys m)) = ''artifact_filename,sha256'' \<and>
          strict_eq (fld m ''artifact_filename'') (JStr ''symbol_nem_wallet_core_wasm_bg.wasm'') \<and>
          strict_eq (bytes_hash env wasmBytes) (fld m ''sha256''),
          ''runtime WASM artifact manifest differs from the canonical package artifact'')]) (\<lambda>_.
      bindE (if recovery then Inr () else gate_checks op_fail
        [(\<not> unsafe_path (fld canonical ''relative_path''), ''canonical WASM path is not a safe relative path''),
         (strict_eq (bytes_hash env wasmBytes) (fld canonical ''sha256'') \<and> strict_eq (fld m ''sha256'') (fld canonical ''sha256'') \<and>
          strict_eq (js_length wasmBytes) (fld canonical ''size''),
          ''canonical WASM in npm tarball differs from the release manifest'')]) (\<lambda>_.
        Inr wasmBytes))))))"

record tarball_content =
  tc_path :: string
  tc_metadata :: js
  tc_wasm :: "byte list"

text \<open>The React Native artifacts of the release manifest were found to be as many as the targets before.\<close>

definition validateTarball :: "bundle_env \<Rightarrow> string \<Rightarrow> js \<Rightarrow> bool \<Rightarrow> tarball_content res" where
  "validateTarball env releaseDir manifest recovery =
     (let se = be_script env; npm = fld manifest ''npm_tarball''; version = fld manifest ''package_version'';
          reactNative = fld manifest ''react_native'' in
      bindE (requiredFile se releaseDir (fld npm ''filename'') ''npm tarball'') (\<lambda>tarballPath.
      if \<not> strict_eq (JStr (posix_basename tarballPath)) (fld npm ''filename'') then Inl (op_fail ''npm tarball filename is unsafe'')
      else
      bindE (guard_any (op_fail ''npm tarball digest or size differs from the release manifest'')
        [differs_from (fld npm ''sha256'') (sha256File se tarballPath ''npm tarball''),
         size_differs (fld npm ''size'') (fileSize se tarballPath ''npm tarball'')]) (\<lambda>_.
      bindE (tarball_json env tarballPath ''package/package.json'' ''npm tarball package metadata is unreadable'') (\<lambda>metadata.
      bindE (gate_checks op_fail
        [(isPlainObject metadata \<and> strict_eq (fld metadata ''name'') (JStr OPERATION_PACKAGE) \<and> strict_eq (fld metadata ''version'') version,
          ''npm tarball package identity differs from the release manifest''),
         (\<not> isl (validateNpmRepositoryMetadata metadata), ''npm tarball package metadata'')]) (\<lambda>_.
      bindE (tarball_json env tarballPath ''package/dist/native/artifact-manifest.json'' ''npm tarball native artifact manifest is invalid'') (\<lambda>runtimeManifest.
      let artifacts = elems (fld runtimeManifest ''artifacts''); natives = elems (fld manifest ''native_artifacts'') in
      bindE (gate_checks op_fail
        [(\<not> isl (validateNativeManifest runtimeManifest metadata), ''npm tarball native artifact manifest is invalid''),
         (strict_eq (fld runtimeManifest ''source_commit'') (fld manifest ''source_commit'') \<and>
          strict_eq (fld runtimeManifest ''package_version'') version,
          ''npm tarball native artifact manifest identity differs from the release''),
         (json_same (JArr (map (\<lambda>a. fld a ''target_id'') artifacts))
            (JArr (if recovery then map JStr REQUIRED_NATIVE_TARGETS else map (\<lambda>a. fld a ''target_id'') natives)),
          ''npm tarball native artifact set differs from the release manifest'')]) (\<lambda>_.
      bindE (mapE (native_tarball_step env tarballPath artifacts manifest recovery) artifacts) (\<lambda>_.
      bindE (readTarEntry env tarballPath ''package/dist/react-native/artifact-manifest.json'') (\<lambda>rnBytes.
      bindE (validateNpmTarballReactNativeManifest env rnBytes metadata) (\<lambda>rnManifest.
      if \<not> strict_eq (bytes_hash env rnBytes) (fld (fld reactNative ''artifact_manifest'') ''sha256'')
      then Inl (op_fail ''npm tarball React Native artifact manifest differs from the release manifest'')
      else
      bindE (mapE (rn_tarball_step env tarballPath)
        (zip (zip (elems (fld rnManifest ''artifacts'')) (elems (fld reactNative ''artifacts''))) CANONICAL_REACT_NATIVE_TARGET_ORDER)) (\<lambda>_.
      bindE (wasm_tarball_check env tarballPath manifest recovery) (\<lambda>wasmBytes.
        Inr \<lparr>tc_path = tarballPath, tc_metadata = metadata, tc_wasm = wasmBytes\<rparr>))))))))))))"

section \<open>All digests\<close>

definition native_digest :: "bundle_env \<Rightarrow> string \<Rightarrow> js \<Rightarrow> (js \<times> js) res" where
  "native_digest env releaseDir artifact =
     bindE (requiredFile (be_script env) releaseDir (fld artifact ''artifact_filename'') ''native artifact'') (\<lambda>path.
     bindE (sha256File (be_script env) path ''native artifact'') (\<lambda>h. Inr (JStr h, fld artifact ''relative_path'')))"

definition rn_digest :: "bundle_env \<Rightarrow> string \<Rightarrow> js \<Rightarrow> (js \<times> js) res" where
  "rn_digest env releaseDir artifact =
     bindE (getp artifact ''target_id'') (\<lambda>targetId.
     bindE (str_or_throw targetId) (\<lambda>t.
     (case rn_lookup t of
        None \<Rightarrow> Inl TypeErr
      | Some target \<Rightarrow>
          bindE (requiredFile (be_script env) releaseDir (JStr (rn_artifact_file (t, target))) ''React Native artifact'') (\<lambda>path.
          bindE (sha256File (be_script env) path ''React Native artifact'') (\<lambda>h. Inr (JStr h, fld artifact ''relative_path''))))))"

definition release_digests :: "bundle_env \<Rightarrow> string \<Rightarrow> js \<Rightarrow> tarball_content \<Rightarrow> bool \<Rightarrow> (js \<times> js) list res" where
  "release_digests env releaseDir manifest tarball recovery =
     (let se = be_script env; reactNative = fld manifest ''react_native''; artifactManifest = fld reactNative ''artifact_manifest'';
          canonical = fld (fld manifest ''wasm'') ''canonical_artifact'' in
      bindE (mapE (native_digest env releaseDir) (elems (fld manifest ''native_artifacts''))) (\<lambda>natives.
      bindE (mapE (rn_digest env releaseDir) (elems (fld reactNative ''artifacts''))) (\<lambda>rns.
      bindE (sha256File se (tc_path tarball) ''npm tarball'') (\<lambda>npm.
      bindE (requiredFile se releaseDir (JStr ''release-manifest.json'') ''release-manifest.json'') (\<lambda>path.
      bindE (sha256File se path ''release manifest'') (\<lambda>m.
        Inr (natives @ [(fld artifactManifest ''sha256'', fld artifactManifest ''relative_path'')] @ rns @
          [(if recovery then fld canonical ''sha256'' else bytes_hash env (tc_wasm tarball), fld canonical ''relative_path''),
           (JStr npm, fld (fld manifest ''npm_tarball'') ''filename''), (JStr m, JStr ''release-manifest.json'')])))))))"

definition validateReleaseDigests :: "bundle_env \<Rightarrow> string \<Rightarrow> js \<Rightarrow> tarball_content \<Rightarrow> bool \<Rightarrow> unit res" where
  "validateReleaseDigests env releaseDir manifest tarball recovery =
     bindE (release_digests env releaseDir manifest tarball recovery) (\<lambda>expected.
     bindE (requiredFile (be_script env) releaseDir (JStr ''SHA256SUMS'') ''SHA256SUMS'') (\<lambda>path.
       assertDigestEntries (be_script env) path ''SHA256SUMS'' expected))"

section \<open>SBOM and license evidence\<close>

definition phase_identity_check :: "js \<Rightarrow> js \<Rightarrow> bool \<times> string" where
  "phase_identity_check manifest v =
     (isPlainObject v \<and> strict_eq (fld v ''package_name'') (JStr OPERATION_PACKAGE) \<and>
      strict_eq (fld v ''package_version'') (fld manifest ''package_version'') \<and>
      strict_eq (fld v ''source_commit'') (fld manifest ''source_commit''), ''identity differs from the release manifest'')"

definition phase_paths :: "script_env \<Rightarrow> string \<Rightarrow> evidence_paths res" where
  "phase_paths se releaseDir =
     bindE (requiredFile se releaseDir (JStr ''sbom.spdx.json'') ''SPDX SBOM'') (\<lambda>sbom.
     bindE (requiredFile se releaseDir (JStr ''license-inventory.json'') ''license inventory'') (\<lambda>inventory.
     bindE (requiredFile se releaseDir (JStr ''license-policy.json'') ''license policy'') (\<lambda>policy.
     bindE (requiredFile se releaseDir (JStr ''THIRD_PARTY_LICENSES.json'') ''third-party license evidence'') (\<lambda>thirdParty.
       Inr \<lparr>ep_sbom = sbom, ep_inventory = inventory, ep_sbomSums = posix_resolve releaseDir [''SBOM-SHA256SUMS''],
         ep_policy = policy, ep_thirdParty = thirdParty, ep_policySums = posix_resolve releaseDir [''LICENSE-POLICY-SHA256SUMS'']\<rparr>))))"

definition validatePhaseEvidence :: "script_env \<Rightarrow> string \<Rightarrow> js \<Rightarrow> js res" where
  "validatePhaseEvidence se releaseDir manifest =
     bindE (phase_paths se releaseDir) (\<lambda>p.
     bindE (op_json se (ep_sbom p) ''SPDX SBOM'') (\<lambda>sbom.
     bindE (op_json se (ep_inventory p) ''license inventory'') (\<lambda>inventory.
     bindE (op_json se (ep_policy p) ''license policy'') (\<lambda>policy.
     bindE (op_json se (ep_thirdParty p) ''third-party license evidence'') (\<lambda>thirdParty.
     bindE (validateSpdxReleaseIdentity sbom manifest) (\<lambda>_.
     let gate = fld thirdParty ''final_release_text_gate'' in
     bindE (gate_checks op_fail
       [phase_identity_check manifest inventory, phase_identity_check manifest policy, phase_identity_check manifest thirdParty,
        (strict_eq (fld inventory ''sbom_file'') (JStr ''sbom.spdx.json''), ''Phase 4A evidence identity is invalid'')]) (\<lambda>_.
     bindE (guard_any (op_fail ''Phase 4B license policy evidence is not a passing identity-bound result'')
       [differs_from (fld policy ''inventory_sha256'') (sha256File se (ep_inventory p) ''license inventory''),
        differs_from (fld policy ''sbom_sha256'') (sha256File se (ep_sbom p) ''SPDX SBOM''),
        Inr (\<not> strict_eq (fld policy ''gate_status'') (JStr ''PASS''))]) (\<lambda>_.
     bindE (guard_any (op_fail ''final third-party license text gate is not ready'')
       [differs_from (fld thirdParty ''inventory_sha256'') (sha256File se (ep_inventory p) ''license inventory''),
        Inr (\<not> strict_eq (fld gate ''required'') (JBool True)),
        Inr (\<not> strict_eq (fld gate ''status'') (JStr ''ready''))]) (\<lambda>_.
     bindE (requiredFile se releaseDir (JStr ''SBOM-SHA256SUMS'') ''SBOM-SHA256SUMS'') (\<lambda>_.
     bindE (requiredFile se releaseDir (JStr ''LICENSE-POLICY-SHA256SUMS'') ''LICENSE-POLICY-SHA256SUMS'') (\<lambda>_.
     bindE (validateEvidenceDigests se p) (\<lambda>_.
     bindE (sha256File se (ep_sbom p) ''SPDX SBOM'') (\<lambda>sbomHash.
     bindE (sha256File se (ep_inventory p) ''license inventory'') (\<lambda>inventoryHash.
     bindE (sha256File se (ep_policy p) ''license policy'') (\<lambda>policyHash.
     bindE (sha256File se (ep_thirdParty p) ''third-party license evidence'') (\<lambda>thirdPartyHash.
       Inr (JObj [(''sbom_sha256'', JStr sbomHash), (''inventory_sha256'', JStr inventoryHash),
         (''license_policy_sha256'', JStr policyHash), (''third_party_sha256'', JStr thirdPartyHash)])))))))))))))))))"

section \<open>The verification of a fresh release\<close>

definition PROVENANCE_PUBLISH_COMMAND :: string where "PROVENANCE_PUBLISH_COMMAND = ''npm publish --provenance''"

definition operation_object :: "js \<Rightarrow> js \<Rightarrow> js \<Rightarrow> js \<Rightarrow> string \<Rightarrow> js \<Rightarrow> js" where
  "operation_object manifest tag sourceCommit environment manifestHash evidence = JObj
     [(''schema_version'', JInt 1), (''kind'', JStr ''npm-release-operation''), (''package_name'', JStr OPERATION_PACKAGE),
      (''package_version'', fld manifest ''package_version''), (''release_tag'', tag), (''source_commit'', sourceCommit),
      (''environment'', environment),
      (''release_manifest'', JObj [(''filename'', JStr ''release-manifest.json''), (''sha256'', JStr manifestHash)]),
      (''npm_tarball'', JObj [(''filename'', fld (fld manifest ''npm_tarball'') ''filename''),
         (''sha256'', fld (fld manifest ''npm_tarball'') ''sha256'')]),
      (''evidence'', evidence),
      (''provenance'', JObj [(''mechanism'', JStr ''npm-trusted-publishing-oidc''), (''command'', JStr PROVENANCE_PUBLISH_COMMAND),
         (''required'', JBool True), (''status'', JStr ''required-at-publish'')])]"

definition bundle_artifacts :: "bundle_env \<Rightarrow> string \<Rightarrow> js \<Rightarrow> js \<Rightarrow> js res" where
  "bundle_artifacts env releaseDir manifest sourceCommit =
     (let se = be_script env in
      bindE (requiredFile se releaseDir (JStr ''release-source.json'') ''source evidence'') (\<lambda>sourcePath.
      bindE (op_json se sourcePath ''source evidence'') (\<lambda>source.
      bindE (validateSourceEvidence source manifest) (\<lambda>_.
      bindE (validateNativeEvidence env releaseDir manifest sourceCommit) (\<lambda>_.
      bindE (validateReactNativeEvidence env releaseDir manifest sourceCommit) (\<lambda>_.
      bindE (validateWasmEvidence env releaseDir manifest sourceCommit) (\<lambda>_.
      bindE (validateTarball env releaseDir manifest False) (\<lambda>tarball.
      bindE (validateReleaseDigests env releaseDir manifest tarball False) (\<lambda>_.
        validatePhaseEvidence se releaseDir manifest)))))))))"

text \<open>The repository root is that of the script, the identity is the file of the identity job.\<close>

definition validateReleaseBundle :: "bundle_env \<Rightarrow> string \<Rightarrow> string \<Rightarrow> js \<Rightarrow> js \<Rightarrow> js \<Rightarrow> js res" where
  "validateReleaseBundle env releaseDir identityPath tag sourceCommit environment =
     (let se = be_script env in
      bindE (op_json se (posix_resolve (se_root se) [''packages/wallet-core/package.json'']) ''source npm package metadata'') (\<lambda>metadata.
      bindE (gate_checks op_fail [(\<not> isl (validateNpmRepositoryMetadata metadata), ''source npm package metadata'')]) (\<lambda>_.
      bindE (requiredFile se releaseDir (JStr ''release-manifest.json'') ''release manifest'') (\<lambda>manifestPath.
      bindE (op_json se manifestPath ''release manifest'') (\<lambda>manifest.
      bindE (validateReleaseManifestIdentity manifest tag sourceCommit) (\<lambda>_.
      bindE (op_json se identityPath ''release identity evidence'') (\<lambda>identity.
      bindE (validateIdentityArtifact identity tag sourceCommit (fld manifest ''package_version'') environment) (\<lambda>operationIdentity.
      bindE (bundle_artifacts env releaseDir manifest sourceCommit) (\<lambda>evidence.
      bindE (sha256File se manifestPath ''release manifest'') (\<lambda>manifestHash.
        Inr (operation_object manifest tag sourceCommit (fld operationIdentity ''environment'') manifestHash evidence)))))))))))"

section \<open>What an accepted release manifest identifies\<close>

lemma manifest_identity:
  assumes "validateReleaseManifestIdentity manifest tag sourceCommit = Inr u"
  obtains version commit where "fld manifest ''package_version'' = JStr version" "formal_version version" "tag = JStr (''v'' @ version)"
    "sourceCommit = JStr commit" "length commit = 40" "list_all is_hex commit"
    "map (\<lambda>a. fld a ''target_id'') (elems (fld manifest ''native_artifacts'')) = map JStr REQUIRED_NATIVE_TARGETS"
    "list_all (\<lambda>a. fld a ''artifact_filename'' = JStr (str_of (fld a ''target_id'') @ ''.node'')) (elems (fld manifest ''native_artifacts''))"
proof -
  let ?natives = "elems (fld manifest ''native_artifacts'')"
  have g: "is_formal (fld manifest ''package_version'')" "strict_eq (fld manifest ''release_tag'') (JStr (''v'' @ str_of (fld manifest ''package_version'')))"
      "strict_eq (fld manifest ''release_tag'') tag" "is_commit (fld manifest ''source_commit'')" "strict_eq (fld manifest ''source_commit'') sourceCommit"
      "length ?natives = length REQUIRED_NATIVE_TARGETS"
      "list_all fst (concat (map (native_identity_checks manifest sourceCommit) (zip REQUIRED_NATIVE_TARGETS ?natives)))"
    using assms unfolding validateReleaseManifestIdentity_def Let_def gate_checks_iff operation_tag_checks_def by (auto simp del: concat.simps)
  obtain version where v: "fld manifest ''package_version'' = JStr version" "formal_version version" using g(1) by (auto simp: is_formal_iff)
  have tag: "tag = JStr (''v'' @ version)" using g(2,3) v(1) by auto
  obtain commit where c: "fld manifest ''source_commit'' = JStr commit" "length commit = 40" "list_all is_hex commit"
    using g(4) by (auto simp: is_commit_def is_str_iff commit_pattern_iff)
  have commit: "sourceCommit = JStr commit" using g(5) c(1) by auto
  have each: "fld (?natives ! n) ''target_id'' = JStr (REQUIRED_NATIVE_TARGETS ! n) \<and>
      fld (?natives ! n) ''artifact_filename'' = JStr (REQUIRED_NATIVE_TARGETS ! n @ ''.node'')" if n: "n < length ?natives" for n
  proof -
    have "(REQUIRED_NATIVE_TARGETS ! n, ?natives ! n) \<in> set (zip REQUIRED_NATIVE_TARGETS ?natives)" using n g(6) by (auto simp: in_set_zip)
    then have "list_all fst (native_identity_checks manifest sourceCommit (REQUIRED_NATIVE_TARGETS ! n, ?natives ! n))"
      using g(7) by (simp add: list_all_iff)
    then show ?thesis by (simp add: native_identity_checks_def Let_def)
  qed
  have "map (\<lambda>a. fld a ''target_id'') ?natives = map JStr REQUIRED_NATIVE_TARGETS"
    using each g(6) by (intro nth_equalityI) simp_all
  moreover have "list_all (\<lambda>a. fld a ''artifact_filename'' = JStr (str_of (fld a ''target_id'') @ ''.node'')) ?natives"
    using each by (simp add: list_all_length)
  ultimately show ?thesis using that v tag commit c(2,3) by blast
qed

lemma find_target_Some: "find_target (JStr t) xs = Some a \<Longrightarrow> a \<in> set xs \<and> fld a ''target_id'' = JStr t"
  unfolding find_target_def by (auto dest: find_member)

lemma handled_Inr: "(case m of Inl _ \<Rightarrow> Inl e | Inr x \<Rightarrow> f x) = Inr z \<longleftrightarrow> (\<exists>x. m = Inr x \<and> f x = Inr z)"
  by (cases m) auto

lemma differs_from_False: "differs_from v m = Inr False \<longleftrightarrow> (\<exists>h. m = Inr h \<and> v = JStr h)"
  by (auto simp: differs_from_def bindE_Inr_iff)

section \<open>What reaches the users\<close>

text \<open>
  The artifact that was built and checked for a target is what the npm tarball carries for it, by
  digest: the manifest that the package ships names, for the target, a \<open>.node\<close> file in the
  directory of the target with that digest, and the entry at that path has it. The list of
  digests names the digest for that path.
\<close>

definition ships_manifest :: "bundle_env \<Rightarrow> string \<Rightarrow> string \<Rightarrow> js \<Rightarrow> bool" where
  "ships_manifest env tarballPath entry v \<longleftrightarrow>
     (\<exists>b. be_tar env tarballPath (''package/dist/'' @ entry @ ''/artifact-manifest.json'') = Some b \<and> be_json_bytes env b = Some v)"

definition native_shipped :: "bundle_env \<Rightarrow> string \<Rightarrow> string \<Rightarrow> js \<Rightarrow> (string \<times> string) list \<Rightarrow> string \<Rightarrow> bool" where
  "native_shipped env releaseDir tarballPath runtime es t \<longleftrightarrow> (\<exists>built shipped fn p a.
     a \<in> set (elems (fld runtime ''artifacts'')) \<and> fld a ''target_id'' = JStr t \<and> fld a ''relative_path'' = JStr p \<and>
     fld a ''sha256'' = JStr (se_sha256 (be_script env) built) \<and>
     p = ''dist/native/'' @ t @ ''/'' @ fn \<and> CHR ''/'' \<notin> set fn \<and> ends_with ''.node'' fn \<and>
     se_read (be_script env) (posix_resolve releaseDir [t @ ''.node'']) = Some built \<and>
     be_tar env tarballPath (''package/'' @ p) = Some shipped \<and>
     se_sha256 (be_script env) shipped = se_sha256 (be_script env) built \<and>
     (se_sha256 (be_script env) built, p) \<in> set es)"

text \<open>A React Native artifact carries the identity of its target besides.\<close>

definition rn_shipped :: "bundle_env \<Rightarrow> string \<Rightarrow> string \<Rightarrow> string \<times> rn_target \<Rightarrow> bool" where
  "rn_shipped env releaseDir tarballPath known \<longleftrightarrow> (\<exists>built shipped p.
     se_read (be_script env) (posix_resolve releaseDir [rn_artifact_file known]) = Some built \<and> embeds_target built (fst known) \<and>
     be_tar env tarballPath (''package/'' @ p) = Some shipped \<and> rn_relativePath (snd known) = JStr p \<and>
     se_sha256 (be_script env) shipped = se_sha256 (be_script env) built)"

lemma native_built:
  assumes "native_evidence_step env releaseDir manifest sourceCommit t = Inr u"
    and "list_all (\<lambda>a. fld a ''artifact_filename'' = JStr (str_of (fld a ''target_id'') @ ''.node'')) (elems (fld manifest ''native_artifacts''))"
  obtains artifact built where "find_target (JStr t) (elems (fld manifest ''native_artifacts'')) = Some artifact"
    "se_read (be_script env) (posix_resolve releaseDir [t @ ''.node'']) = Some built"
    "fld artifact ''sha256'' = JStr (se_sha256 (be_script env) built)"
    "fld artifact ''artifact_filename'' = JStr (t @ ''.node'')"
proof -
  obtain artifact where a: "find_target (JStr t) (elems (fld manifest ''native_artifacts'')) = Some artifact"
    using assms(1) by (auto simp: native_evidence_step_def Let_def split: option.splits)
  have name: "fld artifact ''artifact_filename'' = JStr (t @ ''.node'')"
    using find_target_Some [OF a] assms(2) by (auto simp: list_all_iff)
  have "\<exists>evidence path. requiredFile (be_script env) releaseDir (fld artifact ''artifact_filename'') ''native artifact'' = Inr path \<and>
      strict_eq (fld evidence ''artifact_sha256'') (fld artifact ''sha256'') \<and>
      differs_from (fld evidence ''artifact_sha256'') (sha256File (be_script env) path ''native artifact'') = Inr False"
    using assms(1) unfolding native_evidence_step_def Let_def a by (auto simp: bindE_Inr_iff guard_any_Inr_iff split: if_splits)
  then obtain evidence built where "strict_eq (fld evidence ''artifact_sha256'') (fld artifact ''sha256'')"
      "fld evidence ''artifact_sha256'' = JStr (se_sha256 (be_script env) built)"
      "se_read (be_script env) (posix_resolve releaseDir [t @ ''.node'']) = Some built"
    by (auto simp: differs_from_False sha256File_Inr requiredFile_Inr name)
  then show ?thesis using that a name by auto
qed

lemma native_packed:
  assumes "native_tarball_step env tarballPath artifacts manifest False a = Inr u" and "fld a ''target_id'' = JStr t"
    and "find_target (JStr t) (elems (fld manifest ''native_artifacts'')) = Some artifact" and "fld artifact ''relative_path'' = JStr p"
  obtains runtime shipped where "runtime \<in> set artifacts" "fld runtime ''target_id'' = JStr t" "fld runtime ''relative_path'' = JStr p"
    "fld runtime ''sha256'' = bytes_hash env shipped"
    "be_tar env tarballPath (''package/'' @ p) = Some shipped" "fld artifact ''sha256'' = bytes_hash env shipped"
proof -
  have "\<exists>runtime path b. find_target (JStr t) artifacts = Some runtime \<and> str_or_throw (fld runtime ''relative_path'') = Inr path \<and>
      be_tar env tarballPath (''package/'' @ path) = Some b \<and> strict_eq (bytes_hash env b) (fld runtime ''sha256'') \<and>
      strict_eq (fld runtime ''relative_path'') (fld artifact ''relative_path'') \<and>
      strict_eq (fld runtime ''sha256'') (fld artifact ''sha256'')"
    using assms(1) unfolding native_tarball_step_def Let_def assms(2)
    using assms(3) by (auto simp: bindE_Inr_iff gate_checks_iff readTarEntry_def split: option.splits if_splits)
  then obtain runtime path b where r: "find_target (JStr t) artifacts = Some runtime" "str_or_throw (fld runtime ''relative_path'') = Inr path"
      "be_tar env tarballPath (''package/'' @ path) = Some b" "fld runtime ''sha256'' = bytes_hash env b"
      "fld artifact ''sha256'' = bytes_hash env b" "fld runtime ''relative_path'' = JStr p"
    using assms(4) strict_eq_imp_eq by metis
  then show ?thesis using that [of runtime b] find_target_Some [OF r(1)] by (simp add: str_or_throw_def)
qed

lemma rn_built:
  assumes "rn_evidence_step env releaseDir manifest sourceCommit (artifact, known) = Inr u"
  obtains built where "se_read (be_script env) (posix_resolve releaseDir [rn_artifact_file known]) = Some built"
    "embeds_target built (fst known)" "fld artifact ''sha256'' = JStr (se_sha256 (be_script env) built)"
proof -
  obtain evidence path inspected where e: "requiredFile (be_script env) releaseDir (JStr (rn_artifact_file known)) ''React Native artifact'' = Inr path"
      "inspectReactNativeArtifact (se_fs (be_script env)) (se_sha256 (be_script env)) (JStr path) (JStr (fst known)) = Inr inspected"
      "guard_any (op_fail ''React Native release evidence identity mismatch'')
         (rn_identity_guard (be_script env) evidence artifact manifest sourceCommit known path inspected) = Inr ()"
    using assms unfolding rn_evidence_step_def Let_def by (auto simp: bindE_Inr_iff handled_Inr)
  have path: "path = posix_resolve releaseDir [rn_artifact_file known]" using e(1) by (auto simp: requiredFile_Inr)
  have "bindE (getp artifact ''sha256'') (\<lambda>h. Inr (\<not> strict_eq (fld evidence ''artifact_sha256'') h)) = Inr False"
      "differs_from (fld evidence ''artifact_sha256'') (sha256File (be_script env) path ''React Native artifact'') = Inr False"
    using e(3) unfolding guard_any_Inr_iff rn_identity_guard_def Let_def by simp_all
  then obtain b where b: "se_read (be_script env) path = Some b" "fld artifact ''sha256'' = JStr (se_sha256 (be_script env) b)"
    by (auto simp: bindE_Inr_iff getp_def differs_from_False sha256File_Inr split: if_splits)
  have "embeds_target b (fst known)"
    using e(2)
  proof (rule inspectReactNativeArtifact_Inr)
    fix p bytes t
    assume "JStr path = JStr p" "fs_read (se_fs (be_script env)) p = Some bytes" "to_str (JStr (fst known)) = Some t" "embeds_target bytes t"
    then show ?thesis using b(1) by (simp add: se_read_def)
  qed
  then show ?thesis using that b path by simp
qed

lemma rn_packed:
  assumes "rn_tarball_step env tarballPath ((a, artifact), t) = Inr u" and "fld a ''relative_path'' = JStr p"
  obtains shipped where "be_tar env tarballPath (''package/'' @ p) = Some shipped" "bytes_hash env shipped = fld artifact ''sha256''"
proof -
  have "strict_eq (fld a ''sha256'') (fld artifact ''sha256'')"
      "\<exists>b. be_tar env tarballPath (''package/'' @ p) = Some b \<and> strict_eq (bytes_hash env b) (fld a ''sha256'')"
    using assms unfolding rn_tarball_step_def Let_def
    by (auto simp: bindE_Inr_iff guard_any_Inr_iff readTarEntry_def str_or_throw_def split: option.splits if_splits)
  then show ?thesis using that strict_eq_imp_eq by metis
qed

lemma wasm_packed:
  assumes "wasm_tarball_check env tarballPath manifest False = Inr w"
    and "fld (fld (fld manifest ''wasm'') ''canonical_artifact'') ''relative_path'' = JStr p"
  shows "be_tar env tarballPath (''package/'' @ p) = Some w" and "w \<noteq> []"
    and "fld (fld (fld manifest ''wasm'') ''canonical_artifact'') ''sha256'' = bytes_hash env w"
    and "\<exists>m. ships_manifest env tarballPath ''wasm'' m \<and> fld m ''sha256'' = bytes_hash env w \<and>
      fld m ''artifact_filename'' = JStr ''symbol_nem_wallet_core_wasm_bg.wasm''"
proof -
  have "\<exists>m. be_tar env tarballPath (''package/'' @ p) = Some w \<and> w \<noteq> [] \<and>
      tarball_json env tarballPath ''package/dist/wasm/artifact-manifest.json'' ''runtime WASM artifact manifest in npm tarball is invalid'' = Inr m \<and>
      strict_eq (fld m ''artifact_filename'') (JStr ''symbol_nem_wallet_core_wasm_bg.wasm'') \<and>
      strict_eq (bytes_hash env w) (fld m ''sha256'') \<and>
      strict_eq (bytes_hash env w) (fld (fld (fld manifest ''wasm'') ''canonical_artifact'') ''sha256'')"
    using assms unfolding wasm_tarball_check_def Let_def
    by (auto simp: bindE_Inr_iff gate_checks_iff readTarEntry_def str_or_throw_def split: option.splits if_splits)
  then obtain m where m: "be_tar env tarballPath (''package/'' @ p) = Some w" "w \<noteq> []"
      "tarball_json env tarballPath ''package/dist/wasm/artifact-manifest.json'' ''runtime WASM artifact manifest in npm tarball is invalid'' = Inr m"
      "fld m ''artifact_filename'' = JStr ''symbol_nem_wallet_core_wasm_bg.wasm''" "fld m ''sha256'' = bytes_hash env w"
      "fld (fld (fld manifest ''wasm'') ''canonical_artifact'') ''sha256'' = bytes_hash env w"
    using strict_eq_imp_eq strict_eq_str by metis
  show "be_tar env tarballPath (''package/'' @ p) = Some w" and "w \<noteq> []"
    and "fld (fld (fld manifest ''wasm'') ''canonical_artifact'') ''sha256'' = bytes_hash env w" by (fact m)+
  have "ships_manifest env tarballPath ''wasm'' m"
    using m(3) by (auto simp: ships_manifest_def tarball_json_def bind_eq_Some_conv split: option.splits)
  then show "\<exists>m. ships_manifest env tarballPath ''wasm'' m \<and> fld m ''sha256'' = bytes_hash env w \<and>
      fld m ''artifact_filename'' = JStr ''symbol_nem_wallet_core_wasm_bg.wasm''" using m(4,5) by blast
qed

section \<open>The composition\<close>

text \<open>The steps of an accepted verification of the artifacts.\<close>

lemma bundle_artifacts_Inr:
  assumes "bundle_artifacts env releaseDir manifest sourceCommit = Inr evidence"
  obtains tarball where "validateNativeEvidence env releaseDir manifest sourceCommit = Inr ()"
    "validateReactNativeEvidence env releaseDir manifest sourceCommit = Inr ()"
    "validateTarball env releaseDir manifest False = Inr tarball"
    "validateReleaseDigests env releaseDir manifest tarball False = Inr ()"
    "validatePhaseEvidence (be_script env) releaseDir manifest = Inr evidence"
  using assms unfolding bundle_artifacts_def Let_def by (auto simp: bindE_Inr_iff)

lemma tarball_Inr:
  assumes "validateTarball env releaseDir manifest False = Inr tarball"
  obtains f tb metadata runtimeManifest rnBytes rnManifest where
    "fld (fld manifest ''npm_tarball'') ''filename'' = JStr f" "tc_path tarball = posix_resolve releaseDir [f]"
    "se_read (be_script env) (posix_resolve releaseDir [f]) = Some tb"
    "fld (fld manifest ''npm_tarball'') ''sha256'' = bytes_hash env tb"
    "ships_manifest env (posix_resolve releaseDir [f]) ''native'' runtimeManifest"
    "validateNativeManifest runtimeManifest metadata = Inr runtimeManifest"
    "json_same (JArr (map (\<lambda>a. fld a ''target_id'') (elems (fld runtimeManifest ''artifacts''))))
       (JArr (map (\<lambda>a. fld a ''target_id'') (elems (fld manifest ''native_artifacts''))))"
    "list_all (\<lambda>a. native_tarball_step env (posix_resolve releaseDir [f]) (elems (fld runtimeManifest ''artifacts'')) manifest False a = Inr ())
       (elems (fld runtimeManifest ''artifacts''))"
    "validateReactNativeManifest rnManifest metadata True = Inr rnManifest"
    "list_all (\<lambda>x. rn_tarball_step env (posix_resolve releaseDir [f]) x = Inr ())
       (zip (zip (elems (fld rnManifest ''artifacts'')) (elems (fld (fld manifest ''react_native'') ''artifacts'')))
         CANONICAL_REACT_NATIVE_TARGET_ORDER)"
    "wasm_tarball_check env (posix_resolve releaseDir [f]) manifest False = Inr (tc_wasm tarball)"
proof -
  obtain path metadata runtimeManifest rnBytes rnManifest vs ws wasm where
    t: "requiredFile (be_script env) releaseDir (fld (fld manifest ''npm_tarball'') ''filename'') ''npm tarball'' = Inr path"
      "differs_from (fld (fld manifest ''npm_tarball'') ''sha256'') (sha256File (be_script env) path ''npm tarball'') = Inr False"
      "\<not> isl (validateNativeManifest runtimeManifest metadata)"
      "tarball_json env path ''package/dist/native/artifact-manifest.json'' ''npm tarball native artifact manifest is invalid'' = Inr runtimeManifest"
      "json_same (JArr (map (\<lambda>a. fld a ''target_id'') (elems (fld runtimeManifest ''artifacts''))))
         (JArr (map (\<lambda>a. fld a ''target_id'') (elems (fld manifest ''native_artifacts''))))"
      "mapE (native_tarball_step env path (elems (fld runtimeManifest ''artifacts'')) manifest False) (elems (fld runtimeManifest ''artifacts'')) = Inr vs"
      "validateNpmTarballReactNativeManifest env rnBytes metadata = Inr rnManifest"
      "mapE (rn_tarball_step env path)
        (zip (zip (elems (fld rnManifest ''artifacts'')) (elems (fld (fld manifest ''react_native'') ''artifacts'')))
         CANONICAL_REACT_NATIVE_TARGET_ORDER) = Inr ws"
      "wasm_tarball_check env path manifest False = Inr wasm" "tarball = \<lparr>tc_path = path, tc_metadata = metadata, tc_wasm = wasm\<rparr>"
    using assms unfolding validateTarball_def Let_def
    by (clarsimp simp: bindE_Inr_iff gate_checks_iff guard_any_Inr_iff split: if_splits)
  obtain f where f: "fld (fld manifest ''npm_tarball'') ''filename'' = JStr f" "path = posix_resolve releaseDir [f]"
    using t(1) by (auto simp: requiredFile_Inr)
  obtain tb where tb: "se_read (be_script env) path = Some tb" "fld (fld manifest ''npm_tarball'') ''sha256'' = bytes_hash env tb"
    using t(2) by (auto simp: differs_from_False sha256File_Inr bytes_hash_def)
  have native: "validateNativeManifest runtimeManifest metadata = Inr runtimeManifest"
    using t(3) by (cases "validateNativeManifest runtimeManifest metadata")
      (auto simp: validateNativeManifest_def bindE_Inr_iff split: if_splits)
  have ships: "ships_manifest env (posix_resolve releaseDir [f]) ''native'' runtimeManifest"
    using t(4) by (auto simp: ships_manifest_def tarball_json_def f(2) bind_eq_Some_conv split: option.splits)
  obtain v where "validateReactNativeManifest v metadata True = Inr rnManifest"
    using t(7) by (auto simp: validateNpmTarballReactNativeManifest_def handled_Inr split: option.splits)
  then have rn: "validateReactNativeManifest rnManifest metadata True = Inr rnManifest" unfolding validateReactNativeManifest_spec by simp
  have unit: "mapE g xs = Inr us \<Longrightarrow> list_all (\<lambda>x. g x = Inr ()) xs" for g :: "'b \<Rightarrow> unit res" and xs us
    by (auto simp: mapE_Inr_iff list_all_iff dest: list_all2_left)
  show ?thesis
    by (rule that [OF f(1) _ _ tb(2) ships native t(5) _ rn]) (use t f tb unit in auto)
qed

text \<open>An expected entry is a line of the list of digests.\<close>

lemma expected_member:
  "expected = map (\<lambda>(h, p). (JStr h, JStr p)) es \<Longrightarrow> (JStr h, v) \<in> set expected \<Longrightarrow> \<exists>p. v = JStr p \<and> (h, p) \<in> set es"
  by auto

lemma digests_Inr:
  assumes "validateReleaseDigests env releaseDir manifest tarball False = Inr u"
  obtains es b mb where "se_read (be_script env) (posix_resolve releaseDir [''SHA256SUMS'']) = Some b"
    "se_text (be_script env) b = render_sums es" "digest_list es"
    "\<forall>a name. a \<in> set (elems (fld manifest ''native_artifacts'')) \<longrightarrow> fld a ''artifact_filename'' = JStr name \<longrightarrow>
       (\<exists>built p. se_read (be_script env) (posix_resolve releaseDir [name]) = Some built \<and> fld a ''relative_path'' = JStr p \<and>
         (se_sha256 (be_script env) built, p) \<in> set es)"
    "\<forall>tb f. se_read (be_script env) (tc_path tarball) = Some tb \<longrightarrow> fld (fld manifest ''npm_tarball'') ''filename'' = JStr f \<longrightarrow>
       (se_sha256 (be_script env) tb, f) \<in> set es"
    "\<exists>p. fld (fld (fld manifest ''wasm'') ''canonical_artifact'') ''relative_path'' = JStr p \<and>
       (se_sha256 (be_script env) (tc_wasm tarball), p) \<in> set es"
    "se_read (be_script env) (posix_resolve releaseDir [''release-manifest.json'']) = Some mb"
    "(se_sha256 (be_script env) mb, ''release-manifest.json'') \<in> set es"
proof -
  obtain expected path where e: "release_digests env releaseDir manifest tarball False = Inr expected"
      "requiredFile (be_script env) releaseDir (JStr ''SHA256SUMS'') ''SHA256SUMS'' = Inr path"
      "assertDigestEntries (be_script env) path ''SHA256SUMS'' expected = Inr u"
    using assms unfolding validateReleaseDigests_def bindE_Inr_iff by blast
  obtain es b where es: "expected = map (\<lambda>(h, p). (JStr h, JStr p)) es" "digest_list es"
      "se_read (be_script env) (posix_resolve releaseDir [''SHA256SUMS'']) = Some b" "se_text (be_script env) b = render_sums es"
    using e(2,3) unfolding assertDigestEntries_Inr by (auto simp: requiredFile_Inr)
  obtain natives rns npm mb where d: "mapE (native_digest env releaseDir) (elems (fld manifest ''native_artifacts'')) = Inr natives"
      "sha256File (be_script env) (tc_path tarball) ''npm tarball'' = Inr npm"
      "se_read (be_script env) (posix_resolve releaseDir [''release-manifest.json'']) = Some mb"
      "expected = natives @ [(fld (fld (fld manifest ''react_native'') ''artifact_manifest'') ''sha256'',
          fld (fld (fld manifest ''react_native'') ''artifact_manifest'') ''relative_path'')] @ rns @
        [(bytes_hash env (tc_wasm tarball), fld (fld (fld manifest ''wasm'') ''canonical_artifact'') ''relative_path''),
         (JStr npm, fld (fld manifest ''npm_tarball'') ''filename''),
         (JStr (se_sha256 (be_script env) mb), JStr ''release-manifest.json'')]"
    using e(1) unfolding release_digests_def Let_def by (auto simp: bindE_Inr_iff requiredFile_Inr sha256File_Inr)
  note member = expected_member [OF es(1)]
  have "\<exists>built p. se_read (be_script env) (posix_resolve releaseDir [name]) = Some built \<and> fld a ''relative_path'' = JStr p \<and>
      (se_sha256 (be_script env) built, p) \<in> set es"
    if a: "a \<in> set (elems (fld manifest ''native_artifacts''))" "fld a ''artifact_filename'' = JStr name" for a name
  proof -
    obtain x where x: "x \<in> set natives" "native_digest env releaseDir a = Inr x"
      using d(1) a(1) unfolding mapE_Inr_iff by (auto dest: list_all2_left)
    then obtain built where built: "se_read (be_script env) (posix_resolve releaseDir [name]) = Some built"
        "x = (JStr (se_sha256 (be_script env) built), fld a ''relative_path'')"
      using a(2) by (auto simp: native_digest_def bindE_Inr_iff requiredFile_Inr sha256File_Inr)
    then show ?thesis using member [of "se_sha256 (be_script env) built" "fld a ''relative_path''"] x(1) d(4) by auto
  qed
  moreover have "(se_sha256 (be_script env) tb, f) \<in> set es"
    if "se_read (be_script env) (tc_path tarball) = Some tb" "fld (fld manifest ''npm_tarball'') ''filename'' = JStr f" for tb f
    using that member [of "se_sha256 (be_script env) tb" "JStr f"] d(2,4) by (auto simp: sha256File_Inr)
  moreover have "\<exists>p. fld (fld (fld manifest ''wasm'') ''canonical_artifact'') ''relative_path'' = JStr p \<and>
      (se_sha256 (be_script env) (tc_wasm tarball), p) \<in> set es"
    using member d(4) by (auto simp: bytes_hash_def)
  moreover have "(se_sha256 (be_script env) mb, ''release-manifest.json'') \<in> set es"
    using member [of "se_sha256 (be_script env) mb" "JStr ''release-manifest.json''"] d(4) by auto
  ultimately show ?thesis using that [OF es(3,4,2) _ _ _ d(3)] by blast
qed

section \<open>An accepted release\<close>

text \<open>
  One version, tag and commit; a list of digests that is canonical and names the npm tarball, the
  release manifest and every native artifact; and artifacts that are the ones built and checked.
\<close>

definition release_spec :: "bundle_env \<Rightarrow> string \<Rightarrow> js \<Rightarrow> js \<Rightarrow> js \<Rightarrow> bool" where
  "release_spec env releaseDir tag sourceCommit operation \<longleftrightarrow>
     (\<exists>version commit listing es f tb mb manifest wasm wasmPath wasmManifest runtime.
     (let sha256 = se_sha256 (be_script env); read = (\<lambda>name. se_read (be_script env) (posix_resolve releaseDir [name]));
          tarballPath = posix_resolve releaseDir [f] in
     formal_version version \<and> tag = JStr (''v'' @ version) \<and>
     sourceCommit = JStr commit \<and> length commit = 40 \<and> list_all is_hex commit \<and>
     fld operation ''package_version'' = JStr version \<and> fld operation ''release_tag'' = tag \<and>
     fld operation ''source_commit'' = sourceCommit \<and> fld operation ''environment'' = JStr RELEASE_ENVIRONMENT \<and>
     read ''SHA256SUMS'' = Some listing \<and> se_text (be_script env) listing = render_sums es \<and> digest_list es \<and>
     read f = Some tb \<and> (sha256 tb, f) \<in> set es \<and> fld (fld operation ''npm_tarball'') ''sha256'' = JStr (sha256 tb) \<and>
     read ''release-manifest.json'' = Some mb \<and> (sha256 mb, ''release-manifest.json'') \<in> set es \<and>
     fld (fld operation ''release_manifest'') ''sha256'' = JStr (sha256 mb) \<and> se_parse (be_script env) mb = Some manifest \<and>
     fld (fld (fld manifest ''wasm'') ''canonical_artifact'') ''relative_path'' = JStr wasmPath \<and>
     fld (fld (fld manifest ''wasm'') ''canonical_artifact'') ''sha256'' = JStr (sha256 wasm) \<and>
     ships_manifest env tarballPath ''wasm'' wasmManifest \<and> fld wasmManifest ''sha256'' = JStr (sha256 wasm) \<and>
     fld wasmManifest ''artifact_filename'' = JStr ''symbol_nem_wallet_core_wasm_bg.wasm'' \<and>
     be_tar env tarballPath (''package/'' @ wasmPath) = Some wasm \<and> wasm \<noteq> [] \<and> (sha256 wasm, wasmPath) \<in> set es \<and>
     ships_manifest env tarballPath ''native'' runtime \<and>
     list_all (native_shipped env releaseDir tarballPath runtime es) REQUIRED_NATIVE_TARGETS \<and>
     list_all (rn_shipped env releaseDir tarballPath) REACT_NATIVE_TARGETS))"

lemma identity_environment:
  "validateIdentityArtifact identity tag sourceCommit manifestVersion environment = Inr r \<Longrightarrow> fld r ''environment'' = JStr RELEASE_ENVIRONMENT"
  unfolding validateIdentityArtifact_def validateReleaseOperationIdentity_def bindE_Inr_iff by auto

lemma native_target_shipped:
  assumes evidence: "validateNativeEvidence env releaseDir manifest sourceCommit = Inr ()"
    and ids: "map (\<lambda>a. fld a ''target_id'') (elems (fld manifest ''native_artifacts'')) = map JStr REQUIRED_NATIVE_TARGETS"
    and names: "list_all (\<lambda>a. fld a ''artifact_filename'' = JStr (str_of (fld a ''target_id'') @ ''.node'')) (elems (fld manifest ''native_artifacts''))"
    and runtime: "validateNativeManifest runtimeManifest metadata = Inr runtimeManifest"
    and same: "json_same (JArr (map (\<lambda>a. fld a ''target_id'') (elems (fld runtimeManifest ''artifacts''))))
       (JArr (map (\<lambda>a. fld a ''target_id'') (elems (fld manifest ''native_artifacts''))))"
    and packed: "list_all (\<lambda>a. native_tarball_step env tarballPath (elems (fld runtimeManifest ''artifacts'')) manifest False a = Inr ())
       (elems (fld runtimeManifest ''artifacts''))"
    and listed: "\<And>a name. a \<in> set (elems (fld manifest ''native_artifacts'')) \<Longrightarrow> fld a ''artifact_filename'' = JStr name \<Longrightarrow>
       \<exists>built p. se_read (be_script env) (posix_resolve releaseDir [name]) = Some built \<and> fld a ''relative_path'' = JStr p \<and>
         (se_sha256 (be_script env) built, p) \<in> set es"
    and t: "t \<in> set REQUIRED_NATIVE_TARGETS"
  shows "native_shipped env releaseDir tarballPath runtimeManifest es t"
proof -
  let ?artifacts = "elems (fld runtimeManifest ''artifacts'')"
  have step: "native_evidence_step env releaseDir manifest sourceCommit t = Inr ()"
    using evidence t unfolding validateNativeEvidence_def by (auto simp: bindE_Inr_iff mapE_Inr_iff dest: list_all2_left)
  obtain artifact built where b: "find_target (JStr t) (elems (fld manifest ''native_artifacts'')) = Some artifact"
      "se_read (be_script env) (posix_resolve releaseDir [t @ ''.node'']) = Some built"
      "fld artifact ''sha256'' = JStr (se_sha256 (be_script env) built)" "fld artifact ''artifact_filename'' = JStr (t @ ''.node'')"
    by (rule native_built [OF step names])
  obtain p where p: "fld artifact ''relative_path'' = JStr p" "(se_sha256 (be_script env) built, p) \<in> set es"
    using listed [of artifact "t @ ''.node''"] find_target_Some [OF b(1)] b(2,4) by auto
  have entries: "list_all native_entry_spec ?artifacts"
    using runtime unfolding validateNativeManifest_spec native_manifest_spec_def by auto
  then have strs: "map (\<lambda>a. fld a ''target_id'') ?artifacts = map JStr (map (\<lambda>a. str_of (fld a ''target_id'')) ?artifacts)"
    by (induction ?artifacts rule: list.induct) (auto simp: native_entry_spec_def list_all_iff)
  have "map (\<lambda>a. str_of (fld a ''target_id'')) ?artifacts = REQUIRED_NATIVE_TARGETS"
    using same unfolding ids strs json_same_strings .
  then have "t \<in> set (map (\<lambda>a. str_of (fld a ''target_id'')) ?artifacts)" using t by (simp only:)
  then obtain a where a: "a \<in> set ?artifacts" "str_of (fld a ''target_id'') = t" unfolding set_map by blast
  have id: "fld a ''target_id'' = JStr t" using entries a by (auto simp: list_all_iff native_entry_spec_def)
  have step: "native_tarball_step env tarballPath ?artifacts manifest False a = Inr ()" using packed a(1) unfolding list_all_iff by blast
  obtain r shipped where r: "r \<in> set ?artifacts" "fld r ''target_id'' = JStr t" "fld r ''relative_path'' = JStr p"
      "fld r ''sha256'' = bytes_hash env shipped"
      "be_tar env tarballPath (''package/'' @ p) = Some shipped" "fld artifact ''sha256'' = bytes_hash env shipped"
    by (rule native_packed [OF step id b(1) p(1)])
  have "native_entry_spec r" using entries r(1) by (simp add: list_all_iff)
  then obtain fn where fn: "p = ''dist/native/'' @ t @ ''/'' @ fn" "CHR ''/'' \<notin> set fn" "ends_with ''.node'' fn"
    using r(2,3) by (auto simp: native_entry_spec_def)
  have "se_sha256 (be_script env) shipped = se_sha256 (be_script env) built" using b(3) r(6) by (simp add: bytes_hash_def)
  then show ?thesis unfolding native_shipped_def
    using r(1-5) fn b(2) p(2) by - (rule exI [of _ built], rule exI [of _ shipped], rule exI [of _ fn], rule exI [of _ p], rule exI [of _ r],
      simp add: bytes_hash_def)
qed

text \<open>The React Native artifacts of both manifests stand in the order of the targets.\<close>

lemma rn_known: "n < length REACT_NATIVE_TARGETS \<Longrightarrow>
    fst (REACT_NATIVE_TARGETS ! n) = CANONICAL_REACT_NATIVE_TARGET_ORDER ! n \<and>
    map_of REACT_NATIVE_TARGETS (CANONICAL_REACT_NATIVE_TARGET_ORDER ! n) = Some (snd (REACT_NATIVE_TARGETS ! n))"
  unfolding rn_targets_order [symmetric] using rn_order_distinct unfolding rn_targets_order [symmetric] by (simp add: map_of_eq_Some_iff)

lemma rn_target_shipped:
  assumes evidence: "validateReactNativeEvidence env releaseDir manifest sourceCommit = Inr u"
    and runtime: "validateReactNativeManifest rnManifest metadata True = Inr rnManifest"
    and packed: "list_all (\<lambda>x. rn_tarball_step env tarballPath x = Inr ())
       (zip (zip (elems (fld rnManifest ''artifacts'')) (elems (fld (fld manifest ''react_native'') ''artifacts'')))
         CANONICAL_REACT_NATIVE_TARGET_ORDER)"
    and n: "n < length REACT_NATIVE_TARGETS"
  shows "rn_shipped env releaseDir tarballPath (REACT_NATIVE_TARGETS ! n)"
proof -
  let ?known = "REACT_NATIVE_TARGETS ! n" and ?t = "CANONICAL_REACT_NATIVE_TARGET_ORDER ! n"
  let ?as = "elems (fld rnManifest ''artifacts'')" and ?es = "elems (fld (fld manifest ''react_native'') ''artifacts'')"
  have order: "length CANONICAL_REACT_NATIVE_TARGET_ORDER = length REACT_NATIVE_TARGETS" using rn_targets_order by (metis length_map)
  obtain us where steps: "length ?es = length REACT_NATIVE_TARGETS"
      "mapE (rn_evidence_step env releaseDir manifest sourceCommit) (zip ?es REACT_NATIVE_TARGETS) = Inr us"
    using evidence order unfolding validateReactNativeEvidence_def Let_def by (auto simp: bindE_Inr_iff gate_checks_iff)
  have "(?es ! n, ?known) \<in> set (zip ?es REACT_NATIVE_TARGETS)" using n steps(1) by (auto simp: in_set_zip)
  then have step: "rn_evidence_step env releaseDir manifest sourceCommit (?es ! n, ?known) = Inr ()"
    using steps(2) unfolding mapE_Inr_iff by (auto dest: list_all2_left)
  obtain built where built: "se_read (be_script env) (posix_resolve releaseDir [rn_artifact_file ?known]) = Some built"
      "embeds_target built (fst ?known)" "fld (?es ! n) ''sha256'' = JStr (se_sha256 (be_script env) built)"
    by (rule rn_built [OF step])
  have as: "list_all rn_entry_spec ?as" "map (\<lambda>a. str_of (fld a ''target_id'')) ?as = CANONICAL_REACT_NATIVE_TARGET_ORDER"
    using runtime unfolding validateReactNativeManifest_spec rn_manifest_spec_def by (auto simp: Let_def)
  have len: "length ?as = length REACT_NATIVE_TARGETS" using as(2) order by (metis length_map)
  have "str_of (fld (?as ! n) ''target_id'') = ?t" using arg_cong [OF as(2), of "\<lambda>xs. xs ! n"] n len by simp
  moreover have "rn_entry_spec (?as ! n)" using as(1) n len by (simp add: list_all_length)
  ultimately have path: "fld (?as ! n) ''relative_path'' = rn_relativePath (snd ?known)"
    using rn_known [OF n] by (auto simp: rn_entry_spec_def)
  obtain p where p: "rn_relativePath (snd ?known) = JStr p" using rn_target_fields rn_known [OF n] by metis
  have "((?as ! n, ?es ! n), ?t) \<in> set (zip (zip ?as ?es) CANONICAL_REACT_NATIVE_TARGET_ORDER)"
    unfolding in_set_zip using n len steps(1) order by (auto intro: exI [of _ n])
  then have tar: "rn_tarball_step env tarballPath ((?as ! n, ?es ! n), ?t) = Inr ()" using packed unfolding list_all_iff by blast
  obtain shipped where "be_tar env tarballPath (''package/'' @ p) = Some shipped" "bytes_hash env shipped = fld (?es ! n) ''sha256''"
    by (rule rn_packed [OF tar]) (use path p in simp)
  then show ?thesis unfolding rn_shipped_def using built p by (auto simp: bytes_hash_def)
qed

text \<open>What the accepted operation record states.\<close>

lemma validateReleaseBundle_Inr:
  assumes "validateReleaseBundle env releaseDir identityPath tag sourceCommit environment = Inr operation"
  obtains manifest mb identity evidence where
    "se_parse (be_script env) mb = Some manifest"
    "validateReleaseManifestIdentity manifest tag sourceCommit = Inr ()"
    "bundle_artifacts env releaseDir manifest sourceCommit = Inr evidence"
    "se_read (be_script env) (posix_resolve releaseDir [''release-manifest.json'']) = Some mb"
    "operation = operation_object manifest tag sourceCommit (JStr RELEASE_ENVIRONMENT) (se_sha256 (be_script env) mb) evidence"
proof -
  obtain path manifest identity operationIdentity evidence h where
      "requiredFile (be_script env) releaseDir (JStr ''release-manifest.json'') ''release manifest'' = Inr path"
      "op_json (be_script env) path ''release manifest'' = Inr manifest"
      "validateReleaseManifestIdentity manifest tag sourceCommit = Inr ()"
      "validateIdentityArtifact identity tag sourceCommit (fld manifest ''package_version'') environment = Inr operationIdentity"
      "bundle_artifacts env releaseDir manifest sourceCommit = Inr evidence"
      "sha256File (be_script env) path ''release manifest'' = Inr h"
      "operation = operation_object manifest tag sourceCommit (fld operationIdentity ''environment'') h evidence"
    using assms unfolding validateReleaseBundle_def Let_def bindE_Inr_iff by auto
  then show ?thesis using that identity_environment
    by (auto simp: requiredFile_Inr sha256File_Inr op_json_Inr se_json_def bind_eq_Some_conv)
qed

lemma released_artifacts:
  assumes "validateReleaseBundle env releaseDir identityPath tag sourceCommit environment = Inr operation"
  shows "release_spec env releaseDir tag sourceCommit operation"
proof -
  let ?path = "\<lambda>name. posix_resolve releaseDir [name]"
  obtain manifest evidence mb' where parsed: "se_parse (be_script env) mb' = Some manifest" and o: "validateReleaseManifestIdentity manifest tag sourceCommit = Inr ()"
      "bundle_artifacts env releaseDir manifest sourceCommit = Inr evidence" "se_read (be_script env) (?path ''release-manifest.json'') = Some mb'"
      "operation = operation_object manifest tag sourceCommit (JStr RELEASE_ENVIRONMENT) (se_sha256 (be_script env) mb') evidence"
    by (rule validateReleaseBundle_Inr [OF assms])
  obtain version commit where m: "fld manifest ''package_version'' = JStr version" "formal_version version" "tag = JStr (''v'' @ version)"
      "sourceCommit = JStr commit" "length commit = 40" "list_all is_hex commit"
      "map (\<lambda>a. fld a ''target_id'') (elems (fld manifest ''native_artifacts'')) = map JStr REQUIRED_NATIVE_TARGETS"
      "list_all (\<lambda>a. fld a ''artifact_filename'' = JStr (str_of (fld a ''target_id'') @ ''.node'')) (elems (fld manifest ''native_artifacts''))"
    by (rule manifest_identity [OF o(1)])
  obtain tarball where s: "validateNativeEvidence env releaseDir manifest sourceCommit = Inr ()"
      "validateReactNativeEvidence env releaseDir manifest sourceCommit = Inr ()" "validateTarball env releaseDir manifest False = Inr tarball"
      "validateReleaseDigests env releaseDir manifest tarball False = Inr ()"
    by (rule bundle_artifacts_Inr [OF o(2)])
  obtain f tb metadata runtimeManifest rnManifest where ships: "ships_manifest env (?path f) ''native'' runtimeManifest" and t:
      "fld (fld manifest ''npm_tarball'') ''filename'' = JStr f" "tc_path tarball = ?path f" "se_read (be_script env) (?path f) = Some tb"
      "fld (fld manifest ''npm_tarball'') ''sha256'' = bytes_hash env tb"
      "validateNativeManifest runtimeManifest metadata = Inr runtimeManifest"
      "json_same (JArr (map (\<lambda>a. fld a ''target_id'') (elems (fld runtimeManifest ''artifacts''))))
         (JArr (map (\<lambda>a. fld a ''target_id'') (elems (fld manifest ''native_artifacts''))))"
      "list_all (\<lambda>a. native_tarball_step env (?path f) (elems (fld runtimeManifest ''artifacts'')) manifest False a = Inr ())
         (elems (fld runtimeManifest ''artifacts''))"
      "validateReactNativeManifest rnManifest metadata True = Inr rnManifest"
      "list_all (\<lambda>x. rn_tarball_step env (?path f) x = Inr ())
         (zip (zip (elems (fld rnManifest ''artifacts'')) (elems (fld (fld manifest ''react_native'') ''artifacts'')))
           CANONICAL_REACT_NATIVE_TARGET_ORDER)"
      "wasm_tarball_check env (?path f) manifest False = Inr (tc_wasm tarball)"
    by (rule tarball_Inr [OF s(3)])
  obtain es b mb where d: "se_read (be_script env) (?path ''SHA256SUMS'') = Some b" "se_text (be_script env) b = render_sums es" "digest_list es"
      "\<forall>a name. a \<in> set (elems (fld manifest ''native_artifacts'')) \<longrightarrow> fld a ''artifact_filename'' = JStr name \<longrightarrow>
       (\<exists>built p. se_read (be_script env) (?path name) = Some built \<and> fld a ''relative_path'' = JStr p \<and>
         (se_sha256 (be_script env) built, p) \<in> set es)"
      "\<forall>tb f. se_read (be_script env) (tc_path tarball) = Some tb \<longrightarrow> fld (fld manifest ''npm_tarball'') ''filename'' = JStr f \<longrightarrow>
       (se_sha256 (be_script env) tb, f) \<in> set es"
      "\<exists>p. fld (fld (fld manifest ''wasm'') ''canonical_artifact'') ''relative_path'' = JStr p \<and>
         (se_sha256 (be_script env) (tc_wasm tarball), p) \<in> set es"
      "se_read (be_script env) (?path ''release-manifest.json'') = Some mb" "(se_sha256 (be_script env) mb, ''release-manifest.json'') \<in> set es"
    by (rule digests_Inr [OF s(4)])
  obtain p where p: "fld (fld (fld manifest ''wasm'') ''canonical_artifact'') ''relative_path'' = JStr p"
      "(se_sha256 (be_script env) (tc_wasm tarball), p) \<in> set es"
    using d(6) by blast
  have fields: "fld operation ''package_version'' = JStr version" "fld operation ''release_tag'' = tag" "fld operation ''source_commit'' = sourceCommit"
      "fld operation ''environment'' = JStr RELEASE_ENVIRONMENT" "fld (fld operation ''npm_tarball'') ''sha256'' = JStr (se_sha256 (be_script env) tb)"
      "fld (fld operation ''release_manifest'') ''sha256'' = JStr (se_sha256 (be_script env) mb)"
    using o(3,4) d(7) m(1) t(4) by (simp_all add: operation_object_def bytes_hash_def)
  have natives: "list_all (native_shipped env releaseDir (?path f) runtimeManifest es) REQUIRED_NATIVE_TARGETS"
    unfolding list_all_iff using native_target_shipped [OF s(1) m(7,8) t(5,6,7) d(4) [rule_format]] by blast
  have rns: "list_all (rn_shipped env releaseDir (?path f)) REACT_NATIVE_TARGETS"
    unfolding list_all_length using rn_target_shipped [OF s(2) t(8,9)] by blast
  note wasm = wasm_packed [OF t(10) p(1), unfolded bytes_hash_def]
  obtain wm where wm: "ships_manifest env (?path f) ''wasm'' wm" "fld wm ''sha256'' = JStr (se_sha256 (be_script env) (tc_wasm tarball))"
      "fld wm ''artifact_filename'' = JStr ''symbol_nem_wallet_core_wasm_bg.wasm''"
    using wasm(4) by blast
  have manifest: "se_parse (be_script env) mb = Some manifest" using parsed o(3) d(7) by simp
  show ?thesis unfolding release_spec_def Let_def
    using m(2-6) d(1-3) d(5) [rule_format, OF _ t(1)] d(7,8) t(2,3) o(3) wasm(1-3) wm manifest ships p natives rns fields
    by - (rule exI [of _ version], rule exI [of _ commit], rule exI [of _ b], rule exI [of _ es], rule exI [of _ f], rule exI [of _ tb],
      rule exI [of _ mb], rule exI [of _ manifest], rule exI [of _ "tc_wasm tarball"], rule exI [of _ p], rule exI [of _ wm],
      rule exI [of _ runtimeManifest], simp)
qed

text \<open>
  Property C10. A release directory that the verification accepts is one release: the version, tag
  and commit agree and go to the operation record, the list of digests is canonical, and the record
  binds the npm tarball and the release manifest by digest. For every native and React Native
  target, the file of the directory and the entry that the npm tarball ships for it have one digest:
  for a native target the entry is the \<open>.node\<close> file in the directory of the target that the
  manifest in the package names for it, with this digest, which is listed for the path too; for
  React Native it is the entry at the target's own path, and the file embeds the identity of the
  target. The WebAssembly binary is the entry at the path that the release manifest names; the
  release manifest, the manifest in the package and the list all carry its digest.
\<close>

theorem accepted_release:
  "case validateReleaseBundle env releaseDir identityPath tag sourceCommit environment of
     Inl _ \<Rightarrow> True
   | Inr operation \<Rightarrow> release_spec env releaseDir tag sourceCommit operation"
  by (simp add: released_artifacts split: sum.split)

end
