(* ===== verification/Spec2Isabelle.thy ===== *)
theory Spec2Isabelle
  imports NativeAssembly Loaders RnManifest ReleaseIdentity LicenseGate SbomRoundTrip SpdxCanonical CAbiPrepared GithubRelease NpmSample RnEvidenceSet ReleaseBundle
begin

text \<open>
  A model of the JavaScript of \<open>symbol-nem-wallet-core\<close>: the wallet package that is published to
  npm (\<open>packages/wallet-core/src\<close>) and the scripts that build the evidence of a release, check it
  and publish it (\<open>scripts\<close>). Paths below are relative to \<open>src/\<close>.

  \<^bold>\<open>The program.\<close> An application calls the sixteen operations of the facade
  (\<open>facade-runtime.mjs\<close>). The facade checks and copies the arguments, calls a backend (the Rust core
  behind N-API, WebAssembly or React Native), converts its answer and clears the buffers that held
  secrets. A loader chooses the backend: it accepts an artifact only with the identity and the
  digest of the manifest in the package (\<open>node/\<close>, \<open>wasm/\<close>, \<open>react-native/\<close>, \<open>manifest.mjs\<close>,
  \<open>react-native-manifest.mjs\<close>). The scripts make these manifests from inspected binaries, collect
  the licenses of everything that is shipped, decide on them, pack the C ABI, and let a release
  through only when its version, tag, commit, artifacts, digest lists, SBOM, npm provenance and
  GitHub Release agree. The parts interact by files and by the digests that one part records and
  the next compares, so most theorems say what an accepted input is, that what one part writes the
  next accepts, or that a digest names the bytes that are shipped.

  \<^bold>\<open>How it is modelled.\<close>
  \<^item> \<open>JsData\<close>, \<open>JsonText\<close>, \<open>JsonInj\<close>: a value of parsed JSON is a \<open>js\<close>, objects are association
    lists in the order of \<open>Object.keys\<close>, an absent property is \<open>JUndef\<close>; \<open>===\<close>, \<open>JSON.stringify\<close>
    (injective on lists of strings), comparison sorts. What a function throws is the left side of a sum,
    \<open>Fail\<close> with a message or an error of the language; a guard \<open>a || b\<close> evaluates its operands from left
    to right (\<open>guard_any\<close>). \<open>Regex\<close>: regular expressions as data, matched by derivatives.
    \<open>Bytes\<close>: reads from a \<open>Buffer\<close>, doubles up to rounding, bit operations on 32-bit words.
    \<open>JsHeap\<close>: the values of the facade, with getters that throw, revoked proxies, and an explicit
    store of array buffers, because clearing secrets is about aliasing.
    \<open>Environment\<close>, \<open>ScriptLib\<close>: the file system, programs and services as arguments.
  \<^item> \<open>FacadeOutput\<close>, \<open>FacadeInput\<close>, \<open>FacadeOps\<close>, with the lemmas of \<open>FacadeSecrets\<close>:
    \<open>facade-runtime.mjs\<close>, all of it, in its order.
  \<^item> \<open>NativeManifest\<close> (\<open>manifest.mjs\<close>), \<open>NativeAssembly\<close> (\<open>scripts/native-manifest.mjs\<close>),
    \<open>Loaders\<close> (the loaders of the three platforms), \<open>TargetOrder\<close> (the locale that both manifest
    validators interpret).
  \<^item> \<open>RnTargets\<close>, \<open>ElfImage\<close>, \<open>MachO\<close>, \<open>RnPackage\<close>, \<open>RnManifest\<close>: \<open>react-native-manifest.mjs\<close>, the
    inspection of ELF objects and static archives, the XCFramework and the manifest.
    \<open>RnEvidence\<close>, \<open>RnEvidenceSet\<close>: \<open>scripts/react-native-evidence.mjs\<close>.
  \<^item> \<open>SemVer\<close>, \<open>ReleaseIdentity\<close>: \<open>scripts/release-identity.mjs\<close>.
  \<^item> \<open>CargoLock\<close>, \<open>CargoGraph\<close>, \<open>SbomComponents\<close>, \<open>SbomDocuments\<close>, \<open>SbomRoundTrip\<close>, \<open>SpdxCanonical\<close>:
    \<open>scripts/release-sbom.mjs\<close>. \<open>LicenseSyntax\<close>, \<open>LicensePolicy\<close>, \<open>LicenseGate\<close>: license
    expressions there and in \<open>scripts/release-license-policy.mjs\<close>. \<open>ThirdPartyEvidence\<close>:
    \<open>scripts/third-party-license-evidence.mjs\<close>.
  \<^item> \<open>Crc32\<close>, \<open>CAbiArchive\<close>, \<open>CAbiEvidence\<close>, \<open>CAbiPrepare\<close>, \<open>CAbiPrepared\<close>: \<open>scripts/c-abi-targets.mjs\<close> and
    the archives, the evidence and the preparation of a target of \<open>scripts/c-abi-release.mjs\<close>.
  \<^item> \<open>GithubRelease\<close> (\<open>scripts/github-release.mjs\<close>); \<open>NpmFetch\<close>, \<open>NpmProvenance\<close>, \<open>NpmEvidence\<close>, with the
    concrete run of \<open>NpmSample\<close> (\<open>scripts/npm-provenance.mjs\<close>, \<open>scripts/npm-repository.mjs\<close>).
  \<^item> \<open>ReleaseDigests\<close>, \<open>OperationIdentity\<close>, \<open>ReleaseBundle\<close>: \<open>scripts/release-operation.mjs\<close>, the gate of
    the publish job.

  A definition has the name of the function it models, or a prefix where two files have a function
  of that name (\<open>op_fail\<close>, \<open>cabi_fail\<close>); a part of a long function has a name of its own.

  \<^bold>\<open>What the lemmas show.\<close> For the facade: the secrets that were read are wiped on every path, up to a
  field that holds a revoked proxy, where the clearing throws; a copy made before a
  failure is wiped too, a buffer of the caller that the backend does not return as a secret is left alone, and every exception is a wallet
  error. For the validators: a declarative specification that accepts the same inputs
  (\<open>..._iff\<close>), stated without the checks of the code, for manifests, identity, digest lists, archives and the
  GitHub Release; an SPDX document is accepted only as a rearrangement of the canonical one. For the parsers of
  binaries: that an accepted file embeds its identity, and that the unbounded walk over a hash chain ends.
  For the license expressions: the recursive descent parser against a grammar. For the dependency
  closure: the worklist loop against reachability. For the pairs of a writer and a reader: round
  trips and refinements, so that the parts fit together. For the requests: that only the registry
  is asked, a bounded number of times, and that a record that appears in time arrives.

  \<^bold>\<open>Bounds and termination.\<close> Every loop is a function that terminates. Recursion that is not
  structural has a measure: the characters or tokens that remain (lock file, version symbols,
  expressions), the bytes that remain (archives, the chain of a GNU hash table, whose length is at
  most a quarter of the file), the packages not yet visited (dependency closure), the attempts or
  redirects that remain (requests). No function takes fuel, so no result depends on a bound of the model.

  \<^bold>\<open>Parameters.\<close> What is not code of the repository is an argument: the Rust backend, reading and
  listing files, \<open>JSON.parse\<close>, UTF-8 and Base64, SHA-1 and SHA-256, zlib, \<open>tar\<close>, Git, \<open>cargo metadata\<close>,
  \<open>readelf\<close>, \<open>fetch\<close>, URL parsing, collation and time. A hypothesis on one states what it documents
  (a digest is 64 hexadecimal digits, inflating what was deflated gives it back, GitHub states the digest of
  what it serves); a witness instantiates it.

  \<^bold>\<open>Limits.\<close> A character of a string is a byte; the round trip of archives is for ASCII names, which the writer keeps. Typed arrays have no properties of their own, a
  getter has no effect but its value, and a backend cannot change the objects it is passed. Writing a file
  succeeds. Messages are kept only up to what they interpolate, where that is a path or an identifier. The
  numbers of a version and of an attempt are below \<open>2^53\<close>.

  \<^bold>\<open>Not modelled.\<close> The command lines. Of \<open>release-operation.mjs\<close> the branch for a recovered
  release and the checks of the workflow texts, of \<open>c-abi-release.mjs\<close> the aggregation of the targets.
  The scripts \<open>release-manifest.mjs\<close>, \<open>release-record.mjs\<close>, \<open>release-recovery.mjs\<close>, \<open>release-publication.mjs\<close>,
  \<open>c-abi-sbom.mjs\<close> repeat the kind of check modelled here over more files; where a modelled
  function calls one of them it is a parameter. \<open>build-npm-package.mjs\<close> and \<open>build-react-native-release.mjs\<close>
  run compilers and move files. The Rust crates, the C++, Objective-C and Kotlin bindings, the example
  application, the tests and the workflows are other programs.
\<close>

end
